(* ===== verification/Prelude.thy ===== *)
theory Prelude
  imports
    Complex_Main
    "HOL-Library.Char_ord"
    "HOL-Library.List_Lexorder"
    "HOL-Library.Product_Lexorder"
begin

text \<open>
  Shared vocabulary of the development: the values a Python program works with that every
  component uses (strings, timestamps, JSON documents, errors as values), the few relational
  operations the repositories perform on their tables, and the simplification collections the
  component theories extend.

  Conventions.
  \<^item> A Python \<open>str\<close> is a \<open>string\<close>: its characters are the code points up to 255
    (Latin-1), so \<open>length\<close> is Python's \<open>len\<close>. Strings with code points above 255 are outside
    the model.
  \<^item> A \<open>UUID\<close> is its canonical text, as \<open>str(uuid)\<close> writes it; comparing two of them as
    strings is the order the database uses.
  \<^item> A \<open>Decimal\<close> is a finite rational; a \<open>float\<close> is the rational value of a finite double.
  \<^item> An instant is a number of microseconds, as \<open>datetime\<close> keeps it.
\<close>

section \<open>Collections of facts\<close>

named_theorems validity_defs \<open>definitions of the construction checks of data models\<close>
named_theorems step_defs \<open>definitions of the state-changing operations\<close>
named_theorems table_simps \<open>rewrite rules for table operations\<close>

section \<open>Type names\<close>

type_synonym uuid = string
type_synonym decimal = rat
type_synonym float64 = rat
type_synonym instant = int
type_synonym ('e, 'a) result = "'e + 'a"

definition SECOND :: int where "SECOND = 1000000"
definition DAY :: int where "DAY = 86400 * SECOND"

lemma SECOND_pos [simp]: "0 < SECOND" by (simp add: SECOND_def)
lemma DAY_pos [simp]: "0 < DAY" by (simp add: DAY_def SECOND_def)

section \<open>Errors as values\<close>

fun rbind :: "('e, 'a) result \<Rightarrow> ('a \<Rightarrow> ('e, 'b) result) \<Rightarrow> ('e, 'b) result" where
  "rbind (Inl e) f = Inl e"
| "rbind (Inr x) f = f x"

definition ensure :: "bool \<Rightarrow> 'e \<Rightarrow> ('e, 'a) result \<Rightarrow> ('e, 'a) result" where
  "ensure b e k = (if b then k else Inl e)"

definition is_ok :: "('e, 'a) result \<Rightarrow> bool" where
  "is_ok r = (case r of Inl _ \<Rightarrow> False | Inr _ \<Rightarrow> True)"

lemma is_ok_simps [simp]: "is_ok (Inl e) = False" "is_ok (Inr x) = True"
  by (simp_all add: is_ok_def)

lemma rbind_Inr_iff: "rbind m f = Inr y \<longleftrightarrow> (\<exists>x. m = Inr x \<and> f x = Inr y)"
  by (cases m) auto

lemma rbind_rbind: "rbind (rbind m f) h = rbind m (\<lambda>x. rbind (f x) h)"
  by (cases m) simp_all

lemma rbind_ensure: "rbind (ensure b e k) h = ensure b e (rbind k h)"
  by (simp add: ensure_def)

lemma ensure_Inr_iff [simp]: "ensure b e k = Inr y \<longleftrightarrow> b \<and> k = Inr y"
  by (simp add: ensure_def)

lemma ensure_True [simp]: "ensure True e k = k" and ensure_False [simp]: "ensure False e k = Inl e"
  by (simp_all add: ensure_def)

definition opt_ok :: "('a \<Rightarrow> bool) \<Rightarrow> 'a option \<Rightarrow> bool" where
  "opt_ok P x = (case x of None \<Rightarrow> True | Some v \<Rightarrow> P v)"

lemma opt_ok_simps [simp]: "opt_ok P None = True" "opt_ok P (Some v) = P v"
  by (simp_all add: opt_ok_def)

section \<open>Strings\<close>

definition is_space :: "char \<Rightarrow> bool" where
  "is_space c = (let n = of_char c :: nat in
     (9 \<le> n \<and> n \<le> 13) \<or> (28 \<le> n \<and> n \<le> 32) \<or> n = 133 \<or> n = 160)"

definition strip_with :: "(char \<Rightarrow> bool) \<Rightarrow> string \<Rightarrow> string" where
  "strip_with P s = rev (dropWhile P (rev (dropWhile P s)))"

definition strip :: "string \<Rightarrow> string" where
  "strip s = strip_with is_space s"

text \<open>The trimming of Pydantic's \<open>str_strip_whitespace\<close> drops Unicode white space only.\<close>

definition is_white_space :: "char \<Rightarrow> bool" where
  "is_white_space c = (let n = of_char c :: nat in
     (9 \<le> n \<and> n \<le> 13) \<or> n = 32 \<or> n = 133 \<or> n = 160)"

definition trim :: "string \<Rightarrow> string" where
  "trim s = strip_with is_white_space s"

definition lower_char :: "char \<Rightarrow> char" where
  "lower_char c = (let n = of_char c :: nat in
     if (65 \<le> n \<and> n \<le> 90) \<or> (192 \<le> n \<and> n \<le> 222 \<and> n \<noteq> 215) then char_of (n + 32) else c)"

definition lower :: "string \<Rightarrow> string" where
  "lower s = map lower_char s"

definition is_control :: "char \<Rightarrow> bool" where
  "is_control c = (let n = of_char c :: nat in n < 32 \<or> n = 127)"

definition is_digit :: "char \<Rightarrow> bool" where
  "is_digit c = (let n = of_char c :: nat in 48 \<le> n \<and> n \<le> 57)"

definition is_alnum_ascii :: "char \<Rightarrow> bool" where
  "is_alnum_ascii c = (let n = of_char c :: nat in
     (48 \<le> n \<and> n \<le> 57) \<or> (65 \<le> n \<and> n \<le> 90) \<or> (97 \<le> n \<and> n \<le> 122))"

fun show_nat :: "nat \<Rightarrow> string" where
  "show_nat n = (if n < 10 then [char_of (48 + n)]
                 else show_nat (n div 10) @ [char_of (48 + n mod 10)])"

declare show_nat.simps [simp del]

fun join :: "string \<Rightarrow> string list \<Rightarrow> string" where
  "join sep [] = ''''"
| "join sep [x] = x"
| "join sep (x # y # xs) = x @ sep @ join sep (y # xs)"

fun is_infix_of :: "string \<Rightarrow> string \<Rightarrow> bool" where
  "is_infix_of p [] = (p = [])"
| "is_infix_of p (c # cs) = (take (length p) (c # cs) = p \<or> is_infix_of p cs)"

lemma length_lower [simp]: "length (lower s) = length s"
  by (simp add: lower_def)

lemma lower_Nil_iff [simp]: "lower s = [] \<longleftrightarrow> s = []"
  by (simp add: lower_def)

lemma dropWhile_hd: "dropWhile P xs = y # ys \<Longrightarrow> \<not> P y"
  by (metis hd_dropWhile list.distinct(1) list.sel(1))

lemma dropWhile_id_iff: "dropWhile P xs = xs \<longleftrightarrow> xs = [] \<or> \<not> P (hd xs)"
proof (cases xs)
  case (Cons y ys)
  have "P y \<Longrightarrow> dropWhile P xs \<noteq> xs"
    using length_dropWhile_le [of P ys] Cons by (auto dest: arg_cong [of _ _ length])
  then show ?thesis using Cons by auto
qed simp

lemma rev_dropWhile_rev_hd:
  assumes "xs = [] \<or> \<not> P (hd xs)"
  shows "rev (dropWhile P (rev xs)) = [] \<or> \<not> P (hd (rev (dropWhile P (rev xs))))"
proof (cases "rev (dropWhile P (rev xs))")
  case (Cons y ys)
  have "rev xs = takeWhile P (rev xs) @ dropWhile P (rev xs)" by simp
  then have "xs = rev (dropWhile P (rev xs)) @ rev (takeWhile P (rev xs))"
    by (metis rev_append rev_rev_ident)
  then have "xs = y # (ys @ rev (takeWhile P (rev xs)))" using Cons by simp
  then have "hd xs = y" "xs \<noteq> []" by (metis list.sel(1)) (use \<open>xs = y # _\<close> in blast)
  with assms Cons show ?thesis by simp
qed simp

lemma strip_with_idem: "strip_with P (strip_with P s) = strip_with P s"
proof -
  let ?a = "dropWhile P s"
  have a: "?a = [] \<or> \<not> P (hd ?a)"
    by (metis hd_dropWhile)
  have b: "strip_with P s = [] \<or> \<not> P (hd (strip_with P s))"
    using rev_dropWhile_rev_hd [of ?a P] a unfolding strip_with_def by blast
  have "dropWhile P (strip_with P s) = strip_with P s"
    using b by (simp add: dropWhile_id_iff)
  moreover have "dropWhile P (rev (strip_with P s)) = rev (strip_with P s)"
    by (simp add: strip_with_def)
  ultimately show ?thesis by (metis strip_with_def rev_rev_ident)
qed

lemma strip_strip [simp]: "strip (strip s) = strip s"
  by (simp add: strip_def strip_with_idem)

lemma trim_trim [simp]: "trim (trim s) = trim s"
  by (simp add: trim_def strip_with_idem)

section \<open>Timestamps\<close>

text \<open>
  A \<open>datetime\<close> without a \<open>tzinfo\<close> is \<open>Naive\<close>; one whose \<open>tzinfo\<close> has no offset
  (\<open>utcoffset()\<close> is \<open>None\<close>) is \<open>Offsetless\<close> and behaves as a naive one in comparisons; an
  aware one is the instant it denotes. Comparing an aware with a naive value raises
  \<open>TypeError\<close>.
\<close>

datatype pydatetime = Naive int | Offsetless int | Aware instant

fun tzinfo_is_none :: "pydatetime \<Rightarrow> bool" where
  "tzinfo_is_none (Naive _) = True"
| "tzinfo_is_none _ = False"

fun utcoffset_is_none :: "pydatetime \<Rightarrow> bool" where
  "utcoffset_is_none (Aware _) = False"
| "utcoffset_is_none _ = True"

fun wall_micros :: "pydatetime \<Rightarrow> int" where
  "wall_micros (Naive t) = t"
| "wall_micros (Offsetless t) = t"
| "wall_micros (Aware t) = t"

definition dt_le :: "pydatetime \<Rightarrow> pydatetime \<Rightarrow> bool option" where
  "dt_le a b = (if utcoffset_is_none a = utcoffset_is_none b
                then Some (wall_micros a \<le> wall_micros b) else None)"

lemma dt_le_Aware [simp]: "dt_le (Aware a) (Aware b) = Some (a \<le> b)"
  by (simp add: dt_le_def)

section \<open>Rounding\<close>

text \<open>Rounding to the nearest integer, a tie to the even one; \<open>timedelta(seconds=x)\<close> rounds to
  microseconds this way.\<close>

definition round_half_even :: "rat \<Rightarrow> int" where
  "round_half_even x = (let f = \<lfloor>x\<rfloor>; r = x - of_int f in
     if r < 1 / 2 then f else if r > 1 / 2 then f + 1 else if even f then f else f + 1)"

definition timedelta_seconds :: "float64 \<Rightarrow> int" where
  "timedelta_seconds x = round_half_even (x * 1000000)"

lemma round_half_even_bounds:
  "of_int (round_half_even x) \<le> x + 1 / 2" "x - 1 / 2 \<le> of_int (round_half_even x)"
  unfolding round_half_even_def Let_def by (auto, linarith+)

lemma round_half_even_nonneg: "0 \<le> x \<Longrightarrow> 0 \<le> round_half_even x"
  by (simp add: round_half_even_def Let_def)

lemma round_half_even_nonpos: "x \<le> 0 \<Longrightarrow> round_half_even x \<le> 0"
proof -
  assume x: "x \<le> 0"
  show ?thesis
  proof (rule ccontr)
    assume "\<not> round_half_even x \<le> 0"
    then have "1 \<le> round_half_even x" by simp
    then have "(1 :: rat) \<le> of_int (round_half_even x)" by (metis of_int_1 of_int_le_iff)
    with round_half_even_bounds(1) [of x] x show False by simp
  qed
qed

section \<open>JSON documents\<close>

text \<open>
  An object keeps its pairs in insertion order, as a Python \<open>dict\<close> does; a key occurs once.
\<close>

datatype json =
    JNull
  | JBool bool
  | JInt int
  | JFloat float64
  | JStr string
  | JArr "json list"
  | JObj "(string \<times> json) list"

fun json_get :: "string \<Rightarrow> json \<Rightarrow> json option" where
  "json_get k (JObj kvs) = map_of kvs k"
| "json_get k _ = None"

section \<open>Tables\<close>

text \<open>
  A table is the list of its rows. \<open>update_where\<close> is \<open>UPDATE ... WHERE\<close>, \<open>first_by\<close> is
  \<open>SELECT ... ORDER BY ... LIMIT 1\<close> over the rows already filtered, and \<open>insert_unless\<close> is
  \<open>INSERT ... ON CONFLICT DO NOTHING\<close> with the key of the unique index.
\<close>

definition update_where :: "('r \<Rightarrow> bool) \<Rightarrow> ('r \<Rightarrow> 'r) \<Rightarrow> 'r list \<Rightarrow> 'r list" where
  "update_where p f rows = map (\<lambda>r. if p r then f r else r) rows"

definition first_by :: "('r \<Rightarrow> 'k::linorder) \<Rightarrow> 'r list \<Rightarrow> 'r option" where
  "first_by key rows = (case sort_key key rows of [] \<Rightarrow> None | r # _ \<Rightarrow> Some r)"

definition insert_unless :: "('r \<Rightarrow> 'k) \<Rightarrow> 'r \<Rightarrow> 'r list \<Rightarrow> 'r list" where
  "insert_unless key r rows = (if key r \<in> set (map key rows) then rows else rows @ [r])"

lemma update_where_Nil [simp]: "update_where p f [] = []"
  by (simp add: update_where_def)

lemma set_update_where [table_simps]:
  "set (update_where p f rows) = (\<lambda>r. if p r then f r else r) ` set rows"
  by (simp add: update_where_def)

lemma length_update_where [simp]: "length (update_where p f rows) = length rows"
  by (simp add: update_where_def)

lemma map_key_update_where:
  "(\<And>r. p r \<Longrightarrow> key (f r) = key r) \<Longrightarrow> map key (update_where p f rows) = map key rows"
  by (auto simp: update_where_def)

lemma image_key_update_where:
  "(\<And>r. p r \<Longrightarrow> key (f r) = key r) \<Longrightarrow> key ` set (update_where p f rows) = key ` set rows"
  using map_key_update_where [of p key f rows] by (metis image_set)

lemma update_where_all:
  assumes "\<And>r. r \<in> set rows \<Longrightarrow> P r" and "\<And>r. p r \<Longrightarrow> P r \<Longrightarrow> P (f r)"
    and "s \<in> set (update_where p f rows)"
  shows "P s"
  using assms by (auto simp: set_update_where)

lemma first_by_Some: "first_by key rows = Some r \<Longrightarrow> r \<in> set rows"
proof -
  assume "first_by key rows = Some r"
  then have "r \<in> set (sort_key key rows)"
    by (cases "sort_key key rows") (auto simp: first_by_def)
  then show ?thesis by simp
qed

lemma first_by_least:
  assumes "first_by key rows = Some r" and "s \<in> set rows"
  shows "key r \<le> key s"
proof -
  obtain rs where rs: "sort_key key rows = r # rs"
    using assms(1) by (cases "sort_key key rows") (auto simp: first_by_def)
  have "sorted (map key (sort_key key rows))" by simp
  moreover have "s \<in> set (r # rs)" using assms(2) rs by (metis set_sort)
  ultimately show ?thesis using rs by auto
qed

lemma first_by_None_iff: "first_by key rows = None \<longleftrightarrow> rows = []"
proof (cases "sort_key key rows")
  case Nil
  then have "length rows = 0" by (metis length_sort list.size(3))
  with Nil show ?thesis by (simp add: first_by_def)
next
  case (Cons a as)
  then have "rows \<noteq> []" by auto
  with Cons show ?thesis by (simp add: first_by_def)
qed

lemma insert_unless_keys:
  "set (map key (insert_unless key r rows)) = insert (key r) (set (map key rows))"
  by (auto simp: insert_unless_def)

lemma insert_unless_distinct:
  "distinct (map key rows) \<Longrightarrow> distinct (map key (insert_unless key r rows))"
  by (auto simp: insert_unless_def)

lemma insert_unless_idem:
  "key r = key s \<Longrightarrow> insert_unless key s (insert_unless key r rows) = insert_unless key r rows"
  by (auto simp: insert_unless_def)

lemma find_Some_iff2: "find P xs = Some x \<Longrightarrow> x \<in> set xs \<and> P x"
  by (auto simp: find_Some_iff)

lemma find_append: "find P (xs @ ys) = (case find P xs of None \<Rightarrow> find P ys | Some x \<Rightarrow> Some x)"
  by (induction xs) auto

lemma sort_key_map: "sort_key f (map g xs) = map g (sort_key (\<lambda>x. f (g x)) xs)"
proof -
  have "insort_key f (g x) (map g ys) = map g (insort_key (\<lambda>x. f (g x)) x ys)" for x ys
    by (induction ys) simp_all
  then show ?thesis by (induction xs) simp_all
qed

lemma sort_key_agree: "(\<And>x. x \<in> set xs \<Longrightarrow> f x = h x) \<Longrightarrow> sort_key f xs = sort_key h xs"
proof (induction xs)
  case (Cons x xs)
  have "insort_key f x ys = insort_key h x ys" if "set ys \<subseteq> set xs" for ys
    using that Cons.prems by (induction ys) auto
  with Cons show ?case by simp
qed simp

end
