(* ===== verification/Domain_Models.thy ===== *)
theory Domain_Models
  imports Prelude
begin

text \<open>
  The data models of \<open>domain/models.py\<close>: the supported symbols and actions, market
  snapshots, research bundles, the model's analysis, the evidence and risk verdicts and the
  artifact that carries them. Each Pydantic model is a record of its fields; the predicate
  \<open>valid_...\<close> is the check its construction performs (the \<open>Field\<close> bounds and the model
  validators), and \<open>construct\<close> is the constructor: it returns the record or a validation
  error.
\<close>

section \<open>Symbols and actions\<close>

datatype symbol = BTC_USDT_SWAP | ETH_USDT_SWAP | SOL_USDT_SWAP

datatype action =
    Open_long | Open_short | Hold_long | Hold_short | Close_long | Close_short
  | Flip_long_to_short | Flip_short_to_long | Trigger_long | Trigger_short | No_trade

fun action_str :: "action \<Rightarrow> string" where
  "action_str Open_long = ''open_long''"
| "action_str Open_short = ''open_short''"
| "action_str Hold_long = ''hold_long''"
| "action_str Hold_short = ''hold_short''"
| "action_str Close_long = ''close_long''"
| "action_str Close_short = ''close_short''"
| "action_str Flip_long_to_short = ''flip_long_to_short''"
| "action_str Flip_short_to_long = ''flip_short_to_long''"
| "action_str Trigger_long = ''trigger_long''"
| "action_str Trigger_short = ''trigger_short''"
| "action_str No_trade = ''no_trade''"

definition OPENING_ACTIONS :: "action list" where
  "OPENING_ACTIONS = [Open_long, Open_short, Trigger_long, Trigger_short,
     Flip_long_to_short, Flip_short_to_long]"

definition ALL_ACTIONS :: "action list" where
  "ALL_ACTIONS = [Open_long, Open_short, Hold_long, Hold_short, Close_long, Close_short,
     Flip_long_to_short, Flip_short_to_long, Trigger_long, Trigger_short, No_trade]"

definition SUPPORTED_SYMBOLS :: "symbol list" where
  "SUPPORTED_SYMBOLS = [BTC_USDT_SWAP, ETH_USDT_SWAP, SOL_USDT_SWAP]"

text \<open>Validating a text as an \<open>Action\<close>: the literal with that text, or a validation error.\<close>

definition parse_action :: "string \<Rightarrow> action option" where
  "parse_action s = find (\<lambda>a. action_str a = s) ALL_ACTIONS"

fun symbol_str :: "symbol \<Rightarrow> string" where
  "symbol_str BTC_USDT_SWAP = ''BTC-USDT-SWAP''"
| "symbol_str ETH_USDT_SWAP = ''ETH-USDT-SWAP''"
| "symbol_str SOL_USDT_SWAP = ''SOL-USDT-SWAP''"

definition parse_symbol :: "string \<Rightarrow> symbol option" where
  "parse_symbol s = find (\<lambda>x. symbol_str x = s) SUPPORTED_SYMBOLS"

definition is_opening :: "action \<Rightarrow> bool" where
  "is_opening a = (a \<in> set OPENING_ACTIONS)"

lemma is_opening_simps [simp]:
  "is_opening Open_long" "is_opening Open_short" "is_opening Trigger_long"
  "is_opening Trigger_short" "is_opening Flip_long_to_short" "is_opening Flip_short_to_long"
  "\<not> is_opening Hold_long" "\<not> is_opening Hold_short" "\<not> is_opening Close_long"
  "\<not> is_opening Close_short" "\<not> is_opening No_trade"
  by (simp_all add: is_opening_def OPENING_ACTIONS_def)

lemma action_in_ALL_ACTIONS [simp]: "a \<in> set ALL_ACTIONS"
  by (cases a) (simp_all add: ALL_ACTIONS_def)

lemma symbol_in_SUPPORTED [simp]: "s \<in> set SUPPORTED_SYMBOLS"
  by (cases s) (simp_all add: SUPPORTED_SYMBOLS_def)

lemma parse_action_str [simp]: "parse_action (action_str a) = Some a"
  by (cases a) (simp_all add: parse_action_def ALL_ACTIONS_def)

lemma parse_symbol_str [simp]: "parse_symbol (symbol_str x) = Some x"
  by (cases x) (simp_all add: parse_symbol_def SUPPORTED_SYMBOLS_def)

lemma parse_action_Some: "parse_action s = Some a \<Longrightarrow> action_str a = s"
  by (auto simp: parse_action_def dest: find_Some_iff2)

section \<open>Validation errors\<close>

datatype validation_error = ValidationError

type_synonym 'a validated = "(validation_error, 'a) result"

definition construct :: "('a \<Rightarrow> bool) \<Rightarrow> 'a \<Rightarrow> 'a validated" where
  "construct valid x = (if valid x then Inr x else Inl ValidationError)"

lemma construct_Inr_iff [simp]: "construct valid x = Inr y \<longleftrightarrow> valid x \<and> y = x"
  by (auto simp: construct_def)

text \<open>
  A value accepted as a model instance or as a mapping of its fields: an instance is taken as
  it is, a mapping is validated.
\<close>

datatype 'a model_input = Instance 'a | Fields 'a

fun validate_input :: "('a \<Rightarrow> bool) \<Rightarrow> 'a model_input \<Rightarrow> 'a validated" where
  "validate_input valid (Instance x) = Inr x"
| "validate_input valid (Fields x) = construct valid x"

section \<open>Market data\<close>

record price_level =
  pl_price :: decimal
  pl_size :: decimal

text \<open>A price level arrives as a two element sequence or as an object.\<close>

datatype raw_level = LevelSeq "decimal list" | LevelObj price_level

fun parse_exchange_level :: "raw_level \<Rightarrow> raw_level" where
  "parse_exchange_level (LevelSeq [p, s]) = LevelObj \<lparr>pl_price = p, pl_size = s\<rparr>"
| "parse_exchange_level v = v"

definition valid_price_level :: "price_level \<Rightarrow> bool" where [validity_defs]:
  "valid_price_level p \<longleftrightarrow> 0 < pl_price p \<and> 0 < pl_size p"

fun validate_level :: "raw_level \<Rightarrow> price_level validated" where
  "validate_level v = (case parse_exchange_level v of
     LevelObj p \<Rightarrow> construct valid_price_level p | LevelSeq _ \<Rightarrow> Inl ValidationError)"

record ticker =
  tk_last :: decimal
  tk_bid :: "decimal option"
  tk_ask :: "decimal option"
  tk_volume_24h :: "decimal option"

definition valid_spread :: "ticker \<Rightarrow> bool" where [validity_defs]:
  "valid_spread t = (case (tk_bid t, tk_ask t) of
     (Some b, Some a) \<Rightarrow> \<not> b > a | _ \<Rightarrow> True)"

definition valid_ticker :: "ticker \<Rightarrow> bool" where [validity_defs]:
  "valid_ticker t \<longleftrightarrow> 0 < tk_last t \<and> opt_ok (\<lambda>x. 0 < x) (tk_bid t)
     \<and> opt_ok (\<lambda>x. 0 < x) (tk_ask t) \<and> opt_ok (\<lambda>x. 0 \<le> x) (tk_volume_24h t)
     \<and> valid_spread t"

record order_book =
  ob_bids :: "price_level list"
  ob_asks :: "price_level list"

definition valid_order_book :: "order_book \<Rightarrow> bool" where [validity_defs]:
  "valid_order_book b \<longleftrightarrow> list_all valid_price_level (ob_bids b)
     \<and> list_all valid_price_level (ob_asks b)"

record candle =
  cd_timestamp :: pydatetime
  cd_open :: decimal
  cd_high :: decimal
  cd_low :: decimal
  cd_close :: decimal
  cd_volume :: decimal

definition valid_range :: "candle \<Rightarrow> bool" where [validity_defs]:
  "valid_range c \<longleftrightarrow>
     \<not> (cd_high c < max (cd_open c) (cd_close c) \<or> cd_low c > min (cd_open c) (cd_close c))
     \<and> \<not> cd_low c > cd_high c"

definition valid_candle :: "candle \<Rightarrow> bool" where [validity_defs]:
  "valid_candle c \<longleftrightarrow> 0 < cd_open c \<and> 0 < cd_high c \<and> 0 < cd_low c \<and> 0 < cd_close c
     \<and> 0 \<le> cd_volume c \<and> valid_range c"

datatype source_level = Exchange_native | Web_search_verified | Controlled_dependency

fun source_level_str :: "source_level \<Rightarrow> string" where
  "source_level_str Exchange_native = ''exchange_native''"
| "source_level_str Web_search_verified = ''web_search_verified''"
| "source_level_str Controlled_dependency = ''controlled_dependency''"

definition parse_source_level :: "string \<Rightarrow> source_level option" where
  "parse_source_level s = find (\<lambda>x. source_level_str x = s)
     [Exchange_native, Web_search_verified, Controlled_dependency]"

record market_snapshot =
  ms_symbol :: symbol
  ms_fetched_at :: pydatetime
  ms_source_level :: source_level
  ms_ticker :: "ticker option"
  ms_mark_price :: "decimal option"
  ms_index_price :: "decimal option"
  ms_funding_rate :: "decimal option"
  ms_open_interest :: "decimal option"
  ms_order_book :: "order_book option"
  ms_candles :: "candle list"

definition valid_market_snapshot :: "market_snapshot \<Rightarrow> bool" where [validity_defs]:
  "valid_market_snapshot m \<longleftrightarrow> opt_ok valid_ticker (ms_ticker m)
     \<and> opt_ok (\<lambda>x. 0 < x) (ms_mark_price m) \<and> opt_ok (\<lambda>x. 0 < x) (ms_index_price m)
     \<and> opt_ok (\<lambda>x. 0 \<le> x) (ms_open_interest m) \<and> opt_ok valid_order_book (ms_order_book m)
     \<and> list_all valid_candle (ms_candles m)"

section \<open>Research\<close>

record research_finding =
  rf_title :: string
  rf_summary :: string
  rf_source_url :: string
  rf_fetched_at :: pydatetime
  rf_published_at :: "pydatetime option"

definition is_http_url :: "string \<Rightarrow> bool" where
  "is_http_url s \<longleftrightarrow> take 7 s = ''http://'' \<or> take 8 s = ''https://''"

definition valid_research_finding :: "research_finding \<Rightarrow> bool" where [validity_defs]:
  "valid_research_finding f \<longleftrightarrow> rf_title f \<noteq> [] \<and> rf_summary f \<noteq> [] \<and> is_http_url (rf_source_url f)"

record research_bundle =
  rb_vix :: "decimal option"
  rb_real_yield_10y :: "decimal option"
  rb_dxy :: "decimal option"
  rb_macro_event_scan :: "research_finding list option"
  rb_findings :: "research_finding list"
  rb_source_conflicts :: "string list"
  rb_evidence_gaps :: "string list"

definition valid_research_bundle :: "research_bundle \<Rightarrow> bool" where [validity_defs]:
  "valid_research_bundle r \<longleftrightarrow> opt_ok (\<lambda>x. 0 \<le> x) (rb_vix r) \<and> opt_ok (\<lambda>x. 0 < x) (rb_dxy r)
     \<and> opt_ok (list_all valid_research_finding) (rb_macro_event_scan r)
     \<and> list_all valid_research_finding (rb_findings r)"

section \<open>Analysis and verdicts\<close>

datatype regime = Risk_on | Risk_off | Event_compression | Surprise_repricing

datatype position_size = Light | Standard_size | Heavy | No_size

record market_analysis =
  ma_regime :: regime
  ma_factor_scores :: "(string \<times> int) list"
  ma_total_score :: int
  ma_main_action :: action
  ma_instrument :: symbol
  ma_horizon :: string
  ma_reference_price :: decimal
  ma_entry_trigger :: "decimal option"
  ma_stop_price :: "decimal option"
  ma_target_1 :: "decimal option"
  ma_target_2 :: "decimal option"
  ma_probability :: float64
  ma_position_size_class :: position_size
  ma_max_leverage :: int
  ma_risk_pct :: decimal
  ma_root_cause_chain :: "string list"
  ma_why_not_opposite :: string
  ma_invalidation :: string
  ma_unavailable_data :: "string list"
  ma_manual_execution_required :: bool
  ma_expires_in_seconds :: int

definition valid_root_causes :: "string list \<Rightarrow> bool" where [validity_defs]:
  "valid_root_causes vs \<longleftrightarrow> \<not> list_ex (\<lambda>v. strip v = []) vs"

definition valid_factor_score :: "int \<Rightarrow> bool" where [validity_defs]:
  "valid_factor_score s \<longleftrightarrow> -2 \<le> s \<and> s \<le> 2"

definition valid_market_analysis :: "market_analysis \<Rightarrow> bool" where [validity_defs]:
  "valid_market_analysis a \<longleftrightarrow>
     list_all (\<lambda>(k, s). valid_factor_score s) (ma_factor_scores a)
     \<and> ma_horizon a \<noteq> [] \<and> 0 < ma_reference_price a
     \<and> opt_ok (\<lambda>x. 0 < x) (ma_entry_trigger a) \<and> opt_ok (\<lambda>x. 0 < x) (ma_stop_price a)
     \<and> opt_ok (\<lambda>x. 0 < x) (ma_target_1 a) \<and> opt_ok (\<lambda>x. 0 < x) (ma_target_2 a)
     \<and> 0 \<le> ma_probability a \<and> ma_probability a \<le> 1
     \<and> 1 \<le> ma_max_leverage a \<and> 0 \<le> ma_risk_pct a \<and> ma_risk_pct a \<le> 1
     \<and> ma_root_cause_chain a \<noteq> [] \<and> valid_root_causes (ma_root_cause_chain a)
     \<and> ma_why_not_opposite a \<noteq> [] \<and> 0 < ma_expires_in_seconds a"

record evidence_verdict =
  ev_sufficient :: bool
  ev_confidence_cap :: float64
  ev_missing_required :: "string list"
  ev_missing_optional :: "string list"
  ev_warnings :: "string list"

definition evidence_consistent :: "evidence_verdict \<Rightarrow> bool" where [validity_defs]:
  "evidence_consistent v \<longleftrightarrow>
     \<not> (ev_sufficient v \<and> ev_missing_required v \<noteq> [])
     \<and> \<not> (\<not> ev_sufficient v \<and> ev_missing_required v = [])
     \<and> \<not> (\<not> ev_sufficient v \<and> ev_confidence_cap v \<noteq> 0)"

definition valid_evidence_verdict :: "evidence_verdict \<Rightarrow> bool" where [validity_defs]:
  "valid_evidence_verdict v \<longleftrightarrow> 0 \<le> ev_confidence_cap v \<and> ev_confidence_cap v \<le> 1
     \<and> evidence_consistent v"

record risk_budget =
  bg_allowed_symbols :: "symbol list"
  bg_max_leverage :: int
  bg_max_risk_pct :: decimal
  bg_auto_order_enabled :: bool

definition default_risk_budget :: risk_budget where
  "default_risk_budget = \<lparr>bg_allowed_symbols = SUPPORTED_SYMBOLS, bg_max_leverage = 2,
     bg_max_risk_pct = 1/4, bg_auto_order_enabled = False\<rparr>"

definition valid_risk_budget :: "risk_budget \<Rightarrow> bool" where [validity_defs]:
  "valid_risk_budget b \<longleftrightarrow> bg_allowed_symbols b \<noteq> [] \<and> 1 \<le> bg_max_leverage b
     \<and> 0 < bg_max_risk_pct b \<and> bg_max_risk_pct b \<le> 1"

text \<open>
  The blocked reasons of a risk verdict are texts; each constructor stands for one message of
  the policy and carries the values interpolated into it. \<open>Human_rejected\<close> is the message the
  graph adds when a reviewer rejects an artifact.
\<close>

datatype block_reason =
    Evidence_insufficient "string list"
  | Manual_required
  | Entry_trigger_required
  | Stop_price_required
  | Invalidation_required
  | Auto_order_disabled
  | Symbol_not_allowed symbol
  | Max_leverage_exceeded int int
  | Max_risk_pct_exceeded decimal decimal
  | Confidence_cap_exceeded float64 float64
  | Human_rejected

record risk_verdict =
  rv_allowed :: bool
  rv_blocked_reasons :: "block_reason list"
  rv_warnings :: "string list"
  rv_confidence_cap :: float64

definition risk_consistent :: "risk_verdict \<Rightarrow> bool" where [validity_defs]:
  "risk_consistent v \<longleftrightarrow>
     \<not> (rv_allowed v \<and> rv_blocked_reasons v \<noteq> []) \<and> \<not> (\<not> rv_allowed v \<and> rv_blocked_reasons v = [])"

definition valid_risk_verdict :: "risk_verdict \<Rightarrow> bool" where [validity_defs]:
  "valid_risk_verdict v \<longleftrightarrow> 0 \<le> rv_confidence_cap v \<and> rv_confidence_cap v \<le> 1 \<and> risk_consistent v"

section \<open>Artifacts\<close>

record model_execution_audit =
  au_prompt_version :: string
  au_call_count :: int
  au_input_tokens :: "int option"
  au_output_tokens :: "int option"
  au_total_tokens :: "int option"
  au_latency_ms :: float64
  au_observation_ids :: "string list"

definition len_between :: "nat \<Rightarrow> nat \<Rightarrow> 'a list \<Rightarrow> bool" where [validity_defs]:
  "len_between lo hi xs \<longleftrightarrow> lo \<le> length xs \<and> length xs \<le> hi"

definition valid_model_execution_audit :: "model_execution_audit \<Rightarrow> bool" where [validity_defs]:
  "valid_model_execution_audit a \<longleftrightarrow> len_between 1 128 (au_prompt_version a)
     \<and> 0 \<le> au_call_count a \<and> opt_ok (\<lambda>x. 0 \<le> x) (au_input_tokens a)
     \<and> opt_ok (\<lambda>x. 0 \<le> x) (au_output_tokens a) \<and> opt_ok (\<lambda>x. 0 \<le> x) (au_total_tokens a)
     \<and> 0 \<le> au_latency_ms a \<and> length (au_observation_ids a) \<le> 32"

record artifact_provenance =
  pv_market_provider :: string
  pv_search_provider :: string
  pv_search_parser_version :: string
  pv_model_provider :: string
  pv_model_name :: string
  pv_model_endpoint_host :: "string option"
  pv_model_audits :: "model_execution_audit list"

definition valid_artifact_provenance :: "artifact_provenance \<Rightarrow> bool" where [validity_defs]:
  "valid_artifact_provenance p \<longleftrightarrow> len_between 1 64 (pv_market_provider p)
     \<and> len_between 1 128 (pv_search_provider p) \<and> len_between 1 128 (pv_search_parser_version p)
     \<and> len_between 1 64 (pv_model_provider p) \<and> len_between 1 128 (pv_model_name p)
     \<and> opt_ok (\<lambda>h. length h \<le> 255) (pv_model_endpoint_host p)
     \<and> list_all valid_model_execution_audit (pv_model_audits p)"

datatype artifact_status = Draft | Streaming | Committed | Failed_artifact

record artifact =
  ar_schema_version :: string
  ar_content_version :: int
  ar_status :: artifact_status
  ar_analysis :: market_analysis
  ar_evidence_verdict :: evidence_verdict
  ar_risk_verdict :: risk_verdict
  ar_source_references :: "string list"
  ar_provenance :: "artifact_provenance option"

definition valid_artifact :: "artifact \<Rightarrow> bool" where [validity_defs]:
  "valid_artifact a \<longleftrightarrow> 1 \<le> ar_content_version a \<and> valid_market_analysis (ar_analysis a)
     \<and> valid_evidence_verdict (ar_evidence_verdict a) \<and> valid_risk_verdict (ar_risk_verdict a)
     \<and> opt_ok valid_artifact_provenance (ar_provenance a)"

section \<open>Facts about the models\<close>

lemma valid_candle_range:
  "valid_candle c \<Longrightarrow> cd_low c \<le> cd_open c \<and> cd_open c \<le> cd_high c
     \<and> cd_low c \<le> cd_close c \<and> cd_close c \<le> cd_high c"
  by (auto simp: valid_candle_def valid_range_def)

lemma validate_level_Inr:
  "validate_level v = Inr p \<Longrightarrow> 0 < pl_price p \<and> 0 < pl_size p"
  by (auto simp: valid_price_level_def split: raw_level.splits)

lemma valid_default_risk_budget [simp]: "valid_risk_budget default_risk_budget"
  by (simp add: valid_risk_budget_def default_risk_budget_def SUPPORTED_SYMBOLS_def)

lemma insufficient_cap_zero:
  "valid_evidence_verdict v \<Longrightarrow> \<not> ev_sufficient v \<Longrightarrow>
     ev_confidence_cap v = 0 \<and> ev_missing_required v \<noteq> []"
  by (auto simp: valid_evidence_verdict_def evidence_consistent_def)

end
