(* ===== verification/Samples.thy ===== *)
theory Samples
  imports Domain_Models
begin

text \<open>
  Concrete market data, research and an analysis at which the properties of the gates and of the
  graph are instantiated.
\<close>

definition sample_candle :: candle where
  "sample_candle = \<lparr>cd_timestamp = Aware 0, cd_open = 60000, cd_high = 60500, cd_low = 59800,
     cd_close = 60200, cd_volume = 12\<rparr>"

definition sample_book :: order_book where
  "sample_book = \<lparr>ob_bids = [\<lparr>pl_price = 60190, pl_size = 3\<rparr>], ob_asks = [\<lparr>pl_price = 60210, pl_size = 2\<rparr>]\<rparr>"

definition sample_snapshot :: market_snapshot where
  "sample_snapshot = \<lparr>ms_symbol = BTC_USDT_SWAP, ms_fetched_at = Aware 0,
     ms_source_level = Exchange_native,
     ms_ticker = Some \<lparr>tk_last = 60200, tk_bid = Some 60190, tk_ask = Some 60210, tk_volume_24h = None\<rparr>,
     ms_mark_price = Some 60201, ms_index_price = Some 60199, ms_funding_rate = Some (1 / 10000),
     ms_open_interest = None, ms_order_book = Some sample_book, ms_candles = [sample_candle]\<rparr>"

definition sample_research :: research_bundle where
  "sample_research = \<lparr>rb_vix = Some 18, rb_real_yield_10y = Some 2, rb_dxy = Some 104,
     rb_macro_event_scan = Some [], rb_findings = [], rb_source_conflicts = [], rb_evidence_gaps = []\<rparr>"

definition sample_analysis :: market_analysis where
  "sample_analysis = \<lparr>ma_regime = Risk_on, ma_factor_scores = [(''trend'', 1)], ma_total_score = 1,
     ma_main_action = Open_long, ma_instrument = BTC_USDT_SWAP, ma_horizon = ''4h'',
     ma_reference_price = 60200, ma_entry_trigger = Some 60300, ma_stop_price = Some 59500,
     ma_target_1 = Some 61000, ma_target_2 = None, ma_probability = 3 / 5,
     ma_position_size_class = Light, ma_max_leverage = 2, ma_risk_pct = 1 / 100,
     ma_root_cause_chain = [''cpi''], ma_why_not_opposite = ''trend'', ma_invalidation = ''below 59500'',
     ma_unavailable_data = [], ma_manual_execution_required = True, ma_expires_in_seconds = 3600\<rparr>"

definition sample_audit :: model_execution_audit where
  "sample_audit = \<lparr>au_prompt_version = ''v1'', au_call_count = 1, au_input_tokens = Some 10,
     au_output_tokens = Some 5, au_total_tokens = Some 15, au_latency_ms = 1, au_observation_ids = []\<rparr>"

lemma sample_snapshot_valid [simp]: "valid_market_snapshot sample_snapshot"
  by (simp add: validity_defs sample_snapshot_def sample_book_def sample_candle_def)

lemma sample_research_valid [simp]: "valid_research_bundle sample_research"
  by (simp add: validity_defs sample_research_def)

lemma sample_analysis_valid [simp]: "valid_market_analysis sample_analysis"
  by (simp add: validity_defs sample_analysis_def strip_def strip_with_def is_space_def)

end
