(* ===== verification/Evidence_Policy.thy ===== *)
theory Evidence_Policy
  imports Samples
begin

text \<open>
  The evidence gate of \<open>domain/evidence_policy.py\<close>: which market and macro fields an opening
  action needs, the confidence caps of incomplete or web-sourced evidence, and the stable list
  of unavailable data. Snapshots and research bundles arrive as model instances, as mappings
  that are validated first, or not at all.
\<close>

section \<open>Constants\<close>

definition REQUIRED_MARKET_FIELDS :: "string list" where
  "REQUIRED_MARKET_FIELDS = [''ticker'', ''mark_price'', ''index_price'', ''order_book'', ''candles'']"

definition REQUIRED_MACRO_FIELDS :: "string list" where
  "REQUIRED_MACRO_FIELDS = [''vix'', ''real_yield_10y'', ''dxy'', ''macro_event_scan'']"

definition OPTIONAL_MARKET_FIELDS :: "string list" where
  "OPTIONAL_MARKET_FIELDS = [''funding_rate'', ''open_interest'']"

definition DATA_AVAILABILITY_ORDER :: "string list" where
  "DATA_AVAILABILITY_ORDER = [''exchange_native_market_data''] @ REQUIRED_MARKET_FIELDS
     @ OPTIONAL_MARKET_FIELDS @ REQUIRED_MACRO_FIELDS @ [''verified_web_evidence'']"

text \<open>The double nearest to 0.70.\<close>

definition OPTIONAL_EVIDENCE_CAP :: float64 where
  "OPTIONAL_EVIDENCE_CAP = 3152519739159347 / 4503599627370496"

definition WEB_SEARCH_CONTEXT_CAP :: float64 where
  "WEB_SEARCH_CONTEXT_CAP = 1 / 2"

section \<open>Missing fields\<close>

definition missing_market_fields :: "market_snapshot option \<Rightarrow> string list" where
  "missing_market_fields snapshot = (case snapshot of
     None \<Rightarrow> REQUIRED_MARKET_FIELDS
   | Some s \<Rightarrow>
       (if ms_ticker s = None then [''ticker''] else [])
       @ (if ms_mark_price s = None then [''mark_price''] else [])
       @ (if ms_index_price s = None then [''index_price''] else [])
       @ (if (case ms_order_book s of None \<Rightarrow> True
              | Some b \<Rightarrow> ob_bids b = [] \<or> ob_asks b = []) then [''order_book''] else [])
       @ (if ms_candles s = [] then [''candles''] else []))"

definition macro_field_is_none :: "research_bundle \<Rightarrow> string \<Rightarrow> bool" where
  "macro_field_is_none r f =
     (if f = ''vix'' then rb_vix r = None
      else if f = ''real_yield_10y'' then rb_real_yield_10y r = None
      else if f = ''dxy'' then rb_dxy r = None
      else rb_macro_event_scan r = None)"

definition missing_macro_fields :: "research_bundle option \<Rightarrow> string list" where
  "missing_macro_fields research = (case research of
     None \<Rightarrow> REQUIRED_MACRO_FIELDS
   | Some r \<Rightarrow> filter (macro_field_is_none r) REQUIRED_MACRO_FIELDS)"

definition optional_field_is_none :: "market_snapshot \<Rightarrow> string \<Rightarrow> bool" where
  "optional_field_is_none s f =
     (if f = ''funding_rate'' then ms_funding_rate s = None else ms_open_interest s = None)"

definition missing_optional_fields :: "market_snapshot option \<Rightarrow> string list" where
  "missing_optional_fields snapshot = (case snapshot of
     None \<Rightarrow> []
   | Some s \<Rightarrow> filter (optional_field_is_none s) OPTIONAL_MARKET_FIELDS)"

section \<open>The gate\<close>

datatype action_input = ActionValue action | ActionText string

fun validate_action :: "action_input \<Rightarrow> action validated" where
  "validate_action (ActionValue a) = Inr a"
| "validate_action (ActionText s) =
     (case parse_action s of None \<Rightarrow> Inl ValidationError | Some a \<Rightarrow> Inr a)"

fun validate_optional :: "('a \<Rightarrow> bool) \<Rightarrow> 'a model_input option \<Rightarrow> 'a option validated" where
  "validate_optional valid None = Inr None"
| "validate_optional valid (Some i) = rbind (validate_input valid i) (\<lambda>x. Inr (Some x))"

definition validate_snapshot :: "market_snapshot model_input option \<Rightarrow> market_snapshot option validated" where
  "validate_snapshot v = validate_optional valid_market_snapshot v"

definition validate_research :: "research_bundle model_input option \<Rightarrow> research_bundle option validated" where
  "validate_research v = validate_optional valid_research_bundle v"

definition web_search_market :: "market_snapshot option \<Rightarrow> bool" where
  "web_search_market snapshot = (case snapshot of None \<Rightarrow> False
     | Some s \<Rightarrow> ms_source_level s = Web_search_verified)"

definition missing_required_fields ::
  "market_snapshot option \<Rightarrow> research_bundle option \<Rightarrow> action \<Rightarrow> string list" where
  "missing_required_fields snapshot research act =
     (if web_search_market snapshot \<and> act \<noteq> No_trade then [''exchange_native_market_data''] else [])
     @ (if is_opening act then missing_market_fields snapshot @ missing_macro_fields research else [])"

definition evidence_gate ::
  "market_snapshot option \<Rightarrow> research_bundle option \<Rightarrow> action \<Rightarrow> evidence_verdict validated" where
  "evidence_gate snapshot research act =
     (let missing_required = missing_required_fields snapshot research act;
          missing_optional = missing_optional_fields snapshot;
          sufficient = (missing_required = []);
          confidence_cap = (if \<not> sufficient then 0
            else min (if missing_optional \<noteq> [] then OPTIONAL_EVIDENCE_CAP else 1)
                     (if web_search_market snapshot then WEB_SEARCH_CONTEXT_CAP else 1));
          warnings = map (\<lambda>f. ''evidence.optional_missing:'' @ f) missing_optional
            @ (if web_search_market snapshot
               then [''evidence.market_source:web_search_verified''] else [])
      in construct valid_evidence_verdict
           \<lparr>ev_sufficient = sufficient, ev_confidence_cap = confidence_cap,
            ev_missing_required = missing_required, ev_missing_optional = missing_optional,
            ev_warnings = warnings\<rparr>)"

definition check_evidence_sufficiency ::
  "market_snapshot model_input option \<Rightarrow> research_bundle model_input option \<Rightarrow> action_input
     \<Rightarrow> evidence_verdict validated" where
  "check_evidence_sufficiency market research main_action =
     rbind (validate_action main_action) (\<lambda>act.
     rbind (validate_snapshot market) (\<lambda>snapshot.
     rbind (validate_research research) (\<lambda>bundle.
       evidence_gate snapshot bundle act)))"

definition unavailable_set ::
  "market_snapshot option \<Rightarrow> research_bundle option \<Rightarrow> int \<Rightarrow> string list" where
  "unavailable_set snapshot research verified_web_evidence_count =
     missing_market_fields snapshot @ missing_macro_fields research
     @ (case snapshot of None \<Rightarrow> OPTIONAL_MARKET_FIELDS
        | Some s \<Rightarrow> missing_optional_fields snapshot
            @ (if ms_source_level s = Web_search_verified
               then [''exchange_native_market_data''] else []))
     @ (if verified_web_evidence_count \<le> 0 then [''verified_web_evidence''] else [])"

definition derive_unavailable_data ::
  "market_snapshot model_input option \<Rightarrow> research_bundle model_input option \<Rightarrow> int
     \<Rightarrow> string list validated" where
  "derive_unavailable_data market research verified_web_evidence_count =
     rbind (validate_snapshot market) (\<lambda>snapshot.
     rbind (validate_research research) (\<lambda>bundle.
       Inr (filter (\<lambda>f. f \<in> set (unavailable_set snapshot bundle verified_web_evidence_count))
              DATA_AVAILABILITY_ORDER)))"

section \<open>Facts about the gate\<close>

lemma cap_bounds [simp]:
  "0 < OPTIONAL_EVIDENCE_CAP" "OPTIONAL_EVIDENCE_CAP < 1"
  "0 < WEB_SEARCH_CONTEXT_CAP" "WEB_SEARCH_CONTEXT_CAP < 1"
  "WEB_SEARCH_CONTEXT_CAP < OPTIONAL_EVIDENCE_CAP"
  by (simp_all add: OPTIONAL_EVIDENCE_CAP_def WEB_SEARCH_CONTEXT_CAP_def)

lemmas cap_bounds_le [simp] = cap_bounds [THEN less_imp_le]

text \<open>The gate never fails on validated data: its verdict passes the verdict model's checks.\<close>

lemma evidence_gate_total:
  "\<exists>v. evidence_gate snapshot research act = Inr v \<and> valid_evidence_verdict v
     \<and> ev_sufficient v = (missing_required_fields snapshot research act = [])
     \<and> ev_missing_required v = missing_required_fields snapshot research act
     \<and> ev_missing_optional v = missing_optional_fields snapshot"
  by (auto simp: evidence_gate_def Let_def construct_def valid_evidence_verdict_def
      evidence_consistent_def min_def)

lemma evidence_gate_Inr:
  assumes "evidence_gate snapshot research act = Inr v"
  shows "valid_evidence_verdict v"
    and "ev_sufficient v \<longleftrightarrow> missing_required_fields snapshot research act = []"
    and "ev_missing_required v = missing_required_fields snapshot research act"
    and "ev_confidence_cap v = (if ev_sufficient v
           then min (if missing_optional_fields snapshot \<noteq> [] then OPTIONAL_EVIDENCE_CAP else 1)
                    (if web_search_market snapshot then WEB_SEARCH_CONTEXT_CAP else 1)
           else 0)"
  using assms by (auto simp: evidence_gate_def Let_def construct_def split: if_splits)

lemma missing_market_fields_subset:
  "set (missing_market_fields snapshot) \<subseteq> set REQUIRED_MARKET_FIELDS"
  by (auto simp: missing_market_fields_def REQUIRED_MARKET_FIELDS_def split: option.splits if_splits)

lemma missing_macro_fields_subset:
  "set (missing_macro_fields research) \<subseteq> set REQUIRED_MACRO_FIELDS"
  by (auto simp: missing_macro_fields_def split: option.splits)

lemma missing_optional_fields_subset:
  "set (missing_optional_fields snapshot) \<subseteq> set OPTIONAL_MARKET_FIELDS"
  by (auto simp: missing_optional_fields_def split: option.splits)

lemma unavailable_set_subset:
  "set (unavailable_set snapshot research n) \<subseteq> set DATA_AVAILABILITY_ORDER"
proof -
  note subs = missing_market_fields_subset [of snapshot] missing_macro_fields_subset [of research]
    missing_optional_fields_subset [of snapshot]
  show ?thesis
    using subs unfolding unavailable_set_def DATA_AVAILABILITY_ORDER_def
    by (auto split: option.splits if_splits)
qed

lemma DATA_AVAILABILITY_ORDER_distinct: "distinct DATA_AVAILABILITY_ORDER"
  by (simp add: DATA_AVAILABILITY_ORDER_def REQUIRED_MARKET_FIELDS_def OPTIONAL_MARKET_FIELDS_def
      REQUIRED_MACRO_FIELDS_def)

definition complete_market :: "market_snapshot \<Rightarrow> bool" where
  "complete_market s \<longleftrightarrow> ms_ticker s \<noteq> None \<and> ms_mark_price s \<noteq> None \<and> ms_index_price s \<noteq> None
     \<and> (\<exists>b. ms_order_book s = Some b \<and> ob_bids b \<noteq> [] \<and> ob_asks b \<noteq> []) \<and> ms_candles s \<noteq> []"

definition complete_macro :: "research_bundle \<Rightarrow> bool" where
  "complete_macro r \<longleftrightarrow> rb_vix r \<noteq> None \<and> rb_real_yield_10y r \<noteq> None \<and> rb_dxy r \<noteq> None
     \<and> rb_macro_event_scan r \<noteq> None"

lemma missing_market_fields_Nil_iff:
  "missing_market_fields snapshot = [] \<longleftrightarrow> (\<exists>s. snapshot = Some s \<and> complete_market s)"
  by (cases snapshot)
    (auto simp: missing_market_fields_def REQUIRED_MARKET_FIELDS_def complete_market_def
      split: option.splits)

lemma missing_macro_fields_Nil_iff:
  "missing_macro_fields research = [] \<longleftrightarrow> (\<exists>r. research = Some r \<and> complete_macro r)"
  by (cases research)
    (auto simp: missing_macro_fields_def REQUIRED_MACRO_FIELDS_def macro_field_is_none_def
      complete_macro_def)

lemma validate_optional_Some:
  "validate_optional valid i = Inr (Some x) \<Longrightarrow> i = Some (Instance x) \<or> i = Some (Fields x) \<and> valid x"
  by (cases "(valid, i)" rule: validate_optional.cases; cases "the i")
    (auto simp: rbind_Inr_iff construct_def split: if_splits)

lemma check_evidence_Inr:
  "check_evidence_sufficiency market research main_action = Inr v \<Longrightarrow>
     \<exists>act snapshot bundle. validate_action main_action = Inr act
       \<and> validate_snapshot market = Inr snapshot \<and> validate_research research = Inr bundle
       \<and> evidence_gate snapshot bundle act = Inr v"
  by (auto simp: check_evidence_sufficiency_def rbind_Inr_iff)

section \<open>Properties\<close>

text \<open>
  The gate calls the evidence sufficient exactly when nothing the action needs is missing: an
  opening action needs the complete native market data and the complete macro data, any other
  action but \<open>no_trade\<close> needs a market that did not come from web search, and \<open>no_trade\<close> needs
  nothing. A missing snapshot or bundle counts as missing everything.
\<close>

theorem evidence_sufficient_iff:
  assumes "evidence_gate snapshot research act = Inr v"
  shows "ev_sufficient v \<longleftrightarrow>
     (if is_opening act
      then (\<exists>s r. snapshot = Some s \<and> complete_market s \<and> ms_source_level s \<noteq> Web_search_verified
              \<and> research = Some r \<and> complete_macro r)
      else act = No_trade \<or> \<not> web_search_market snapshot)"
  using assms
  by (auto simp: evidence_gate_Inr(2) missing_required_fields_def missing_market_fields_Nil_iff
      missing_macro_fields_Nil_iff web_search_market_def split: if_splits option.splits)

lemma sample_gate:
  "evidence_gate (Some sample_snapshot) (Some sample_research) Open_long = Inr
     \<lparr>ev_sufficient = True, ev_confidence_cap = OPTIONAL_EVIDENCE_CAP, ev_missing_required = [],
      ev_missing_optional = [''open_interest''],
      ev_warnings = [''evidence.optional_missing:open_interest'']\<rparr>"
  by (simp add: evidence_gate_def missing_required_fields_def web_search_market_def
      missing_market_fields_def missing_macro_fields_def missing_optional_fields_def
      REQUIRED_MACRO_FIELDS_def OPTIONAL_MARKET_FIELDS_def macro_field_is_none_def
      optional_field_is_none_def sample_snapshot_def sample_research_def sample_book_def
      construct_def valid_evidence_verdict_def evidence_consistent_def)

theorem evidence_sufficient_iff_witness:
  "\<exists>s r. Some sample_snapshot = Some s \<and> complete_market s \<and> ms_source_level s \<noteq> Web_search_verified
     \<and> Some sample_research = Some r \<and> complete_macro r"
  using evidence_sufficient_iff [OF sample_gate] by simp

text \<open>
  On every input the gate returns a verdict, and its confidence cap is one of five values: 0
  when the evidence is insufficient, and otherwise the smaller of 0.7 where an optional market
  field is missing and 0.5 where the market came from web search. So the cap is positive
  exactly when the evidence is sufficient.
\<close>

lemma evidence_confidence_cap:
  "\<exists>v. evidence_gate snapshot research act = Inr v \<and> valid_evidence_verdict v
     \<and> ev_confidence_cap v =
         (if \<not> ev_sufficient v then 0
          else if web_search_market snapshot then WEB_SEARCH_CONTEXT_CAP
          else if missing_optional_fields snapshot \<noteq> [] then OPTIONAL_EVIDENCE_CAP else 1)
     \<and> (0 < ev_confidence_cap v) = ev_sufficient v"
proof -
  obtain v where v: "evidence_gate snapshot research act = Inr v"
    using evidence_gate_total by blast
  then show ?thesis
    using evidence_gate_Inr [OF v]
    by (auto simp: min_def OPTIONAL_EVIDENCE_CAP_def WEB_SEARCH_CONTEXT_CAP_def)
qed

text \<open>
  Whatever the model claims to be unavailable, the code's own list is a function of the data:
  its entries keep the fixed order without repetition, and it holds exactly the fields the gate
  finds missing, the optional fields a snapshot lacks, the native market data when there is no
  exchange snapshot to take them from, and the web evidence when none was collected.
\<close>

lemma unavailable_data_of_validated:
  assumes "derive_unavailable_data market research n = Inr listed"
  shows "\<exists>snapshot rb. validate_snapshot market = Inr snapshot
     \<and> validate_research research = Inr rb
     \<and> listed = filter (\<lambda>f. f \<in> set listed) DATA_AVAILABILITY_ORDER \<and> distinct listed
     \<and> set listed = set (unavailable_set snapshot rb n)
     \<and> (''verified_web_evidence'' \<in> set listed \<longleftrightarrow> n \<le> 0)"
proof -
  from assms obtain snapshot rb where v: "validate_snapshot market = Inr snapshot"
    "validate_research research = Inr rb"
    and listed: "listed = filter (\<lambda>f. f \<in> set (unavailable_set snapshot rb n)) DATA_AVAILABILITY_ORDER"
    by (auto simp: derive_unavailable_data_def rbind_Inr_iff)
  have same: "set listed = set (unavailable_set snapshot rb n)"
    using unavailable_set_subset [of snapshot rb n] by (auto simp: listed)
  have "''verified_web_evidence'' \<in> set (unavailable_set snapshot rb n) \<longleftrightarrow> n \<le> 0"
    using missing_market_fields_subset [of snapshot] missing_macro_fields_subset [of rb]
      missing_optional_fields_subset [of snapshot]
    by (auto simp: unavailable_set_def REQUIRED_MARKET_FIELDS_def REQUIRED_MACRO_FIELDS_def
        OPTIONAL_MARKET_FIELDS_def split: option.splits if_splits)
  moreover have "listed = filter (\<lambda>f. f \<in> set listed) DATA_AVAILABILITY_ORDER"
    unfolding same by (simp add: listed)
  ultimately show ?thesis
    using v same by (auto simp: listed DATA_AVAILABILITY_ORDER_distinct)
qed

end
