(* ===== verification/Risk_Policy.thy ===== *)
theory Risk_Policy
  imports Evidence_Policy
begin

text \<open>
  The deterministic risk policy of \<open>domain/risk_policy.py\<close>: the blocked reasons of an analysis
  under an evidence verdict and a risk budget, in the order the policy appends them, and the
  verdict that is allowed exactly when there are none.
\<close>

definition validate_budget :: "risk_budget model_input option \<Rightarrow> risk_budget validated" where
  "validate_budget v = (case v of None \<Rightarrow> Inr default_risk_budget
     | Some i \<Rightarrow> validate_input valid_risk_budget i)"

definition opening_reasons :: "market_analysis \<Rightarrow> block_reason list" where
  "opening_reasons a =
     (if is_opening (ma_main_action a) then
        (if ma_entry_trigger a = None then [Entry_trigger_required] else [])
        @ (if ma_stop_price a = None then [Stop_price_required] else [])
        @ (if strip (ma_invalidation a) = [] then [Invalidation_required] else [])
      else [])"

definition budget_reasons :: "market_analysis \<Rightarrow> risk_budget \<Rightarrow> block_reason list" where
  "budget_reasons a b =
     (if bg_auto_order_enabled b then [Auto_order_disabled] else [])
     @ (if ma_instrument a \<notin> set (bg_allowed_symbols b)
        then [Symbol_not_allowed (ma_instrument a)] else [])
     @ (if ma_max_leverage a > bg_max_leverage b
        then [Max_leverage_exceeded (ma_max_leverage a) (bg_max_leverage b)] else [])
     @ (if ma_risk_pct a > bg_max_risk_pct b
        then [Max_risk_pct_exceeded (ma_risk_pct a) (bg_max_risk_pct b)] else [])"

definition blocked_reasons :: "market_analysis \<Rightarrow> evidence_verdict \<Rightarrow> risk_budget \<Rightarrow> block_reason list" where
  "blocked_reasons a ev b =
     (if \<not> ev_sufficient ev then [Evidence_insufficient (ev_missing_required ev)] else [])
     @ (if \<not> ma_manual_execution_required a then [Manual_required] else [])
     @ opening_reasons a
     @ budget_reasons a b
     @ (if ev_sufficient ev \<and> ma_probability a > ev_confidence_cap ev
        then [Confidence_cap_exceeded (ma_probability a) (ev_confidence_cap ev)] else [])"

definition apply_risk_policy ::
  "market_analysis model_input \<Rightarrow> evidence_verdict model_input \<Rightarrow> risk_budget model_input option
     \<Rightarrow> risk_verdict validated" where
  "apply_risk_policy analysis evidence budget =
     rbind (validate_input valid_market_analysis analysis) (\<lambda>a.
     rbind (validate_input valid_evidence_verdict evidence) (\<lambda>ev.
     rbind (validate_budget budget) (\<lambda>b.
       construct valid_risk_verdict
         \<lparr>rv_allowed = (blocked_reasons a ev b = []),
          rv_blocked_reasons = blocked_reasons a ev b,
          rv_warnings = ev_warnings ev,
          rv_confidence_cap = ev_confidence_cap ev\<rparr>)))"

text \<open>What an allowed analysis satisfies, clause by clause.\<close>

definition within_policy :: "market_analysis \<Rightarrow> evidence_verdict \<Rightarrow> risk_budget \<Rightarrow> bool" where
  "within_policy a ev b \<longleftrightarrow>
     ev_sufficient ev \<and> ma_manual_execution_required a \<and> \<not> bg_auto_order_enabled b
     \<and> ma_instrument a \<in> set (bg_allowed_symbols b)
     \<and> ma_max_leverage a \<le> bg_max_leverage b \<and> ma_risk_pct a \<le> bg_max_risk_pct b
     \<and> ma_probability a \<le> ev_confidence_cap ev
     \<and> (if is_opening (ma_main_action a)
        then ma_entry_trigger a \<noteq> None \<and> ma_stop_price a \<noteq> None \<and> strip (ma_invalidation a) \<noteq> []
        else True)"

lemma blocked_reasons_Nil_iff: "blocked_reasons a ev b = [] \<longleftrightarrow> within_policy a ev b"
  by (auto simp: blocked_reasons_def opening_reasons_def budget_reasons_def within_policy_def)

lemma apply_risk_policy_instances:
  "apply_risk_policy (Instance a) (Instance ev) (Some (Instance b)) =
     (if 0 \<le> ev_confidence_cap ev \<and> ev_confidence_cap ev \<le> 1
      then Inr \<lparr>rv_allowed = (blocked_reasons a ev b = []), rv_blocked_reasons = blocked_reasons a ev b,
             rv_warnings = ev_warnings ev, rv_confidence_cap = ev_confidence_cap ev\<rparr>
      else Inl ValidationError)"
  by (simp add: apply_risk_policy_def validate_budget_def construct_def valid_risk_verdict_def
      risk_consistent_def)

lemma apply_risk_policy_Inr:
  assumes "apply_risk_policy analysis evidence budget = Inr v"
  obtains a ev b where
    "validate_input valid_market_analysis analysis = Inr a"
    "validate_input valid_evidence_verdict evidence = Inr ev"
    "validate_budget budget = Inr b"
    "rv_allowed v = within_policy a ev b" "rv_blocked_reasons v = blocked_reasons a ev b"
    "rv_warnings v = ev_warnings ev" "rv_confidence_cap v = ev_confidence_cap ev"
    "valid_risk_verdict v"
  using assms by (auto simp: apply_risk_policy_def rbind_Inr_iff blocked_reasons_Nil_iff)

text \<open>
  The two gates composed as the graph composes them: the analysis' own action goes through the
  evidence gate, and its verdict into the risk policy.
\<close>

definition gate_analysis ::
  "market_snapshot option \<Rightarrow> research_bundle option \<Rightarrow> market_analysis \<Rightarrow> risk_budget
     \<Rightarrow> risk_verdict validated" where
  "gate_analysis snapshot research a b =
     rbind (evidence_gate snapshot research (ma_main_action a)) (\<lambda>ev.
       apply_risk_policy (Instance a) (Instance ev) (Some (Instance b)))"

lemma gate_analysis_total: "\<exists>v. gate_analysis snapshot research a b = Inr v"
proof -
  obtain ev where ev: "evidence_gate snapshot research (ma_main_action a) = Inr ev"
    and valid: "valid_evidence_verdict ev"
    using evidence_gate_total [of snapshot research "ma_main_action a"] by blast
  from valid have "0 \<le> ev_confidence_cap ev \<and> ev_confidence_cap ev \<le> 1"
    by (simp add: valid_evidence_verdict_def)
  with ev show ?thesis by (simp add: gate_analysis_def apply_risk_policy_instances)
qed

lemma gate_analysis_allowed:
  assumes "gate_analysis snapshot research a b = Inr v" and "rv_allowed v"
  obtains ev where "evidence_gate snapshot research (ma_main_action a) = Inr ev"
    and "within_policy a ev b"
  using assms
  by (auto simp: gate_analysis_def rbind_Inr_iff apply_risk_policy_instances blocked_reasons_Nil_iff
      split: if_splits)

section \<open>Properties\<close>

text \<open>
  C36. The policy allows an analysis exactly when it stays within the budget and the evidence:
  sufficient evidence, manual execution, no automatic orders, an allowed symbol, leverage and
  risk within the budget's limits, a probability within the evidence's confidence cap and, for an
  opening action, an entry, a stop and an invalidation that is not blank. Otherwise the verdict
  names at least one reason, and each verdict passes the verdict model's own check.
\<close>

theorem risk_allowed_iff_within_policy:
  assumes "apply_risk_policy (Instance a) (Instance ev) (Some (Instance b)) = Inr v"
  shows "rv_allowed v = within_policy a ev b \<and> rv_allowed v = (rv_blocked_reasons v = [])
     \<and> rv_confidence_cap v = ev_confidence_cap ev \<and> rv_warnings v = ev_warnings ev
     \<and> valid_risk_verdict v"
  using assms
  by (elim apply_risk_policy_Inr)
    (simp add: validate_budget_def valid_risk_verdict_def risk_consistent_def blocked_reasons_Nil_iff)

theorem risk_allowed_iff_within_policy_witness:
  "within_policy sample_analysis \<lparr>ev_sufficient = True, ev_confidence_cap = 7 / 10,
      ev_missing_required = [], ev_missing_optional = [], ev_warnings = []\<rparr> default_risk_budget"
  using risk_allowed_iff_within_policy [of sample_analysis
      "\<lparr>ev_sufficient = True, ev_confidence_cap = 7 / 10, ev_missing_required = [],
        ev_missing_optional = [], ev_warnings = []\<rparr>" default_risk_budget
      "\<lparr>rv_allowed = True, rv_blocked_reasons = [], rv_warnings = [], rv_confidence_cap = 7 / 10\<rparr>"]
  by (simp add: apply_risk_policy_instances blocked_reasons_def opening_reasons_def budget_reasons_def
      sample_analysis_def default_risk_budget_def SUPPORTED_SYMBOLS_def strip_def strip_with_def
      is_space_def)



end
