(* ===== verification/Decision_Request.thy ===== *)
theory Decision_Request
  imports Domain_Models
begin

text \<open>
  The product request envelope of \<open>domain/decision_request.py\<close> and its admission routing. The
  redaction applied to the query text (\<open>observability/redaction.py\<close>) is the parameter \<open>redact\<close>
  of the construction; routing does not read it.
\<close>

section \<open>Enumerations\<close>

datatype decision_entry_kind = Manual | Scheduled | Postmortem | Eval | Replay | System

datatype decision_intent =
    Market_analysis | Deep_research | Monitor_review | Postmortem_intent | Evaluation
  | Replay_intent | System_query | Unknown_intent

datatype decision_complexity =
    Simple_fast | Standard | Deep_research_complexity | Eval_replay | Blocked_clarify

datatype position_side = Flat | Long | Short

datatype risk_mode = Conservative | Balanced | Aggressive

section \<open>The request\<close>

record live_side_effect_policy =
  se_live_market_data :: bool
  se_live_web_research :: bool
  se_product_writes :: bool
  se_external_notifications :: bool
  se_trade_execution :: bool

definition default_side_effects :: live_side_effect_policy where
  "default_side_effects = \<lparr>se_live_market_data = False, se_live_web_research = False,
     se_product_writes = False, se_external_notifications = False, se_trade_execution = False\<rparr>"

definition valid_side_effects :: "live_side_effect_policy \<Rightarrow> bool" where [validity_defs]:
  "valid_side_effects p \<longleftrightarrow> \<not> se_external_notifications p \<and> \<not> se_trade_execution p"

record position_context =
  pc_side :: position_side
  pc_entry_price :: "decimal option"
  pc_size :: "decimal option"
  pc_leverage :: "decimal option"

definition valid_position_context :: "position_context \<Rightarrow> bool" where [validity_defs]:
  "valid_position_context p \<longleftrightarrow> opt_ok (\<lambda>x. 0 < x) (pc_entry_price p)
     \<and> opt_ok (\<lambda>x. 0 < x) (pc_size p) \<and> opt_ok (\<lambda>x. 1 \<le> x \<and> x \<le> 125) (pc_leverage p)"

record risk_context =
  rc_mode :: risk_mode
  rc_max_loss_quote :: "decimal option"
  rc_max_position_notional :: "decimal option"

definition default_risk_context :: risk_context where
  "default_risk_context = \<lparr>rc_mode = Balanced, rc_max_loss_quote = None,
     rc_max_position_notional = None\<rparr>"

definition valid_risk_context :: "risk_context \<Rightarrow> bool" where [validity_defs]:
  "valid_risk_context r \<longleftrightarrow> opt_ok (\<lambda>x. 0 < x) (rc_max_loss_quote r)
     \<and> opt_ok (\<lambda>x. 0 < x) (rc_max_position_notional r)"

record decision_request =
  dr_entry_kind :: decision_entry_kind
  dr_actor_id :: string
  dr_workspace_id :: string
  dr_session_id :: "string option"
  dr_intent :: decision_intent
  dr_intent_confidence :: float64
  dr_complexity :: decision_complexity
  dr_symbol :: "symbol option"
  dr_horizon :: "string option"
  dr_query_text :: string
  dr_requested_action :: "action option"
  dr_position :: "position_context option"
  dr_risk :: risk_context
  dr_side_effects :: live_side_effect_policy
  dr_source_reference_id :: "string option"

definition non_live_entry :: "decision_entry_kind \<Rightarrow> bool" where
  "non_live_entry k \<longleftrightarrow> k \<in> {Postmortem, Eval, Replay, System}"

definition live_providers_allowed :: "decision_request \<Rightarrow> bool" where [validity_defs]:
  "live_providers_allowed r \<longleftrightarrow> \<not> (non_live_entry (dr_entry_kind r)
     \<and> (se_live_market_data (dr_side_effects r) \<or> se_live_web_research (dr_side_effects r)))"

text \<open>Whitespace is stripped from every text field before its bounds are checked.\<close>

definition strip_fields :: "decision_request \<Rightarrow> decision_request" where
  "strip_fields r = r\<lparr>dr_actor_id := trim (dr_actor_id r),
     dr_workspace_id := trim (dr_workspace_id r),
     dr_session_id := map_option trim (dr_session_id r),
     dr_horizon := map_option trim (dr_horizon r),
     dr_query_text := trim (dr_query_text r),
     dr_source_reference_id := map_option trim (dr_source_reference_id r)\<rparr>"

definition valid_request_fields :: "decision_request \<Rightarrow> bool" where [validity_defs]:
  "valid_request_fields r \<longleftrightarrow> len_between 1 255 (dr_actor_id r)
     \<and> len_between 1 255 (dr_workspace_id r) \<and> opt_ok (len_between 1 255) (dr_session_id r)
     \<and> 0 \<le> dr_intent_confidence r \<and> dr_intent_confidence r \<le> 1
     \<and> opt_ok (len_between 1 32) (dr_horizon r) \<and> len_between 1 4000 (dr_query_text r)
     \<and> opt_ok valid_position_context (dr_position r) \<and> valid_risk_context (dr_risk r)
     \<and> valid_side_effects (dr_side_effects r)
     \<and> opt_ok (len_between 1 255) (dr_source_reference_id r)"

definition mk_decision_request ::
  "(string \<Rightarrow> string) \<Rightarrow> decision_request \<Rightarrow> decision_request validated" where
  "mk_decision_request redact raw =
     (let r = strip_fields raw in
      if \<not> valid_request_fields r then Inl ValidationError
      else let r' = r\<lparr>dr_query_text := redact (dr_query_text r)\<rparr> in
           construct live_providers_allowed r')"

section \<open>Routing\<close>

datatype decision_route_status = Admitted | Status_blocked_clarify | Unsupported_mode

datatype executable_task_type = Task_market_analysis | Task_deep_research

record decision_route =
  rt_status :: decision_route_status
  rt_complexity :: decision_complexity
  rt_task_type :: "executable_task_type option"
  rt_missing_slots :: "string list"
  rt_reason :: string

definition NON_LIVE_INTENTS :: "decision_intent list" where
  "NON_LIVE_INTENTS = [Postmortem_intent, Evaluation, Replay_intent, System_query]"

definition requests_opening :: "decision_request \<Rightarrow> bool" where
  "requests_opening r = (case dr_requested_action r of None \<Rightarrow> False | Some a \<Rightarrow> is_opening a)"

definition missing_position_slots :: "position_context option \<Rightarrow> string list" where
  "missing_position_slots p = (case p of
     None \<Rightarrow> [''position'', ''position.entry_price'', ''position.size'', ''position.leverage'']
   | Some c \<Rightarrow> (if pc_entry_price c = None then [''position.entry_price''] else [])
       @ (if pc_size c = None then [''position.size''] else [])
       @ (if pc_leverage c = None then [''position.leverage''] else []))"

definition missing_execution_slots :: "decision_request \<Rightarrow> string list" where
  "missing_execution_slots r =
     (let missing = (if dr_symbol r = None then [''symbol''] else [])
            @ (if dr_horizon r = None then [''horizon''] else [])
      in if \<not> requests_opening r then missing
         else missing @ missing_position_slots (dr_position r)
              @ (if rc_max_loss_quote (dr_risk r) = None then [''risk.max_loss_quote''] else []))"

definition market_complexity :: "decision_complexity \<Rightarrow> decision_complexity" where
  "market_complexity c =
     (if c \<in> {Deep_research_complexity, Eval_replay, Blocked_clarify} then Standard else c)"

definition route_decision_request :: "decision_request \<Rightarrow> decision_route" where
  "route_decision_request r =
     (if dr_intent r = Unknown_intent then
        \<lparr>rt_status = Status_blocked_clarify, rt_complexity = Blocked_clarify, rt_task_type = None,
         rt_missing_slots = [''intent''], rt_reason = ''intent requires clarification''\<rparr>
      else if dr_intent r \<in> set NON_LIVE_INTENTS then
        \<lparr>rt_status = Unsupported_mode, rt_complexity = Eval_replay, rt_task_type = None,
         rt_missing_slots = [], rt_reason = ''request is typed but has no live Graph executor''\<rparr>
      else if missing_execution_slots r \<noteq> [] then
        \<lparr>rt_status = Status_blocked_clarify, rt_complexity = Blocked_clarify, rt_task_type = None,
         rt_missing_slots = missing_execution_slots r,
         rt_reason = ''required request slots are missing''\<rparr>
      else
        \<lparr>rt_status = Admitted,
         rt_complexity = (if dr_intent r = Deep_research then Deep_research_complexity
                          else market_complexity (dr_complexity r)),
         rt_task_type = Some (if dr_intent r = Deep_research then Task_deep_research
                              else Task_market_analysis),
         rt_missing_slots = [],
         rt_reason = ''request admitted to existing Product execution''\<rparr>)"

section \<open>Facts\<close>

definition position_complete :: "position_context option \<Rightarrow> bool" where
  "position_complete p = (case p of None \<Rightarrow> False
     | Some c \<Rightarrow> pc_entry_price c \<noteq> None \<and> pc_size c \<noteq> None \<and> pc_leverage c \<noteq> None)"

lemma missing_position_slots_Nil_iff: "missing_position_slots p = [] \<longleftrightarrow> position_complete p"
  by (auto simp: missing_position_slots_def position_complete_def split: option.splits)

definition slots_complete :: "decision_request \<Rightarrow> bool" where
  "slots_complete r \<longleftrightarrow> dr_symbol r \<noteq> None \<and> dr_horizon r \<noteq> None
     \<and> (if requests_opening r then position_complete (dr_position r)
          \<and> rc_max_loss_quote (dr_risk r) \<noteq> None else True)"

lemma missing_execution_slots_Nil_iff: "missing_execution_slots r = [] \<longleftrightarrow> slots_complete r"
  by (auto simp: missing_execution_slots_def slots_complete_def Let_def missing_position_slots_Nil_iff)

lemma route_admitted_iff:
  "rt_status (route_decision_request r) = Admitted \<longleftrightarrow>
     dr_intent r \<in> {Market_analysis, Deep_research, Monitor_review} \<and> slots_complete r"
  by (cases "dr_intent r")
    (auto simp: route_decision_request_def NON_LIVE_INTENTS_def missing_execution_slots_Nil_iff)

lemma route_task_type:
  "rt_task_type (route_decision_request r) \<noteq> None \<longleftrightarrow>
     rt_status (route_decision_request r) = Admitted"
  by (auto simp: route_decision_request_def)

lemma mk_decision_request_Inr:
  assumes "mk_decision_request redact raw = Inr r"
  shows "valid_side_effects (dr_side_effects r)" and "live_providers_allowed r"
    and "dr_query_text r = redact (trim (dr_query_text raw))"
  using assms
  by (auto simp: mk_decision_request_def Let_def valid_request_fields_def strip_fields_def
      split: if_splits)

end
