(* ===== verification/Deep_Research_Model.thy ===== *)
theory Deep_Research_Model
  imports Samples
begin

text \<open>
  The deep research report of \<open>domain/deep_research.py\<close>: findings cite sources by index, the
  artifact carries the indexed source catalog and the search coverage, and is materialised from
  the collected evidence as a draft that can be committed once.
\<close>

section \<open>Constants and enumerations\<close>

definition MAX_RESEARCH_SOURCES :: nat where "MAX_RESEARCH_SOURCES = 8"
definition MAX_RESEARCH_QUERIES :: nat where "MAX_RESEARCH_QUERIES = 3"

datatype research_harness_mode = Deepagents | Langchain
datatype deep_artifact_status = Deep_draft | Deep_committed
datatype coverage_status = Complete | Partial
datatype search_provider =
    Builtin_web_search | Tavily | Ddgs_metasearch | Deep_research_search | Search
datatype search_error_kind =
    Timeout | Server_error | Rate_limited | Connection_error | Unverified_server_tool_call
  | Missing_provider_citation | Missing_verified_evidence | Invalid_provider_response
  | Provider_error

section \<open>Evidence and reports\<close>

record web_evidence =
  we_query :: string
  we_final_url :: string
  we_redirect_chain :: "string list"
  we_http_status :: "int option"
  we_fetched_at :: pydatetime
  we_published_at :: "pydatetime option"
  we_content_hash :: string
  we_parser_version :: string
  we_title :: string
  we_author :: "string option"
  we_source :: string
  we_excerpt :: string
  we_evidence_relation :: string

definition evidence_key :: "web_evidence \<Rightarrow> string \<times> string" where
  "evidence_key e = (we_final_url e, we_content_hash e)"

definition valid_source_index :: "int \<Rightarrow> bool" where [validity_defs]:
  "valid_source_index i \<longleftrightarrow> 1 \<le> i \<and> i \<le> int MAX_RESEARCH_SOURCES"

record cited_finding =
  cf_claim :: string
  cf_source_indexes :: "int list"

definition valid_cited_finding :: "cited_finding \<Rightarrow> bool" where [validity_defs]:
  "valid_cited_finding f \<longleftrightarrow> len_between 1 2000 (cf_claim f)
     \<and> len_between 1 8 (cf_source_indexes f) \<and> list_all valid_source_index (cf_source_indexes f)
     \<and> length (cf_source_indexes f) = length (remdups (cf_source_indexes f))"

record research_section =
  sc_title :: string
  sc_summary :: string
  sc_findings :: "cited_finding list"

definition valid_research_section :: "research_section \<Rightarrow> bool" where [validity_defs]:
  "valid_research_section s \<longleftrightarrow> len_between 1 200 (sc_title s) \<and> len_between 1 4000 (sc_summary s)
     \<and> len_between 1 12 (sc_findings s) \<and> list_all valid_cited_finding (sc_findings s)"

record deep_research_report =
  rp_executive_summary :: string
  rp_sections :: "research_section list"
  rp_risk_notes :: "string list"
  rp_evidence_gaps :: "string list"

definition valid_deep_research_report :: "deep_research_report \<Rightarrow> bool" where [validity_defs]:
  "valid_deep_research_report r \<longleftrightarrow> len_between 1 6000 (rp_executive_summary r)
     \<and> len_between 1 8 (rp_sections r) \<and> list_all valid_research_section (rp_sections r)
     \<and> length (rp_risk_notes r) \<le> 12 \<and> length (rp_evidence_gaps r) \<le> 12"

definition referenced_source_indexes :: "deep_research_report \<Rightarrow> int set" where
  "referenced_source_indexes r =
     set (concat (map (\<lambda>s. concat (map cf_source_indexes (sc_findings s))) (rp_sections r)))"

section \<open>Search coverage\<close>

record search_failure =
  sf_query_index :: int
  sf_provider :: search_provider
  sf_error_kind :: search_error_kind
  sf_retryable :: bool
  sf_attempt :: "int option"

definition valid_search_failure :: "search_failure \<Rightarrow> bool" where [validity_defs]:
  "valid_search_failure f \<longleftrightarrow> 1 \<le> sf_query_index f \<and> sf_query_index f \<le> int MAX_RESEARCH_QUERIES
     \<and> opt_ok (\<lambda>a. 1 \<le> a \<and> a \<le> 3) (sf_attempt f)"

record search_coverage =
  cv_status :: coverage_status
  cv_attempted_queries :: int
  cv_successful_queries :: int
  cv_failed_queries :: "search_failure list"

definition coherent_query_coverage :: "search_coverage \<Rightarrow> bool" where [validity_defs]:
  "coherent_query_coverage c \<longleftrightarrow>
     (let failed_indexes = map sf_query_index (cv_failed_queries c) in
      failed_indexes = sort (remdups failed_indexes)
      \<and> \<not> list_ex (\<lambda>i. i > cv_attempted_queries c) failed_indexes
      \<and> cv_successful_queries c + int (length failed_indexes) = cv_attempted_queries c
      \<and> cv_status c = (if failed_indexes = [] then Complete else Partial))"

definition valid_search_coverage :: "search_coverage \<Rightarrow> bool" where [validity_defs]:
  "valid_search_coverage c \<longleftrightarrow>
     1 \<le> cv_attempted_queries c \<and> cv_attempted_queries c \<le> int MAX_RESEARCH_QUERIES
     \<and> 1 \<le> cv_successful_queries c \<and> cv_successful_queries c \<le> int MAX_RESEARCH_QUERIES
     \<and> length (cv_failed_queries c) \<le> MAX_RESEARCH_QUERIES - 1
     \<and> list_all valid_search_failure (cv_failed_queries c)
     \<and> coherent_query_coverage c"

section \<open>The artifact\<close>

record indexed_source =
  is_index :: int
  is_evidence :: web_evidence

record deep_research_artifact =
  da_status :: deep_artifact_status
  da_harness_mode :: research_harness_mode
  da_search_coverage :: search_coverage
  da_report :: deep_research_report
  da_sources :: "indexed_source list"
  da_model_audits :: "model_execution_audit list"

definition coherent_source_catalog :: "deep_research_artifact \<Rightarrow> bool" where [validity_defs]:
  "coherent_source_catalog a \<longleftrightarrow>
     (let indexes = map is_index (da_sources a);
          evidence_keys = map (\<lambda>s. evidence_key (is_evidence s)) (da_sources a)
      in indexes = map int [1..<Suc (length (da_sources a))]
         \<and> length evidence_keys = length (remdups evidence_keys)
         \<and> referenced_source_indexes (da_report a) - set indexes = {})"

definition valid_deep_research_artifact :: "deep_research_artifact \<Rightarrow> bool" where [validity_defs]:
  "valid_deep_research_artifact a \<longleftrightarrow> valid_search_coverage (da_search_coverage a)
     \<and> valid_deep_research_report (da_report a)
     \<and> len_between 1 MAX_RESEARCH_SOURCES (da_sources a)
     \<and> list_all (\<lambda>s. valid_source_index (is_index s)) (da_sources a)
     \<and> list_all valid_model_execution_audit (da_model_audits a)
     \<and> coherent_source_catalog a"

fun index_sources :: "int \<Rightarrow> web_evidence list \<Rightarrow> indexed_source list" where
  "index_sources i [] = []"
| "index_sources i (e # es) = \<lparr>is_index = i, is_evidence = e\<rparr> # index_sources (i + 1) es"

definition materialize_deep_research_artifact ::
  "deep_research_report \<Rightarrow> web_evidence list \<Rightarrow> research_harness_mode \<Rightarrow> search_coverage
     \<Rightarrow> model_execution_audit list \<Rightarrow> deep_artifact_status \<Rightarrow> deep_research_artifact validated" where
  "materialize_deep_research_artifact report evidence harness_mode coverage audits status =
     (if evidence = [] then Inl ValidationError
      else if length evidence > MAX_RESEARCH_SOURCES then Inl ValidationError
      else construct valid_deep_research_artifact
        \<lparr>da_status = status, da_harness_mode = harness_mode, da_search_coverage = coverage,
         da_report = report, da_sources = index_sources 1 evidence, da_model_audits = audits\<rparr>)"

definition commit_deep_research_artifact ::
  "deep_research_artifact \<Rightarrow> deep_research_artifact validated" where
  "commit_deep_research_artifact a =
     (if da_status a \<noteq> Deep_draft then Inl ValidationError
      else construct valid_deep_research_artifact (a\<lparr>da_status := Deep_committed\<rparr>))"

section \<open>Facts\<close>

lemma length_eq_remdups_iff: "length xs = length (remdups xs) \<longleftrightarrow> distinct xs"
  using length_remdups_eq [of xs] remdups_id_iff_distinct [of xs] by argo

lemma length_index_sources [simp]: "length (index_sources i es) = length es"
  by (induction es arbitrary: i) auto

lemma index_sources_indexes:
  "map is_index (index_sources i es) = map (\<lambda>k. i + int k) [0..<length es]"
proof (induction es arbitrary: i)
  case (Cons e es)
  have "map (\<lambda>k. i + int k) [0..<Suc (length es)] = i # map (\<lambda>k. i + 1 + int k) [0..<length es]"
    unfolding upt_conv_Cons [OF zero_less_Suc] map_Suc_upt [symmetric] by (simp add: comp_def)
  with Cons.IH [of "i + 1"] show ?case by (simp del: upt_Suc)
qed simp

lemma index_sources_from_one:
  "map is_index (index_sources 1 es) = map int [1..<Suc (length es)]"
proof -
  have "map int [1..<Suc (length es)] = map (\<lambda>k. 1 + int k) [0..<length es]"
    unfolding One_nat_def map_Suc_upt [symmetric] by simp
  then show ?thesis by (simp only: index_sources_indexes)
qed

lemma index_sources_evidence [simp]: "map is_evidence (index_sources i es) = es"
  by (induction es arbitrary: i) auto

lemma index_sources_keys:
  "map (\<lambda>s. evidence_key (is_evidence s)) (index_sources i es) = map evidence_key es"
  by (metis (no_types, lifting) comp_def index_sources_evidence map_map map_eq_conv)

lemma index_sources_valid:
  "length es \<le> MAX_RESEARCH_SOURCES \<Longrightarrow>
     list_all (\<lambda>s. valid_source_index (is_index s)) (index_sources 1 es)"
proof -
  assume "length es \<le> MAX_RESEARCH_SOURCES"
  then have "\<forall>i \<in> set (map is_index (index_sources 1 es)). valid_source_index i"
    unfolding index_sources_from_one by (auto simp: valid_source_index_def)
  then show ?thesis by (auto simp: list_all_iff)
qed

lemma materialize_ok_iff:
  "is_ok (materialize_deep_research_artifact report evidence mode coverage audits status) \<longleftrightarrow>
     1 \<le> length evidence \<and> length evidence \<le> MAX_RESEARCH_SOURCES
     \<and> distinct (map evidence_key evidence)
     \<and> referenced_source_indexes report \<subseteq> {1..int (length evidence)}
     \<and> valid_deep_research_report report \<and> valid_search_coverage coverage
     \<and> list_all valid_model_execution_audit audits"
proof (cases "evidence = [] \<or> length evidence > MAX_RESEARCH_SOURCES")
  case True
  then show ?thesis
    by (auto simp: materialize_deep_research_artifact_def)
next
  case False
  have idx: "int ` {Suc 0..<Suc (length evidence)} = {1..int (length evidence)}"
    by (simp add: atLeastLessThanSuc_atLeastAtMost image_int_atLeastAtMost)
  from False have "1 \<le> length evidence" by (cases evidence) auto
  with False show ?thesis
    using index_sources_valid [of evidence]
    by (auto simp: materialize_deep_research_artifact_def construct_def valid_deep_research_artifact_def
        coherent_source_catalog_def Let_def index_sources_from_one index_sources_keys
        length_eq_remdups_iff len_between_def idx simp del: upt_Suc)
qed

lemma materialize_Inr:
  "materialize_deep_research_artifact report evidence mode coverage audits status = Inr a \<Longrightarrow>
     a = \<lparr>da_status = status, da_harness_mode = mode, da_search_coverage = coverage,
          da_report = report, da_sources = index_sources 1 evidence, da_model_audits = audits\<rparr>
     \<and> valid_deep_research_artifact a"
  by (auto simp: materialize_deep_research_artifact_def construct_def split: if_splits)

lemma valid_deep_artifact_status [simp]:
  "valid_deep_research_artifact (a\<lparr>da_status := s\<rparr>) = valid_deep_research_artifact a"
  by (simp add: valid_deep_research_artifact_def coherent_source_catalog_def)

lemma commit_Inr:
  "commit_deep_research_artifact a = Inr b \<longleftrightarrow>
     da_status a = Deep_draft \<and> valid_deep_research_artifact a \<and> b = a\<lparr>da_status := Deep_committed\<rparr>"
  by (auto simp: commit_deep_research_artifact_def)

lemma valid_artifact_references:
  assumes "valid_deep_research_artifact a" and "i \<in> referenced_source_indexes (da_report a)"
  shows "\<exists>s \<in> set (da_sources a). is_index s = i"
  using assms by (auto simp: valid_deep_research_artifact_def coherent_source_catalog_def Let_def)

end
