(* ===== verification/Graph_Request.thy ===== *)
theory Graph_Request
  imports Decision_Request Deep_Research_Model
begin

text \<open>
  The requests, review payloads and review responses of \<open>graph/request.py\<close>: how an admitted
  product request becomes a graph request, what a reviewer may send back to a review interrupt,
  and which responses fit which payload. The redaction of query texts is the parameter
  \<open>redact\<close>, as in the product request.
\<close>

datatype review_policy = Bypass | Required
datatype review_action = Approve | Reject | Edit

section \<open>Graph requests\<close>

record analysis_request =
  aq_symbol :: symbol
  aq_horizon :: string
  aq_query_text :: string
  aq_notify :: bool

record deep_research_request =
  dq_symbol :: symbol
  dq_horizon :: string
  dq_query_text :: string

definition valid_analysis_request :: "analysis_request \<Rightarrow> bool" where [validity_defs]:
  "valid_analysis_request r \<longleftrightarrow> len_between 1 32 (aq_horizon r) \<and> len_between 1 2000 (aq_query_text r)"

definition mk_analysis_request ::
  "(string \<Rightarrow> string) \<Rightarrow> analysis_request \<Rightarrow> analysis_request validated" where
  "mk_analysis_request redact r = rbind (construct valid_analysis_request r)
     (\<lambda>v. Inr (v\<lparr>aq_query_text := redact (aq_query_text v)\<rparr>))"

definition valid_deep_research_request :: "deep_research_request \<Rightarrow> bool" where [validity_defs]:
  "valid_deep_research_request r \<longleftrightarrow>
     len_between 1 32 (dq_horizon r) \<and> len_between 1 4000 (dq_query_text r)"

definition mk_deep_research_request ::
  "(string \<Rightarrow> string) \<Rightarrow> deep_research_request \<Rightarrow> deep_research_request validated" where
  "mk_deep_research_request redact r = rbind (construct valid_deep_research_request r)
     (\<lambda>v. Inr (v\<lparr>dq_query_text := redact (dq_query_text v)\<rparr>))"

datatype graph_request = Req_analysis analysis_request | Req_deep_research deep_research_request

datatype request_error = Not_executable string | Assertion_failed | Request_invalid

fun or_invalid :: "('a \<Rightarrow> 'b) \<Rightarrow> 'a validated \<Rightarrow> (request_error, 'b) result" where
  "or_invalid f (Inl ValidationError) = Inl Request_invalid"
| "or_invalid f (Inr x) = Inr (f x)"

definition graph_request_for_decision ::
  "(string \<Rightarrow> string) \<Rightarrow> decision_request \<Rightarrow> (request_error, graph_request) result" where
  "graph_request_for_decision redact r =
     (let route = route_decision_request r in
      case (rt_status route, rt_task_type route) of
        (Admitted, Some task) \<Rightarrow>
          (case (dr_symbol r, dr_horizon r) of
             (Some s, Some h) \<Rightarrow>
               (if task = Task_deep_research then
                  or_invalid Req_deep_research (mk_deep_research_request redact
                    \<lparr>dq_symbol = s, dq_horizon = h, dq_query_text = dr_query_text r\<rparr>)
                else
                  or_invalid Req_analysis (mk_analysis_request redact
                    \<lparr>aq_symbol = s, aq_horizon = h, aq_query_text = dr_query_text r,
                     aq_notify = False\<rparr>))
           | _ \<Rightarrow> Inl Assertion_failed)
      | _ \<Rightarrow> Inl (Not_executable (rt_reason route)))"

section \<open>Edits\<close>

text \<open>
  A field of an edit is absent, or set to a value or to null (\<open>model_fields_set\<close> holds the
  fields that were sent, null or not).
\<close>

datatype 'a edit_field = Unset | Set_to "'a option"

fun edit_set :: "'a edit_field \<Rightarrow> bool" where
  "edit_set Unset = False"
| "edit_set (Set_to v) = True"

fun edit_ok :: "('a \<Rightarrow> bool) \<Rightarrow> 'a edit_field \<Rightarrow> bool" where
  "edit_ok P Unset = True"
| "edit_ok P (Set_to v) = opt_ok P v"

record artifact_edit =
  ae_regime :: "regime edit_field"
  ae_factor_scores :: "(string \<times> int) list edit_field"
  ae_total_score :: "int edit_field"
  ae_main_action :: "action edit_field"
  ae_reference_price :: "decimal edit_field"
  ae_entry_trigger :: "decimal edit_field"
  ae_stop_price :: "decimal edit_field"
  ae_target_1 :: "decimal edit_field"
  ae_target_2 :: "decimal edit_field"
  ae_probability :: "float64 edit_field"
  ae_position_size_class :: "position_size edit_field"
  ae_max_leverage :: "int edit_field"
  ae_risk_pct :: "decimal edit_field"
  ae_root_cause_chain :: "string list edit_field"
  ae_why_not_opposite :: "string edit_field"
  ae_invalidation :: "string edit_field"
  ae_unavailable_data :: "string list edit_field"
  ae_manual_execution_required :: "bool edit_field"
  ae_expires_in_seconds :: "int edit_field"

definition no_edit :: artifact_edit where
  "no_edit = \<lparr>ae_regime = Unset, ae_factor_scores = Unset, ae_total_score = Unset,
     ae_main_action = Unset, ae_reference_price = Unset, ae_entry_trigger = Unset,
     ae_stop_price = Unset, ae_target_1 = Unset, ae_target_2 = Unset, ae_probability = Unset,
     ae_position_size_class = Unset, ae_max_leverage = Unset, ae_risk_pct = Unset,
     ae_root_cause_chain = Unset, ae_why_not_opposite = Unset, ae_invalidation = Unset,
     ae_unavailable_data = Unset, ae_manual_execution_required = Unset,
     ae_expires_in_seconds = Unset\<rparr>"

definition valid_artifact_edit :: "artifact_edit \<Rightarrow> bool" where [validity_defs]:
  "valid_artifact_edit e \<longleftrightarrow> edit_ok (\<lambda>x. 0 < x) (ae_reference_price e)
     \<and> edit_ok (\<lambda>x. 0 < x) (ae_entry_trigger e) \<and> edit_ok (\<lambda>x. 0 < x) (ae_stop_price e)
     \<and> edit_ok (\<lambda>x. 0 < x) (ae_target_1 e) \<and> edit_ok (\<lambda>x. 0 < x) (ae_target_2 e)
     \<and> edit_ok (\<lambda>x. 0 \<le> x \<and> x \<le> 1) (ae_probability e) \<and> edit_ok (\<lambda>x. 1 \<le> x) (ae_max_leverage e)
     \<and> edit_ok (\<lambda>x. 0 \<le> x \<and> x \<le> 1) (ae_risk_pct e)
     \<and> edit_ok (\<lambda>x. x \<noteq> []) (ae_root_cause_chain e) \<and> edit_ok (\<lambda>x. x \<noteq> []) (ae_why_not_opposite e)
     \<and> edit_ok (\<lambda>x. x \<noteq> []) (ae_invalidation e) \<and> edit_ok (\<lambda>x. 0 < x) (ae_expires_in_seconds e)
     \<and> e \<noteq> no_edit"

datatype review_edits = Edit_analysis artifact_edit | Edit_report deep_research_report

fun valid_review_edits :: "review_edits \<Rightarrow> bool" where
  "valid_review_edits (Edit_analysis e) = valid_artifact_edit e"
| "valid_review_edits (Edit_report r) = valid_deep_research_report r"

section \<open>Review responses\<close>

record review_response =
  rr_action :: review_action
  rr_edits :: "review_edits option"
  rr_comment :: "string option"

definition valid_action_payload :: "review_response \<Rightarrow> bool" where [validity_defs]:
  "valid_action_payload r \<longleftrightarrow> \<not> (rr_action r = Edit \<and> rr_edits r = None)
     \<and> \<not> (rr_action r \<noteq> Edit \<and> rr_edits r \<noteq> None)"

definition valid_review_response :: "review_response \<Rightarrow> bool" where [validity_defs]:
  "valid_review_response r \<longleftrightarrow> opt_ok valid_review_edits (rr_edits r)
     \<and> opt_ok (len_between 1 1000) (rr_comment r) \<and> valid_action_payload r"

record artifact_review_payload =
  ap_review_iteration :: int
  ap_artifact :: artifact

record deep_review_payload =
  dp_symbol :: symbol
  dp_horizon :: string
  dp_review_iteration :: int
  dp_artifact :: deep_research_artifact

definition valid_artifact_review_payload :: "artifact_review_payload \<Rightarrow> bool" where [validity_defs]:
  "valid_artifact_review_payload p \<longleftrightarrow> 1 \<le> ap_review_iteration p \<and> valid_artifact (ap_artifact p)
     \<and> ar_status (ap_artifact p) = Draft"

definition valid_deep_review_payload :: "deep_review_payload \<Rightarrow> bool" where [validity_defs]:
  "valid_deep_review_payload p \<longleftrightarrow> len_between 1 32 (dp_horizon p) \<and> 1 \<le> dp_review_iteration p
     \<and> valid_deep_research_artifact (dp_artifact p) \<and> da_status (dp_artifact p) = Deep_draft"

datatype review_payload = Pay_artifact artifact_review_payload | Pay_deep deep_review_payload

definition mk_artifact_review_payload :: "int \<Rightarrow> artifact \<Rightarrow> review_payload validated" where
  "mk_artifact_review_payload i a =
     rbind (construct valid_artifact_review_payload \<lparr>ap_review_iteration = i, ap_artifact = a\<rparr>)
       (\<lambda>p. Inr (Pay_artifact p))"

definition mk_deep_review_payload ::
  "symbol \<Rightarrow> string \<Rightarrow> int \<Rightarrow> deep_research_artifact \<Rightarrow> review_payload validated" where
  "mk_deep_review_payload s h i a =
     rbind (construct valid_deep_review_payload
         \<lparr>dp_symbol = s, dp_horizon = trim h, dp_review_iteration = i, dp_artifact = a\<rparr>)
       (\<lambda>p. Inr (Pay_deep p))"

definition validate_review_response_for_payload ::
  "review_payload \<Rightarrow> review_response \<Rightarrow> review_response validated" where
  "validate_review_response_for_payload payload response =
     (if rr_action response \<noteq> Edit then Inr response
      else case payload of
        Pay_artifact p \<Rightarrow>
          (case rr_edits response of
             Some (Edit_analysis e) \<Rightarrow> Inr response | _ \<Rightarrow> Inl ValidationError)
      | Pay_deep p \<Rightarrow>
          (case rr_edits response of
             Some (Edit_report r) \<Rightarrow>
               (if r = da_report (dp_artifact p) then Inl ValidationError
                else rbind (construct valid_deep_research_artifact ((dp_artifact p)\<lparr>da_report := r\<rparr>))
                       (\<lambda>_. Inr response))
           | _ \<Rightarrow> Inl ValidationError))"

definition validate_review_payload_for_task ::
  "review_payload \<Rightarrow> executable_task_type \<Rightarrow> symbol \<Rightarrow> string \<Rightarrow> unit validated" where
  "validate_review_payload_for_task payload task s h =
     (if task = Task_market_analysis then
        (case payload of
           Pay_artifact p \<Rightarrow>
             (if ma_instrument (ar_analysis (ap_artifact p)) \<noteq> s then Inl ValidationError
              else if ma_horizon (ar_analysis (ap_artifact p)) \<noteq> h then Inl ValidationError
              else Inr ())
         | Pay_deep _ \<Rightarrow> Inl ValidationError)
      else
        (case payload of
           Pay_artifact _ \<Rightarrow> Inl ValidationError
         | Pay_deep p \<Rightarrow>
             (if dp_symbol p \<noteq> s then Inl ValidationError
              else if dp_horizon p \<noteq> h then Inl ValidationError else Inr ())))"

section \<open>Facts\<close>

lemma or_invalid_Inr: "or_invalid f m = Inr y \<longleftrightarrow> (\<exists>x. m = Inr x \<and> y = f x)"
  by (cases m rule: sum.exhaust) (auto simp: or_invalid.simps split: validation_error.splits,
      metis or_invalid.simps(1) sum.distinct(1) validation_error.exhaust)

lemma mk_analysis_request_Inr:
  "mk_analysis_request redact r = Inr v \<longleftrightarrow> valid_analysis_request r
     \<and> v = r\<lparr>aq_query_text := redact (aq_query_text r)\<rparr>"
  by (auto simp: mk_analysis_request_def rbind_Inr_iff)

lemma mk_deep_research_request_Inr:
  "mk_deep_research_request redact r = Inr v \<longleftrightarrow> valid_deep_research_request r
     \<and> v = r\<lparr>dq_query_text := redact (dq_query_text r)\<rparr>"
  by (auto simp: mk_deep_research_request_def rbind_Inr_iff)

lemma route_admitted_slots:
  "rt_status (route_decision_request r) = Admitted \<Longrightarrow> \<exists>s h. dr_symbol r = Some s \<and> dr_horizon r = Some h"
  by (auto simp: route_admitted_iff slots_complete_def)

lemma route_admitted_task:
  "rt_status (route_decision_request r) = Admitted \<Longrightarrow>
     rt_task_type (route_decision_request r) = Some (if dr_intent r = Deep_research
       then Task_deep_research else Task_market_analysis)"
  by (auto simp: route_decision_request_def split: if_splits)

lemma review_edit_fits:
  assumes "validate_review_response_for_payload payload response = Inr decision"
    and "rr_action response = Edit"
  shows "decision = response"
    and "case payload of Pay_artifact p \<Rightarrow> (\<exists>e. rr_edits response = Some (Edit_analysis e))
         | Pay_deep p \<Rightarrow> (\<exists>r. rr_edits response = Some (Edit_report r)
             \<and> r \<noteq> da_report (dp_artifact p)
             \<and> valid_deep_research_artifact ((dp_artifact p)\<lparr>da_report := r\<rparr>))"
  using assms
  by (auto simp: validate_review_response_for_payload_def rbind_Inr_iff
      split: review_payload.splits option.splits review_edits.splits if_splits)

lemma review_response_unchanged:
  "validate_review_response_for_payload payload response = Inr decision \<Longrightarrow> decision = response"
  by (auto simp: validate_review_response_for_payload_def rbind_Inr_iff
      split: review_payload.splits option.splits review_edits.splits if_splits)

section \<open>Properties\<close>

text \<open>
  A product request is admitted exactly when its intent is a live one (market analysis, deep
  research or monitor review) and its execution slots are complete: symbol and horizon always,
  and for an opening action the position's entry, size and leverage and the loss limit as well.
  It has a task type exactly then, and the slots it reports as missing are empty.
\<close>

theorem decision_admitted_iff:
  "(rt_status (route_decision_request r) = Admitted
      \<longleftrightarrow> dr_intent r \<in> {Market_analysis, Deep_research, Monitor_review} \<and> slots_complete r)
   \<and> (rt_task_type (route_decision_request r) \<noteq> None
      \<longleftrightarrow> rt_status (route_decision_request r) = Admitted)
   \<and> (rt_missing_slots (route_decision_request r) = []
      \<longleftrightarrow> rt_status (route_decision_request r) \<noteq> Status_blocked_clarify)"
  unfolding route_admitted_iff [symmetric]
  by (auto simp: route_decision_request_def)

text \<open>
  An admitted request with a query of at most 4000 characters, which is what the product
  accepts, becomes a graph request unless it is a market request with more than 2000 characters:
  the graph's market request is the narrower model, and such a request fails after admission.
\<close>

theorem admitted_request_executable_iff:
  assumes "rt_status (route_decision_request r) = Admitted"
    and "len_between 1 4000 (dr_query_text r)" and "opt_ok (len_between 1 32) (dr_horizon r)"
  shows "is_ok (graph_request_for_decision redact r)
     \<longleftrightarrow> dr_intent r = Deep_research \<or> length (dr_query_text r) \<le> 2000"
proof -
  from assms(1) obtain s h where sh: "dr_symbol r = Some s" "dr_horizon r = Some h"
    using route_admitted_slots by blast
  show ?thesis
    using assms sh route_admitted_task [OF assms(1)]
    by (auto simp: graph_request_for_decision_def Let_def mk_deep_research_request_def
        mk_analysis_request_def valid_deep_research_request_def valid_analysis_request_def
        len_between_def construct_def)
qed

definition sample_decision :: "string \<Rightarrow> decision_request" where
  "sample_decision query = \<lparr>dr_entry_kind = Manual, dr_actor_id = ''actor'', dr_workspace_id = ''ws'',
     dr_session_id = None, dr_intent = Market_analysis, dr_intent_confidence = 1,
     dr_complexity = Standard, dr_symbol = Some BTC_USDT_SWAP, dr_horizon = Some ''4h'',
     dr_query_text = query, dr_requested_action = None, dr_position = None,
     dr_risk = default_risk_context,
     dr_side_effects = default_side_effects, dr_source_reference_id = None\<rparr>"

theorem admitted_request_executable_iff_witness:
  "\<not> is_ok (graph_request_for_decision (\<lambda>t. t) (sample_decision (replicate 2001 CHR ''q'')))"
  using admitted_request_executable_iff [of "sample_decision (replicate 2001 CHR ''q'')" "\<lambda>t. t"]
  by (simp add: route_admitted_iff slots_complete_def requests_opening_def sample_decision_def
      len_between_def)

text \<open>
  C38. A review edit that is accepted fits the artifact under review: an analysis takes a field
  edit, a deep research draft takes a whole report which differs from the current one and whose
  citations all resolve against the sources already collected. An approval or a rejection is
  accepted as it is.
\<close>

theorem accepted_review_response_fits:
  assumes "validate_review_response_for_payload payload response = Inr decision"
  shows "decision = response \<and> (rr_action response = Edit \<longrightarrow>
     (case payload of
        Pay_artifact p \<Rightarrow> (\<exists>e. rr_edits response = Some (Edit_analysis e))
      | Pay_deep p \<Rightarrow> (\<exists>r. rr_edits response = Some (Edit_report r) \<and> r \<noteq> da_report (dp_artifact p)
          \<and> valid_deep_research_artifact ((dp_artifact p)\<lparr>da_report := r\<rparr>)
          \<and> referenced_source_indexes r \<subseteq> is_index ` set (da_sources (dp_artifact p)))))"
proof (cases "rr_action response = Edit")
  case True
  have refs: "referenced_source_indexes r \<subseteq> is_index ` set (da_sources a)"
    if "valid_deep_research_artifact (a\<lparr>da_report := r\<rparr>)" for a r
    using valid_artifact_references [OF that] by auto
  show ?thesis using review_edit_fits [OF assms True] refs
    by (auto split: review_payload.splits)
qed (use review_response_unchanged [OF assms] in simp)

definition sample_report :: "int list \<Rightarrow> deep_research_report" where
  "sample_report cited = \<lparr>rp_executive_summary = ''summary'',
     rp_sections = [\<lparr>sc_title = ''t'', sc_summary = ''s'',
        sc_findings = [\<lparr>cf_claim = ''c'', cf_source_indexes = cited\<rparr>]\<rparr>],
     rp_risk_notes = [], rp_evidence_gaps = []\<rparr>"

definition sample_evidence :: "string \<Rightarrow> web_evidence" where
  "sample_evidence url = \<lparr>we_query = ''q'', we_final_url = url, we_redirect_chain = [],
     we_http_status = None, we_fetched_at = Aware 0, we_published_at = None, we_content_hash = ''h'',
     we_parser_version = ''p'', we_title = ''t'', we_author = None, we_source = ''src'',
     we_excerpt = ''e'', we_evidence_relation = ''supports''\<rparr>"

definition sample_deep_artifact :: deep_research_artifact where
  "sample_deep_artifact = \<lparr>da_status = Deep_draft, da_harness_mode = Langchain,
     da_search_coverage = \<lparr>cv_status = Complete, cv_attempted_queries = 1,
        cv_successful_queries = 1, cv_failed_queries = []\<rparr>,
     da_report = sample_report [1], da_sources = index_sources 1 [sample_evidence ''a'', sample_evidence ''b''],
     da_model_audits = [sample_audit]\<rparr>"

lemma sample_reports_valid:
  "valid_deep_research_artifact (sample_deep_artifact\<lparr>da_report := sample_report [1]\<rparr>)"
  "valid_deep_research_artifact (sample_deep_artifact\<lparr>da_report := sample_report [2]\<rparr>)"
  by (simp_all add: validity_defs sample_deep_artifact_def sample_report_def sample_evidence_def
      sample_audit_def Let_def MAX_RESEARCH_SOURCES_def MAX_RESEARCH_QUERIES_def evidence_key_def
      referenced_source_indexes_def)

lemma sample_reports_differ: "sample_report [2] \<noteq> da_report sample_deep_artifact"
  by (simp add: sample_deep_artifact_def sample_report_def)

theorem accepted_review_response_fits_witness:
  "referenced_source_indexes (sample_report [2]) \<subseteq> is_index ` set (da_sources sample_deep_artifact)"
  using accepted_review_response_fits [of "Pay_deep \<lparr>dp_symbol = BTC_USDT_SWAP, dp_horizon = ''4h'',
      dp_review_iteration = 1, dp_artifact = sample_deep_artifact\<rparr>"
      "\<lparr>rr_action = Edit, rr_edits = Some (Edit_report (sample_report [2])), rr_comment = None\<rparr>"
      "\<lparr>rr_action = Edit, rr_edits = Some (Edit_report (sample_report [2])), rr_comment = None\<rparr>"]
    sample_reports_valid(2) sample_reports_differ
  by (simp add: validate_review_response_for_payload_def rbind_Inr_iff)

text \<open>
  A deep research artifact is built exactly when the report, the coverage and the audits pass
  their own checks, there are one to eight sources, no source repeats another's address and
  content, and every citation of the report points at one of them.
\<close>

theorem deep_research_materialize_iff:
  "is_ok (materialize_deep_research_artifact report evidence mode coverage audits status) \<longleftrightarrow>
     1 \<le> length evidence \<and> length evidence \<le> MAX_RESEARCH_SOURCES
     \<and> distinct (map evidence_key evidence)
     \<and> referenced_source_indexes report \<subseteq> {1..int (length evidence)}
     \<and> valid_deep_research_report report \<and> valid_search_coverage coverage
     \<and> list_all valid_model_execution_audit audits"
  by (rule materialize_ok_iff)

text \<open>
  Every citation of a valid artifact resolves to exactly one source of its catalog, the one
  at the cited position, and committing changes nothing but the status and works once.
\<close>

theorem deep_research_citations_and_commit:
  assumes "commit_deep_research_artifact a = Inr b" and "i \<in> referenced_source_indexes (da_report a)"
  shows "(\<exists>!s. s \<in> set (da_sources b) \<and> is_index s = i)
     \<and> 1 \<le> i \<and> i \<le> int (length (da_sources b)) \<and> is_index (da_sources b ! nat (i - 1)) = i
     \<and> b = a\<lparr>da_status := Deep_committed\<rparr> \<and> commit_deep_research_artifact b = Inl ValidationError"
proof -
  from assms(1) have valid: "valid_deep_research_artifact a" and b: "b = a\<lparr>da_status := Deep_committed\<rparr>"
    by (simp_all add: commit_Inr)
  let ?n = "length (da_sources a)"
  from valid have idx: "map is_index (da_sources a) = map int [1..<Suc ?n]"
    by (simp add: valid_deep_research_artifact_def coherent_source_catalog_def Let_def)
  have at: "is_index (da_sources a ! k) = int k + 1" if "k < ?n" for k
    using arg_cong [OF idx, of "\<lambda>xs. xs ! k"] that by (simp del: upt_Suc)
  from valid_artifact_references [OF valid assms(2)] obtain s where "s \<in> set (da_sources a)" "is_index s = i"
    by blast
  then obtain k where k: "k < ?n" "da_sources a ! k = s" "i = int k + 1"
    using at by (auto simp: in_set_conv_nth)
  have unique: "t = s" if t: "t \<in> set (da_sources a)" "is_index t = i" for t
  proof -
    from t obtain j where "j < ?n" "da_sources a ! j = t" by (auto simp: in_set_conv_nth)
    with at [of j] k t(2) show "t = s" by simp
  qed
  have one: "\<exists>!s. s \<in> set (da_sources a) \<and> is_index s = i"
    by (rule ex1I [of _ s]) (simp_all add: \<open>s \<in> set (da_sources a)\<close> \<open>is_index s = i\<close> unique)
  moreover have "1 \<le> i \<and> i \<le> int ?n \<and> is_index (da_sources a ! nat (i - 1)) = i"
    using k at [of k] by simp
  ultimately show ?thesis unfolding b by (simp add: commit_deep_research_artifact_def)
qed

theorem deep_research_citations_and_commit_witness:
  "\<exists>!s. s \<in> set (da_sources sample_deep_artifact) \<and> is_index s = 1"
  using deep_research_citations_and_commit [of sample_deep_artifact
      "sample_deep_artifact\<lparr>da_status := Deep_committed\<rparr>" 1] sample_reports_valid(1)
  by (simp add: commit_Inr) (simp add: sample_deep_artifact_def sample_report_def
      referenced_source_indexes_def)

end
