(* ===== verification/Json_Values.thy ===== *)
theory Json_Values
  imports Prelude
begin

text \<open>
  How the code reads the values of a JSON document: truth values, integers and strings as
  \<open>isinstance\<close> sees them, and lookups with a default.
\<close>

section \<open>Values read from JSON\<close>

text \<open>Python's truth value of a JSON value.\<close>

fun truthy :: "json \<Rightarrow> bool" where
  "truthy JNull = False"
| "truthy (JBool b) = b"
| "truthy (JInt n) = (n \<noteq> 0)"
| "truthy (JFloat x) = (x \<noteq> 0)"
| "truthy (JStr s) = (s \<noteq> [])"
| "truthy (JArr xs) = (xs \<noteq> [])"
| "truthy (JObj kvs) = (kvs \<noteq> [])"

text \<open>\<open>isinstance(v, int)\<close> holds of booleans too, which count as 0 and 1.\<close>

fun py_int :: "json \<Rightarrow> int option" where
  "py_int (JInt n) = Some n"
| "py_int (JBool b) = Some (if b then 1 else 0)"
| "py_int _ = None"

fun py_str :: "json \<Rightarrow> string option" where
  "py_str (JStr s) = Some s"
| "py_str _ = None"

text \<open>\<open>d.get(key)\<close>: a missing key reads as null.\<close>

definition get_or_null :: "string \<Rightarrow> json \<Rightarrow> json" where
  "get_or_null k j = (case json_get k j of None \<Rightarrow> JNull | Some v \<Rightarrow> v)"

definition py_or :: "json \<Rightarrow> json \<Rightarrow> json" where
  "py_or a b = (if truthy a then a else b)"

fun is_mapping :: "json \<Rightarrow> bool" where
  "is_mapping (JObj _) = True"
| "is_mapping _ = False"

text \<open>The children of a value, in the order in which a recursive visit reaches them.\<close>

fun json_children :: "json \<Rightarrow> json list" where
  "json_children (JObj kvs) = map snd kvs"
| "json_children (JArr xs) = xs"
| "json_children _ = []"

text \<open>An \<open>int\<close> that is not a \<open>bool\<close>.\<close>

fun strict_int :: "json \<Rightarrow> int option" where
  "strict_int (JInt n) = Some n"
| "strict_int _ = None"

end
