(* ===== verification/Product_Events.thy ===== *)
theory Product_Events
  imports Domain_Models Json_Values
begin

text \<open>
  The product event stream of \<open>graph/events.py\<close>: the event models, the stable identity of an
  event and the emitters the graph's nodes call. The run configuration is the two JSON values
  the emitters read. The hash of an event's coordinates, SHA-256 of their canonical JSON text,
  is the parameter \<open>digest\<close>: a function of the coordinates.
\<close>

section \<open>Events\<close>

datatype progress_status = Active | Progress_complete | Progress_blocked | Progress_failed
datatype artifact_event_status = Event_draft | Event_committed
datatype evidence_stage = Collected | Validated

datatype event_body =
    Task_progress string progress_status
  | Artifact_event artifact_event_status int
  | Evidence_event evidence_stage int "bool option"
  | Usage_event int "int option" "int option" "int option" "string list"
  | Notification_event bool
  | Quality_event bool bool int int

fun event_name :: "event_body \<Rightarrow> string" where
  "event_name (Task_progress _ _) = ''task_progress''"
| "event_name (Artifact_event _ _) = ''artifact''"
| "event_name (Evidence_event _ _ _) = ''evidence''"
| "event_name (Usage_event _ _ _ _ _) = ''usage''"
| "event_name (Notification_event _) = ''notification''"
| "event_name (Quality_event _ _ _ _) = ''quality''"

record event_identity =
  ei_name :: string
  ei_sequence :: int
  ei_correlation_id :: string
  ei_task_id :: string
  ei_run_id :: string
  ei_thread_id :: string
  ei_request_id :: string

record product_event =
  pe_identity :: event_identity
  pe_event_id :: string
  pe_body :: event_body

definition is_hex64 :: "string \<Rightarrow> bool" where
  "is_hex64 s \<longleftrightarrow> length s = 64 \<and> list_all (\<lambda>c. c \<in> set ''0123456789abcdef'') s"

definition phase_char :: "char \<Rightarrow> bool" where
  "phase_char c = (let n = of_char c :: nat in (97 \<le> n \<and> n \<le> 122) \<or> (48 \<le> n \<and> n \<le> 57) \<or> n = 95)"

definition valid_event_identity :: "event_identity \<Rightarrow> bool" where [validity_defs]:
  "valid_event_identity i \<longleftrightarrow> 1 \<le> ei_sequence i \<and> len_between 1 255 (ei_correlation_id i)
     \<and> len_between 1 255 (ei_task_id i) \<and> len_between 1 255 (ei_run_id i)
     \<and> len_between 1 255 (ei_thread_id i) \<and> len_between 1 255 (ei_request_id i)"

fun valid_event_body :: "event_body \<Rightarrow> bool" where
  "valid_event_body (Task_progress phase status) =
     (len_between 1 64 phase \<and> list_all phase_char phase)"
| "valid_event_body (Artifact_event status version) = (1 \<le> version)"
| "valid_event_body (Evidence_event stage count sufficient) = (0 \<le> count \<and> count \<le> 1000)"
| "valid_event_body (Usage_event calls i t o_t prompts) =
     (0 \<le> calls \<and> calls \<le> 1000 \<and> opt_ok (\<lambda>x. 0 \<le> x) i \<and> opt_ok (\<lambda>x. 0 \<le> x) t
      \<and> opt_ok (\<lambda>x. 0 \<le> x) o_t \<and> length prompts \<le> 16)"
| "valid_event_body (Notification_event requested) = True"
| "valid_event_body (Quality_event sufficient allowed warnings blocked) =
     (0 \<le> warnings \<and> warnings \<le> 1000 \<and> 0 \<le> blocked \<and> blocked \<le> 1000)"

definition valid_product_event :: "product_event \<Rightarrow> bool" where [validity_defs]:
  "valid_product_event e \<longleftrightarrow> valid_event_identity (pe_identity e) \<and> is_hex64 (pe_event_id e)
     \<and> valid_event_body (pe_body e)"

section \<open>Identity\<close>

record run_config =
  cfg_metadata :: "json option"
  cfg_configurable :: "json option"

definition bounded_string :: "json \<Rightarrow> string option" where
  "bounded_string v = (case py_str v of None \<Rightarrow> None
     | Some s \<Rightarrow> (let normalized = strip s in
         if 1 \<le> length normalized \<and> length normalized \<le> 255 then Some normalized else None))"

definition or_empty :: "json option \<Rightarrow> json" where
  "or_empty v = (case v of None \<Rightarrow> JObj [] | Some j \<Rightarrow> if truthy j then j else JObj [])"

definition event_identity_of :: "run_config \<Rightarrow> string \<Rightarrow> int \<Rightarrow> event_identity option" where
  "event_identity_of config name sequence =
     (let metadata = or_empty (cfg_metadata config);
          configurable = or_empty (cfg_configurable config)
      in if \<not> is_mapping metadata \<or> \<not> is_mapping configurable then None
         else case (bounded_string (get_or_null ''task_id'' metadata),
                    bounded_string (get_or_null ''product_run_id'' metadata),
                    bounded_string (py_or (get_or_null ''thread_id'' metadata)
                                          (get_or_null ''thread_id'' configurable)),
                    bounded_string (get_or_null ''request_id'' metadata),
                    bounded_string (get_or_null ''correlation_id'' metadata)) of
           (Some task, Some run, Some thread, Some request, Some correlation) \<Rightarrow>
             Some \<lparr>ei_name = name, ei_sequence = sequence, ei_correlation_id = correlation,
                   ei_task_id = task, ei_run_id = run, ei_thread_id = thread,
                   ei_request_id = request\<rparr>
         | _ \<Rightarrow> None)"

type_synonym emitted = "product_event list validated"

text \<open>
  \<open>digest\<close> is applied to the coordinates: schema version, name, sequence and the five
  identifiers, and nothing of the body.
\<close>

definition emit :: "(event_identity \<Rightarrow> string) \<Rightarrow> run_config \<Rightarrow> int \<Rightarrow> event_body \<Rightarrow> emitted" where
  "emit digest config sequence body =
     (case event_identity_of config (event_name body) sequence of
        None \<Rightarrow> Inr []
      | Some i \<Rightarrow> rbind (construct valid_product_event
            \<lparr>pe_identity = i, pe_event_id = digest i, pe_body = body\<rparr>) (\<lambda>e. Inr [e]))"

section \<open>Emitters\<close>

definition emit_task_progress ::
  "(event_identity \<Rightarrow> string) \<Rightarrow> run_config \<Rightarrow> int \<Rightarrow> string \<Rightarrow> progress_status \<Rightarrow> emitted" where
  "emit_task_progress digest config sequence phase status =
     emit digest config sequence (Task_progress phase status)"

definition emit_artifact ::
  "(event_identity \<Rightarrow> string) \<Rightarrow> run_config \<Rightarrow> int \<Rightarrow> artifact_event_status \<Rightarrow> int \<Rightarrow> emitted" where
  "emit_artifact digest config sequence status content_version =
     emit digest config sequence (Artifact_event status content_version)"

definition emit_evidence ::
  "(event_identity \<Rightarrow> string) \<Rightarrow> run_config \<Rightarrow> int \<Rightarrow> evidence_stage \<Rightarrow> int \<Rightarrow> bool option \<Rightarrow> emitted" where
  "emit_evidence digest config sequence stage count sufficient =
     emit digest config sequence (Evidence_event stage count sufficient)"

definition nonneg_ints :: "string \<Rightarrow> json list \<Rightarrow> int list" where
  "nonneg_ints field audits =
     filter (\<lambda>v. v \<ge> 0) (List.map_filter (\<lambda>item. py_int (get_or_null field item)) audits)"

definition usage_total :: "string \<Rightarrow> json list \<Rightarrow> int option" where
  "usage_total field audits =
     (let numeric = nonneg_ints field audits in if numeric \<noteq> [] then Some (sum_list numeric) else None)"

definition prompt_versions :: "json list \<Rightarrow> string list" where
  "prompt_versions audits = sort (remdups (filter (\<lambda>s. s \<noteq> [])
     (List.map_filter (\<lambda>item. py_str (get_or_null ''prompt_version'' item)) audits)))"

definition emit_usage ::
  "(event_identity \<Rightarrow> string) \<Rightarrow> run_config \<Rightarrow> int \<Rightarrow> json list \<Rightarrow> emitted" where
  "emit_usage digest config sequence audits =
     emit digest config sequence
       (Usage_event (sum_list (nonneg_ints ''call_count'' audits))
          (usage_total ''input_tokens'' audits) (usage_total ''output_tokens'' audits)
          (usage_total ''total_tokens'' audits) (prompt_versions audits))"

definition emit_notification ::
  "(event_identity \<Rightarrow> string) \<Rightarrow> run_config \<Rightarrow> int \<Rightarrow> bool \<Rightarrow> emitted" where
  "emit_notification digest config sequence requested =
     emit digest config sequence (Notification_event requested)"

definition emit_quality ::
  "(event_identity \<Rightarrow> string) \<Rightarrow> run_config \<Rightarrow> int \<Rightarrow> bool \<Rightarrow> bool \<Rightarrow> int \<Rightarrow> int \<Rightarrow> emitted" where
  "emit_quality digest config sequence evidence_sufficient risk_allowed warning_count
       blocked_reason_count =
     emit digest config sequence
       (Quality_event evidence_sufficient risk_allowed warning_count blocked_reason_count)"

text \<open>Events emitted one after the other, until one of them fails its model.\<close>

fun emit_all :: "emitted list \<Rightarrow> emitted" where
  "emit_all [] = Inr []"
| "emit_all (e # es) = rbind e (\<lambda>xs. rbind (emit_all es) (\<lambda>ys. Inr (xs @ ys)))"

section \<open>Facts\<close>

lemmas emitter_defs = emit_task_progress_def emit_artifact_def emit_evidence_def emit_usage_def
  emit_notification_def emit_quality_def

lemma emit_Inr:
  assumes "emit digest config sequence body = Inr es"
  shows "es = [] \<or> (\<exists>i. es = [\<lparr>pe_identity = i, pe_event_id = digest i, pe_body = body\<rparr>]
     \<and> event_identity_of config (event_name body) sequence = Some i)"
  using assms by (auto simp: emit_def rbind_Inr_iff split: option.splits)

lemma bounded_string_Some: "bounded_string v = Some s \<Longrightarrow> len_between 1 255 s \<and> strip s = s"
  by (auto simp: bounded_string_def len_between_def Let_def split: option.splits if_splits)

lemma event_identity_valid:
  assumes "event_identity_of config name sequence = Some i" and "1 \<le> sequence"
  shows "valid_event_identity i" and "ei_name i = name" and "ei_sequence i = sequence"
  using assms
  by (auto simp: event_identity_of_def Let_def valid_event_identity_def
      split: if_splits option.splits dest!: bounded_string_Some)

lemma event_identity_of_sequence:
  "event_identity_of config name sequence = Some i \<Longrightarrow> ei_sequence i = sequence \<and> ei_name i = name"
  by (auto simp: event_identity_of_def Let_def split: if_splits option.splits)

lemma event_identity_of_same_run:
  assumes "event_identity_of config n s = Some i" and "event_identity_of config m t = Some j"
  shows "i = j \<longleftrightarrow> n = m \<and> s = t"
  using assms
  by (auto simp: event_identity_of_def Let_def split: if_splits option.splits)

definition event_seq :: "product_event \<Rightarrow> int" where
  "event_seq e = ei_sequence (pe_identity e)"

lemma emit_seq: "emit digest config sequence body = Inr es \<Longrightarrow> list_all (\<lambda>e. event_seq e = sequence) es"
  by (auto dest!: emit_Inr event_identity_of_sequence simp: event_seq_def)

lemma emit_length: "emit digest config sequence body = Inr es \<Longrightarrow> length es \<le> 1"
  by (auto dest!: emit_Inr)

lemma emit_all_append:
  "emit_all (xs @ ys) = rbind (emit_all xs) (\<lambda>a. rbind (emit_all ys) (\<lambda>b. Inr (a @ b)))"
proof (induction xs)
  case Nil
  show ?case by (cases "emit_all ys") auto
next
  case (Cons x xs)
  then show ?case by (cases x; cases "emit_all xs"; cases "emit_all ys") auto
qed

section \<open>Properties\<close>

definition sample_config :: run_config where
  "sample_config = \<lparr>cfg_metadata = Some (JObj [(''task_id'', JStr ''t''), (''product_run_id'', JStr ''r''),
      (''thread_id'', JStr ''h''), (''request_id'', JStr ''q''), (''correlation_id'', JStr ''c'')]),
     cfg_configurable = None\<rparr>"

definition sample_digest :: "event_identity \<Rightarrow> string" where
  "sample_digest i = replicate 64 (if even (ei_sequence i) then CHR ''a'' else CHR ''b'')"

definition sample_identity :: "string \<Rightarrow> int \<Rightarrow> event_identity" where
  "sample_identity name s = \<lparr>ei_name = name, ei_sequence = s, ei_correlation_id = ''c'', ei_task_id = ''t'',
     ei_run_id = ''r'', ei_thread_id = ''h'', ei_request_id = ''q''\<rparr>"

lemma sample_event_identity: "event_identity_of sample_config name s = Some (sample_identity name s)"
  by (simp add: event_identity_of_def sample_config_def sample_identity_def or_empty_def get_or_null_def
      py_or_def bounded_string_def strip_def strip_with_def is_space_def Let_def)

text \<open>
  Two events of one run have the same identity exactly when they have the same name and the
  same sequence number, and then the same event id, whatever their bodies say. Every emitted
  event satisfies its model.
\<close>

theorem emitted_event_identity:
  assumes "emit digest config s b = Inr [e]" and "emit digest config u c = Inr [f]"
  shows "valid_product_event e \<and> ei_sequence (pe_identity e) = s \<and> ei_name (pe_identity e) = event_name b
     \<and> pe_body e = b \<and> pe_event_id e = digest (pe_identity e)
     \<and> (pe_identity e = pe_identity f \<longleftrightarrow> event_name b = event_name c \<and> s = u)"
proof -
  from assms(1) obtain i where i: "event_identity_of config (event_name b) s = Some i"
    and e: "e = \<lparr>pe_identity = i, pe_event_id = digest i, pe_body = b\<rparr>" "valid_product_event e"
    by (auto simp: emit_def rbind_Inr_iff split: option.splits)
  from assms(2) obtain j where j: "event_identity_of config (event_name c) u = Some j"
    and f: "f = \<lparr>pe_identity = j, pe_event_id = digest j, pe_body = c\<rparr>"
    by (auto simp: emit_def rbind_Inr_iff split: option.splits)
  show ?thesis
    using e f event_identity_of_same_run [OF i j] event_identity_of_sequence [OF i] by simp
qed

lemma sample_digest_hex: "is_hex64 (sample_digest i)"
  by (cases "even (ei_sequence i)") (auto simp: is_hex64_def sample_digest_def list_all_iff)

definition sample_event :: "string \<Rightarrow> int \<Rightarrow> progress_status \<Rightarrow> product_event" where
  "sample_event phase k status = \<lparr>pe_identity = sample_identity ''task_progress'' k,
     pe_event_id = sample_digest (sample_identity ''task_progress'' k),
     pe_body = Task_progress phase status\<rparr>"

lemma sample_progress:
  assumes "1 \<le> k" and "len_between 1 64 phase" and "list_all phase_char phase"
  shows "emit sample_digest sample_config k (Task_progress phase status) = Inr [sample_event phase k status]"
proof -
  have "valid_event_identity (sample_identity ''task_progress'' k)"
    using assms(1) by (simp add: valid_event_identity_def sample_identity_def len_between_def)
  with assms sample_digest_hex show ?thesis
    by (simp add: emit_def sample_event_identity construct_def valid_product_event_def sample_event_def)
qed

theorem emitted_event_identity_witness:
  "sample_identity ''task_progress'' 20 \<noteq> sample_identity ''task_progress'' 30"
  using emitted_event_identity [OF sample_progress [of 20 "''a''" Active] sample_progress [of 30 "''b''" Active]]
  by (simp add: len_between_def phase_char_def sample_event_def)

text \<open>
  The token totals of a usage event are additive over the audits: joining two lists of audits
  adds their totals, a list without usable counts contributes nothing, and a total is never
  negative.
\<close>

lemma usage_total_additive:
  "usage_total field (xs @ ys) =
     (case (usage_total field xs, usage_total field ys) of
        (None, t) \<Rightarrow> t | (Some a, None) \<Rightarrow> Some a | (Some a, Some b) \<Rightarrow> Some (a + b))
   \<and> opt_ok (\<lambda>n. 0 \<le> n) (usage_total field xs)"
proof -
  have app: "nonneg_ints field (xs @ ys) = nonneg_ints field xs @ nonneg_ints field ys"
    by (simp add: nonneg_ints_def List.map_filter_def)
  have "0 \<le> sum_list (nonneg_ints field xs)"
    by (rule sum_list_nonneg) (auto simp: nonneg_ints_def)
  then show ?thesis by (simp add: usage_total_def Let_def app)
qed

end
