(* ===== verification/Graph_State.thy ===== *)
theory Graph_State
  imports Risk_Policy Graph_Request Product_Events
begin

text \<open>
  The state of the product graph (\<open>graph/state.py\<close>), the parameters of a run and what the
  outside world answers to a node: the market provider and its fallback, the research
  collector, the analysis agent, the deep research executor, the monitor admission and the
  human reviewer. A key of the state that is absent is \<open>None\<close>; the JSON dump of a model is the
  model's record, which the nodes validate again where the code calls \<open>model_validate\<close>.
\<close>

section \<open>State\<close>

record monitor_ingress_request =
  mi_monitor_id :: uuid
  mi_schedule_version :: int
  mi_cron_binding_id :: uuid

definition valid_monitor_ingress_request :: "monitor_ingress_request \<Rightarrow> bool" where [validity_defs]:
  "valid_monitor_ingress_request r \<longleftrightarrow> 1 \<le> mi_schedule_version r"

datatype graph_task = Gt_market_analysis | Gt_deep_research | Gt_monitor_ingress

text \<open>
  The request as it arrives: an object without a \<open>task_type\<close>, with one of the three known ones,
  with another one, or something that is not an object.
\<close>

datatype raw_request =
    Raw_untyped analysis_request
  | Raw_market analysis_request
  | Raw_deep deep_research_request
  | Raw_monitor monitor_ingress_request
  | Raw_unsupported string
  | Raw_not_object

record analysis_state =
  st_lifecycle :: "string option"
  st_task_type :: "graph_task option"
  st_request :: "raw_request option"
  st_market_snapshot :: "market_snapshot option"
  st_research_bundle :: "research_bundle option"
  st_web_evidence :: "web_evidence list option"
  st_model_audits :: "model_execution_audit list option"
  st_analysis :: "market_analysis option"
  st_evidence_verdict :: "evidence_verdict option"
  st_risk_verdict :: "risk_verdict option"
  st_artifact :: "artifact option"
  st_deep_artifact :: "deep_research_artifact option"
  st_monitor_trigger :: "json option"
  st_admitted_task_id :: "string option"
  st_harness_mode :: "research_harness_mode option"
  st_review_policy :: "string option"
  st_review_action :: "review_action option"
  st_review_edits :: "review_edits option"
  st_review_comment :: "string option"
  st_review_iteration :: "int option"
  st_terminal_status :: "string option"
  st_errors :: "json list option"

definition iteration :: "analysis_state \<Rightarrow> int" where
  "iteration s = (case st_review_iteration s of None \<Rightarrow> 0 | Some i \<Rightarrow> i)"

definition web_evidence_or_empty :: "analysis_state \<Rightarrow> web_evidence list" where
  "web_evidence_or_empty s = (case st_web_evidence s of None \<Rightarrow> [] | Some es \<Rightarrow> es)"

definition audits_or_empty :: "analysis_state \<Rightarrow> model_execution_audit list" where
  "audits_or_empty s = (case st_model_audits s of None \<Rightarrow> [] | Some es \<Rightarrow> es)"

section \<open>Parameters of a run\<close>

record graph_params =
  gp_config :: run_config
  gp_digest :: "event_identity \<Rightarrow> string"
  gp_redact :: "string \<Rightarrow> string"
  gp_has_base_url :: bool
  gp_endpoint_host :: "string option"
  gp_search_provider :: string
  gp_model_name :: string

section \<open>What the outside answers\<close>

text \<open>The attributes of a caught exception that the nodes read.\<close>

record caught_exception =
  cx_type :: string
  cx_error_type :: "string option"
  cx_retryable :: bool
  cx_transient :: bool
  cx_provider :: "string option"
  cx_attempt :: "int option"

record provider_unavailable =
  pu_provider :: string
  pu_endpoint :: string
  pu_retryable :: bool
  pu_correlation_id :: string
  pu_attempt :: "int option"
  pu_retry_exhausted :: bool

record provider_candle =
  pcd_timestamp_ms :: int
  pcd_open :: decimal
  pcd_high :: decimal
  pcd_low :: decimal
  pcd_close :: decimal
  pcd_volume :: decimal

record provider_snapshot =
  ps_symbol :: string
  ps_source_level :: string
  ps_client_timestamp_ms :: int
  ps_ticker_last :: decimal
  ps_mark_price :: decimal
  ps_index_price :: decimal
  ps_funding_rate :: decimal
  ps_open_interest :: decimal
  ps_bids :: "(decimal \<times> decimal) list"
  ps_asks :: "(decimal \<times> decimal) list"
  ps_candles :: "provider_candle list"

datatype fetch_result =
    Fetched "market_snapshot model_input"
  | Fetched_provider provider_snapshot
  | Fetch_unavailable provider_unavailable
  | Fetch_raised

datatype fallback_result =
    No_fallback
  | Fallback_ok market_snapshot "web_evidence list" model_execution_audit
  | Fallback_error caught_exception
  | Fallback_raised

datatype research_result =
    Research_ok research_bundle "web_evidence list" "model_execution_audit option"
  | Research_error caught_exception
  | Research_raised

datatype agent_result =
    Agent_ok market_analysis model_execution_audit
  | Agent_invalid_output string
  | Agent_transient string
  | Agent_other string

datatype deep_failure_kind = Search_failure | Readiness_failure | Budget_failure | Model_failure

datatype deep_result =
    No_deep_runtime
  | Deep_ok deep_research_artifact "web_evidence list" "model_execution_audit list" research_harness_mode
  | Deep_error deep_failure_kind caught_exception
  | Deep_raised

datatype admission_result =
    Admission_raised
  | Admission_receipt string "string option" json

record graph_env =
  env_fetch :: fetch_result
  env_fallback :: fallback_result
  env_research :: research_result
  env_agent :: agent_result
  env_deep :: deep_result
  env_admission :: admission_result
  env_response :: review_response

section \<open>Errors that end a run\<close>

datatype node_error = Key_error string | Invalid_value | Uncaught_exception | Attribute_error

type_synonym node_result = "(node_error, analysis_state \<times> product_event list) result"

fun or_value_error :: "'a validated \<Rightarrow> (node_error, 'a) result" where
  "or_value_error (Inl e) = Inl Invalid_value"
| "or_value_error (Inr x) = Inr x"

definition require_key :: "string \<Rightarrow> 'a option \<Rightarrow> (node_error, 'a) result" where
  "require_key k v = (case v of None \<Rightarrow> Inl (Key_error k) | Some x \<Rightarrow> Inr x)"

definition with_events :: "emitted list \<Rightarrow> analysis_state \<Rightarrow> node_result" where
  "with_events es s = rbind (or_value_error (emit_all es)) (\<lambda>evs. Inr (s, evs))"

lemma or_value_error_Inr [simp]: "or_value_error m = Inr x \<longleftrightarrow> m = Inr x"
  by (cases m) auto

lemma require_key_Inr [simp]: "require_key k v = Inr x \<longleftrightarrow> v = Some x"
  by (auto simp: require_key_def split: option.splits)

lemma with_events_Inr [simp]:
  "with_events es s = Inr (s', evs) \<longleftrightarrow> s' = s \<and> emit_all es = Inr evs"
  by (auto simp: with_events_def rbind_Inr_iff)

end
