(* ===== verification/Graph_Nodes.thy ===== *)
theory Graph_Nodes
  imports Graph_State
begin

text \<open>
  The nodes of the product graph (\<open>graph/graph.py\<close>), one function per node, in the order of
  the file. A node reads the state and what the outside answers, and returns the updated state
  with the events it emitted, or the error that ends the run.
\<close>

section \<open>Request validation\<close>

definition server_review_policy :: "graph_params \<Rightarrow> (node_error, json) result" where
  "server_review_policy p = (case cfg_configurable (gp_config p) of
     None \<Rightarrow> Inr (JStr ''bypass'')
   | Some c \<Rightarrow> (if is_mapping c
       then Inr (case json_get ''review_policy'' c of None \<Rightarrow> JStr ''bypass'' | Some v \<Rightarrow> v)
       else Inl Attribute_error))"

definition is_review_policy :: "string \<Rightarrow> bool" where
  "is_review_policy v \<longleftrightarrow> v = ''bypass'' \<or> v = ''required''"

definition load_request :: "graph_params \<Rightarrow> raw_request option
    \<Rightarrow> (node_error, graph_task \<times> raw_request \<times> bool) result" where
  "load_request p raw = (case raw of
     Some (Raw_deep r) \<Rightarrow> rbind (or_value_error (mk_deep_research_request (gp_redact p) r))
       (\<lambda>v. Inr (Gt_deep_research, Raw_deep v, False))
   | Some (Raw_monitor r) \<Rightarrow> rbind (or_value_error (construct valid_monitor_ingress_request r))
       (\<lambda>v. Inr (Gt_monitor_ingress, Raw_monitor v, False))
   | Some (Raw_untyped r) \<Rightarrow> rbind (or_value_error (mk_analysis_request (gp_redact p) r))
       (\<lambda>v. Inr (Gt_market_analysis, Raw_market v, aq_notify v))
   | Some (Raw_market r) \<Rightarrow> rbind (or_value_error (mk_analysis_request (gp_redact p) r))
       (\<lambda>v. Inr (Gt_market_analysis, Raw_market v, aq_notify v))
   | Some (Raw_unsupported t) \<Rightarrow> Inl Invalid_value
   | Some Raw_not_object \<Rightarrow> Inl Invalid_value
   | None \<Rightarrow> Inl Invalid_value)"

definition effective_review_policy :: "graph_params \<Rightarrow> analysis_state \<Rightarrow> (node_error, string) result" where
  "effective_review_policy p s =
     (let requested = (case st_review_policy s of None \<Rightarrow> ''bypass'' | Some v \<Rightarrow> v) in
      rbind (server_review_policy p) (\<lambda>server.
        if \<not> is_review_policy requested \<or> server \<notin> {JStr ''bypass'', JStr ''required''}
        then Inl Invalid_value
        else Inr (if requested = ''required'' \<or> server = JStr ''required''
                  then ''required'' else ''bypass'')))"

definition node_validate_request :: "graph_params \<Rightarrow> analysis_state \<Rightarrow> node_result" where
  "node_validate_request p s =
     rbind (load_request p (st_request s)) (\<lambda>(task, request, notify).
       if task = Gt_monitor_ingress then
         Inr (s\<lparr>st_request := Some request, st_task_type := Some task,
                st_lifecycle := Some ''monitor_ingress_validated'',
                st_terminal_status := Some ''running'', st_errors := Some []\<rparr>, [])
       else
         rbind (effective_review_policy p s) (\<lambda>policy.
           with_events
             [emit_task_progress (gp_digest p) (gp_config p) 10 ''request_validated'' Active,
              emit_notification (gp_digest p) (gp_config p) 11 notify]
             (s\<lparr>st_request := Some request, st_task_type := Some task,
                st_review_policy := Some policy, st_review_action := None,
                st_review_edits := None, st_review_comment := None,
                st_review_iteration := Some 0, st_lifecycle := Some ''request_validated'',
                st_terminal_status := Some ''running'', st_errors := Some []\<rparr>)))"

definition load_deep_request :: "graph_params \<Rightarrow> analysis_state \<Rightarrow> (node_error, deep_research_request) result" where
  "load_deep_request p s = rbind (require_key ''request'' (st_request s)) (\<lambda>raw. case raw of
     Raw_deep r \<Rightarrow> or_value_error (mk_deep_research_request (gp_redact p) r)
   | _ \<Rightarrow> Inl Invalid_value)"

definition load_analysis_request :: "graph_params \<Rightarrow> analysis_state \<Rightarrow> (node_error, analysis_request) result" where
  "load_analysis_request p s = rbind (require_key ''request'' (st_request s)) (\<lambda>raw. case raw of
     Raw_untyped r \<Rightarrow> or_value_error (mk_analysis_request (gp_redact p) r)
   | Raw_market r \<Rightarrow> or_value_error (mk_analysis_request (gp_redact p) r)
   | _ \<Rightarrow> Inl Invalid_value)"

section \<open>Model audits as JSON\<close>

definition opt_json :: "('a \<Rightarrow> json) \<Rightarrow> 'a option \<Rightarrow> json" where
  "opt_json f v = (case v of None \<Rightarrow> JNull | Some x \<Rightarrow> f x)"

definition audit_json :: "model_execution_audit \<Rightarrow> json" where
  "audit_json a = JObj
     [(''prompt_version'', JStr (au_prompt_version a)), (''call_count'', JInt (au_call_count a)),
      (''input_tokens'', opt_json JInt (au_input_tokens a)),
      (''output_tokens'', opt_json JInt (au_output_tokens a)),
      (''total_tokens'', opt_json JInt (au_total_tokens a)),
      (''latency_ms'', JFloat (au_latency_ms a)),
      (''observation_ids'', JArr (map JStr (au_observation_ids a)))]"

section \<open>Deep research\<close>

definition failed_with :: "json list \<Rightarrow> analysis_state \<Rightarrow> analysis_state" where
  "failed_with errors s = s\<lparr>st_terminal_status := Some ''failed'', st_errors := Some errors\<rparr>"

definition or_type :: "caught_exception \<Rightarrow> string" where
  "or_type x = (case cx_error_type x of None \<Rightarrow> cx_type x | Some t \<Rightarrow> if t = [] then cx_type x else t)"

definition retryable_failure :: "caught_exception \<Rightarrow> bool" where
  "retryable_failure x \<longleftrightarrow> cx_retryable x \<or> cx_transient x"

definition correlation_of :: "run_config \<Rightarrow> json" where
  "correlation_of c = (case cfg_metadata c of None \<Rightarrow> JNull | Some m \<Rightarrow> get_or_null ''correlation_id'' m)"

definition deep_research_failure_error ::
  "deep_failure_kind \<Rightarrow> caught_exception \<Rightarrow> run_config \<Rightarrow> bool \<Rightarrow> json" where
  "deep_research_failure_error kind x config retryable =
     (let provider = (case kind of
            Search_failure \<Rightarrow> (case cx_provider x of None \<Rightarrow> ''search''
                               | Some v \<Rightarrow> if v = [] then ''search'' else v)
          | Readiness_failure \<Rightarrow> ''search_readiness''
          | Budget_failure \<Rightarrow> ''deepagents''
          | Model_failure \<Rightarrow> ''model'');
          endpoint = (case kind of
            Search_failure \<Rightarrow> ''verified_web_search''
          | Readiness_failure \<Rightarrow> ''startup_probe''
          | Budget_failure \<Rightarrow> ''delegation_budget''
          | Model_failure \<Rightarrow> ''deep_research_model'')
      in JObj ([(''code'', JStr ''deep_research_unavailable''), (''error_type'', JStr (or_type x)),
             (''retryable'', JBool retryable), (''provider'', JStr provider),
             (''endpoint'', JStr endpoint)]
           @ (case cx_attempt x of None \<Rightarrow> []
              | Some n \<Rightarrow> if 1 \<le> n \<and> n \<le> 100 then [(''attempt'', JInt n)] else [])
           @ (case py_str (correlation_of config) of None \<Rightarrow> []
              | Some c \<Rightarrow> if c = [] then [] else [(''correlation_id'', JStr c)])))"

definition node_run_deep_research :: "graph_params \<Rightarrow> deep_result \<Rightarrow> analysis_state \<Rightarrow> node_result" where
  "node_run_deep_research p outcome s =
     rbind (load_deep_request p s) (\<lambda>request.
       let progress = emit_task_progress (gp_digest p) (gp_config p) in
       case outcome of
         No_deep_runtime \<Rightarrow>
           with_events [progress 20 ''deep_research'' Progress_failed]
             (failed_with [JObj [(''code'', JStr ''deep_research_unavailable''),
                (''error_type'', JStr ''MissingDeepResearchRuntime''), (''retryable'', JBool False)]] s)
       | Deep_error kind x \<Rightarrow>
           with_events [progress 20 ''deep_research'' Active,
                        progress 20 ''deep_research'' Progress_failed]
             (failed_with [deep_research_failure_error kind x (gp_config p) (retryable_failure x)] s)
       | Deep_raised \<Rightarrow> Inl Uncaught_exception
       | Deep_ok result evidence audits mode \<Rightarrow>
           rbind (or_value_error (construct valid_deep_research_artifact
                    (result\<lparr>da_status := Deep_draft\<rparr>))) (\<lambda>art.
             with_events
               [progress 20 ''deep_research'' Active,
                progress 30 ''deep_research_draft_ready'' Progress_complete,
                emit_evidence (gp_digest p) (gp_config p) 31 Collected (int (length evidence)) None,
                emit_usage (gp_digest p) (gp_config p) 32 (map audit_json audits),
                emit_artifact (gp_digest p) (gp_config p) 33 Event_draft 1]
               (s\<lparr>st_deep_artifact := Some art, st_web_evidence := Some evidence,
                  st_model_audits := Some audits, st_harness_mode := Some mode,
                  st_lifecycle := Some ''deep_research_draft_ready''\<rparr>)))"

section \<open>Market data\<close>

definition provider_level :: "decimal \<times> decimal \<Rightarrow> price_level" where
  "provider_level ps = \<lparr>pl_price = fst ps, pl_size = snd ps\<rparr>"

definition to_domain_candle :: "provider_candle \<Rightarrow> candle" where
  "to_domain_candle c = \<lparr>cd_timestamp = Aware (1000 * pcd_timestamp_ms c), cd_open = pcd_open c,
     cd_high = pcd_high c, cd_low = pcd_low c, cd_close = pcd_close c, cd_volume = pcd_volume c\<rparr>"

definition to_domain_snapshot :: "provider_snapshot \<Rightarrow> market_snapshot validated" where
  "to_domain_snapshot s =
     (case (parse_symbol (ps_symbol s), parse_source_level (ps_source_level s)) of
        (Some sy, Some level) \<Rightarrow> construct valid_market_snapshot
          \<lparr>ms_symbol = sy, ms_fetched_at = Aware (1000 * ps_client_timestamp_ms s),
           ms_source_level = level,
           ms_ticker = Some \<lparr>tk_last = ps_ticker_last s, tk_bid = None, tk_ask = None,
                             tk_volume_24h = None\<rparr>,
           ms_mark_price = Some (ps_mark_price s), ms_index_price = Some (ps_index_price s),
           ms_funding_rate = Some (ps_funding_rate s),
           ms_open_interest = Some (ps_open_interest s),
           ms_order_book = Some \<lparr>ob_bids = map provider_level (ps_bids s),
                                 ob_asks = map provider_level (ps_asks s)\<rparr>,
           ms_candles = map to_domain_candle (ps_candles s)\<rparr>
      | _ \<Rightarrow> Inl ValidationError)"

definition market_provider_failure :: "provider_unavailable \<Rightarrow> analysis_state \<Rightarrow> analysis_state" where
  "market_provider_failure x s = failed_with
     [JObj [(''code'', JStr ''provider_unavailable''), (''provider'', JStr (pu_provider x)),
        (''endpoint'', JStr (pu_endpoint x)), (''retryable'', JBool (pu_retryable x)),
        (''correlation_id'', JStr (pu_correlation_id x))]] s"

definition fallback_admitted :: "fallback_result \<Rightarrow> provider_unavailable \<Rightarrow> bool" where
  "fallback_admitted fallback x \<longleftrightarrow> \<not> (fallback = No_fallback \<or> pu_provider x \<noteq> ''okx''
     \<or> \<not> pu_retryable x \<or> \<not> pu_retry_exhausted x)"

definition market_collected :: "graph_params \<Rightarrow> market_snapshot \<Rightarrow> analysis_state \<Rightarrow> node_result" where
  "market_collected p m s =
     with_events [emit_task_progress (gp_digest p) (gp_config p) 20 ''market_collected'' Progress_complete]
       (s\<lparr>st_market_snapshot := Some m, st_lifecycle := Some ''market_collected''\<rparr>)"

definition fallback_failure_error :: "caught_exception \<Rightarrow> provider_unavailable \<Rightarrow> json" where
  "fallback_failure_error f x = JObj
     [(''code'', JStr ''provider_unavailable''),
      (''provider'', JStr (case cx_provider f of None \<Rightarrow> ''builtin_web_search'' | Some v \<Rightarrow> v)),
      (''endpoint'', JStr ''web_search_market''), (''error_type'', JStr (or_type f)),
      (''retryable'', JBool (retryable_failure f)), (''fallback_from'', JStr (pu_provider x)),
      (''primary_attempt'', opt_json JInt (pu_attempt x)),
      (''correlation_id'', JStr (pu_correlation_id x))]"

definition node_collect_market_snapshot ::
  "graph_params \<Rightarrow> fetch_result \<Rightarrow> fallback_result \<Rightarrow> analysis_state \<Rightarrow> node_result" where
  "node_collect_market_snapshot p fetch fallback s =
     rbind (load_analysis_request p s) (\<lambda>request.
       let failed = emit_task_progress (gp_digest p) (gp_config p) 20 ''market_collection'' Progress_failed in
       case fetch of
         Fetched i \<Rightarrow> rbind (or_value_error (validate_input valid_market_snapshot i))
           (\<lambda>m. market_collected p m s)
       | Fetched_provider ps \<Rightarrow> rbind (or_value_error (to_domain_snapshot ps))
           (\<lambda>m. market_collected p m s)
       | Fetch_raised \<Rightarrow> Inl Uncaught_exception
       | Fetch_unavailable x \<Rightarrow>
           (if \<not> fallback_admitted fallback x
            then with_events [failed] (market_provider_failure x s)
            else case fallback of
              Fallback_error f \<Rightarrow> with_events [failed] (failed_with [fallback_failure_error f x] s)
            | Fallback_ok m evidence audit \<Rightarrow>
                with_events [emit_task_progress (gp_digest p) (gp_config p) 20 ''market_collected''
                               Progress_complete]
                  (s\<lparr>st_market_snapshot := Some m, st_web_evidence := Some evidence,
                     st_model_audits := Some [audit],
                     st_lifecycle := Some ''market_collected_with_web_search_fallback''\<rparr>)
            | _ \<Rightarrow> Inl Uncaught_exception))"

section \<open>Research\<close>

fun merge_from :: "(string \<times> string) list \<Rightarrow> web_evidence list \<Rightarrow> web_evidence list" where
  "merge_from seen [] = []"
| "merge_from seen (e # es) =
     (if evidence_key e \<in> set seen then merge_from seen es
      else e # merge_from (evidence_key e # seen) es)"

definition merge_web_evidence :: "web_evidence list \<Rightarrow> web_evidence list \<Rightarrow> web_evidence list" where
  "merge_web_evidence existing incoming = merge_from [] (existing @ incoming)"

definition effective_web_evidence :: "web_evidence list \<Rightarrow> web_evidence list" where
  "effective_web_evidence es =
     filter (\<lambda>e. lower (strip (we_evidence_relation e)) \<noteq> ''excluded'') es"

definition research_failure_error :: "caught_exception \<Rightarrow> json" where
  "research_failure_error x = JObj
     ([(''code'', JStr ''research_unavailable''), (''endpoint'', JStr ''research_events''),
       (''error_type'', JStr (or_type x)), (''retryable'', JBool (retryable_failure x))]
      @ (case cx_provider x of None \<Rightarrow> [] | Some v \<Rightarrow> if v = [] then [] else [(''provider'', JStr v)])
      @ (case cx_attempt x of None \<Rightarrow> [] | Some n \<Rightarrow> if n > 0 then [(''attempt'', JInt n)] else []))"

definition node_research_events :: "graph_params \<Rightarrow> research_result \<Rightarrow> analysis_state \<Rightarrow> node_result" where
  "node_research_events p outcome s =
     rbind (load_analysis_request p s) (\<lambda>request.
       case outcome of
         Research_raised \<Rightarrow> Inl Uncaught_exception
       | Research_error x \<Rightarrow>
           with_events [emit_task_progress (gp_digest p) (gp_config p) 30 ''research_collection''
                          Progress_failed]
             (failed_with [research_failure_error x] s)
       | Research_ok bundle evidence audit \<Rightarrow>
           (let merged = merge_web_evidence (web_evidence_or_empty s) evidence in
            with_events
              [emit_task_progress (gp_digest p) (gp_config p) 30 ''research_collected'' Progress_complete,
               emit_evidence (gp_digest p) (gp_config p) 31 Collected
                 (int (length (effective_web_evidence merged))) None]
              (s\<lparr>st_research_bundle := Some bundle, st_web_evidence := Some merged,
                 st_model_audits := Some (audits_or_empty s
                   @ (case audit of None \<Rightarrow> [] | Some a \<Rightarrow> [a])),
                 st_lifecycle := Some ''research_collected''\<rparr>)))"

section \<open>Analysis\<close>

definition model_failure :: "graph_params \<Rightarrow> string \<Rightarrow> string \<Rightarrow> bool \<Rightarrow> analysis_state \<Rightarrow> node_result" where
  "model_failure p code error_type retryable s =
     with_events [emit_task_progress (gp_digest p) (gp_config p) 40 ''analysis'' Progress_failed]
       (failed_with [JObj [(''code'', JStr code), (''error_type'', JStr error_type),
          (''retryable'', JBool retryable)]] s)"

definition output_mismatch :: "graph_params \<Rightarrow> string \<Rightarrow> string \<Rightarrow> string \<Rightarrow> analysis_state \<Rightarrow> node_result" where
  "output_mismatch p field expected actual s =
     with_events [emit_task_progress (gp_digest p) (gp_config p) 40 ''analysis'' Progress_failed]
       (failed_with [JObj [(''code'', JStr ''model_output_mismatch''), (''field'', JStr field),
          (''expected'', JStr expected), (''actual'', JStr actual), (''retryable'', JBool False)]] s)"

definition node_analyze_market :: "graph_params \<Rightarrow> agent_result \<Rightarrow> analysis_state \<Rightarrow> node_result" where
  "node_analyze_market p outcome s =
     (let effective = effective_web_evidence (web_evidence_or_empty s) in
      rbind (require_key ''request'' (st_request s)) (\<lambda>_.
      rbind (require_key ''market_snapshot'' (st_market_snapshot s)) (\<lambda>snapshot.
      rbind (require_key ''research_bundle'' (st_research_bundle s)) (\<lambda>bundle.
        case outcome of
          Agent_invalid_output t \<Rightarrow> model_failure p ''model_invalid_output'' t False s
        | Agent_transient t \<Rightarrow> model_failure p ''model_unavailable'' t True s
        | Agent_other t \<Rightarrow> model_failure p ''model_unavailable'' t False s
        | Agent_ok a audit \<Rightarrow>
            rbind (load_analysis_request p s) (\<lambda>request.
              if ma_instrument a \<noteq> aq_symbol request then
                output_mismatch p ''instrument'' (symbol_str (aq_symbol request))
                  (symbol_str (ma_instrument a)) s
              else if ma_horizon a \<noteq> aq_horizon request then
                output_mismatch p ''horizon'' (aq_horizon request) (ma_horizon a) s
              else
                rbind (or_value_error (derive_unavailable_data (Some (Fields snapshot))
                         (Some (Fields bundle)) (int (length effective)))) (\<lambda>unavailable.
                  let audits = audits_or_empty s @ [audit] in
                  with_events
                    [emit_task_progress (gp_digest p) (gp_config p) 40 ''analysis_completed''
                       Progress_complete,
                     emit_usage (gp_digest p) (gp_config p) 41 (map audit_json audits)]
                    (s\<lparr>st_model_audits := Some audits,
                       st_analysis := Some (a\<lparr>ma_unavailable_data := unavailable\<rparr>),
                       st_lifecycle := Some ''analysis_completed''\<rparr>)))))))"

section \<open>Properties\<close>

lemma merge_from_keys:
  "set (map evidence_key (merge_from seen es)) = set (map evidence_key es) - set seen"
  by (induction seen es rule: merge_from.induct) auto

lemma merge_from_distinct: "distinct (map evidence_key (merge_from seen es))"
proof (induction seen es rule: merge_from.induct)
  case (2 seen e es)
  have "evidence_key e \<notin> set (map evidence_key (merge_from (evidence_key e # seen) es))"
    unfolding merge_from_keys by simp
  with 2 show ?case by auto
qed simp

lemma merge_from_append: "\<exists>zs. merge_from seen (xs @ ys) = merge_from seen xs @ zs"
  by (induction seen xs rule: merge_from.induct) auto

text \<open>
  Merging web evidence keeps one entry for each address and content, loses none of either
  list, and leaves the evidence collected before in front.
\<close>

lemma merged_evidence_unique:
  "distinct (map evidence_key (merge_web_evidence xs ys))
   \<and> set (map evidence_key (merge_web_evidence xs ys)) = evidence_key ` set xs \<union> evidence_key ` set ys
   \<and> (\<exists>zs. merge_web_evidence xs ys = merge_web_evidence xs [] @ zs)"
  using merge_from_append [of "[]" xs ys] merge_from_keys [of "[]" "xs @ ys"]
  by (simp only: merge_web_evidence_def merge_from_distinct) auto

text \<open>
  When the exchange is unavailable, the market node goes on only through the fallback, and
  only for an exchange failure that was retryable with its retries exhausted: the state then
  holds the fallback's snapshot and evidence. In every other case the run is marked failed and
  the market data of the state stays as it was.
\<close>

theorem market_fallback_only_when_exhausted:
  assumes "node_collect_market_snapshot p (Fetch_unavailable x) fallback s = Inr (t, evs)"
  shows "(\<exists>m evidence audit. fallback = Fallback_ok m evidence audit \<and> pu_provider x = ''okx''
            \<and> pu_retryable x \<and> pu_retry_exhausted x \<and> st_market_snapshot t = Some m
            \<and> st_web_evidence t = Some evidence \<and> st_terminal_status t = st_terminal_status s)
       \<or> (st_terminal_status t = Some ''failed'' \<and> st_market_snapshot t = st_market_snapshot s
            \<and> st_web_evidence t = st_web_evidence s)"
  using assms
  by (cases fallback)
    (auto simp: node_collect_market_snapshot_def rbind_Inr_iff Let_def fallback_admitted_def
      market_provider_failure_def failed_with_def simp del: emit_all.simps split: if_splits)

definition sample_params :: graph_params where
  "sample_params = \<lparr>gp_config = sample_config, gp_digest = sample_digest, gp_redact = (\<lambda>t. t),
     gp_has_base_url = False, gp_endpoint_host = None, gp_search_provider = ''search'',
     gp_model_name = ''model''\<rparr>"

definition sample_request :: analysis_request where
  "sample_request = \<lparr>aq_symbol = BTC_USDT_SWAP, aq_horizon = ''4h'', aq_query_text = ''q'', aq_notify = False\<rparr>"

definition sample_state :: analysis_state where
  "sample_state = \<lparr>st_lifecycle = None, st_task_type = None, st_request = Some (Raw_market sample_request),
     st_market_snapshot = None, st_research_bundle = None, st_web_evidence = None,
     st_model_audits = None, st_analysis = None, st_evidence_verdict = None, st_risk_verdict = None,
     st_artifact = None, st_deep_artifact = None, st_monitor_trigger = None,
     st_admitted_task_id = None, st_harness_mode = None, st_review_policy = Some ''required'',
     st_review_action = None, st_review_edits = None, st_review_comment = None,
     st_review_iteration = None, st_terminal_status = None, st_errors = None\<rparr>"

definition sample_outage :: provider_unavailable where
  "sample_outage = \<lparr>pu_provider = ''okx'', pu_endpoint = ''ticker'', pu_retryable = False,
     pu_correlation_id = ''c'', pu_attempt = None, pu_retry_exhausted = False\<rparr>"

lemma sample_request_loads:
  "load_analysis_request sample_params sample_state = Inr sample_request"
  by (simp add: load_analysis_request_def sample_params_def sample_state_def sample_request_def
      require_key_def mk_analysis_request_def valid_analysis_request_def len_between_def construct_def)

lemma sample_params_emission [simp]: "gp_digest sample_params = sample_digest" "gp_config sample_params = sample_config"
  by (simp_all add: sample_params_def)

theorem market_fallback_only_when_exhausted_witness:
  "\<exists>t evs. node_collect_market_snapshot sample_params (Fetch_unavailable sample_outage)
       (Fallback_ok sample_snapshot [] sample_audit) sample_state = Inr (t, evs)
     \<and> st_terminal_status t = Some ''failed'' \<and> st_market_snapshot t = None"
proof -
  obtain t evs where run: "node_collect_market_snapshot sample_params (Fetch_unavailable sample_outage)
      (Fallback_ok sample_snapshot [] sample_audit) sample_state = Inr (t, evs)"
    by (simp add: node_collect_market_snapshot_def sample_request_loads fallback_admitted_def
        sample_outage_def with_events_def sample_progress emit_task_progress_def len_between_def
        phase_char_def)
  from market_fallback_only_when_exhausted [OF run] run show ?thesis
    by (simp add: sample_outage_def sample_state_def)
qed

end
