(* ===== verification/Graph_Review.thy ===== *)
theory Graph_Review
  imports Graph_Nodes
begin

text \<open>
  The second half of the graph's nodes: the evidence and risk gates, the artifact draft, the
  human review with its edits, the commit and the three ways a run completes.
\<close>

section \<open>Gates\<close>

definition sequence_offset :: "analysis_state \<Rightarrow> int" where
  "sequence_offset s = iteration s * 100"

definition node_validate_evidence :: "graph_params \<Rightarrow> analysis_state \<Rightarrow> node_result" where
  "node_validate_evidence p s =
     rbind (require_key ''market_snapshot'' (st_market_snapshot s)) (\<lambda>m0.
     rbind (or_value_error (construct valid_market_snapshot m0)) (\<lambda>m.
     rbind (require_key ''research_bundle'' (st_research_bundle s)) (\<lambda>r0.
     rbind (or_value_error (construct valid_research_bundle r0)) (\<lambda>r.
     rbind (require_key ''analysis'' (st_analysis s)) (\<lambda>a0.
     rbind (or_value_error (construct valid_market_analysis a0)) (\<lambda>a.
     rbind (or_value_error (check_evidence_sufficiency (Some (Instance m)) (Some (Instance r))
              (ActionValue (ma_main_action a)))) (\<lambda>verdict.
       with_events
         [emit_task_progress (gp_digest p) (gp_config p) (50 + sequence_offset s)
            ''evidence_validated''
            (if ev_sufficient verdict then Progress_complete else Progress_blocked),
          emit_evidence (gp_digest p) (gp_config p) (51 + sequence_offset s) Validated
            (int (length (effective_web_evidence (web_evidence_or_empty s))))
            (Some (ev_sufficient verdict))]
         (s\<lparr>st_evidence_verdict := Some verdict,
            st_lifecycle := Some ''evidence_validated''\<rparr>))))))))"

definition node_apply_risk :: "graph_params \<Rightarrow> analysis_state \<Rightarrow> node_result" where
  "node_apply_risk p s =
     rbind (require_key ''analysis'' (st_analysis s)) (\<lambda>a.
     rbind (require_key ''evidence_verdict'' (st_evidence_verdict s)) (\<lambda>ev.
     rbind (or_value_error (apply_risk_policy (Fields a) (Fields ev) None)) (\<lambda>verdict.
       with_events
         [emit_task_progress (gp_digest p) (gp_config p) (60 + sequence_offset s)
            ''risk_validated'' (if rv_allowed verdict then Progress_complete else Progress_blocked),
          emit_quality (gp_digest p) (gp_config p) (61 + sequence_offset s) (ev_sufficient ev)
            (rv_allowed verdict) (int (length (rv_warnings verdict)))
            (int (length (rv_blocked_reasons verdict)))]
         (s\<lparr>st_risk_verdict := Some verdict,
            st_terminal_status := Some (if rv_allowed verdict then ''running'' else ''blocked''),
            st_lifecycle := Some ''risk_validated''\<rparr>))))"

section \<open>The artifact draft\<close>

definition joined_or :: "string list \<Rightarrow> string \<Rightarrow> string" where
  "joined_or names fallback =
     (let joined = join '', '' (sort (remdups (filter (\<lambda>n. n \<noteq> []) names)))
      in if joined = [] then fallback else joined)"

definition provenance_of ::
  "graph_params \<Rightarrow> source_level \<Rightarrow> web_evidence list \<Rightarrow> model_execution_audit list \<Rightarrow> artifact_provenance" where
  "provenance_of p level effective audits =
     (let controlled = (level = Controlled_dependency) in
      \<lparr>pv_market_provider = (if controlled then ''controlled_dependency''
          else if level = Web_search_verified then ''web_search_market'' else ''okx''),
       pv_search_provider = joined_or (map we_source effective) (gp_search_provider p),
       pv_search_parser_version = joined_or (map we_parser_version effective) ''unavailable'',
       pv_model_provider = (if controlled then ''controlled_dependency''
          else if gp_has_base_url p then ''openai-compatible'' else ''openai''),
       pv_model_name = (if controlled then ''controlled-dependency-test'' else gp_model_name p),
       pv_model_endpoint_host = (if controlled then None
          else if gp_has_base_url p then gp_endpoint_host p else None),
       pv_model_audits = audits\<rparr>)"

definition node_build_artifact :: "graph_params \<Rightarrow> analysis_state \<Rightarrow> node_result" where
  "node_build_artifact p s =
     rbind (require_key ''market_snapshot'' (st_market_snapshot s)) (\<lambda>m.
     rbind (require_key ''web_evidence'' (st_web_evidence s)) (\<lambda>evidence.
     rbind (require_key ''analysis'' (st_analysis s)) (\<lambda>a.
     rbind (require_key ''evidence_verdict'' (st_evidence_verdict s)) (\<lambda>ev.
     rbind (require_key ''risk_verdict'' (st_risk_verdict s)) (\<lambda>rv.
       let effective = effective_web_evidence evidence in
       rbind (or_value_error (construct valid_artifact
           \<lparr>ar_schema_version = ''1.0'', ar_content_version = 1, ar_status = Draft,
            ar_analysis = a, ar_evidence_verdict = ev, ar_risk_verdict = rv,
            ar_source_references = map we_final_url effective,
            ar_provenance = Some (provenance_of p (ms_source_level m) effective
              (audits_or_empty s))\<rparr>)) (\<lambda>art.
         with_events
           [emit_task_progress (gp_digest p) (gp_config p) (70 + sequence_offset s)
              ''artifact_built'' Progress_complete,
            emit_artifact (gp_digest p) (gp_config p) (71 + sequence_offset s) Event_draft
              (ar_content_version art)]
           (s\<lparr>st_artifact := Some art, st_lifecycle := Some ''artifact_built''\<rparr>)))))))"

section \<open>Review\<close>

definition policy_or_bypass :: "analysis_state \<Rightarrow> string" where
  "policy_or_bypass s = (case st_review_policy s of None \<Rightarrow> ''bypass'' | Some v \<Rightarrow> v)"

definition node_review_policy :: "graph_params \<Rightarrow> analysis_state \<Rightarrow> node_result" where
  "node_review_policy p s =
     with_events
       [emit_task_progress (gp_digest p) (gp_config p) (80 + sequence_offset s)
          (''review_'' @ policy_or_bypass s)
          (if st_review_policy s = Some ''required'' then Active else Progress_complete)]
       (s\<lparr>st_lifecycle := Some (''review_'' @ policy_or_bypass s)\<rparr>)"

fun review_action_str :: "review_action \<Rightarrow> string" where
  "review_action_str Approve = ''approve''"
| "review_action_str Reject = ''reject''"
| "review_action_str Edit = ''edit''"

definition review_payload_of :: "graph_params \<Rightarrow> analysis_state \<Rightarrow> (node_error, review_payload) result" where
  "review_payload_of p s =
     (if st_task_type s = Some Gt_deep_research then
        rbind (load_deep_request p s) (\<lambda>request.
        rbind (require_key ''deep_research_artifact'' (st_deep_artifact s)) (\<lambda>art.
          or_value_error (mk_deep_review_payload (dq_symbol request) (dq_horizon request)
            (iteration s + 1) art)))
      else
        rbind (require_key ''artifact'' (st_artifact s)) (\<lambda>art.
          or_value_error (mk_artifact_review_payload (iteration s + 1) art)))"

definition node_interrupt_review :: "graph_params \<Rightarrow> review_response \<Rightarrow> analysis_state \<Rightarrow> node_result" where
  "node_interrupt_review p response s =
     rbind (review_payload_of p s) (\<lambda>payload.
     rbind (or_value_error (construct valid_review_response response)) (\<lambda>parsed.
     rbind (or_value_error (validate_review_response_for_payload payload parsed)) (\<lambda>decision.
       with_events
         [emit_task_progress (gp_digest p) (gp_config p) (81 + sequence_offset s)
            (''review_'' @ review_action_str (rr_action decision))
            (if rr_action decision = Reject then Progress_blocked else Progress_complete)]
         (s\<lparr>st_review_action := Some (rr_action decision), st_review_edits := rr_edits decision,
            st_review_comment := rr_comment decision,
            st_review_iteration := Some (iteration s + 1),
            st_lifecycle := Some (''review_'' @ review_action_str (rr_action decision))\<rparr>))))"

text \<open>The merge of an edit into the analysis; a required field set to null fails validation.\<close>

fun edit_optional :: "'a edit_field \<Rightarrow> 'a option \<Rightarrow> 'a option" where
  "edit_optional Unset old = old"
| "edit_optional (Set_to v) old = v"

fun edit_required :: "'a edit_field \<Rightarrow> 'a \<Rightarrow> 'a validated" where
  "edit_required Unset old = Inr old"
| "edit_required (Set_to None) old = Inl ValidationError"
| "edit_required (Set_to (Some v)) old = Inr v"

definition merge_artifact_edit :: "artifact_edit \<Rightarrow> market_analysis \<Rightarrow> market_analysis validated" where
  "merge_artifact_edit e a =
     rbind (edit_required (ae_regime e) (ma_regime a)) (\<lambda>v_regime.
     rbind (edit_required (ae_factor_scores e) (ma_factor_scores a)) (\<lambda>v_scores.
     rbind (edit_required (ae_total_score e) (ma_total_score a)) (\<lambda>v_total.
     rbind (edit_required (ae_main_action e) (ma_main_action a)) (\<lambda>v_action.
     rbind (edit_required (ae_reference_price e) (ma_reference_price a)) (\<lambda>v_reference.
     rbind (edit_required (ae_probability e) (ma_probability a)) (\<lambda>v_probability.
     rbind (edit_required (ae_position_size_class e) (ma_position_size_class a)) (\<lambda>v_size.
     rbind (edit_required (ae_max_leverage e) (ma_max_leverage a)) (\<lambda>v_leverage.
     rbind (edit_required (ae_risk_pct e) (ma_risk_pct a)) (\<lambda>v_risk.
     rbind (edit_required (ae_root_cause_chain e) (ma_root_cause_chain a)) (\<lambda>v_root.
     rbind (edit_required (ae_why_not_opposite e) (ma_why_not_opposite a)) (\<lambda>v_why.
     rbind (edit_required (ae_invalidation e) (ma_invalidation a)) (\<lambda>v_invalidation.
     rbind (edit_required (ae_unavailable_data e) (ma_unavailable_data a)) (\<lambda>v_unavailable.
     rbind (edit_required (ae_manual_execution_required e) (ma_manual_execution_required a)) (\<lambda>v_manual.
     rbind (edit_required (ae_expires_in_seconds e) (ma_expires_in_seconds a)) (\<lambda>v_expires.
       Inr (a\<lparr>ma_regime := v_regime, ma_factor_scores := v_scores, ma_total_score := v_total,
              ma_main_action := v_action, ma_reference_price := v_reference,
              ma_entry_trigger := edit_optional (ae_entry_trigger e) (ma_entry_trigger a),
              ma_stop_price := edit_optional (ae_stop_price e) (ma_stop_price a),
              ma_target_1 := edit_optional (ae_target_1 e) (ma_target_1 a),
              ma_target_2 := edit_optional (ae_target_2 e) (ma_target_2 a),
              ma_probability := v_probability, ma_position_size_class := v_size,
              ma_max_leverage := v_leverage, ma_risk_pct := v_risk,
              ma_root_cause_chain := v_root, ma_why_not_opposite := v_why,
              ma_invalidation := v_invalidation, ma_unavailable_data := v_unavailable,
              ma_manual_execution_required := v_manual,
              ma_expires_in_seconds := v_expires\<rparr>))))))))))))))))"

definition edits_applied_event :: "graph_params \<Rightarrow> analysis_state \<Rightarrow> emitted" where
  "edits_applied_event p s =
     (let i = (case st_review_iteration s of None \<Rightarrow> 1 | Some i \<Rightarrow> i) in
      emit_task_progress (gp_digest p) (gp_config p) (82 + max (i - 1) 0 * 100)
        ''review_edits_applied'' Progress_complete)"

definition node_apply_edits :: "graph_params \<Rightarrow> analysis_state \<Rightarrow> node_result" where
  "node_apply_edits p s =
     (if st_task_type s = Some Gt_deep_research then
        (case st_review_edits s of
           Some (Edit_report r) \<Rightarrow>
             rbind (or_value_error (construct valid_deep_research_report r)) (\<lambda>report.
             rbind (require_key ''deep_research_artifact'' (st_deep_artifact s)) (\<lambda>art0.
             rbind (or_value_error (construct valid_deep_research_artifact
                      (art0\<lparr>da_status := Deep_draft, da_report := report\<rparr>))) (\<lambda>art.
               with_events [edits_applied_event p s]
                 (s\<lparr>st_deep_artifact := Some art, st_lifecycle := Some ''review_edits_applied''\<rparr>))))
         | _ \<Rightarrow> Inl Invalid_value)
      else
        (case st_review_edits s of
           Some (Edit_analysis e) \<Rightarrow>
             rbind (or_value_error (construct valid_artifact_edit e)) (\<lambda>edits.
             rbind (require_key ''analysis'' (st_analysis s)) (\<lambda>a0.
             rbind (or_value_error (merge_artifact_edit edits a0)) (\<lambda>merged.
             rbind (or_value_error (construct valid_market_analysis merged)) (\<lambda>a.
               with_events [edits_applied_event p s]
                 (s\<lparr>st_analysis := Some a, st_lifecycle := Some ''review_edits_applied''\<rparr>)))))
         | _ \<Rightarrow> Inl Invalid_value))"

section \<open>Completion\<close>

definition node_commit_artifact :: "graph_params \<Rightarrow> analysis_state \<Rightarrow> node_result" where
  "node_commit_artifact p s =
     (let progress = emit_task_progress (gp_digest p) (gp_config p) (90 + sequence_offset s)
            ''artifact_committed'' Progress_complete;
          committed = emit_artifact (gp_digest p) (gp_config p) (91 + sequence_offset s) Event_committed
      in if st_task_type s = Some Gt_deep_research then
           rbind (require_key ''deep_research_artifact'' (st_deep_artifact s)) (\<lambda>art0.
           rbind (or_value_error (construct valid_deep_research_artifact art0)) (\<lambda>art1.
           rbind (or_value_error (commit_deep_research_artifact art1)) (\<lambda>art.
             with_events [progress, committed 1]
               (s\<lparr>st_deep_artifact := Some art, st_lifecycle := Some ''artifact_committed''\<rparr>))))
         else
           rbind (require_key ''artifact'' (st_artifact s)) (\<lambda>art0.
           rbind (or_value_error (construct valid_artifact (art0\<lparr>ar_status := Committed\<rparr>))) (\<lambda>art.
             with_events [progress, committed (ar_content_version art)]
               (s\<lparr>st_artifact := Some art, st_lifecycle := Some ''artifact_committed''\<rparr>))))"

definition node_complete :: "graph_params \<Rightarrow> analysis_state \<Rightarrow> node_result" where
  "node_complete p s =
     with_events
       [emit_task_progress (gp_digest p) (gp_config p) (100 + sequence_offset s) ''completed''
          Progress_complete]
       (s\<lparr>st_terminal_status := Some ''succeeded'', st_lifecycle := Some ''completed''\<rparr>)"

definition rejected_risk_verdict :: "risk_verdict \<Rightarrow> risk_verdict" where
  "rejected_risk_verdict rv = rv\<lparr>rv_allowed := False,
     rv_blocked_reasons := (if Human_rejected \<in> set (rv_blocked_reasons rv)
        then rv_blocked_reasons rv else rv_blocked_reasons rv @ [Human_rejected]),
     rv_confidence_cap := 0\<rparr>"

definition node_complete_blocked :: "graph_params \<Rightarrow> analysis_state \<Rightarrow> node_result" where
  "node_complete_blocked p s =
     (let lifecycle = (if st_review_action s = Some Reject then ''completed_rejected''
            else ''completed_blocked'');
          done = s\<lparr>st_terminal_status := Some ''blocked'', st_lifecycle := Some lifecycle\<rparr>;
          event = emit_task_progress (gp_digest p) (gp_config p) (100 + sequence_offset s) lifecycle
            Progress_blocked
      in case (st_task_type s = Some Gt_deep_research, st_deep_artifact s) of
           (True, Some art0) \<Rightarrow>
             rbind (or_value_error (construct valid_deep_research_artifact
                      (art0\<lparr>da_status := Deep_draft\<rparr>))) (\<lambda>art.
               with_events [event] (done\<lparr>st_deep_artifact := Some art\<rparr>))
         | _ \<Rightarrow>
             (case (st_review_action s = Some Reject, st_artifact s) of
                (True, Some art0) \<Rightarrow>
                  rbind (or_value_error (construct valid_artifact
                    (art0\<lparr>ar_status := Draft,
                       ar_risk_verdict := rejected_risk_verdict (ar_risk_verdict art0)\<rparr>))) (\<lambda>art.
                    with_events [event] (done\<lparr>st_artifact := Some art\<rparr>))
              | _ \<Rightarrow> with_events [event] done))"

definition node_complete_failed :: "graph_params \<Rightarrow> analysis_state \<Rightarrow> node_result" where
  "node_complete_failed p s =
     with_events
       [emit_task_progress (gp_digest p) (gp_config p) (100 + sequence_offset s) ''completed_failed''
          Progress_failed]
       (s\<lparr>st_terminal_status := Some ''failed'', st_lifecycle := Some ''completed_failed''\<rparr>)"

definition node_monitor_ingress :: "graph_params \<Rightarrow> admission_result \<Rightarrow> analysis_state \<Rightarrow> node_result" where
  "node_monitor_ingress p outcome s =
     rbind (require_key ''request'' (st_request s)) (\<lambda>raw. case raw of
       Raw_monitor r \<Rightarrow>
         rbind (or_value_error (construct valid_monitor_ingress_request r)) (\<lambda>request.
           case outcome of
             Admission_raised \<Rightarrow> Inl Uncaught_exception
           | Admission_receipt status task receipt \<Rightarrow>
               Inr (s\<lparr>st_monitor_trigger := Some receipt, st_admitted_task_id := task,
                      st_lifecycle := Some (''monitor_trigger_'' @ status),
                      st_terminal_status := Some ''succeeded''\<rparr>, []))
     | _ \<Rightarrow> Inl Invalid_value)"

end
