(* ===== verification/Product_Graph.thy ===== *)
theory Product_Graph
  imports Graph_Review
begin

text \<open>
  The canonical graph: its nodes, the routing functions and edges of \<open>graph/graph.py\<close>, and its
  runs as a step relation. A step runs the current node on the state with some answers of the
  outside world, appends the emitted events to the trace and follows the node's edge. The
  invariants of the second half say what holds whenever a node is about to run, and with them
  what a completed run has committed and in which order its events were emitted.
\<close>

section \<open>Edges\<close>

datatype graph_node =
    N_validate_request | N_run_deep_research | N_monitor_ingress | N_collect_market_snapshot
  | N_research_events | N_analyze_market | N_validate_evidence | N_apply_risk | N_build_artifact
  | N_review_policy | N_interrupt_review | N_apply_edits | N_commit_artifact | N_complete
  | N_complete_blocked | N_complete_failed | N_end

definition after_external_call :: "analysis_state \<Rightarrow> bool" where
  \<comment> \<open>whether the edge \<open>failed\<close> is taken\<close>
  "after_external_call s = (st_terminal_status s = Some ''failed'')"

definition after_request_validation :: "analysis_state \<Rightarrow> graph_node" where
  "after_request_validation s =
     (if st_terminal_status s = Some ''failed'' then N_complete_failed
      else if st_task_type s = Some Gt_deep_research then N_run_deep_research
      else if st_task_type s = Some Gt_monitor_ingress then N_monitor_ingress
      else N_collect_market_snapshot)"

definition after_review_policy :: "analysis_state \<Rightarrow> graph_node" where
  "after_review_policy s =
     (if st_review_policy s = Some ''required'' then N_interrupt_review
      else if st_terminal_status s = Some ''blocked'' then N_complete_blocked
      else N_commit_artifact)"

definition after_review :: "analysis_state \<Rightarrow> graph_node" where
  "after_review s =
     (if st_review_action s = Some Edit then N_apply_edits
      else if st_review_action s = Some Reject then N_complete_blocked
      else if st_review_action s = Some Approve \<and> st_terminal_status s \<noteq> Some ''blocked''
      then N_commit_artifact
      else N_complete_blocked)"

definition after_edits :: "analysis_state \<Rightarrow> graph_node" where
  "after_edits s =
     (if st_task_type s = Some Gt_deep_research then N_review_policy else N_validate_evidence)"

fun next_node :: "graph_node \<Rightarrow> analysis_state \<Rightarrow> graph_node" where
  "next_node N_validate_request s = after_request_validation s"
| "next_node N_monitor_ingress s = N_end"
| "next_node N_run_deep_research s = (if after_external_call s then N_complete_failed else N_review_policy)"
| "next_node N_collect_market_snapshot s =
     (if after_external_call s then N_complete_failed else N_research_events)"
| "next_node N_research_events s = (if after_external_call s then N_complete_failed else N_analyze_market)"
| "next_node N_analyze_market s = (if after_external_call s then N_complete_failed else N_validate_evidence)"
| "next_node N_validate_evidence s = N_apply_risk"
| "next_node N_apply_risk s = N_build_artifact"
| "next_node N_build_artifact s = N_review_policy"
| "next_node N_review_policy s = after_review_policy s"
| "next_node N_interrupt_review s = after_review s"
| "next_node N_apply_edits s = after_edits s"
| "next_node N_commit_artifact s = N_complete"
| "next_node N_complete s = N_end"
| "next_node N_complete_blocked s = N_end"
| "next_node N_complete_failed s = N_end"
| "next_node N_end s = N_end"

fun run_node :: "graph_params \<Rightarrow> graph_node \<Rightarrow> graph_env \<Rightarrow> analysis_state \<Rightarrow> node_result" where
  "run_node p N_validate_request env s = node_validate_request p s"
| "run_node p N_run_deep_research env s = node_run_deep_research p (env_deep env) s"
| "run_node p N_monitor_ingress env s = node_monitor_ingress p (env_admission env) s"
| "run_node p N_collect_market_snapshot env s =
     node_collect_market_snapshot p (env_fetch env) (env_fallback env) s"
| "run_node p N_research_events env s = node_research_events p (env_research env) s"
| "run_node p N_analyze_market env s = node_analyze_market p (env_agent env) s"
| "run_node p N_validate_evidence env s = node_validate_evidence p s"
| "run_node p N_apply_risk env s = node_apply_risk p s"
| "run_node p N_build_artifact env s = node_build_artifact p s"
| "run_node p N_review_policy env s = node_review_policy p s"
| "run_node p N_interrupt_review env s = node_interrupt_review p (env_response env) s"
| "run_node p N_apply_edits env s = node_apply_edits p s"
| "run_node p N_commit_artifact env s = node_commit_artifact p s"
| "run_node p N_complete env s = node_complete p s"
| "run_node p N_complete_blocked env s = node_complete_blocked p s"
| "run_node p N_complete_failed env s = node_complete_failed p s"
| "run_node p N_end env s = Inr (s, [])"

section \<open>Runs\<close>

type_synonym graph_conf = "graph_node \<times> analysis_state \<times> product_event list"

inductive graph_step :: "graph_params \<Rightarrow> graph_conf \<Rightarrow> graph_conf \<Rightarrow> bool" for p where
  node_step: "n \<noteq> N_end \<Longrightarrow> run_node p n env s = Inr (t, evs) \<Longrightarrow>
     graph_step p (n, s, tr) (next_node n t, t, tr @ evs)"

inductive graph_reachable :: "graph_params \<Rightarrow> graph_conf \<Rightarrow> bool" for p where
  graph_start: "graph_reachable p (N_validate_request, s, [])"
| graph_more: "graph_reachable p c \<Longrightarrow> graph_step p c d \<Longrightarrow> graph_reachable p d"

inductive_cases graph_step_elim [elim]: "graph_step p (n, s, tr) d"

text \<open>A run with the answers given, one environment per node, for evaluation.\<close>

fun run_graph :: "graph_params \<Rightarrow> graph_env list \<Rightarrow> graph_conf \<Rightarrow> (node_error, graph_conf) result" where
  "run_graph p [] c = Inr c"
| "run_graph p (env # envs) (n, s, tr) =
     (if n = N_end then Inr (n, s, tr)
      else case run_node p n env s of
        Inl e \<Rightarrow> Inl e
      | Inr (t, evs) \<Rightarrow> run_graph p envs (next_node n t, t, tr @ evs))"

lemma run_graph_reachable:
  "graph_reachable p c \<Longrightarrow> run_graph p envs c = Inr d \<Longrightarrow> graph_reachable p d"
proof (induction p envs c rule: run_graph.induct)
  case (1 p c)
  then show ?case by simp
next
  case (2 p env envs n s tr)
  show ?case
  proof (cases "n = N_end")
    case True
    with 2 show ?thesis by simp
  next
    case False
    with "2.prems"(2) obtain t evs where r: "run_node p n env s = Inr (t, evs)"
      and d: "run_graph p envs (next_node n t, t, tr @ evs) = Inr d"
      by (auto split: sum.splits)
    have "graph_reachable p (next_node n t, t, tr @ evs)"
      using "2.prems"(1) graph_step.node_step [OF False r] by (rule graph_reachable.graph_more)
    with "2.IH" False r d show ?thesis by blast
  qed
qed

section \<open>What the gates leave in the state\<close>

definition gated_evidence :: "analysis_state \<Rightarrow> bool" where
  "gated_evidence s \<longleftrightarrow> (\<exists>m r a ev. st_market_snapshot s = Some m \<and> st_research_bundle s = Some r
     \<and> st_analysis s = Some a \<and> st_evidence_verdict s = Some ev
     \<and> valid_market_analysis a
     \<and> evidence_gate (Some m) (Some r) (ma_main_action a) = Inr ev)"

definition gated_risk :: "analysis_state \<Rightarrow> bool" where
  "gated_risk s \<longleftrightarrow> (\<exists>a ev rv. st_analysis s = Some a \<and> st_evidence_verdict s = Some ev
     \<and> st_risk_verdict s = Some rv
     \<and> apply_risk_policy (Instance a) (Instance ev) None = Inr rv
     \<and> st_terminal_status s = Some (if rv_allowed rv then ''running'' else ''blocked''))"

definition drafted :: "analysis_state \<Rightarrow> bool" where
  "drafted s \<longleftrightarrow> (\<exists>art. st_artifact s = Some art \<and> ar_status art = Draft
     \<and> st_analysis s = Some (ar_analysis art)
     \<and> st_evidence_verdict s = Some (ar_evidence_verdict art)
     \<and> st_risk_verdict s = Some (ar_risk_verdict art))"

definition deep_drafted :: "analysis_state \<Rightarrow> bool" where
  "deep_drafted s \<longleftrightarrow> (\<exists>art. st_deep_artifact s = Some art \<and> da_status art = Deep_draft
     \<and> valid_deep_research_artifact art)"

definition ready :: "analysis_state \<Rightarrow> bool" where
  "ready s \<longleftrightarrow> st_task_type s = Some Gt_deep_research \<and> deep_drafted s
     \<or> st_task_type s = Some Gt_market_analysis \<and> gated_evidence s \<and> gated_risk s \<and> drafted s"

text \<open>What a commit needs: no block, and the reviewer's approval where review is required.\<close>

definition commit_condition :: "analysis_state \<Rightarrow> bool" where
  "commit_condition s \<longleftrightarrow> st_terminal_status s \<noteq> Some ''blocked''
     \<and> (st_review_policy s = Some ''required'' \<longrightarrow> st_review_action s = Some Approve)"

definition committed :: "analysis_state \<Rightarrow> bool" where
  "committed s \<longleftrightarrow> (st_review_policy s = Some ''required'' \<longrightarrow> st_review_action s = Some Approve)
     \<and> (if st_task_type s = Some Gt_deep_research
        then \<exists>art. st_deep_artifact s = Some art \<and> da_status art = Deep_committed
               \<and> valid_deep_research_artifact art
        else gated_evidence s \<and> (\<exists>art ev. st_artifact s = Some art \<and> ar_status art = Committed
               \<and> st_analysis s = Some (ar_analysis art) \<and> st_evidence_verdict s = Some ev
               \<and> ar_evidence_verdict art = ev
               \<and> within_policy (ar_analysis art) ev default_risk_budget))"

fun node_inv :: "graph_node \<Rightarrow> analysis_state \<Rightarrow> bool" where
  "node_inv N_validate_request s = True"
| "node_inv N_run_deep_research s = (st_task_type s = Some Gt_deep_research
     \<and> st_terminal_status s = Some ''running'')"
| "node_inv N_monitor_ingress s = (st_task_type s = Some Gt_monitor_ingress)"
| "node_inv N_collect_market_snapshot s = (st_task_type s = Some Gt_market_analysis)"
| "node_inv N_research_events s = (st_task_type s = Some Gt_market_analysis)"
| "node_inv N_analyze_market s = (st_task_type s = Some Gt_market_analysis)"
| "node_inv N_validate_evidence s = (st_task_type s = Some Gt_market_analysis)"
| "node_inv N_apply_risk s = (st_task_type s = Some Gt_market_analysis \<and> gated_evidence s)"
| "node_inv N_build_artifact s = (st_task_type s = Some Gt_market_analysis \<and> gated_evidence s
     \<and> gated_risk s)"
| "node_inv N_review_policy s = ready s"
| "node_inv N_interrupt_review s = (ready s \<and> st_review_policy s = Some ''required'')"
| "node_inv N_apply_edits s = ready s"
| "node_inv N_commit_artifact s = (ready s \<and> commit_condition s)"
| "node_inv N_complete s = committed s"
| "node_inv N_complete_blocked s = True"
| "node_inv N_complete_failed s = True"
| "node_inv N_end s = (st_terminal_status s = Some ''succeeded''
     \<longrightarrow> st_task_type s = Some Gt_monitor_ingress \<or> committed s)"

section \<open>Every node establishes what its successor relies on\<close>

lemma inv_validate_request:
  "run_node p N_validate_request env s = Inr (t, evs) \<Longrightarrow> node_inv (next_node N_validate_request t) t"
  by (auto simp: node_validate_request_def after_request_validation_def load_request_def rbind_Inr_iff
      split: option.splits raw_request.splits if_splits)

lemma inv_run_deep_research:
  "node_inv N_run_deep_research s \<Longrightarrow> run_node p N_run_deep_research env s = Inr (t, evs) \<Longrightarrow>
     node_inv (next_node N_run_deep_research t) t"
  by (auto simp: node_run_deep_research_def rbind_Inr_iff Let_def after_external_call_def failed_with_def
      ready_def deep_drafted_def split: deep_result.splits)

lemma inv_collect:
  "node_inv N_collect_market_snapshot s \<Longrightarrow>
     run_node p N_collect_market_snapshot env s = Inr (t, evs) \<Longrightarrow>
     node_inv (next_node N_collect_market_snapshot t) t"
  by (auto simp: node_collect_market_snapshot_def rbind_Inr_iff Let_def failed_with_def
      after_external_call_def market_collected_def market_provider_failure_def
      split: fetch_result.splits fallback_result.splits if_splits)

lemma inv_research:
  "node_inv N_research_events s \<Longrightarrow> run_node p N_research_events env s = Inr (t, evs) \<Longrightarrow>
     node_inv (next_node N_research_events t) t"
  by (auto simp: node_research_events_def rbind_Inr_iff Let_def failed_with_def after_external_call_def
      split: research_result.splits)

lemma analyze_keeps_task:
  "node_analyze_market p outcome s = Inr (t, evs) \<Longrightarrow>
     st_task_type t = st_task_type s \<and> st_review_iteration t = st_review_iteration s"
proof (cases outcome)
  case (Agent_ok a audit)
  assume "node_analyze_market p outcome s = Inr (t, evs)"
  then obtain request where "load_analysis_request p s = Inr request"
    and "ma_instrument a = aq_symbol request \<or> ma_instrument a \<noteq> aq_symbol request"
    using Agent_ok by (auto simp: node_analyze_market_def rbind_Inr_iff)
  with \<open>node_analyze_market p outcome s = Inr (t, evs)\<close> Agent_ok show ?thesis
    by (cases "ma_instrument a = aq_symbol request"; cases "ma_horizon a = aq_horizon request")
      (auto simp: node_analyze_market_def rbind_Inr_iff Let_def output_mismatch_def failed_with_def)
qed (auto simp: node_analyze_market_def rbind_Inr_iff Let_def model_failure_def failed_with_def)

lemma inv_analyze:
  "node_inv N_analyze_market s \<Longrightarrow> run_node p N_analyze_market env s = Inr (t, evs) \<Longrightarrow>
     node_inv (next_node N_analyze_market t) t"
  by (auto dest: analyze_keeps_task)

lemma check_evidence_instances:
  "check_evidence_sufficiency (Some (Instance m)) (Some (Instance r)) (ActionValue act)
     = evidence_gate (Some m) (Some r) act"
  by (simp add: check_evidence_sufficiency_def validate_snapshot_def validate_research_def)

lemma inv_validate_evidence:
  "node_inv N_validate_evidence s \<Longrightarrow> run_node p N_validate_evidence env s = Inr (t, evs) \<Longrightarrow>
     node_inv (next_node N_validate_evidence t) t"
  by (auto simp: node_validate_evidence_def rbind_Inr_iff check_evidence_instances gated_evidence_def)

lemma apply_risk_fields:
  "apply_risk_policy (Fields a) (Fields ev) b = Inr rv \<Longrightarrow> apply_risk_policy (Instance a) (Instance ev) b = Inr rv"
  by (auto simp: apply_risk_policy_def construct_def split: if_splits)

lemma apply_risk_result:
  assumes "node_apply_risk p s = Inr (t, evs)"
  obtains a ev rv where "st_analysis s = Some a" "st_evidence_verdict s = Some ev"
    "apply_risk_policy (Instance a) (Instance ev) None = Inr rv"
    "t = s\<lparr>st_risk_verdict := Some rv,
            st_terminal_status := Some (if rv_allowed rv then ''running'' else ''blocked''),
            st_lifecycle := Some ''risk_validated''\<rparr>"
  using assms by (auto simp: node_apply_risk_def rbind_Inr_iff dest!: apply_risk_fields)

lemma inv_apply_risk:
  assumes "node_inv N_apply_risk s" and "run_node p N_apply_risk env s = Inr (t, evs)"
  shows "node_inv (next_node N_apply_risk t) t"
proof -
  from assms(2) obtain a ev rv where s: "st_analysis s = Some a" "st_evidence_verdict s = Some ev"
    and rv: "apply_risk_policy (Instance a) (Instance ev) None = Inr rv"
    and t: "t = s\<lparr>st_risk_verdict := Some rv,
            st_terminal_status := Some (if rv_allowed rv then ''running'' else ''blocked''),
            st_lifecycle := Some ''risk_validated''\<rparr>"
    by (auto elim: apply_risk_result)
  from s rv t have "gated_risk t" by (simp add: gated_risk_def)
  moreover from assms(1) t have "gated_evidence t" by (simp add: gated_evidence_def)
  ultimately show ?thesis using assms(1) t by simp
qed

lemma inv_build_artifact:
  assumes "node_inv N_build_artifact s" and "run_node p N_build_artifact env s = Inr (t, evs)"
  shows "node_inv (next_node N_build_artifact t) t"
proof -
  from assms(2) obtain art where t: "t = s\<lparr>st_artifact := Some art, st_lifecycle := Some ''artifact_built''\<rparr>"
    and art: "ar_status art = Draft" "st_analysis s = Some (ar_analysis art)"
      "st_evidence_verdict s = Some (ar_evidence_verdict art)"
      "st_risk_verdict s = Some (ar_risk_verdict art)"
    by (auto simp: node_build_artifact_def rbind_Inr_iff Let_def construct_def split: if_splits)
  from t art have "drafted t" by (simp add: drafted_def)
  moreover from assms(1) t have "gated_evidence t" "gated_risk t"
    by (simp_all add: gated_evidence_def gated_risk_def)
  ultimately show ?thesis using assms(1) t by (simp add: ready_def)
qed

text \<open>The review node and the policy node touch none of the fields the gates wrote.\<close>

lemma ready_frame:
  assumes "st_task_type t = st_task_type s" "st_market_snapshot t = st_market_snapshot s"
    "st_research_bundle t = st_research_bundle s" "st_analysis t = st_analysis s"
    "st_evidence_verdict t = st_evidence_verdict s" "st_risk_verdict t = st_risk_verdict s"
    "st_terminal_status t = st_terminal_status s" "st_artifact t = st_artifact s"
    "st_deep_artifact t = st_deep_artifact s"
  shows "ready t = ready s"
  using assms by (simp add: ready_def deep_drafted_def gated_evidence_def gated_risk_def drafted_def)

lemma inv_review_policy:
  assumes "node_inv N_review_policy s" and "run_node p N_review_policy env s = Inr (t, evs)"
  shows "node_inv (next_node N_review_policy t) t"
proof -
  from assms(2) have "ready t = ready s"
    by (intro ready_frame) (auto simp: node_review_policy_def)
  with assms(1) show ?thesis by (simp add: after_review_policy_def commit_condition_def)
qed

lemma inv_interrupt_review:
  assumes "node_inv N_interrupt_review s" and "run_node p N_interrupt_review env s = Inr (t, evs)"
  shows "node_inv (next_node N_interrupt_review t) t"
proof -
  from assms(2) have "ready t = ready s"
    by (intro ready_frame) (auto simp: node_interrupt_review_def rbind_Inr_iff)
  with assms(1) show ?thesis by (simp add: after_review_def commit_condition_def)
qed

lemma inv_apply_edits:
  "node_inv N_apply_edits s \<Longrightarrow> run_node p N_apply_edits env s = Inr (t, evs) \<Longrightarrow>
     node_inv (next_node N_apply_edits t) t"
  by (auto simp: node_apply_edits_def rbind_Inr_iff after_edits_def ready_def deep_drafted_def
      split: option.splits review_edits.splits)

lemma inv_complete:
  "node_inv N_complete s \<Longrightarrow> run_node p N_complete env s = Inr (t, evs) \<Longrightarrow>
     node_inv (next_node N_complete t) t"
  by (auto simp: node_complete_def committed_def gated_evidence_def)

lemma monitor_ingress_keeps_task:
  "node_monitor_ingress p outcome s = Inr (t, evs) \<Longrightarrow> st_task_type t = st_task_type s"
  by (cases "st_request s"; cases "the (st_request s)"; cases outcome)
    (auto simp: node_monitor_ingress_def rbind_Inr_iff require_key_def)

lemma inv_monitor_ingress:
  "node_inv N_monitor_ingress s \<Longrightarrow> run_node p N_monitor_ingress env s = Inr (t, evs) \<Longrightarrow>
     node_inv (next_node N_monitor_ingress t) t"
  by (auto dest: monitor_ingress_keeps_task)

lemma inv_commit_artifact:
  assumes "node_inv N_commit_artifact s" and "run_node p N_commit_artifact env s = Inr (t, evs)"
  shows "node_inv (next_node N_commit_artifact t) t"
proof (cases "st_task_type s = Some Gt_deep_research")
  case True
  with assms show ?thesis
    by (auto simp: node_commit_artifact_def Let_def rbind_Inr_iff committed_def commit_condition_def
        commit_Inr)
next
  case False
  with assms(1) have gates: "gated_evidence s" "gated_risk s" "drafted s"
    and cond: "commit_condition s" by (auto simp: ready_def)
  from assms(2) False obtain art where art: "st_artifact s = Some art"
    and t: "t = s\<lparr>st_artifact := Some (art\<lparr>ar_status := Committed\<rparr>),
                 st_lifecycle := Some ''artifact_committed''\<rparr>"
    by (auto simp: node_commit_artifact_def Let_def rbind_Inr_iff construct_def split: if_splits)
  from gates(3) art have d: "st_analysis s = Some (ar_analysis art)"
    "st_evidence_verdict s = Some (ar_evidence_verdict art)" "st_risk_verdict s = Some (ar_risk_verdict art)"
    by (auto simp: drafted_def)
  from gates(2) d cond have "apply_risk_policy (Instance (ar_analysis art))
      (Instance (ar_evidence_verdict art)) None = Inr (ar_risk_verdict art)"
    and "rv_allowed (ar_risk_verdict art)"
    by (auto simp: gated_risk_def commit_condition_def split: if_splits)
  then have "within_policy (ar_analysis art) (ar_evidence_verdict art) default_risk_budget"
    by (auto simp: validate_budget_def elim!: apply_risk_policy_Inr)
  moreover have "gated_evidence t" using gates(1) t by (simp add: gated_evidence_def)
  ultimately show ?thesis using t d False cond
    by (auto simp: committed_def commit_condition_def)
qed

lemma inv_complete_blocked:
  "run_node p N_complete_blocked env s = Inr (t, evs) \<Longrightarrow> st_terminal_status t = Some ''blocked''"
  by (auto simp: node_complete_blocked_def Let_def rbind_Inr_iff split: option.splits bool.splits)

lemma inv_complete_failed:
  "run_node p N_complete_failed env s = Inr (t, evs) \<Longrightarrow> st_terminal_status t = Some ''failed''"
  by (auto simp: node_complete_failed_def)

lemma inv_complete_blocked_end:
  "run_node p N_complete_blocked env s = Inr (t, evs) \<Longrightarrow> node_inv (next_node N_complete_blocked t) t"
  by (frule inv_complete_blocked) simp

lemma inv_complete_failed_end:
  "run_node p N_complete_failed env s = Inr (t, evs) \<Longrightarrow> node_inv (next_node N_complete_failed t) t"
  by (frule inv_complete_failed) simp

lemmas node_invs = inv_validate_request inv_run_deep_research inv_monitor_ingress inv_collect
  inv_research inv_analyze inv_validate_evidence inv_apply_risk inv_build_artifact inv_review_policy
  inv_interrupt_review inv_apply_edits inv_commit_artifact inv_complete inv_complete_blocked_end
  inv_complete_failed_end

lemma node_inv_step:
  assumes "node_inv n s" and "n \<noteq> N_end" and "run_node p n env s = Inr (t, evs)"
  shows "node_inv (next_node n t) t"
  using assms by (cases n; (simp only:)?; blast intro: node_invs)

theorem reachable_node_inv:
  assumes "graph_reachable p c"
  shows "node_inv (fst c) (fst (snd c))"
  using assms
proof induction
  case (graph_more c d)
  from graph_more.hyps(2) graph_more.IH show ?case
    by cases (simp add: node_inv_step)
qed simp

end
