(* ===== verification/Graph_Trace.thy ===== *)
theory Graph_Trace
  imports Product_Graph "HOL-Library.Sublist"
begin

text \<open>
  The order of the product events of a run. Every node emits under sequence numbers of its own,
  shifted by a hundred for each completed review; \<open>node_seqs\<close> lists them. Along a run the
  numbers never decrease, and they increase strictly except between the two progress events of
  a failing deep research node, which share number 20.
\<close>

fun node_seqs :: "graph_node \<Rightarrow> int \<Rightarrow> int list" where
  "node_seqs N_validate_request i = [10, 11]"
| "node_seqs N_run_deep_research i = [20, 30, 31, 32, 33]"
| "node_seqs N_collect_market_snapshot i = [20]"
| "node_seqs N_research_events i = [30, 31]"
| "node_seqs N_analyze_market i = [40, 41]"
| "node_seqs N_validate_evidence i = [50 + i * 100, 51 + i * 100]"
| "node_seqs N_apply_risk i = [60 + i * 100, 61 + i * 100]"
| "node_seqs N_build_artifact i = [70 + i * 100, 71 + i * 100]"
| "node_seqs N_review_policy i = [80 + i * 100]"
| "node_seqs N_interrupt_review i = [81 + i * 100]"
| "node_seqs N_apply_edits i = [82 + max (i - 1) 0 * 100]"
| "node_seqs N_commit_artifact i = [90 + i * 100, 91 + i * 100]"
| "node_seqs N_complete i = [100 + i * 100]"
| "node_seqs N_complete_blocked i = [100 + i * 100]"
| "node_seqs N_complete_failed i = [100 + i * 100]"
| "node_seqs N_monitor_ingress i = []"
| "node_seqs N_end i = []"

definition at_seq :: "emitted \<Rightarrow> int \<Rightarrow> bool" where
  "at_seq em k \<longleftrightarrow> (\<forall>es. em = Inr es \<longrightarrow> subseq (map event_seq es) [k])"

lemma emit_at_seq: "at_seq (emit digest config k body) k"
  by (auto simp: at_seq_def event_seq_def dest!: emit_Inr event_identity_of_sequence)

lemma emitters_at_seq [simp, intro]:
  "at_seq (emit_task_progress d c k phase status) k" "at_seq (emit_artifact d c k st v) k"
  "at_seq (emit_evidence d c k stage n suff) k" "at_seq (emit_usage d c k audits) k"
  "at_seq (emit_notification d c k b) k" "at_seq (emit_quality d c k e r w n) k"
  by (simp_all add: emitter_defs emit_at_seq)

lemma emit_all_seqs:
  "list_all2 at_seq ems ks \<Longrightarrow> emit_all ems = Inr evs \<Longrightarrow> subseq (map event_seq evs) ks"
proof (induction arbitrary: evs rule: list_all2_induct)
  case (Cons em ems k ks)
  from Cons.prems obtain xs ys where xs: "em = Inr xs" and ys: "emit_all ems = Inr ys"
    and evs: "evs = xs @ ys" by (auto simp: rbind_Inr_iff)
  from Cons.hyps(1) xs have "subseq (map event_seq xs) [k]" by (simp add: at_seq_def)
  from list_emb_append_mono [OF this Cons.IH [OF ys]] show ?case by (simp add: evs)
qed simp

lemma emit_all_one [elim]:
  "emit_all [em] = Inr evs \<Longrightarrow> at_seq em k \<Longrightarrow> subseq (map event_seq evs) [k]"
  by (rule emit_all_seqs [of "[em]"]) simp_all

lemma edits_applied_at_seq:
  "at_seq (edits_applied_event p s) (82 + max (iteration s - 1) 0 * 100)"
  by (cases "st_review_iteration s") (auto simp: edits_applied_event_def iteration_def)

section \<open>What each node emits\<close>

definition same_slot :: "product_event \<Rightarrow> product_event \<Rightarrow> bool" where
  \<comment> \<open>the two events of a deep research run that fails\<close>
  "same_slot a b \<longleftrightarrow> event_seq a = 20 \<and> event_seq b = 20
     \<and> pe_body a = Task_progress ''deep_research'' Active
     \<and> pe_body b = Task_progress ''deep_research'' Progress_failed"

definition emitted_before :: "product_event \<Rightarrow> product_event \<Rightarrow> bool" where
  "emitted_before a b \<longleftrightarrow> event_seq a < event_seq b \<or> same_slot a b"

lemma subseq_sorted_wrt: "subseq xs ys \<Longrightarrow> sorted_wrt P ys \<Longrightarrow> sorted_wrt P xs"
  by (induction rule: list_emb.induct) (auto dest: list_emb_set)

lemma subseq_set_subset: "subseq xs ys \<Longrightarrow> set xs \<subseteq> set ys"
  by (induction rule: list_emb.induct) auto

lemma subseq_emitted:
  assumes "subseq (map event_seq evs) ks" and "sorted_wrt (<) ks"
  shows "sorted_wrt emitted_before evs" and "event_seq ` set evs \<subseteq> set ks"
proof -
  have "sorted_wrt (<) (map event_seq evs)" by (rule subseq_sorted_wrt [OF assms])
  then show "sorted_wrt emitted_before evs"
    by (auto simp: sorted_wrt_map emitted_before_def elim: sorted_wrt_mono_rel [rotated])
  show "event_seq ` set evs \<subseteq> set ks" using subseq_set_subset [OF assms(1)] by simp
qed

lemma failed_deep_pair:
  assumes "emit_all [emit_task_progress d c 20 ''deep_research'' Active,
                     emit_task_progress d c 20 ''deep_research'' Progress_failed] = Inr evs"
  shows "sorted_wrt emitted_before evs \<and> event_seq ` set evs \<subseteq> {20}"
proof -
  obtain xs ys where xs: "emit d c 20 (Task_progress ''deep_research'' Active) = Inr xs"
    and ys: "emit d c 20 (Task_progress ''deep_research'' Progress_failed) = Inr ys"
    and evs: "evs = xs @ ys"
    using assms by (auto simp: emit_task_progress_def rbind_Inr_iff)
  from emit_Inr [OF xs] emit_Inr [OF ys] emit_seq [OF xs] emit_seq [OF ys] show ?thesis
    by (auto simp: evs emitted_before_def same_slot_def)
qed

lemma seqs_increase: "sorted_wrt (<) (node_seqs n i)"
  by (cases n) simp_all

lemma deep_events:
  assumes "node_run_deep_research p outcome s = Inr (t, evs)"
  shows "sorted_wrt emitted_before evs \<and> event_seq ` set evs \<subseteq> {20, 30, 31, 32, 33}"
proof (cases outcome)
  case (Deep_error kind x)
  with assms have "emit_all [emit_task_progress (gp_digest p) (gp_config p) 20 ''deep_research'' Active,
      emit_task_progress (gp_digest p) (gp_config p) 20 ''deep_research'' Progress_failed] = Inr evs"
    by (simp add: node_run_deep_research_def rbind_Inr_iff Let_def del: emit_all.simps)
  from failed_deep_pair [OF this] show ?thesis by auto
next
  case No_deep_runtime
  with assms have "emit_all [emit_task_progress (gp_digest p) (gp_config p) 20 ''deep_research''
      Progress_failed] = Inr evs"
    by (simp add: node_run_deep_research_def rbind_Inr_iff Let_def del: emit_all.simps)
  from emit_all_seqs [OF _ this, of "[20]"] subseq_emitted [of evs "[20]"] show ?thesis by auto
next
  case (Deep_ok result evidence audits mode)
  with assms have "emit_all
      [emit_task_progress (gp_digest p) (gp_config p) 20 ''deep_research'' Active,
       emit_task_progress (gp_digest p) (gp_config p) 30 ''deep_research_draft_ready'' Progress_complete,
       emit_evidence (gp_digest p) (gp_config p) 31 Collected (int (length evidence)) None,
       emit_usage (gp_digest p) (gp_config p) 32 (map audit_json audits),
       emit_artifact (gp_digest p) (gp_config p) 33 Event_draft 1] = Inr evs"
    by (auto simp add: node_run_deep_research_def rbind_Inr_iff Let_def simp del: emit_all.simps)
  from emit_all_seqs [OF _ this, of "[20, 30, 31, 32, 33]"]
    subseq_emitted [of evs "[20, 30, 31, 32, 33]"] show ?thesis by auto
next
  case Deep_raised
  with assms show ?thesis by (auto simp: node_run_deep_research_def rbind_Inr_iff Let_def)
qed

lemma seqs_validate_request:
  "run_node p N_validate_request env s = Inr (t, evs) \<Longrightarrow> subseq (map event_seq evs) (node_seqs N_validate_request (iteration s))"
  by (auto simp: node_validate_request_def load_request_def rbind_Inr_iff sequence_offset_def
      simp del: emit_all.simps split: option.splits raw_request.splits if_splits elim!: emit_all_seqs [rotated])

lemma seqs_collect:
  "run_node p N_collect_market_snapshot env s = Inr (t, evs) \<Longrightarrow> subseq (map event_seq evs) (node_seqs N_collect_market_snapshot (iteration s))"
  by (auto simp: node_collect_market_snapshot_def Let_def failed_with_def market_collected_def market_provider_failure_def rbind_Inr_iff sequence_offset_def
      simp del: emit_all.simps split: fetch_result.splits fallback_result.splits if_splits elim!: emit_all_seqs [rotated])

lemma emit_all_first:
  "emit_all [em] = Inr evs \<Longrightarrow> at_seq em k \<Longrightarrow> subseq (map event_seq evs) (k # ks)"
  using emit_all_one [of em evs k] subseq_order.trans [of _ "[k]" "k # ks"] by auto

lemma seqs_research:
  assumes "run_node p N_research_events env s = Inr (t, evs)"
  shows "subseq (map event_seq evs) (node_seqs N_research_events (iteration s))"
proof (cases "env_research env")
  case (Research_error x)
  with assms show ?thesis
    by (auto simp: node_research_events_def rbind_Inr_iff simp del: emit_all.simps
        intro: emit_all_first)
qed (use assms in \<open>auto simp: node_research_events_def Let_def rbind_Inr_iff simp del: emit_all.simps
      elim!: emit_all_seqs [rotated]\<close>)

lemma seqs_analyze:
  assumes "run_node p N_analyze_market env s = Inr (t, evs)"
  shows "subseq (map event_seq evs) (node_seqs N_analyze_market (iteration s))"
proof (cases "env_agent env")
  case (Agent_ok a audit)
  with assms obtain request where "load_analysis_request p s = Inr request"
    by (auto simp: node_analyze_market_def rbind_Inr_iff)
  note r = this
  show ?thesis
  proof (cases "ma_instrument a = aq_symbol request \<and> ma_horizon a = aq_horizon request")
    case True
    with assms Agent_ok r show ?thesis
      by (auto simp: node_analyze_market_def rbind_Inr_iff Let_def simp del: emit_all.simps
          elim!: emit_all_seqs [rotated])
  next
    case False
    with assms Agent_ok r show ?thesis
      by (cases "ma_instrument a = aq_symbol request"; cases "ma_horizon a = aq_horizon request")
        (auto simp: node_analyze_market_def rbind_Inr_iff Let_def output_mismatch_def
          simp del: emit_all.simps intro: emit_all_first)
  qed
qed (use assms in \<open>auto simp: node_analyze_market_def rbind_Inr_iff Let_def model_failure_def
      simp del: emit_all.simps intro: emit_all_first\<close>)

lemma seqs_monitor:
  assumes "run_node p N_monitor_ingress env s = Inr (t, evs)"
  shows "evs = [] \<and> iteration t = iteration s"
  using assms
  by (cases "st_request s"; cases "the (st_request s)"; cases "env_admission env")
    (auto simp: node_monitor_ingress_def rbind_Inr_iff require_key_def iteration_def)

lemma seqs_apply_edits:
  "run_node p N_apply_edits env s = Inr (t, evs) \<Longrightarrow>
     subseq (map event_seq evs) (node_seqs N_apply_edits (iteration s))"
  by (auto simp: node_apply_edits_def rbind_Inr_iff simp del: emit_all.simps
      split: if_splits option.splits review_edits.splits
      elim!: emit_all_seqs [rotated] intro: edits_applied_at_seq)

lemma seqs_validate_evidence:
  "run_node p N_validate_evidence env s = Inr (t, evs) \<Longrightarrow> subseq (map event_seq evs) (node_seqs N_validate_evidence (iteration s))"
  by (auto simp: node_validate_evidence_def rbind_Inr_iff sequence_offset_def
      simp del: emit_all.simps elim!: emit_all_seqs [rotated])

lemma seqs_apply_risk:
  "run_node p N_apply_risk env s = Inr (t, evs) \<Longrightarrow> subseq (map event_seq evs) (node_seqs N_apply_risk (iteration s))"
  by (auto simp: node_apply_risk_def rbind_Inr_iff sequence_offset_def
      simp del: emit_all.simps elim!: emit_all_seqs [rotated])

lemma seqs_build:
  "run_node p N_build_artifact env s = Inr (t, evs) \<Longrightarrow> subseq (map event_seq evs) (node_seqs N_build_artifact (iteration s))"
  by (auto simp: node_build_artifact_def Let_def rbind_Inr_iff sequence_offset_def
      simp del: emit_all.simps elim!: emit_all_seqs [rotated])

lemma seqs_review_policy:
  "run_node p N_review_policy env s = Inr (t, evs) \<Longrightarrow> subseq (map event_seq evs) (node_seqs N_review_policy (iteration s))"
  by (auto simp: node_review_policy_def rbind_Inr_iff sequence_offset_def
      simp del: emit_all.simps elim!: emit_all_seqs [rotated])

lemma seqs_interrupt:
  "run_node p N_interrupt_review env s = Inr (t, evs) \<Longrightarrow> subseq (map event_seq evs) (node_seqs N_interrupt_review (iteration s))"
  by (auto simp: node_interrupt_review_def rbind_Inr_iff sequence_offset_def
      simp del: emit_all.simps elim!: emit_all_seqs [rotated])

lemma seqs_commit:
  "run_node p N_commit_artifact env s = Inr (t, evs) \<Longrightarrow> subseq (map event_seq evs) (node_seqs N_commit_artifact (iteration s))"
  by (auto simp: node_commit_artifact_def Let_def rbind_Inr_iff sequence_offset_def
      simp del: emit_all.simps split: if_splits elim!: emit_all_seqs [rotated])

lemma seqs_complete:
  "run_node p N_complete env s = Inr (t, evs) \<Longrightarrow> subseq (map event_seq evs) (node_seqs N_complete (iteration s))"
  by (auto simp: node_complete_def rbind_Inr_iff sequence_offset_def
      simp del: emit_all.simps elim!: emit_all_seqs [rotated])

lemma seqs_blocked:
  "run_node p N_complete_blocked env s = Inr (t, evs) \<Longrightarrow> subseq (map event_seq evs) (node_seqs N_complete_blocked (iteration s))"
  by (auto simp: node_complete_blocked_def Let_def rbind_Inr_iff sequence_offset_def
      simp del: emit_all.simps split: option.splits bool.splits elim!: emit_all_seqs [rotated])

lemma seqs_failed:
  "run_node p N_complete_failed env s = Inr (t, evs) \<Longrightarrow> subseq (map event_seq evs) (node_seqs N_complete_failed (iteration s))"
  by (auto simp: node_complete_failed_def rbind_Inr_iff sequence_offset_def
      simp del: emit_all.simps elim!: emit_all_seqs [rotated])

lemmas node_seqs_of = seqs_validate_request seqs_collect seqs_research seqs_analyze
  seqs_validate_evidence seqs_apply_risk seqs_build seqs_review_policy seqs_interrupt
  seqs_apply_edits seqs_commit seqs_complete seqs_blocked seqs_failed

lemma node_events:
  assumes "run_node p n env s = Inr (t, evs)"
  shows "sorted_wrt emitted_before evs \<and> event_seq ` set evs \<subseteq> set (node_seqs n (iteration s))"
proof (cases "n = N_run_deep_research \<or> n = N_monitor_ingress \<or> n = N_end")
  case True
  then consider "n = N_run_deep_research" | "n = N_monitor_ingress" | "n = N_end" by blast
  then show ?thesis
  proof cases
    case 1
    with assms deep_events show ?thesis by simp
  next
    case 2
    with assms seqs_monitor show ?thesis by fastforce
  qed (use assms in auto)
next
  case False
  with assms have "subseq (map event_seq evs) (node_seqs n (iteration s))"
    by (cases n; (simp only:)?; blast intro: node_seqs_of)
  from subseq_emitted [OF this seqs_increase] show ?thesis by blast
qed

section \<open>The order along a run\<close>

fun node_floor :: "graph_node \<Rightarrow> int \<Rightarrow> int" where
  "node_floor N_monitor_ingress i = 20"
| "node_floor N_end i = 0"
| "node_floor n i = hd (node_seqs n i)"

fun iteration_ok :: "graph_node \<Rightarrow> int \<Rightarrow> bool" where
  "iteration_ok N_validate_request i = True"
| "iteration_ok N_monitor_ingress i = True"
| "iteration_ok N_end i = True"
| "iteration_ok N_run_deep_research i = (i = 0)"
| "iteration_ok N_collect_market_snapshot i = (i = 0)"
| "iteration_ok N_research_events i = (i = 0)"
| "iteration_ok N_analyze_market i = (i = 0)"
| "iteration_ok N_apply_edits i = (1 \<le> i)"
| "iteration_ok n i = (0 \<le> i)"

lemma iteration_frame:
  assumes "run_node p n env s = Inr (t, evs)"
  shows "iteration t = (if n = N_validate_request \<and> st_task_type t \<noteq> Some Gt_monitor_ingress then 0
     else if n = N_interrupt_review then iteration s + 1 else iteration s)"
proof (cases n)
  case N_analyze_market
  with assms show ?thesis by (auto simp: iteration_def dest!: analyze_keeps_task)
next
  case N_monitor_ingress
  with assms seqs_monitor show ?thesis by auto
qed (use assms in \<open>auto simp: node_validate_request_def load_request_def node_run_deep_research_def
    node_collect_market_snapshot_def failed_with_def market_collected_def market_provider_failure_def
    node_research_events_def node_validate_evidence_def node_apply_risk_def node_build_artifact_def
    node_review_policy_def node_interrupt_review_def node_commit_artifact_def node_complete_def
    node_complete_blocked_def node_complete_failed_def node_apply_edits_def Let_def rbind_Inr_iff
    iteration_def simp del: emit_all.simps
    split: option.splits raw_request.splits if_splits deep_result.splits fetch_result.splits
      fallback_result.splits research_result.splits bool.splits review_edits.splits\<close>)

lemma floor_step:
  assumes "iteration_ok n i" and "n \<noteq> N_end"
    and "j = (if n = N_validate_request \<and> st_task_type t \<noteq> Some Gt_monitor_ingress then 0
              else if n = N_interrupt_review then i + 1 else i)"
    and "n = N_validate_request \<longrightarrow> st_terminal_status t \<noteq> Some ''failed''"
  shows "iteration_ok (next_node n t) j"
    and "next_node n t = N_end \<or> (\<forall>k \<in> set (node_seqs n i). node_floor n i \<le> k
           \<and> k < node_floor (next_node n t) j) \<and> node_floor n i \<le> node_floor (next_node n t) j"
  using assms
  by (cases n; simp add: after_request_validation_def after_review_policy_def after_review_def
      after_edits_def after_external_call_def)+

lemma validated_running:
  "node_validate_request p s = Inr (t, evs) \<Longrightarrow> st_terminal_status t = Some ''running''"
  by (auto simp: node_validate_request_def rbind_Inr_iff split: if_splits)

fun trace_inv :: "graph_conf \<Rightarrow> bool" where
  "trace_inv (n, s, tr) = (sorted_wrt emitted_before tr \<and> iteration_ok n (iteration s)
     \<and> (n = N_end \<or> list_all (\<lambda>e. event_seq e < node_floor n (iteration s)) tr))"

lemma trace_inv_step:
  assumes "trace_inv (n, s, tr)" and "n \<noteq> N_end" and run: "run_node p n env s = Inr (t, evs)"
  shows "trace_inv (next_node n t, t, tr @ evs)"
proof -
  let ?m = "next_node n t"
  from assms have tr: "sorted_wrt emitted_before tr" "iteration_ok n (iteration s)"
    "\<And>e. e \<in> set tr \<Longrightarrow> event_seq e < node_floor n (iteration s)"
    by (auto simp: list_all_iff)
  from run have "n = N_validate_request \<longrightarrow> st_terminal_status t \<noteq> Some ''failed''"
    using validated_running by fastforce
  note step = floor_step [OF tr(2) \<open>n \<noteq> N_end\<close> iteration_frame [OF run] this]
  from node_events [OF run] have evs: "sorted_wrt emitted_before evs"
    "\<And>e. e \<in> set evs \<Longrightarrow> event_seq e \<in> set (node_seqs n (iteration s))" by auto
  have lower: "node_floor n (iteration s) \<le> k" if "k \<in> set (node_seqs n (iteration s))" for k
    using that by (cases n) auto
  have "sorted_wrt emitted_before (tr @ evs)"
    using tr(1, 3) evs lower by (fastforce simp: sorted_wrt_append emitted_before_def)
  moreover have "?m = N_end \<or> list_all (\<lambda>e. event_seq e < node_floor ?m (iteration t)) (tr @ evs)"
    using step(2) tr(3) evs(2) by (fastforce simp: list_all_iff)
  ultimately show ?thesis using step(1) by simp
qed

theorem reachable_trace_inv: "graph_reachable p c \<Longrightarrow> trace_inv c"
proof (induction rule: graph_reachable.induct)
  case (graph_more c d)
  from graph_more.hyps(2) graph_more.IH show ?case
    by cases (blast intro: trace_inv_step)
qed simp

section \<open>Runs end unless the reviewer keeps editing\<close>

fun node_rank :: "graph_node \<Rightarrow> nat" where
  "node_rank N_end = 0"
| "node_rank N_complete = 1"
| "node_rank N_complete_blocked = 1"
| "node_rank N_complete_failed = 1"
| "node_rank N_monitor_ingress = 1"
| "node_rank N_commit_artifact = 2"
| "node_rank N_interrupt_review = 3"
| "node_rank N_review_policy = 4"
| "node_rank N_build_artifact = 5"
| "node_rank N_apply_risk = 6"
| "node_rank N_validate_evidence = 7"
| "node_rank N_analyze_market = 8"
| "node_rank N_research_events = 9"
| "node_rank N_collect_market_snapshot = 10"
| "node_rank N_run_deep_research = 10"
| "node_rank N_validate_request = 11"
| "node_rank N_apply_edits = 12"

lemma interrupt_action:
  assumes "node_interrupt_review p response s = Inr (t, evs)"
  shows "st_review_action t = Some (rr_action response)"
proof -
  from assms obtain payload parsed decision where "construct valid_review_response response = Inr parsed"
    and "validate_review_response_for_payload payload parsed = Inr decision"
    and "st_review_action t = Some (rr_action decision)"
    by (auto simp: node_interrupt_review_def rbind_Inr_iff)
  then show ?thesis
    by (auto simp: construct_def split: if_split_asm dest: review_response_unchanged)
qed

lemma rank_step:
  assumes "n \<noteq> N_end" "n \<noteq> N_apply_edits" and "run_node p n env s = Inr (t, evs)"
    and "rr_action (env_response env) \<noteq> Edit"
  shows "node_rank (next_node n t) < node_rank n \<and> next_node n t \<noteq> N_apply_edits"
  using assms interrupt_action [of p "env_response env" s t evs]
  by (cases n) (auto simp: after_request_validation_def after_review_policy_def after_review_def
      after_external_call_def)

lemma run_graph_rank:
  assumes "list_all (\<lambda>env. rr_action (env_response env) \<noteq> Edit) envs"
    and "node_rank n \<le> length envs" and "n \<noteq> N_apply_edits"
    and "run_graph p envs (n, s, tr) = Inr (m, u, tr')"
  shows "m = N_end"
  using assms
proof (induction envs arbitrary: n s tr)
  case Nil
  then show ?case by (cases n) auto
next
  case (Cons env envs)
  show ?case
  proof (cases "n = N_end")
    case False
    with Cons.prems(4) obtain t evs where run: "run_node p n env s = Inr (t, evs)"
      and rest: "run_graph p envs (next_node n t, t, tr @ evs) = Inr (m, u, tr')"
      by (auto split: sum.splits)
    from rank_step [OF False Cons.prems(3) run] Cons.prems(1) have
      "node_rank (next_node n t) < node_rank n" "next_node n t \<noteq> N_apply_edits" by auto
    with Cons.IH [OF _ _ _ rest] Cons.prems(1, 2) show ?thesis by auto
  qed (use Cons.prems in auto)
qed

end
