(* ===== verification/Graph_Properties.thy ===== *)
theory Graph_Properties
  imports Graph_Trace
begin

text \<open>
  What the invariants of the product graph say about its runs, with concrete runs at which the
  statements are instantiated.
\<close>

section \<open>Concrete runs\<close>

definition sample_env :: graph_env where
  "sample_env = \<lparr>env_fetch = Fetched (Instance sample_snapshot), env_fallback = No_fallback,
     env_research = Research_ok sample_research [] None,
     env_agent = Agent_ok sample_analysis sample_audit, env_deep = No_deep_runtime,
     env_admission = Admission_raised,
     env_response = \<lparr>rr_action = Approve, rr_edits = None, rr_comment = None\<rparr>\<rparr>"

text \<open>A run without product identifiers in its configuration emits no events.\<close>

definition quiet_params :: graph_params where
  "quiet_params = sample_params\<lparr>gp_config := \<lparr>cfg_metadata = None, cfg_configurable = None\<rparr>\<rparr>"

definition sample_start :: graph_conf where
  "sample_start = (N_validate_request, sample_state, [])"

lemma sample_start_reachable [simp]: "graph_reachable p sample_start"
  by (simp add: sample_start_def graph_reachable.graph_start)

definition approved_run :: "(node_error, graph_conf) result" where
  "approved_run = run_graph quiet_params (replicate 11 sample_env) sample_start"

lemma approved_run_ends:
  "case approved_run of Inl e \<Rightarrow> False
   | Inr (n, s, tr) \<Rightarrow> n = N_end \<and> st_terminal_status s = Some ''succeeded''
       \<and> st_task_type s = Some Gt_market_analysis \<and> st_review_policy s = Some ''required''"
  by code_simp

definition outage_run :: "(node_error, graph_conf) result" where
  "outage_run = run_graph sample_params
     (replicate 11 (sample_env\<lparr>env_fetch := Fetch_unavailable sample_outage\<rparr>)) sample_start"

lemma outage_run_ends:
  "case outage_run of Inl e \<Rightarrow> False
   | Inr (n, s, tr) \<Rightarrow> n = N_end \<and> map event_seq tr = [10, 11, 20, 100]"
  by code_simp

section \<open>Properties\<close>



text \<open>
  C34. The sequence numbers of the events a run emits never decrease, and two events share a
  number only in one place: the two progress events of a deep research run that fails.
\<close>

theorem run_events_in_order:
  assumes "graph_reachable p (n, s, tr)"
  shows "sorted_wrt (\<lambda>a b. event_seq a < event_seq b
     \<or> (event_seq a = 20 \<and> event_seq b = 20 \<and> pe_body a = Task_progress ''deep_research'' Active
        \<and> pe_body b = Task_progress ''deep_research'' Progress_failed)) tr"
proof -
  have "sorted_wrt emitted_before tr" using reachable_trace_inv [OF assms] by simp
  then show ?thesis
    by (rule sorted_wrt_mono_rel [rotated]) (auto simp: emitted_before_def same_slot_def)
qed

theorem run_events_in_order_witness:
  "\<exists>s tr. outage_run = Inr (N_end, s, tr) \<and> length tr = 4
     \<and> sorted_wrt (\<lambda>a b. event_seq a < event_seq b
         \<or> (event_seq a = 20 \<and> event_seq b = 20 \<and> pe_body a = Task_progress ''deep_research'' Active
            \<and> pe_body b = Task_progress ''deep_research'' Progress_failed)) tr"
proof -
  from outage_run_ends obtain s tr where run: "outage_run = Inr (N_end, s, tr)"
    and tr: "map event_seq tr = [10, 11, 20, 100]" by (auto split: sum.splits)
  have "graph_reachable sample_params (N_end, s, tr)"
    using run_graph_reachable [OF sample_start_reachable] run by (simp add: outage_run_def)
  from run_events_in_order [OF this] have "sorted_wrt (\<lambda>a b. event_seq a < event_seq b
     \<or> (event_seq a = 20 \<and> event_seq b = 20 \<and> pe_body a = Task_progress ''deep_research'' Active
        \<and> pe_body b = Task_progress ''deep_research'' Progress_failed)) tr" .
  moreover have "length tr = 4" using arg_cong [OF tr, of length] by simp
  ultimately show ?thesis using run by blast
qed

text \<open>
  C35. A run ends within eleven nodes, or stops with an error, unless the reviewer asks for an
  edit: the only cycle of the graph goes through the edit node.
\<close>

theorem run_without_edits_ends:
  assumes "list_all (\<lambda>env. rr_action (env_response env) \<noteq> Edit) envs" and "11 \<le> length envs"
  shows "case run_graph p envs (N_validate_request, s, []) of
     Inl e \<Rightarrow> True | Inr (n, t, tr) \<Rightarrow> n = N_end"
  using run_graph_rank [OF assms(1), of N_validate_request p s "[]"] assms(2)
  by (auto split: sum.splits)

theorem run_without_edits_ends_witness:
  "case outage_run of Inl e \<Rightarrow> False | Inr (n, t, tr) \<Rightarrow> n = N_end"
  using run_without_edits_ends [of "replicate 11 (sample_env\<lparr>env_fetch := Fetch_unavailable sample_outage\<rparr>)"
      sample_params sample_state] outage_run_ends
  by (auto simp: outage_run_def sample_start_def sample_env_def list_all_iff split: sum.splits)

text \<open>
  A deep research run that fails emits two progress events under one sequence number, so
  under one event id: a consumer that keys events by their id sees the failure and the start as
  the same event with different contents.
\<close>

theorem failed_deep_research_reuses_event_id:
  assumes "node_run_deep_research p (Deep_error kind x) s = Inr (t, [a, b])"
  shows "pe_event_id a = pe_event_id b \<and> pe_identity a = pe_identity b
     \<and> pe_body a = Task_progress ''deep_research'' Active
     \<and> pe_body b = Task_progress ''deep_research'' Progress_failed
     \<and> st_terminal_status t = Some ''failed''"
proof -
  from assms obtain xs ys where
    xs: "emit (gp_digest p) (gp_config p) 20 (Task_progress ''deep_research'' Active) = Inr xs"
    and ys: "emit (gp_digest p) (gp_config p) 20 (Task_progress ''deep_research'' Progress_failed) = Inr ys"
    and ab: "xs @ ys = [a, b]" and t: "st_terminal_status t = Some ''failed''"
    by (auto simp: node_run_deep_research_def rbind_Inr_iff Let_def emit_task_progress_def failed_with_def)
  from emit_length [OF xs] emit_length [OF ys] ab have "xs = [a]" "ys = [b]"
    by (auto simp: append_eq_Cons_conv)
  with emit_Inr [OF xs] emit_Inr [OF ys] t show ?thesis by auto
qed

definition sample_deep_state :: analysis_state where
  "sample_deep_state = sample_state\<lparr>st_request := Some (Raw_deep \<lparr>dq_symbol = BTC_USDT_SWAP,
     dq_horizon = ''4h'', dq_query_text = ''q''\<rparr>), st_task_type := Some Gt_deep_research\<rparr>"

definition sample_failure :: caught_exception where
  "sample_failure = \<lparr>cx_type = ''SearchError'', cx_error_type = None, cx_retryable = True,
     cx_transient = False, cx_provider = None, cx_attempt = Some 2\<rparr>"

theorem failed_deep_research_reuses_event_id_witness:
  "\<exists>t a b. node_run_deep_research sample_params (Deep_error Search_failure sample_failure)
       sample_deep_state = Inr (t, [a, b]) \<and> pe_event_id a = pe_event_id b \<and> pe_body a \<noteq> pe_body b"
proof -
  have "\<exists>t a b. node_run_deep_research sample_params (Deep_error Search_failure sample_failure)
       sample_deep_state = Inr (t, [a, b])"
    by (simp add: node_run_deep_research_def load_deep_request_def sample_deep_state_def require_key_def
        mk_deep_research_request_def valid_deep_research_request_def len_between_def construct_def
        with_events_def emit_task_progress_def sample_progress phase_char_def)
  then obtain t a b where "node_run_deep_research sample_params (Deep_error Search_failure sample_failure)
       sample_deep_state = Inr (t, [a, b])" by blast
  with failed_deep_research_reuses_event_id [OF this] show ?thesis by auto
qed

end
