(* ===== verification/Interfaces.thy ===== *)
theory Interfaces
  imports Prelude
begin

text \<open>
  The contracts several repositories share. An idempotent write: a request is recorded under its
  key once; the same request again answers without changing the table, also after other requests
  have been written in between; the outbox and the usage ledger provide it. And a fenced lease, which the
  control commands of monitors provide: a token that only grows tells a holder of the lease from
  those before it.
\<close>

fun write_all :: "('r \<Rightarrow> 't \<Rightarrow> ('e, 'o \<times> 't) result) \<Rightarrow> 'r list \<Rightarrow> 't \<Rightarrow> ('e, 't) result" where
  "write_all w [] t = Inr t"
| "write_all w (r # rs) t = rbind (w r t) (\<lambda>(v, u). write_all w rs u)"

locale idempotent_write =
  fixes put :: "'r \<Rightarrow> 't \<Rightarrow> ('e, 'o \<times> 't) result"
    and holds :: "'r \<Rightarrow> 't \<Rightarrow> bool" and keys :: "'t \<Rightarrow> 'k set" and key :: "'r \<Rightarrow> 'k"
  assumes recorded: "put r t = Inr (v, u) \<Longrightarrow> holds r u"
    and replayed: "holds r t \<Longrightarrow> \<exists>v. put r t = Inr (v, t)"
    and kept: "put r t = Inr (v, u) \<Longrightarrow> holds s t \<Longrightarrow> holds s u"
    and keyed: "put r t = Inr (v, u) \<Longrightarrow> keys u = insert (key r) (keys t)"
begin

lemma kept_by_all: "write_all put rs t = Inr u \<Longrightarrow> holds s t \<Longrightarrow> holds s u"
  by (induction rs arbitrary: t) (auto simp: rbind_Inr_iff intro: kept)

lemma recorded_by_all: "write_all put rs t = Inr u \<Longrightarrow> r \<in> set rs \<Longrightarrow> holds r u"
proof (induction rs arbitrary: t)
  case (Cons s rs)
  from Cons.prems(1) obtain v w where "put s t = Inr (v, w)" and rest: "write_all put rs w = Inr u"
    by (auto simp: rbind_Inr_iff)
  with Cons show ?case by (auto intro: kept_by_all [OF rest] recorded)
qed simp

lemma replay_after_all: "write_all put rs t = Inr u \<Longrightarrow> r \<in> set rs \<Longrightarrow> \<exists>v. put r u = Inr (v, u)"
  by (rule replayed) (rule recorded_by_all)

lemma replay_all_of: "\<forall>r \<in> set rs. holds r t \<Longrightarrow> write_all put rs t = Inr t"
proof (induction rs)
  case (Cons r rs)
  from Cons.prems replayed [of r t] obtain v where "put r t = Inr (v, t)" by auto
  with Cons show ?case by simp
qed simp

lemma replay_all: "write_all put rs t = Inr u \<Longrightarrow> write_all put rs u = Inr u"
  using replay_all_of [of rs u] recorded_by_all [of rs t u] by blast

lemma keys_of_all: "write_all put rs t = Inr u \<Longrightarrow> keys u = key ` set rs \<union> keys t"
  by (induction rs arbitrary: t) (auto simp: rbind_Inr_iff dest!: keyed)

end

section \<open>Fenced leases\<close>

locale fenced_lease =
  fixes advance :: "'s \<Rightarrow> 's \<Rightarrow> bool" and fence :: "'k \<Rightarrow> 's \<Rightarrow> int"
    and leased :: "'k \<Rightarrow> int \<Rightarrow> 's \<Rightarrow> bool" and sound :: "'s \<Rightarrow> bool"
  assumes sound_kept: "advance s t \<Longrightarrow> sound s \<Longrightarrow> sound t"
    and fence_grows: "advance s t \<Longrightarrow> sound s \<Longrightarrow> fence k s \<le> fence k t"
    and holder: "sound s \<Longrightarrow> leased k f s \<Longrightarrow> fence k s = f"
begin

lemma sound_kept_all: "advance\<^sup>*\<^sup>* s t \<Longrightarrow> sound s \<Longrightarrow> sound t"
  by (induction rule: rtranclp_induct) (auto intro: sound_kept)

lemma fence_grows_all: "advance\<^sup>*\<^sup>* s t \<Longrightarrow> sound s \<Longrightarrow> fence k s \<le> fence k t"
proof (induction rule: rtranclp_induct)
  case (step t u)
  with fence_grows [of t u k] sound_kept_all [of s t] show ?case by auto
qed simp

lemma superseded: "advance\<^sup>*\<^sup>* s t \<Longrightarrow> sound s \<Longrightarrow> f < fence k s \<Longrightarrow> \<not> leased k f t"
  using fence_grows_all [of s t k] sound_kept_all [of s t] holder [of t k f] by auto

lemma one_holder: "sound s \<Longrightarrow> leased k f s \<Longrightarrow> leased k g s \<Longrightarrow> f = g"
  using holder by metis

end

end
