(* ===== verification/Notification_Outbox.thy ===== *)
theory Notification_Outbox
  imports Interfaces
begin

text \<open>
  The notification outbox (\<open>notifications/outbox.py\<close>): planning a notification under its logical
  key and asking for a manual resend. The tables are those of \<open>persistence/models.py\<close>, with the
  columns the code reads and writes and the check constraints as predicates. The four regular
  expressions for sensitive values are the predicate \<open>sensitive_text\<close>, and the SHA-256 of the
  encoded canonical text is the function \<open>digest\<close> of the canonical document. The value that
  \<open>ON UPDATE\<close> gives \<open>updated_at\<close> is the database's and is not modelled.
\<close>

section \<open>Rows\<close>

datatype notification_status =
    Planned | Leased | Sending | Delivered | Failed_retryable | Failed_terminal | Unknown
datatype attempt_trigger = Automatic | Manual
datatype attempt_result =
    At_leased | At_sending | At_delivered | At_failed_retryable | At_failed_terminal | At_unknown
  | At_released

record notification =
  nt_id :: uuid
  nt_tenant_id :: uuid
  nt_workspace_id :: uuid
  nt_owner_user_id :: uuid
  nt_task_id :: uuid
  nt_run_id :: uuid
  nt_artifact_id :: uuid
  nt_artifact_version_id :: uuid
  nt_decision_id :: uuid
  nt_decision_version :: int
  nt_destination_id :: "uuid option"
  nt_channel :: string
  nt_type :: string
  nt_payload :: json
  nt_payload_hash :: string
  nt_status :: notification_status
  nt_available_at :: instant
  nt_attempt_count :: nat
  nt_fence_token :: nat
  nt_lease_owner :: "string option"
  nt_lease_expires_at :: "instant option"
  nt_delivered_at :: "instant option"
  nt_terminal_at :: "instant option"
  nt_resend_requested_at :: "instant option"
  nt_resend_requested_by :: "string option"
  nt_resend_reason :: "string option"
  nt_created_at :: instant
  nt_updated_at :: instant

record attempt =
  at_outbox_id :: uuid
  at_attempt_number :: nat
  at_owner :: string
  at_fence_token :: nat
  at_trigger :: attempt_trigger
  at_requested_by :: "string option"
  at_reason :: "string option"
  at_error_code :: "string option"
  at_delay_seconds :: int
  at_retry_after_seconds :: "int option"
  at_cost_units :: decimal
  at_result :: attempt_result
  at_provider_receipt :: "string option"
  at_created_at :: instant
  at_finished_at :: "instant option"

record outbox_db =
  db_outbox :: "notification list"
  db_attempts :: "attempt list"

text \<open>The check constraints of the two tables.\<close>

definition lease_check :: "notification \<Rightarrow> bool" where
  "lease_check n \<longleftrightarrow> (nt_status n \<in> {Leased, Sending}) =
     (nt_lease_owner n \<noteq> None \<and> nt_lease_expires_at n \<noteq> None)"

definition resend_check :: "notification \<Rightarrow> bool" where
  "resend_check n \<longleftrightarrow>
     (if nt_resend_requested_at n = None
      then nt_resend_requested_by n = None \<and> nt_resend_reason n = None
      else nt_resend_requested_by n \<noteq> None)"

definition notification_check :: "notification \<Rightarrow> bool" where
  "notification_check n \<longleftrightarrow> nt_attempt_count n \<le> 5 \<and> lease_check n \<and> resend_check n"

definition attempt_check :: "attempt \<Rightarrow> bool" where
  "attempt_check a \<longleftrightarrow> 1 \<le> at_attempt_number a \<and> at_attempt_number a \<le> 5 \<and> 1 \<le> at_fence_token a
     \<and> 0 \<le> at_delay_seconds a \<and> opt_ok (\<lambda>x. 0 \<le> x) (at_retry_after_seconds a)
     \<and> 0 \<le> at_cost_units a
     \<and> (if at_trigger a = Automatic then at_requested_by a = None else at_requested_by a \<noteq> None)"

section \<open>Normalisation\<close>

datatype outbox_error =
    Value_error
  | Sensitive_payload
  | Lineage_conflict uuid
  | Payload_conflict uuid string string
  | Not_resendable
  | Budget_exhausted
  | Runtime_error

definition required_identifier :: "string \<Rightarrow> nat \<Rightarrow> (outbox_error, string) result" where
  "required_identifier value max_length =
     (let normalized = lower (strip value) in
      if normalized = [] then Inl Value_error
      else if length normalized > max_length then Inl Value_error
      else Inr normalized)"

definition required_text :: "string \<Rightarrow> nat \<Rightarrow> (outbox_error, string) result" where
  "required_text value max_length =
     (let normalized = strip value in
      if normalized = [] \<or> length normalized > max_length \<or> list_ex is_control normalized
      then Inl Value_error else Inr normalized)"

fun aware_utc :: "pydatetime \<Rightarrow> (outbox_error, instant) result" where
  "aware_utc (Aware t) = Inr t"
| "aware_utc (Offsetless t) = Inl Value_error"
| "aware_utc (Naive t) = Inl Value_error"

section \<open>Payloads\<close>

text \<open>
  The Python value of a payload. A float is \<open>None\<close> when it is not finite, and \<open>P_other\<close> is a
  value \<open>json.dumps\<close> refuses, such as bytes.
\<close>

datatype payload_key = Key_str string | Key_other

datatype payload =
    P_null
  | P_bool bool
  | P_int int
  | P_float "float64 option"
  | P_str string
  | P_secret
  | P_other
  | P_seq "payload list"
  | P_map "(payload_key \<times> payload) list"

definition SENSITIVE_KEY_PARTS :: "string list" where
  "SENSITIVE_KEY_PARTS = [''api_key'', ''apikey'', ''authorization'', ''bark_key'', ''barkkey'',
     ''cookie'', ''credential'', ''device_key'', ''devicekey'', ''password'', ''private_key'',
     ''secret'', ''token'']"

definition normalized_key :: "string \<Rightarrow> string" where
  "normalized_key key = map (\<lambda>c. if c = CHR ''-'' then CHR ''_'' else c) (lower (strip key))"

definition sensitive_key :: "string \<Rightarrow> bool" where
  "sensitive_key key \<longleftrightarrow> list_ex (\<lambda>part. is_infix_of part (normalized_key key)) SENSITIVE_KEY_PARTS"

fun check_key :: "payload_key \<Rightarrow> (outbox_error, unit) result" where
  "check_key Key_other = Inl Value_error"
| "check_key (Key_str key) = (if sensitive_key key then Inl Sensitive_payload else Inr ())"

fun validate_payload :: "(string \<Rightarrow> bool) \<Rightarrow> payload \<Rightarrow> (outbox_error, unit) result"
and validate_members :: "(string \<Rightarrow> bool) \<Rightarrow> payload list \<Rightarrow> (outbox_error, unit) result"
and validate_items :: "(string \<Rightarrow> bool) \<Rightarrow> (payload_key \<times> payload) list \<Rightarrow> (outbox_error, unit) result"
where
  "validate_payload sensitive_text P_secret = Inl Sensitive_payload"
| "validate_payload sensitive_text (P_map items) = validate_items sensitive_text items"
| "validate_payload sensitive_text (P_seq members) = validate_members sensitive_text members"
| "validate_payload sensitive_text (P_str s) =
     (if sensitive_text s then Inl Sensitive_payload else Inr ())"
| "validate_payload sensitive_text P_null = Inr ()"
| "validate_payload sensitive_text (P_bool b) = Inr ()"
| "validate_payload sensitive_text (P_int n) = Inr ()"
| "validate_payload sensitive_text (P_float x) = Inr ()"
| "validate_payload sensitive_text P_other = Inr ()"
| "validate_members sensitive_text [] = Inr ()"
| "validate_members sensitive_text (m # ms) =
     rbind (validate_payload sensitive_text m) (\<lambda>_. validate_members sensitive_text ms)"
| "validate_items sensitive_text [] = Inr ()"
| "validate_items sensitive_text ((k, m) # items) =
     rbind (check_key k) (\<lambda>_. rbind (validate_payload sensitive_text m)
       (\<lambda>_. validate_items sensitive_text items))"

text \<open>Serialisation: \<open>json.dumps\<close> with \<open>allow_nan=False\<close>, read back.\<close>

fun dump_payload :: "payload \<Rightarrow> (outbox_error, json) result"
and dump_members :: "payload list \<Rightarrow> (outbox_error, json list) result"
and dump_items :: "(payload_key \<times> payload) list \<Rightarrow> (outbox_error, (string \<times> json) list) result"
where
  "dump_payload P_null = Inr JNull"
| "dump_payload (P_bool b) = Inr (JBool b)"
| "dump_payload (P_int n) = Inr (JInt n)"
| "dump_payload (P_float x) = (case x of None \<Rightarrow> Inl Value_error | Some v \<Rightarrow> Inr (JFloat v))"
| "dump_payload (P_str s) = Inr (JStr s)"
| "dump_payload P_secret = Inl Value_error"
| "dump_payload P_other = Inl Value_error"
| "dump_payload (P_seq members) = rbind (dump_members members) (\<lambda>xs. Inr (JArr xs))"
| "dump_payload (P_map items) = rbind (dump_items items) (\<lambda>xs. Inr (JObj xs))"
| "dump_members [] = Inr []"
| "dump_members (m # ms) = rbind (dump_payload m) (\<lambda>x. rbind (dump_members ms) (\<lambda>xs. Inr (x # xs)))"
| "dump_items [] = Inr []"
| "dump_items ((k, m) # items) = (case k of
     Key_other \<Rightarrow> Inl Value_error
   | Key_str key \<Rightarrow> rbind (dump_payload m) (\<lambda>x. rbind (dump_items items) (\<lambda>xs. Inr ((key, x) # xs))))"

definition json_copy :: "(string \<Rightarrow> bool) \<Rightarrow> payload \<Rightarrow> (outbox_error, json) result" where
  "json_copy sensitive_text p =
     rbind (validate_payload sensitive_text p) (\<lambda>_. dump_payload p)"

text \<open>The document with the keys of every object sorted, which is what the hash depends on.\<close>

function (sequential) canonical :: "json \<Rightarrow> json" where
  "canonical (JArr xs) = JArr (map canonical xs)"
| "canonical (JObj kvs) = JObj (sort_key fst (map (\<lambda>(k, v). (k, canonical v)) kvs))"
| "canonical j = j"
  by pat_completeness auto
termination
  by (relation "measure size")
    (auto simp: less_Suc_eq_le intro: size_list_estimation' size_list_estimation
      dest: size_list_estimation')

definition canonical_payload_hash ::
  "(string \<Rightarrow> bool) \<Rightarrow> (json \<Rightarrow> string) \<Rightarrow> payload \<Rightarrow> (outbox_error, string) result" where
  "canonical_payload_hash sensitive_text digest p =
     rbind (json_copy sensitive_text p) (\<lambda>j. Inr (digest (canonical j)))"

section \<open>Planning\<close>

record plan_request =
  pr_tenant_id :: uuid
  pr_workspace_id :: uuid
  pr_owner_user_id :: uuid
  pr_task_id :: uuid
  pr_run_id :: uuid
  pr_artifact_id :: uuid
  pr_artifact_version_id :: uuid
  pr_decision_id :: uuid
  pr_decision_version :: int
  pr_destination_id :: "uuid option"
  pr_channel :: string
  pr_notification_type :: string
  pr_payload :: payload

record notification_plan =
  pl_notification :: notification
  pl_created :: bool

type_synonym logical_key_columns = "uuid \<times> uuid \<times> string \<times> string \<times> int"

definition logical_key :: "notification \<Rightarrow> logical_key_columns" where
  "logical_key n = (nt_workspace_id n, nt_task_id n, nt_channel n, nt_type n, nt_decision_version n)"

definition planned_row ::
  "uuid \<Rightarrow> instant \<Rightarrow> plan_request \<Rightarrow> string \<Rightarrow> string \<Rightarrow> json \<Rightarrow> string \<Rightarrow> notification" where
  "planned_row notification_id planned_at r channel typ payload payload_hash =
     \<lparr>nt_id = notification_id, nt_tenant_id = pr_tenant_id r, nt_workspace_id = pr_workspace_id r,
      nt_owner_user_id = pr_owner_user_id r, nt_task_id = pr_task_id r, nt_run_id = pr_run_id r,
      nt_artifact_id = pr_artifact_id r, nt_artifact_version_id = pr_artifact_version_id r,
      nt_decision_id = pr_decision_id r, nt_decision_version = pr_decision_version r,
      nt_destination_id = pr_destination_id r, nt_channel = channel, nt_type = typ,
      nt_payload = payload, nt_payload_hash = payload_hash, nt_status = Planned,
      nt_available_at = planned_at, nt_attempt_count = 0, nt_fence_token = 0,
      nt_lease_owner = None, nt_lease_expires_at = None, nt_delivered_at = None,
      nt_terminal_at = None, nt_resend_requested_at = None, nt_resend_requested_by = None,
      nt_resend_reason = None, nt_created_at = planned_at, nt_updated_at = planned_at\<rparr>"

definition same_lineage :: "notification \<Rightarrow> plan_request \<Rightarrow> bool" where
  "same_lineage n r \<longleftrightarrow> nt_tenant_id n = pr_tenant_id r \<and> nt_workspace_id n = pr_workspace_id r
     \<and> nt_owner_user_id n = pr_owner_user_id r \<and> nt_task_id n = pr_task_id r
     \<and> nt_run_id n = pr_run_id r \<and> nt_artifact_id n = pr_artifact_id r
     \<and> nt_artifact_version_id n = pr_artifact_version_id r
     \<and> nt_decision_id n = pr_decision_id r \<and> nt_decision_version n = pr_decision_version r
     \<and> nt_destination_id n = pr_destination_id r"

definition plan_row ::
  "notification \<Rightarrow> plan_request \<Rightarrow> outbox_db \<Rightarrow> (outbox_error, notification_plan \<times> outbox_db) result" where
  \<comment> \<open>the insert and what follows it, with the row built\<close>
  "plan_row row r db =
     (if logical_key row \<notin> set (map logical_key (db_outbox db)) then
        Inr (\<lparr>pl_notification = row, pl_created = True\<rparr>,
             db\<lparr>db_outbox := insert_unless logical_key row (db_outbox db)\<rparr>)
      else
        (case find (\<lambda>n. logical_key n = logical_key row) (db_outbox db) of
           None \<Rightarrow> Inl Runtime_error
         | Some n \<Rightarrow>
             (if \<not> same_lineage n r then Inl (Lineage_conflict (nt_id n))
              else if nt_payload_hash n \<noteq> nt_payload_hash row then
                Inl (Payload_conflict (nt_id n) (nt_payload_hash n) (nt_payload_hash row))
              else Inr (\<lparr>pl_notification = n, pl_created = False\<rparr>, db))))"

definition plan_notification ::
  "(string \<Rightarrow> bool) \<Rightarrow> (json \<Rightarrow> string) \<Rightarrow> uuid \<Rightarrow> instant \<Rightarrow> pydatetime option \<Rightarrow> plan_request
     \<Rightarrow> outbox_db \<Rightarrow> (outbox_error, notification_plan \<times> outbox_db) result" where
  "plan_notification sensitive_text digest fresh_id clock now r db =
     rbind (required_identifier (pr_channel r) 64) (\<lambda>channel.
     rbind (required_identifier (pr_notification_type r) 128) (\<lambda>typ.
     ensure (1 \<le> pr_decision_version r) Value_error (
     rbind (json_copy sensitive_text (pr_payload r)) (\<lambda>payload.
     rbind (aware_utc (case now of None \<Rightarrow> Aware clock | Some t \<Rightarrow> t)) (\<lambda>planned_at.
       plan_row (planned_row fresh_id planned_at r channel typ payload (digest (canonical payload)))
         r db)))))"

section \<open>Manual resend\<close>

definition in_scope :: "uuid \<Rightarrow> uuid \<Rightarrow> uuid \<Rightarrow> uuid \<Rightarrow> notification \<Rightarrow> bool" where
  "in_scope notification_id tenant workspace owner n \<longleftrightarrow> nt_id n = notification_id
     \<and> nt_tenant_id n = tenant \<and> nt_workspace_id n = workspace \<and> nt_owner_user_id n = owner"

definition HOUR :: int where "HOUR = 3600 * SECOND"

definition resend_blocked :: "outbox_db \<Rightarrow> instant \<Rightarrow> notification \<Rightarrow> outbox_error option" where
  "resend_blocked db requested_at n =
     (if nt_status n \<notin> {Unknown, Failed_retryable, Failed_terminal} then Some Not_resendable
      else if nt_resend_requested_at n \<noteq> None then Some Not_resendable
      else if list_ex (\<lambda>a. at_outbox_id a = nt_id n \<and> at_trigger a = Manual) (db_attempts db)
      then Some Not_resendable
      else if nt_attempt_count n \<ge> 5 \<or> nt_created_at n \<le> requested_at - 24 * HOUR
      then Some Budget_exhausted
      else None)"

definition mark_resend :: "instant \<Rightarrow> string \<Rightarrow> string \<Rightarrow> notification \<Rightarrow> notification" where
  "mark_resend requested_at actor reason n =
     n\<lparr>nt_resend_requested_at := Some requested_at, nt_resend_requested_by := Some actor,
       nt_resend_reason := Some reason, nt_updated_at := requested_at\<rparr>"

definition request_manual_resend ::
  "uuid \<Rightarrow> uuid \<Rightarrow> uuid \<Rightarrow> uuid \<Rightarrow> string \<Rightarrow> string \<Rightarrow> instant \<Rightarrow> pydatetime option
     \<Rightarrow> outbox_db \<Rightarrow> (outbox_error, notification option \<times> outbox_db) result" where
  "request_manual_resend notification_id tenant workspace owner requested_by reason clock now db =
     rbind (required_text requested_by 255) (\<lambda>actor.
     rbind (required_text reason 500) (\<lambda>normalized_reason.
     rbind (aware_utc (case now of None \<Rightarrow> Aware clock | Some t \<Rightarrow> t)) (\<lambda>requested_at.
       case find (in_scope notification_id tenant workspace owner) (db_outbox db) of
         None \<Rightarrow> Inr (None, db)
       | Some n \<Rightarrow>
           (case resend_blocked db requested_at n of
              Some e \<Rightarrow> Inl e
            | None \<Rightarrow>
                Inr (Some (mark_resend requested_at actor normalized_reason n),
                  db\<lparr>db_outbox := update_where (\<lambda>m. nt_id m = nt_id n)
                       (mark_resend requested_at actor normalized_reason) (db_outbox db)\<rparr>)))))"

section \<open>Facts\<close>

lemma required_identifier_Inr:
  "required_identifier v k = Inr x \<Longrightarrow> x = lower (strip v) \<and> x \<noteq> [] \<and> length x \<le> k"
  by (auto simp: required_identifier_def Let_def split: if_splits)

lemma required_text_Inr:
  "required_text v k = Inr x \<Longrightarrow> x = strip v \<and> x \<noteq> [] \<and> length x \<le> k \<and> \<not> list_ex is_control x"
  by (auto simp: required_text_def Let_def split: if_splits)

lemma aware_utc_Inr [simp]: "aware_utc d = Inr t \<longleftrightarrow> d = Aware t"
  by (cases d) auto

text \<open>No key of an admitted document names a secret and no text of it carries one.\<close>

fun clean :: "(string \<Rightarrow> bool) \<Rightarrow> json \<Rightarrow> bool" where
  "clean sensitive_text (JStr s) = (\<not> sensitive_text s)"
| "clean sensitive_text (JArr xs) = list_all (clean sensitive_text) xs"
| "clean sensitive_text (JObj kvs) =
     (list_all (\<lambda>k. \<not> sensitive_key k) (map fst kvs) \<and> list_all (clean sensitive_text) (map snd kvs))"
| "clean sensitive_text _ = True"

lemma validated_clean:
  "validate_payload st p = Inr () \<Longrightarrow> dump_payload p = Inr j \<Longrightarrow> clean st j"
  "validate_members st ms = Inr () \<Longrightarrow> dump_members ms = Inr js \<Longrightarrow> list_all (clean st) js"
  "validate_items st is = Inr () \<Longrightarrow> dump_items is = Inr kvs \<Longrightarrow> clean st (JObj kvs)"
proof (induction st p and st ms and st "is" arbitrary: j and js and kvs
    rule: validate_payload_validate_members_validate_items.induct)
  case (13 st k m items)
  then show ?case
    by (cases k) (auto simp: rbind_Inr_iff split: if_splits)
qed (auto simp: rbind_Inr_iff split: option.splits if_splits)

lemma plan_row_cases:
  assumes "plan_row row r db = Inr (plan, db')"
  shows "logical_key row \<notin> logical_key ` set (db_outbox db) \<and> plan = \<lparr>pl_notification = row, pl_created = True\<rparr>
           \<and> db' = db\<lparr>db_outbox := db_outbox db @ [row]\<rparr>
       \<or> (\<exists>n \<in> set (db_outbox db). logical_key n = logical_key row \<and> same_lineage n r
           \<and> nt_payload_hash n = nt_payload_hash row
           \<and> plan = \<lparr>pl_notification = n, pl_created = False\<rparr> \<and> db' = db)"
  using assms
  by (auto simp: plan_row_def insert_unless_def split: if_splits option.splits dest!: find_Some_iff2)

lemma plan_row_keys:
  assumes "plan_row row r db = Inr (plan, db')" and "distinct (map logical_key (db_outbox db))"
  shows "distinct (map logical_key (db_outbox db'))"
  using plan_row_cases [OF assms(1)] assms(2) by auto

lemma request_manual_resend_Inr:
  assumes "request_manual_resend i te wo ow re ra clock now db = Inr (found, db')"
  obtains (absent) "find (in_scope i te wo ow) (db_outbox db) = None" "found = None" "db' = db"
  | (marked) n t actor reason where "find (in_scope i te wo ow) (db_outbox db) = Some n"
      "resend_blocked db t n = None" "required_text re 255 = Inr actor"
      "required_text ra 500 = Inr reason"
      "(case now of None \<Rightarrow> Aware clock | Some d \<Rightarrow> d) = Aware t"
      "found = Some (mark_resend t actor reason n)"
      "db' = db\<lparr>db_outbox := update_where (\<lambda>m. nt_id m = nt_id n) (mark_resend t actor reason)
          (db_outbox db)\<rparr>"
proof -
  from assms obtain actor reason t where texts: "required_text re 255 = Inr actor"
    "required_text ra 500 = Inr reason"
    and t: "aware_utc (case now of None \<Rightarrow> Aware clock | Some d \<Rightarrow> d) = Inr t"
    and rest: "(case find (in_scope i te wo ow) (db_outbox db) of None \<Rightarrow> Inr (None, db)
       | Some n \<Rightarrow> (case resend_blocked db t n of Some e \<Rightarrow> Inl e
          | None \<Rightarrow> Inr (Some (mark_resend t actor reason n),
              db\<lparr>db_outbox := update_where (\<lambda>m. nt_id m = nt_id n) (mark_resend t actor reason)
                 (db_outbox db)\<rparr>))) = Inr (found, db')"
    unfolding request_manual_resend_def rbind_Inr_iff by blast
  show thesis
  proof (cases "find (in_scope i te wo ow) (db_outbox db)")
    case None
    with rest show ?thesis by (intro absent) auto
  next
    case (Some n)
    with rest texts t show ?thesis by (intro marked [of n t actor reason]) (auto split: option.splits)
  qed
qed

section \<open>Planning is an idempotent write\<close>

text \<open>The row that a request asks for, and what it means that the outbox already answers it.\<close>

definition plan_write ::
  "notification \<times> plan_request \<Rightarrow> outbox_db \<Rightarrow> (outbox_error, notification_plan \<times> outbox_db) result" where
  "plan_write rq db = (if same_lineage (fst rq) (snd rq) then plan_row (fst rq) (snd rq) db
     else Inl Runtime_error)"

definition planned_in :: "notification \<times> plan_request \<Rightarrow> outbox_db \<Rightarrow> bool" where
  "planned_in rq db \<longleftrightarrow> same_lineage (fst rq) (snd rq)
     \<and> (\<exists>n. find (\<lambda>n. logical_key n = logical_key (fst rq)) (db_outbox db) = Some n
          \<and> same_lineage n (snd rq) \<and> nt_payload_hash n = nt_payload_hash (fst rq))"

lemma find_None_keys: "find (\<lambda>n. key n = k) xs = None \<longleftrightarrow> k \<notin> key ` set xs"
  by (induction xs) auto

lemma find_key_in: "find (\<lambda>n. key n = k) xs = Some x \<Longrightarrow> k \<in> key ` set xs"
  by (auto dest!: find_Some_iff2)

lemma planned_row_lookup [simp]:
  "logical_key (planned_row i t r ch ty p h) = (pr_workspace_id r, pr_task_id r, ch, ty, pr_decision_version r)"
  "nt_payload_hash (planned_row i t r ch ty p h) = h"
  by (simp_all add: logical_key_def planned_row_def)

lemma plan_row_grows:
  assumes "plan_row row r db = Inr (plan, db')"
  shows "\<exists>ns. db_outbox db' = db_outbox db @ ns"
  using plan_row_cases [OF assms] by auto

interpretation outbox: idempotent_write plan_write planned_in
  "\<lambda>db. logical_key ` set (db_outbox db)" "\<lambda>rq. logical_key (fst rq)"
proof
  fix rq db plan db'
  assume "plan_write rq db = Inr (plan, db')"
  then have lin: "same_lineage (fst rq) (snd rq)" and run: "plan_row (fst rq) (snd rq) db = Inr (plan, db')"
    by (auto simp: plan_write_def split: if_splits)
  from run lin show "planned_in rq db'"
    by (auto simp: plan_row_def planned_in_def insert_unless_def find_append
        split: if_splits option.splits dest: find_key_in)
  show "logical_key ` set (db_outbox db') = insert (logical_key (fst rq)) (logical_key ` set (db_outbox db))"
    using plan_row_cases [OF run] by (auto intro: rev_image_eqI)
  fix s assume "planned_in s db"
  with plan_row_grows [OF run] show "planned_in s db'"
    by (auto simp: planned_in_def find_append)
next
  fix rq db assume p: "planned_in rq db"
  then obtain n where n: "find (\<lambda>n. logical_key n = logical_key (fst rq)) (db_outbox db) = Some n"
    "same_lineage n (snd rq)" "nt_payload_hash n = nt_payload_hash (fst rq)" "same_lineage (fst rq) (snd rq)"
    by (auto simp: planned_in_def)
  then have "logical_key (fst rq) \<in> logical_key ` set (db_outbox db)"
    by (blast dest: find_key_in)
  with n show "\<exists>v. plan_write rq db = Inr (v, db)"
    by (auto simp: plan_write_def plan_row_def)
qed

lemma plan_notification_Inr:
  assumes "plan_notification st digest i clock now r db = Inr (plan, db')"
  obtains ch ty t p where "required_identifier (pr_channel r) 64 = Inr ch"
    "required_identifier (pr_notification_type r) 128 = Inr ty" "1 \<le> pr_decision_version r"
    "json_copy st (pr_payload r) = Inr p"
    "(case now of None \<Rightarrow> Aware clock | Some d \<Rightarrow> d) = Aware t"
    "plan_write (planned_row i t r ch ty p (digest (canonical p)), r) db = Inr (plan, db')"
  using assms
  by (auto simp: plan_notification_def rbind_Inr_iff plan_write_def same_lineage_def planned_row_def)

section \<open>Properties\<close>

text \<open>
  Planning is idempotent. After a plan has succeeded, and after any further plans, the same
  request, at any later time and with any new identifier, is answered by the notification that
  already exists, reports nothing created and leaves the outbox as it is.
\<close>

theorem replanning_changes_nothing:
  assumes "plan_notification st digest i clock now r db = Inr (plan, db1)"
    and "write_all plan_write others db1 = Inr db2"
  shows "\<exists>n. plan_notification st digest j clock2 None r db2
       = Inr (\<lparr>pl_notification = n, pl_created = False\<rparr>, db2) \<and> same_lineage n r"
  using assms(1)
proof (cases rule: plan_notification_Inr)
  case (1 ch ty t p)
  let ?row = "\<lambda>j t. planned_row j t r ch ty p (digest (canonical p))"
  have "planned_in (?row i t, r) db2"
    using outbox.recorded [OF 1(6)] outbox.kept_by_all [OF assms(2)] by blast
  then obtain n where n: "find (\<lambda>n. logical_key n = logical_key (?row j clock2)) (db_outbox db2) = Some n"
    "same_lineage n r" "nt_payload_hash n = nt_payload_hash (?row j clock2)"
    by (auto simp: planned_in_def)
  then have "logical_key (?row j clock2) \<in> logical_key ` set (db_outbox db2)"
    by (intro find_key_in [OF n(1)])
  with n have "plan_row (?row j clock2) r db2 = Inr (\<lparr>pl_notification = n, pl_created = False\<rparr>, db2)"
    by (simp add: plan_row_def)
  with 1 n(2) show ?thesis by (simp add: plan_notification_def)
qed

definition sample_plan :: plan_request where
  "sample_plan = \<lparr>pr_tenant_id = ''t'', pr_workspace_id = ''w'', pr_owner_user_id = ''u'',
     pr_task_id = ''task'', pr_run_id = ''run'', pr_artifact_id = ''a'', pr_artifact_version_id = ''v'',
     pr_decision_id = ''d'', pr_decision_version = 1, pr_destination_id = None, pr_channel = '' Bark'',
     pr_notification_type = ''decision'', pr_payload = P_map [(Key_str ''title'', P_str ''Long'')]\<rparr>"

lemma sample_plan_succeeds:
  "is_ok (plan_notification (\<lambda>s. False) (\<lambda>j. ''hash'') ''n'' 0 None sample_plan
       \<lparr>db_outbox = [], db_attempts = []\<rparr>)"
  by (simp add: plan_notification_def sample_plan_def required_identifier_def lower_def
      lower_char_def strip_def strip_with_def is_space_def json_copy_def sensitive_key_def
      SENSITIVE_KEY_PARTS_def normalized_key_def plan_row_def insert_unless_def)

theorem replanning_changes_nothing_witness:
  "\<exists>plan db n. plan_notification (\<lambda>s. False) (\<lambda>j. ''hash'') ''n'' 0 None sample_plan
       \<lparr>db_outbox = [], db_attempts = []\<rparr> = Inr (plan, db)
     \<and> plan_notification (\<lambda>s. False) (\<lambda>j. ''hash'') ''m'' 5 None sample_plan db
       = Inr (\<lparr>pl_notification = n, pl_created = False\<rparr>, db)"
proof -
  obtain plan db where run: "plan_notification (\<lambda>s. False) (\<lambda>j. ''hash'') ''n'' 0 None sample_plan
      \<lparr>db_outbox = [], db_attempts = []\<rparr> = Inr (plan, db)"
    using sample_plan_succeeds by (auto simp: is_ok_def split: sum.splits)
  have "write_all plan_write [] db = Inr db" by simp
  from replanning_changes_nothing [OF run this, of "''m''" 5] run show ?thesis by blast
qed

text \<open>
  No notification that is planned carries a secret: no key of the stored payload, at any
  depth, contains one of the sensitive names, and no text in it matches the sensitive patterns.
\<close>

theorem planned_payload_is_clean:
  assumes "plan_notification st digest i clock now r db = Inr (plan, db')" and "pl_created plan"
  shows "clean st (nt_payload (pl_notification plan))
     \<and> nt_payload_hash (pl_notification plan) = digest (canonical (nt_payload (pl_notification plan)))"
  using assms(1)
proof (cases rule: plan_notification_Inr)
  case (1 ch ty t p)
  from 1(4) have "clean st p" by (auto simp: json_copy_def rbind_Inr_iff intro: validated_clean(1))
  moreover from 1(6) assms(2) have "pl_notification plan = planned_row i t r ch ty p (digest (canonical p))"
    by (auto simp: plan_write_def split: if_splits dest!: plan_row_cases)
  ultimately show ?thesis by (simp add: planned_row_def)
qed

theorem planned_payload_is_clean_witness:
  "\<exists>plan db. plan_notification (\<lambda>s. False) (\<lambda>j. ''hash'') ''n'' 0 None sample_plan
       \<lparr>db_outbox = [], db_attempts = []\<rparr> = Inr (plan, db)
     \<and> clean (\<lambda>s. False) (nt_payload (pl_notification plan))"
proof -
  obtain plan db where run: "plan_notification (\<lambda>s. False) (\<lambda>j. ''hash'') ''n'' 0 None sample_plan
      \<lparr>db_outbox = [], db_attempts = []\<rparr> = Inr (plan, db)"
    using sample_plan_succeeds by (auto simp: is_ok_def split: sum.splits)
  then have "pl_created plan"
    by (elim plan_notification_Inr) (auto simp: plan_write_def split: if_splits dest!: plan_row_cases)
  from planned_payload_is_clean [OF run this] run show ?thesis by blast
qed

end
