(* ===== verification/Notification_Worker.thy ===== *)
theory Notification_Worker
  imports Notification_Outbox
begin

text \<open>
  The outbox worker of \<open>workers/notification.py\<close> with the delivery results of
  \<open>notifications/adapters.py\<close>: claiming a row under a lease with a fencing token, marking the
  attempt before the provider is called, recording its result, and taking back leases. Every
  function is one database transaction; the provider's answer is an argument. A row another
  transaction has locked is skipped where the code says \<open>SKIP LOCKED\<close>: \<open>locked\<close> tells which.
\<close>

section \<open>Configuration\<close>

record worker_config =
  wk_id :: string
  wk_lease_seconds :: int
  wk_base_backoff_seconds :: int
  wk_max_backoff_seconds :: int

definition MAX_ATTEMPTS :: nat where "MAX_ATTEMPTS = 5"
definition RETRY_WINDOW :: int where "RETRY_WINDOW = 86400 * SECOND"

definition mk_worker ::
  "string \<Rightarrow> int \<Rightarrow> nat \<Rightarrow> int \<Rightarrow> int \<Rightarrow> int \<Rightarrow> rat \<Rightarrow> (outbox_error, worker_config) result" where
  "mk_worker worker_id lease_seconds max_attempts retry_window_seconds base_backoff max_backoff
       send_timeout =
     (let normalized = strip worker_id in
      if normalized = [] then Inl Value_error
      else if lease_seconds < 1 then Inl Value_error
      else if max_attempts \<noteq> 5 then Inl Value_error
      else if retry_window_seconds \<noteq> 86400 then Inl Value_error
      else if base_backoff < 1 \<or> max_backoff < base_backoff then Inl Value_error
      else if send_timeout \<le> 0 then Inl Value_error
      else Inr \<lparr>wk_id = normalized, wk_lease_seconds = lease_seconds,
                wk_base_backoff_seconds = base_backoff, wk_max_backoff_seconds = max_backoff\<rparr>)"

record notification_lease =
  nl_notification_id :: uuid
  nl_attempt_number :: nat
  nl_owner :: string
  nl_fence_token :: nat
  nl_lease_expires_at :: instant
  nl_trigger :: attempt_trigger
  nl_task_id :: uuid
  nl_run_id :: uuid
  nl_artifact_id :: uuid
  nl_decision_id :: uuid
  nl_channel :: string
  nl_notification_type :: string
  nl_decision_version :: int
  nl_payload :: json
  nl_payload_hash :: string
  nl_requested_by :: "string option"
  nl_tenant_id :: uuid
  nl_workspace_id :: uuid
  nl_owner_user_id :: uuid
  nl_destination_id :: "uuid option"

section \<open>Delivery results\<close>

datatype delivery_outcome = Dl_delivered | Dl_retryable | Dl_terminal

record delivery_result =
  dv_outcome :: delivery_outcome
  dv_reason :: "string option"
  dv_retry_after_seconds :: "int option"
  dv_cost_units :: decimal
  dv_provider_receipt :: "string option"

definition dl_retryable :: "string \<Rightarrow> delivery_result" where
  "dl_retryable reason = \<lparr>dv_outcome = Dl_retryable, dv_reason = Some reason,
     dv_retry_after_seconds = None, dv_cost_units = 0, dv_provider_receipt = None\<rparr>"

definition dl_terminal :: "string \<Rightarrow> delivery_result" where
  "dl_terminal reason = \<lparr>dv_outcome = Dl_terminal, dv_reason = Some reason,
     dv_retry_after_seconds = None, dv_cost_units = 0, dv_provider_receipt = None\<rparr>"

text \<open>
  What resolving the adapter and sending ends with: no adapter, a result, an uncertain delivery
  (\<open>DeliveryUncertainError\<close> or a timeout), another exception with its lower-case type name, or
  the cancellation of the worker.
\<close>

datatype send_answer =
    No_adapter | Answered delivery_result | Uncertain | Adapter_raised string | Send_cancelled

definition code_char :: "char \<Rightarrow> bool" where
  "code_char c \<longleftrightarrow> is_alnum_ascii c \<or> c \<in> set ''_.:-''"

definition safe_reason :: "string \<Rightarrow> string" where
  "safe_reason v = (if 1 \<le> length v \<and> length v \<le> 128 \<and> list_all code_char v
     then v else ''adapter_error'')"

definition safe_receipt :: "string option \<Rightarrow> string option" where
  "safe_receipt v = (case v of None \<Rightarrow> None
     | Some s \<Rightarrow> (let normalized = strip s in
         if normalized \<noteq> [] \<and> is_alnum_ascii (hd normalized) \<and> length normalized \<le> 128
            \<and> list_all code_char (tl normalized) then Some normalized else None))"

definition retry_after_of :: "int option \<Rightarrow> int option" where
  "retry_after_of v = (case v of None \<Rightarrow> None
     | Some n \<Rightarrow> if n < 0 then None else Some (min n 86400))"

definition nonnegative_cost :: "decimal \<Rightarrow> decimal" where
  "nonnegative_cost v = (if v < 0 then 0 else v)"

section \<open>Changes of a row and of its attempt\<close>

definition clear_lease :: "notification \<Rightarrow> notification" where
  "clear_lease n = n\<lparr>nt_lease_owner := None, nt_lease_expires_at := None\<rparr>"

definition active_attempt :: "notification \<Rightarrow> attempt \<Rightarrow> bool" where
  "active_attempt n a \<longleftrightarrow> at_outbox_id a = nt_id n \<and> at_attempt_number a = nt_attempt_count n
     \<and> Some (at_owner a) = nt_lease_owner n \<and> at_fence_token a = nt_fence_token n
     \<and> at_result a \<in> {At_leased, At_sending}"

fun update_first :: "('r \<Rightarrow> bool) \<Rightarrow> ('r \<Rightarrow> 'r) \<Rightarrow> 'r list \<Rightarrow> 'r list" where
  "update_first P f [] = []"
| "update_first P f (x # xs) = (if P x then f x # xs else x # update_first P f xs)"

text \<open>The row \<open>n\<close> that a statement has loaded, and the attempt loaded with it, written back.\<close>

definition write_row ::
  "notification \<Rightarrow> (notification \<Rightarrow> notification) \<Rightarrow> (attempt \<Rightarrow> attempt) \<Rightarrow> outbox_db \<Rightarrow> outbox_db" where
  "write_row n f g db = db\<lparr>db_outbox := update_where (\<lambda>m. nt_id m = nt_id n) f (db_outbox db),
     db_attempts := update_first (active_attempt n) g (db_attempts db)\<rparr>"

definition set_unknown :: "instant \<Rightarrow> notification \<Rightarrow> notification" where
  "set_unknown now n = clear_lease (n\<lparr>nt_status := Unknown, nt_terminal_at := Some now\<rparr>)"

definition attempt_unknown :: "instant \<Rightarrow> string \<Rightarrow> attempt \<Rightarrow> attempt" where
  "attempt_unknown now reason a = a\<lparr>at_result := At_unknown, at_reason := Some (safe_reason reason),
     at_error_code := Some (safe_reason reason), at_finished_at := Some now\<rparr>"

definition window_closed :: "instant \<Rightarrow> notification \<Rightarrow> bool" where
  "window_closed now n \<longleftrightarrow> nt_created_at n \<le> now - RETRY_WINDOW"

definition fail_terminal :: "instant \<Rightarrow> notification \<Rightarrow> notification" where
  "fail_terminal now n = clear_lease (n\<lparr>nt_status := Failed_terminal, nt_terminal_at := Some now\<rparr>)"

definition release_without_send :: "instant \<Rightarrow> notification \<Rightarrow> notification" where
  "release_without_send now n =
     (if nt_attempt_count n \<ge> MAX_ATTEMPTS \<or> window_closed now n then fail_terminal now n
      else clear_lease (n\<lparr>nt_status := Failed_retryable, nt_available_at := now\<rparr>))"

definition give_up_lease :: "instant \<Rightarrow> string \<Rightarrow> notification \<Rightarrow> outbox_db \<Rightarrow> outbox_db" where
  \<comment> \<open>the body of the loops over leases that expired or that the worker gives back\<close>
  "give_up_lease now reason n db =
     (if nt_status n = Sending
      then write_row n (set_unknown now) (attempt_unknown now reason) db
      else write_row n (release_without_send now) (\<lambda>a. a) db)"

section \<open>Claiming\<close>

definition expired_lease :: "(uuid \<Rightarrow> bool) \<Rightarrow> instant \<Rightarrow> notification \<Rightarrow> bool" where
  "expired_lease locked now n \<longleftrightarrow> \<not> locked (nt_id n) \<and> nt_status n \<in> {Leased, Sending}
     \<and> (case nt_lease_expires_at n of None \<Rightarrow> False | Some t \<Rightarrow> t \<le> now)"

definition recover_expired_leases :: "(uuid \<Rightarrow> bool) \<Rightarrow> instant \<Rightarrow> outbox_db \<Rightarrow> outbox_db" where
  "recover_expired_leases locked now db =
     fold (give_up_lease now ''sending_lease_expired'')
       (filter (expired_lease locked now) (db_outbox db)) db"

definition terminalize_expired_retry_windows :: "(uuid \<Rightarrow> bool) \<Rightarrow> instant \<Rightarrow> outbox_db \<Rightarrow> outbox_db" where
  "terminalize_expired_retry_windows locked now db =
     db\<lparr>db_outbox := update_where
          (\<lambda>n. \<not> locked (nt_id n) \<and> nt_status n \<in> {Planned, Failed_retryable} \<and> window_closed now n)
          (fail_terminal now) (db_outbox db)\<rparr>"

definition manual_claimable :: "(uuid \<Rightarrow> bool) \<Rightarrow> instant \<Rightarrow> notification \<Rightarrow> bool" where
  "manual_claimable locked now n \<longleftrightarrow> \<not> locked (nt_id n) \<and> nt_resend_requested_at n \<noteq> None
     \<and> nt_status n \<in> {Unknown, Failed_retryable, Failed_terminal}
     \<and> nt_attempt_count n < MAX_ATTEMPTS \<and> \<not> window_closed now n"

definition automatic_claimable :: "(uuid \<Rightarrow> bool) \<Rightarrow> instant \<Rightarrow> notification \<Rightarrow> bool" where
  "automatic_claimable locked now n \<longleftrightarrow> \<not> locked (nt_id n)
     \<and> nt_status n \<in> {Planned, Failed_retryable} \<and> nt_resend_requested_at n = None
     \<and> nt_available_at n \<le> now \<and> nt_attempt_count n < MAX_ATTEMPTS \<and> \<not> window_closed now n"

definition manual_order :: "notification \<Rightarrow> int \<times> int \<times> string" where
  "manual_order n = (case nt_resend_requested_at n of None \<Rightarrow> 0 | Some t \<Rightarrow> t, nt_created_at n, nt_id n)"

definition automatic_order :: "notification \<Rightarrow> int \<times> int \<times> string" where
  "automatic_order n = (nt_available_at n, nt_created_at n, nt_id n)"

definition lease_row :: "worker_config \<Rightarrow> instant \<Rightarrow> notification \<Rightarrow> notification" where
  "lease_row c now n = n\<lparr>nt_status := Leased, nt_fence_token := nt_fence_token n + 1,
     nt_lease_owner := Some (wk_id c),
     nt_lease_expires_at := Some (now + wk_lease_seconds c * SECOND), nt_terminal_at := None\<rparr>"

definition claim_locked ::
  "worker_config \<Rightarrow> instant \<Rightarrow> attempt_trigger \<Rightarrow> string option \<Rightarrow> notification \<Rightarrow> outbox_db
     \<Rightarrow> notification_lease \<times> outbox_db" where
  "claim_locked c now trigger requested_by n db =
     (\<lparr>nl_notification_id = nt_id n, nl_attempt_number = nt_attempt_count n + 1, nl_owner = wk_id c,
       nl_fence_token = nt_fence_token n + 1,
       nl_lease_expires_at = now + wk_lease_seconds c * SECOND, nl_trigger = trigger,
       nl_task_id = nt_task_id n, nl_run_id = nt_run_id n, nl_artifact_id = nt_artifact_id n,
       nl_decision_id = nt_decision_id n, nl_channel = nt_channel n, nl_notification_type = nt_type n,
       nl_decision_version = nt_decision_version n, nl_payload = nt_payload n,
       nl_payload_hash = nt_payload_hash n, nl_requested_by = requested_by,
       nl_tenant_id = nt_tenant_id n, nl_workspace_id = nt_workspace_id n,
       nl_owner_user_id = nt_owner_user_id n, nl_destination_id = nt_destination_id n\<rparr>,
      db\<lparr>db_outbox := update_where (\<lambda>m. nt_id m = nt_id n) (lease_row c now) (db_outbox db)\<rparr>)"

definition claim_next ::
  "worker_config \<Rightarrow> (uuid \<Rightarrow> bool) \<Rightarrow> instant \<Rightarrow> outbox_db \<Rightarrow> notification_lease option \<times> outbox_db" where
  "claim_next c locked now db =
     (let db' = terminalize_expired_retry_windows locked now (recover_expired_leases locked now db) in
      case first_by manual_order (filter (manual_claimable locked now) (db_outbox db')) of
        Some n \<Rightarrow> (let (l, db'') = claim_locked c now Manual (nt_resend_requested_by n) n db'
                   in (Some l, db''))
      | None \<Rightarrow>
          (case first_by automatic_order (filter (automatic_claimable locked now) (db_outbox db')) of
             Some n \<Rightarrow> (let (l, db'') = claim_locked c now Automatic None n db' in (Some l, db''))
           | None \<Rightarrow> (None, db')))"

definition claim_manual_resend ::
  "worker_config \<Rightarrow> instant \<Rightarrow> uuid \<Rightarrow> uuid \<Rightarrow> uuid \<Rightarrow> uuid \<Rightarrow> string \<Rightarrow> outbox_db
     \<Rightarrow> (outbox_error, notification_lease \<times> outbox_db) result" where
  "claim_manual_resend c now notification_id tenant workspace owner requested_by db =
     rbind (required_text requested_by 255) (\<lambda>actor.
     rbind (request_manual_resend notification_id tenant workspace owner actor
              ''direct_worker_manual_resend'' now (Some (Aware now)) db) (\<lambda>(found, db').
       case found of
         None \<Rightarrow> Inl Not_resendable
       | Some n \<Rightarrow> Inr (claim_locked c now Manual (Some actor) n db')))"

section \<open>Sending\<close>

definition locked_lease :: "notification_lease \<Rightarrow> outbox_db \<Rightarrow> notification option" where
  "locked_lease l db = find (\<lambda>n. nt_id n = nl_notification_id l
     \<and> nt_lease_owner n = Some (nl_owner l) \<and> nt_fence_token n = nl_fence_token l) (db_outbox db)"

definition start_sending :: "notification_lease \<Rightarrow> notification \<Rightarrow> notification" where
  "start_sending l n =
     (let m = n\<lparr>nt_attempt_count := nl_attempt_number l, nt_status := Sending\<rparr> in
      if nl_trigger l = Manual then m\<lparr>nt_resend_requested_at := None,
        nt_resend_requested_by := None, nt_resend_reason := None\<rparr> else m)"

definition new_attempt :: "notification_lease \<Rightarrow> instant \<Rightarrow> notification \<Rightarrow> attempt" where
  "new_attempt l now n = \<lparr>at_outbox_id = nt_id n, at_attempt_number = nl_attempt_number l,
     at_owner = nl_owner l, at_fence_token = nl_fence_token l, at_trigger = nl_trigger l,
     at_requested_by = nl_requested_by l, at_reason = None, at_error_code = None,
     at_delay_seconds = 0, at_retry_after_seconds = None, at_cost_units = 0,
     at_result = At_sending, at_provider_receipt = None, at_created_at = now,
     at_finished_at = None\<rparr>"

definition mark_sending :: "notification_lease \<Rightarrow> instant \<Rightarrow> outbox_db \<Rightarrow> bool \<times> outbox_db" where
  "mark_sending l now db = (case locked_lease l db of
     None \<Rightarrow> (False, db)
   | Some n \<Rightarrow>
       (if nt_status n \<noteq> Leased
          \<or> (case nt_lease_expires_at n of None \<Rightarrow> True | Some t \<Rightarrow> t \<le> now)
          \<or> nt_attempt_count n + 1 \<noteq> nl_attempt_number l
          \<or> nt_attempt_count n \<ge> MAX_ATTEMPTS \<or> window_closed now n
        then (False, db)
        else (True, db\<lparr>db_outbox := update_where (\<lambda>m. nt_id m = nt_id n) (start_sending l)
                         (db_outbox db),
                       db_attempts := db_attempts db @ [new_attempt l now n]\<rparr>)))"

definition finish_uncertain ::
  "notification_lease \<Rightarrow> string \<Rightarrow> instant \<Rightarrow> outbox_db \<Rightarrow> bool \<times> outbox_db" where
  "finish_uncertain l reason now db = (case locked_lease l db of
     None \<Rightarrow> (False, db)
   | Some n \<Rightarrow> (if nt_status n \<noteq> Sending then (False, db)
       else (True, write_row n (set_unknown now) (attempt_unknown now reason) db)))"

definition deliver_row :: "instant \<Rightarrow> notification \<Rightarrow> notification" where
  "deliver_row now n = clear_lease (n\<lparr>nt_status := Delivered, nt_delivered_at := Some now,
     nt_terminal_at := Some now\<rparr>)"

definition retry_row :: "instant \<Rightarrow> notification \<Rightarrow> notification" where
  "retry_row retry_at n =
     clear_lease (n\<lparr>nt_status := Failed_retryable, nt_available_at := retry_at\<rparr>)"

definition measured :: "delivery_result \<Rightarrow> instant \<Rightarrow> attempt \<Rightarrow> attempt" where
  "measured r now a = a\<lparr>at_cost_units := nonnegative_cost (dv_cost_units r),
     at_retry_after_seconds := retry_after_of (dv_retry_after_seconds r),
     at_provider_receipt := safe_receipt (dv_provider_receipt r), at_finished_at := Some now\<rparr>"

definition reason_of :: "delivery_result \<Rightarrow> string" where
  "reason_of r = safe_reason (case dv_reason r of None \<Rightarrow> ''delivery_failed''
     | Some s \<Rightarrow> if s = [] then ''delivery_failed'' else s)"

definition attempt_failed :: "attempt_result \<Rightarrow> string \<Rightarrow> attempt \<Rightarrow> attempt" where
  "attempt_failed result reason a =
     a\<lparr>at_result := result, at_reason := Some reason, at_error_code := Some reason\<rparr>"

definition retry_delay :: "worker_config \<Rightarrow> delivery_result \<Rightarrow> nat \<Rightarrow> int" where
  "retry_delay c r attempt_count =
     max (case retry_after_of (dv_retry_after_seconds r) of None \<Rightarrow> 0 | Some v \<Rightarrow> v)
         (min (wk_max_backoff_seconds c) (wk_base_backoff_seconds c * 2 ^ (attempt_count - 1)))"

definition finish_result ::
  "worker_config \<Rightarrow> notification_lease \<Rightarrow> delivery_result \<Rightarrow> instant \<Rightarrow> outbox_db \<Rightarrow> bool \<times> outbox_db" where
  "finish_result c l r now db = (case locked_lease l db of
     None \<Rightarrow> (False, db)
   | Some n \<Rightarrow>
       (if nt_status n \<noteq> Sending then (False, db)
        else if find (active_attempt n) (db_attempts db) = None then (False, db)
        else if dv_outcome r = Dl_delivered then
          (if safe_receipt (dv_provider_receipt r) = None
           then (True, write_row n (set_unknown now)
                   (\<lambda>a. attempt_unknown now ''provider_receipt_missing_or_invalid'' (measured r now a)) db)
           else (True, write_row n (deliver_row now)
                   (\<lambda>a. (measured r now a)\<lparr>at_result := At_delivered\<rparr>) db))
        else if dv_outcome r = Dl_terminal \<or> nl_trigger l = Manual then
          (True, write_row n (fail_terminal now)
             (\<lambda>a. attempt_failed At_failed_terminal (reason_of r) (measured r now a)) db)
        else
          (let delay = retry_delay c r (nt_attempt_count n);
               retry_at = now + delay * SECOND;
               deadline = nt_created_at n + RETRY_WINDOW
           in if nt_attempt_count n \<ge> MAX_ATTEMPTS \<or> retry_at \<ge> deadline
              then (True, write_row n (fail_terminal now)
                      (\<lambda>a. (attempt_failed At_failed_terminal (reason_of r) (measured r now a))
                             \<lparr>at_delay_seconds := delay\<rparr>) db)
              else (True, write_row n (retry_row retry_at)
                      (\<lambda>a. (attempt_failed At_failed_retryable (reason_of r) (measured r now a))
                             \<lparr>at_delay_seconds := delay\<rparr>) db))))"

text \<open>The second transaction of \<open>execute\<close>; a cancelled worker re-raises, with no value.\<close>

fun finish_send ::
  "worker_config \<Rightarrow> notification_lease \<Rightarrow> send_answer \<Rightarrow> instant \<Rightarrow> outbox_db \<Rightarrow> bool option \<times> outbox_db" where
  "finish_send c l No_adapter now db =
     (let (b, db') = finish_result c l (dl_terminal ''channel_not_configured'') now db in (Some b, db'))"
| "finish_send c l (Answered r) now db =
     (let (b, db') = finish_result c l r now db in (Some b, db'))"
| "finish_send c l Uncertain now db =
     (Some True, snd (finish_uncertain l ''delivery_outcome_uncertain'' now db))"
| "finish_send c l (Adapter_raised name) now db =
     (let (b, db') = finish_result c l (dl_retryable (safe_reason (''adapter_'' @ name))) now db
      in (Some b, db'))"
| "finish_send c l Send_cancelled now db =
     (None, snd (finish_uncertain l ''worker_cancelled_during_send'' now db))"

definition execute ::
  "worker_config \<Rightarrow> notification_lease \<Rightarrow> send_answer \<Rightarrow> instant \<Rightarrow> instant \<Rightarrow> outbox_db
     \<Rightarrow> bool option \<times> outbox_db" where
  "execute c l answer started finished db =
     (let (marked, db') = mark_sending l started db in
      if \<not> marked then (Some False, db') else finish_send c l answer finished db')"

definition dispatch_once ::
  "worker_config \<Rightarrow> (uuid \<Rightarrow> bool) \<Rightarrow> send_answer \<Rightarrow> instant \<Rightarrow> instant \<Rightarrow> instant \<Rightarrow> outbox_db
     \<Rightarrow> bool option \<times> outbox_db" where
  "dispatch_once c locked answer claimed started finished db =
     (case claim_next c locked claimed db of
        (None, db') \<Rightarrow> (Some False, db')
      | (Some l, db') \<Rightarrow> (case execute c l answer started finished db' of
            (None, db'') \<Rightarrow> (None, db'') | (Some _, db'') \<Rightarrow> (Some True, db'')))"

definition release_owned_leases ::
  "worker_config \<Rightarrow> (uuid \<Rightarrow> bool) \<Rightarrow> instant \<Rightarrow> outbox_db \<Rightarrow> outbox_db" where
  "release_owned_leases c locked now db =
     fold (give_up_lease now ''worker_shutdown_during_send'')
       (filter (\<lambda>n. \<not> locked (nt_id n) \<and> nt_lease_owner n = Some (wk_id c)
          \<and> nt_status n \<in> {Leased, Sending}) (db_outbox db)) db"

end
