(* ===== verification/Notification_Safety.thy ===== *)
theory Notification_Safety
  imports Notification_Worker
begin

text \<open>
  Several workers on one outbox: the transactions of \<open>Notification_Worker\<close> and
  \<open>Notification_Outbox\<close> as steps of a shared world, in any order, with the leases the workers
  have been given. The invariant says what every reachable outbox looks like, and with it that
  a notification is sent at most five times, at most once by hand, never again once delivered,
  and never by a worker whose lease was superseded.
\<close>

section \<open>The invariant of a row\<close>

definition attempts_of :: "uuid \<Rightarrow> outbox_db \<Rightarrow> attempt list" where
  "attempts_of i db = filter (\<lambda>a. at_outbox_id a = i) (db_attempts db)"

definition unfinished :: "attempt \<Rightarrow> bool" where
  "unfinished a \<longleftrightarrow> at_result a \<in> {At_leased, At_sending}"

definition numbered :: "notification \<Rightarrow> attempt list \<Rightarrow> bool" where
  "numbered n as \<longleftrightarrow> map at_attempt_number as = [1..<Suc (nt_attempt_count n)]
     \<and> nt_attempt_count n \<le> MAX_ATTEMPTS"

definition fenced :: "notification \<Rightarrow> attempt list \<Rightarrow> bool" where
  "fenced n as \<longleftrightarrow> sorted_wrt (<) (map at_fence_token as)
     \<and> list_all (\<lambda>a. 1 \<le> at_fence_token a \<and> at_fence_token a \<le> nt_fence_token n
         \<and> (nt_status n = Leased \<longrightarrow> at_fence_token a < nt_fence_token n)) as"

definition settled :: "notification \<Rightarrow> attempt list \<Rightarrow> bool" where
  \<comment> \<open>while a row is being sent its last attempt is the open one; otherwise none is open\<close>
  "settled n as \<longleftrightarrow> (if nt_status n = Sending
     then \<exists>bs a. as = bs @ [a] \<and> active_attempt n a \<and> list_all (\<lambda>b. \<not> unfinished b) bs
     else list_all (\<lambda>b. \<not> unfinished b) as)"

definition delivered_last :: "notification \<Rightarrow> attempt list \<Rightarrow> bool" where
  "delivered_last n as \<longleftrightarrow> (if nt_status n = Delivered
     then \<exists>bs a. as = bs @ [a] \<and> at_result a = At_delivered \<and> list_all (\<lambda>b. at_result b \<noteq> At_delivered) bs
     else list_all (\<lambda>b. at_result b \<noteq> At_delivered) as)"

definition manual_once :: "notification \<Rightarrow> attempt list \<Rightarrow> bool" where
  "manual_once n as \<longleftrightarrow> length (filter (\<lambda>a. at_trigger a = Manual) as)
     + (if nt_resend_requested_at n \<noteq> None then 1 else 0) \<le> 1"

definition row_inv :: "notification \<Rightarrow> attempt list \<Rightarrow> bool" where
  "row_inv n as \<longleftrightarrow> numbered n as \<and> fenced n as \<and> settled n as \<and> delivered_last n as
     \<and> manual_once n as \<and> lease_check n \<and> resend_check n \<and> list_all attempt_check as"

lemmas row_inv_defs = row_inv_def numbered_def fenced_def settled_def delivered_last_def
  manual_once_def lease_check_def resend_check_def

section \<open>Updates of the attempt table\<close>

lemma filter_update_first:
  assumes "\<And>a. P a \<Longrightarrow> Q a" and "\<And>a. Q (g a) = Q a"
  shows "filter Q (update_first P g as) = update_first P g (filter Q as)"
  using assms by (induction as) auto

lemma filter_update_first_other:
  assumes "\<And>a. P a \<Longrightarrow> \<not> Q a" and "\<And>a. Q (g a) = Q a"
  shows "filter Q (update_first P g as) = filter Q as"
  using assms by (induction as) auto

lemma update_first_none: "list_all (\<lambda>a. \<not> P a) as \<Longrightarrow> update_first P g as = as"
  by (induction as) auto

lemma update_first_last: "list_all (\<lambda>a. \<not> P a) as \<Longrightarrow> P a \<Longrightarrow> update_first P g (as @ [a]) = as @ [g a]"
  by (induction as) auto

lemma update_first_id: "update_first P (\<lambda>a. a) as = as"
  by (induction as) auto

lemma map_update_first: "(\<And>a. h (g a) = h a) \<Longrightarrow> map h (update_first P g as) = map h as"
  by (induction as) auto

section \<open>Row operations keep the invariant\<close>

lemma release_row_inv:
  assumes "row_inv n as" and "nt_status n = Leased"
  shows "row_inv (release_without_send now n) as"
  using assms
  by (auto simp: row_inv_defs release_without_send_def fail_terminal_def clear_lease_def list_all_iff)

lemma lease_row_inv:
  assumes "row_inv n as" and "nt_status n \<notin> {Leased, Sending, Delivered}"
  shows "row_inv (lease_row c now n) as"
  using assms by (auto simp: row_inv_defs lease_row_def list_all_iff)

lemma fail_terminal_row_inv:
  assumes "row_inv n as" and "nt_status n \<notin> {Leased, Sending, Delivered}"
  shows "row_inv (fail_terminal now n) as"
  using assms by (auto simp: row_inv_defs fail_terminal_def clear_lease_def list_all_iff)

lemma mark_resend_row_inv:
  assumes "row_inv n as" and "nt_resend_requested_at n = None"
    and "list_all (\<lambda>a. at_trigger a \<noteq> Manual) as"
  shows "row_inv (mark_resend t actor reason n) as"
proof -
  from assms(3) have "filter (\<lambda>a. at_trigger a = Manual) as = []"
    by (auto simp: filter_empty_conv list_all_iff)
  with assms(1, 2) show ?thesis
    by (auto simp: row_inv_defs mark_resend_def list_all_iff active_attempt_def)
qed

lemma planned_row_inv: "row_inv (planned_row i t r ch ty p h) []"
  by (simp add: row_inv_defs planned_row_def)

text \<open>A lease in a worker's hands and the row it was taken on.\<close>

definition linked :: "notification_lease \<Rightarrow> notification \<Rightarrow> bool" where
  "linked l n \<longleftrightarrow> 1 \<le> nl_fence_token l \<and> nl_fence_token l \<le> nt_fence_token n
     \<and> (nl_trigger l = Manual \<longleftrightarrow> nl_requested_by l \<noteq> None)
     \<and> (nt_status n = Leased \<and> nl_fence_token l = nt_fence_token n
        \<longrightarrow> (nl_trigger l = Manual \<longleftrightarrow> nt_resend_requested_at n \<noteq> None))"

lemma start_sending_row_inv:
  assumes inv: "row_inv n as" and st: "nt_status n = Leased" and own: "nt_lease_owner n = Some (nl_owner l)"
    and fence: "nt_fence_token n = nl_fence_token l" and num: "nt_attempt_count n + 1 = nl_attempt_number l"
    and room: "nt_attempt_count n < MAX_ATTEMPTS" and link: "linked l n"
  shows "row_inv (start_sending l n) (as @ [new_attempt l now n])"
proof -
  let ?a = "new_attempt l now n"
  let ?m = "start_sending l n"
  have m: "nt_attempt_count ?m = nl_attempt_number l" "nt_status ?m = Sending"
    "nt_fence_token ?m = nt_fence_token n" "nt_lease_owner ?m = nt_lease_owner n" "nt_id ?m = nt_id n"
    "nt_lease_expires_at ?m = nt_lease_expires_at n"
    by (simp_all add: start_sending_def Let_def)
  have "numbered ?m (as @ [?a])"
    using inv room m
    by (simp add: row_inv_def numbered_def new_attempt_def num [symmetric])
  moreover have "fenced ?m (as @ [?a])"
    using inv st fence link m
    by (auto simp: row_inv_def fenced_def new_attempt_def sorted_wrt_append list_all_iff linked_def)
  moreover have "settled ?m (as @ [?a])"
    using inv st own fence m
    by (auto simp: row_inv_def settled_def new_attempt_def active_attempt_def)
  moreover have "delivered_last ?m (as @ [?a])"
    using inv st m by (auto simp: row_inv_def delivered_last_def new_attempt_def)
  moreover have "manual_once ?m (as @ [?a])"
  proof (cases "nl_trigger l")
    case Manual
    then have "nt_resend_requested_at n \<noteq> None" using link st fence by (simp add: linked_def)
    with inv have "filter (\<lambda>a. at_trigger a = Manual) as = []" by (simp add: row_inv_def manual_once_def)
    with Manual show ?thesis by (simp add: manual_once_def new_attempt_def start_sending_def Let_def)
  next
    case Automatic
    with inv show ?thesis
      by (simp add: row_inv_def manual_once_def new_attempt_def start_sending_def Let_def)
  qed
  moreover have "lease_check ?m" using inv st m by (simp add: row_inv_def lease_check_def)
  moreover have "resend_check ?m"
    using inv by (auto simp: row_inv_def resend_check_def start_sending_def Let_def split: if_splits)
  moreover have "attempt_check ?a"
    using num room link
    by (cases "nl_trigger l")
      (auto simp: attempt_check_def new_attempt_def linked_def MAX_ATTEMPTS_def)
  ultimately show ?thesis using inv by (simp add: row_inv_def)
qed

lemma close_row_inv:
  assumes inv: "row_inv n as" and st: "nt_status n = Sending"
    and f: "nt_attempt_count (f n) = nt_attempt_count n" "nt_fence_token (f n) = nt_fence_token n"
      "nt_resend_requested_at (f n) = nt_resend_requested_at n"
      "nt_resend_requested_by (f n) = nt_resend_requested_by n"
      "nt_resend_reason (f n) = nt_resend_reason n"
      "nt_lease_owner (f n) = None" "nt_status (f n) \<notin> {Leased, Sending}"
    and g: "\<And>a. at_attempt_number (g a) = at_attempt_number a"
      "\<And>a. at_fence_token (g a) = at_fence_token a" "\<And>a. at_trigger (g a) = at_trigger a"
      "\<And>a. \<not> unfinished (g a)" "\<And>a. attempt_check a \<Longrightarrow> attempt_check (g a)"
      "\<And>a. at_result (g a) = At_delivered \<longleftrightarrow> nt_status (f n) = Delivered"
  shows "row_inv (f n) (update_first (active_attempt n) g as)"
proof -
  from inv st obtain bs a where as: "as = bs @ [a]" and a: "active_attempt n a"
    and bs: "list_all (\<lambda>b. \<not> unfinished b) bs" by (auto simp: row_inv_def settled_def)
  have "list_all (\<lambda>b. \<not> active_attempt n b) bs"
    using bs by (auto simp: list_all_iff active_attempt_def unfinished_def)
  with as a have upd: "update_first (active_attempt n) g as = bs @ [g a]"
    by (simp add: update_first_last)
  have undel: "list_all (\<lambda>b. at_result b \<noteq> At_delivered) bs"
    using inv st as by (simp add: row_inv_def delivered_last_def)
  from inv as have n: "map at_attempt_number bs @ [at_attempt_number a] = [1..<Suc (nt_attempt_count n)]"
    "nt_attempt_count n \<le> MAX_ATTEMPTS" by (simp_all add: row_inv_def numbered_def)
  have "numbered (f n) (bs @ [g a])" using n f g(1) by (simp add: numbered_def del: upt_Suc)
  moreover have "fenced (f n) (bs @ [g a])"
    using inv as f g(2) by (simp add: row_inv_def fenced_def sorted_wrt_append list_all_iff)
  moreover have "settled (f n) (bs @ [g a])" using bs f g(4) by (simp add: settled_def)
  moreover have "delivered_last (f n) (bs @ [g a])"
    using undel g(6) [of a] by (simp add: delivered_last_def)
  moreover have "manual_once (f n) (bs @ [g a])"
    using inv as f g(3) by (auto simp: row_inv_def manual_once_def split: if_splits)
  moreover have "lease_check (f n)" "resend_check (f n)"
    using inv f by (simp_all add: row_inv_def lease_check_def resend_check_def)
  moreover have "list_all attempt_check (bs @ [g a])"
    using inv as g(5) by (simp add: row_inv_def)
  ultimately show ?thesis by (simp add: row_inv_def upd)
qed

section \<open>The invariant of the tables\<close>

definition table_ok :: "(notification \<Rightarrow> attempt list \<Rightarrow> bool) \<Rightarrow> outbox_db \<Rightarrow> bool" where
  "table_ok Q db \<longleftrightarrow> distinct (map nt_id (db_outbox db)) \<and> distinct (map logical_key (db_outbox db))
     \<and> at_outbox_id ` set (db_attempts db) \<subseteq> nt_id ` set (db_outbox db)
     \<and> (\<forall>n \<in> set (db_outbox db). Q n (attempts_of (nt_id n) db))"

lemma table_ok_row: "table_ok Q db \<Longrightarrow> n \<in> set (db_outbox db) \<Longrightarrow> Q n (attempts_of (nt_id n) db)"
  by (simp add: table_ok_def)

lemma table_ok_mono:
  "table_ok Q db \<Longrightarrow> (\<And>n as. n \<in> set (db_outbox db) \<Longrightarrow> Q n as \<Longrightarrow> R n as) \<Longrightarrow> table_ok R db"
  by (auto simp: table_ok_def)

text \<open>One transaction changes one row and the attempts of that row.\<close>

definition one_row_change ::
  "notification \<Rightarrow> (notification \<Rightarrow> notification) \<Rightarrow> attempt list \<Rightarrow> outbox_db \<Rightarrow> outbox_db" where
  "one_row_change n f as db = db\<lparr>db_outbox := update_where (\<lambda>m. nt_id m = nt_id n) f (db_outbox db),
     db_attempts := as\<rparr>"

lemma table_ok_change:
  assumes ok: "table_ok Q db" and n: "n \<in> set (db_outbox db)"
    and f: "\<And>m. nt_id (f m) = nt_id m" "\<And>m. logical_key (f m) = logical_key m"
    and others: "\<And>i. i \<noteq> nt_id n \<Longrightarrow> filter (\<lambda>a. at_outbox_id a = i) as = attempts_of i db"
    and new: "Q (f n) (filter (\<lambda>a. at_outbox_id a = nt_id n) as)"
  shows "table_ok Q (one_row_change n f as db)"
proof -
  let ?db = "one_row_change n f as db"
  have ids: "map nt_id (db_outbox ?db) = map nt_id (db_outbox db)"
    by (simp add: one_row_change_def map_key_update_where f)
  have keys: "map logical_key (db_outbox ?db) = map logical_key (db_outbox db)"
    by (simp add: one_row_change_def map_key_update_where f)
  have "at_outbox_id a \<in> nt_id ` set (db_outbox db)" if a: "a \<in> set as" for a
  proof (cases "at_outbox_id a = nt_id n")
    case False
    have "a \<in> set (filter (\<lambda>b. at_outbox_id b = at_outbox_id a) as)" using a by simp
    then have "a \<in> set (attempts_of (at_outbox_id a) db)" by (simp only: others [OF False])
    with ok show ?thesis by (auto simp: attempts_of_def table_ok_def)
  qed (use n in auto)
  moreover have "nt_id ` set (db_outbox ?db) = nt_id ` set (db_outbox db)"
    using arg_cong [OF ids, of set] by simp
  ultimately have fk: "at_outbox_id ` set (db_attempts ?db) \<subseteq> nt_id ` set (db_outbox ?db)"
    by (auto simp: one_row_change_def)
  have "Q m (attempts_of (nt_id m) ?db)" if m: "m \<in> set (db_outbox ?db)" for m
  proof -
    from m obtain k where k: "k \<in> set (db_outbox db)"
      and mk: "m = (if nt_id k = nt_id n then f k else k)"
      by (auto simp: one_row_change_def set_update_where)
    show ?thesis
    proof (cases "nt_id k = nt_id n")
      case True
      with ok n k have "k = n" by (auto simp: table_ok_def distinct_map inj_on_def)
      with mk new show ?thesis by (simp add: one_row_change_def attempts_of_def f)
    next
      case False
      with mk k ok others [OF False] show ?thesis
        by (simp add: one_row_change_def attempts_of_def table_ok_def)
    qed
  qed
  with ok ids keys fk show ?thesis by (simp add: table_ok_def)
qed

lemma write_row_change: "write_row n f g db = one_row_change n f (update_first (active_attempt n) g (db_attempts db)) db"
  by (simp add: write_row_def one_row_change_def)

lemma table_ok_write_row:
  assumes "table_ok Q db" and "n \<in> set (db_outbox db)"
    and "\<And>m. nt_id (f m) = nt_id m" "\<And>m. logical_key (f m) = logical_key m"
    and g: "\<And>a. at_outbox_id (g a) = at_outbox_id a"
    and "Q (f n) (update_first (active_attempt n) g (attempts_of (nt_id n) db))"
  shows "table_ok Q (write_row n f g db)"
proof -
  have active: "\<And>a. active_attempt n a \<Longrightarrow> at_outbox_id a = nt_id n" by (simp add: active_attempt_def)
  have "filter (\<lambda>a. at_outbox_id a = nt_id n) (update_first (active_attempt n) g (db_attempts db))
      = update_first (active_attempt n) g (attempts_of (nt_id n) db)"
    unfolding attempts_of_def by (rule filter_update_first) (use active g in auto)
  moreover have "filter (\<lambda>a. at_outbox_id a = i) (update_first (active_attempt n) g (db_attempts db))
      = attempts_of i db" if "i \<noteq> nt_id n" for i
    unfolding attempts_of_def by (rule filter_update_first_other) (use active g that in auto)
  ultimately show ?thesis using assms unfolding write_row_change by (intro table_ok_change) auto
qed

lemma table_ok_update_row:
  assumes "table_ok Q db" and "n \<in> set (db_outbox db)"
    and "\<And>m. nt_id (f m) = nt_id m" "\<And>m. logical_key (f m) = logical_key m"
    and "Q (f n) (attempts_of (nt_id n) db)"
  shows "table_ok Q (db\<lparr>db_outbox := update_where (\<lambda>m. nt_id m = nt_id n) f (db_outbox db)\<rparr>)"
  using table_ok_change [OF assms(1-4), of "db_attempts db"] assms(5)
  by (simp add: one_row_change_def attempts_of_def)

lemma table_ok_update_where:
  assumes "table_ok Q db"
    and "\<And>m. nt_id (f m) = nt_id m" "\<And>m. logical_key (f m) = logical_key m"
    and "\<And>n as. p n \<Longrightarrow> Q n as \<Longrightarrow> Q (f n) as"
  shows "table_ok Q (db\<lparr>db_outbox := update_where p f (db_outbox db)\<rparr>)"
proof -
  have "map nt_id (update_where p f (db_outbox db)) = map nt_id (db_outbox db)"
    and "map logical_key (update_where p f (db_outbox db)) = map logical_key (db_outbox db)"
    by (simp_all add: map_key_update_where assms)
  moreover have "nt_id ` set (update_where p f (db_outbox db)) = nt_id ` set (db_outbox db)"
    by (metis calculation(1) image_set)
  ultimately show ?thesis using assms
    by (auto simp: table_ok_def set_update_where attempts_of_def)
qed

lemma table_ok_insert:
  assumes "table_ok Q db" and "nt_id n \<notin> nt_id ` set (db_outbox db)"
    and "logical_key n \<notin> logical_key ` set (db_outbox db)" and "Q n []"
  shows "table_ok Q (db\<lparr>db_outbox := db_outbox db @ [n]\<rparr>)"
proof -
  have "at_outbox_id a \<noteq> nt_id n" if "a \<in> set (db_attempts db)" for a
    using assms(1, 2) that unfolding table_ok_def by (metis image_eqI subsetD)
  then have "attempts_of (nt_id n) db = []" by (auto simp: attempts_of_def filter_empty_conv)
  with assms show ?thesis by (auto simp: table_ok_def attempts_of_def)
qed

section \<open>Keys and fences of the row operations\<close>

lemma key_ops [simp]:
  "nt_id (set_unknown now n) = nt_id n" "logical_key (set_unknown now n) = logical_key n"
  "nt_id (fail_terminal now n) = nt_id n" "logical_key (fail_terminal now n) = logical_key n"
  "nt_id (release_without_send now n) = nt_id n" "logical_key (release_without_send now n) = logical_key n"
  "nt_id (lease_row c now n) = nt_id n" "logical_key (lease_row c now n) = logical_key n"
  "nt_id (start_sending l n) = nt_id n" "logical_key (start_sending l n) = logical_key n"
  "nt_id (deliver_row now n) = nt_id n" "logical_key (deliver_row now n) = logical_key n"
  "nt_id (retry_row now n) = nt_id n" "logical_key (retry_row now n) = logical_key n"
  "nt_id (mark_resend now ac re n) = nt_id n" "logical_key (mark_resend now ac re n) = logical_key n"
  by (simp_all add: set_unknown_def fail_terminal_def release_without_send_def lease_row_def
      start_sending_def deliver_row_def retry_row_def mark_resend_def clear_lease_def logical_key_def
      Let_def)

lemma closing_rows [simp]:
  "nt_status (set_unknown now n) = Unknown" "nt_status (fail_terminal now n) = Failed_terminal"
  "nt_status (deliver_row now n) = Delivered" "nt_status (retry_row t n) = Failed_retryable"
  "nt_fence_token (set_unknown now n) = nt_fence_token n"
  "nt_fence_token (fail_terminal now n) = nt_fence_token n"
  "nt_fence_token (deliver_row now n) = nt_fence_token n"
  "nt_fence_token (retry_row t n) = nt_fence_token n"
  "nt_fence_token (release_without_send now n) = nt_fence_token n"
  "nt_status (release_without_send now n) \<noteq> Leased"
  "nt_fence_token (start_sending l n) = nt_fence_token n" "nt_status (start_sending l n) = Sending"
  by (simp_all add: set_unknown_def fail_terminal_def deliver_row_def retry_row_def clear_lease_def
      release_without_send_def start_sending_def Let_def)

definition row_ok :: "notification_lease list \<Rightarrow> notification \<Rightarrow> attempt list \<Rightarrow> bool" where
  "row_ok L n as \<longleftrightarrow> row_inv n as \<and> (\<forall>l \<in> set L. nl_notification_id l = nt_id n \<longrightarrow> linked l n)"

lemma linked_mono:
  "linked l n \<Longrightarrow> nt_fence_token m = nt_fence_token n \<Longrightarrow> nt_status m \<noteq> Leased \<Longrightarrow> linked l m"
  by (auto simp: linked_def)

lemma linked_lease_row: "linked l n \<Longrightarrow> linked l (lease_row c now n)"
  by (auto simp: linked_def lease_row_def)

lemma linked_mark_resend:
  "linked l n \<Longrightarrow> nt_status n \<noteq> Leased \<Longrightarrow> linked l (mark_resend t ac re n)"
  by (auto simp: linked_def mark_resend_def)

lemma row_ok_change:
  assumes "row_ok L n as" and "nt_id m = nt_id n" and "nt_fence_token m = nt_fence_token n"
    and "nt_status m \<noteq> Leased" and "row_inv m as'"
  shows "row_ok L m as'"
  using assms by (auto simp: row_ok_def intro: linked_mono)

lemma attempt_check_unknown: "attempt_check a \<Longrightarrow> attempt_check (attempt_unknown now r a)"
  by (simp add: attempt_check_def attempt_unknown_def)

lemma attempt_check_measured: "attempt_check a \<Longrightarrow> attempt_check (measured r now a)"
  by (auto simp: attempt_check_def measured_def nonnegative_cost_def retry_after_of_def
      split: option.splits)

lemma attempt_check_failed: "attempt_check a \<Longrightarrow> attempt_check (attempt_failed res re a)"
  by (simp add: attempt_check_def attempt_failed_def)

lemma set_unknown_ok:
  assumes "row_ok L n as" and "nt_status n = Sending"
    and "\<And>a. at_attempt_number (g a) = at_attempt_number a"
      "\<And>a. at_fence_token (g a) = at_fence_token a" "\<And>a. at_trigger (g a) = at_trigger a"
      "\<And>a. at_result (g a) = At_unknown" "\<And>a. attempt_check a \<Longrightarrow> attempt_check (g a)"
  shows "row_ok L (set_unknown now n) (update_first (active_attempt n) g as)"
proof (rule row_ok_change [OF assms(1)])
  show "row_inv (set_unknown now n) (update_first (active_attempt n) g as)"
    using assms by (intro close_row_inv)
      (auto simp: row_ok_def set_unknown_def clear_lease_def unfinished_def)
qed simp_all

lemma give_up_ok:
  assumes ok: "table_ok (row_ok L) db" and n: "n \<in> set (db_outbox db)"
    and st: "nt_status n \<in> {Leased, Sending}"
  shows "table_ok (row_ok L) (give_up_lease now reason n db)"
proof -
  note row = table_ok_row [OF ok n]
  show ?thesis
  proof (cases "nt_status n = Sending")
    case True
    have "row_ok L (set_unknown now n)
        (update_first (active_attempt n) (attempt_unknown now reason) (attempts_of (nt_id n) db))"
      by (rule set_unknown_ok [OF row True])
        (simp_all add: attempt_check_unknown, simp_all add: attempt_unknown_def)
    with True ok n show ?thesis
      by (auto simp: give_up_lease_def attempt_unknown_def intro!: table_ok_write_row)
  next
    case False
    with st have leased: "nt_status n = Leased" by simp
    have "row_ok L (release_without_send now n) (attempts_of (nt_id n) db)"
      using row leased by (intro row_ok_change [OF row]) (auto simp: row_ok_def intro: release_row_inv)
    with False ok n show ?thesis
      by (auto simp: give_up_lease_def update_first_id intro!: table_ok_write_row)
  qed
qed

lemma give_up_others:
  "m \<in> set (db_outbox db) \<Longrightarrow> nt_id m \<noteq> nt_id n \<Longrightarrow> m \<in> set (db_outbox (give_up_lease now reason n db))"
  by (force simp: give_up_lease_def write_row_def set_update_where)

lemma give_up_all_ok:
  assumes "table_ok (row_ok L) db" and "distinct (map nt_id ns)" and "set ns \<subseteq> set (db_outbox db)"
    and "\<forall>n \<in> set ns. nt_status n \<in> {Leased, Sending}"
  shows "table_ok (row_ok L) (fold (give_up_lease now reason) ns db)"
  using assms
proof (induction ns arbitrary: db)
  case (Cons n ns)
  have "table_ok (row_ok L) (give_up_lease now reason n db)"
    using Cons.prems by (intro give_up_ok) auto
  moreover have "set ns \<subseteq> set (db_outbox (give_up_lease now reason n db))"
  proof
    fix m assume m: "m \<in> set ns"
    with Cons.prems(2) have "nt_id m \<noteq> nt_id n" by (metis distinct.simps(2) image_eqI image_set list.simps(9))
    with m Cons.prems(3) show "m \<in> set (db_outbox (give_up_lease now reason n db))"
      by (intro give_up_others) auto
  qed
  ultimately show ?case using Cons by simp
qed simp

lemma distinct_map_filter_ids: "distinct (map nt_id ns) \<Longrightarrow> distinct (map nt_id (filter P ns))"
  by (induction ns) auto

lemma recover_ok:
  assumes "table_ok (row_ok L) db"
  shows "table_ok (row_ok L) (recover_expired_leases locked now db)"
  unfolding recover_expired_leases_def using assms
  by (intro give_up_all_ok) (auto simp: table_ok_def expired_lease_def intro: distinct_map_filter_ids)

lemma release_owned_ok:
  assumes "table_ok (row_ok L) db"
  shows "table_ok (row_ok L) (release_owned_leases c locked now db)"
  unfolding release_owned_leases_def using assms
  by (intro give_up_all_ok) (auto simp: table_ok_def intro: distinct_map_filter_ids)

lemma fail_terminal_ok:
  "row_ok L n as \<Longrightarrow> nt_status n \<notin> {Leased, Sending, Delivered} \<Longrightarrow> row_ok L (fail_terminal now n) as"
  by (rule row_ok_change) (auto simp: row_ok_def intro: fail_terminal_row_inv)

lemma terminalize_ok:
  assumes "table_ok (row_ok L) db"
  shows "table_ok (row_ok L) (terminalize_expired_retry_windows locked now db)"
  unfolding terminalize_expired_retry_windows_def
  using assms by (intro table_ok_update_where) (auto intro: fail_terminal_ok)

section \<open>The world of the workers\<close>

type_synonym outbox_world = "outbox_db \<times> notification_lease list"

definition lease_key :: "notification_lease \<Rightarrow> uuid \<times> nat" where
  "lease_key l = (nl_notification_id l, nl_fence_token l)"

definition world_inv :: "outbox_world \<Rightarrow> bool" where
  "world_inv w \<longleftrightarrow> table_ok (row_ok (snd w)) (fst w) \<and> distinct (map lease_key (snd w))
     \<and> nl_notification_id ` set (snd w) \<subseteq> nt_id ` set (db_outbox (fst w))"

text \<open>
  A worker executes a lease it was given. A new notification has a fresh identifier, as
  \<open>uuid4\<close> makes it.
\<close>

inductive outbox_step :: "outbox_world \<Rightarrow> outbox_world \<Rightarrow> bool" where
  step_plan: "plan_notification st digest i clock now r db = Inr (plan, db') \<Longrightarrow>
     i \<notin> nt_id ` set (db_outbox db) \<Longrightarrow> outbox_step (db, L) (db', L)"
| step_resend: "request_manual_resend i te wo ow re ra clock now db = Inr (found, db') \<Longrightarrow>
     outbox_step (db, L) (db', L)"
| step_claim: "claim_next c locked now db = (Some l, db') \<Longrightarrow> outbox_step (db, L) (db', l # L)"
| step_idle: "claim_next c locked now db = (None, db') \<Longrightarrow> outbox_step (db, L) (db', L)"
| step_claim_manual: "claim_manual_resend c now i te wo ow re db = Inr (l, db') \<Longrightarrow>
     outbox_step (db, L) (db', l # L)"
| step_mark: "l \<in> set L \<Longrightarrow> mark_sending l now db = (b, db') \<Longrightarrow> outbox_step (db, L) (db', L)"
| step_finish: "l \<in> set L \<Longrightarrow> finish_send c l answer now db = (b, db') \<Longrightarrow> outbox_step (db, L) (db', L)"
| step_release: "outbox_step (db, L) (release_owned_leases c locked now db, L)"

inductive outbox_reachable :: "outbox_world \<Rightarrow> bool" where
  outbox_start: "outbox_reachable (\<lparr>db_outbox = [], db_attempts = []\<rparr>, [])"
| outbox_more: "outbox_reachable w \<Longrightarrow> outbox_step w v \<Longrightarrow> outbox_reachable v"

inductive_cases outbox_step_elim: "outbox_step (db, L) v"

section \<open>Every step keeps the invariant\<close>

lemma locked_lease_Some:
  "locked_lease l db = Some n \<Longrightarrow> n \<in> set (db_outbox db) \<and> nt_id n = nl_notification_id l
     \<and> nt_lease_owner n = Some (nl_owner l) \<and> nt_fence_token n = nl_fence_token l"
  by (auto simp: locked_lease_def dest!: find_Some_iff2)

lemma start_sending_table:
  assumes ok: "table_ok (row_ok L) db" and l: "l \<in> set L" and run: "mark_sending l now db = (b, db')"
  shows "table_ok (row_ok L) db'"
proof (cases "b")
  case False
  with run have "db' = db" by (auto simp: mark_sending_def split: option.splits if_splits)
  with ok show ?thesis by simp
next
  case True
  with run obtain n where n: "locked_lease l db = Some n" and st: "nt_status n = Leased"
    and num: "nt_attempt_count n + 1 = nl_attempt_number l" and room: "nt_attempt_count n < MAX_ATTEMPTS"
    and db': "db' = one_row_change n (start_sending l) (db_attempts db @ [new_attempt l now n]) db"
    by (auto simp: mark_sending_def one_row_change_def split: option.splits if_splits)
  note lock = locked_lease_Some [OF n]
  have row: "row_ok L n (attempts_of (nt_id n) db)" using table_ok_row [OF ok] lock by blast
  have link: "linked l n" using row l lock by (auto simp: row_ok_def)
  have "row_inv (start_sending l n) (attempts_of (nt_id n) db @ [new_attempt l now n])"
    using row lock by (intro start_sending_row_inv st num room link) (auto simp: row_ok_def)
  then have "row_ok L (start_sending l n) (attempts_of (nt_id n) db @ [new_attempt l now n])"
    by (intro row_ok_change [OF row]) auto
  then show ?thesis unfolding db' using ok lock
    by (intro table_ok_change) (auto simp: attempts_of_def new_attempt_def)
qed

text \<open>What ends an attempt: the row gives up its lease and the open attempt gets its result.\<close>

definition closing :: "notification \<Rightarrow> (notification \<Rightarrow> notification) \<Rightarrow> (attempt \<Rightarrow> attempt) \<Rightarrow> bool" where
  "closing n f g \<longleftrightarrow> nt_attempt_count (f n) = nt_attempt_count n
     \<and> nt_fence_token (f n) = nt_fence_token n
     \<and> nt_resend_requested_at (f n) = nt_resend_requested_at n
     \<and> nt_resend_requested_by (f n) = nt_resend_requested_by n
     \<and> nt_resend_reason (f n) = nt_resend_reason n \<and> nt_lease_owner (f n) = None
     \<and> nt_status (f n) \<notin> {Leased, Sending}
     \<and> (\<forall>m. nt_id (f m) = nt_id m \<and> logical_key (f m) = logical_key m)
     \<and> (\<forall>a. at_outbox_id (g a) = at_outbox_id a \<and> at_attempt_number (g a) = at_attempt_number a
          \<and> at_fence_token (g a) = at_fence_token a \<and> at_trigger (g a) = at_trigger a
          \<and> \<not> unfinished (g a) \<and> (attempt_check a \<longrightarrow> attempt_check (g a))
          \<and> (at_result (g a) = At_delivered \<longleftrightarrow> nt_status (f n) = Delivered))"

lemma closing_table:
  assumes ok: "table_ok (row_ok L) db" and n: "n \<in> set (db_outbox db)" and st: "nt_status n = Sending"
    and c: "closing n f g"
  shows "table_ok (row_ok L) (write_row n f g db)"
proof -
  note row = table_ok_row [OF ok n]
  have "row_inv (f n) (update_first (active_attempt n) g (attempts_of (nt_id n) db))"
    using row st c unfolding closing_def row_ok_def by (intro close_row_inv) blast+
  with c have "row_ok L (f n) (update_first (active_attempt n) g (attempts_of (nt_id n) db))"
    unfolding closing_def by (intro row_ok_change [OF row]) auto
  with c ok n show ?thesis unfolding closing_def by (intro table_ok_write_row) auto
qed

lemmas row_change_defs = set_unknown_def fail_terminal_def deliver_row_def retry_row_def clear_lease_def

lemma closing_unknown:
  "closing n (set_unknown now) (attempt_unknown now reason)"
  "closing n (set_unknown now) (\<lambda>a. attempt_unknown now reason (measured r t a))"
  by (auto simp: closing_def row_change_defs attempt_unknown_def measured_def unfinished_def
      attempt_check_def logical_key_def nonnegative_cost_def retry_after_of_def split: option.splits)

lemma closing_delivered:
  "closing n (deliver_row now) (\<lambda>a. (measured r t a)\<lparr>at_result := At_delivered\<rparr>)"
  by (auto simp: closing_def row_change_defs measured_def unfinished_def
      attempt_check_def logical_key_def nonnegative_cost_def retry_after_of_def split: option.splits)

lemma closing_terminal:
  "closing n (fail_terminal now) (\<lambda>a. attempt_failed At_failed_terminal reason (measured r t a))"
  by (auto simp: closing_def row_change_defs measured_def unfinished_def attempt_failed_def
      attempt_check_def logical_key_def nonnegative_cost_def retry_after_of_def split: option.splits)

lemma retry_delay_nonneg: "0 \<le> retry_delay c r k"
  by (auto simp: retry_delay_def retry_after_of_def max_def split: option.splits)

lemma closing_delayed:
  assumes "0 \<le> d"
  shows "closing n (fail_terminal now) (\<lambda>a. (attempt_failed At_failed_terminal reason (measured r t a))\<lparr>at_delay_seconds := d\<rparr>)"
    and "closing n (retry_row u) (\<lambda>a. (attempt_failed At_failed_retryable reason (measured r t a))\<lparr>at_delay_seconds := d\<rparr>)"
  using assms
  by (auto simp: closing_def row_change_defs measured_def unfinished_def attempt_failed_def
      attempt_check_def logical_key_def nonnegative_cost_def retry_after_of_def split: option.splits)

lemma finish_result_table:
  assumes ok: "table_ok (row_ok L) db" and run: "finish_result c l r now db = (b, db')"
  shows "table_ok (row_ok L) db'"
proof (cases "db' = db")
  case False
  with run obtain n where n: "locked_lease l db = Some n" and st: "nt_status n = Sending"
    by (auto simp: finish_result_def split: option.splits if_splits)
  from n have mem: "n \<in> set (db_outbox db)" by (auto dest: locked_lease_Some)
  note close = closing_table [OF ok mem st]
  from run False n st have "\<exists>f g. closing n f g \<and> db' = write_row n f g db"
    by (auto simp: finish_result_def Let_def split: if_splits
        intro: closing_unknown closing_delivered closing_terminal closing_delayed [OF retry_delay_nonneg])
  with close show ?thesis by blast
qed (use ok in simp)

lemma finish_uncertain_table:
  assumes ok: "table_ok (row_ok L) db" and run: "finish_uncertain l reason now db = (b, db')"
  shows "table_ok (row_ok L) db'"
proof (cases "db' = db")
  case False
  with run obtain n where n: "locked_lease l db = Some n" and st: "nt_status n = Sending"
    and db': "db' = write_row n (set_unknown now) (attempt_unknown now reason) db"
    by (auto simp: finish_uncertain_def split: option.splits if_splits)
  from n have "n \<in> set (db_outbox db)" by (auto dest: locked_lease_Some)
  with closing_table [OF ok _ st closing_unknown(1)] show ?thesis unfolding db' by blast
qed (use ok in simp)

lemma finish_send_table:
  assumes ok: "table_ok (row_ok L) db" and run: "finish_send c l answer now db = (b, db')"
  shows "table_ok (row_ok L) db'"
proof -
  have r: "table_ok (row_ok L) (snd (finish_result c l res now db))" for res
    by (rule finish_result_table [OF ok]) (rule prod.collapse [symmetric])
  have u: "table_ok (row_ok L) (snd (finish_uncertain l reason now db))" for reason
    by (rule finish_uncertain_table [OF ok]) (rule prod.collapse [symmetric])
  have "db' = snd (finish_send c l answer now db)" by (simp add: run)
  with r u show ?thesis by (cases answer) (simp_all add: case_prod_beta)
qed

text \<open>A claim takes a row that is not leased and gives out the next fence of the row.\<close>

lemma claim_world:
  assumes inv: "world_inv (db, L)" and n: "n \<in> set (db_outbox db)"
    and st: "nt_status n \<notin> {Leased, Sending, Delivered}"
    and trig: "trigger = Manual \<longleftrightarrow> nt_resend_requested_at n \<noteq> None"
    and who: "trigger = Manual \<longleftrightarrow> requested_by \<noteq> None"
    and claim: "claim_locked c now trigger requested_by n db = (l, db')"
  shows "world_inv (db', l # L)"
proof -
  from inv have ok: "table_ok (row_ok L) db" and dist: "distinct (map lease_key L)"
    and ids: "nl_notification_id ` set L \<subseteq> nt_id ` set (db_outbox db)" by (auto simp: world_inv_def)
  let ?n = "lease_row c now n"
  from claim have db': "db' = db\<lparr>db_outbox := update_where (\<lambda>m. nt_id m = nt_id n) (lease_row c now)
      (db_outbox db)\<rparr>"
    and l: "nl_notification_id l = nt_id n" "nl_fence_token l = nt_fence_token n + 1"
      "nl_trigger l = trigger" "nl_requested_by l = requested_by"
    by (auto simp: claim_locked_def)
  note row = table_ok_row [OF ok n]
  have "row_ok L ?n (attempts_of (nt_id n) db)"
    using row st by (auto simp: row_ok_def intro: lease_row_inv linked_lease_row)
  then have ok': "table_ok (row_ok L) db'"
    unfolding db' by (intro table_ok_update_row ok n) auto
  have link: "linked l ?n"
    using l trig who by (simp add: linked_def lease_row_def)
  have unique: "m = ?n" if "m \<in> set (db_outbox db')" "nt_id m = nt_id n" for m
  proof -
    have "?n \<in> set (db_outbox db')" using n by (auto simp: db' set_update_where)
    with that ok' show ?thesis by (auto simp: table_ok_def distinct_map inj_on_def)
  qed
  have "table_ok (row_ok (l # L)) db'"
    by (rule table_ok_mono [OF ok']) (use link l(1) unique in \<open>auto simp: row_ok_def\<close>)
  moreover have "lease_key l \<notin> lease_key ` set L"
    using row l by (auto simp: row_ok_def lease_key_def linked_def)
  moreover have "nt_id ` set (db_outbox db') = nt_id ` set (db_outbox db)"
    unfolding db' by (simp add: image_key_update_where)
  ultimately show ?thesis using dist ids n l(1) by (simp add: world_inv_def)
qed

lemma world_inv_table:
  "world_inv (db, L) \<Longrightarrow> table_ok (row_ok L) db' \<Longrightarrow>
     nt_id ` set (db_outbox db) \<subseteq> nt_id ` set (db_outbox db') \<Longrightarrow> world_inv (db', L)"
  unfolding world_inv_def fst_conv snd_conv by (blast intro: subset_trans)

lemma write_row_ids:
  "(\<And>m. nt_id (f m) = nt_id m) \<Longrightarrow> map nt_id (db_outbox (write_row n f g db)) = map nt_id (db_outbox db)"
  by (simp add: write_row_def map_key_update_where)

lemma give_up_ids: "map nt_id (db_outbox (give_up_lease now reason n db)) = map nt_id (db_outbox db)"
  by (simp add: give_up_lease_def write_row_ids)

lemma give_up_all_ids:
  "map nt_id (db_outbox (fold (give_up_lease now reason) ns db)) = map nt_id (db_outbox db)"
  by (induction ns arbitrary: db) (simp_all add: give_up_ids)

lemma preparation_ids [simp]:
  "nt_id ` set (db_outbox (recover_expired_leases locked now db)) = nt_id ` set (db_outbox db)"
  "nt_id ` set (db_outbox (terminalize_expired_retry_windows locked now db)) = nt_id ` set (db_outbox db)"
  "nt_id ` set (db_outbox (release_owned_leases c locked now db)) = nt_id ` set (db_outbox db)"
  unfolding recover_expired_leases_def terminalize_expired_retry_windows_def release_owned_leases_def
  by (metis give_up_all_ids image_set) (simp add: image_key_update_where, metis give_up_all_ids image_set)

lemma prepared_world:
  assumes "world_inv (db, L)"
  shows "world_inv (terminalize_expired_retry_windows locked now (recover_expired_leases locked now db), L)"
  using assms by (intro world_inv_table [OF assms] terminalize_ok recover_ok) (auto simp: world_inv_def)

lemma first_by_filter: "first_by key (filter P xs) = Some x \<Longrightarrow> x \<in> set xs \<and> P x"
  by (auto dest: first_by_Some)

lemma claim_next_world:
  assumes inv: "world_inv (db, L)" and run: "claim_next c locked now db = (got, db')"
  shows "world_inv (db', (case got of None \<Rightarrow> L | Some l \<Rightarrow> l # L))"
proof -
  define pr where "pr = terminalize_expired_retry_windows locked now (recover_expired_leases locked now db)"
  have pinv: "world_inv (pr, L)" unfolding pr_def by (rule prepared_world [OF inv])
  note unfolded = run [unfolded claim_next_def Let_def, folded pr_def]
  show ?thesis
  proof (cases "first_by manual_order (filter (manual_claimable locked now) (db_outbox pr))")
    case (Some n)
    from first_by_filter [OF this] have n: "n \<in> set (db_outbox pr)" "manual_claimable locked now n" by auto
    from pinv n(1) have "row_ok L n (attempts_of (nt_id n) pr)"
      by (simp add: world_inv_def table_ok_row)
    then have "resend_check n" by (simp add: row_ok_def row_inv_def)
    with n(2) have who: "nt_resend_requested_by n \<noteq> None"
      by (simp add: resend_check_def manual_claimable_def)
    obtain l where "claim_locked c now Manual (nt_resend_requested_by n) n pr = (l, db')" and "got = Some l"
      using unfolded Some by (auto simp: case_prod_beta) (metis prod.collapse)
    with claim_world [OF pinv n(1) _ _ _ this(1)] n(2) who show ?thesis
      by (auto simp: manual_claimable_def)
  next
    case no_manual: None
    show ?thesis
    proof (cases "first_by automatic_order (filter (automatic_claimable locked now) (db_outbox pr))")
      case (Some n)
      from first_by_filter [OF this] have n: "n \<in> set (db_outbox pr)" "automatic_claimable locked now n"
        by auto
      obtain l where "claim_locked c now Automatic None n pr = (l, db')" and "got = Some l"
        using unfolded Some no_manual by (auto simp: case_prod_beta) (metis prod.collapse)
      with claim_world [OF pinv n(1) _ _ _ this(1)] n(2) show ?thesis
        by (auto simp: automatic_claimable_def)
    next
      case None
      with unfolded no_manual pinv show ?thesis by auto
    qed
  qed
qed

lemma resend_world:
  assumes inv: "world_inv (db, L)" and run: "request_manual_resend i te wo ow re ra clock now db = Inr (found, db')"
  shows "world_inv (db', L)
     \<and> (\<forall>n. found = Some n \<longrightarrow> n \<in> set (db_outbox db') \<and> nt_status n \<notin> {Leased, Sending, Delivered}
          \<and> nt_resend_requested_at n \<noteq> None)"
  using run
proof (cases rule: request_manual_resend_Inr)
  case absent
  with inv show ?thesis by simp
next
  case (marked n t actor reason)
  note found = marked(6) and db' = marked(7) and free = marked(2)
  have n: "n \<in> set (db_outbox db)" using marked(1) by (auto dest: find_Some_iff2)
  from free have st: "nt_status n \<in> {Unknown, Failed_retryable, Failed_terminal}"
    and none: "nt_resend_requested_at n = None"
    and manual: "list_all (\<lambda>a. at_trigger a \<noteq> Manual) (attempts_of (nt_id n) db)"
    by (auto simp: resend_blocked_def attempts_of_def list_ex_iff list_all_iff split: if_splits)
  from inv have ok: "table_ok (row_ok L) db" by (simp add: world_inv_def)
  from table_ok_row [OF ok n] st none manual
  have "row_ok L (mark_resend t actor reason n) (attempts_of (nt_id n) db)"
    by (auto simp: row_ok_def intro: mark_resend_row_inv linked_mark_resend)
  then have "table_ok (row_ok L) db'" unfolding db' by (intro table_ok_update_row ok n) auto
  then have "world_inv (db', L)"
    by (rule world_inv_table [OF inv]) (simp add: db' image_key_update_where)
  moreover have "mark_resend t actor reason n \<in> set (db_outbox db')"
    using n by (auto simp: db' set_update_where)
  ultimately show ?thesis using found st by (auto simp: mark_resend_def)
qed

lemma plan_world:
  assumes inv: "world_inv (db, L)" and run: "plan_notification st digest i clock now r db = Inr (plan, db')"
    and fresh: "i \<notin> nt_id ` set (db_outbox db)"
  shows "world_inv (db', L)"
proof -
  from run obtain row where row: "plan_row row r db = Inr (plan, db')" and id: "nt_id row = i"
    and empty: "row_inv row []"
    by (auto simp: plan_notification_def rbind_Inr_iff) (metis planned_row_inv planned_row_def notification.select_convs(1))
  from inv have ok: "table_ok (row_ok L) db" and ids: "nl_notification_id ` set L \<subseteq> nt_id ` set (db_outbox db)"
    by (auto simp: world_inv_def)
  from plan_row_cases [OF row] show ?thesis
  proof
    assume new: "logical_key row \<notin> logical_key ` set (db_outbox db)
      \<and> plan = \<lparr>pl_notification = row, pl_created = True\<rparr> \<and> db' = db\<lparr>db_outbox := db_outbox db @ [row]\<rparr>"
    have "nl_notification_id l \<noteq> nt_id row" if "l \<in> set L" for l
      using that subsetD [OF ids, of "nl_notification_id l"] fresh id by auto
    with empty have "row_ok L row []" by (auto simp: row_ok_def)
    then have "table_ok (row_ok L) (db\<lparr>db_outbox := db_outbox db @ [row]\<rparr>)"
      using new fresh id by (intro table_ok_insert ok) simp_all
    with new have "table_ok (row_ok L) db'" by simp
    then show ?thesis by (rule world_inv_table [OF inv]) (use new in auto)
  qed (use inv in auto)
qed

lemma claim_manual_world:
  assumes inv: "world_inv (db, L)" and run: "claim_manual_resend c now i te wo ow re db = Inr (l, db')"
  shows "world_inv (db', l # L)"
proof -
  from run obtain actor n pr where req: "request_manual_resend i te wo ow actor
      ''direct_worker_manual_resend'' now (Some (Aware now)) db = Inr (Some n, pr)"
    and claim: "claim_locked c now Manual (Some actor) n pr = (l, db')"
    by (auto simp: claim_manual_resend_def rbind_Inr_iff split: option.splits)
  from resend_world [OF inv req] have "world_inv (pr, L)" "n \<in> set (db_outbox pr)"
    "nt_status n \<notin> {Leased, Sending, Delivered}" "nt_resend_requested_at n \<noteq> None" by auto
  then show ?thesis by (intro claim_world [OF _ _ _ _ _ claim]) auto
qed

lemma table_step_ids:
  "mark_sending l now db = (b, db') \<Longrightarrow> map nt_id (db_outbox db') = map nt_id (db_outbox db)"
  "finish_result c l r now db = (b, db') \<Longrightarrow> map nt_id (db_outbox db') = map nt_id (db_outbox db)"
  "finish_uncertain l reason now db = (b, db') \<Longrightarrow> map nt_id (db_outbox db') = map nt_id (db_outbox db)"
  by (auto simp: mark_sending_def finish_result_def finish_uncertain_def Let_def map_key_update_where
      write_row_ids split: option.splits if_splits)

lemma finish_send_ids:
  assumes "finish_send c l answer now db = (b, db')"
  shows "map nt_id (db_outbox db') = map nt_id (db_outbox db)"
proof -
  have "map nt_id (db_outbox (snd (finish_result c l r now db))) = map nt_id (db_outbox db)" for r
    by (rule table_step_ids(2)) (rule prod.collapse [symmetric])
  moreover have "map nt_id (db_outbox (snd (finish_uncertain l reason now db))) = map nt_id (db_outbox db)"
    for reason by (rule table_step_ids(3)) (rule prod.collapse [symmetric])
  moreover have "db' = snd (finish_send c l answer now db)" by (simp add: assms)
  ultimately show ?thesis by (cases answer) (simp_all add: case_prod_beta)
qed

lemma same_ids_subset: "map nt_id ys = map nt_id xs \<Longrightarrow> nt_id ` set xs \<subseteq> nt_id ` set ys"
  by (metis image_set subset_refl)

lemma world_inv_step: "outbox_step w v \<Longrightarrow> world_inv w \<Longrightarrow> world_inv v"
proof (induction rule: outbox_step.induct)
  case step_plan
  then show ?case by (blast intro: plan_world)
next
  case step_resend
  then show ?case using resend_world by blast
next
  case step_claim
  then show ?case using claim_next_world by fastforce
next
  case step_idle
  then show ?case using claim_next_world by fastforce
next
  case step_claim_manual
  then show ?case by (blast intro: claim_manual_world)
next
  case (step_mark l L now db b db')
  then have "table_ok (row_ok L) db'"
    by (intro start_sending_table [OF _ step_mark.hyps]) (simp add: world_inv_def)
  from world_inv_table [OF step_mark.prems this same_ids_subset [OF table_step_ids(1) [OF step_mark.hyps(2)]]]
  show ?case .
next
  case (step_finish l L c answer now db b db')
  then have "table_ok (row_ok L) db'"
    by (intro finish_send_table [OF _ step_finish.hyps(2)]) (simp add: world_inv_def)
  from world_inv_table [OF step_finish.prems this same_ids_subset [OF finish_send_ids [OF step_finish.hyps(2)]]]
  show ?case .
next
  case (step_release db L c locked now)
  then show ?case
    by (intro world_inv_table [OF step_release] release_owned_ok) (auto simp: world_inv_def)
qed

theorem reachable_world_inv: "outbox_reachable w \<Longrightarrow> world_inv w"
proof (induction rule: outbox_reachable.induct)
  case outbox_start
  show ?case by (simp add: world_inv_def table_ok_def)
next
  case (outbox_more w v)
  then show ?case by (blast intro: world_inv_step)
qed

end
