(* ===== verification/Notification_Properties.thy ===== *)
theory Notification_Properties
  imports Notification_Safety
begin

text \<open>
  What the outbox promises its users, read off the invariant of the shared world, and the
  schedule of retries and claims. The concrete world at the start is the one the statements are
  instantiated at.
\<close>

section \<open>A concrete world\<close>

definition sample_worker :: "string \<Rightarrow> worker_config" where
  "sample_worker i = \<lparr>wk_id = i, wk_lease_seconds = 30, wk_base_backoff_seconds = 30,
     wk_max_backoff_seconds = 3600\<rparr>"

definition planned_db :: outbox_db where
  "planned_db = (case plan_notification (\<lambda>s. False) (\<lambda>j. ''hash'') ''n'' 0 None sample_plan
       \<lparr>db_outbox = [], db_attempts = []\<rparr> of Inl e \<Rightarrow> undefined | Inr (p, db) \<Rightarrow> db)"

definition first_claim :: "notification_lease option \<times> outbox_db" where
  "first_claim = claim_next (sample_worker ''w1'') (\<lambda>i. False) 0 planned_db"

definition second_claim :: "notification_lease option \<times> outbox_db" where
  "second_claim = claim_next (sample_worker ''w2'') (\<lambda>i. False) (31 * SECOND) (snd first_claim)"

lemma planned_reachable: "outbox_reachable (planned_db, [])"
proof -
  have "\<exists>p. plan_notification (\<lambda>s. False) (\<lambda>j. ''hash'') ''n'' 0 None sample_plan
       \<lparr>db_outbox = [], db_attempts = []\<rparr> = Inr (p, planned_db)"
    by (simp add: planned_db_def plan_notification_def sample_plan_def required_identifier_def lower_def
        lower_char_def strip_def strip_with_def is_space_def json_copy_def sensitive_key_def
        SENSITIVE_KEY_PARTS_def normalized_key_def plan_row_def insert_unless_def)
  then obtain p where "plan_notification (\<lambda>s. False) (\<lambda>j. ''hash'') ''n'' 0 None sample_plan
       \<lparr>db_outbox = [], db_attempts = []\<rparr> = Inr (p, planned_db)" by blast
  from outbox_more [OF outbox_start step_plan [OF this]] show ?thesis by simp
qed

lemma claims_succeed:
  "case fst first_claim of None \<Rightarrow> False | Some l \<Rightarrow> nl_notification_id l = ''n'' \<and> nl_fence_token l = 1
     \<and> nl_trigger l = Automatic"
  "case fst second_claim of None \<Rightarrow> False | Some l \<Rightarrow> nl_notification_id l = ''n'' \<and> nl_fence_token l = 2"
  by code_simp+

lemma claimed_reachable:
  obtains l m where "fst first_claim = Some l" "fst second_claim = Some m"
    "nl_notification_id l = ''n''" "nl_notification_id m = ''n''"
    "nl_fence_token l = 1" "nl_fence_token m = 2"
    "outbox_reachable (snd second_claim, [m, l])"
proof -
  from claims_succeed obtain l m where lm: "fst first_claim = Some l" "fst second_claim = Some m"
    "nl_notification_id l = ''n''" "nl_notification_id m = ''n''"
    "nl_fence_token l = 1" "nl_fence_token m = 2"
    by (auto split: option.splits)
  have "claim_next (sample_worker ''w1'') (\<lambda>i. False) 0 planned_db = (Some l, snd first_claim)"
    using lm(1) by (simp add: first_claim_def prod_eq_iff)
  then have one: "outbox_reachable (snd first_claim, [l])"
    by (rule outbox_more [OF planned_reachable step_claim])
  have "claim_next (sample_worker ''w2'') (\<lambda>i. False) (31 * SECOND) (snd first_claim) = (Some m, snd second_claim)"
    using lm(2) by (simp add: second_claim_def prod_eq_iff)
  then have "outbox_reachable (snd second_claim, [m, l])"
    by (rule outbox_more [OF one step_claim])
  with lm show thesis by (rule that)
qed

section \<open>Delivery\<close>

lemma delivered_count:
  "delivered_last n as \<Longrightarrow> length (filter (\<lambda>a. at_result a = At_delivered) as)
     = (if nt_status n = Delivered then 1 else 0)"
  by (auto simp: delivered_last_def filter_empty_conv list_all_iff split: if_splits)

text \<open>
  C12. However many workers share the outbox and however their transactions interleave, every
  notification has at most five attempts, numbered one after the other and each under a fence of
  its own, at most one of them by hand, and an attempt is recorded as delivered exactly when the
  notification is, and then it is the only one.
\<close>

theorem notification_attempts_bounded:
  assumes "outbox_reachable (db, L)" and "n \<in> set (db_outbox db)"
  shows "map at_attempt_number (attempts_of (nt_id n) db) = [1..<Suc (nt_attempt_count n)]
     \<and> length (attempts_of (nt_id n) db) \<le> 5
     \<and> distinct (map at_fence_token (attempts_of (nt_id n) db))
     \<and> length (filter (\<lambda>a. at_trigger a = Manual) (attempts_of (nt_id n) db)) \<le> 1
     \<and> length (filter (\<lambda>a. at_result a = At_delivered) (attempts_of (nt_id n) db))
         = (if nt_status n = Delivered then 1 else 0)"
proof -
  from reachable_world_inv [OF assms(1)] assms(2)
  have inv: "row_inv n (attempts_of (nt_id n) db)"
    by (auto simp: world_inv_def row_ok_def dest: table_ok_row)
  then have nums: "map at_attempt_number (attempts_of (nt_id n) db) = [1..<Suc (nt_attempt_count n)]"
    and few: "nt_attempt_count n \<le> 5" by (auto simp: row_inv_def numbered_def MAX_ATTEMPTS_def)
  have "length (attempts_of (nt_id n) db) = nt_attempt_count n"
    using arg_cong [OF nums, of length] by simp
  moreover have "distinct (map at_fence_token (attempts_of (nt_id n) db))"
    using inv by (simp add: row_inv_def fenced_def strict_sorted_iff)
  ultimately show ?thesis using inv nums few
    by (auto simp: row_inv_def manual_once_def delivered_count)
qed

text \<open>
  C14. A lease that was superseded can no longer touch its notification: neither starting to send
  nor recording a result nor recording an uncertain delivery changes anything once a later lease
  for the same notification has been given out.
\<close>

theorem superseded_lease_is_powerless:
  assumes "outbox_reachable (db, L)" and "l \<in> set L" and "m \<in> set L"
    and "nl_notification_id l = nl_notification_id m" and "nl_fence_token l < nl_fence_token m"
  shows "mark_sending l now db = (False, db) \<and> finish_result c l r now db = (False, db)
     \<and> finish_uncertain l reason now db = (False, db)"
proof -
  have "locked_lease l db = None"
  proof (cases "locked_lease l db")
    case (Some n)
    note n = locked_lease_Some [OF Some]
    with reachable_world_inv [OF assms(1)] have "row_ok L n (attempts_of (nt_id n) db)"
      by (auto simp: world_inv_def dest: table_ok_row)
    with assms(3, 4) n have "linked m n" by (auto simp: row_ok_def)
    with n assms(5) show ?thesis by (simp add: linked_def)
  qed
  then show ?thesis by (simp add: mark_sending_def finish_result_def finish_uncertain_def)
qed

theorem superseded_lease_is_powerless_witness:
  "\<exists>l m. fst first_claim = Some l \<and> fst second_claim = Some m
     \<and> mark_sending l (32 * SECOND) (snd second_claim) = (False, snd second_claim)"
proof -
  obtain l m where lm: "fst first_claim = Some l" "fst second_claim = Some m"
    "nl_notification_id l = ''n''" "nl_notification_id m = ''n''"
    "nl_fence_token l = 1" "nl_fence_token m = 2" "outbox_reachable (snd second_claim, [m, l])"
    by (rule claimed_reachable)
  with superseded_lease_is_powerless [OF lm(7), of l m] show ?thesis by simp
qed

section \<open>Retries\<close>

text \<open>
  The delay before an automatic retry is at least the base backoff and at least what the
  provider asked for, at most the larger of a day and the maximal backoff, and grows with the
  number of attempts.
\<close>

theorem retry_delay_bounds:
  assumes "mk_worker i ls ma rw base mx to = Inr c" and "k \<le> k'"
  shows "base \<le> retry_delay c r k \<and> retry_delay c r k \<le> max 86400 mx
     \<and> retry_delay c r k \<le> retry_delay c r k'
     \<and> (case dv_retry_after_seconds r of Some v \<Rightarrow> min v 86400 \<le> retry_delay c r k | None \<Rightarrow> True)"
proof -
  from assms(1) have c: "1 \<le> base" "base \<le> mx" "wk_base_backoff_seconds c = base" "wk_max_backoff_seconds c = mx"
    by (auto simp: mk_worker_def Let_def split: if_splits)
  define A B R where "A = base * 2 ^ (k - 1)" and "B = base * 2 ^ (k' - 1)"
    and "R = (case retry_after_of (dv_retry_after_seconds r) of None \<Rightarrow> 0 | Some v \<Rightarrow> v)"
  have one: "(1::int) \<le> 2 ^ (k - 1)" by simp
  have pow: "(2::int) ^ (k - 1) \<le> 2 ^ (k' - 1)" using assms(2) by (intro power_increasing) auto
  have order: "base \<le> A" "A \<le> B"
    using c(1) one pow by (simp_all add: A_def B_def mult_le_cancel_left1 mult_left_mono)
  have delays: "retry_delay c r k = max R (min mx A)" "retry_delay c r k' = max R (min mx B)"
    by (simp_all add: retry_delay_def c R_def A_def B_def)
  have asked: "0 \<le> R" "R \<le> 86400"
    "case dv_retry_after_seconds r of Some v \<Rightarrow> min v 86400 \<le> R | None \<Rightarrow> True"
    by (auto simp: R_def retry_after_of_def split: option.splits)
  have "base \<le> max R (min mx A)" "max R (min mx A) \<le> max 86400 mx" "max R (min mx A) \<le> max R (min mx B)"
    "R \<le> max R (min mx A)"
    using c(2) order asked by (auto simp: min_def max_def)
  with asked(3) show ?thesis unfolding delays by (auto split: option.splits simp: le_max_iff_disj)
qed

theorem retry_delay_bounds_witness:
  "30 \<le> retry_delay (sample_worker ''w'') (dl_retryable ''x'') 1"
  using retry_delay_bounds [of "''w''" 30 5 86400 30 3600 1 "sample_worker ''w''" 1 1 "dl_retryable ''x''"]
  by (simp add: mk_worker_def sample_worker_def strip_def strip_with_def is_space_def)

text \<open>
  When an automatic attempt ends with a retryable failure, the lease is given up and the
  notification either waits exactly the computed delay, with an attempt left and the new time
  before the end of its 24 hours, or has failed for good.
\<close>

theorem retryable_failure_schedule:
  assumes "locked_lease l db = Some n" and "finish_result c l r now db = (True, db')"
    and "dv_outcome r = Dl_retryable" and "nl_trigger l = Automatic"
  shows "\<exists>m \<in> set (db_outbox db'). nt_id m = nt_id n \<and> nt_lease_owner m = None
     \<and> nt_attempt_count m = nt_attempt_count n
     \<and> (if nt_attempt_count n < 5
           \<and> now + retry_delay c r (nt_attempt_count n) * SECOND < nt_created_at n + RETRY_WINDOW
        then nt_status m = Failed_retryable
           \<and> nt_available_at m = now + retry_delay c r (nt_attempt_count n) * SECOND
        else nt_status m = Failed_terminal)"
proof -
  from assms(1) have n: "n \<in> set (db_outbox db)" by (auto dest: locked_lease_Some)
  have mem: "f n \<in> set (db_outbox (write_row n f g db))" for f g
    using n by (auto simp: write_row_def set_update_where)
  from assms show ?thesis
    by (auto simp: finish_result_def Let_def MAX_ATTEMPTS_def retry_row_def fail_terminal_def
        clear_lease_def split: if_splits intro!: bexI [OF _ mem])
qed

definition sending_db :: outbox_db where
  "sending_db = (case fst first_claim of None \<Rightarrow> undefined
     | Some l \<Rightarrow> snd (mark_sending l SECOND (snd first_claim)))"

lemma sending_finishes:
  "case fst first_claim of None \<Rightarrow> False | Some l \<Rightarrow> nl_trigger l = Automatic
     \<and> locked_lease l sending_db \<noteq> None
     \<and> fst (finish_result (sample_worker ''w1'') l (dl_retryable ''x'') (2 * SECOND) sending_db)"
  by code_simp

theorem retryable_failure_schedule_witness:
  "\<exists>l n db'. fst first_claim = Some l \<and> locked_lease l sending_db = Some n
     \<and> finish_result (sample_worker ''w1'') l (dl_retryable ''x'') (2 * SECOND) sending_db = (True, db')
     \<and> (\<exists>m \<in> set (db_outbox db'). nt_id m = nt_id n \<and> nt_lease_owner m = None)"
proof -
  from sending_finishes obtain l n db' where l: "fst first_claim = Some l" "nl_trigger l = Automatic"
    and n: "locked_lease l sending_db = Some n"
    and r: "finish_result (sample_worker ''w1'') l (dl_retryable ''x'') (2 * SECOND) sending_db = (True, db')"
    by (auto split: option.splits simp: prod_eq_iff)
  from retryable_failure_schedule [OF n r] l(2) have "\<exists>m \<in> set (db_outbox db'). nt_id m = nt_id n
      \<and> nt_lease_owner m = None" by (auto simp: dl_retryable_def)
  with l(1) n r show ?thesis by blast
qed

section \<open>Claims\<close>

text \<open>The database after the two clean-up statements of a claim.\<close>

definition prepared :: "(uuid \<Rightarrow> bool) \<Rightarrow> instant \<Rightarrow> outbox_db \<Rightarrow> outbox_db" where
  "prepared locked now db = terminalize_expired_retry_windows locked now (recover_expired_leases locked now db)"

lemma first_by_filter_least: "first_by key (filter P xs) = Some x \<Longrightarrow> y \<in> set xs \<Longrightarrow> P y \<Longrightarrow> key x \<le> key y"
  using first_by_least [of key "filter P xs" x y] by simp



text \<open>The rows of one notification through the clean-up, when its status is uncertain.\<close>

definition uncertain_rows :: "uuid \<Rightarrow> outbox_db \<Rightarrow> bool" where
  "uncertain_rows i db \<longleftrightarrow> (\<forall>m \<in> set (db_outbox db). nt_id m = i \<longrightarrow> nt_status m \<in> {Sending, Unknown})"

lemma give_up_uncertain:
  assumes "uncertain_rows i db" and "nt_id k = i \<Longrightarrow> nt_status k = Sending"
  shows "uncertain_rows i (give_up_lease now reason k db)"
  using assms
  by (auto simp: uncertain_rows_def give_up_lease_def write_row_def set_update_where)

lemma give_up_all_uncertain:
  assumes "uncertain_rows i db" and "\<forall>k \<in> set ks. nt_id k = i \<longrightarrow> nt_status k = Sending"
  shows "uncertain_rows i (fold (give_up_lease now reason) ks db)"
  using assms by (induction ks arbitrary: db) (auto intro: give_up_uncertain)

lemma prepared_uncertain:
  assumes "uncertain_rows i db"
  shows "uncertain_rows i (prepared locked now db)"
proof -
  have "uncertain_rows i (recover_expired_leases locked now db)"
    unfolding recover_expired_leases_def using assms
    by (intro give_up_all_uncertain) (auto simp: uncertain_rows_def expired_lease_def)
  then show ?thesis
    by (auto simp: prepared_def terminalize_expired_retry_windows_def uncertain_rows_def set_update_where)
qed

text \<open>
  C15. A notification that may have reached its recipient, because it is being sent or its outcome
  is unknown, is never sent again automatically: no automatic claim by any worker takes it, also
  when its lease has expired. Only a manual resend can send it again.
\<close>

theorem uncertain_never_resent_automatically:
  assumes "outbox_reachable (db, L)" and "n \<in> set (db_outbox db)" and "nt_status n \<in> {Sending, Unknown}"
    and "claim_next c locked now db = (Some l, db')" and "nl_notification_id l = nt_id n"
  shows "nl_trigger l = Manual"
proof -
  from reachable_world_inv [OF assms(1)] have "distinct (map nt_id (db_outbox db))"
    by (simp add: world_inv_def table_ok_def)
  with assms(2, 3) have "uncertain_rows (nt_id n) db"
    by (auto simp: uncertain_rows_def distinct_map inj_on_def)
  then have unc: "uncertain_rows (nt_id n) (terminalize_expired_retry_windows locked now (recover_expired_leases locked now db))"
    by (rule prepared_uncertain [unfolded prepared_def])
  show ?thesis
  proof (rule ccontr)
    assume "nl_trigger l \<noteq> Manual"
    with assms(4) obtain m where "first_by automatic_order (filter (automatic_claimable locked now)
        (db_outbox (terminalize_expired_retry_windows locked now (recover_expired_leases locked now db)))) = Some m"
      and "nl_notification_id l = nt_id m"
      by (auto simp: claim_next_def Let_def claim_locked_def split: option.splits)
    with first_by_filter [OF this(1)] unc assms(5) show False
      by (auto simp: uncertain_rows_def automatic_claimable_def)
  qed
qed

definition resend_of :: "outbox_db \<Rightarrow> (outbox_error, notification option \<times> outbox_db) result" where
  "resend_of db = request_manual_resend ''n'' ''t'' ''w'' ''u'' ''ops'' ''check'' (3 * SECOND) None db"

definition uncertain_db :: outbox_db where
  "uncertain_db = (case fst first_claim of None \<Rightarrow> undefined
     | Some l \<Rightarrow> snd (finish_send (sample_worker ''w1'') l Uncertain (2 * SECOND) sending_db))"

definition resend_db :: outbox_db where
  "resend_db = (case resend_of uncertain_db of Inl e \<Rightarrow> undefined | Inr (n, db) \<Rightarrow> db)"

definition manual_claim :: "notification_lease option \<times> outbox_db" where
  "manual_claim = claim_next (sample_worker ''w2'') (\<lambda>i. False) (4 * SECOND) resend_db"

lemma resend_succeeds:
  "is_ok (resend_of uncertain_db)"
  "case db_outbox resend_db of [n] \<Rightarrow> nt_id n = ''n'' \<and> nt_status n = Unknown \<and> nt_attempt_count n = 1 | _ \<Rightarrow> False"
  "case fst manual_claim of None \<Rightarrow> False | Some l \<Rightarrow> nl_notification_id l = ''n''"
  by code_simp+

lemma resend_reachable: "\<exists>L. outbox_reachable (resend_db, L)"
proof -
  from claims_succeed(1) obtain l where l: "fst first_claim = Some l" by (auto split: option.splits)
  then have "claim_next (sample_worker ''w1'') (\<lambda>i. False) 0 planned_db = (Some l, snd first_claim)"
    by (simp add: first_claim_def prod_eq_iff)
  then have one: "outbox_reachable (snd first_claim, [l])"
    by (rule outbox_more [OF planned_reachable step_claim])
  have "mark_sending l SECOND (snd first_claim) = (fst (mark_sending l SECOND (snd first_claim)), sending_db)"
    by (simp add: sending_db_def l)
  from outbox_more [OF one step_mark [OF _ this]] have two: "outbox_reachable (sending_db, [l])" by simp
  have "finish_send (sample_worker ''w1'') l Uncertain (2 * SECOND) sending_db
      = (fst (finish_send (sample_worker ''w1'') l Uncertain (2 * SECOND) sending_db), uncertain_db)"
    by (simp add: uncertain_db_def l)
  from outbox_more [OF two step_finish [OF _ this]] have three: "outbox_reachable (uncertain_db, [l])" by simp
  from resend_succeeds(1) obtain n where "resend_of uncertain_db = Inr (n, resend_db)"
    by (cases "resend_of uncertain_db") (auto simp: resend_db_def)
  from outbox_more [OF three step_resend [OF this [unfolded resend_of_def]]] show ?thesis by blast
qed

theorem uncertain_never_resent_automatically_witness:
  "\<exists>l. fst manual_claim = Some l \<and> nl_trigger l = Manual"
proof -
  from resend_succeeds(3) obtain l where l: "fst manual_claim = Some l" "nl_notification_id l = ''n''"
    by (auto split: option.splits)
  then have claim: "claim_next (sample_worker ''w2'') (\<lambda>i. False) (4 * SECOND) resend_db = (Some l, snd manual_claim)"
    by (simp add: manual_claim_def prod_eq_iff)
  from resend_succeeds(2) obtain n where n: "n \<in> set (db_outbox resend_db)" "nt_id n = ''n''"
    "nt_status n \<in> {Sending, Unknown}" by (auto split: list.splits)
  from resend_reachable obtain L where "outbox_reachable (resend_db, L)" by blast
  from uncertain_never_resent_automatically [OF this n(1, 3) claim] l n(2) show ?thesis by simp
qed

theorem notification_attempts_bounded_witness:
  "\<exists>n. n \<in> set (db_outbox resend_db) \<and> nt_attempt_count n = 1
     \<and> map at_attempt_number (attempts_of (nt_id n) resend_db) = [1]"
proof -
  from resend_succeeds(2) obtain n where n: "n \<in> set (db_outbox resend_db)" "nt_attempt_count n = 1"
    by (auto split: list.splits)
  from resend_reachable obtain L where "outbox_reachable (resend_db, L)" by blast
  from notification_attempts_bounded [OF this n(1)] n show ?thesis by auto
qed

end
