(* ===== verification/Calendar.thy ===== *)
theory Calendar
  imports Prelude
begin

text \<open>
  The calendar arithmetic of \<open>datetime\<close> that the accounting periods use: the first day of a
  month, the month an instant lies in, and replacing the month of a date. Days are counted from
  the epoch of the instants, 1 January 1970, and months from January of the year 0 of the
  proleptic Gregorian calendar.
\<close>

lemma DAY_nonzero [simp]: "DAY \<noteq> 0"
  using DAY_pos by linarith

section \<open>Days and months\<close>

definition leap_year :: "int \<Rightarrow> bool" where
  "leap_year y \<longleftrightarrow> y mod 4 = 0 \<and> (y mod 100 \<noteq> 0 \<or> y mod 400 = 0)"

definition month_days :: "bool \<Rightarrow> int list" where
  "month_days leap = [31, if leap then 29 else 28, 31, 30, 31, 30, 31, 31, 30, 31, 30, 31]"

definition days_before_year :: "int \<Rightarrow> int" where
  "days_before_year y = 365 * (y - 1) + (y - 1) div 4 - (y - 1) div 100 + (y - 1) div 400"

definition month_length :: "int \<Rightarrow> int" where
  "month_length k = month_days (leap_year (k div 12)) ! nat (k mod 12)"

definition EPOCH_DAY :: int where "EPOCH_DAY = 719162"

definition month_first :: "int \<Rightarrow> int" where
  \<comment> \<open>the day on which month \<open>k\<close> begins\<close>
  "month_first k = days_before_year (k div 12)
     + sum_list (take (nat (k mod 12)) (month_days (leap_year (k div 12)))) - EPOCH_DAY"

lemma month_days_facts: "length (month_days b) = 12" "set (month_days b) \<subseteq> {28..31}"
    "sum_list (month_days b) = (if b then 366 else 365)"
  by (auto simp: month_days_def)

lemma month_position: "nat (k mod 12) < 12" for k :: int
  using pos_mod_bound [of 12 k] by simp

lemma div_pred_step: "0 < d \<Longrightarrow> y div d = (y - 1) div d + (if y mod d = 0 then 1 else 0)" for y d :: int
proof -
  assume d: "0 < d"
  show ?thesis
  proof (cases "y mod d = 0")
    case True
    have y: "y = d * (y div d)" using True mult_div_mod_eq [of d y] by simp
    have "(y - 1) div d = y div d - 1"
      by (rule int_div_pos_eq [where r = "d - 1"]) (use y d in \<open>auto simp: algebra_simps\<close>)
    with True show ?thesis by simp
  next
    case False
    then have r: "0 < y mod d" using d by (simp add: order_less_le)
    have "(y - 1) div d = y div d"
      by (rule int_div_pos_eq [where r = "y mod d - 1"])
        (use r pos_mod_bound [OF d, of y] mult_div_mod_eq [of d y] in auto)
    with False show ?thesis by simp
  qed
qed

lemma leap_day: "a = a' + (if p then 1 else 0) \<Longrightarrow> b = b' + (if q then 1 else 0)
    \<Longrightarrow> c = c' + (if r then 1 else 0) \<Longrightarrow> (q \<Longrightarrow> p) \<Longrightarrow> (r \<Longrightarrow> q)
    \<Longrightarrow> 365 * y + a - b + c
      = 365 * (y - 1) + a' - b' + c' + (if p \<and> (\<not> q \<or> r) then 366 else 365)" for a :: int
  by (cases p; cases q; cases r) simp_all

lemma year_length: "days_before_year (y + 1) = days_before_year y + (if leap_year y then 366 else 365)"
proof -
  have "y mod 4 = 0" if "y mod 100 = 0" using that mod_mod_cancel [of 4 100 y] by simp
  moreover have "y mod 100 = 0" if "y mod 400 = 0" using that mod_mod_cancel [of 100 400 y] by simp
  ultimately show ?thesis
    unfolding days_before_year_def leap_year_def add_diff_cancel_right'
    by (intro leap_day div_pred_step) auto
qed

lemma month_first_Suc: "month_first (k + 1) = month_first k + month_length k"
proof (cases "k mod 12 = 11")
  case True
  then have "k = 12 * (k div 12) + 11" by (metis mult_div_mod_eq)
  then obtain q where k: "k = 12 * q + 11" ..
  have pos: "k + 1 = 12 * (q + 1) + 0" by (simp add: k)
  have step: "(k + 1) div 12 = k div 12 + 1" "(k + 1) mod 12 = 0"
    using int_div_pos_eq [OF pos] int_mod_pos_eq [OF pos] int_div_pos_eq [OF k] by simp_all
  have "sum_list (month_days b) = sum_list (take 11 (month_days b)) + month_days b ! 11" for b
    by (simp add: month_days_def)
  with True step show ?thesis
    by (simp add: month_first_def month_length_def year_length month_days_facts)
next
  case False
  then have "k mod 12 + 1 < 12" using pos_mod_bound [of 12 k] by simp
  then have pos: "k + 1 = 12 * (k div 12) + (k mod 12 + 1)" "0 \<le> k mod 12 + 1" "k mod 12 + 1 < 12"
    using mult_div_mod_eq [of 12 k] pos_mod_sign [of 12 k] by linarith+
  have step: "(k + 1) div 12 = k div 12" "(k + 1) mod 12 = k mod 12 + 1"
    by (rule int_div_pos_eq [OF pos] int_mod_pos_eq [OF pos])+
  have "nat (k mod 12 + 1) = Suc (nat (k mod 12))" by (simp add: nat_add_distrib)
  then show ?thesis
    by (simp add: month_first_def month_length_def step take_Suc_conv_app_nth month_position month_days_facts)
qed

lemma month_length_bounds: "28 \<le> month_length k \<and> month_length k \<le> 31"
proof -
  have "month_length k \<in> set (month_days (leap_year (k div 12)))"
    unfolding month_length_def by (rule nth_mem) (simp add: month_days_facts month_position)
  with month_days_facts(2) show ?thesis by fastforce
qed

lemma month_first_mono: "j < k \<Longrightarrow> month_first j + 28 \<le> month_first k"
proof (induction "nat (k - j)" arbitrary: k)
  case (Suc n)
  have last: "month_first k = month_first (k - 1) + month_length (k - 1)"
    using month_first_Suc [of "k - 1"] by simp
  show ?case
  proof (cases "j = k - 1")
    case True
    with last month_length_bounds [of j] show ?thesis by simp
  next
    case False
    with Suc have "month_first j + 28 \<le> month_first (k - 1)" by (intro Suc.hyps(1)) auto
    with last month_length_bounds [of "k - 1"] show ?thesis by simp
  qed
qed simp

section \<open>The month of a day\<close>

text \<open>A first guess from the mean length of a month, corrected in either direction.\<close>

function later_month :: "int \<Rightarrow> int \<Rightarrow> int" where
  "later_month d k = (if month_first (k + 1) \<le> d then later_month d (k + 1) else k)"
  by auto
termination
proof (relation "measure (\<lambda>(d, k). nat (d - month_first k))", simp)
  fix d k :: int
  assume "month_first (k + 1) \<le> d"
  with month_first_mono [of k "k + 1"] show "((d, k + 1), (d, k)) \<in> measure (\<lambda>(d, k). nat (d - month_first k))"
    by simp
qed

function earlier_month :: "int \<Rightarrow> int \<Rightarrow> int" where
  "earlier_month d k = (if d < month_first k then earlier_month d (k - 1) else k)"
  by auto
termination
proof (relation "measure (\<lambda>(d, k). nat (month_first k - d))", simp)
  fix d k :: int
  assume "d < month_first k"
  with month_first_mono [of "k - 1" k] show "((d, k - 1), (d, k)) \<in> measure (\<lambda>(d, k). nat (month_first k - d))"
    by simp
qed

declare later_month.simps [simp del] earlier_month.simps [simp del]

definition month_of_day :: "int \<Rightarrow> int" where
  "month_of_day d = later_month d (earlier_month d (23640 + d * 4800 div 146097))"

lemma later_month_spec: "month_first k \<le> d \<Longrightarrow>
    month_first (later_month d k) \<le> d \<and> d < month_first (later_month d k + 1)"
  by (induction d k rule: later_month.induct) (subst (1 2) later_month.simps, auto)

lemma earlier_month_spec: "month_first (earlier_month d k) \<le> d"
  by (induction d k rule: earlier_month.induct) (subst earlier_month.simps, auto)

lemma month_of_day_spec: "month_first (month_of_day d) \<le> d \<and> d < month_first (month_of_day d + 1)"
  unfolding month_of_day_def by (rule later_month_spec) (rule earlier_month_spec)

lemma month_of_day_unique:
  assumes "month_first k \<le> d" and "d < month_first (k + 1)"
  shows "month_of_day d = k"
proof (rule ccontr)
  assume "month_of_day d \<noteq> k"
  then consider "month_of_day d < k" | "k < month_of_day d" by linarith
  then show False
  proof cases
    case 1
    then have "month_first (month_of_day d + 1) \<le> month_first k"
      using month_first_mono [of "month_of_day d + 1" k] by (cases "month_of_day d + 1 = k") auto
    with assms(1) month_of_day_spec [of d] show False by linarith
  next
    case 2
    then have "month_first (k + 1) \<le> month_first (month_of_day d)"
      using month_first_mono [of "k + 1" "month_of_day d"] by (cases "k + 1 = month_of_day d") auto
    with assms(2) month_of_day_spec [of d] show False by linarith
  qed
qed

lemma month_of_first [simp]: "month_of_day (month_first k) = k"
  by (rule month_of_day_unique) (use month_first_mono [of k "k + 1"] in auto)

end
