(* ===== verification/Actor_Directory.thy ===== *)
theory Actor_Directory
  imports Prelude
begin

text \<open>
  Tenants, users, workspaces and memberships, and the two ways in which the repositories restrict
  an operation to its actor (\<open>persistence/repositories.py\<close>): \<open>resolve_actor\<close> looks the actor's
  identifiers up once, \<open>_actor_scope\<close> is a condition on the rows of a query. Under the unique
  constraints of the tables both mean the same. Creation and update times of the tables are left
  out where nothing reads them.
\<close>

section \<open>Tables\<close>

record actor_context =
  ac_tenant_id :: string
  ac_workspace_id :: string
  ac_user_id :: string
  ac_identity_issuer :: string
  ac_context_id :: "uuid option"
  ac_roles :: "string list"
  ac_permissions :: "string list"

definition valid_actor_context :: "actor_context \<Rightarrow> bool" where
  "valid_actor_context ac \<longleftrightarrow> ac_tenant_id ac \<noteq> [] \<and> ac_workspace_id ac \<noteq> [] \<and> ac_user_id ac \<noteq> []
     \<and> ac_identity_issuer ac \<noteq> []"

record tenant_row =
  tn_id :: uuid
  tn_external_id :: string
  tn_name :: string

record user_row =
  us_id :: uuid
  us_tenant_id :: uuid
  us_identity_issuer :: string
  us_external_subject :: string
  us_display_name :: "string option"

record workspace_row =
  ws_id :: uuid
  ws_tenant_id :: uuid
  ws_external_id :: string
  ws_name :: string
  ws_review_policy :: string

record membership_row =
  mb_id :: uuid
  mb_tenant_id :: uuid
  mb_workspace_id :: uuid
  mb_user_id :: uuid
  mb_role :: string
  mb_permissions :: "string list"
  mb_is_active :: bool

record directory =
  dir_tenants :: "tenant_row list"
  dir_users :: "user_row list"
  dir_workspaces :: "workspace_row list"
  dir_memberships :: "membership_row list"

definition directory_keys :: "directory \<Rightarrow> bool" where
  \<comment> \<open>the primary keys and unique constraints\<close>
  "directory_keys d \<longleftrightarrow>
     distinct (map tn_id (dir_tenants d)) \<and> distinct (map tn_external_id (dir_tenants d))
     \<and> distinct (map us_id (dir_users d))
     \<and> distinct (map (\<lambda>u. (us_tenant_id u, us_identity_issuer u, us_external_subject u)) (dir_users d))
     \<and> distinct (map ws_id (dir_workspaces d))
     \<and> distinct (map (\<lambda>w. (ws_tenant_id w, ws_external_id w)) (dir_workspaces d))
     \<and> distinct (map mb_id (dir_memberships d))
     \<and> distinct (map (\<lambda>m. (mb_workspace_id m, mb_user_id m)) (dir_memberships d))"

section \<open>Resolving an actor\<close>

record resolved_actor =
  ra_tenant_id :: uuid
  ra_workspace_id :: uuid
  ra_user_id :: uuid
  ra_membership_id :: uuid
  ra_role :: string
  ra_permissions :: "string list"

datatype actor_error = Identifiers_required | No_active_member | Several_members

definition names_actor :: "actor_context \<Rightarrow> bool" where
  "names_actor ac \<longleftrightarrow> ac_tenant_id ac \<noteq> [] \<and> ac_workspace_id ac \<noteq> [] \<and> ac_user_id ac \<noteq> []"

definition actor_joins ::
  "actor_context \<Rightarrow> tenant_row \<Rightarrow> workspace_row \<Rightarrow> membership_row \<Rightarrow> user_row \<Rightarrow> bool" where
  "actor_joins ac t w m u \<longleftrightarrow>
     ws_tenant_id w = tn_id t \<and> ws_external_id w = ac_workspace_id ac
     \<and> mb_tenant_id m = tn_id t \<and> mb_workspace_id m = ws_id w \<and> mb_is_active m
     \<and> mb_user_id m = us_id u \<and> us_tenant_id u = tn_id t \<and> us_identity_issuer u = ac_identity_issuer ac
     \<and> us_external_subject u = ac_user_id ac \<and> tn_external_id t = ac_tenant_id ac
     \<and> (case ac_context_id ac of None \<Rightarrow> True | Some c \<Rightarrow> mb_id m = c)"

definition actor_joined ::
  "directory \<Rightarrow> actor_context \<Rightarrow> (tenant_row \<times> workspace_row \<times> membership_row \<times> user_row) list" where
  "actor_joined d ac = filter (\<lambda>(t, w, m, u). actor_joins ac t w m u)
     (List.product (dir_tenants d) (List.product (dir_workspaces d)
        (List.product (dir_memberships d) (dir_users d))))"

definition resolved_row :: "tenant_row \<times> workspace_row \<times> membership_row \<times> user_row \<Rightarrow> resolved_actor" where
  "resolved_row x = (case x of (t, w, m, u) \<Rightarrow>
     \<lparr>ra_tenant_id = tn_id t, ra_workspace_id = ws_id w, ra_user_id = us_id u, ra_membership_id = mb_id m,
      ra_role = mb_role m, ra_permissions = mb_permissions m\<rparr>)"

definition resolve_actor :: "directory \<Rightarrow> actor_context \<Rightarrow> (actor_error, resolved_actor) result" where
  "resolve_actor d ac =
     (if \<not> names_actor ac then Inl Identifiers_required
      else case actor_joined d ac of
        [] \<Rightarrow> Inl No_active_member
      | [x] \<Rightarrow> Inr (resolved_row x)
      | _ \<Rightarrow> Inl Several_members)"

text \<open>The condition on a row with the given tenant, workspace and owner.\<close>

definition actor_scope :: "directory \<Rightarrow> actor_context \<Rightarrow> uuid \<Rightarrow> uuid \<Rightarrow> uuid \<Rightarrow> bool" where
  "actor_scope d ac tenant workspace owner \<longleftrightarrow>
     (\<exists>t \<in> set (dir_tenants d). \<exists>w \<in> set (dir_workspaces d). \<exists>m \<in> set (dir_memberships d).
        \<exists>u \<in> set (dir_users d). actor_joins ac t w m u
          \<and> tn_id t = tenant \<and> ws_id w = workspace \<and> us_id u = owner)"

section \<open>Both scopes agree\<close>

lemma distinct_map_unique:
  "distinct (map f xs) \<Longrightarrow> x \<in> set xs \<Longrightarrow> y \<in> set xs \<Longrightarrow> f x = f y \<Longrightarrow> x = y"
  by (auto simp: distinct_map inj_on_def)

lemma actor_scope_joined: "actor_scope d ac t w o' \<longleftrightarrow>
    (\<exists>x \<in> set (actor_joined d ac). ra_tenant_id (resolved_row x) = t
       \<and> ra_workspace_id (resolved_row x) = w \<and> ra_user_id (resolved_row x) = o')"
  by (force simp: actor_scope_def actor_joined_def resolved_row_def)

lemma actor_joins_unique:
  assumes keys: "directory_keys d"
    and "t \<in> set (dir_tenants d)" "w \<in> set (dir_workspaces d)" "m \<in> set (dir_memberships d)" "u \<in> set (dir_users d)"
    and "t' \<in> set (dir_tenants d)" "w' \<in> set (dir_workspaces d)" "m' \<in> set (dir_memberships d)" "u' \<in> set (dir_users d)"
    and "actor_joins ac t w m u" "actor_joins ac t' w' m' u'"
  shows "t = t' \<and> w = w' \<and> m = m' \<and> u = u'"
proof -
  have "t = t'"
    using keys assms(2, 6, 10, 11) distinct_map_unique [of tn_external_id "dir_tenants d" t t']
    by (auto simp: directory_keys_def actor_joins_def)
  moreover from this have "w = w'" and "u = u'"
    using keys assms(3, 5, 7, 9, 10, 11)
      distinct_map_unique [of "\<lambda>w. (ws_tenant_id w, ws_external_id w)" "dir_workspaces d" w w']
      distinct_map_unique [of "\<lambda>u. (us_tenant_id u, us_identity_issuer u, us_external_subject u)" "dir_users d" u u']
    by (auto simp: directory_keys_def actor_joins_def)
  moreover from this have "m = m'"
    using keys assms(4, 8, 10, 11)
      distinct_map_unique [of "\<lambda>m. (mb_workspace_id m, mb_user_id m)" "dir_memberships d" m m']
    by (auto simp: directory_keys_def actor_joins_def)
  ultimately show ?thesis by simp
qed

lemma actor_joined_unique:
  "directory_keys d \<Longrightarrow> x \<in> set (actor_joined d ac) \<Longrightarrow> y \<in> set (actor_joined d ac) \<Longrightarrow> x = y"
  using actor_joins_unique [of d] by (auto simp: actor_joined_def)

lemma distinct_all_equal:
  assumes "distinct xs" and "\<And>x y. x \<in> set xs \<Longrightarrow> y \<in> set xs \<Longrightarrow> x = y"
  shows "xs = [] \<or> (\<exists>x. xs = [x])"
proof (cases xs)
  case (Cons x ys)
  have "ys = []"
  proof (rule ccontr)
    assume "ys \<noteq> []"
    then have "x = hd ys" by (intro assms(2)) (simp_all add: Cons)
    with \<open>ys \<noteq> []\<close> assms(1) Cons show False by (cases ys) auto
  qed
  with Cons show ?thesis by simp
qed simp

lemma actor_joined_cases:
  assumes "directory_keys d"
  shows "actor_joined d ac = [] \<or> (\<exists>x. actor_joined d ac = [x])"
proof -
  have "distinct (actor_joined d ac)"
    using assms unfolding actor_joined_def directory_keys_def
    by (intro distinct_filter distinct_product) (auto simp: distinct_map)
  then show ?thesis
    by (rule distinct_all_equal) (rule actor_joined_unique [OF assms])
qed

lemma resolve_actor_joined:
  "resolve_actor d ac = Inr r \<Longrightarrow> \<exists>x. actor_joined d ac = [x] \<and> r = resolved_row x"
  by (auto simp: resolve_actor_def split: if_splits list.splits)

lemma resolved_scope:
  "resolve_actor d ac = Inr r \<Longrightarrow>
     actor_scope d ac t w o' \<longleftrightarrow> t = ra_tenant_id r \<and> w = ra_workspace_id r \<and> o' = ra_user_id r"
  by (auto simp: actor_scope_joined dest!: resolve_actor_joined)


definition sample_directory :: directory where
  "sample_directory = \<lparr>dir_tenants = [\<lparr>tn_id = ''t'', tn_external_id = ''acme'', tn_name = ''Acme''\<rparr>],
     dir_users = [\<lparr>us_id = ''u'', us_tenant_id = ''t'', us_identity_issuer = ''iss'', us_external_subject = ''sub'',
        us_display_name = None\<rparr>],
     dir_workspaces = [\<lparr>ws_id = ''w'', ws_tenant_id = ''t'', ws_external_id = ''desk'', ws_name = ''Desk'',
        ws_review_policy = ''bypass''\<rparr>],
     dir_memberships = [\<lparr>mb_id = ''m'', mb_tenant_id = ''t'', mb_workspace_id = ''w'', mb_user_id = ''u'',
        mb_role = ''operator'', mb_permissions = [], mb_is_active = True\<rparr>]\<rparr>"

definition sample_context :: actor_context where
  "sample_context = \<lparr>ac_tenant_id = ''acme'', ac_workspace_id = ''desk'', ac_user_id = ''sub'',
     ac_identity_issuer = ''iss'', ac_context_id = Some ''m'', ac_roles = [], ac_permissions = []\<rparr>"

definition sample_actor :: resolved_actor where
  "sample_actor = \<lparr>ra_tenant_id = ''t'', ra_workspace_id = ''w'', ra_user_id = ''u'',
     ra_membership_id = ''m'', ra_role = ''operator'', ra_permissions = []\<rparr>"

lemma sample_actor_resolved: "resolve_actor sample_directory sample_context = Inr sample_actor"
  by code_simp


end
