(* ===== verification/Usage_Ledger.thy ===== *)
theory Usage_Ledger
  imports Calendar Interfaces Actor_Directory
begin

text \<open>
  The usage ledger of \<open>persistence/usage_governance.py\<close>: the units and facts that are accounted,
  the entitlement of a workspace, the append that records a fact once per workspace and key,
  and the totals of a period. Appending keeps the contract of an idempotent write. Foreign keys
  of the tables are not modelled.
\<close>

section \<open>Units\<close>

datatype usage_unit =
    U_agent_admission | U_trigger | U_model_token | U_search_request | U_runtime_millisecond
  | U_storage_byte

fun unit_str :: "usage_unit \<Rightarrow> string" where
  "unit_str U_agent_admission = ''agent_admission''"
| "unit_str U_trigger = ''trigger''"
| "unit_str U_model_token = ''model_token''"
| "unit_str U_search_request = ''search_request''"
| "unit_str U_runtime_millisecond = ''runtime_millisecond''"
| "unit_str U_storage_byte = ''storage_byte''"

lemma unit_str_inject [simp]: "unit_str u = unit_str v \<longleftrightarrow> u = v"
  by (cases u; cases v) simp_all

text \<open>Units are sorted by their names, as the strings the code compares.\<close>

instantiation usage_unit :: linorder
begin

definition less_eq_usage_unit :: "usage_unit \<Rightarrow> usage_unit \<Rightarrow> bool" where
  "less_eq_usage_unit u v \<longleftrightarrow> unit_str u \<le> unit_str v"

definition less_usage_unit :: "usage_unit \<Rightarrow> usage_unit \<Rightarrow> bool" where
  "less_usage_unit u v \<longleftrightarrow> unit_str u < unit_str v"

instance
  by standard (auto simp: less_eq_usage_unit_def less_usage_unit_def order_less_le)

end

definition USAGE_UNITS :: "usage_unit list" where
  "USAGE_UNITS = [U_agent_admission, U_trigger, U_model_token, U_search_request,
     U_runtime_millisecond, U_storage_byte]"

lemma all_units [simp]: "u \<in> set USAGE_UNITS"
  by (cases u) (simp_all add: USAGE_UNITS_def)

section \<open>Facts, entitlements and ledger rows\<close>

record usage_fact =
  uf_idempotency_key :: string
  uf_owner_user_id :: uuid
  uf_operation_type :: string
  uf_resource_type :: string
  uf_resource_id :: string
  uf_unit :: usage_unit
  uf_quantity :: int
  uf_source_receipt_hash :: string
  uf_metadata :: json

record entitlement =
  en_id :: uuid
  en_tenant_id :: uuid
  en_workspace_id :: uuid
  en_active :: bool
  en_active_monitor_limit :: int
  en_min_interval_seconds :: int
  en_max_concurrent_tasks :: int
  en_monthly_trigger_limit :: int
  en_allowed_task_types :: "string list"
  en_monthly_agent_admission_limit :: int
  en_monthly_model_token_limit :: int
  en_monthly_search_request_limit :: int
  en_monthly_runtime_millisecond_limit :: int
  en_storage_byte_limit :: int
  en_max_retention_days :: int
  en_valid_from :: instant
  en_valid_until :: "instant option"

definition entitlement_check :: "entitlement \<Rightarrow> bool" where
  "entitlement_check e \<longleftrightarrow> 0 \<le> en_active_monitor_limit e \<and> 1 \<le> en_min_interval_seconds e
     \<and> 1 \<le> en_max_concurrent_tasks e \<and> 0 \<le> en_monthly_trigger_limit e
     \<and> 0 \<le> en_monthly_agent_admission_limit e \<and> 0 \<le> en_monthly_model_token_limit e
     \<and> 0 \<le> en_monthly_search_request_limit e \<and> 0 \<le> en_monthly_runtime_millisecond_limit e
     \<and> 0 \<le> en_storage_byte_limit e \<and> 1 \<le> en_max_retention_days e
     \<and> opt_ok (\<lambda>t. en_valid_from e < t) (en_valid_until e)"

fun limit_of :: "usage_unit \<Rightarrow> entitlement \<Rightarrow> int" where
  "limit_of U_agent_admission e = en_monthly_agent_admission_limit e"
| "limit_of U_trigger e = en_monthly_trigger_limit e"
| "limit_of U_model_token e = en_monthly_model_token_limit e"
| "limit_of U_search_request e = en_monthly_search_request_limit e"
| "limit_of U_runtime_millisecond e = en_monthly_runtime_millisecond_limit e"
| "limit_of U_storage_byte e = en_storage_byte_limit e"

definition entitlement_limits :: "entitlement \<Rightarrow> (string \<times> int) list" where
  "entitlement_limits e = map (\<lambda>u. (unit_str u, limit_of u e)) USAGE_UNITS"

record ledger_entry =
  le_id :: uuid
  le_tenant_id :: uuid
  le_workspace_id :: uuid
  le_owner_user_id :: uuid
  le_entitlement_id :: uuid
  le_monitor_id :: "uuid option"
  le_trigger_id :: "uuid option"
  le_period_start :: instant
  le_quantity :: int
  le_unit :: string
  le_operation_type :: string
  le_resource_type :: string
  le_resource_id :: "string option"
  le_source_receipt_hash :: "string option"
  le_idempotency_key :: string
  le_metadata :: json
  le_created_at :: instant

definition ledger_check :: "ledger_entry \<Rightarrow> bool" where
  "ledger_check e \<longleftrightarrow> 1 \<le> le_quantity e \<and> opt_ok (\<lambda>h. length h = 64) (le_source_receipt_hash e)"

definition ledger_key :: "ledger_entry \<Rightarrow> uuid \<times> uuid \<times> string" where
  "ledger_key e = (le_tenant_id e, le_workspace_id e, le_idempotency_key e)"

section \<open>Appending\<close>

datatype usage_error =
    Entitlement_denied | Mode_denied string | Quota_exceeded string int int | Unsupported_unit
  | Naive_timestamp | Integrity_error | Receipt_missing | Day_out_of_range

text \<open>The insert of a row, which a row with the same key turns into a lookup.\<close>

definition append_entry ::
  "ledger_entry \<Rightarrow> ledger_entry list \<Rightarrow> (usage_error, ledger_entry \<times> ledger_entry list) result" where
  "append_entry e ledger =
     (if \<not> ledger_check e then Inl Integrity_error
      else case find (\<lambda>x. ledger_key x = ledger_key e) ledger of
        Some x \<Rightarrow> Inr (x, ledger)
      | None \<Rightarrow> Inr (e, insert_unless ledger_key e ledger))"

definition entry_of_fact ::
  "resolved_actor \<Rightarrow> uuid \<Rightarrow> instant \<Rightarrow> usage_fact \<Rightarrow> uuid \<Rightarrow> instant \<Rightarrow> ledger_entry" where
  "entry_of_fact ra new_id created_at f entitlement_id period_start =
     \<lparr>le_id = new_id, le_tenant_id = ra_tenant_id ra, le_workspace_id = ra_workspace_id ra,
      le_owner_user_id = uf_owner_user_id f, le_entitlement_id = entitlement_id,
      le_monitor_id = None, le_trigger_id = None, le_period_start = period_start,
      le_quantity = uf_quantity f, le_unit = unit_str (uf_unit f),
      le_operation_type = uf_operation_type f, le_resource_type = uf_resource_type f,
      le_resource_id = Some (uf_resource_id f),
      le_source_receipt_hash = Some (uf_source_receipt_hash f),
      le_idempotency_key = uf_idempotency_key f, le_metadata = uf_metadata f,
      le_created_at = created_at\<rparr>"

definition append_fact ::
  "resolved_actor \<Rightarrow> uuid \<Rightarrow> instant \<Rightarrow> uuid \<Rightarrow> instant \<Rightarrow> usage_fact \<Rightarrow> ledger_entry list
     \<Rightarrow> (usage_error, ledger_entry \<times> ledger_entry list) result" where
  "append_fact ra new_id created_at entitlement_id period_start f ledger =
     append_entry (entry_of_fact ra new_id created_at f entitlement_id period_start) ledger"

section \<open>Totals\<close>

definition in_period :: "resolved_actor \<Rightarrow> instant \<Rightarrow> ledger_entry \<Rightarrow> bool" where
  "in_period ra period_start e \<longleftrightarrow> le_tenant_id e = ra_tenant_id ra
     \<and> le_workspace_id e = ra_workspace_id ra \<and> le_period_start e = period_start"

definition unit_total :: "resolved_actor \<Rightarrow> string \<Rightarrow> instant \<Rightarrow> ledger_entry list \<Rightarrow> int" where
  "unit_total ra u period_start ledger =
     sum_list (map le_quantity (filter (\<lambda>e. in_period ra period_start e \<and> le_unit e = u) ledger))"

definition total :: "resolved_actor \<Rightarrow> string \<Rightarrow> instant \<Rightarrow> ledger_entry list \<Rightarrow> (usage_error, int) result" where
  "total ra u period_start ledger =
     (if u \<in> set (map unit_str USAGE_UNITS) then Inr (unit_total ra u period_start ledger)
      else Inl Unsupported_unit)"

definition current_totals :: "resolved_actor \<Rightarrow> instant \<Rightarrow> ledger_entry list \<Rightarrow> (string \<times> int) list" where
  "current_totals ra period_start ledger =
     map (\<lambda>u. (u, unit_total ra u period_start ledger))
       (remdups (map le_unit (filter (in_period ra period_start) ledger)))"

section \<open>Appending is an idempotent write\<close>

definition recorded_in :: "ledger_entry \<Rightarrow> ledger_entry list \<Rightarrow> bool" where
  "recorded_in e ledger \<longleftrightarrow> ledger_check e \<and> ledger_key e \<in> ledger_key ` set ledger"

lemma append_entry_cases:
  assumes "append_entry e ledger = Inr (x, ledger')"
  shows "(ledger_key e \<in> ledger_key ` set ledger \<and> ledger' = ledger \<and> x \<in> set ledger \<and> ledger_key x = ledger_key e)
     \<or> (ledger_key e \<notin> ledger_key ` set ledger \<and> ledger' = ledger @ [e] \<and> x = e)"
proof (cases "find (\<lambda>y. ledger_key y = ledger_key e) ledger")
  case None
  then have "ledger_key e \<notin> ledger_key ` set ledger" by (auto simp: find_None_iff)
  with None assms show ?thesis by (auto simp: append_entry_def insert_unless_def split: if_splits)
next
  case (Some y)
  then have "y \<in> set ledger" "ledger_key y = ledger_key e" by (auto dest: find_Some_iff2)
  with Some assms show ?thesis by (auto simp: append_entry_def split: if_splits intro: rev_image_eqI)
qed

lemma append_entry_check: "append_entry e ledger = Inr r \<Longrightarrow> ledger_check e"
  by (auto simp: append_entry_def split: if_splits)

lemma append_entry_known:
  assumes "ledger_check e" and "ledger_key e \<in> ledger_key ` set ledger"
  shows "\<exists>x. append_entry e ledger = Inr (x, ledger)"
proof (cases "find (\<lambda>y. ledger_key y = ledger_key e) ledger")
  case None
  with assms(2) show ?thesis by (auto simp: find_None_iff)
next
  case (Some y)
  with assms(1) show ?thesis by (simp add: append_entry_def)
qed

interpretation ledger: idempotent_write append_entry recorded_in "\<lambda>l. ledger_key ` set l" ledger_key
proof
  fix e l x l'
  assume run: "append_entry e l = Inr (x, l')"
  note cases = append_entry_cases [OF run] append_entry_check [OF run]
  show "recorded_in e l'" and "ledger_key ` set l' = insert (ledger_key e) (ledger_key ` set l)"
    using cases by (auto simp: recorded_in_def intro: rev_image_eqI)
  show "recorded_in s l'" if "recorded_in s l" for s using cases that by (auto simp: recorded_in_def)
next
  fix e l assume "recorded_in e l"
  then show "\<exists>x. append_entry e l = Inr (x, l)" by (auto simp: recorded_in_def intro: append_entry_known)
qed

lemma append_entry_total:
  assumes "append_entry e ledger = Inr (x, ledger')"
  shows "unit_total ra u t ledger' = unit_total ra u t ledger
     + (if ledger_key e \<notin> ledger_key ` set ledger \<and> in_period ra t e \<and> le_unit e = u then le_quantity e else 0)"
  using append_entry_cases [OF assms] by (auto simp: unit_total_def)

end
