(* ===== verification/Product_Tables.thy ===== *)
theory Product_Tables
  imports Actor_Directory
begin

text \<open>
  Rows of the product tables that several components read and write: threads, tasks, runs, task
  commands, monitor triggers and improvement reviews, each with the columns of
  \<open>persistence/models.py\<close> and its check constraints. Creation times are kept where they are read,
  update times and foreign keys are left out.
\<close>

definition fits :: "nat \<Rightarrow> string \<Rightarrow> bool" where
  \<comment> \<open>a value of a \<open>VARCHAR(n)\<close> column\<close>
  "fits n s \<longleftrightarrow> length s \<le> n"

section \<open>Status values\<close>

definition RUN_STATUSES :: "string list" where
  "RUN_STATUSES = [''queued'', ''running'', ''waiting_human'', ''succeeded'', ''blocked'', ''failed'', ''cancelled'']"

definition OBSERVED_TERMINAL_STATUSES :: "string list" where
  "OBSERVED_TERMINAL_STATUSES = [''error'', ''success'', ''timeout'']"

definition TASK_COMMAND_TYPES :: "string list" where
  "TASK_COMMAND_TYPES = [''submit'', ''respond'', ''cancel_run'', ''cancel_task'', ''retry'', ''fork'']"

definition TASK_COMMAND_STATUSES :: "string list" where
  "TASK_COMMAND_STATUSES = [''pending'', ''dispatching'', ''dispatched'', ''rejected'', ''cancelled'', ''failed'']"

definition MONITOR_TRIGGER_KINDS :: "string list" where
  "MONITOR_TRIGGER_KINDS = [''manual'', ''cron'']"

definition MONITOR_TRIGGER_STATUSES :: "string list" where
  "MONITOR_TRIGGER_STATUSES = [''received'', ''suppressed'', ''admitted'', ''failed'']"

section \<open>Threads and tasks\<close>

record thread_row =
  th_id :: uuid
  th_tenant_id :: uuid
  th_workspace_id :: uuid
  th_owner_user_id :: uuid
  th_official_thread_id :: "string option"
  th_title :: "string option"
  th_context :: json
  th_next_domain_event_sequence :: int

definition thread_check :: "thread_row \<Rightarrow> bool" where
  "thread_check t \<longleftrightarrow> opt_ok (fits 255) (th_official_thread_id t) \<and> opt_ok (fits 500) (th_title t)"

record task_row =
  tr_id :: uuid
  tr_tenant_id :: uuid
  tr_workspace_id :: uuid
  tr_owner_user_id :: uuid
  tr_thread_id :: uuid
  tr_task_type :: string
  tr_status :: string
  tr_idempotency_key :: string
  tr_request_payload_hash :: string
  tr_request_payload :: json
  tr_completed_at :: "instant option"
  tr_created_at :: instant

definition task_key :: "task_row \<Rightarrow> uuid \<times> uuid \<times> uuid \<times> string" where
  "task_key t = (tr_tenant_id t, tr_workspace_id t, tr_owner_user_id t, tr_idempotency_key t)"

definition task_check :: "task_row \<Rightarrow> bool" where
  "task_check t \<longleftrightarrow> fits 64 (tr_task_type t) \<and> fits 32 (tr_status t) \<and> fits 255 (tr_idempotency_key t)
     \<and> fits 64 (tr_request_payload_hash t)"

section \<open>Runs\<close>

record run_row =
  rn_id :: uuid
  rn_tenant_id :: uuid
  rn_workspace_id :: uuid
  rn_owner_user_id :: uuid
  rn_thread_id :: uuid
  rn_task_id :: uuid
  rn_attempt :: int
  rn_status :: string
  rn_official_assistant_id :: "string option"
  rn_official_run_id :: "string option"
  rn_checkpoint_id :: "string option"
  rn_input_payload :: json
  rn_output_payload :: "json option"
  rn_failure_code :: "string option"
  rn_failure_message :: "string option"
  rn_started_at :: "instant option"
  rn_finished_at :: "instant option"
  rn_last_heartbeat_at :: "instant option"
  rn_reconciliation_deadline_at :: "instant option"
  rn_projection_fence :: int
  rn_terminal_output_hash :: "string option"
  rn_cancel_requested_at :: "instant option"
  rn_observed_terminal_status :: "string option"
  rn_official_stream_last_event_id :: "string option"
  rn_official_stream_last_event_at :: "instant option"
  rn_resume_of_run_id :: "uuid option"
  rn_retry_of_run_id :: "uuid option"
  rn_forked_from_run_id :: "uuid option"
  rn_forked_from_checkpoint_id :: "string option"

definition run_status_check :: "run_row \<Rightarrow> bool" where
  "run_status_check r \<longleftrightarrow> rn_status r \<in> set RUN_STATUSES
     \<and> opt_ok (\<lambda>s. s \<in> set OBSERVED_TERMINAL_STATUSES) (rn_observed_terminal_status r)"

definition run_lineage_check :: "run_row \<Rightarrow> bool" where
  "run_lineage_check r \<longleftrightarrow> rn_resume_of_run_id r \<noteq> Some (rn_id r) \<and> rn_retry_of_run_id r \<noteq> Some (rn_id r)
     \<and> rn_forked_from_run_id r \<noteq> Some (rn_id r)
     \<and> (rn_forked_from_run_id r = None) = (rn_forked_from_checkpoint_id r = None)"

section \<open>Task commands\<close>

record command_row =
  tc_id :: uuid
  tc_tenant_id :: uuid
  tc_workspace_id :: uuid
  tc_actor_user_id :: uuid
  tc_task_id :: uuid
  tc_thread_id :: uuid
  tc_command_type :: string
  tc_payload :: json
  tc_payload_hash :: string
  tc_sequence :: int
  tc_status :: string
  tc_lease_owner :: "string option"
  tc_lease_expires_at :: "instant option"
  tc_attempt :: int
  tc_idempotency_key :: string
  tc_official_run_id :: "string option"
  tc_official_command_id :: "string option"
  tc_created_at :: instant

definition command_check :: "command_row \<Rightarrow> bool" where
  "command_check c \<longleftrightarrow> tc_command_type c \<in> set TASK_COMMAND_TYPES \<and> tc_status c \<in> set TASK_COMMAND_STATUSES
     \<and> fits 64 (tc_payload_hash c) \<and> fits 255 (tc_idempotency_key c)"

definition command_sequence_key :: "command_row \<Rightarrow> uuid \<times> int" where
  "command_sequence_key c = (tc_thread_id c, tc_sequence c)"

definition command_key :: "command_row \<Rightarrow> uuid \<times> string" where
  "command_key c = (tc_workspace_id c, tc_idempotency_key c)"

section \<open>Monitor triggers and reviews\<close>

record trigger_row =
  gr_id :: uuid
  gr_tenant_id :: uuid
  gr_workspace_id :: uuid
  gr_owner_user_id :: uuid
  gr_monitor_id :: uuid
  gr_official_cron_id :: "string option"
  gr_official_run_id :: "string option"
  gr_official_thread_id :: "string option"
  gr_manual_stable_key :: "string option"
  gr_kind :: string
  gr_status :: string
  gr_reason :: "string option"
  gr_schedule_version :: int
  gr_task_id :: "uuid option"
  gr_thread_id :: "uuid option"
  gr_received_at :: instant
  gr_admitted_at :: "instant option"
  gr_failed_at :: "instant option"

definition trigger_check :: "trigger_row \<Rightarrow> bool" where
  "trigger_check g \<longleftrightarrow> gr_kind g \<in> set MONITOR_TRIGGER_KINDS \<and> gr_status g \<in> set MONITOR_TRIGGER_STATUSES
     \<and> 1 \<le> gr_schedule_version g
     \<and> (gr_kind g = ''cron'' \<and> gr_official_run_id g \<noteq> None \<and> gr_manual_stable_key g = None
        \<or> gr_kind g = ''manual'' \<and> gr_manual_stable_key g \<noteq> None \<and> gr_official_run_id g = None)
     \<and> opt_ok (fits 255) (gr_official_cron_id g) \<and> opt_ok (fits 255) (gr_official_run_id g)
     \<and> opt_ok (fits 255) (gr_official_thread_id g) \<and> opt_ok (fits 255) (gr_manual_stable_key g)
     \<and> opt_ok (fits 500) (gr_reason g)"

text \<open>The two partial unique indexes: a null identity is never a duplicate.\<close>

definition trigger_clash :: "trigger_row \<Rightarrow> trigger_row \<Rightarrow> bool" where
  "trigger_clash g h \<longleftrightarrow> gr_tenant_id g = gr_tenant_id h \<and> gr_workspace_id g = gr_workspace_id h
     \<and> gr_monitor_id g = gr_monitor_id h
     \<and> (gr_official_run_id g \<noteq> None \<and> gr_official_run_id g = gr_official_run_id h
        \<or> gr_manual_stable_key g \<noteq> None \<and> gr_manual_stable_key g = gr_manual_stable_key h)"

record review_row =
  vr_id :: uuid
  vr_tenant_id :: uuid
  vr_workspace_id :: uuid
  vr_owner_user_id :: uuid
  vr_candidate_id :: uuid
  vr_status :: string
  vr_created_at :: instant

end
