(* ===== verification/Usage_Governance.thy ===== *)
theory Usage_Governance
  imports Usage_Ledger Product_Tables Json_Values
begin

text \<open>
  The usage governance of \<open>persistence/usage_governance.py\<close>: what a finished run is accounted for,
  the admission of an agent operation within the entitlement and the monthly quota, and the
  reconciliation of a month's ledger with the product rows it accounts for. The canonical hash
  of a JSON value, the length of its text, the conversion of an elapsed time through a double and
  the text of a value that is no string are the parameters \<open>up_hash\<close>, \<open>up_size\<close>, \<open>up_millis\<close> and
  \<open>up_text\<close>. A payload is a tree, so no list of it is met twice and the code's set of visited
  lists has no effect.
\<close>

record usage_params =
  up_hash :: "json \<Rightarrow> string"
  up_size :: "json \<Rightarrow> int"
  up_millis :: "int \<Rightarrow> int"
  up_text :: "json \<Rightarrow> string"

section \<open>Periods\<close>

definition month_start :: "instant \<Rightarrow> instant" where
  "month_start t = month_first (month_of_day (t div DAY)) * DAY"

fun usage_period_start :: "pydatetime \<Rightarrow> (usage_error, instant) result" where
  "usage_period_start (Aware t) = Inr (month_start t)"
| "usage_period_start (Offsetless t) = Inr (month_start t)"
| "usage_period_start (Naive t) = Inl Naive_timestamp"

text \<open>Replacing the month keeps the day and the time; a month without that day is an error.\<close>

definition next_month :: "instant \<Rightarrow> (usage_error, instant) result" where
  "next_month t =
     (let k = month_of_day (t div DAY); day = t div DAY - month_first k in
      if day < month_length (k + 1) then Inr ((month_first (k + 1) + day) * DAY + t mod DAY)
      else Inl Day_out_of_range)"

lemma month_start_spec: "month_start t \<le> t \<and> t < month_first (month_of_day (t div DAY) + 1) * DAY"
proof -
  have spec: "month_first (month_of_day (t div DAY)) \<le> t div DAY"
    "t div DAY + 1 \<le> month_first (month_of_day (t div DAY) + 1)"
    using month_of_day_spec [of "t div DAY"] by auto
  have low: "t div DAY * DAY \<le> t" and high: "t < (t div DAY + 1) * DAY"
    using pos_mod_bound [OF DAY_pos, of t] pos_mod_sign [OF DAY_pos, of t] div_mult_mod_eq [of t DAY]
    unfolding distrib_right by linarith+
  have "month_start t \<le> t div DAY * DAY"
    unfolding month_start_def by (rule mult_right_mono [OF spec(1)]) (simp add: less_imp_le)
  moreover have "(t div DAY + 1) * DAY \<le> month_first (month_of_day (t div DAY) + 1) * DAY"
    by (rule mult_right_mono [OF spec(2)]) (simp add: less_imp_le)
  ultimately show ?thesis using low high by linarith
qed

lemma next_of_month_start:
  "next_month (month_start t) = Inr (month_first (month_of_day (t div DAY) + 1) * DAY)"
  using month_length_bounds [of "month_of_day (t div DAY) + 1"]
  by (simp add: next_month_def month_start_def Let_def)

lemma month_start_idem [simp]: "month_start (month_start t) = month_start t"
  by (simp add: month_start_def)

section \<open>What a run is accounted for\<close>

definition audit_tokens :: "json \<Rightarrow> int" where
  "audit_tokens audit = (case strict_int (get_or_null ''total_tokens'' audit) of
     None \<Rightarrow> 0 | Some n \<Rightarrow> max n 0)"

definition own_tokens :: "json \<Rightarrow> int" where
  "own_tokens value = (case json_get ''model_audits'' value of
     Some (JArr audits) \<Rightarrow> sum_list (map audit_tokens audits) | _ \<Rightarrow> 0)"

fun model_tokens :: "json \<Rightarrow> int" where
  "model_tokens (JObj kvs) = own_tokens (JObj kvs) + sum_list (map model_tokens (map snd kvs))"
| "model_tokens (JArr xs) = sum_list (map model_tokens xs)"
| "model_tokens _ = 0"

definition own_attempted :: "json \<Rightarrow> int" where
  "own_attempted value = (case json_get ''search_coverage'' value of
     Some (JObj coverage) \<Rightarrow> (case strict_int (get_or_null ''attempted_queries'' (JObj coverage)) of
        None \<Rightarrow> 0 | Some n \<Rightarrow> max n 0)
   | _ \<Rightarrow> 0)"

fun attempted_queries :: "json \<Rightarrow> int" where
  "attempted_queries (JObj kvs) = fold max (map attempted_queries (map snd kvs)) (own_attempted (JObj kvs))"
| "attempted_queries (JArr xs) = fold max (map attempted_queries xs) 0"
| "attempted_queries _ = 0"

definition text_of :: "usage_params \<Rightarrow> json \<Rightarrow> string" where
  "text_of p j = (case j of JStr s \<Rightarrow> s | _ \<Rightarrow> up_text p j)"

definition evidence_queries :: "usage_params \<Rightarrow> json \<Rightarrow> string list" where
  "evidence_queries p payload = (case get_or_null ''web_evidence'' payload of
     JArr items \<Rightarrow> remdups (map (\<lambda>item. strip (text_of p (get_or_null ''query'' item)))
       (filter (\<lambda>item. is_mapping item
          \<and> strip (text_of p (py_or (get_or_null ''query'' item) (JStr []))) \<noteq> []) items))
   | _ \<Rightarrow> [])"

definition search_requests :: "usage_params \<Rightarrow> json \<Rightarrow> int" where
  "search_requests p payload = max (int (length (evidence_queries p payload))) (attempted_queries payload)"

definition runtime_millis :: "usage_params \<Rightarrow> run_row \<Rightarrow> instant \<Rightarrow> int" where
  "runtime_millis p run finished = (case rn_started_at run of
     None \<Rightarrow> 0 | Some started \<Rightarrow> max 1 (up_millis p (finished - started)))"

definition run_quantity :: "usage_params \<Rightarrow> run_row \<Rightarrow> instant \<Rightarrow> json \<Rightarrow> usage_unit \<Rightarrow> int" where
  "run_quantity p run finished payload u = (case u of
     U_model_token \<Rightarrow> model_tokens payload
   | U_search_request \<Rightarrow> search_requests p payload
   | U_runtime_millisecond \<Rightarrow> runtime_millis p run finished
   | U_storage_byte \<Rightarrow> up_size p payload
   | _ \<Rightarrow> 0)"

definition run_fact :: "usage_params \<Rightarrow> run_row \<Rightarrow> instant \<Rightarrow> json \<Rightarrow> usage_unit \<Rightarrow> usage_fact" where
  "run_fact p run finished payload u =
     \<lparr>uf_idempotency_key = ''run-usage:'' @ rn_id run @ '':'' @ unit_str u,
      uf_owner_user_id = rn_owner_user_id run, uf_operation_type = ''agent_run'',
      uf_resource_type = ''run'', uf_resource_id = rn_id run, uf_unit = u,
      uf_quantity = run_quantity p run finished payload u,
      uf_source_receipt_hash = (case rn_terminal_output_hash run of
         Some h \<Rightarrow> if h = [] then up_hash p payload else h | None \<Rightarrow> up_hash p payload),
      uf_metadata = JObj [(''task_id'', JStr (rn_task_id run)), (''attempt'', JInt (rn_attempt run))]\<rparr>"

definition run_usage_facts :: "usage_params \<Rightarrow> run_row \<Rightarrow> usage_fact list" where
  "run_usage_facts p run = (case (rn_finished_at run, rn_output_payload run) of
     (Some finished, Some payload) \<Rightarrow>
       filter (\<lambda>f. 0 < uf_quantity f) (map (run_fact p run finished payload)
         [U_model_token, U_search_request, U_runtime_millisecond, U_storage_byte])
   | _ \<Rightarrow> [])"

section \<open>Appending several facts\<close>

text \<open>\<open>fresh\<close> is the identifier drawn for the row of a key.\<close>

fun append_facts ::
  "resolved_actor \<Rightarrow> (string \<Rightarrow> uuid) \<Rightarrow> instant \<Rightarrow> uuid \<Rightarrow> instant \<Rightarrow> usage_fact list \<Rightarrow> ledger_entry list
     \<Rightarrow> (usage_error, ledger_entry list) result" where
  "append_facts ra fresh created_at entitlement_id period_start [] ledger = Inr ledger"
| "append_facts ra fresh created_at entitlement_id period_start (f # fs) ledger =
     rbind (append_fact ra (fresh (uf_idempotency_key f)) created_at entitlement_id period_start f ledger)
       (\<lambda>(x, ledger'). append_facts ra fresh created_at entitlement_id period_start fs ledger')"

definition append_run_usage_receipts ::
  "usage_params \<Rightarrow> (string \<Rightarrow> uuid) \<Rightarrow> instant \<Rightarrow> entitlement list \<Rightarrow> resolved_actor \<Rightarrow> run_row
     \<Rightarrow> ledger_entry list \<Rightarrow> (usage_error, ledger_entry list) result" where
  "append_run_usage_receipts p fresh now entitlements ra run ledger =
     (case find (\<lambda>e. en_tenant_id e = ra_tenant_id ra \<and> en_workspace_id e = ra_workspace_id ra) entitlements of
        None \<Rightarrow> Inl Entitlement_denied
      | Some e \<Rightarrow> append_facts ra fresh now (en_id e)
          (month_start (case rn_finished_at run of None \<Rightarrow> now | Some t \<Rightarrow> t)) (run_usage_facts p run) ledger)"

section \<open>Admission\<close>

record reconciliation =
  rc_id :: uuid
  rc_tenant_id :: uuid
  rc_workspace_id :: uuid
  rc_owner_user_id :: uuid
  rc_period_start :: instant
  rc_reconciled :: bool
  rc_source_totals :: "(string \<times> int) list"
  rc_ledger_totals :: "(string \<times> int) list"
  rc_discrepancies :: "(string \<times> int \<times> int \<times> int) list"
  rc_source_hash :: string
  rc_ledger_hash :: string
  rc_repair_applied :: bool

record usage_db =
  ud_entitlements :: "entitlement list"
  ud_tasks :: "task_row list"
  ud_reviews :: "review_row list"
  ud_triggers :: "trigger_row list"
  ud_runs :: "run_row list"
  ud_ledger :: "ledger_entry list"
  ud_reconciliations :: "reconciliation list"

definition entitled :: "entitlement \<Rightarrow> instant \<Rightarrow> bool" where
  "entitled e now \<longleftrightarrow> en_active e \<and> en_valid_from e \<le> now
     \<and> (case en_valid_until e of None \<Rightarrow> True | Some t \<Rightarrow> now < t)"

definition require_entitlement ::
  "resolved_actor \<Rightarrow> instant \<Rightarrow> entitlement list \<Rightarrow> (usage_error, entitlement) result" where
  "require_entitlement ra now entitlements =
     (case find (\<lambda>e. en_tenant_id e = ra_tenant_id ra \<and> en_workspace_id e = ra_workspace_id ra) entitlements of
        None \<Rightarrow> Inl Entitlement_denied
      | Some e \<Rightarrow> if entitled e now then Inr e else Inl Entitlement_denied)"

definition active_operations :: "resolved_actor \<Rightarrow> usage_db \<Rightarrow> int" where
  "active_operations ra db =
     int (length (filter (\<lambda>t. tr_tenant_id t = ra_tenant_id ra \<and> tr_workspace_id t = ra_workspace_id ra
            \<and> tr_status t \<in> {''queued'', ''running'', ''waiting_human''}) (ud_tasks db)))
     + int (length (filter (\<lambda>v. vr_tenant_id v = ra_tenant_id ra \<and> vr_workspace_id v = ra_workspace_id ra
            \<and> vr_status v = ''pending'') (ud_reviews db)))"

definition admission_fact ::
  "usage_params \<Rightarrow> resolved_actor \<Rightarrow> string \<Rightarrow> string \<Rightarrow> string \<Rightarrow> string \<Rightarrow> uuid option \<Rightarrow> usage_fact" where
  "admission_fact p ra task_type resource_type resource_id idempotency_key owner =
     \<lparr>uf_idempotency_key = idempotency_key,
      uf_owner_user_id = (case owner of None \<Rightarrow> ra_user_id ra | Some u \<Rightarrow> u),
      uf_operation_type = task_type, uf_resource_type = resource_type, uf_resource_id = resource_id,
      uf_unit = U_agent_admission, uf_quantity = 1,
      uf_source_receipt_hash = up_hash p (JObj [(''task_type'', JStr task_type),
         (''resource_type'', JStr resource_type), (''resource_id'', JStr resource_id)]),
      uf_metadata = JObj [(''task_type'', JStr task_type)]\<rparr>"

definition admit_agent ::
  "usage_params \<Rightarrow> resolved_actor \<Rightarrow> uuid \<Rightarrow> string \<Rightarrow> string \<Rightarrow> string \<Rightarrow> string \<Rightarrow> instant \<Rightarrow> uuid option
     \<Rightarrow> usage_db \<Rightarrow> (usage_error, ledger_entry \<times> usage_db) result" where
  "admit_agent p ra new_id task_type resource_type resource_id idempotency_key now owner db =
     rbind (require_entitlement ra now (ud_entitlements db)) (\<lambda>e.
       if task_type \<notin> set (en_allowed_task_types e) then Inl (Mode_denied task_type)
       else if active_operations ra db \<ge> en_max_concurrent_tasks e
       then Inl (Quota_exceeded ''concurrent_agent_operation'' (active_operations ra db)
                   (en_max_concurrent_tasks e))
       else rbind (total ra ''agent_admission'' (month_start now) (ud_ledger db)) (\<lambda>current.
         if current \<ge> en_monthly_agent_admission_limit e
         then Inl (Quota_exceeded ''agent_admission'' current (en_monthly_agent_admission_limit e))
         else rbind (append_fact ra new_id now (en_id e) (month_start now)
                (admission_fact p ra task_type resource_type resource_id idempotency_key owner)
                (ud_ledger db)) (\<lambda>(x, ledger'). Inr (x, db\<lparr>ud_ledger := ledger'\<rparr>))))"

section \<open>Reconciliation\<close>

definition task_fact :: "usage_params \<Rightarrow> task_row \<Rightarrow> usage_fact" where
  "task_fact p t =
     \<lparr>uf_idempotency_key = ''agent-admission:'' @ tr_id t, uf_owner_user_id = tr_owner_user_id t,
      uf_operation_type = tr_task_type t, uf_resource_type = ''task'', uf_resource_id = tr_id t,
      uf_unit = U_agent_admission, uf_quantity = 1,
      uf_source_receipt_hash = up_hash p (JObj [(''task_id'', JStr (tr_id t)),
         (''task_type'', JStr (tr_task_type t))]),
      uf_metadata = JObj [(''task_type'', JStr (tr_task_type t))]\<rparr>"

definition review_fact :: "usage_params \<Rightarrow> review_row \<Rightarrow> usage_fact" where
  "review_fact p v =
     \<lparr>uf_idempotency_key = ''candidate-review-admission:'' @ vr_id v,
      uf_owner_user_id = vr_owner_user_id v, uf_operation_type = ''candidate_review'',
      uf_resource_type = ''improvement_review'', uf_resource_id = vr_id v,
      uf_unit = U_agent_admission, uf_quantity = 1,
      uf_source_receipt_hash = up_hash p (JObj [(''review_id'', JStr (vr_id v)),
         (''candidate_id'', JStr (vr_candidate_id v))]),
      uf_metadata = JObj [(''candidate_id'', JStr (vr_candidate_id v))]\<rparr>"

definition trigger_fact :: "usage_params \<Rightarrow> trigger_row \<Rightarrow> usage_fact" where
  "trigger_fact p g =
     \<lparr>uf_idempotency_key = ''reconcile-monitor-trigger:'' @ gr_id g,
      uf_owner_user_id = gr_owner_user_id g, uf_operation_type = ''monitor_trigger'',
      uf_resource_type = ''monitor_trigger'', uf_resource_id = gr_id g,
      uf_unit = U_trigger, uf_quantity = 1,
      uf_source_receipt_hash = up_hash p (JObj [(''trigger_id'', JStr (gr_id g)),
         (''kind'', JStr (gr_kind g))]),
      uf_metadata = JObj [(''monitor_id'', JStr (gr_monitor_id g))]\<rparr>"

definition falls_in :: "instant \<Rightarrow> instant \<Rightarrow> instant \<Rightarrow> bool" where
  "falls_in period_start period_end t \<longleftrightarrow> period_start \<le> t \<and> t < period_end"

definition source_facts ::
  "usage_params \<Rightarrow> resolved_actor \<Rightarrow> instant \<Rightarrow> usage_db \<Rightarrow> (usage_error, usage_fact list) result" where
  "source_facts p ra period_start db =
     rbind (next_month period_start) (\<lambda>period_end. Inr (sort_key (\<lambda>f. (uf_unit f, uf_idempotency_key f))
       (map (task_fact p) (filter (\<lambda>t. tr_tenant_id t = ra_tenant_id ra
            \<and> tr_workspace_id t = ra_workspace_id ra \<and> falls_in period_start period_end (tr_created_at t)) (ud_tasks db))
        @ map (review_fact p) (filter (\<lambda>v. vr_tenant_id v = ra_tenant_id ra
            \<and> vr_workspace_id v = ra_workspace_id ra \<and> falls_in period_start period_end (vr_created_at v)) (ud_reviews db))
        @ map (trigger_fact p) (filter (\<lambda>g. gr_tenant_id g = ra_tenant_id ra
            \<and> gr_workspace_id g = ra_workspace_id ra \<and> falls_in period_start period_end (gr_received_at g)) (ud_triggers db))
        @ concat (map (run_usage_facts p) (filter (\<lambda>r. rn_tenant_id r = ra_tenant_id ra
            \<and> rn_workspace_id r = ra_workspace_id ra
            \<and> (case rn_finished_at r of None \<Rightarrow> False | Some t \<Rightarrow> falls_in period_start period_end t)) (ud_runs db))))))"

text \<open>The facts a repair appends: neither their key nor their trigger is in the period's ledger.\<close>

definition unrecorded :: "resolved_actor \<Rightarrow> instant \<Rightarrow> ledger_entry list \<Rightarrow> usage_fact \<Rightarrow> bool" where
  "unrecorded ra period_start ledger f \<longleftrightarrow>
     uf_idempotency_key f \<notin> le_idempotency_key ` set (filter (in_period ra period_start) ledger)
     \<and> \<not> (uf_resource_type f = ''monitor_trigger''
          \<and> Some (uf_resource_id f) \<in> le_trigger_id ` set (filter (in_period ra period_start) ledger))"

definition source_total :: "usage_fact list \<Rightarrow> usage_unit \<Rightarrow> int" where
  "source_total facts u = sum_list (map uf_quantity (filter (\<lambda>f. uf_unit f = u) facts))"

definition source_totals :: "usage_fact list \<Rightarrow> (string \<times> int) list" where
  "source_totals facts = map (\<lambda>u. (unit_str u, source_total facts u)) USAGE_UNITS"

definition ledger_totals :: "resolved_actor \<Rightarrow> instant \<Rightarrow> ledger_entry list \<Rightarrow> (string \<times> int) list" where
  "ledger_totals ra period_start ledger =
     map (\<lambda>u. (unit_str u, unit_total ra (unit_str u) period_start ledger)) USAGE_UNITS
     @ filter (\<lambda>(u, n). u \<notin> set (map unit_str USAGE_UNITS)) (current_totals ra period_start ledger)"

definition discrepancies ::
  "resolved_actor \<Rightarrow> instant \<Rightarrow> usage_fact list \<Rightarrow> ledger_entry list \<Rightarrow> (string \<times> int \<times> int \<times> int) list" where
  "discrepancies ra period_start facts ledger =
     map (\<lambda>u. let s = source_total facts u; l = unit_total ra (unit_str u) period_start ledger
              in (unit_str u, s, l, l - s))
       (filter (\<lambda>u. source_total facts u \<noteq> unit_total ra (unit_str u) period_start ledger) USAGE_UNITS)"

definition totals_json :: "(string \<times> int) list \<Rightarrow> json" where
  "totals_json ts = JObj (map (\<lambda>(u, n). (u, JInt n)) ts)"

definition facts_json :: "usage_fact list \<Rightarrow> json" where
  "facts_json facts = JArr (map (\<lambda>f. JObj [(''idempotency_key'', JStr (uf_idempotency_key f)),
     (''unit'', JStr (unit_str (uf_unit f))), (''quantity'', JInt (uf_quantity f)),
     (''source_receipt_hash'', JStr (uf_source_receipt_hash f))]) facts)"

definition reconciliation_key :: "reconciliation \<Rightarrow> uuid \<times> uuid \<times> instant \<times> string \<times> string" where
  "reconciliation_key r = (rc_tenant_id r, rc_workspace_id r, rc_period_start r, rc_source_hash r, rc_ledger_hash r)"

definition reconciliation_check :: "reconciliation \<Rightarrow> bool" where
  "reconciliation_check r \<longleftrightarrow> length (rc_source_hash r) = 64 \<and> length (rc_ledger_hash r) = 64"

definition repair_ledger ::
  "resolved_actor \<Rightarrow> (string \<Rightarrow> uuid) \<Rightarrow> instant \<Rightarrow> uuid \<Rightarrow> instant \<Rightarrow> usage_fact list \<Rightarrow> ledger_entry list
     \<Rightarrow> (usage_error, ledger_entry list) result" where
  "repair_ledger ra fresh created_at entitlement_id period_start facts ledger =
     append_facts ra fresh created_at entitlement_id period_start
       (filter (unrecorded ra period_start ledger) facts) ledger"

definition reconciliation_of ::
  "usage_params \<Rightarrow> resolved_actor \<Rightarrow> uuid \<Rightarrow> instant \<Rightarrow> bool \<Rightarrow> usage_fact list \<Rightarrow> ledger_entry list
     \<Rightarrow> reconciliation" where
  "reconciliation_of p ra new_id period_start repair facts ledger =
     \<lparr>rc_id = new_id, rc_tenant_id = ra_tenant_id ra, rc_workspace_id = ra_workspace_id ra,
      rc_owner_user_id = ra_user_id ra, rc_period_start = period_start,
      rc_reconciled = (discrepancies ra period_start facts ledger = []),
      rc_source_totals = source_totals facts, rc_ledger_totals = ledger_totals ra period_start ledger,
      rc_discrepancies = discrepancies ra period_start facts ledger,
      rc_source_hash = up_hash p (facts_json facts),
      rc_ledger_hash = up_hash p (totals_json (ledger_totals ra period_start ledger)),
      rc_repair_applied = repair\<rparr>"

definition reconcile ::
  "usage_params \<Rightarrow> resolved_actor \<Rightarrow> (string \<Rightarrow> uuid) \<Rightarrow> uuid \<Rightarrow> instant \<Rightarrow> bool \<Rightarrow> instant \<Rightarrow> usage_db
     \<Rightarrow> (usage_error, reconciliation \<times> usage_db) result" where
  "reconcile p ra fresh new_id period_start repair now db =
     rbind (require_entitlement ra now (ud_entitlements db)) (\<lambda>e.
     rbind (source_facts p ra period_start db) (\<lambda>facts.
     rbind (if repair then repair_ledger ra fresh now (en_id e) period_start facts (ud_ledger db)
            else Inr (ud_ledger db)) (\<lambda>ledger.
       let r = reconciliation_of p ra new_id period_start repair facts ledger in
       if \<not> reconciliation_check r then Inl Integrity_error
       else case find (\<lambda>x. reconciliation_key x = reconciliation_key r) (ud_reconciliations db) of
         Some x \<Rightarrow> Inr (x, db\<lparr>ud_ledger := ledger\<rparr>)
       | None \<Rightarrow> Inr (r, db\<lparr>ud_ledger := ledger,
           ud_reconciliations := insert_unless reconciliation_key r (ud_reconciliations db)\<rparr>))))"

end
