(* ===== verification/Monitor_Rules.thy ===== *)
theory Monitor_Rules
  imports Usage_Governance
begin

text \<open>
  Scheduled monitors (\<open>persistence/monitor_repository.py\<close>, \<open>monitors/conditions.py\<close>): their tables with
  the check constraints, the normalisation of what a client sends, and the quiet hours. The
  canonical hash of a JSON value, the SHA-256 digest of a text, the ISO text of an instant and
  the time zone database are parameters; a zone is its offset at every instant.
\<close>

record monitor_params =
  mp_hash :: "json \<Rightarrow> string"
  mp_digest :: "string \<Rightarrow> string"
  mp_isoformat :: "pydatetime \<Rightarrow> string"
  mp_zone :: "string \<Rightarrow> (instant \<Rightarrow> int) option"

section \<open>Tables\<close>

definition MONITOR_TASK_TYPES :: "string list" where
  "MONITOR_TASK_TYPES = [''market_analysis'', ''deep_research'']"

definition MONITOR_STATUSES :: "string list" where
  "MONITOR_STATUSES = [''draft'', ''active'', ''paused'', ''degraded'', ''expired'', ''disabled'']"

definition ACTIVE_MONITOR_STATUSES :: "string list" where
  "ACTIVE_MONITOR_STATUSES = [''draft'', ''active'', ''paused'', ''degraded'']"

definition ACTIVE_TASK_STATUSES :: "string list" where
  "ACTIVE_TASK_STATUSES = [''queued'', ''running'', ''waiting_human'']"

definition MONITOR_CRON_COMMAND_TYPES :: "string list" where
  "MONITOR_CRON_COMMAND_TYPES = [''create'', ''update'', ''pause'', ''resume'', ''delete'']"

definition MONITOR_CRON_COMMAND_STATUSES :: "string list" where
  "MONITOR_CRON_COMMAND_STATUSES = [''pending'', ''leased'', ''succeeded'', ''failed'']"

record monitor_row =
  mo_id :: uuid
  mo_tenant_id :: uuid
  mo_workspace_id :: uuid
  mo_owner_user_id :: uuid
  mo_artifact_id :: uuid
  mo_artifact_version_id :: uuid
  mo_name :: string
  mo_run_task_type :: string
  mo_condition :: json
  mo_task_template :: json
  mo_admission_idempotency_key :: string
  mo_request_payload_hash :: string
  mo_cron_schedule :: string
  mo_timezone :: string
  mo_expires_at :: "instant option"
  mo_quiet_hours :: "json option"
  mo_status :: string
  mo_schedule_version :: int
  mo_desired_revision :: int
  mo_applied_revision :: int
  mo_cron_binding_id :: uuid
  mo_official_cron_id :: "string option"
  mo_next_run_at :: "instant option"
  mo_version :: int

definition text_member :: "string \<Rightarrow> json \<Rightarrow> bool" where
  "text_member k j \<longleftrightarrow> (case json_get k j of Some (JStr _) \<Rightarrow> True | _ \<Rightarrow> False)"

definition template_check :: "string \<Rightarrow> json \<Rightarrow> bool" where
  "template_check run_task_type j \<longleftrightarrow> is_mapping j
     \<and> list_all (\<lambda>k. text_member k j) [''task_type'', ''symbol'', ''horizon'', ''query_text'']
     \<and> json_get ''source_artifact_version_id'' j = None
     \<and> json_get ''task_type'' j = Some (JStr run_task_type)
     \<and> (run_task_type = ''market_analysis''
          \<and> (case json_get ''notify'' j of Some (JBool _) \<Rightarrow> True | _ \<Rightarrow> False)
        \<or> run_task_type = ''deep_research'' \<and> json_get ''notify'' j = None)"

definition condition_check :: "json \<Rightarrow> bool" where
  "condition_check j \<longleftrightarrow> (case json_get ''kind'' j of Some (JStr s) \<Rightarrow> s \<noteq> [] | _ \<Rightarrow> False)"

definition quiet_hours_check :: "json \<Rightarrow> bool" where
  "quiet_hours_check j \<longleftrightarrow> text_member ''start'' j \<and> text_member ''end'' j"

definition monitor_check :: "monitor_row \<Rightarrow> bool" where
  "monitor_check m \<longleftrightarrow> mo_run_task_type m \<in> set MONITOR_TASK_TYPES \<and> condition_check (mo_condition m)
     \<and> template_check (mo_run_task_type m) (mo_task_template m) \<and> mo_status m \<in> set MONITOR_STATUSES
     \<and> 1 \<le> mo_schedule_version m \<and> 1 \<le> mo_desired_revision m \<and> 0 \<le> mo_applied_revision m \<and> 1 \<le> mo_version m
     \<and> opt_ok quiet_hours_check (mo_quiet_hours m)
     \<and> fits 255 (mo_name m) \<and> fits 255 (mo_admission_idempotency_key m) \<and> fits 64 (mo_request_payload_hash m)
     \<and> fits 255 (mo_cron_schedule m) \<and> fits 128 (mo_timezone m) \<and> opt_ok (fits 255) (mo_official_cron_id m)"

definition monitor_clash :: "monitor_row \<Rightarrow> monitor_row \<Rightarrow> bool" where
  "monitor_clash m n \<longleftrightarrow> mo_id m = mo_id n
     \<or> (mo_tenant_id m = mo_tenant_id n \<and> mo_workspace_id m = mo_workspace_id n
        \<and> mo_owner_user_id m = mo_owner_user_id n
        \<and> (mo_name m = mo_name n \<or> mo_admission_idempotency_key m = mo_admission_idempotency_key n
           \<or> mo_cron_binding_id m = mo_cron_binding_id n))"

record binding_row =
  bd_id :: uuid
  bd_tenant_id :: uuid
  bd_workspace_id :: uuid
  bd_owner_user_id :: uuid
  bd_monitor_id :: uuid
  bd_destination_id :: uuid

record cron_command =
  cc_id :: uuid
  cc_tenant_id :: uuid
  cc_workspace_id :: uuid
  cc_owner_user_id :: uuid
  cc_monitor_id :: uuid
  cc_command_type :: string
  cc_desired_revision :: int
  cc_request_payload_hash :: string
  cc_payload :: json
  cc_status :: string
  cc_idempotency_key :: string
  cc_lease_owner :: "string option"
  cc_lease_expires_at :: "instant option"
  cc_fence_token :: int
  cc_attempt :: int
  cc_available_at :: instant
  cc_last_error :: "string option"
  cc_completed_at :: "instant option"
  cc_created_at :: instant

definition control_payload_check :: "json \<Rightarrow> bool" where
  "control_payload_check j \<longleftrightarrow> is_mapping j
     \<and> list_all (\<lambda>k. json_get k j \<noteq> None) [''monitor_id'', ''schedule_version'', ''cron_binding_id'']
     \<and> list_all (\<lambda>k. json_get k j = None) [''task_template'', ''condition'', ''query_text'', ''symbol'',
         ''horizon'', ''request_payload'', ''command_id'', ''official_cron_id'', ''official_run_id'',
         ''official_thread_id'']"

definition cron_check :: "cron_command \<Rightarrow> bool" where
  "cron_check c \<longleftrightarrow> cc_command_type c \<in> set MONITOR_CRON_COMMAND_TYPES
     \<and> cc_status c \<in> set MONITOR_CRON_COMMAND_STATUSES
     \<and> 0 \<le> cc_attempt c \<and> 0 \<le> cc_fence_token c \<and> 1 \<le> cc_desired_revision c
     \<and> control_payload_check (cc_payload c)
     \<and> fits 64 (cc_request_payload_hash c) \<and> fits 255 (cc_idempotency_key c)
     \<and> opt_ok (fits 255) (cc_lease_owner c) \<and> opt_ok (fits 500) (cc_last_error c)"

definition cron_key :: "cron_command \<Rightarrow> uuid \<times> uuid \<times> uuid \<times> string" where
  "cron_key c = (cc_tenant_id c, cc_workspace_id c, cc_owner_user_id c, cc_idempotency_key c)"

text \<open>Of artifacts, their versions and notification destinations only the columns read here.\<close>

record artifact_row =
  ar_id :: uuid
  ar_tenant_id :: uuid
  ar_workspace_id :: uuid
  ar_owner_user_id :: uuid

record version_row =
  av_id :: uuid
  av_tenant_id :: uuid
  av_workspace_id :: uuid
  av_owner_user_id :: uuid
  av_artifact_id :: uuid
  av_task_id :: uuid
  av_status :: string

record destination_row =
  ds_id :: uuid
  ds_tenant_id :: uuid
  ds_workspace_id :: uuid
  ds_owner_user_id :: uuid

record monitor_db = usage_db +
  md_directory :: directory
  md_threads :: "thread_row list"
  md_task_commands :: "command_row list"
  md_monitors :: "monitor_row list"
  md_bindings :: "binding_row list"
  md_cron_commands :: "cron_command list"
  md_artifacts :: "artifact_row list"
  md_versions :: "version_row list"
  md_destinations :: "destination_row list"

section \<open>Errors\<close>

datatype monitor_error =
    Bad_value string | Evaluator_unavailable json | Resource_not_found string | Monitor_entitlement_denied string
  | Monitor_version_conflict | Monitor_idempotency_conflict | Trigger_rejected string
  | Actor_denied actor_error | Constraint_violated | Ingress_run_id_required | Ingress_binding_unavailable
  | Usage_failed usage_error

definition via :: "('e \<Rightarrow> 'f) \<Rightarrow> ('e, 'a) result \<Rightarrow> ('f, 'a) result" where
  "via f r = (case r of Inl e \<Rightarrow> Inl (f e) | Inr x \<Rightarrow> Inr x)"

lemma via_Inr_iff [simp]: "via f r = Inr x \<longleftrightarrow> r = Inr x"
  by (cases r) (simp_all add: via_def)

section \<open>Texts, times and hashes\<close>

definition require_text :: "nat \<Rightarrow> string \<Rightarrow> string \<Rightarrow> (monitor_error, string) result" where
  "require_text limit field value =
     (if strip value = [] \<or> limit < length (strip value) then Inl (Bad_value field) else Inr (strip value))"

text \<open>\<open>now\<close> is the clock that an absent value stands for.\<close>

fun as_utc :: "instant \<Rightarrow> pydatetime option \<Rightarrow> (monitor_error, instant) result" where
  "as_utc clock None = Inr clock"
| "as_utc clock (Some (Naive t)) = Inl (Bad_value ''timestamps'')"
| "as_utc clock (Some (Offsetless t)) = Inr t"
| "as_utc clock (Some (Aware t)) = Inr t"

definition identity_digest :: "monitor_params \<Rightarrow> string list \<Rightarrow> string" where
  "identity_digest p parts = mp_digest p (join [CHR 0x1F] parts)"

definition is_hex :: "char \<Rightarrow> bool" where
  "is_hex c \<longleftrightarrow> is_digit c \<or> (let n = of_char c :: nat in 97 \<le> n \<and> n \<le> 102)"

text \<open>\<open>int(text, 16)\<close> on a lower-case text without outer space: a sign, the prefix \<open>0x\<close> and single
  underscores between the digits are accepted.\<close>

fun hex_run :: "string \<Rightarrow> bool" where
  "hex_run [] = False"
| "hex_run [c] = is_hex c"
| "hex_run (c # d # cs) = (is_hex c \<and> (if d = CHR ''_'' then hex_run cs else hex_run (d # cs)))"

definition base16_text :: "string \<Rightarrow> bool" where
  "base16_text s = (let s = (if s \<noteq> [] \<and> hd s \<in> {CHR ''+'', CHR ''-''} then tl s else s) in
     if take 2 s = ''0x'' then (let r = drop 2 s in hex_run (if r \<noteq> [] \<and> hd r = CHR ''_'' then tl r else r))
     else hex_run s)"

definition validate_hash :: "string \<Rightarrow> string \<Rightarrow> (monitor_error, string) result" where
  "validate_hash field value = (let normalized = lower (strip value) in
     if length normalized = 64 \<and> base16_text normalized then Inr normalized else Inl (Bad_value field))"

definition show_int :: "int \<Rightarrow> string" where
  "show_int n = (if n < 0 then CHR ''-'' # show_nat (nat (- n)) else show_nat (nat n))"

section \<open>Quiet hours\<close>

definition two_digits :: "char \<Rightarrow> char \<Rightarrow> int" where
  "two_digits a b = 10 * (of_char a - 48) + (of_char b - 48)"

definition parse_local_minute :: "json \<Rightarrow> int option" where
  "parse_local_minute v = (case v of
     JStr [a, b, c, d, e] \<Rightarrow>
       if c = CHR '':'' \<and> is_digit a \<and> is_digit b \<and> is_digit d \<and> is_digit e
          \<and> two_digits a b \<le> 23 \<and> two_digits d e \<le> 59
       then Some (two_digits a b * 60 + two_digits d e) else None
   | _ \<Rightarrow> None)"

definition normalize_quiet_hours :: "json option \<Rightarrow> (monitor_error, json option) result" where
  "normalize_quiet_hours value = (case value of None \<Rightarrow> Inr None | Some v \<Rightarrow>
     if \<not> is_mapping v then Inl (Bad_value ''quiet_hours'')
     else case (parse_local_minute (get_or_null ''start'' v), parse_local_minute (get_or_null ''end'' v)) of
       (Some s, Some e) \<Rightarrow> if s = e then Inl (Bad_value ''quiet_hours'')
         else Inr (Some (JObj [(''start'', get_or_null ''start'' v), (''end'', get_or_null ''end'' v)]))
     | _ \<Rightarrow> Inl (Bad_value ''quiet_hours''))"

definition MINUTE :: int where "MINUTE = 60 * SECOND"

definition local_minute :: "(instant \<Rightarrow> int) \<Rightarrow> instant \<Rightarrow> int" where
  "local_minute offset t = (t + offset t) mod DAY div MINUTE"

definition minute_in_window :: "int \<Rightarrow> int \<Rightarrow> int \<Rightarrow> bool" where
  "minute_in_window s e c =
     (if s = e then True else if s < e then s \<le> c \<and> c < e else s \<le> c \<or> c < e)"

definition in_quiet_hours :: "monitor_params \<Rightarrow> monitor_row \<Rightarrow> instant \<Rightarrow> bool" where
  "in_quiet_hours p m t = (case mo_quiet_hours m of None \<Rightarrow> False | Some q \<Rightarrow>
     if \<not> is_mapping q then True
     else case (parse_local_minute (get_or_null ''start'' q), parse_local_minute (get_or_null ''end'' q),
                mp_zone p (mo_timezone m)) of
       (Some s, Some e, Some offset) \<Rightarrow> minute_in_window s e (local_minute offset t)
     | _ \<Rightarrow> True)"

definition validate_timezone :: "monitor_params \<Rightarrow> string \<Rightarrow> (monitor_error, string) result" where
  "validate_timezone p value = rbind (require_text 128 ''timezone'' value) (\<lambda>zone.
     if mp_zone p zone = None then Inl (Bad_value ''timezone'') else Inr zone)"

section \<open>Conditions and templates\<close>

definition SUPPORTED_MONITOR_CONDITION_EVALUATORS :: "string set" where
  "SUPPORTED_MONITOR_CONDITION_EVALUATORS = {''scheduled_review''}"

definition require_monitor_condition_evaluator :: "json \<Rightarrow> (monitor_error, unit) result" where
  "require_monitor_condition_evaluator kind = (case kind of
     JStr s \<Rightarrow> if s \<in> SUPPORTED_MONITOR_CONDITION_EVALUATORS then Inr () else Inl (Evaluator_unavailable kind)
   | _ \<Rightarrow> Inl (Evaluator_unavailable kind))"

definition normalize_condition :: "json \<Rightarrow> (monitor_error, json) result" where
  "normalize_condition v = (if \<not> is_mapping v then Inl (Bad_value ''condition'')
     else case get_or_null ''kind'' v of
       JStr s \<Rightarrow> if strip s = [] then Inl (Bad_value ''condition'') else Inr v
     | _ \<Rightarrow> Inl (Bad_value ''condition''))"

definition task_payload_from_template :: "json \<Rightarrow> json" where
  "task_payload_from_template template = (case template of
     JObj kvs \<Rightarrow> if get_or_null ''task_type'' template = JStr ''market_analysis''
       then JObj (filter (\<lambda>(k, v). k \<noteq> ''task_type'') kvs) else template
   | _ \<Rightarrow> template)"

definition complete_text :: "string \<Rightarrow> json \<Rightarrow> bool" where
  "complete_text k payload = (case get_or_null k payload of JStr s \<Rightarrow> strip s \<noteq> [] | _ \<Rightarrow> False)"

definition template_of_task :: "string \<Rightarrow> task_row \<Rightarrow> (monitor_error, json) result" where
  "template_of_task run_task_type source =
     (if tr_task_type source \<notin> set MONITOR_TASK_TYPES \<or> tr_task_type source \<noteq> run_task_type
      then Inl (Bad_value ''run_task_type'')
      else if \<not> list_all (\<lambda>k. complete_text k (tr_request_payload source)) [''symbol'', ''horizon'', ''query_text'']
      then Inl (Bad_value ''task_template'')
      else Inr (JObj ([(''task_type'', JStr (tr_task_type source)),
          (''symbol'', get_or_null ''symbol'' (tr_request_payload source)),
          (''horizon'', get_or_null ''horizon'' (tr_request_payload source)),
          (''query_text'', get_or_null ''query_text'' (tr_request_payload source))]
        @ (if tr_task_type source = ''market_analysis''
           then [(''notify'', JBool (truthy (get_or_null ''notify'' (tr_request_payload source))))] else []))))"

text \<open>The committed version of the actor's artifact and the task that produced it.\<close>

definition derive_task_template ::
  "resolved_actor \<Rightarrow> uuid \<Rightarrow> uuid \<Rightarrow> string \<Rightarrow> monitor_db \<Rightarrow> (monitor_error, json) result" where
  "derive_task_template ra artifact_id version_id run_task_type db =
     (case [t. a \<leftarrow> md_artifacts db, v \<leftarrow> md_versions db, t \<leftarrow> ud_tasks db,
            ar_id a = artifact_id \<and> ar_tenant_id a = ra_tenant_id ra \<and> ar_workspace_id a = ra_workspace_id ra
              \<and> ar_owner_user_id a = ra_user_id ra,
            av_id v = version_id \<and> av_artifact_id v = ar_id a \<and> av_tenant_id v = ar_tenant_id a
              \<and> av_workspace_id v = ar_workspace_id a \<and> av_owner_user_id v = ar_owner_user_id a
              \<and> av_status v = ''committed'',
            tr_id t = av_task_id v \<and> tr_tenant_id t = av_tenant_id v \<and> tr_workspace_id t = av_workspace_id v
              \<and> tr_owner_user_id t = av_owner_user_id v] of
        [] \<Rightarrow> Inl (Resource_not_found ''committed artifact lineage'')
      | t # _ \<Rightarrow> template_of_task run_task_type t)"

end
