(* ===== verification/Monitor_Repository.thy ===== *)
theory Monitor_Repository
  imports Monitor_Rules
begin

text \<open>
  The operations of \<open>persistence/monitor_repository.py\<close>: creating and changing a monitor with the
  control command each change enqueues, the destinations, and the fenced leases of the control
  commands. Each operation is one transaction: an error leaves the
  database as it was. The identifiers drawn with \<open>uuid4\<close> and the clock are arguments.
\<close>

section \<open>Entitlements and the ledger\<close>

definition locked_entitlement :: "resolved_actor \<Rightarrow> monitor_db \<Rightarrow> entitlement option" where
  "locked_entitlement ra db =
     find (\<lambda>e. en_tenant_id e = ra_tenant_id ra \<and> en_workspace_id e = ra_workspace_id ra) (ud_entitlements db)"

definition usable_entitlement :: "entitlement option \<Rightarrow> instant \<Rightarrow> entitlement option" where
  "usable_entitlement eo now = (case eo of
     None \<Rightarrow> None
   | Some e \<Rightarrow> if \<not> en_active e then None
       else if now < en_valid_from e then None
       else if \<not> opt_ok (\<lambda>t. now < t) (en_valid_until e) then None
       else Some e)"

definition actor_of :: "actor_context \<Rightarrow> monitor_db \<Rightarrow> (monitor_error, resolved_actor) result" where
  "actor_of ac db = via Actor_denied (resolve_actor (md_directory db) ac)"

definition require_usable_entitlement ::
  "actor_context \<Rightarrow> instant \<Rightarrow> pydatetime option \<Rightarrow> monitor_db \<Rightarrow> (monitor_error, entitlement) result" where
  "require_usable_entitlement ac clock now db =
     rbind (actor_of ac db) (\<lambda>ra.
     rbind (as_utc clock now) (\<lambda>t.
       case usable_entitlement (locked_entitlement ra db) t of
         None \<Rightarrow> Inl (Monitor_entitlement_denied ''workspace entitlement is unavailable'')
       | Some e \<Rightarrow> Inr e))"

record usage_append =
  ua_entitlement_id :: uuid
  ua_period_start :: pydatetime
  ua_idempotency_key :: string
  ua_quantity :: int
  ua_unit :: string
  ua_operation_type :: string
  ua_resource_type :: string
  ua_resource_id :: "string option"
  ua_source_receipt_hash :: "string option"
  ua_monitor_id :: "uuid option"
  ua_trigger_id :: "uuid option"
  ua_metadata :: json

text \<open>The row of the key is answered when the actor owns it.\<close>

definition usage_append_row ::
  "actor_context \<Rightarrow> uuid \<Rightarrow> instant \<Rightarrow> usage_append \<Rightarrow> monitor_db
     \<Rightarrow> (monitor_error, ledger_entry option \<times> monitor_db) result" where
  "usage_append_row ac new_id clock rq db =
     (if ua_quantity rq < 1 then Inl (Bad_value ''quantity'')
      else rbind (actor_of ac db) (\<lambda>ra.
      rbind (require_text 255 ''idempotency_key'' (ua_idempotency_key rq)) (\<lambda>key.
      rbind (as_utc clock (Some (ua_period_start rq))) (\<lambda>period_start.
      rbind (require_text 32 ''unit'' (ua_unit rq)) (\<lambda>unit.
      rbind (require_text 64 ''operation_type'' (ua_operation_type rq)) (\<lambda>operation_type.
      rbind (require_text 64 ''resource_type'' (ua_resource_type rq)) (\<lambda>resource_type.
      rbind (via Usage_failed (append_entry
        \<lparr>le_id = new_id, le_tenant_id = ra_tenant_id ra, le_workspace_id = ra_workspace_id ra,
         le_owner_user_id = ra_user_id ra, le_entitlement_id = ua_entitlement_id rq,
         le_monitor_id = ua_monitor_id rq, le_trigger_id = ua_trigger_id rq, le_period_start = period_start,
         le_quantity = ua_quantity rq, le_unit = unit, le_operation_type = operation_type,
         le_resource_type = resource_type, le_resource_id = ua_resource_id rq,
         le_source_receipt_hash = ua_source_receipt_hash rq, le_idempotency_key = key,
         le_metadata = ua_metadata rq, le_created_at = clock\<rparr> (ud_ledger db))) (\<lambda>(x, ledger').
      Inr (if x \<in> set (ud_ledger db) \<and> \<not> actor_scope (md_directory db) ac (le_tenant_id x) (le_workspace_id x)
              (le_owner_user_id x) then None else Some x, db\<lparr>ud_ledger := ledger'\<rparr>)))))))))"

section \<open>Control commands\<close>

definition cron_control_payload :: "monitor_params \<Rightarrow> monitor_row \<Rightarrow> json" where
  "cron_control_payload p m = JObj
     [(''monitor_id'', JStr (mo_id m)), (''cron_binding_id'', JStr (mo_cron_binding_id m)),
      (''cron_schedule'', JStr (mo_cron_schedule m)), (''timezone'', JStr (mo_timezone m)),
      (''expires_at'', case mo_expires_at m of None \<Rightarrow> JNull | Some t \<Rightarrow> JStr (mp_isoformat p (Aware t))),
      (''quiet_hours'', case mo_quiet_hours m of None \<Rightarrow> JNull | Some q \<Rightarrow> q),
      (''status'', JStr (mo_status m)), (''schedule_version'', JInt (mo_schedule_version m)),
      (''desired_revision'', JInt (mo_desired_revision m))]"

text \<open>\<open>a or b\<close> on optional strings: an absent and an empty string give way.\<close>

definition str_or :: "string option \<Rightarrow> string \<Rightarrow> string" where
  "str_or a b = (case a of None \<Rightarrow> b | Some s \<Rightarrow> if s = [] then b else s)"

definition insert_cron_command :: "cron_command \<Rightarrow> monitor_db \<Rightarrow> (monitor_error, monitor_db) result" where
  "insert_cron_command c db =
     (if \<not> cron_check c \<or> cc_id c \<in> cc_id ` set (md_cron_commands db)
         \<or> cron_key c \<in> cron_key ` set (md_cron_commands db)
      then Inl Constraint_violated
      else Inr (db\<lparr>md_cron_commands := md_cron_commands db @ [c]\<rparr>))"

definition enqueue_cron_command ::
  "monitor_params \<Rightarrow> uuid \<Rightarrow> instant \<Rightarrow> monitor_row \<Rightarrow> string \<Rightarrow> string option \<Rightarrow> string option \<Rightarrow> monitor_db
     \<Rightarrow> (monitor_error, cron_command \<times> monitor_db) result" where
  "enqueue_cron_command p new_id clock m command_type idempotency_key request_hash db =
     rbind (validate_hash ''request_payload_hash'' (str_or request_hash (mp_hash p (cron_control_payload p m)))) (\<lambda>h.
       let c = \<lparr>cc_id = new_id, cc_tenant_id = mo_tenant_id m, cc_workspace_id = mo_workspace_id m,
         cc_owner_user_id = mo_owner_user_id m, cc_monitor_id = mo_id m, cc_command_type = command_type,
         cc_desired_revision = mo_desired_revision m, cc_request_payload_hash = h,
         cc_payload = cron_control_payload p m, cc_status = ''pending'',
         cc_idempotency_key = str_or idempotency_key
           (''monitor:'' @ mo_id m @ '':revision:'' @ show_int (mo_desired_revision m)),
         cc_lease_owner = None, cc_lease_expires_at = None, cc_fence_token = 0, cc_attempt = 0,
         cc_available_at = clock, cc_last_error = None, cc_completed_at = None, cc_created_at = clock\<rparr>
       in rbind (insert_cron_command c db) (\<lambda>db'. Inr (c, db')))"

section \<open>Creating a monitor\<close>

record create_request =
  cm_admission_idempotency_key :: string
  cm_request_payload_hash :: string
  cm_artifact_id :: uuid
  cm_artifact_version_id :: uuid
  cm_name :: string
  cm_run_task_type :: string
  cm_condition :: json
  cm_cron_schedule :: string
  cm_timezone :: string
  cm_expires_at :: "pydatetime option"
  cm_quiet_hours :: "json option"
  cm_status :: string
  cm_now :: "pydatetime option"

definition admitted_monitor :: "resolved_actor \<Rightarrow> string \<Rightarrow> monitor_db \<Rightarrow> monitor_row option" where
  "admitted_monitor ra key db =
     find (\<lambda>m. mo_tenant_id m = ra_tenant_id ra \<and> mo_workspace_id m = ra_workspace_id ra
       \<and> mo_owner_user_id m = ra_user_id ra \<and> mo_admission_idempotency_key m = key) (md_monitors db)"

definition replay_admission :: "string \<Rightarrow> monitor_row \<Rightarrow> monitor_db \<Rightarrow> (monitor_error, monitor_row \<times> monitor_db) result" where
  "replay_admission h m db =
     (if mo_request_payload_hash m \<noteq> h then Inl Monitor_idempotency_conflict else Inr (m, db))"

definition active_monitors :: "uuid \<Rightarrow> uuid \<Rightarrow> monitor_db \<Rightarrow> int" where
  "active_monitors tenant workspace db =
     int (length (filter (\<lambda>m. mo_tenant_id m = tenant \<and> mo_workspace_id m = workspace
       \<and> mo_status m \<in> set ACTIVE_MONITOR_STATUSES) (md_monitors db)))"

definition insert_monitor :: "monitor_row \<Rightarrow> monitor_db \<Rightarrow> (monitor_error, monitor_db) result" where
  "insert_monitor m db =
     (if \<not> monitor_check m \<or> (\<exists>n \<in> set (md_monitors db). monitor_clash m n) then Inl Constraint_violated
      else Inr (db\<lparr>md_monitors := md_monitors db @ [m]\<rparr>))"

definition new_monitor ::
  "resolved_actor \<Rightarrow> uuid \<Rightarrow> uuid \<Rightarrow> string \<Rightarrow> string \<Rightarrow> json \<Rightarrow> json \<Rightarrow> string \<Rightarrow> string \<Rightarrow> string
     \<Rightarrow> instant option \<Rightarrow> json option \<Rightarrow> create_request \<Rightarrow> monitor_row" where
  "new_monitor ra new_id binding_id key h condition template name schedule zone expires_at quiet_hours rq =
     \<lparr>mo_id = new_id, mo_tenant_id = ra_tenant_id ra, mo_workspace_id = ra_workspace_id ra,
      mo_owner_user_id = ra_user_id ra, mo_artifact_id = cm_artifact_id rq,
      mo_artifact_version_id = cm_artifact_version_id rq, mo_name = name,
      mo_run_task_type = cm_run_task_type rq, mo_condition = condition, mo_task_template = template,
      mo_admission_idempotency_key = key, mo_request_payload_hash = h, mo_cron_schedule = schedule,
      mo_timezone = zone, mo_expires_at = expires_at, mo_quiet_hours = quiet_hours, mo_status = cm_status rq,
      mo_schedule_version = 1, mo_desired_revision = 1, mo_applied_revision = 0,
      mo_cron_binding_id = binding_id, mo_official_cron_id = None, mo_next_run_at = None, mo_version = 1\<rparr>"

text \<open>
  \<open>db0\<close> is the database at the first lookup of the key, \<open>db\<close> the one when the entitlement is
  locked: another transaction may have created the monitor in between.
\<close>

definition create_monitor ::
  "monitor_params \<Rightarrow> actor_context \<Rightarrow> uuid \<Rightarrow> uuid \<Rightarrow> uuid \<Rightarrow> instant \<Rightarrow> create_request \<Rightarrow> monitor_db \<Rightarrow> monitor_db
     \<Rightarrow> (monitor_error, monitor_row \<times> monitor_db) result" where
  "create_monitor p ac new_id binding_id command_id clock rq db0 db =
     rbind (normalize_condition (cm_condition rq)) (\<lambda>condition.
     rbind (require_monitor_condition_evaluator (get_or_null ''kind'' condition)) (\<lambda>_.
     rbind (require_text 255 ''admission_idempotency_key'' (cm_admission_idempotency_key rq)) (\<lambda>key.
     rbind (validate_hash ''request_payload_hash'' (cm_request_payload_hash rq)) (\<lambda>h.
     rbind (actor_of ac db0) (\<lambda>ra.
     case admitted_monitor ra key db0 of Some m \<Rightarrow> replay_admission h m db
     | None \<Rightarrow>
       if cm_run_task_type rq \<notin> set MONITOR_TASK_TYPES then Inl (Bad_value ''run_task_type'')
       else if cm_status rq \<notin> set MONITOR_STATUSES then Inl (Bad_value ''status'')
       else
     rbind (normalize_quiet_hours (cm_quiet_hours rq)) (\<lambda>quiet_hours.
     rbind (require_text 255 ''name'' (cm_name rq)) (\<lambda>name.
     rbind (require_text 255 ''cron_schedule'' (cm_cron_schedule rq)) (\<lambda>schedule.
     rbind (validate_timezone p (cm_timezone rq)) (\<lambda>zone.
     rbind (as_utc clock (cm_now rq)) (\<lambda>now.
     case admitted_monitor ra key db of Some m \<Rightarrow> replay_admission h m db
     | None \<Rightarrow> (case usable_entitlement (locked_entitlement ra db) now of
         None \<Rightarrow> Inl (Monitor_entitlement_denied ''workspace entitlement is unavailable'')
       | Some e \<Rightarrow>
         if cm_status rq \<in> set ACTIVE_MONITOR_STATUSES
            \<and> en_active_monitor_limit e \<le> active_monitors (ra_tenant_id ra) (ra_workspace_id ra) db
         then Inl (Monitor_entitlement_denied ''active monitor limit exceeded'')
         else
     rbind (derive_task_template ra (cm_artifact_id rq) (cm_artifact_version_id rq) (cm_run_task_type rq) db) (\<lambda>template.
     rbind (case cm_expires_at rq of None \<Rightarrow> Inr None
            | Some t \<Rightarrow> rbind (as_utc clock (Some t)) (\<lambda>u. Inr (Some u))) (\<lambda>expires_at.
     let m = new_monitor ra new_id binding_id key h condition template name schedule zone expires_at quiet_hours rq in
     rbind (insert_monitor m db) (\<lambda>db1.
     rbind (enqueue_cron_command p command_id clock m ''create'' (Some (''monitor:'' @ new_id @ '':create:1'')) (Some h) db1)
       (\<lambda>(c, db2). Inr (m, db2))))))))))))))))"

section \<open>Changing a monitor\<close>

record update_request =
  um_expected_version :: int
  um_name :: "string option"
  um_condition :: "json option"
  um_cron_schedule :: "string option"
  um_timezone :: "string option"
  um_expires_at :: "pydatetime option"
  um_quiet_hours :: "json option"
  um_status :: "string option"
  um_next_run_at :: "pydatetime option"
  um_operation_idempotency_key :: "string option"
  um_idempotency_key :: "string option"
  um_operation_payload_hash :: "string option"

definition str_option_json :: "string option \<Rightarrow> json" where
  "str_option_json x = (case x of None \<Rightarrow> JNull | Some s \<Rightarrow> JStr s)"

definition operation_fields :: "monitor_params \<Rightarrow> update_request \<Rightarrow> json" where
  "operation_fields p rq = JObj
     [(''name'', str_option_json (um_name rq)),
      (''condition'', case um_condition rq of None \<Rightarrow> JNull | Some c \<Rightarrow> c),
      (''cron_schedule'', str_option_json (um_cron_schedule rq)),
      (''timezone'', str_option_json (um_timezone rq)),
      (''expires_at'', case um_expires_at rq of None \<Rightarrow> JNull | Some t \<Rightarrow> JStr (mp_isoformat p t)),
      (''quiet_hours'', case um_quiet_hours rq of None \<Rightarrow> JNull | Some q \<Rightarrow> q),
      (''status'', str_option_json (um_status rq)),
      (''next_run_at'', case um_next_run_at rq of None \<Rightarrow> JNull | Some t \<Rightarrow> JStr (mp_isoformat p t))]"

definition requested_command_type :: "string option \<Rightarrow> string" where
  "requested_command_type status =
     (if status = Some ''paused'' then ''pause'' else if status = Some ''active'' then ''resume''
      else if status = Some ''disabled'' then ''delete'' else ''update'')"

definition filled :: "string option \<Rightarrow> bool" where
  "filled x \<longleftrightarrow> (case x of None \<Rightarrow> False | Some s \<Rightarrow> s \<noteq> [])"

text \<open>\<open>operation_key\<close>: an empty first key gives way to the second one, which may be empty itself.\<close>

definition operation_key :: "update_request \<Rightarrow> string option" where
  "operation_key rq = (if filled (um_operation_idempotency_key rq) then um_operation_idempotency_key rq
     else um_idempotency_key rq)"

definition change :: "('a \<Rightarrow> (monitor_error, 'b) result) \<Rightarrow> 'a option \<Rightarrow> ('b \<Rightarrow> 'r \<Rightarrow> 'r) \<Rightarrow> 'r \<Rightarrow> (monitor_error, 'r) result" where
  "change check value set_field r = (case value of None \<Rightarrow> Inr r
     | Some v \<Rightarrow> rbind (check v) (\<lambda>x. Inr (set_field x r)))"

definition change_fields ::
  "monitor_params \<Rightarrow> instant \<Rightarrow> update_request \<Rightarrow> monitor_row \<Rightarrow> (monitor_error, monitor_row) result" where
  "change_fields p clock rq m =
     rbind (change (require_text 255 ''name'') (um_name rq) (\<lambda>x r. r\<lparr>mo_name := x\<rparr>) m) (\<lambda>m.
     rbind (change normalize_condition (um_condition rq) (\<lambda>x r. r\<lparr>mo_condition := x\<rparr>) m) (\<lambda>m.
     rbind (change (require_text 255 ''cron_schedule'') (um_cron_schedule rq) (\<lambda>x r. r\<lparr>mo_cron_schedule := x\<rparr>) m) (\<lambda>m.
     rbind (change (validate_timezone p) (um_timezone rq) (\<lambda>x r. r\<lparr>mo_timezone := x\<rparr>) m) (\<lambda>m.
     rbind (change (\<lambda>t. as_utc clock (Some t)) (um_expires_at rq) (\<lambda>x r. r\<lparr>mo_expires_at := Some x\<rparr>) m) (\<lambda>m.
     rbind (change (\<lambda>q. normalize_quiet_hours (Some q)) (um_quiet_hours rq) (\<lambda>x r. r\<lparr>mo_quiet_hours := x\<rparr>) m) (\<lambda>m.
     rbind (change (\<lambda>s. if s \<in> set MONITOR_STATUSES then Inr s else Inl (Bad_value ''status''))
              (um_status rq) (\<lambda>x r. r\<lparr>mo_status := x\<rparr>) m) (\<lambda>m.
     change (\<lambda>t. as_utc clock (Some t)) (um_next_run_at rq) (\<lambda>x r. r\<lparr>mo_next_run_at := Some x\<rparr>) m)))))))"

definition schedule_changed :: "update_request \<Rightarrow> bool" where
  "schedule_changed rq \<longleftrightarrow> um_cron_schedule rq \<noteq> None \<or> um_timezone rq \<noteq> None
     \<or> um_expires_at rq \<noteq> None \<or> um_quiet_hours rq \<noteq> None"

definition replace_monitor :: "monitor_row \<Rightarrow> monitor_db \<Rightarrow> monitor_db" where
  "replace_monitor m db = db\<lparr>md_monitors := update_where (\<lambda>n. mo_id n = mo_id m) (\<lambda>_. m) (md_monitors db)\<rparr>"

definition flush_monitor :: "monitor_row \<Rightarrow> monitor_db \<Rightarrow> (monitor_error, monitor_db) result" where
  "flush_monitor m db =
     (if \<not> monitor_check m \<or> (\<exists>n \<in> set (md_monitors db). mo_id n \<noteq> mo_id m \<and> monitor_clash m n)
      then Inl Constraint_violated else Inr (replace_monitor m db))"

definition bump_revisions :: "update_request \<Rightarrow> monitor_row \<Rightarrow> monitor_row" where
  "bump_revisions rq m = m\<lparr>mo_schedule_version := mo_schedule_version m
       + (if schedule_changed rq \<or> um_status rq \<noteq> None then 1 else 0),
     mo_desired_revision := mo_desired_revision m + 1, mo_version := mo_version m + 1\<rparr>"

definition scoped_monitor :: "actor_context \<Rightarrow> uuid \<Rightarrow> monitor_db \<Rightarrow> monitor_row option" where
  "scoped_monitor ac monitor_id db =
     find (\<lambda>m. mo_id m = monitor_id
       \<and> actor_scope (md_directory db) ac (mo_tenant_id m) (mo_workspace_id m) (mo_owner_user_id m)) (md_monitors db)"

definition known_operation :: "monitor_row \<Rightarrow> string option \<Rightarrow> monitor_db \<Rightarrow> cron_command option" where
  "known_operation m key db = (case key of None \<Rightarrow> None
     | Some k \<Rightarrow> find (\<lambda>c. cron_key c = (mo_tenant_id m, mo_workspace_id m, mo_owner_user_id m, k)) (md_cron_commands db))"

text \<open>The part after the version check.\<close>

definition change_monitor ::
  "monitor_params \<Rightarrow> actor_context \<Rightarrow> uuid \<Rightarrow> instant \<Rightarrow> update_request \<Rightarrow> string option \<Rightarrow> string \<Rightarrow> monitor_row
     \<Rightarrow> monitor_db \<Rightarrow> (monitor_error, monitor_row \<times> monitor_db) result" where
  "change_monitor p ac command_id clock rq key h m db =
     rbind (change_fields p clock rq m) (\<lambda>m1.
     rbind (flush_monitor m1 db) (\<lambda>db1.
     rbind (if mo_status m1 \<notin> set ACTIVE_MONITOR_STATUSES then Inr ()
            else rbind (require_usable_entitlement ac clock None db1) (\<lambda>e.
              if en_active_monitor_limit e < active_monitors (mo_tenant_id m1) (mo_workspace_id m1) db1
              then Inl (Monitor_entitlement_denied ''active monitor limit exceeded'') else Inr ())) (\<lambda>_.
     let m2 = bump_revisions rq m1 in
     rbind (enqueue_cron_command p command_id clock m2 (requested_command_type (um_status rq)) key (Some h)
              (replace_monitor m2 db1)) (\<lambda>(c, db2). Inr (m2, db2)))))"

definition update_monitor ::
  "monitor_params \<Rightarrow> actor_context \<Rightarrow> uuid \<Rightarrow> instant \<Rightarrow> uuid \<Rightarrow> update_request \<Rightarrow> monitor_db
     \<Rightarrow> (monitor_error, monitor_row \<times> monitor_db) result" where
  "update_monitor p ac command_id clock monitor_id rq db =
     (if um_expected_version rq < 1 then Inl (Bad_value ''expected_version'')
      else case scoped_monitor ac monitor_id db of
        None \<Rightarrow> Inl (Resource_not_found ''monitor'')
      | Some m \<Rightarrow>
        if filled (um_operation_idempotency_key rq) \<and> filled (um_idempotency_key rq)
        then Inl (Bad_value ''operation idempotency key'')
        else rbind (validate_hash ''operation_payload_hash''
               (str_or (um_operation_payload_hash rq) (mp_hash p (operation_fields p rq)))) (\<lambda>h.
             rbind (case operation_key rq of None \<Rightarrow> Inr None
               | Some k \<Rightarrow> rbind (require_text 255 ''operation_idempotency_key'' k) (\<lambda>k'. Inr (Some k'))) (\<lambda>key.
             case known_operation m key db of
               Some c \<Rightarrow> if cc_monitor_id c \<noteq> mo_id m \<or> cc_command_type c \<noteq> requested_command_type (um_status rq)
                   \<or> cc_request_payload_hash c \<noteq> h
                 then Inl Monitor_idempotency_conflict else Inr (m, db)
             | None \<Rightarrow> if mo_version m \<noteq> um_expected_version rq then Inl Monitor_version_conflict
                 else change_monitor p ac command_id clock rq key h m db)))"

definition status_request :: "int \<Rightarrow> string \<Rightarrow> string option \<Rightarrow> string option \<Rightarrow> string option \<Rightarrow> update_request" where
  "status_request expected_version status operation_idempotency_key idempotency_key payload_hash =
     \<lparr>um_expected_version = expected_version, um_name = None, um_condition = None, um_cron_schedule = None,
      um_timezone = None, um_expires_at = None, um_quiet_hours = None, um_status = Some status,
      um_next_run_at = None, um_operation_idempotency_key = operation_idempotency_key,
      um_idempotency_key = idempotency_key, um_operation_payload_hash = payload_hash\<rparr>"

definition delete_monitor where
  "delete_monitor p ac command_id clock monitor_id expected_version op_key key payload_hash =
     update_monitor p ac command_id clock monitor_id
       (status_request expected_version ''disabled'' op_key key payload_hash)"

definition pause_monitor where
  "pause_monitor p ac command_id clock monitor_id expected_version op_key payload_hash =
     update_monitor p ac command_id clock monitor_id
       (status_request expected_version ''paused'' (Some op_key) None payload_hash)"

definition resume_monitor where
  "resume_monitor p ac command_id clock monitor_id expected_version op_key payload_hash =
     update_monitor p ac command_id clock monitor_id
       (status_request expected_version ''active'' (Some op_key) None payload_hash)"

section \<open>Destinations\<close>

definition binding_key :: "binding_row \<Rightarrow> uuid \<times> uuid \<times> uuid \<times> uuid \<times> uuid" where
  "binding_key b = (bd_tenant_id b, bd_workspace_id b, bd_owner_user_id b, bd_monitor_id b, bd_destination_id b)"

definition add_destination ::
  "actor_context \<Rightarrow> uuid \<Rightarrow> uuid \<Rightarrow> uuid \<Rightarrow> monitor_db \<Rightarrow> (monitor_error, binding_row \<times> monitor_db) result" where
  "add_destination ac new_id monitor_id destination_id db =
     rbind (actor_of ac db) (\<lambda>ra.
       if \<not> (\<exists>m \<in> set (md_monitors db). mo_id m = monitor_id \<and> mo_tenant_id m = ra_tenant_id ra
            \<and> mo_workspace_id m = ra_workspace_id ra \<and> mo_owner_user_id m = ra_user_id ra)
       then Inl (Resource_not_found ''monitor'')
       else if \<not> (\<exists>d \<in> set (md_destinations db). ds_id d = destination_id \<and> ds_tenant_id d = ra_tenant_id ra
            \<and> ds_workspace_id d = ra_workspace_id ra \<and> ds_owner_user_id d = ra_user_id ra)
       then Inl (Resource_not_found ''destination'')
       else let b = \<lparr>bd_id = new_id, bd_tenant_id = ra_tenant_id ra, bd_workspace_id = ra_workspace_id ra,
              bd_owner_user_id = ra_user_id ra, bd_monitor_id = monitor_id, bd_destination_id = destination_id\<rparr>
         in if new_id \<in> bd_id ` set (md_bindings db) \<or> binding_key b \<in> binding_key ` set (md_bindings db)
            then Inl Constraint_violated
            else Inr (b, db\<lparr>md_bindings := md_bindings db @ [b]\<rparr>))"

definition remove_destination ::
  "actor_context \<Rightarrow> uuid \<Rightarrow> uuid \<Rightarrow> monitor_db \<Rightarrow> (monitor_error, monitor_db) result" where
  "remove_destination ac monitor_id destination_id db =
     (case find (\<lambda>b. bd_monitor_id b = monitor_id \<and> bd_destination_id b = destination_id
         \<and> actor_scope (md_directory db) ac (bd_tenant_id b) (bd_workspace_id b) (bd_owner_user_id b))
         (md_bindings db) of
        None \<Rightarrow> Inl (Resource_not_found ''monitor destination binding'')
      | Some b \<Rightarrow> Inr (db\<lparr>md_bindings := filter (\<lambda>x. bd_id x \<noteq> bd_id b) (md_bindings db)\<rparr>))"

section \<open>Leases of control commands\<close>

definition leasable :: "instant \<Rightarrow> cron_command \<Rightarrow> bool" where
  "leasable now c \<longleftrightarrow> cc_available_at c \<le> now
     \<and> (cc_status c = ''pending''
        \<or> cc_status c = ''leased'' \<and> (case cc_lease_expires_at c of None \<Rightarrow> False | Some t \<Rightarrow> t \<le> now))"

definition lease_command :: "string \<Rightarrow> instant \<Rightarrow> cron_command \<Rightarrow> cron_command" where
  "lease_command worker expires_at c = c\<lparr>cc_status := ''leased'', cc_lease_owner := Some worker,
     cc_lease_expires_at := Some expires_at, cc_fence_token := cc_fence_token c + 1,
     cc_attempt := cc_attempt c + 1\<rparr>"

text \<open>\<open>busy\<close> are the commands another transaction has locked.\<close>

definition due_commands :: "uuid set \<Rightarrow> int \<Rightarrow> instant \<Rightarrow> monitor_db \<Rightarrow> cron_command list" where
  "due_commands busy limit now db =
     take (nat limit) (sort_key (\<lambda>c. (cc_available_at c, cc_created_at c, cc_id c))
       (filter (\<lambda>c. leasable now c \<and> cc_id c \<notin> busy) (md_cron_commands db)))"

definition lease_cron_commands ::
  "uuid set \<Rightarrow> string \<Rightarrow> int \<Rightarrow> int \<Rightarrow> instant \<Rightarrow> pydatetime option \<Rightarrow> monitor_db
     \<Rightarrow> (monitor_error, cron_command list \<times> monitor_db) result" where
  "lease_cron_commands busy worker_id limit lease_seconds clock now db =
     rbind (require_text 255 ''worker_id'' worker_id) (\<lambda>worker.
       if limit < 1 \<or> 100 < limit then Inl (Bad_value ''limit'')
       else if lease_seconds < 1 \<or> 3600 < lease_seconds then Inl (Bad_value ''lease_seconds'')
       else rbind (as_utc clock now) (\<lambda>t.
         let lease = lease_command worker (t + lease_seconds * SECOND); due = due_commands busy limit t db in
         Inr (map lease due, db\<lparr>md_cron_commands :=
           update_where (\<lambda>c. cc_id c \<in> cc_id ` set due) lease (md_cron_commands db)\<rparr>)))"

definition leased_to :: "uuid \<Rightarrow> string \<Rightarrow> int \<Rightarrow> cron_command \<Rightarrow> bool" where
  "leased_to command_id worker fence c \<longleftrightarrow> cc_id c = command_id \<and> cc_status c = ''leased''
     \<and> cc_lease_owner c = Some worker \<and> cc_fence_token c = fence"

definition finished_command ::
  "instant \<Rightarrow> bool \<Rightarrow> string option \<Rightarrow> instant option \<Rightarrow> cron_command \<Rightarrow> cron_command" where
  "finished_command clock succeeded error retry_at c = c\<lparr>cc_lease_owner := None, cc_lease_expires_at := None,
     cc_last_error := (if filled error then map_option (take 500) error else None),
     cc_completed_at := (if succeeded then Some clock else None),
     cc_status := (if succeeded then ''succeeded'' else if retry_at \<noteq> None then ''pending'' else ''failed''),
     cc_available_at := (if succeeded then cc_available_at c else case retry_at of None \<Rightarrow> cc_available_at c
       | Some t \<Rightarrow> t)\<rparr>"

definition applied_monitor :: "cron_command \<Rightarrow> monitor_row \<Rightarrow> monitor_row" where
  "applied_monitor c m = m\<lparr>mo_applied_revision := max (mo_applied_revision m) (cc_desired_revision c)\<rparr>"

definition command_monitor :: "cron_command \<Rightarrow> monitor_row \<Rightarrow> bool" where
  "command_monitor c m \<longleftrightarrow> mo_tenant_id m = cc_tenant_id c \<and> mo_workspace_id m = cc_workspace_id c
     \<and> mo_owner_user_id m = cc_owner_user_id c \<and> mo_id m = cc_monitor_id c"

definition finish_cron_command ::
  "uuid \<Rightarrow> string \<Rightarrow> int \<Rightarrow> bool \<Rightarrow> string option \<Rightarrow> pydatetime option \<Rightarrow> instant \<Rightarrow> monitor_db
     \<Rightarrow> (monitor_error, cron_command \<times> monitor_db) result" where
  "finish_cron_command command_id worker_id fence succeeded error retry_at clock db =
     rbind (require_text 255 ''worker_id'' worker_id) (\<lambda>worker.
       if fence < 1 then Inl (Bad_value ''fence_token'')
       else case find (leased_to command_id worker fence) (md_cron_commands db) of
         None \<Rightarrow> Inl (Resource_not_found ''cron command lease'')
       | Some c \<Rightarrow>
         rbind (if succeeded then Inr None else case retry_at of None \<Rightarrow> Inr None
                | Some t \<Rightarrow> rbind (as_utc clock (Some t)) (\<lambda>u. Inr (Some u))) (\<lambda>retry.
           let c' = finished_command clock succeeded error retry c;
               db1 = db\<lparr>md_cron_commands := update_where (\<lambda>x. cc_id x = command_id) (\<lambda>_. c') (md_cron_commands db)\<rparr> in
           Inr (c', if \<not> succeeded then db1 else db1\<lparr>md_monitors :=
             update_where (\<lambda>m. command_monitor c m \<and> cc_desired_revision c \<le> mo_desired_revision m)
               (applied_monitor c) (md_monitors db)\<rparr>)))"

end
