(* ===== verification/Monitor_Triggers.thy ===== *)
theory Monitor_Triggers
  imports Monitor_Repository
begin

text \<open>
  The admission of a monitor's triggers (\<open>admit_trigger\<close> in \<open>persistence/monitor_repository.py\<close>): the
  reasons for which a trigger is suppressed, the rows an admitted one creates, and the ingress
  through which the scheduler of the graph server triggers a monitor (\<open>monitors/runtime.py\<close>).
\<close>

section \<open>Admitting a trigger\<close>

record trigger_request =
  tq_kind :: string
  tq_cron_binding_id :: "uuid option"
  tq_official_cron_id :: "string option"
  tq_official_run_id :: "string option"
  tq_official_thread_id :: "string option"
  tq_manual_stable_key :: "string option"
  tq_schedule_version :: "int option"
  tq_received_at :: "pydatetime option"

record admission =
  ad_trigger :: trigger_row
  ad_thread :: "thread_row option"
  ad_task :: "task_row option"
  ad_task_command :: "command_row option"
  ad_usage :: "ledger_entry option"
  ad_created :: bool

definition trigger_request_check :: "trigger_request \<Rightarrow> (monitor_error, unit) result" where
  "trigger_request_check rq =
     (if tq_kind rq \<notin> {''manual'', ''cron''} then Inl (Trigger_rejected ''kind'')
      else if tq_kind rq = ''cron'' then
        (if \<not> filled (tq_official_run_id rq) then Inl (Trigger_rejected ''official_run_id'')
         else if tq_cron_binding_id rq = None then Inl (Trigger_rejected ''cron_binding_id'')
         else if tq_manual_stable_key rq \<noteq> None then Inl (Trigger_rejected ''manual_stable_key'')
         else Inr ())
      else if \<not> filled (tq_manual_stable_key rq) then Inl (Trigger_rejected ''manual_stable_key'')
      else Inr ())"

text \<open>The identity a trigger is deduplicated by; SQL's equality with null holds of no row.\<close>

definition trigger_identity :: "trigger_request \<Rightarrow> string option" where
  "trigger_identity rq = (if tq_kind rq = ''cron'' then tq_official_run_id rq else tq_manual_stable_key rq)"

definition row_identity :: "string \<Rightarrow> trigger_row \<Rightarrow> string option" where
  "row_identity kind g = (if kind = ''cron'' then gr_official_run_id g else gr_manual_stable_key g)"

definition of_monitor :: "monitor_row \<Rightarrow> trigger_row \<Rightarrow> bool" where
  "of_monitor m g \<longleftrightarrow> gr_tenant_id g = mo_tenant_id m \<and> gr_workspace_id g = mo_workspace_id m
     \<and> gr_owner_user_id g = mo_owner_user_id m \<and> gr_monitor_id g = mo_id m"

definition find_existing_trigger :: "monitor_row \<Rightarrow> trigger_request \<Rightarrow> monitor_db \<Rightarrow> trigger_row option" where
  "find_existing_trigger m rq db =
     find (\<lambda>g. of_monitor m g \<and> trigger_identity rq \<noteq> None
       \<and> row_identity (tq_kind rq) g = trigger_identity rq) (ud_triggers db)"

definition trigger_admission_result :: "trigger_row \<Rightarrow> bool \<Rightarrow> monitor_db \<Rightarrow> admission" where
  "trigger_admission_result g created db =
     (let task = (case gr_task_id g of None \<Rightarrow> None | Some i \<Rightarrow> find (\<lambda>t. tr_id t = i) (ud_tasks db)) in
      \<lparr>ad_trigger = g,
       ad_thread = (case gr_thread_id g of None \<Rightarrow> None | Some i \<Rightarrow> find (\<lambda>t. th_id t = i) (md_threads db)),
       ad_task = task,
       ad_task_command = (case task of None \<Rightarrow> None
         | Some t \<Rightarrow> find (\<lambda>c. tc_task_id c = tr_id t \<and> tc_command_type c = ''submit'') (md_task_commands db)),
       ad_usage = (case task of None \<Rightarrow> None
         | Some t \<Rightarrow> find (\<lambda>e. le_trigger_id e = Some (gr_id g)) (ud_ledger db)),
       ad_created = created\<rparr>)"

definition latest_admission :: "monitor_row \<Rightarrow> monitor_db \<Rightarrow> instant option" where
  "latest_admission m db =
     (case List.map_filter gr_admitted_at
         (filter (\<lambda>g. of_monitor m g \<and> gr_status g = ''admitted'') (ud_triggers db)) of
        [] \<Rightarrow> None | t # ts \<Rightarrow> Some (fold max ts t))"

definition monthly_units :: "monitor_row \<Rightarrow> instant \<Rightarrow> monitor_db \<Rightarrow> int" where
  "monthly_units m month db = sum_list (map le_quantity (filter (\<lambda>e. le_tenant_id e = mo_tenant_id m
     \<and> le_workspace_id e = mo_workspace_id m \<and> le_period_start e = month) (ud_ledger db)))"

definition concurrent_tasks :: "monitor_row \<Rightarrow> monitor_db \<Rightarrow> int" where
  "concurrent_tasks m db = int (length (filter (\<lambda>t. tr_tenant_id t = mo_tenant_id m
     \<and> tr_workspace_id t = mo_workspace_id m \<and> tr_status t \<in> set ACTIVE_TASK_STATUSES
     \<and> (\<exists>g \<in> set (ud_triggers db). gr_tenant_id g = mo_tenant_id m \<and> gr_workspace_id g = mo_workspace_id m
          \<and> gr_status g = ''admitted'' \<and> gr_task_id g = Some (tr_id t))) (ud_tasks db)))"

definition suppression_reason ::
  "monitor_params \<Rightarrow> monitor_row \<Rightarrow> entitlement option \<Rightarrow> int \<Rightarrow> instant \<Rightarrow> monitor_db \<Rightarrow> string option" where
  "suppression_reason p m usable version now db = (case usable of
     None \<Rightarrow> Some ''entitlement_unavailable''
   | Some e \<Rightarrow>
     if mo_status m \<noteq> ''active'' then Some (''monitor_status:'' @ mo_status m)
     else if \<not> opt_ok (\<lambda>t. now < t) (mo_expires_at m) then Some ''monitor_expired''
     else if version \<noteq> mo_schedule_version m then Some ''stale_schedule_version''
     else if in_quiet_hours p m now then Some ''quiet_hours''
     else if en_active_monitor_limit e < active_monitors (mo_tenant_id m) (mo_workspace_id m) db
     then Some ''active_monitor_limit_exceeded''
     else if \<not> opt_ok (\<lambda>t. t + en_min_interval_seconds e * SECOND \<le> now) (latest_admission m db)
     then Some ''minimum_interval_not_elapsed''
     else if en_monthly_trigger_limit e \<le> monthly_units m (month_start now) db
     then Some ''monthly_trigger_limit_exceeded''
     else if en_max_concurrent_tasks e \<le> concurrent_tasks m db then Some ''max_concurrent_tasks_exceeded''
     else None)"

text \<open>The rows of an admission; \<open>draws\<close> are the identifiers drawn for them.\<close>

record admission_ids =
  ai_trigger :: uuid
  ai_task :: uuid
  ai_thread :: uuid
  ai_usage :: uuid
  ai_command :: uuid

definition trigger_of ::
  "monitor_row \<Rightarrow> uuid \<Rightarrow> trigger_request \<Rightarrow> string \<Rightarrow> string option \<Rightarrow> int \<Rightarrow> uuid option \<Rightarrow> uuid option
     \<Rightarrow> instant \<Rightarrow> instant option \<Rightarrow> trigger_row" where
  "trigger_of m new_id rq status reason version task_id thread_id received_at admitted_at =
     \<lparr>gr_id = new_id, gr_tenant_id = mo_tenant_id m, gr_workspace_id = mo_workspace_id m,
      gr_owner_user_id = mo_owner_user_id m, gr_monitor_id = mo_id m,
      gr_official_cron_id = tq_official_cron_id rq, gr_official_run_id = tq_official_run_id rq,
      gr_official_thread_id = tq_official_thread_id rq, gr_manual_stable_key = tq_manual_stable_key rq,
      gr_kind = tq_kind rq, gr_status = status, gr_reason = reason, gr_schedule_version = version,
      gr_task_id = task_id, gr_thread_id = thread_id, gr_received_at = received_at,
      gr_admitted_at = admitted_at, gr_failed_at = None\<rparr>"

definition thread_of :: "monitor_row \<Rightarrow> admission_ids \<Rightarrow> string \<Rightarrow> thread_row" where
  "thread_of m ids kind =
     \<lparr>th_id = ai_thread ids, th_tenant_id = mo_tenant_id m, th_workspace_id = mo_workspace_id m,
      th_owner_user_id = mo_owner_user_id m, th_official_thread_id = None, th_title = Some (mo_name m),
      th_context = JObj [(''monitor_id'', JStr (mo_id m)), (''trigger_id'', JStr (ai_trigger ids)),
        (''kind'', JStr kind), (''schedule_version'', JInt (mo_schedule_version m))],
      th_next_domain_event_sequence = 1\<rparr>"

definition task_of :: "monitor_params \<Rightarrow> monitor_row \<Rightarrow> admission_ids \<Rightarrow> string \<Rightarrow> string \<Rightarrow> instant \<Rightarrow> task_row" where
  "task_of p m ids kind identity clock =
     \<lparr>tr_id = ai_task ids, tr_tenant_id = mo_tenant_id m, tr_workspace_id = mo_workspace_id m,
      tr_owner_user_id = mo_owner_user_id m, tr_thread_id = ai_thread ids, tr_task_type = mo_run_task_type m,
      tr_status = ''queued'',
      tr_idempotency_key = ''monitor-trigger:'' @ mo_id m @ '':'' @ identity_digest p [kind, identity],
      tr_request_payload_hash = mp_hash p (task_payload_from_template (mo_task_template m)),
      tr_request_payload = task_payload_from_template (mo_task_template m), tr_completed_at = None,
      tr_created_at = clock\<rparr>"

definition usage_of ::
  "monitor_params \<Rightarrow> monitor_row \<Rightarrow> entitlement \<Rightarrow> admission_ids \<Rightarrow> string \<Rightarrow> string \<Rightarrow> instant \<Rightarrow> instant \<Rightarrow> ledger_entry" where
  "usage_of p m e ids kind identity received_at clock =
     \<lparr>le_id = ai_usage ids, le_tenant_id = mo_tenant_id m, le_workspace_id = mo_workspace_id m,
      le_owner_user_id = mo_owner_user_id m, le_entitlement_id = en_id e, le_monitor_id = Some (mo_id m),
      le_trigger_id = Some (ai_trigger ids), le_period_start = month_start received_at, le_quantity = 1,
      le_unit = ''trigger'', le_operation_type = ''monitor_trigger'', le_resource_type = ''monitor_trigger'',
      le_resource_id = Some (ai_trigger ids), le_source_receipt_hash = Some (identity_digest p [kind, identity]),
      le_idempotency_key = ''monitor-trigger-usage:'' @ mo_id m @ '':'' @ identity_digest p [kind, identity],
      le_metadata = JObj [(''kind'', JStr kind), (''schedule_version'', JInt (mo_schedule_version m))],
      le_created_at = clock\<rparr>"

definition submit_of :: "monitor_params \<Rightarrow> monitor_row \<Rightarrow> admission_ids \<Rightarrow> instant \<Rightarrow> command_row" where
  "submit_of p m ids clock =
     \<lparr>tc_id = ai_command ids, tc_tenant_id = mo_tenant_id m, tc_workspace_id = mo_workspace_id m,
      tc_actor_user_id = mo_owner_user_id m, tc_task_id = ai_task ids, tc_thread_id = ai_thread ids,
      tc_command_type = ''submit'', tc_payload = task_payload_from_template (mo_task_template m),
      tc_payload_hash = mp_hash p (task_payload_from_template (mo_task_template m)), tc_sequence = 1,
      tc_status = ''pending'', tc_lease_owner = None, tc_lease_expires_at = None, tc_attempt = 0,
      tc_idempotency_key = ''submit:'' @ ai_task ids, tc_official_run_id = None, tc_official_command_id = None,
      tc_created_at = clock\<rparr>"

definition insert_trigger :: "trigger_row \<Rightarrow> monitor_db \<Rightarrow> (monitor_error, monitor_db) result" where
  "insert_trigger g db =
     (if \<not> trigger_check g \<or> gr_id g \<in> gr_id ` set (ud_triggers db)
         \<or> (\<exists>h \<in> set (ud_triggers db). trigger_clash g h)
      then Inl Constraint_violated else Inr (db\<lparr>ud_triggers := ud_triggers db @ [g]\<rparr>))"

definition insert_thread :: "thread_row \<Rightarrow> monitor_db \<Rightarrow> (monitor_error, monitor_db) result" where
  "insert_thread t db =
     (if \<not> thread_check t \<or> th_id t \<in> th_id ` set (md_threads db)
      then Inl Constraint_violated else Inr (db\<lparr>md_threads := md_threads db @ [t]\<rparr>))"

definition insert_task :: "task_row \<Rightarrow> monitor_db \<Rightarrow> (monitor_error, monitor_db) result" where
  "insert_task t db =
     (if \<not> task_check t \<or> tr_id t \<in> tr_id ` set (ud_tasks db) \<or> task_key t \<in> task_key ` set (ud_tasks db)
      then Inl Constraint_violated else Inr (db\<lparr>ud_tasks := ud_tasks db @ [t]\<rparr>))"

definition insert_usage :: "ledger_entry \<Rightarrow> monitor_db \<Rightarrow> (monitor_error, monitor_db) result" where
  "insert_usage e db =
     (if \<not> ledger_check e \<or> le_id e \<in> le_id ` set (ud_ledger db) \<or> ledger_key e \<in> ledger_key ` set (ud_ledger db)
      then Inl Constraint_violated else Inr (db\<lparr>ud_ledger := ud_ledger db @ [e]\<rparr>))"

definition insert_task_command :: "command_row \<Rightarrow> monitor_db \<Rightarrow> (monitor_error, monitor_db) result" where
  "insert_task_command c db =
     (if \<not> command_check c \<or> tc_id c \<in> tc_id ` set (md_task_commands db)
         \<or> command_sequence_key c \<in> command_sequence_key ` set (md_task_commands db)
         \<or> command_key c \<in> command_key ` set (md_task_commands db)
      then Inl Constraint_violated else Inr (db\<lparr>md_task_commands := md_task_commands db @ [c]\<rparr>))"

text \<open>A new trigger, suppressed or admitted with its thread, task, usage and submit command.\<close>

definition suppress_trigger ::
  "monitor_row \<Rightarrow> uuid \<Rightarrow> trigger_request \<Rightarrow> string \<Rightarrow> int \<Rightarrow> instant \<Rightarrow> monitor_db
     \<Rightarrow> (monitor_error, admission \<times> monitor_db) result" where
  "suppress_trigger m new_id rq reason version now db =
     (let g = trigger_of m new_id rq ''suppressed'' (Some reason) version None None now None in
      rbind (insert_trigger g db) (\<lambda>db'. Inr (trigger_admission_result g True db', db')))"

definition admit_new_trigger ::
  "monitor_params \<Rightarrow> monitor_row \<Rightarrow> entitlement \<Rightarrow> admission_ids \<Rightarrow> trigger_request \<Rightarrow> string \<Rightarrow> instant \<Rightarrow> instant
     \<Rightarrow> monitor_db \<Rightarrow> (monitor_error, admission \<times> monitor_db) result" where
  "admit_new_trigger p m e ids rq identity now clock db =
     (let g = trigger_of m (ai_trigger ids) rq ''admitted'' None (mo_schedule_version m)
           (Some (ai_task ids)) (Some (ai_thread ids)) now (Some now);
          thread = thread_of m ids (tq_kind rq); task = task_of p m ids (tq_kind rq) identity clock;
          usage = usage_of p m e ids (tq_kind rq) identity now clock; submit = submit_of p m ids clock in
      rbind (insert_thread thread db) (\<lambda>db1.
      rbind (insert_task task db1) (\<lambda>db2.
      rbind (insert_trigger g db2) (\<lambda>db3.
      rbind (insert_usage usage db3) (\<lambda>db4.
      rbind (insert_task_command submit db4) (\<lambda>db5.
        Inr (\<lparr>ad_trigger = g, ad_thread = Some thread, ad_task = Some task, ad_task_command = Some submit,
              ad_usage = Some usage, ad_created = True\<rparr>, db5)))))))"

definition admit_trigger ::
  "monitor_params \<Rightarrow> actor_context \<Rightarrow> admission_ids \<Rightarrow> instant \<Rightarrow> uuid \<Rightarrow> trigger_request \<Rightarrow> monitor_db
     \<Rightarrow> (monitor_error, admission \<times> monitor_db) result" where
  "admit_trigger p ac ids clock monitor_id rq db =
     rbind (trigger_request_check rq) (\<lambda>_.
     rbind (as_utc clock (tq_received_at rq)) (\<lambda>now.
     rbind (actor_of ac db) (\<lambda>ra.
     case scoped_monitor ac monitor_id db of
       None \<Rightarrow> Inl (Resource_not_found ''monitor'')
     | Some m \<Rightarrow>
       if tq_kind rq = ''cron'' \<and> tq_cron_binding_id rq \<noteq> Some (mo_cron_binding_id m)
       then Inl (Trigger_rejected ''cron_binding_id'')
       else rbind (require_monitor_condition_evaluator (get_or_null ''kind'' (mo_condition m))) (\<lambda>_.
       case find_existing_trigger m rq db of
         Some g \<Rightarrow> Inr (trigger_admission_result g False db, db)
       | None \<Rightarrow>
         if \<not> opt_ok (\<lambda>v. 1 \<le> v) (tq_schedule_version rq) then Inl (Trigger_rejected ''schedule_version'')
         else
           let version = (case tq_schedule_version rq of None \<Rightarrow> mo_schedule_version m | Some v \<Rightarrow> v);
               usable = usable_entitlement (locked_entitlement ra db) now in
           case suppression_reason p m usable version now db of
             Some reason \<Rightarrow> suppress_trigger m (ai_trigger ids) rq reason version now db
           | None \<Rightarrow> admit_new_trigger p m (the usable) ids rq (the (trigger_identity rq)) now clock db))))"

section \<open>The ingress of the graph server\<close>

record ingress_request =
  ir_monitor_id :: uuid
  ir_schedule_version :: int
  ir_cron_binding_id :: uuid

record ingress_receipt =
  ig_trigger_id :: uuid
  ig_monitor_id :: uuid
  ig_status :: string
  ig_reason :: "string option"
  ig_task_id :: "uuid option"
  ig_created :: bool

definition valid_ingress_request :: "ingress_request \<Rightarrow> bool" where
  "valid_ingress_request rq \<longleftrightarrow> 1 \<le> ir_schedule_version rq"

definition receipt_of :: "trigger_row \<Rightarrow> bool \<Rightarrow> ingress_receipt" where
  "receipt_of g created = \<lparr>ig_trigger_id = gr_id g, ig_monitor_id = gr_monitor_id g, ig_status = gr_status g,
     ig_reason = gr_reason g, ig_task_id = gr_task_id g, ig_created = created\<rparr>"

definition ingress_trigger_request ::
  "ingress_request \<Rightarrow> monitor_row \<Rightarrow> string \<Rightarrow> string option \<Rightarrow> trigger_request" where
  "ingress_trigger_request rq m run_id thread_id =
     \<lparr>tq_kind = ''cron'', tq_cron_binding_id = Some (ir_cron_binding_id rq),
      tq_official_cron_id = mo_official_cron_id m, tq_official_run_id = Some run_id,
      tq_official_thread_id = thread_id, tq_manual_stable_key = None,
      tq_schedule_version = Some (ir_schedule_version rq), tq_received_at = None\<rparr>"

text \<open>The owner of a monitor with the membership in its workspace, if any.\<close>

definition monitor_owner ::
  "monitor_row \<Rightarrow> directory \<Rightarrow> (tenant_row \<times> workspace_row \<times> user_row \<times> membership_row option) option" where
  "monitor_owner m d =
     (case (find (\<lambda>t. tn_id t = mo_tenant_id m) (dir_tenants d),
            find (\<lambda>w. ws_id w = mo_workspace_id m) (dir_workspaces d),
            find (\<lambda>u. us_id u = mo_owner_user_id m) (dir_users d)) of
        (Some t, Some w, Some u) \<Rightarrow> Some (t, w, u, find (\<lambda>b. mb_tenant_id b = mo_tenant_id m
            \<and> mb_workspace_id b = mo_workspace_id m \<and> mb_user_id b = mo_owner_user_id m) (dir_memberships d))
      | _ \<Rightarrow> None)"

definition owner_context :: "tenant_row \<Rightarrow> workspace_row \<Rightarrow> user_row \<Rightarrow> membership_row \<Rightarrow> actor_context" where
  "owner_context t w u b = \<lparr>ac_tenant_id = tn_external_id t, ac_workspace_id = ws_external_id w,
     ac_user_id = us_external_subject u, ac_identity_issuer = us_identity_issuer u,
     ac_context_id = Some (mb_id b), ac_roles = [mb_role b], ac_permissions = mb_permissions b\<rparr>"

definition suppress_revoked ::
  "ingress_request \<Rightarrow> string \<Rightarrow> string option \<Rightarrow> uuid \<Rightarrow> instant \<Rightarrow> monitor_row \<Rightarrow> monitor_db
     \<Rightarrow> (monitor_error, ingress_receipt \<times> monitor_db) result" where
  "suppress_revoked rq run_id thread_id new_id clock m db =
     (case find (\<lambda>g. of_monitor m g \<and> gr_official_run_id g = Some run_id) (ud_triggers db) of
        Some g \<Rightarrow> Inr (receipt_of g True, db)
      | None \<Rightarrow>
        let g = trigger_of m new_id (ingress_trigger_request rq m run_id thread_id) ''suppressed''
              (Some ''membership_revoked'') (ir_schedule_version rq) None None clock None in
        rbind (insert_trigger g db) (\<lambda>db'. Inr (receipt_of g True, db')))"

definition admit_monitor_ingress ::
  "monitor_params \<Rightarrow> admission_ids \<Rightarrow> instant \<Rightarrow> ingress_request \<Rightarrow> string \<Rightarrow> string option \<Rightarrow> monitor_db
     \<Rightarrow> (monitor_error, ingress_receipt \<times> monitor_db) result" where
  "admit_monitor_ingress p ids clock rq official_run_id official_thread_id db =
     (let run_id = strip official_run_id;
          thread_id = (case official_thread_id of None \<Rightarrow> None
            | Some t \<Rightarrow> if strip t = [] then None else Some (strip t)) in
      if run_id = [] then Inl Ingress_run_id_required
      else case find (\<lambda>m. mo_id m = ir_monitor_id rq \<and> mo_cron_binding_id m = ir_cron_binding_id rq
               \<and> monitor_owner m (md_directory db) \<noteq> None) (md_monitors db) of
        None \<Rightarrow> Inl Ingress_binding_unavailable
      | Some m \<Rightarrow>
        rbind (require_monitor_condition_evaluator (get_or_null ''kind'' (mo_condition m))) (\<lambda>_.
        case the (monitor_owner m (md_directory db)) of (t, w, u, b) \<Rightarrow>
          (case b of
             Some member \<Rightarrow>
               if mb_is_active member then
                 (if \<not> valid_actor_context (owner_context t w u member) then Inl (Actor_denied Identifiers_required)
                  else rbind (admit_trigger p (owner_context t w u member) ids clock (mo_id m)
                         (ingress_trigger_request rq m run_id thread_id) db) (\<lambda>(a, db').
                       Inr (receipt_of (ad_trigger a) (ad_created a), db')))
               else suppress_revoked rq run_id thread_id (ai_trigger ids) clock m db
           | None \<Rightarrow> suppress_revoked rq run_id thread_id (ai_trigger ids) clock m db)))"

end
