(* ===== verification/Monitor_Worker.thy ===== *)
theory Monitor_Worker
  imports Monitor_Triggers
begin

text \<open>
  The worker that brings the scheduler of the Agent Server in line with the monitors
  (\<open>workers/monitor.py\<close>, \<open>monitors/agent_server_cron.py\<close>, \<open>monitors/models.py\<close>). The Cron client of the
  LangGraph SDK is a parameter: four calls on a remote state, each answering a value or raising
  an exception of some type. So are the issuer of credentials and the reader of ISO timestamps.
\<close>

section \<open>The Cron client and its specification\<close>

record cron_spec =
  sp_monitor_id :: uuid
  sp_schedule_version :: int
  sp_cron_binding_id :: uuid
  sp_schedule :: string
  sp_timezone :: string
  sp_end_time :: "instant option"

datatype worker_error = Cron_degraded string int | Worker_failed string

text \<open>The options the code sets to constants (stream modes and durability) are left out.\<close>

record cron_options =
  co_schedule :: string
  co_timezone :: string
  co_input :: json
  co_metadata :: json
  co_enabled :: "bool option"
  co_end_time :: "instant option option"
  co_authorization :: string

record 'r cron_client =
  cl_create :: "string \<Rightarrow> cron_options \<Rightarrow> 'r \<Rightarrow> (string, json) result \<times> 'r"
  cl_search :: "json \<Rightarrow> nat \<Rightarrow> string \<Rightarrow> 'r \<Rightarrow> (string, json list) result \<times> 'r"
  cl_update :: "string \<Rightarrow> cron_options \<Rightarrow> 'r \<Rightarrow> (string, json) result \<times> 'r"
  cl_delete :: "string \<Rightarrow> string \<Rightarrow> 'r \<Rightarrow> (string, unit) result \<times> 'r"

record 'r adapter =
  adp_client :: "'r cron_client"
  adp_assistant_id :: string
  adp_authorization :: "actor_context \<Rightarrow> string"
  adp_include_end_time :: bool

definition reference_metadata :: "cron_spec \<Rightarrow> (string \<times> json) list" where
  "reference_metadata sp = [(''monitor_id'', JStr (sp_monitor_id sp)),
     (''schedule_version'', JInt (sp_schedule_version sp)), (''cron_binding_id'', JStr (sp_cron_binding_id sp))]"

definition cron_input :: "cron_spec \<Rightarrow> json" where
  "cron_input sp = JObj [(''request'', JObj ((''task_type'', JStr ''monitor_ingress'') # reference_metadata sp))]"

definition mk_cron_spec :: "monitor_params \<Rightarrow> monitor_row \<Rightarrow> (worker_error, cron_spec) result" where
  "mk_cron_spec p m =
     (if 1 \<le> mo_schedule_version m
         \<and> 1 \<le> length (mo_cron_schedule m) \<and> length (mo_cron_schedule m) \<le> 128
         \<and> 1 \<le> length (mo_timezone m) \<and> length (mo_timezone m) \<le> 64
         \<and> strip (mo_cron_schedule m) = mo_cron_schedule m \<and> strip (mo_timezone m) = mo_timezone m
         \<and> mp_zone p (mo_timezone m) \<noteq> None
      then Inr \<lparr>sp_monitor_id = mo_id m, sp_schedule_version = mo_schedule_version m,
         sp_cron_binding_id = mo_cron_binding_id m, sp_schedule = mo_cron_schedule m,
         sp_timezone = mo_timezone m, sp_end_time = mo_expires_at m\<rparr>
      else Inl (Worker_failed ''ValidationError''))"

section \<open>The adapter\<close>

text \<open>An action on the remote state that may raise.\<close>

type_synonym ('r, 'a) remote = "'r \<Rightarrow> (worker_error, 'a) result \<times> 'r"

definition remote_return :: "'a \<Rightarrow> ('r, 'a) remote" where
  "remote_return x r = (Inr x, r)"

definition remote_raise :: "worker_error \<Rightarrow> ('r, 'a) remote" where
  "remote_raise e r = (Inl e, r)"

definition remote_then :: "('r, 'a) remote \<Rightarrow> ('a \<Rightarrow> ('r, 'b) remote) \<Rightarrow> ('r, 'b) remote" where
  "remote_then a f r = (case a r of (Inl e, r') \<Rightarrow> (Inl e, r') | (Inr x, r') \<Rightarrow> f x r')"

definition remote_call :: "('r \<Rightarrow> (string, 'a) result \<times> 'r) \<Rightarrow> ('r, 'a) remote" where
  "remote_call c r = (case c r of (x, r') \<Rightarrow> (via Worker_failed x, r'))"

definition remote_check :: "(worker_error, 'a) result \<Rightarrow> ('r, 'a) remote" where
  "remote_check x r = (x, r)"

definition authorization_headers :: "'r adapter \<Rightarrow> actor_context \<Rightarrow> (worker_error, string) result" where
  "authorization_headers ad ac = (if strip (adp_authorization ad ac) = [] then Inl (Worker_failed ''ValueError'')
     else Inr (adp_authorization ad ac))"

definition options_of :: "'r adapter \<Rightarrow> cron_spec \<Rightarrow> bool option \<Rightarrow> string \<Rightarrow> cron_options" where
  "options_of ad sp enabled authorization =
     \<lparr>co_schedule = sp_schedule sp, co_timezone = sp_timezone sp, co_input = cron_input sp,
      co_metadata = JObj (reference_metadata sp), co_enabled = enabled,
      co_end_time = (if adp_include_end_time ad then Some (sp_end_time sp) else None),
      co_authorization = authorization\<rparr>"

definition adapter_create :: "'r adapter \<Rightarrow> actor_context \<Rightarrow> cron_spec \<Rightarrow> ('r, json) remote" where
  "adapter_create ad ac sp = remote_then (remote_check (authorization_headers ad ac)) (\<lambda>h.
     remote_call (cl_create (adp_client ad) (adp_assistant_id ad) (options_of ad sp (Some False) h)))"

definition RECONCILE_SEARCH_LIMIT :: nat where "RECONCILE_SEARCH_LIMIT = 2"

definition adapter_search :: "'r adapter \<Rightarrow> actor_context \<Rightarrow> uuid \<Rightarrow> ('r, json list) remote" where
  "adapter_search ad ac binding = remote_then (remote_check (authorization_headers ad ac)) (\<lambda>h.
     remote_call (cl_search (adp_client ad) (JObj [(''cron_binding_id'', JStr binding)]) RECONCILE_SEARCH_LIMIT h))"

definition adapter_update ::
  "'r adapter \<Rightarrow> actor_context \<Rightarrow> string \<Rightarrow> cron_spec \<Rightarrow> bool option \<Rightarrow> ('r, json) remote" where
  "adapter_update ad ac cron_id sp enabled =
     (if cron_id = [] then remote_raise (Worker_failed ''ValueError'')
      else remote_then (remote_check (authorization_headers ad ac)) (\<lambda>h.
        remote_call (cl_update (adp_client ad) cron_id (options_of ad sp enabled h))))"

definition adapter_delete :: "'r adapter \<Rightarrow> actor_context \<Rightarrow> string \<Rightarrow> ('r, unit) remote" where
  "adapter_delete ad ac cron_id =
     (if cron_id = [] then remote_raise (Worker_failed ''ValueError'')
      else remote_then (remote_check (authorization_headers ad ac)) (\<lambda>h.
        remote_call (cl_delete (adp_client ad) cron_id h)))"

definition cron_id_of :: "json \<Rightarrow> string option" where
  "cron_id_of v = (case json_get ''cron_id'' v of Some (JStr s) \<Rightarrow> if s = [] then None else Some s | _ \<Rightarrow> None)"

definition matching_references :: "json \<Rightarrow> cron_spec \<Rightarrow> bool" where
  "matching_references match sp = (let metadata = get_or_null ''metadata'' match in
     is_mapping metadata \<and> json_get ''cron_binding_id'' metadata = Some (JStr (sp_cron_binding_id sp))
     \<and> json_get ''monitor_id'' metadata = Some (JStr (sp_monitor_id sp)))"

definition adapter_reconcile :: "'r adapter \<Rightarrow> actor_context \<Rightarrow> cron_spec \<Rightarrow> ('r, json) remote" where
  "adapter_reconcile ad ac sp =
     remote_then (adapter_search ad ac (sp_cron_binding_id sp)) (\<lambda>matches.
       case matches of
         [] \<Rightarrow> adapter_create ad ac sp
       | [match] \<Rightarrow>
           if \<not> matching_references match sp
           then remote_raise (Cron_degraded ''the matched Cron has conflicting stable references'' 1)
           else (case cron_id_of match of
               None \<Rightarrow> remote_raise (Cron_degraded ''the matched Agent Server Cron has no usable cron_id'' 1)
             | Some i \<Rightarrow> adapter_update ad ac i sp None)
       | _ \<Rightarrow> remote_raise (Cron_degraded ''multiple Agent Server Crons share one binding'' (int (length matches))))"

section \<open>The worker\<close>

record cron_worker =
  wk_worker_id :: string
  wk_lease_seconds :: int
  wk_retry_micros :: int
  wk_max_attempts :: int

definition mk_cron_worker :: "string \<Rightarrow> int \<Rightarrow> int \<Rightarrow> int \<Rightarrow> cron_worker option" where
  "mk_cron_worker worker_id lease_seconds retry_micros max_attempts =
     (if strip worker_id = [] \<or> lease_seconds < 1 \<or> retry_micros \<le> 0 \<or> max_attempts < 1 then None
      else Some \<lparr>wk_worker_id = worker_id, wk_lease_seconds = lease_seconds, wk_retry_micros = retry_micros,
        wk_max_attempts = max_attempts\<rparr>)"

record cron_context =
  cx_monitor :: monitor_row
  cx_actor :: actor_context
  cx_command_type :: string

record remote_result =
  rr_cron_id :: "string option"
  rr_next_run_at :: "instant option"

definition lease_one ::
  "cron_worker \<Rightarrow> uuid set \<Rightarrow> instant \<Rightarrow> monitor_db \<Rightarrow> (monitor_error, cron_command option \<times> monitor_db) result" where
  "lease_one wk busy clock db =
     rbind (lease_cron_commands busy (wk_worker_id wk) 1 (wk_lease_seconds wk) clock None db) (\<lambda>(leases, db').
       Inr (case leases of [] \<Rightarrow> None | c # _ \<Rightarrow> Some c, db'))"

definition load_context :: "cron_command \<Rightarrow> monitor_db \<Rightarrow> (worker_error, cron_context) result" where
  "load_context c db =
     (case find (command_monitor c) (md_monitors db) of
        None \<Rightarrow> Inl (Worker_failed ''RuntimeError'')
      | Some m \<Rightarrow> (case monitor_owner m (md_directory db) of
          Some (t, w, u, Some b) \<Rightarrow>
            if valid_actor_context (owner_context t w u b)
            then Inr \<lparr>cx_monitor = m, cx_actor = owner_context t w u b, cx_command_type = cc_command_type c\<rparr>
            else Inl (Worker_failed ''ValidationError'')
        | _ \<Rightarrow> Inl (Worker_failed ''RuntimeError'')))"

definition next_run_at_of :: "(string \<Rightarrow> pydatetime option) \<Rightarrow> json \<Rightarrow> instant option" where
  "next_run_at_of parse_iso v = (case json_get ''next_run_date'' v of
     Some (JStr s) \<Rightarrow> (case parse_iso s of Some (Aware t) \<Rightarrow> Some t | Some (Offsetless t) \<Rightarrow> Some t | _ \<Rightarrow> None)
   | _ \<Rightarrow> None)"

definition single_match :: "uuid \<Rightarrow> string \<Rightarrow> json list \<Rightarrow> ('r, json option) remote" where
  "single_match binding reason matches =
     (if 1 < length matches then remote_raise (Cron_degraded reason (int (length matches)))
      else remote_return (case matches of [] \<Rightarrow> None | m # _ \<Rightarrow> Some m))"

definition delete_remote :: "'r adapter \<Rightarrow> cron_context \<Rightarrow> ('r, remote_result) remote" where
  "delete_remote ad cx =
     remote_then (case mo_official_cron_id (cx_monitor cx) of
         Some i \<Rightarrow> remote_return (Some i)
       | None \<Rightarrow> remote_then (adapter_search ad (cx_actor cx) (mo_cron_binding_id (cx_monitor cx))) (\<lambda>matches.
           remote_then (single_match (mo_cron_binding_id (cx_monitor cx))
             ''multiple Agent Server Crons share one binding'' matches) (\<lambda>match.
             remote_return (case match of None \<Rightarrow> None | Some m \<Rightarrow> cron_id_of m)))) (\<lambda>cron_id.
     remote_then (case cron_id of None \<Rightarrow> remote_return () | Some i \<Rightarrow> adapter_delete ad (cx_actor cx) i) (\<lambda>_.
     remote_return \<lparr>rr_cron_id = None, rr_next_run_at = None\<rparr>))"

definition ensure_remote :: "'r adapter \<Rightarrow> cron_context \<Rightarrow> cron_spec \<Rightarrow> ('r, string) remote" where
  "ensure_remote ad cx sp = (case mo_official_cron_id (cx_monitor cx) of
       Some i \<Rightarrow> remote_return i
     | None \<Rightarrow> remote_then (adapter_reconcile ad (cx_actor cx) sp) (\<lambda>reconciled.
         case cron_id_of reconciled of
           Some i \<Rightarrow> remote_return i
         | None \<Rightarrow> remote_then (adapter_search ad (cx_actor cx) (sp_cron_binding_id sp)) (\<lambda>matches.
             case matches of
               [m] \<Rightarrow> (case cron_id_of m of Some i \<Rightarrow> remote_return i
                 | None \<Rightarrow> remote_raise (Worker_failed ''RuntimeError''))
             | _ \<Rightarrow> remote_raise (Cron_degraded ''created Cron could not be reconciled to one binding''
                 (int (length matches))))))"

definition remote_enabled :: "monitor_row \<Rightarrow> bool" where
  "remote_enabled m \<longleftrightarrow> mo_status m \<notin> {''paused'', ''disabled'', ''expired''}"

definition apply_remote ::
  "monitor_params \<Rightarrow> (string \<Rightarrow> pydatetime option) \<Rightarrow> 'r adapter \<Rightarrow> cron_context \<Rightarrow> ('r, remote_result) remote" where
  "apply_remote p parse_iso ad cx =
     remote_then (remote_check (mk_cron_spec p (cx_monitor cx))) (\<lambda>sp.
       if cx_command_type cx = ''delete'' then delete_remote ad cx
       else remote_then (ensure_remote ad cx sp) (\<lambda>cron_id.
         remote_then (adapter_update ad (cx_actor cx) cron_id sp (Some (remote_enabled (cx_monitor cx)))) (\<lambda>updated.
         remote_return \<lparr>rr_cron_id = Some cron_id, rr_next_run_at = next_run_at_of parse_iso updated\<rparr>)))"

definition reconciled_monitor :: "remote_result \<Rightarrow> monitor_row \<Rightarrow> monitor_row" where
  "reconciled_monitor remote m =
     (let m1 = m\<lparr>mo_official_cron_id := rr_cron_id remote, mo_next_run_at := rr_next_run_at remote\<rparr> in
      if mo_status m = ''draft'' then m1\<lparr>mo_status := ''active'', mo_version := mo_version m + 1\<rparr> else m1)"

definition record_success ::
  "cron_worker \<Rightarrow> cron_command \<Rightarrow> uuid \<Rightarrow> remote_result \<Rightarrow> instant \<Rightarrow> monitor_db \<Rightarrow> (monitor_error, monitor_db) result" where
  "record_success wk lease monitor_id remote clock db =
     (case find (\<lambda>m. mo_id m = monitor_id) (md_monitors db) of
        None \<Rightarrow> Inl (Resource_not_found ''monitor disappeared during Cron reconciliation'')
      | Some m \<Rightarrow>
        rbind (flush_monitor (reconciled_monitor remote m) db) (\<lambda>db1.
        rbind (finish_cron_command (cc_id lease) (wk_worker_id wk) (cc_fence_token lease) True None None clock db1)
          (\<lambda>(c, db2). Inr db2)))"

definition degraded_monitor :: "monitor_row \<Rightarrow> monitor_row" where
  "degraded_monitor m = m\<lparr>mo_status := ''degraded'', mo_version := mo_version m + 1\<rparr>"

definition error_name :: "worker_error \<Rightarrow> string" where
  "error_name e = (case e of Cron_degraded reason n \<Rightarrow> ''MonitorCronDegradedError'' | Worker_failed name \<Rightarrow> name)"

definition failure_is_terminal :: "cron_worker \<Rightarrow> cron_command \<Rightarrow> worker_error \<Rightarrow> bool" where
  "failure_is_terminal wk lease e \<longleftrightarrow> (case e of Cron_degraded _ _ \<Rightarrow> True | Worker_failed _ \<Rightarrow> False)
     \<or> wk_max_attempts wk \<le> cc_attempt lease"

definition record_failure ::
  "cron_worker \<Rightarrow> cron_command \<Rightarrow> worker_error \<Rightarrow> instant \<Rightarrow> monitor_db \<Rightarrow> (monitor_error, monitor_db) result" where
  "record_failure wk lease e clock db =
     (let terminal = failure_is_terminal wk lease e;
          db1 = (if \<not> terminal then db else db\<lparr>md_monitors :=
            update_where (\<lambda>m. mo_id m = cc_monitor_id lease \<and> mo_status m \<notin> {''disabled'', ''expired''})
              degraded_monitor (md_monitors db)\<rparr>) in
      rbind (finish_cron_command (cc_id lease) (wk_worker_id wk) (cc_fence_token lease) False (Some (error_name e))
               (if terminal then None else Some (Aware (clock + wk_retry_micros wk))) clock db1)
        (\<lambda>(c, db2). Inr db2))"

definition release_owned_commands :: "cron_worker \<Rightarrow> instant \<Rightarrow> monitor_db \<Rightarrow> monitor_db" where
  "release_owned_commands wk clock db = db\<lparr>md_cron_commands :=
     update_where (\<lambda>c. cc_status c = ''leased'' \<and> cc_lease_owner c = Some (wk_worker_id wk))
       (\<lambda>c. c\<lparr>cc_status := ''pending'', cc_lease_owner := None, cc_lease_expires_at := None,
              cc_available_at := clock\<rparr>) (md_cron_commands db)\<rparr>"

text \<open>One round with nothing in between; the clocks are those of its three transactions.\<close>

definition dispatch_command ::
  "monitor_params \<Rightarrow> (string \<Rightarrow> pydatetime option) \<Rightarrow> 'r adapter \<Rightarrow> cron_worker \<Rightarrow> uuid set \<Rightarrow> instant \<Rightarrow> instant
     \<Rightarrow> monitor_db \<Rightarrow> 'r \<Rightarrow> (monitor_error, bool \<times> monitor_db) result \<times> 'r" where
  "dispatch_command p parse_iso ad wk busy clock clock' db remote =
     (case lease_one wk busy clock db of
        Inl e \<Rightarrow> (Inl e, remote)
      | Inr (None, db1) \<Rightarrow> (Inr (False, db1), remote)
      | Inr (Some lease, db1) \<Rightarrow>
          (case load_context lease db1 of
             Inl e \<Rightarrow> (rbind (record_failure wk lease e clock' db1) (\<lambda>db2. Inr (True, db2)), remote)
           | Inr cx \<Rightarrow> (case apply_remote p parse_iso ad cx remote of
               (Inl e, remote') \<Rightarrow> (rbind (record_failure wk lease e clock' db1) (\<lambda>db2. Inr (True, db2)), remote')
             | (Inr x, remote') \<Rightarrow>
                 (rbind (record_success wk lease (mo_id (cx_monitor cx)) x clock' db1) (\<lambda>db2. Inr (True, db2)),
                  remote'))))"

end
