(* ===== verification/Monitor_Control.thy ===== *)
theory Monitor_Control
  imports Monitor_Worker
begin

text \<open>
  The control plane of the monitors: every transaction that changes a monitor or one of its
  control commands is a step, in any order and by any number of workers, and whatever else
  happens in the database is a step too. The invariant says that a monitor's commands are exactly
  one for each of its revisions, and that the applied revision is the largest one whose command
  succeeded.
\<close>

section \<open>Transactions as steps\<close>

inductive control_step :: "monitor_params \<Rightarrow> monitor_db \<Rightarrow> monitor_db \<Rightarrow> bool" for p where
  creating: "create_monitor p ac new_id binding_id command_id clock rq db0 db = Inr (m, db') \<Longrightarrow> control_step p db db'"
| updating: "update_monitor p ac command_id clock monitor_id uq db = Inr (m, db') \<Longrightarrow> control_step p db db'"
| leasing: "lease_cron_commands busy worker limit seconds clock now db = Inr (cs, db') \<Longrightarrow> control_step p db db'"
| finishing: "finish_cron_command command_id worker fence ok error retry clock db = Inr (c, db')
    \<Longrightarrow> control_step p db db'"
| succeeding: "record_success wk lease monitor_id remote clock db = Inr db' \<Longrightarrow> control_step p db db'"
| failing: "record_failure wk lease e clock db = Inr db' \<Longrightarrow> control_step p db db'"
| releasing: "control_step p db (release_owned_commands wk clock db)"
| elsewhere: "md_monitors db' = md_monitors db \<Longrightarrow> md_cron_commands db' = md_cron_commands db
    \<Longrightarrow> control_step p db db'"

section \<open>The invariant\<close>

definition commands_of :: "uuid \<Rightarrow> cron_command list \<Rightarrow> cron_command list" where
  "commands_of monitor_id cs = filter (\<lambda>c. cc_monitor_id c = monitor_id) cs"

definition applied_revisions :: "uuid \<Rightarrow> cron_command list \<Rightarrow> int set" where
  "applied_revisions monitor_id cs = cc_desired_revision ` {c \<in> set (commands_of monitor_id cs). cc_status c = ''succeeded''}"

definition in_control :: "cron_command list \<Rightarrow> monitor_row \<Rightarrow> bool" where
  "in_control cs m \<longleftrightarrow> 1 \<le> mo_desired_revision m
     \<and> map cc_desired_revision (commands_of (mo_id m) cs) = [1..mo_desired_revision m]
     \<and> mo_applied_revision m = Max (insert 0 (applied_revisions (mo_id m) cs))"

definition control_ok :: "monitor_row list \<Rightarrow> cron_command list \<Rightarrow> bool" where
  "control_ok ms cs \<longleftrightarrow> distinct (map mo_id ms) \<and> distinct (map cc_id cs)
     \<and> (\<forall>c \<in> set cs. \<exists>m \<in> set ms. command_monitor c m) \<and> (\<forall>m \<in> set ms. in_control cs m)"

lemma finite_applied [simp]: "finite (applied_revisions i cs)"
  by (simp add: applied_revisions_def)

lemma applied_le_desired: "in_control cs m \<Longrightarrow> mo_applied_revision m \<le> mo_desired_revision m"
proof -
  assume ok: "in_control cs m"
  have "set (map cc_desired_revision (commands_of (mo_id m) cs)) = {1..mo_desired_revision m}"
    using ok by (simp add: in_control_def)
  then have "r \<le> mo_desired_revision m" if "r \<in> applied_revisions (mo_id m) cs" for r
    using that by (auto simp: applied_revisions_def)
  with ok show ?thesis by (simp add: in_control_def)
qed

section \<open>Kinds of changes\<close>

text \<open>A change of monitors that touches neither identity nor revisions.\<close>

definition keeps_control :: "(monitor_row \<Rightarrow> monitor_row) \<Rightarrow> bool" where
  "keeps_control f \<longleftrightarrow> (\<forall>m. mo_id (f m) = mo_id m \<and> mo_tenant_id (f m) = mo_tenant_id m
     \<and> mo_workspace_id (f m) = mo_workspace_id m \<and> mo_owner_user_id (f m) = mo_owner_user_id m
     \<and> mo_desired_revision (f m) = mo_desired_revision m \<and> mo_applied_revision (f m) = mo_applied_revision m)"

text \<open>A change of commands that only moves leases.\<close>

definition keeps_command :: "(cron_command \<Rightarrow> cron_command) \<Rightarrow> cron_command \<Rightarrow> bool" where
  "keeps_command g c \<longleftrightarrow> cc_id (g c) = cc_id c \<and> cc_tenant_id (g c) = cc_tenant_id c
     \<and> cc_workspace_id (g c) = cc_workspace_id c \<and> cc_owner_user_id (g c) = cc_owner_user_id c
     \<and> cc_monitor_id (g c) = cc_monitor_id c \<and> cc_desired_revision (g c) = cc_desired_revision c
     \<and> cc_fence_token c \<le> cc_fence_token (g c)"

lemma commands_of_map: "\<forall>c \<in> set cs. keeps_command g c \<Longrightarrow> commands_of i (map g cs) = map g (commands_of i cs)"
  by (induction cs) (auto simp: commands_of_def keeps_command_def)

lemma in_control_touch: "keeps_control f \<Longrightarrow> in_control cs (f m) = in_control cs m"
  by (simp add: in_control_def keeps_control_def)

lemma control_ok_touch:
  assumes "control_ok ms cs" and "keeps_control f"
  shows "control_ok (map f ms) cs"
proof -
  have ids: "map mo_id (map f ms) = map mo_id ms" using assms(2) by (simp add: keeps_control_def)
  moreover have "command_monitor c (f m) = command_monitor c m" for c m
    using assms(2) by (simp add: keeps_control_def command_monitor_def)
  ultimately show ?thesis
    using assms unfolding control_ok_def ids by (auto simp: in_control_touch)
qed

lemma control_ok_commands:
  assumes "control_ok ms cs" and g: "\<forall>c \<in> set cs. keeps_command g c \<and> (cc_status (g c) = ''succeeded'') = (cc_status c = ''succeeded'')"
  shows "control_ok ms (map g cs)"
proof -
  have keep: "\<forall>c \<in> set cs. keeps_command g c" using g by blast
  have ids: "map cc_id (map g cs) = map cc_id cs" using keep by (simp add: keeps_command_def)
  have "in_control (map g cs) m = in_control cs m" for m
  proof -
    have "map cc_desired_revision (map g (commands_of i cs)) = map cc_desired_revision (commands_of i cs)" for i
      using keep by (auto simp: commands_of_def keeps_command_def)
    moreover have "applied_revisions i (map g cs) = applied_revisions i cs" for i
      using g unfolding applied_revisions_def commands_of_map [OF keep]
      by (force simp: commands_of_def keeps_command_def image_iff)
    ultimately show ?thesis by (simp add: in_control_def commands_of_map [OF keep] del: map_map)
  qed
  moreover have "command_monitor (g c) m = command_monitor c m" if "c \<in> set cs" for c m
    using keep that by (simp add: keeps_command_def command_monitor_def)
  ultimately show ?thesis
    using assms(1) unfolding control_ok_def ids by auto
qed

section \<open>A new revision\<close>

lemma commands_of_append [simp]:
  "commands_of i (cs @ [c]) = commands_of i cs @ (if cc_monitor_id c = i then [c] else [])"
  by (simp add: commands_of_def)

lemma applied_append [simp]:
  "cc_status c \<noteq> ''succeeded'' \<Longrightarrow> applied_revisions i (cs @ [c]) = applied_revisions i cs"
  by (auto simp: applied_revisions_def)

lemma in_control_append:
  assumes "in_control cs m" and "cc_status c \<noteq> ''succeeded''" and "cc_monitor_id c \<noteq> mo_id m"
  shows "in_control (cs @ [c]) m"
  using assms by (simp add: in_control_def)

lemma in_control_next:
  assumes "in_control cs m" and "cc_status c \<noteq> ''succeeded''" and "cc_monitor_id c = mo_id m"
    and "mo_id m' = mo_id m" and "mo_applied_revision m' = mo_applied_revision m"
    and "mo_desired_revision m' = mo_desired_revision m + 1" and "cc_desired_revision c = mo_desired_revision m'"
  shows "in_control (cs @ [c]) m'"
  using assms upto_rec2 [of 1 "mo_desired_revision m + 1"] by (simp add: in_control_def)

lemma control_ok_create:
  assumes "control_ok ms cs" and "mo_id m \<notin> mo_id ` set ms" and "mo_desired_revision m = 1"
    and "mo_applied_revision m = 0" and "command_monitor c m" and "cc_desired_revision c = 1"
    and "cc_status c \<noteq> ''succeeded''" and "cc_id c \<notin> cc_id ` set cs"
  shows "control_ok (ms @ [m]) (cs @ [c])"
proof -
  have none: "commands_of (mo_id m) cs = []"
    unfolding commands_of_def filter_empty_conv
  proof
    fix d assume "d \<in> set cs"
    then obtain n where "n \<in> set ms" "command_monitor d n" using assms(1) by (auto simp: control_ok_def)
    with assms(2) show "cc_monitor_id d \<noteq> mo_id m" by (metis command_monitor_def image_eqI)
  qed
  have "in_control (cs @ [c]) m"
    using assms(3-7) none by (simp add: in_control_def applied_append) (simp add: applied_revisions_def command_monitor_def)
  moreover have "in_control (cs @ [c]) n" if "n \<in> set ms" for n
    using assms that by (intro in_control_append) (auto simp: control_ok_def command_monitor_def)
  ultimately show ?thesis
    using assms by (auto simp: control_ok_def)
qed

lemma control_ok_change:
  assumes ok: "control_ok ms cs" and "m \<in> set ms" and "mo_id m' = mo_id m" and "mo_tenant_id m' = mo_tenant_id m"
    and "mo_workspace_id m' = mo_workspace_id m" and "mo_owner_user_id m' = mo_owner_user_id m"
    and "mo_applied_revision m' = mo_applied_revision m" and "mo_desired_revision m' = mo_desired_revision m + 1"
    and "command_monitor c m'" and "cc_desired_revision c = mo_desired_revision m'"
    and "cc_status c \<noteq> ''succeeded''" and "cc_id c \<notin> cc_id ` set cs"
  shows "control_ok (update_where (\<lambda>n. mo_id n = mo_id m) (\<lambda>_. m') ms) (cs @ [c])"
proof -
  let ?ms = "update_where (\<lambda>n. mo_id n = mo_id m) (\<lambda>_. m') ms"
  have unique: "n = m" if "n \<in> set ms" "mo_id n = mo_id m" for n
    using ok assms(2) that distinct_map_unique [of mo_id ms] by (auto simp: control_ok_def)
  have ids: "map mo_id ?ms = map mo_id ms"
    by (rule map_key_update_where) (simp add: assms(3))
  have owned: "\<exists>n \<in> set ?ms. command_monitor d n" if "d \<in> set (cs @ [c])" for d
  proof (cases "d = c")
    case True
    with assms(2, 9) show ?thesis by (auto simp: set_update_where)
  next
    case False
    with that ok obtain n where n: "n \<in> set ms" "command_monitor d n" by (auto simp: control_ok_def)
    show ?thesis
    proof (cases "mo_id n = mo_id m")
      case True
      with n unique have "command_monitor d m'" using assms(3-6) by (auto simp: command_monitor_def)
      with assms(2) show ?thesis by (auto simp: set_update_where)
    qed (use n in \<open>force simp: set_update_where\<close>)
  qed
  have "in_control (cs @ [c]) n" if n: "n \<in> set ?ms" for n
  proof (cases "mo_id n = mo_id m")
    case True
    with n assms(3) have "n = m'" by (auto simp: set_update_where split: if_splits)
    moreover have "in_control (cs @ [c]) m'"
      using assms ok by (intro in_control_next [of cs m]) (auto simp: control_ok_def command_monitor_def)
    ultimately show ?thesis by simp
  next
    case False
    with n have "n \<in> set ms" by (auto simp: set_update_where assms(3) split: if_splits)
    with False ok assms(3, 9, 11) show ?thesis
      by (intro in_control_append) (auto simp: control_ok_def command_monitor_def)
  qed
  with owned show ?thesis
    using ok assms(12) unfolding control_ok_def ids by auto
qed

section \<open>A finished command\<close>

lemma applied_insert:
  assumes "distinct (map cc_id cs)" and "c \<in> set cs" and "cc_id c' = cc_id c" and "cc_monitor_id c' = cc_monitor_id c"
    and "cc_desired_revision c' = cc_desired_revision c" and "cc_status c' = ''succeeded''" "cc_status c \<noteq> ''succeeded''"
  shows "applied_revisions i (update_where (\<lambda>x. cc_id x = cc_id c) (\<lambda>_. c') cs)
     = (if cc_monitor_id c = i then insert (cc_desired_revision c) (applied_revisions i cs) else applied_revisions i cs)"
proof -
  have unique: "x = c" if "x \<in> set cs" "cc_id x = cc_id c" for x
    using assms(1, 2) that distinct_map_unique [of cc_id cs] by auto
  have rows: "x \<in> set (update_where (\<lambda>x. cc_id x = cc_id c) (\<lambda>_. c') cs) \<longleftrightarrow> x = c' \<or> x \<in> set cs \<and> x \<noteq> c" for x
    using assms(2) unique by (force simp: set_update_where)
  let ?done = "\<lambda>cs. {x \<in> set (commands_of i cs). cc_status x = ''succeeded''}"
  have "?done (update_where (\<lambda>x. cc_id x = cc_id c) (\<lambda>_. c') cs)
      = (if cc_monitor_id c = i then insert c' (?done cs) else ?done cs)"
    using assms(4, 6, 7) by (auto simp: commands_of_def rows)
  then show ?thesis
    using assms(5) by (simp add: applied_revisions_def)
qed

lemma control_ok_success:
  assumes ok: "control_ok ms cs" and c: "c \<in> set cs" and "cc_status c \<noteq> ''succeeded''"
    and c': "keeps_command (\<lambda>_. c') c" "cc_status c' = ''succeeded''"
  shows "control_ok (update_where (\<lambda>m. command_monitor c m \<and> cc_desired_revision c \<le> mo_desired_revision m) (applied_monitor c) ms)
     (update_where (\<lambda>x. cc_id x = cc_id c) (\<lambda>_. c') cs)"
    (is "control_ok ?ms ?cs")
proof -
  have unique: "x = c" if "x \<in> set cs" "cc_id x = cc_id c" for x
    using ok c that distinct_map_unique [of cc_id cs] by (auto simp: control_ok_def)
  obtain m where m: "m \<in> set ms" "command_monitor c m" using ok c by (auto simp: control_ok_def)
  have this_monitor: "command_monitor c n \<longleftrightarrow> n = m" if "n \<in> set ms" for n
    using ok m that distinct_map_unique [of mo_id ms] by (auto simp: control_ok_def command_monitor_def)
  have "cc_desired_revision c \<in> set [1..mo_desired_revision m]"
  proof -
    have "cc_desired_revision c \<in> set (map cc_desired_revision (commands_of (mo_id m) cs))"
      using c m by (auto simp: commands_of_def command_monitor_def)
    moreover have "map cc_desired_revision (commands_of (mo_id m) cs) = [1..mo_desired_revision m]"
      using ok m(1) by (simp add: control_ok_def in_control_def)
    ultimately show ?thesis by metis
  qed
  then have le: "cc_desired_revision c \<le> mo_desired_revision m" by simp
  have keys: "map mo_id ?ms = map mo_id ms" "map cc_id ?cs = map cc_id cs"
    using c' by (auto intro!: map_key_update_where simp: applied_monitor_def keeps_command_def)
  have same: "command_monitor d (applied_monitor c n) = command_monitor d n" for d n
    by (simp add: command_monitor_def applied_monitor_def)
  have revs: "map cc_desired_revision (commands_of i ?cs) = map cc_desired_revision (commands_of i cs)" for i
    using c' by (auto simp: commands_of_def update_where_def keeps_command_def filter_map o_def
        dest: unique intro!: map_cong filter_cong)
  have applied: "applied_revisions i ?cs = (if cc_monitor_id c = i then insert (cc_desired_revision c) (applied_revisions i cs)
      else applied_revisions i cs)" for i
    using ok c assms(3) c' by (intro applied_insert) (auto simp: control_ok_def keeps_command_def)
  have controlled: "in_control ?cs (if command_monitor c n \<and> cc_desired_revision c \<le> mo_desired_revision n then applied_monitor c n else n)"
    if n: "n \<in> set ms" for n
  proof (cases "n = m")
    case True
    with m le ok n show ?thesis
      by (auto simp: in_control_def revs applied command_monitor_def applied_monitor_def control_ok_def max.commute
          insert_commute [of 0])
  next
    case False
    then have "cc_monitor_id c \<noteq> mo_id n"
      using ok m n distinct_map_unique [of mo_id ms n m] by (auto simp: control_ok_def command_monitor_def)
    with False n this_monitor ok show ?thesis by (simp add: in_control_def revs applied control_ok_def)
  qed
  have owned: "\<exists>n \<in> set ?ms. command_monitor d n" if "d \<in> set ?cs" for d
  proof -
    have "command_monitor c' n = command_monitor c n" for n
      using c'(1) by (simp add: keeps_command_def command_monitor_def)
    moreover have "d = c' \<or> d \<in> set cs" using that by (auto simp: set_update_where)
    ultimately obtain e where "e \<in> set cs" "\<And>n. command_monitor d n = command_monitor e n"
      using c by blast
    with ok obtain n where "n \<in> set ms" "command_monitor d n" by (auto simp: control_ok_def)
    then show ?thesis
      unfolding set_update_where bex_simps by (intro bexI [of _ n]) (auto simp: same)
  qed
  have "\<forall>n \<in> set ?ms. in_control ?cs n"
    unfolding set_update_where ball_simps using controlled by blast
  with ok owned show ?thesis unfolding control_ok_def keys by blast
qed

section \<open>What the transactions do to monitors and commands\<close>

definition control_part :: "monitor_row \<Rightarrow> uuid \<times> uuid \<times> uuid \<times> uuid \<times> int \<times> int" where
  "control_part m = (mo_id m, mo_tenant_id m, mo_workspace_id m, mo_owner_user_id m,
     mo_desired_revision m, mo_applied_revision m)"

lemma keeps_control_iff: "keeps_control f \<longleftrightarrow> (\<forall>m. control_part (f m) = control_part m)"
  by (auto simp: keeps_control_def control_part_def)

lemma change_part:
  assumes "\<And>x r. control_part (set_field x r) = control_part r" and "change check v set_field m = Inr m'"
  shows "control_part m' = control_part m"
  using assms by (auto simp: change_def rbind_Inr_iff split: option.splits)

lemma change_fields_part: "change_fields p clock rq m = Inr m' \<Longrightarrow> control_part m' = control_part m"
  unfolding change_fields_def rbind_Inr_iff
  by (elim exE conjE) ((drule change_part [rotated], simp add: control_part_def)+, simp)

lemma enqueue_Inr:
  assumes "enqueue_cron_command p new_id clock m type key h db = Inr (c, db')"
  shows "db' = db\<lparr>md_cron_commands := md_cron_commands db @ [c]\<rparr> \<and> command_monitor c m
     \<and> cc_desired_revision c = mo_desired_revision m \<and> cc_status c = ''pending'' \<and> cc_fence_token c = 0
     \<and> cc_id c \<notin> cc_id ` set (md_cron_commands db) \<and> cron_check c"
  using assms by (auto simp: enqueue_cron_command_def insert_cron_command_def rbind_Inr_iff Let_def command_monitor_def
      split: if_splits)

text \<open>The effect of creating and of changing a monitor.\<close>

definition control_created :: "monitor_db \<Rightarrow> monitor_db \<Rightarrow> bool" where
  "control_created db db' \<longleftrightarrow> (\<exists>m c. md_monitors db' = md_monitors db @ [m]
     \<and> md_cron_commands db' = md_cron_commands db @ [c]
     \<and> mo_id m \<notin> mo_id ` set (md_monitors db) \<and> mo_desired_revision m = 1 \<and> mo_applied_revision m = 0
     \<and> command_monitor c m \<and> cc_desired_revision c = 1 \<and> cc_status c = ''pending'' \<and> cc_fence_token c = 0
     \<and> cc_id c \<notin> cc_id ` set (md_cron_commands db))"

definition control_changed :: "monitor_db \<Rightarrow> monitor_db \<Rightarrow> bool" where
  "control_changed db db' \<longleftrightarrow> (\<exists>m m' c. m \<in> set (md_monitors db)
     \<and> md_monitors db' = update_where (\<lambda>n. mo_id n = mo_id m) (\<lambda>_. m') (md_monitors db)
     \<and> md_cron_commands db' = md_cron_commands db @ [c]
     \<and> mo_id m' = mo_id m \<and> mo_tenant_id m' = mo_tenant_id m \<and> mo_workspace_id m' = mo_workspace_id m
     \<and> mo_owner_user_id m' = mo_owner_user_id m \<and> mo_applied_revision m' = mo_applied_revision m
     \<and> mo_desired_revision m' = mo_desired_revision m + 1
     \<and> command_monitor c m' \<and> cc_desired_revision c = mo_desired_revision m' \<and> cc_status c = ''pending'' \<and> cc_fence_token c = 0
     \<and> cc_id c \<notin> cc_id ` set (md_cron_commands db))"

lemma create_monitor_effect:
  assumes "create_monitor p ac new_id binding_id command_id clock rq db0 db = Inr (m, db')"
  shows "db' = db \<or> control_created db db'"
proof -
  have "db' = db \<or> (\<exists>m c db1 h key. insert_monitor m db = Inr db1 \<and> mo_desired_revision m = 1 \<and> mo_applied_revision m = 0
     \<and> enqueue_cron_command p command_id clock m ''create'' key h db1 = Inr (c, db'))"
    using assms unfolding create_monitor_def
    by (fastforce simp: rbind_Inr_iff replay_admission_def Let_def new_monitor_def split: if_splits option.splits)
  then show ?thesis
  proof
    assume "\<exists>m c db1 h key. insert_monitor m db = Inr db1 \<and> mo_desired_revision m = 1 \<and> mo_applied_revision m = 0
     \<and> enqueue_cron_command p command_id clock m ''create'' key h db1 = Inr (c, db')"
    then obtain n c db1 h key where n: "insert_monitor n db = Inr db1" "mo_desired_revision n = 1" "mo_applied_revision n = 0"
      and c: "enqueue_cron_command p command_id clock n ''create'' key h db1 = Inr (c, db')" by blast
    have "mo_id n \<notin> mo_id ` set (md_monitors db) \<and> db1 = db\<lparr>md_monitors := md_monitors db @ [n]\<rparr>"
      using n(1) by (auto simp: insert_monitor_def monitor_clash_def split: if_splits)
    with n enqueue_Inr [OF c] show ?thesis by (auto simp: control_created_def)
  qed simp
qed

lemma replace_twice:
  "mo_id m2 = mo_id m1 \<Longrightarrow> replace_monitor m2 (replace_monitor m1 db) = replace_monitor m2 db"
  by (simp add: replace_monitor_def update_where_def)

lemma change_monitor_effect:
  assumes "change_monitor p ac command_id clock rq key h m db = Inr (m', db')" and "m \<in> set (md_monitors db)"
  shows "control_changed db db'"
proof -
  from assms(1) obtain m1 db1 c where m1: "change_fields p clock rq m = Inr m1" and db1: "flush_monitor m1 db = Inr db1"
    and c: "enqueue_cron_command p command_id clock (bump_revisions rq m1) (requested_command_type (um_status rq)) key (Some h)
       (replace_monitor (bump_revisions rq m1) db1) = Inr (c, db')"
    unfolding change_monitor_def rbind_Inr_iff Let_def by auto
  have "db1 = replace_monitor m1 db" using db1 by (auto simp: flush_monitor_def split: if_splits)
  then have db': "replace_monitor (bump_revisions rq m1) db1 = replace_monitor (bump_revisions rq m1) db"
    by (simp add: replace_twice bump_revisions_def)
  show ?thesis
    unfolding control_changed_def
    using enqueue_Inr [OF c [unfolded db']] change_fields_part [OF m1] assms(2)
    by (intro exI [of _ m] exI [of _ "bump_revisions rq m1"] exI [of _ c])
      (auto simp: replace_monitor_def bump_revisions_def control_part_def)
qed

lemma update_monitor_effect:
  assumes "update_monitor p ac command_id clock monitor_id rq db = Inr (m, db')"
  shows "db' = db \<or> control_changed db db'"
proof -
  have "db' = db \<or> (\<exists>n key h. n \<in> set (md_monitors db) \<and> change_monitor p ac command_id clock rq key h n db = Inr (m, db'))"
    using assms unfolding update_monitor_def
    by (auto simp: rbind_Inr_iff scoped_monitor_def dest!: find_Some_iff2 split: if_splits option.splits)
  with change_monitor_effect show ?thesis by blast
qed

text \<open>Leases move without finishing a command, finishing one may succeed.\<close>

definition leases_moved :: "monitor_db \<Rightarrow> monitor_db \<Rightarrow> bool" where
  "leases_moved db db' \<longleftrightarrow> (\<exists>f g. keeps_control f \<and> md_monitors db' = map f (md_monitors db)
     \<and> (\<forall>c \<in> set (md_cron_commands db). keeps_command g c
          \<and> (cc_status (g c) = ''succeeded'') = (cc_status c = ''succeeded''))
     \<and> md_cron_commands db' = map g (md_cron_commands db))"

definition command_succeeded :: "monitor_db \<Rightarrow> monitor_db \<Rightarrow> bool" where
  "command_succeeded db db' \<longleftrightarrow> (\<exists>f c c'. keeps_control f \<and> c \<in> set (md_cron_commands db) \<and> cc_status c \<noteq> ''succeeded''
     \<and> keeps_command (\<lambda>_. c') c \<and> cc_status c' = ''succeeded''
     \<and> md_monitors db' = update_where (\<lambda>m. command_monitor c m \<and> cc_desired_revision c \<le> mo_desired_revision m)
          (applied_monitor c) (map f (md_monitors db))
     \<and> md_cron_commands db' = update_where (\<lambda>x. cc_id x = cc_id c) (\<lambda>_. c') (md_cron_commands db))"

lemma keeps_control_id [simp]: "keeps_control (\<lambda>m. m)"
  by (simp add: keeps_control_def)

lemma keeps_command_refl [simp]: "keeps_command (\<lambda>x. if P x then f x else x) c \<longleftrightarrow> (P c \<longrightarrow> keeps_command f c)"
  by (simp add: keeps_command_def)

lemma lease_effect:
  assumes "lease_cron_commands busy worker limit seconds clock now db = Inr (cs, db')"
    and "distinct (map cc_id (md_cron_commands db))"
  shows "leases_moved db db'"
proof -
  from assms(1) obtain w t where db': "db' = db\<lparr>md_cron_commands :=
      update_where (\<lambda>c. cc_id c \<in> cc_id ` set (due_commands busy limit t db)) (lease_command w (t + seconds * SECOND))
        (md_cron_commands db)\<rparr>"
    by (auto simp: lease_cron_commands_def rbind_Inr_iff Let_def split: if_splits)
  have due: "c \<in> set (md_cron_commands db) \<and> cc_status c \<noteq> ''succeeded''" if "c \<in> set (due_commands busy limit t db)" for c
    using that by (auto simp: due_commands_def leasable_def dest!: in_set_takeD)
  then have open_: "cc_status c \<noteq> ''succeeded''"
    if "c \<in> set (md_cron_commands db)" "cc_id c \<in> cc_id ` set (due_commands busy limit t db)" for c
    using that distinct_map_unique [OF assms(2)] by (metis imageE)
  show ?thesis
    unfolding leases_moved_def db' update_where_def
    by (intro exI [of _ "\<lambda>m. m"] exI [of _ "\<lambda>c. if cc_id c \<in> cc_id ` set (due_commands busy limit t db)
       then lease_command w (t + seconds * SECOND) c else c"])
      (auto simp: lease_command_def keeps_command_def open_)
qed

lemma finish_effect:
  assumes "finish_cron_command command_id worker fence ok error retry clock db1 = Inr (c, db')"
    and "distinct (map cc_id (md_cron_commands db))" and "md_cron_commands db1 = md_cron_commands db"
    and "md_monitors db1 = map f (md_monitors db)" and "keeps_control f"
  shows "leases_moved db db' \<or> command_succeeded db db'"
proof -
  from assms(1) obtain d w r where d: "find (leased_to command_id w fence) (md_cron_commands db) = Some d"
    and c: "c = finished_command clock ok error r d"
    and cs: "md_cron_commands db' = update_where (\<lambda>x. cc_id x = command_id) (\<lambda>_. c) (md_cron_commands db)"
    and ms: "md_monitors db' = (if ok then update_where (\<lambda>m. command_monitor d m \<and> cc_desired_revision d \<le> mo_desired_revision m)
        (applied_monitor d) (map f (md_monitors db)) else map f (md_monitors db))"
    by (auto simp: finish_cron_command_def rbind_Inr_iff Let_def assms(3, 4) split: if_splits option.splits)
  have d': "d \<in> set (md_cron_commands db)" "cc_id d = command_id" "cc_status d = ''leased''"
    using find_Some_iff2 [OF d] by (auto simp: leased_to_def)
  have same: "x = d" if "x \<in> set (md_cron_commands db)" "cc_id x = command_id" for x
    using that d' distinct_map_unique [OF assms(2)] by auto
  have keep: "keeps_command (\<lambda>_. c) d" by (simp add: c keeps_command_def finished_command_def)
  show ?thesis
  proof (cases ok)
    case True
    with d' keep ms cs assms(5) have "command_succeeded db db'"
      unfolding command_succeeded_def
      by (intro exI [of _ f] exI [of _ d] exI [of _ c]) (simp add: c finished_command_def)
    then show ?thesis ..
  next
    case False
    let ?g = "\<lambda>x. if cc_id x = command_id then c else x"
    have "keeps_command ?g x \<and> (cc_status (?g x) = ''succeeded'') = (cc_status x = ''succeeded'')"
      if "x \<in> set (md_cron_commands db)" for x
    proof (cases "cc_id x = command_id")
      case True
      with same that have "x = d" by blast
      with keep d'(3) False show ?thesis by (simp add: c finished_command_def)
    qed (simp add: keeps_command_def)
    with False ms cs assms(5) have "leases_moved db db'"
      unfolding leases_moved_def update_where_def by (intro exI [of _ f] exI [of _ ?g]) simp
    then show ?thesis ..
  qed
qed

lemma record_success_effect:
  assumes "record_success wk lease monitor_id remote clock db = Inr db'"
    and "distinct (map cc_id (md_cron_commands db))" and "distinct (map mo_id (md_monitors db))"
  shows "leases_moved db db' \<or> command_succeeded db db'"
proof -
  from assms(1) obtain m db1 c where m: "find (\<lambda>m. mo_id m = monitor_id) (md_monitors db) = Some m"
    and db1: "flush_monitor (reconciled_monitor remote m) db = Inr db1"
    and c: "finish_cron_command (cc_id lease) (wk_worker_id wk) (cc_fence_token lease) True None None clock db1 = Inr (c, db')"
    by (auto simp: record_success_def rbind_Inr_iff split: option.splits)
  have m': "m \<in> set (md_monitors db)" "mo_id m = monitor_id" using find_Some_iff2 [OF m] by auto
  let ?f = "\<lambda>n. if mo_id n = monitor_id then reconciled_monitor remote n else n"
  have keep: "keeps_control ?f" by (simp add: keeps_control_def reconciled_monitor_def Let_def)
  have unique: "n = m" if "n \<in> set (md_monitors db)" "mo_id n = monitor_id" for n
    using that m' distinct_map_unique [OF assms(3)] by auto
  have "mo_id (reconciled_monitor remote m) = mo_id m" by (simp add: reconciled_monitor_def Let_def)
  with db1 have "md_monitors db1 = map (\<lambda>n. if mo_id n = mo_id m then reconciled_monitor remote m else n) (md_monitors db)"
    by (auto simp: flush_monitor_def replace_monitor_def update_where_def split: if_splits)
  also have "\<dots> = map ?f (md_monitors db)"
    unfolding m'(2) by (rule map_cong [OF refl]) (auto dest: unique)
  finally have "md_monitors db1 = map ?f (md_monitors db)" .
  moreover have "md_cron_commands db1 = md_cron_commands db"
    using db1 by (auto simp: flush_monitor_def replace_monitor_def split: if_splits)
  ultimately show ?thesis using finish_effect [OF c assms(2)] keep by blast
qed

lemma record_failure_effect:
  assumes "record_failure wk lease e clock db = Inr db'" and "distinct (map cc_id (md_cron_commands db))"
  shows "leases_moved db db' \<or> command_succeeded db db'"
proof -
  let ?P = "\<lambda>m. failure_is_terminal wk lease e \<and> mo_id m = cc_monitor_id lease \<and> mo_status m \<notin> {''disabled'', ''expired''}"
  let ?f = "\<lambda>m. if ?P m then degraded_monitor m else m"
  from assms(1) obtain db1 c retry where c: "finish_cron_command (cc_id lease) (wk_worker_id wk) (cc_fence_token lease) False
      (Some (error_name e)) retry clock db1 = Inr (c, db')"
    and "md_monitors db1 = map ?f (md_monitors db)" "md_cron_commands db1 = md_cron_commands db"
    by (auto simp: record_failure_def rbind_Inr_iff Let_def update_where_def split: if_splits)
  moreover have "keeps_control ?f" by (simp add: keeps_control_def degraded_monitor_def)
  ultimately show ?thesis using finish_effect [OF c assms(2)] by blast
qed

lemma release_effect: "leases_moved db (release_owned_commands wk clock db)"
  unfolding leases_moved_def release_owned_commands_def update_where_def
  by (intro exI [of _ "\<lambda>m. m"] exI [of _ "\<lambda>c. if cc_status c = ''leased'' \<and> cc_lease_owner c = Some (wk_worker_id wk)
      then c\<lparr>cc_status := ''pending'', cc_lease_owner := None, cc_lease_expires_at := None, cc_available_at := clock\<rparr> else c"])
    (auto simp: keeps_command_def)

section \<open>The invariant is kept\<close>

definition in_order :: "monitor_db \<Rightarrow> bool" where
  "in_order db \<longleftrightarrow> control_ok (md_monitors db) (md_cron_commands db)"

lemma control_step_cases:
  assumes "control_step p db db'" and "in_order db"
  shows "md_monitors db' = md_monitors db \<and> md_cron_commands db' = md_cron_commands db \<or> control_created db db'
     \<or> control_changed db db' \<or> leases_moved db db' \<or> command_succeeded db db'"
  using assms(1)
proof cases
  case creating
  with create_monitor_effect show ?thesis by blast
next
  case updating
  with update_monitor_effect show ?thesis by blast
next
  case leasing
  with lease_effect assms(2) show ?thesis unfolding in_order_def control_ok_def by blast
next
  case finishing
  with finish_effect [where f = "\<lambda>m. m"] assms(2) show ?thesis
    unfolding in_order_def control_ok_def by (metis list.map_ident keeps_control_id)
next
  case succeeding
  with record_success_effect assms(2) show ?thesis unfolding in_order_def control_ok_def by blast
next
  case failing
  with record_failure_effect assms(2) show ?thesis unfolding in_order_def control_ok_def by blast
next
  case releasing
  then show ?thesis using release_effect by blast
qed simp

lemma in_order_step:
  assumes "control_step p db db'" and "in_order db"
  shows "in_order db'"
  using control_step_cases [OF assms]
proof (elim disjE)
  assume "control_created db db'"
  with assms(2) show ?thesis by (auto simp: control_created_def in_order_def intro!: control_ok_create)
next
  assume "control_changed db db'"
  then show ?thesis
    unfolding control_changed_def in_order_def
    using assms(2) by (elim exE conjE) (simp add: in_order_def control_ok_change)
next
  assume "leases_moved db db'"
  then obtain f g where fg: "keeps_control f" "md_monitors db' = map f (md_monitors db)"
    "\<forall>c \<in> set (md_cron_commands db). keeps_command g c \<and> (cc_status (g c) = ''succeeded'') = (cc_status c = ''succeeded'')"
    "md_cron_commands db' = map g (md_cron_commands db)"
    unfolding leases_moved_def by blast
  from control_ok_commands [OF control_ok_touch [OF assms(2) [unfolded in_order_def] fg(1)] fg(3)] fg(2, 4)
  show ?thesis by (simp add: in_order_def)
next
  assume "command_succeeded db db'"
  with assms(2) show ?thesis
    by (auto simp: command_succeeded_def in_order_def intro!: control_ok_success control_ok_touch)
qed (use assms(2) in \<open>simp add: in_order_def\<close>)

lemma in_order_steps: "(control_step p)\<^sup>*\<^sup>* db db' \<Longrightarrow> in_order db \<Longrightarrow> in_order db'"
  by (induction rule: rtranclp_induct) (auto intro: in_order_step)

section \<open>Fences\<close>

definition fence_of :: "uuid \<Rightarrow> monitor_db \<Rightarrow> int" where
  "fence_of k db = (case find (\<lambda>c. cc_id c = k) (md_cron_commands db) of None \<Rightarrow> 0 | Some c \<Rightarrow> cc_fence_token c)"

definition command_leased :: "uuid \<Rightarrow> int \<Rightarrow> monitor_db \<Rightarrow> bool" where
  "command_leased k f db \<longleftrightarrow> (\<exists>worker. find (leased_to k worker f) (md_cron_commands db) \<noteq> None)"

definition fences_ok :: "monitor_db \<Rightarrow> bool" where
  "fences_ok db \<longleftrightarrow> in_order db \<and> (\<forall>c \<in> set (md_cron_commands db). 0 \<le> cc_fence_token c)"

lemma find_id:
  assumes "distinct (map cc_id cs)" and "c \<in> set cs"
  shows "find (\<lambda>x. cc_id x = cc_id c) cs = Some c"
  using assms by (induction cs) auto

lemma fence_of_row: "distinct (map cc_id (md_cron_commands db)) \<Longrightarrow> c \<in> set (md_cron_commands db)
    \<Longrightarrow> fence_of (cc_id c) db = cc_fence_token c"
  by (simp add: fence_of_def find_id)

lemma fence_of_map:
  assumes "\<forall>c \<in> set (md_cron_commands db). keeps_command g c" and "md_cron_commands db' = map g (md_cron_commands db)"
  shows "fence_of k db \<le> fence_of k db'"
proof -
  have "(case find (\<lambda>c. cc_id c = k) cs of None \<Rightarrow> 0 | Some c \<Rightarrow> cc_fence_token c)
      \<le> (case find (\<lambda>c. cc_id c = k) (map g cs) of None \<Rightarrow> 0 | Some c \<Rightarrow> cc_fence_token c)"
    if "\<forall>c \<in> set cs. keeps_command g c" for cs
    using that by (induction cs) (auto simp: keeps_command_def)
  with assms show ?thesis by (simp add: fence_of_def)
qed

lemma fence_of_append:
  assumes "md_cron_commands db' = md_cron_commands db @ [c]" and "0 \<le> cc_fence_token c"
  shows "fence_of k db \<le> fence_of k db'"
proof -
  have "(case find (\<lambda>c. cc_id c = k) cs of None \<Rightarrow> 0 | Some c \<Rightarrow> cc_fence_token c)
      \<le> (case find (\<lambda>c. cc_id c = k) (cs @ [c]) of None \<Rightarrow> 0 | Some c \<Rightarrow> cc_fence_token c)" for cs
    using assms(2) by (induction cs) auto
  with assms(1) show ?thesis by (simp add: fence_of_def)
qed

lemma rows_step:
  assumes "control_step p db db'" and "in_order db"
  shows "md_cron_commands db' = md_cron_commands db
     \<or> (\<exists>c. md_cron_commands db' = md_cron_commands db @ [c] \<and> cc_fence_token c = 0)
     \<or> (\<exists>g. md_cron_commands db' = map g (md_cron_commands db) \<and> (\<forall>c \<in> set (md_cron_commands db). keeps_command g c))"
  using control_step_cases [OF assms]
proof (elim disjE)
  assume "command_succeeded db db'"
  then obtain c c' where c: "c \<in> set (md_cron_commands db)" "keeps_command (\<lambda>_. c') c"
    "md_cron_commands db' = update_where (\<lambda>x. cc_id x = cc_id c) (\<lambda>_. c') (md_cron_commands db)"
    unfolding command_succeeded_def by blast
  have same: "x = c" if "x \<in> set (md_cron_commands db)" "cc_id x = cc_id c" for x
    using that c(1) assms(2) distinct_map_unique [of cc_id] by (auto simp: in_order_def control_ok_def)
  have "keeps_command (\<lambda>x. if cc_id x = cc_id c then c' else x) x" if "x \<in> set (md_cron_commands db)" for x
    using same [OF that] c(2) by (cases "cc_id x = cc_id c") (simp_all add: keeps_command_def)
  with c(3) show ?thesis unfolding update_where_def by blast
next
  assume "leases_moved db db'"
  then show ?thesis unfolding leases_moved_def by blast
qed (auto simp: control_created_def control_changed_def)

interpretation cron_fence: fenced_lease "control_step p" fence_of command_leased fences_ok for p
proof
  fix db db' :: monitor_db and k f
  show "fences_ok db'" if step: "control_step p db db'" and ok: "fences_ok db"
    using rows_step [OF step] ok in_order_step [OF step]
    by (auto simp: fences_ok_def) (force simp: keeps_command_def)
  show "fence_of k db \<le> fence_of k db'" if step: "control_step p db db'" and ok: "fences_ok db"
  proof -
    have "in_order db" using ok by (simp add: fences_ok_def)
    from rows_step [OF step this] show ?thesis
    proof (elim disjE exE conjE)
      fix c assume "md_cron_commands db' = md_cron_commands db @ [c]" "cc_fence_token c = 0"
      then show ?thesis by (intro fence_of_append) auto
    next
      fix g assume "md_cron_commands db' = map g (md_cron_commands db)" "\<forall>c \<in> set (md_cron_commands db). keeps_command g c"
      then show ?thesis by (intro fence_of_map)
    qed (simp add: fence_of_def)
  qed
  show "fence_of k db = f" if ok: "fences_ok db" and lease: "command_leased k f db"
  proof -
    from lease obtain w c where "find (leased_to k w f) (md_cron_commands db) = Some c"
      by (auto simp: command_leased_def)
    then have "c \<in> set (md_cron_commands db)" "cc_id c = k" "cc_fence_token c = f"
      by (auto simp: leased_to_def dest!: find_Some_iff2)
    with ok fence_of_row [of db c] show ?thesis by (simp add: fences_ok_def in_order_def control_ok_def)
  qed
qed

lemma finish_needs_lease:
  "finish_cron_command k worker f ok error retry clock db = Inr r \<Longrightarrow> command_leased k f db"
  by (auto simp: finish_cron_command_def rbind_Inr_iff command_leased_def split: if_splits option.splits)

lemma lease_advances_fence:
  assumes "lease_cron_commands busy worker limit seconds clock now db = Inr (cs, db')" and "in_order db" and "c \<in> set cs"
  shows "fence_of (cc_id c) db' = cc_fence_token c \<and> fence_of (cc_id c) db < cc_fence_token c"
proof -
  from assms(1) obtain w t where db': "db' = db\<lparr>md_cron_commands :=
      update_where (\<lambda>c. cc_id c \<in> cc_id ` set (due_commands busy limit t db)) (lease_command w (t + seconds * SECOND))
        (md_cron_commands db)\<rparr>"
    and cs: "cs = map (lease_command w (t + seconds * SECOND)) (due_commands busy limit t db)"
    by (auto simp: lease_cron_commands_def rbind_Inr_iff Let_def split: if_splits)
  from assms(3) cs obtain d where d: "d \<in> set (due_commands busy limit t db)" "c = lease_command w (t + seconds * SECOND) d"
    by auto
  then have row: "d \<in> set (md_cron_commands db)" by (auto simp: due_commands_def dest!: in_set_takeD)
  have ids: "map cc_id (md_cron_commands db') = map cc_id (md_cron_commands db)"
    unfolding db' by (simp add: map_key_update_where lease_command_def)
  have "c \<in> set (md_cron_commands db')" using d row unfolding db' by (auto simp: set_update_where)
  with ids assms(2) row d(2) fence_of_row [of db' c] fence_of_row [of db d] show ?thesis
    by (simp add: in_order_def control_ok_def lease_command_def)
qed

end
