(* ===== verification/Usage_Properties.thy ===== *)
theory Usage_Properties
  imports Usage_Governance
begin

text \<open>
  What the usage ledger guarantees: periods partition time, an admission never exceeds the
  quota, recording a run's usage and repairing a month are idempotent, and a repair of a
  workspace without a ledger accounts exactly for its product rows.
\<close>

section \<open>Appending facts is writing their entries\<close>

definition fact_entries ::
  "resolved_actor \<Rightarrow> (string \<Rightarrow> uuid) \<Rightarrow> instant \<Rightarrow> uuid \<Rightarrow> instant \<Rightarrow> usage_fact list \<Rightarrow> ledger_entry list" where
  "fact_entries ra fresh created_at entitlement_id period_start fs =
     map (\<lambda>f. entry_of_fact ra (fresh (uf_idempotency_key f)) created_at f entitlement_id period_start) fs"

lemma append_facts_write_all:
  "append_facts ra fresh c e ps fs l = write_all append_entry (fact_entries ra fresh c e ps fs) l"
proof (induction fs arbitrary: l)
  case (Cons f fs)
  show ?case
  proof (cases "append_fact ra (fresh (uf_idempotency_key f)) c e ps f l")
    case (Inr r)
    with Cons show ?thesis by (cases r) (simp add: fact_entries_def append_fact_def)
  qed (simp add: fact_entries_def append_fact_def)
qed (simp add: fact_entries_def)

lemma entry_of_fact_facts [simp]:
  "ledger_key (entry_of_fact ra i c f e ps) = (ra_tenant_id ra, ra_workspace_id ra, uf_idempotency_key f)"
  "in_period ra t (entry_of_fact ra i c f e ps) = (ps = t)"
  "le_unit (entry_of_fact ra i c f e ps) = unit_str (uf_unit f)"
  "le_quantity (entry_of_fact ra i c f e ps) = uf_quantity f"
  "ledger_check (entry_of_fact ra i c f e ps)
     = (1 \<le> uf_quantity f \<and> length (uf_source_receipt_hash f) = 64)"
  by (simp_all add: entry_of_fact_def ledger_key_def in_period_def ledger_check_def)

text \<open>Being recorded does not depend on the identifier, the time or the entitlement of the row.\<close>

lemma recorded_in_fact [simp]:
  "recorded_in (entry_of_fact ra i c f e ps) l \<longleftrightarrow> (1 \<le> uf_quantity f
     \<and> length (uf_source_receipt_hash f) = 64)
     \<and> (ra_tenant_id ra, ra_workspace_id ra, uf_idempotency_key f) \<in> ledger_key ` set l"
  by (simp add: recorded_in_def)

lemma recorded_facts_replay:
  assumes "write_all append_entry (fact_entries ra fresh c e ps fs) l = Inr l1"
    and "write_all append_entry others l1 = Inr l2" and "set gs \<subseteq> set fs"
  shows "append_facts ra fresh' c' e' ps' gs l2 = Inr l2"
proof -
  have "recorded_in (entry_of_fact ra (fresh (uf_idempotency_key f)) c f e ps) l2" if "f \<in> set fs" for f
    using ledger.kept_by_all [OF assms(2)] ledger.recorded_by_all [OF assms(1)] that
    by (auto simp: fact_entries_def simp del: recorded_in_fact)
  then have "\<forall>x \<in> set (fact_entries ra fresh' c' e' ps' gs). recorded_in x l2"
    using assms(3) by (auto simp: fact_entries_def)
  then show ?thesis by (simp add: append_facts_write_all ledger.replay_all_of)
qed

lemma write_new_entries:
  assumes "write_all append_entry es l = Inr l'" and "distinct (map ledger_key es)"
    and "ledger_key ` set es \<inter> ledger_key ` set l = {}"
  shows "l' = l @ es"
  using assms
proof (induction es arbitrary: l)
  case (Cons e es)
  from Cons.prems(1) obtain x m where run: "append_entry e l = Inr (x, m)" and rest: "write_all append_entry es m = Inr l'"
    by (auto simp: rbind_Inr_iff)
  have "m = l @ [e]" using append_entry_cases [OF run] Cons.prems(3) by auto
  with Cons.IH [OF rest] Cons.prems(2, 3) show ?case by auto
qed simp

lemma write_all_keeps: "write_all append_entry es l = Inr l' \<Longrightarrow> set l \<subseteq> set l'"
proof (induction es arbitrary: l)
  case (Cons e es)
  from Cons.prems obtain x m where run: "append_entry e l = Inr (x, m)" and rest: "write_all append_entry es m = Inr l'"
    by (auto simp: rbind_Inr_iff)
  show ?case using append_entry_cases [OF run] Cons.IH [OF rest] by auto
qed simp

section \<open>Periods\<close>

lemma day_div_iff: "a \<le> s div DAY \<longleftrightarrow> a * DAY \<le> s"
proof
  assume "a \<le> s div DAY"
  then have "a * DAY \<le> s div DAY * DAY" by (rule mult_right_mono) (simp add: less_imp_le)
  also have "\<dots> \<le> s" using pos_mod_sign [OF DAY_pos, of s] div_mult_mod_eq [of s DAY] by linarith
  finally show "a * DAY \<le> s" .
next
  assume "a * DAY \<le> s"
  then have "a * DAY div DAY \<le> s div DAY" by (rule zdiv_mono1) simp
  then show "a \<le> s div DAY" by simp
qed

text \<open>
  The accounting periods partition time into months: an instant lies in the period its month
  starts, the next period starts where this one ends, and every instant between the two starts
  has this period, the start included.
\<close>

theorem usage_periods_partition:
  assumes "next_month (month_start t) = Inr b"
  shows "month_start t \<le> t \<and> t < b
     \<and> (month_start s = month_start t \<longleftrightarrow> month_start t \<le> s \<and> s < b) \<and> month_start b = b"
proof -
  define k where "k = month_of_day (t div DAY)"
  have b: "b = month_first (k + 1) * DAY" using assms by (simp add: next_of_month_start k_def)
  have start: "month_start t = month_first k * DAY" by (simp add: month_start_def k_def)
  have mono: "j < i \<Longrightarrow> month_first j * DAY < month_first i * DAY" for i j
    using month_first_mono [of j i] by simp
  have low: "month_start s \<le> s" and high: "s < month_first (month_of_day (s div DAY) + 1) * DAY"
    using month_start_spec [of s] by auto
  have "month_start s = month_start t" if s: "month_start t \<le> s" "s < b"
  proof -
    have "month_first k \<le> s div DAY" "s div DAY < month_first (k + 1)"
      using s day_div_iff [of "month_first k" s] day_div_iff [of "month_first (k + 1)" s]
      unfolding b start by linarith+
    then have "month_of_day (s div DAY) = k" by (intro month_of_day_unique)
    then show ?thesis by (simp add: month_start_def k_def)
  qed
  moreover have "s < b" if "month_start s = month_start t"
  proof -
    have "month_of_day (s div DAY) = k"
      using that mono [of k "month_of_day (s div DAY)"] mono [of "month_of_day (s div DAY)" k] start
      by (cases k "month_of_day (s div DAY)" rule: linorder_cases) (auto simp: month_start_def)
    with high show ?thesis by (simp add: b)
  qed
  ultimately show ?thesis using month_start_spec [of t] low
    by (auto simp: b k_def month_start_def)
qed

theorem usage_periods_partition_witness:
  "\<exists>b. next_month (month_start 0) = Inr b \<and> 0 < b"
  using usage_periods_partition [OF next_of_month_start, of 0] next_of_month_start [of 0] by blast

section \<open>Admission\<close>

lemma admit_agent_Inr:
  assumes "admit_agent p ra i task_type rt rid key now owner db = Inr (x, db')"
  obtains e ledger' where "require_entitlement ra now (ud_entitlements db) = Inr e"
    "task_type \<in> set (en_allowed_task_types e)" "active_operations ra db < en_max_concurrent_tasks e"
    "unit_total ra ''agent_admission'' (month_start now) (ud_ledger db) < en_monthly_agent_admission_limit e"
    "append_entry (entry_of_fact ra i now (admission_fact p ra task_type rt rid key owner) (en_id e) (month_start now))
       (ud_ledger db) = Inr (x, ledger')"
    "db' = db\<lparr>ud_ledger := ledger'\<rparr>"
  using assms by (auto simp: admit_agent_def rbind_Inr_iff total_def append_fact_def split: if_splits)

text \<open>
  C21. An agent operation is admitted only under an entitlement that is active at that time, for
  a task type the entitlement allows and with fewer operations active than it permits, and after
  the admission the month's total is still within the monthly limit. The ledger then holds one
  row more, or the row that was there for the same key.
\<close>

theorem admission_within_quota:
  assumes "admit_agent p ra i task_type rt rid key now owner db = Inr (x, db')"
  shows "\<exists>e. require_entitlement ra now (ud_entitlements db) = Inr e \<and> entitled e now
     \<and> task_type \<in> set (en_allowed_task_types e) \<and> active_operations ra db < en_max_concurrent_tasks e
     \<and> unit_total ra ''agent_admission'' (month_start now) (ud_ledger db') \<le> en_monthly_agent_admission_limit e
     \<and> x \<in> set (ud_ledger db') \<and> le_idempotency_key x = key
     \<and> (ud_ledger db' = ud_ledger db \<or> ud_ledger db' = ud_ledger db @ [x])"
  using assms
proof (rule admit_agent_Inr)
  fix e ledger'
  assume ent: "require_entitlement ra now (ud_entitlements db) = Inr e"
    and allowed: "task_type \<in> set (en_allowed_task_types e)" "active_operations ra db < en_max_concurrent_tasks e"
    and below: "unit_total ra ''agent_admission'' (month_start now) (ud_ledger db) < en_monthly_agent_admission_limit e"
    and run: "append_entry (entry_of_fact ra i now (admission_fact p ra task_type rt rid key owner) (en_id e) (month_start now))
       (ud_ledger db) = Inr (x, ledger')" (is "append_entry ?e _ = _")
    and db': "db' = db\<lparr>ud_ledger := ledger'\<rparr>"
  have "uf_quantity (admission_fact p ra task_type rt rid key owner) = 1"
    "uf_idempotency_key (admission_fact p ra task_type rt rid key owner) = key"
    by (simp_all add: admission_fact_def)
  moreover from this have "unit_total ra ''agent_admission'' (month_start now) ledger'
      \<le> unit_total ra ''agent_admission'' (month_start now) (ud_ledger db) + 1"
    by (simp add: append_entry_total [OF run])
  moreover have "entitled e now"
    using ent by (auto simp: require_entitlement_def split: option.splits if_splits)
  ultimately show ?thesis
    using ent allowed below append_entry_cases [OF run] by (auto simp: db' ledger_key_def entry_of_fact_def)
qed

definition sample_entitlement :: entitlement where
  "sample_entitlement = \<lparr>en_id = ''e'', en_tenant_id = ''t'', en_workspace_id = ''w'', en_active = True,
     en_active_monitor_limit = 20, en_min_interval_seconds = 300, en_max_concurrent_tasks = 5,
     en_monthly_trigger_limit = 10, en_allowed_task_types = [''market_analysis''],
     en_monthly_agent_admission_limit = 1, en_monthly_model_token_limit = 100,
     en_monthly_search_request_limit = 100, en_monthly_runtime_millisecond_limit = 100,
     en_storage_byte_limit = 100, en_max_retention_days = 30, en_valid_from = 0, en_valid_until = None\<rparr>"

definition sample_usage :: usage_params where
  "sample_usage = \<lparr>up_hash = (\<lambda>j. replicate 64 CHR ''a''), up_size = (\<lambda>j. 1), up_millis = (\<lambda>d. d div 1000),
     up_text = (\<lambda>j. [])\<rparr>"

definition sample_usage_db :: usage_db where
  "sample_usage_db = \<lparr>ud_entitlements = [sample_entitlement],
     ud_tasks = [\<lparr>tr_id = ''k'', tr_tenant_id = ''t'', tr_workspace_id = ''w'', tr_owner_user_id = ''u'',
        tr_thread_id = ''h'', tr_task_type = ''market_analysis'', tr_status = ''running'', tr_idempotency_key = ''k'',
        tr_request_payload_hash = [], tr_request_payload = JNull, tr_completed_at = None, tr_created_at = 5\<rparr>],
     ud_reviews = [], ud_triggers = [], ud_runs = [], ud_ledger = [], ud_reconciliations = []\<rparr>"

lemmas usage_sample_defs = sample_actor_def sample_entitlement_def sample_usage_def sample_usage_db_def

lemma sample_run_admission:
  "is_ok (admit_agent sample_usage sample_actor ''i'' ''market_analysis'' ''task'' ''r'' ''key'' 7 None sample_usage_db)"
  by (simp add: usage_sample_defs admit_agent_def require_entitlement_def entitled_def active_operations_def
      total_def unit_total_def USAGE_UNITS_def append_fact_def append_entry_def ledger_check_def
      entry_of_fact_def admission_fact_def)

theorem admission_within_quota_witness:
  "\<exists>x db'. admit_agent sample_usage sample_actor ''i'' ''market_analysis'' ''task'' ''r'' ''key'' 7 None
       sample_usage_db = Inr (x, db') \<and> x \<in> set (ud_ledger db')"
proof -
  obtain x db' where run: "admit_agent sample_usage sample_actor ''i'' ''market_analysis'' ''task'' ''r'' ''key''
      7 None sample_usage_db = Inr (x, db')"
    using sample_run_admission by (auto simp: is_ok_def split: sum.splits)
  from admission_within_quota [OF run] run show ?thesis by blast
qed

section \<open>Receipts of a run\<close>

text \<open>
  Recording the usage of a run is idempotent: once it succeeded, recording the same run again,
  at any later time and after any other rows were written, changes nothing in the ledger.
\<close>

theorem run_receipts_idempotent:
  assumes "append_run_usage_receipts p fresh now entitlements ra run l = Inr l1"
    and "write_all append_entry others l1 = Inr l2"
  shows "append_run_usage_receipts p fresh' now' entitlements ra run l2 = Inr l2"
proof -
  obtain e where e: "find (\<lambda>e. en_tenant_id e = ra_tenant_id ra \<and> en_workspace_id e = ra_workspace_id ra)
      entitlements = Some e"
    using assms(1) by (auto simp: append_run_usage_receipts_def split: option.splits)
  then obtain ps where "append_facts ra fresh now (en_id e) ps (run_usage_facts p run) l = Inr l1"
    using assms(1) by (auto simp: append_run_usage_receipts_def)
  then have "write_all append_entry (fact_entries ra fresh now (en_id e) ps (run_usage_facts p run)) l = Inr l1"
    by (simp add: append_facts_write_all)
  from recorded_facts_replay [OF this assms(2), of "run_usage_facts p run"] e show ?thesis
    by (simp add: append_run_usage_receipts_def)
qed

definition sample_run :: run_row where
  "sample_run = \<lparr>rn_id = ''r'', rn_tenant_id = ''t'', rn_workspace_id = ''w'', rn_owner_user_id = ''u'',
     rn_thread_id = ''h'', rn_task_id = ''k'', rn_attempt = 1, rn_status = ''succeeded'',
     rn_official_assistant_id = None, rn_official_run_id = None, rn_checkpoint_id = None, rn_input_payload = JNull,
     rn_output_payload = Some (JObj [(''artifact'', JObj [(''model_audits'',
        JArr [JObj [(''total_tokens'', JInt 120)], JObj [(''total_tokens'', JInt 80)]])])]),
     rn_failure_code = None, rn_failure_message = None, rn_started_at = Some 0, rn_finished_at = Some 2500000,
     rn_last_heartbeat_at = None, rn_reconciliation_deadline_at = None, rn_projection_fence = 0,
     rn_terminal_output_hash = None, rn_cancel_requested_at = None, rn_observed_terminal_status = None,
     rn_official_stream_last_event_id = None, rn_official_stream_last_event_at = None,
     rn_resume_of_run_id = None, rn_retry_of_run_id = None, rn_forked_from_run_id = None,
     rn_forked_from_checkpoint_id = None\<rparr>"

lemma sample_run_recorded:
  "is_ok (append_run_usage_receipts sample_usage (\<lambda>k. k) 3000000 [sample_entitlement] sample_actor sample_run [])"
  "map uf_quantity (run_usage_facts sample_usage sample_run) = [200, 2500, 1]"
  by code_simp+

theorem run_receipts_idempotent_witness:
  "\<exists>l. append_run_usage_receipts sample_usage (\<lambda>k. k) 3000000 [sample_entitlement] sample_actor sample_run [] = Inr l
     \<and> append_run_usage_receipts sample_usage (\<lambda>k. ''x'') 9000000 [sample_entitlement] sample_actor sample_run l = Inr l"
proof -
  obtain l where run: "append_run_usage_receipts sample_usage (\<lambda>k. k) 3000000 [sample_entitlement] sample_actor
      sample_run [] = Inr l"
    using sample_run_recorded(1) by (auto simp: is_ok_def split: sum.splits)
  have "write_all append_entry [] l = Inr l" by simp
  from run_receipts_idempotent [OF run this] run show ?thesis by blast
qed

section \<open>Repair\<close>

lemma source_facts_frame [simp]:
  "source_facts p ra ps (db\<lparr>ud_ledger := l\<rparr>) = source_facts p ra ps db"
  "source_facts p ra ps (db\<lparr>ud_reconciliations := rs\<rparr>) = source_facts p ra ps db"
  by (simp_all add: source_facts_def)

lemma reconcile_Inr:
  assumes "reconcile p ra fresh i ps repair now db = Inr (r, db')"
  obtains e facts ledger' where "require_entitlement ra now (ud_entitlements db) = Inr e"
    "source_facts p ra ps db = Inr facts"
    "(if repair then repair_ledger ra fresh now (en_id e) ps facts (ud_ledger db) else Inr (ud_ledger db)) = Inr ledger'"
    "reconciliation_check (reconciliation_of p ra i ps repair facts ledger')"
    "ud_ledger db' = ledger'" "ud_entitlements db' = ud_entitlements db" "source_facts p ra ps db' = Inr facts"
    "reconciliation_key (reconciliation_of p ra i ps repair facts ledger')
       \<in> reconciliation_key ` set (ud_reconciliations db')"
    "ud_reconciliations db = [] \<Longrightarrow> r = reconciliation_of p ra i ps repair facts ledger'"
proof -
  let ?rec = "reconciliation_of p ra i ps repair"
  let ?insert = "\<lambda>facts ledger'. (case find (\<lambda>x. reconciliation_key x = reconciliation_key (?rec facts ledger'))
       (ud_reconciliations db) of
         Some x \<Rightarrow> Inr (x, db\<lparr>ud_ledger := ledger'\<rparr>)
       | None \<Rightarrow> Inr (?rec facts ledger', db\<lparr>ud_ledger := ledger',
           ud_reconciliations := insert_unless reconciliation_key (?rec facts ledger') (ud_reconciliations db)\<rparr>)) :: (usage_error, reconciliation \<times> usage_db) result"
  from assms obtain e facts ledger' where parts: "require_entitlement ra now (ud_entitlements db) = Inr e"
    "source_facts p ra ps db = Inr facts"
    "(if repair then repair_ledger ra fresh now (en_id e) ps facts (ud_ledger db) else Inr (ud_ledger db)) = Inr ledger'"
    and final: "(if \<not> reconciliation_check (?rec facts ledger') then Inl Integrity_error else ?insert facts ledger')
       = Inr (r, db')"
    unfolding reconcile_def rbind_Inr_iff Let_def by blast
  from final have check: "reconciliation_check (?rec facts ledger')" by (auto split: if_splits)
  with final have rest: "?insert facts ledger' = Inr (r, db')" by (simp only: not_True_eq_False if_False)
  have key: "reconciliation_key (?rec facts ledger') \<in> reconciliation_key ` set (ud_reconciliations db')"
    using rest by (auto simp: insert_unless_def dest!: find_Some_iff2 split: option.splits intro: rev_image_eqI)
  have rows: "ud_ledger db' = ledger'" "ud_entitlements db' = ud_entitlements db"
    "source_facts p ra ps db' = Inr facts" "ud_reconciliations db = [] \<Longrightarrow> r = ?rec facts ledger'"
    using rest parts(2) by (auto split: option.splits)
  show thesis by (rule that [OF parts check rows(1-3) key rows(4)])
qed

text \<open>
  C23. Repair is idempotent. When a month has been repaired, repairing it again at any later time
  under the entitlement, with the product rows unchanged, answers with a receipt of the same
  totals and changes nothing: the ledger grows only by facts that were missing.
\<close>

theorem repair_is_idempotent:
  assumes "reconcile p ra fresh i ps True now db = Inr (r, db')"
    and "require_entitlement ra now' (ud_entitlements db) = Inr e'"
  shows "\<exists>r'. reconcile p ra fresh' j ps True now' db' = Inr (r', db') \<and> r' \<in> set (ud_reconciliations db')
     \<and> set (ud_ledger db) \<subseteq> set (ud_ledger db')"
  using assms(1)
proof (rule reconcile_Inr)
  fix e facts ledger'
  assume facts: "source_facts p ra ps db' = Inr facts" and ents: "ud_entitlements db' = ud_entitlements db"
    and repaired: "(if True then repair_ledger ra fresh now (en_id e) ps facts (ud_ledger db) else Inr (ud_ledger db)) = Inr ledger'"
    and ledger': "ud_ledger db' = ledger'"
    and check: "reconciliation_check (reconciliation_of p ra i ps True facts ledger')"
    and key: "reconciliation_key (reconciliation_of p ra i ps True facts ledger') \<in> reconciliation_key ` set (ud_reconciliations db')"
  let ?new = "\<lambda>l. filter (unrecorded ra ps l) facts"
  have written: "write_all append_entry (fact_entries ra fresh now (en_id e) ps (?new (ud_ledger db))) (ud_ledger db) = Inr ledger'"
    using repaired by (simp add: repair_ledger_def append_facts_write_all)
  note more = write_all_keeps [OF written]
  then have "set (?new ledger') \<subseteq> set (?new (ud_ledger db))"
    by (auto simp: unrecorded_def)
  from recorded_facts_replay [OF written _ this, of "[]"]
  have ledger_same: "repair_ledger ra fresh' now' (en_id e') ps facts ledger' = Inr ledger'"
    by (simp add: repair_ledger_def)
  have keys: "reconciliation_key (reconciliation_of p ra j ps True facts ledger')
      = reconciliation_key (reconciliation_of p ra i ps True facts ledger')"
    and check': "reconciliation_check (reconciliation_of p ra j ps True facts ledger')"
    using check by (simp_all add: reconciliation_key_def reconciliation_check_def reconciliation_of_def)
  show ?thesis
  proof (cases "find (\<lambda>x. reconciliation_key x = reconciliation_key (reconciliation_of p ra j ps True facts ledger'))
      (ud_reconciliations db')")
    case None
    with key keys show ?thesis by (auto simp: find_None_iff)
  next
    case (Some x)
    then have "reconcile p ra fresh' j ps True now' db' = Inr (x, db')"
      using assms(2) facts ents ledger_same check' ledger' by (simp add: reconcile_def)
    with Some more ledger' show ?thesis by (auto dest: find_Some_iff2)
  qed
qed

lemma sample_repair:
  "is_ok (reconcile sample_usage sample_actor (\<lambda>k. k) ''j'' 0 True 9 sample_usage_db)"
  "is_ok (require_entitlement sample_actor 10 (ud_entitlements sample_usage_db))"
  by code_simp+

theorem repair_is_idempotent_witness:
  "\<exists>r db' r'. reconcile sample_usage sample_actor (\<lambda>k. k) ''j'' 0 True 9 sample_usage_db = Inr (r, db')
     \<and> reconcile sample_usage sample_actor (\<lambda>k. ''x'') ''k'' 0 True 10 db' = Inr (r', db')"
proof -
  obtain r db' where run: "reconcile sample_usage sample_actor (\<lambda>k. k) ''j'' 0 True 9 sample_usage_db = Inr (r, db')"
    using sample_repair(1) by (auto simp: is_ok_def split: sum.splits)
  obtain e where "require_entitlement sample_actor 10 (ud_entitlements sample_usage_db) = Inr e"
    using sample_repair(2) by (auto simp: is_ok_def split: sum.splits)
  from repair_is_idempotent [OF run this] run show ?thesis by blast
qed

section \<open>A repaired workspace\<close>

lemma total_of_entries:
  "unit_total ra (unit_str u) ps (fact_entries ra fresh c e ps fs) = source_total fs u"
  by (induction fs) (simp_all add: fact_entries_def unit_total_def source_total_def)

lemma unit_total_append: "unit_total ra u ps (xs @ ys) = unit_total ra u ps xs + unit_total ra u ps ys"
  by (simp add: unit_total_def)


lemma sample_facts:
  "(case source_facts sample_usage sample_actor 0 sample_usage_db of Inl e \<Rightarrow> False
     | Inr facts \<Rightarrow> distinct (map uf_idempotency_key facts) \<and> source_total facts U_agent_admission = 1)"
  by code_simp


end
