(* ===== verification/Monitor_Samples.thy ===== *)
theory Monitor_Samples
  imports Monitor_Triggers
begin

text \<open>Concrete monitors, commands and requests for the witnesses.\<close>

definition monitor_entitlement :: entitlement where
  "monitor_entitlement = \<lparr>en_id = ''e'', en_tenant_id = ''t'', en_workspace_id = ''w'', en_active = True,
     en_active_monitor_limit = 20, en_min_interval_seconds = 300, en_max_concurrent_tasks = 5,
     en_monthly_trigger_limit = 10, en_allowed_task_types = [''market_analysis''],
     en_monthly_agent_admission_limit = 1, en_monthly_model_token_limit = 100,
     en_monthly_search_request_limit = 100, en_monthly_runtime_millisecond_limit = 100,
     en_storage_byte_limit = 100, en_max_retention_days = 30, en_valid_from = 0, en_valid_until = None\<rparr>"

definition sample_zone :: "string \<Rightarrow> (instant \<Rightarrow> int) option" where
  "sample_zone z = (if z = ''UTC'' then Some (\<lambda>t. 0) else None)"

definition sample_params :: monitor_params where
  "sample_params = \<lparr>mp_hash = (\<lambda>j. replicate 64 CHR ''a''), mp_digest = (\<lambda>s. take 64 (s @ replicate 64 CHR ''a'')),
     mp_isoformat = (\<lambda>t. []), mp_zone = sample_zone\<rparr>"

definition sample_template :: json where
  "sample_template = JObj [(''task_type'', JStr ''market_analysis''), (''symbol'', JStr ''BTC''),
     (''horizon'', JStr ''4h''), (''query_text'', JStr ''q''), (''notify'', JBool False)]"

definition sample_monitor :: monitor_row where
  "sample_monitor = \<lparr>mo_id = ''mon'', mo_tenant_id = ''t'', mo_workspace_id = ''w'', mo_owner_user_id = ''u'',
     mo_artifact_id = ''a'', mo_artifact_version_id = ''v'', mo_name = ''watch'', mo_run_task_type = ''market_analysis'',
     mo_condition = JObj [(''kind'', JStr ''scheduled_review'')], mo_task_template = sample_template,
     mo_admission_idempotency_key = ''k'', mo_request_payload_hash = replicate 64 CHR ''a'',
     mo_cron_schedule = ''0 * * * *'', mo_timezone = ''UTC'', mo_expires_at = None, mo_quiet_hours = None,
     mo_status = ''active'', mo_schedule_version = 1, mo_desired_revision = 1, mo_applied_revision = 0,
     mo_cron_binding_id = ''b'', mo_official_cron_id = None, mo_next_run_at = None, mo_version = 1\<rparr>"

definition sample_command :: cron_command where
  "sample_command = \<lparr>cc_id = ''c'', cc_tenant_id = ''t'', cc_workspace_id = ''w'', cc_owner_user_id = ''u'',
     cc_monitor_id = ''mon'', cc_command_type = ''create'', cc_desired_revision = 1,
     cc_request_payload_hash = replicate 64 CHR ''a'', cc_payload = JNull, cc_status = ''pending'',
     cc_idempotency_key = ''k'', cc_lease_owner = None, cc_lease_expires_at = None, cc_fence_token = 0,
     cc_attempt = 0, cc_available_at = 0, cc_last_error = None, cc_completed_at = None, cc_created_at = 0\<rparr>"

definition sample_monitor_db :: "entitlement list \<Rightarrow> ledger_entry list \<Rightarrow> monitor_db" where
  "sample_monitor_db es ledger = \<lparr>ud_entitlements = es, ud_tasks = [], ud_reviews = [], ud_triggers = [], ud_runs = [],
     ud_ledger = ledger, ud_reconciliations = [], md_directory = sample_directory, md_threads = [],
     md_task_commands = [], md_monitors = [sample_monitor], md_bindings = [], md_cron_commands = [sample_command],
     md_artifacts = [], md_versions = [], md_destinations = []\<rparr>"

definition sample_trigger_request :: trigger_request where
  "sample_trigger_request = \<lparr>tq_kind = ''manual'', tq_cron_binding_id = None, tq_official_cron_id = None,
     tq_official_run_id = None, tq_official_thread_id = None, tq_manual_stable_key = Some ''key'',
     tq_schedule_version = None, tq_received_at = Some (Aware (400 * SECOND))\<rparr>"

definition sample_ids :: "string \<Rightarrow> admission_ids" where
  "sample_ids s = \<lparr>ai_trigger = ''g'' @ s, ai_task = ''k'' @ s, ai_thread = ''h'' @ s, ai_usage = ''l'' @ s,
     ai_command = ''m'' @ s\<rparr>"

definition sample_tokens :: ledger_entry where
  "sample_tokens = \<lparr>le_id = ''x'', le_tenant_id = ''t'', le_workspace_id = ''w'', le_owner_user_id = ''u'',
     le_entitlement_id = ''e'', le_monitor_id = None, le_trigger_id = None, le_period_start = 0,
     le_quantity = 500, le_unit = ''model_token'', le_operation_type = ''agent_run'', le_resource_type = ''run'',
     le_resource_id = None, le_source_receipt_hash = None, le_idempotency_key = ''x'', le_metadata = JNull,
     le_created_at = 0\<rparr>"

lemma sample_admitted:
  "(case admit_trigger sample_params sample_context (sample_ids ''1'') 0 ''mon'' sample_trigger_request
       (sample_monitor_db [monitor_entitlement] []) of Inl e \<Rightarrow> False
     | Inr (a, db) \<Rightarrow> ad_created a \<and> gr_status (ad_trigger a) = ''admitted'')"
  by code_simp

lemma sample_suppressed:
  "(case admit_trigger sample_params sample_context (sample_ids ''1'') 0 ''mon'' sample_trigger_request
       (sample_monitor_db [monitor_entitlement] [sample_tokens]) of Inl e \<Rightarrow> False
     | Inr (a, db) \<Rightarrow> ad_created a \<and> gr_status (ad_trigger a) = ''suppressed''
         \<and> gr_reason (ad_trigger a) = Some ''monthly_trigger_limit_exceeded'')"
  by code_simp

end
