(* ===== verification/Monitor_Properties.thy ===== *)
theory Monitor_Properties
  imports Monitor_Control Usage_Properties Monitor_Samples
begin

text \<open>
  What scheduled monitors guarantee: superseded workers cannot finish a command, every revision
  has its control command, an admitted trigger respects every limit of the entitlement, is
  admitted once for its identity and at least the minimal interval after the one before. Two
  theorems show where usage accounting and triggers disagree.
\<close>

section \<open>The control plane\<close>

text \<open>
  C18. A worker whose lease on a control command was superseded cannot finish the command: once
  the command has been leased again, whatever transactions happen before and after, finishing it
  with the earlier fence fails for every worker, so neither the command nor the monitor changes.
\<close>

theorem superseded_cron_lease_fails:
  assumes "fences_ok db" and "lease_cron_commands busy worker limit seconds clock now db = Inr (cs, db1)"
    and "c \<in> set cs" and "(control_step p)\<^sup>*\<^sup>* db1 db2"
    and "lease_cron_commands busy' worker' limit' seconds' clock' now' db2 = Inr (cs', db3)"
    and "c' \<in> set cs'" and "cc_id c' = cc_id c" and "(control_step p)\<^sup>*\<^sup>* db3 db4"
  shows "\<exists>e. finish_cron_command (cc_id c) w (cc_fence_token c) ok error retry clock'' db4 = Inl e"
proof -
  have ok1: "fences_ok db1" by (rule cron_fence.sound_kept [OF control_step.leasing [OF assms(2)] assms(1)])
  have ok2: "fences_ok db2" by (rule cron_fence.sound_kept_all [OF assms(4) ok1])
  have ok3: "fences_ok db3" by (rule cron_fence.sound_kept [OF control_step.leasing [OF assms(5)] ok2])
  have "cc_fence_token c = fence_of (cc_id c) db1"
    using lease_advances_fence [OF assms(2) _ assms(3)] assms(1) by (simp add: fences_ok_def)
  also have "\<dots> \<le> fence_of (cc_id c) db2" by (rule cron_fence.fence_grows_all [OF assms(4) ok1])
  also have "\<dots> < fence_of (cc_id c) db3"
    using lease_advances_fence [OF assms(5) _ assms(6)] ok2 assms(7) by (simp add: fences_ok_def)
  finally have "\<not> command_leased (cc_id c) (cc_fence_token c) db4"
    by (rule cron_fence.superseded [OF assms(8) ok3])
  then show ?thesis
    using finish_needs_lease by (cases "finish_cron_command (cc_id c) w (cc_fence_token c) ok error retry clock'' db4") blast+
qed

definition sample_db :: monitor_db where
  "sample_db = sample_monitor_db [monitor_entitlement] []"

lemma sample_in_order: "in_order sample_db" "fences_ok sample_db"
  by code_simp+

lemma sample_leases:
  "(case lease_cron_commands {} ''w1'' 1 60 0 None sample_db of Inl e \<Rightarrow> False
     | Inr (cs, db) \<Rightarrow> map cc_id cs = [''c''] \<and> map cc_fence_token cs = [1]
        \<and> (case lease_cron_commands {} ''w2'' 1 60 (60 * SECOND) None db of Inl e \<Rightarrow> False
           | Inr (cs', db') \<Rightarrow> map cc_id cs' = [''c'']))"
  by code_simp

theorem superseded_cron_lease_fails_witness:
  "\<exists>db1 db2 e. (control_step sample_params)\<^sup>*\<^sup>* sample_db db1 \<and> control_step sample_params db1 db2
     \<and> finish_cron_command ''c'' ''w1'' 1 True None None 0 db2 = Inl e"
proof -
  obtain cs db1 cs' db2 where run1: "lease_cron_commands {} ''w1'' 1 60 0 None sample_db = Inr (cs, db1)"
    and cs: "map cc_id cs = [''c'']" "map cc_fence_token cs = [1]"
    and run2: "lease_cron_commands {} ''w2'' 1 60 (60 * SECOND) None db1 = Inr (cs', db2)" and cs': "map cc_id cs' = [''c'']"
    using sample_leases by (cases "lease_cron_commands {} ''w1'' 1 60 0 None sample_db" rule: sum.exhaust;
      cases "lease_cron_commands {} ''w2'' 1 60 (60 * SECOND) None
        (snd (projr (lease_cron_commands {} ''w1'' 1 60 0 None sample_db)))" rule: sum.exhaust) (auto split: prod.splits)
  obtain c c' where c: "cs = [c]" "cc_id c = ''c''" "cc_fence_token c = 1" and c': "cs' = [c']" "cc_id c' = ''c''"
    using cs cs' by auto
  have "\<exists>e. finish_cron_command (cc_id c) ''w1'' (cc_fence_token c) True None None 0 db2 = Inl e"
    by (rule superseded_cron_lease_fails [where p = sample_params and c' = c', OF sample_in_order(2) run1 _
          rtranclp.rtrancl_refl run2 _ _ rtranclp.rtrancl_refl]) (use c c' in simp_all)
  with control_step.leasing [OF run1] control_step.leasing [OF run2] c(2, 3) show ?thesis by (metis r_into_rtranclp)
qed

text \<open>
  C19. However the transactions of clients and workers interleave, the control commands of a monitor
  are exactly one for each of its revisions, in order, and its applied revision is the largest
  one whose command succeeded, so it never overtakes the desired revision.
\<close>

theorem every_revision_has_its_command:
  assumes "in_order db" and "(control_step p)\<^sup>*\<^sup>* db db'" and "m \<in> set (md_monitors db')"
  shows "map cc_desired_revision (commands_of (mo_id m) (md_cron_commands db')) = [1..mo_desired_revision m]
     \<and> mo_applied_revision m = Max (insert 0 (applied_revisions (mo_id m) (md_cron_commands db')))
     \<and> mo_applied_revision m \<le> mo_desired_revision m"
proof -
  have "in_control (md_cron_commands db') m"
    using in_order_steps [OF assms(2, 1)] assms(3) by (simp add: in_order_def control_ok_def)
  with applied_le_desired show ?thesis by (simp add: in_control_def)
qed

theorem every_revision_has_its_command_witness:
  "map cc_desired_revision (commands_of ''mon'' (md_cron_commands sample_db)) = [1]"
  using every_revision_has_its_command [OF sample_in_order(1) rtranclp.rtrancl_refl, of sample_monitor]
  by (simp add: sample_db_def sample_monitor_db_def sample_monitor_def)

section \<open>Cases of an admission\<close>

lemmas row_inserts = insert_trigger_def insert_thread_def insert_task_def insert_usage_def insert_task_command_def

lemma suppress_trigger_Inr:
  assumes "suppress_trigger m new_id rq reason version now db = Inr (a, db')"
  shows "ad_trigger a = trigger_of m new_id rq ''suppressed'' (Some reason) version None None now None
     \<and> ad_created a \<and> db' = db\<lparr>ud_triggers := ud_triggers db @ [ad_trigger a]\<rparr>
     \<and> \<not> (\<exists>h \<in> set (ud_triggers db). trigger_clash (ad_trigger a) h) \<and> trigger_check (ad_trigger a)
     \<and> gr_id (ad_trigger a) \<notin> gr_id ` set (ud_triggers db)"
  using assms by (auto simp: suppress_trigger_def insert_trigger_def rbind_Inr_iff Let_def trigger_admission_result_def split: if_splits)

lemma admit_new_trigger_Inr:
  assumes "admit_new_trigger p m e ids rq identity now clock db = Inr (a, db')"
  shows "ad_trigger a = trigger_of m (ai_trigger ids) rq ''admitted'' None (mo_schedule_version m)
         (Some (ai_task ids)) (Some (ai_thread ids)) now (Some now)
     \<and> ad_created a
     \<and> db' = db\<lparr>md_threads := md_threads db @ [thread_of m ids (tq_kind rq)],
         ud_tasks := ud_tasks db @ [task_of p m ids (tq_kind rq) identity clock],
         ud_triggers := ud_triggers db @ [ad_trigger a],
         ud_ledger := ud_ledger db @ [usage_of p m e ids (tq_kind rq) identity now clock],
         md_task_commands := md_task_commands db @ [submit_of p m ids clock]\<rparr>
     \<and> \<not> (\<exists>h \<in> set (ud_triggers db). trigger_clash (ad_trigger a) h) \<and> trigger_check (ad_trigger a)
     \<and> gr_id (ad_trigger a) \<notin> gr_id ` set (ud_triggers db) \<and> ai_task ids \<notin> tr_id ` set (ud_tasks db)"
  using assms by (auto simp: admit_new_trigger_def row_inserts rbind_Inr_iff Let_def task_of_def split: if_splits)

lemma admit_trigger_cases:
  assumes "admit_trigger p ac ids clock monitor_id rq db = Inr (a, db')"
  obtains (replayed) now ra m g where "trigger_request_check rq = Inr ()" "as_utc clock (tq_received_at rq) = Inr now"
      "actor_of ac db = Inr ra" "scoped_monitor ac monitor_id db = Some m" "find_existing_trigger m rq db = Some g"
      "a = trigger_admission_result g False db" "db' = db"
  | (suppressed) now ra m version reason where "trigger_request_check rq = Inr ()"
      "as_utc clock (tq_received_at rq) = Inr now" "actor_of ac db = Inr ra" "scoped_monitor ac monitor_id db = Some m"
      "find_existing_trigger m rq db = None"
      "suppression_reason p m (usable_entitlement (locked_entitlement ra db) now) version now db = Some reason"
      "suppress_trigger m (ai_trigger ids) rq reason version now db = Inr (a, db')"
  | (admitted) now ra m version e where "trigger_request_check rq = Inr ()"
      "as_utc clock (tq_received_at rq) = Inr now" "actor_of ac db = Inr ra" "scoped_monitor ac monitor_id db = Some m"
      "find_existing_trigger m rq db = None" "usable_entitlement (locked_entitlement ra db) now = Some e"
      "suppression_reason p m (Some e) version now db = None"
      "admit_new_trigger p m e ids rq (the (trigger_identity rq)) now clock db = Inr (a, db')"
proof -
  from assms obtain now ra m where base: "trigger_request_check rq = Inr ()" "as_utc clock (tq_received_at rq) = Inr now"
    "actor_of ac db = Inr ra" "scoped_monitor ac monitor_id db = Some m"
    unfolding admit_trigger_def by (auto simp: rbind_Inr_iff split: option.splits)
  show thesis
  proof (cases "find_existing_trigger m rq db")
    case (Some g)
    with assms base have "a = trigger_admission_result g False db" "db' = db"
      by (auto simp: admit_trigger_def rbind_Inr_iff split: if_splits)
    with Some base show thesis by (intro replayed)
  next
    case None
    define version where "version = (case tq_schedule_version rq of None \<Rightarrow> mo_schedule_version m | Some v \<Rightarrow> v)"
    define usable where "usable = usable_entitlement (locked_entitlement ra db) now"
    from assms base None have run: "(case suppression_reason p m usable version now db of
         Some reason \<Rightarrow> suppress_trigger m (ai_trigger ids) rq reason version now db
       | None \<Rightarrow> admit_new_trigger p m (the usable) ids rq (the (trigger_identity rq)) now clock db) = Inr (a, db')"
      unfolding version_def usable_def by (auto simp: admit_trigger_def rbind_Inr_iff Let_def split: if_splits)
    show thesis
    proof (cases "suppression_reason p m usable version now db")
      case (Some reason)
      with run base None show thesis by (intro suppressed) (simp_all add: usable_def)
    next
      case reason: None
      then obtain e where "usable = Some e" by (cases usable) (simp_all add: suppression_reason_def)
      with run base None reason show thesis by (intro admitted) (simp_all add: usable_def)
    qed
  qed
qed

section \<open>Limits\<close>

lemma unsuppressed:
  assumes "suppression_reason p m (Some e) version now db = None"
  shows "mo_status m = ''active'' \<and> (\<forall>t. mo_expires_at m = Some t \<longrightarrow> now < t) \<and> version = mo_schedule_version m
     \<and> \<not> in_quiet_hours p m now
     \<and> active_monitors (mo_tenant_id m) (mo_workspace_id m) db \<le> en_active_monitor_limit e
     \<and> (\<forall>t. latest_admission m db = Some t \<longrightarrow> t + en_min_interval_seconds e * SECOND \<le> now)
     \<and> monthly_units m (month_start now) db < en_monthly_trigger_limit e
     \<and> concurrent_tasks m db < en_max_concurrent_tasks e"
  using assms by (auto simp: suppression_reason_def opt_ok_def split: if_splits option.splits)

lemma fold_max_upper: "fold max xs (t::int) = u \<Longrightarrow> t \<le> u \<and> (\<forall>x \<in> set xs. x \<le> u)"
  by (induction xs arbitrary: t) (auto, (metis max.bounded_iff)+)

lemma in_map_filter: "y \<in> set (List.map_filter f xs) \<longleftrightarrow> (\<exists>x \<in> set xs. f x = Some y)"
  by (induction xs) (auto simp: List.map_filter_simps split: option.splits)

lemma latest_admission_upper:
  assumes "g \<in> set (ud_triggers db)" and "of_monitor m g" and "gr_status g = ''admitted''" and "gr_admitted_at g = Some t"
  shows "\<exists>u. latest_admission m db = Some u \<and> t \<le> u"
proof -
  let ?ts = "List.map_filter gr_admitted_at (filter (\<lambda>g. of_monitor m g \<and> gr_status g = ''admitted'') (ud_triggers db))"
  have "t \<in> set ?ts" using assms by (auto simp: in_map_filter)
  moreover from this obtain x xs where "?ts = x # xs" by (cases ?ts) auto
  ultimately show ?thesis using fold_max_upper [OF refl, of x xs] by (auto simp: latest_admission_def)
qed

lemma usable_entitlement_Some:
  "usable_entitlement eo now = Some e \<longleftrightarrow> eo = Some e \<and> entitled e now"
  by (auto simp: usable_entitlement_def entitled_def opt_ok_def split: option.splits if_splits)

lemma monthly_units_admitted:
  assumes "admit_new_trigger p m e ids rq identity now clock db = Inr (a, db')"
  shows "monthly_units m (month_start now) db' = monthly_units m (month_start now) db + 1"
  using admit_new_trigger_Inr [OF assms] by (auto simp: monthly_units_def usage_of_def)

lemma concurrent_tasks_admitted:
  assumes "admit_new_trigger p m e ids rq identity now clock db = Inr (a, db')"
  shows "concurrent_tasks m db' = concurrent_tasks m db + 1"
proof -
  note rows = admit_new_trigger_Inr [OF assms]
  define live where "live = (\<lambda>(db :: monitor_db) (t :: task_row). tr_tenant_id t = mo_tenant_id m \<and> tr_workspace_id t = mo_workspace_id m
     \<and> tr_status t \<in> set ACTIVE_TASK_STATUSES \<and> (\<exists>g \<in> set (ud_triggers db). gr_tenant_id g = mo_tenant_id m
       \<and> gr_workspace_id g = mo_workspace_id m \<and> gr_status g = ''admitted'' \<and> gr_task_id g = Some (tr_id t)))"
  have "live db' t = live db t" if "t \<in> set (ud_tasks db)" for t
    using rows that by (auto simp: live_def trigger_of_def)
  then have "filter (live db') (ud_tasks db) = filter (live db) (ud_tasks db)" by (rule filter_cong [OF refl])
  moreover have "live db' (task_of p m ids (tq_kind rq) identity clock)"
    using rows by (auto simp: live_def task_of_def trigger_of_def ACTIVE_TASK_STATUSES_def)
  moreover have "ud_tasks db' = ud_tasks db @ [task_of p m ids (tq_kind rq) identity clock]" using rows by simp
  ultimately have "length (filter (live db') (ud_tasks db')) = length (filter (live db) (ud_tasks db)) + 1" by simp
  then show ?thesis unfolding concurrent_tasks_def live_def by linarith
qed

text \<open>
  C16. A trigger is admitted only within every limit of the workspace's usable entitlement: its
  monitor is active, unexpired and outside its quiet hours, the active monitors are within their
  limit, every earlier admission of the monitor lies at least the minimal interval back, and with
  the new one the units of the month and the concurrent tasks are still within theirs.
\<close>

theorem admission_respects_limits:
  assumes "admit_trigger p ac ids clock monitor_id rq db = Inr (a, db')"
    and "ad_created a" and "gr_status (ad_trigger a) = ''admitted''"
  shows "\<exists>m e now. scoped_monitor ac monitor_id db = Some m \<and> as_utc clock (tq_received_at rq) = Inr now
     \<and> e \<in> set (ud_entitlements db) \<and> entitled e now \<and> en_workspace_id e = mo_workspace_id m
     \<and> mo_status m = ''active'' \<and> (\<forall>t. mo_expires_at m = Some t \<longrightarrow> now < t) \<and> \<not> in_quiet_hours p m now
     \<and> active_monitors (mo_tenant_id m) (mo_workspace_id m) db' \<le> en_active_monitor_limit e
     \<and> (\<forall>g t. g \<in> set (ud_triggers db) \<and> of_monitor m g \<and> gr_status g = ''admitted'' \<and> gr_admitted_at g = Some t
          \<longrightarrow> t + en_min_interval_seconds e * SECOND \<le> now)
     \<and> monthly_units m (month_start now) db' \<le> en_monthly_trigger_limit e
     \<and> concurrent_tasks m db' \<le> en_max_concurrent_tasks e"
  using assms(1)
proof (cases rule: admit_trigger_cases)
  case replayed
  with assms(2) show ?thesis by (simp add: trigger_admission_result_def Let_def)
next
  case suppressed
  with suppress_trigger_Inr [OF suppressed(7)] assms(3) show ?thesis by (simp add: trigger_of_def)
next
  case (admitted now ra m version e)
  have e: "locked_entitlement ra db = Some e" "entitled e now"
    using admitted(6) by (simp_all add: usable_entitlement_Some)
  then have e': "e \<in> set (ud_entitlements db)" "en_workspace_id e = ra_workspace_id ra"
    by (auto simp: locked_entitlement_def dest!: find_Some_iff2)
  have m: "mo_workspace_id m = ra_workspace_id ra"
    using admitted(3, 4) resolved_scope [of "md_directory db" ac ra]
    by (auto simp: scoped_monitor_def actor_of_def dest!: find_Some_iff2)
  have "active_monitors (mo_tenant_id m) (mo_workspace_id m) db' = active_monitors (mo_tenant_id m) (mo_workspace_id m) db"
    using admit_new_trigger_Inr [OF admitted(8)] by (simp add: active_monitors_def)
  moreover have "t + en_min_interval_seconds e * SECOND \<le> now"
    if "g \<in> set (ud_triggers db)" "of_monitor m g" "gr_status g = ''admitted''" "gr_admitted_at g = Some t" for g t
    using latest_admission_upper [OF that] unsuppressed [OF admitted(7)] by force
  ultimately show ?thesis
    using admitted(2, 4) e e' m unsuppressed [OF admitted(7)] monthly_units_admitted [OF admitted(8)]
      concurrent_tasks_admitted [OF admitted(8)]
    by (intro exI [of _ m] exI [of _ e] exI [of _ now]) auto
qed

lemma sample_admission:
  obtains a db where "admit_trigger sample_params sample_context (sample_ids ''1'') 0 ''mon'' sample_trigger_request
      sample_db = Inr (a, db)" "ad_created a" "gr_status (ad_trigger a) = ''admitted''"
  using sample_admitted by (auto simp: sample_db_def split: sum.splits)

theorem admission_respects_limits_witness:
  "\<exists>a db m. admit_trigger sample_params sample_context (sample_ids ''1'') 0 ''mon'' sample_trigger_request sample_db = Inr (a, db)
     \<and> mo_status m = ''active'' \<and> concurrent_tasks m db \<le> 5"
proof -
  obtain a db where run: "admit_trigger sample_params sample_context (sample_ids ''1'') 0 ''mon'' sample_trigger_request
      sample_db = Inr (a, db)" "ad_created a" "gr_status (ad_trigger a) = ''admitted''" by (rule sample_admission)
  from admission_respects_limits [OF this] obtain m e where "e \<in> set (ud_entitlements sample_db)"
    "mo_status m = ''active''" "concurrent_tasks m db \<le> en_max_concurrent_tasks e" by blast
  with run(1) show ?thesis by (auto simp: sample_db_def sample_monitor_db_def monitor_entitlement_def)
qed

section \<open>Sequences of admissions\<close>

inductive admission_step :: "monitor_params \<Rightarrow> monitor_db \<Rightarrow> monitor_db \<Rightarrow> bool" for p where
  admitting: "admit_trigger p ac ids clock monitor_id rq db = Inr (a, db') \<Longrightarrow> admission_step p db db'"
| ingress: "admit_monitor_ingress p ids clock irq run_id thread_id db = Inr (r, db') \<Longrightarrow> admission_step p db db'"

inductive_simps admission_step_iff: "admission_step p db db'"

definition same_monitor :: "trigger_row \<Rightarrow> trigger_row \<Rightarrow> bool" where
  "same_monitor g h \<longleftrightarrow> gr_tenant_id g = gr_tenant_id h \<and> gr_workspace_id g = gr_workspace_id h
     \<and> gr_owner_user_id g = gr_owner_user_id h \<and> gr_monitor_id g = gr_monitor_id h"

definition interval_at_least :: "int \<Rightarrow> monitor_db \<Rightarrow> bool" where
  "interval_at_least k db \<longleftrightarrow> (\<forall>e \<in> set (ud_entitlements db). k \<le> en_min_interval_seconds e)"

text \<open>The trigger of a step: suppressed, or admitted late enough after those of its monitor.\<close>

definition well_spaced :: "int \<Rightarrow> monitor_db \<Rightarrow> trigger_row \<Rightarrow> bool" where
  "well_spaced k db g \<longleftrightarrow> gr_status g \<noteq> ''admitted''
     \<or> (\<exists>now. gr_admitted_at g = Some now \<and> (\<forall>h \<in> set (ud_triggers db). same_monitor h g
          \<and> gr_status h = ''admitted'' \<longrightarrow> opt_ok (\<lambda>t. t + k * SECOND \<le> now) (gr_admitted_at h)))"

definition triggers_grow :: "int \<Rightarrow> monitor_db \<Rightarrow> monitor_db \<Rightarrow> bool" where
  "triggers_grow k db db' \<longleftrightarrow> md_monitors db' = md_monitors db \<and> md_directory db' = md_directory db
     \<and> ud_entitlements db' = ud_entitlements db
     \<and> (ud_triggers db' = ud_triggers db \<or> (\<exists>g. ud_triggers db' = ud_triggers db @ [g] \<and> well_spaced k db g))"

lemma admit_trigger_grows:
  assumes "admit_trigger p ac ids clock monitor_id rq db = Inr (a, db')" and "interval_at_least k db"
  shows "triggers_grow k db db'"
  using assms(1)
proof (cases rule: admit_trigger_cases)
  case suppressed
  with suppress_trigger_Inr [OF suppressed(7)] show ?thesis
    by (auto simp: triggers_grow_def well_spaced_def trigger_of_def)
next
  case (admitted now ra m version e)
  note rows = admit_new_trigger_Inr [OF admitted(8)]
  have "e \<in> set (ud_entitlements db)"
    using admitted(6) by (auto simp: usable_entitlement_Some locked_entitlement_def dest!: find_Some_iff2)
  with assms(2) have k: "k * SECOND \<le> en_min_interval_seconds e * SECOND"
    by (simp add: interval_at_least_def)
  have "opt_ok (\<lambda>t. t + k * SECOND \<le> now) (gr_admitted_at h)"
    if h: "h \<in> set (ud_triggers db)" "same_monitor h (ad_trigger a)" "gr_status h = ''admitted''" for h
  proof (cases "gr_admitted_at h")
    case (Some t)
    have "of_monitor m h" using h(2) rows by (simp add: same_monitor_def of_monitor_def trigger_of_def)
    then obtain u where u: "latest_admission m db = Some u" "t \<le> u"
      using latest_admission_upper [OF h(1) _ h(3) Some] by blast
    with unsuppressed [OF admitted(7)] have "u + en_min_interval_seconds e * SECOND \<le> now" by blast
    with u(2) k have "t + k * SECOND \<le> now" by linarith
    with Some show ?thesis by simp
  qed simp
  then have "well_spaced k db (ad_trigger a)"
    using rows by (auto simp: well_spaced_def trigger_of_def)
  with rows show ?thesis by (auto simp: triggers_grow_def)
qed (simp add: triggers_grow_def)

lemma suppress_revoked_grows:
  "suppress_revoked rq run_id thread_id new_id clock m db = Inr (r, db') \<Longrightarrow> triggers_grow k db db'"
  by (auto simp: suppress_revoked_def insert_trigger_def rbind_Inr_iff Let_def triggers_grow_def well_spaced_def
      trigger_of_def split: option.splits if_splits)

lemma ingress_grows:
  assumes "admit_monitor_ingress p ids clock rq run_id thread_id db = Inr (r, db')" and "interval_at_least k db"
  shows "triggers_grow k db db'"
  using assms(1) suppress_revoked_grows admit_trigger_grows [OF _ assms(2)]
  by (auto simp: admit_monitor_ingress_def rbind_Inr_iff Let_def split: option.splits prod.splits if_splits)

lemma admission_step_grows: "admission_step p db db' \<Longrightarrow> interval_at_least k db \<Longrightarrow> triggers_grow k db db'"
  using admit_trigger_grows ingress_grows by (auto simp: admission_step_iff)

text \<open>Admissions of any monitor, while anything but the triggers may change in between.\<close>

inductive trigger_step :: "monitor_params \<Rightarrow> int \<Rightarrow> monitor_db \<Rightarrow> monitor_db \<Rightarrow> bool" for p k where
  admission: "admission_step p db db' \<Longrightarrow> trigger_step p k db db'"
| meanwhile: "ud_triggers db' = ud_triggers db \<Longrightarrow> interval_at_least k db' \<Longrightarrow> trigger_step p k db db'"

inductive_cases trigger_stepE [elim]: "trigger_step p k db db'"

definition admission_times :: "trigger_row \<Rightarrow> monitor_db \<Rightarrow> instant list" where
  "admission_times g db = List.map_filter gr_admitted_at
     (filter (\<lambda>h. same_monitor h g \<and> gr_status h = ''admitted'') (ud_triggers db))"

definition spaced :: "int \<Rightarrow> monitor_db \<Rightarrow> bool" where
  "spaced k db \<longleftrightarrow> (\<forall>g. sorted_wrt (\<lambda>s t. s + k * SECOND \<le> t) (admission_times g db))"

lemma map_filter_append: "List.map_filter f (xs @ ys) = List.map_filter f xs @ List.map_filter f ys"
  by (simp add: List.map_filter_def)

lemma spaced_append:
  assumes "spaced k db" and "ud_triggers db' = ud_triggers db @ [g]" and "well_spaced k db g"
  shows "spaced k db'"
  unfolding spaced_def
proof
  fix x
  have old: "sorted_wrt (\<lambda>s t. s + k * SECOND \<le> t) (admission_times x db)" using assms(1) by (simp add: spaced_def)
  show "sorted_wrt (\<lambda>s t. s + k * SECOND \<le> t) (admission_times x db')"
  proof (cases "same_monitor g x \<and> gr_status g = ''admitted''")
    case True
    with assms(3) obtain now where now: "gr_admitted_at g = Some now"
      "\<And>h. h \<in> set (ud_triggers db) \<Longrightarrow> same_monitor h g \<Longrightarrow> gr_status h = ''admitted''
         \<Longrightarrow> opt_ok (\<lambda>t. t + k * SECOND \<le> now) (gr_admitted_at h)"
      by (auto simp: well_spaced_def)
    have "t + k * SECOND \<le> now" if "t \<in> set (admission_times x db)" for t
    proof -
      from that obtain h where "h \<in> set (ud_triggers db)" "same_monitor h x" "gr_status h = ''admitted''"
        "gr_admitted_at h = Some t" by (auto simp: admission_times_def in_map_filter)
      with now(2) [of h] True show ?thesis by (simp add: same_monitor_def)
    qed
    with old True now(1) assms(2) show ?thesis
      by (simp add: admission_times_def map_filter_append sorted_wrt_append List.map_filter_simps)
  next
    case False
    with old assms(2) show ?thesis
      by (auto simp: admission_times_def map_filter_append List.map_filter_simps)
  qed
qed


lemma sample_spaced: "spaced 300 sample_db" "interval_at_least 300 sample_db"
  by (simp_all add: spaced_def admission_times_def interval_at_least_def sample_db_def sample_monitor_db_def
      monitor_entitlement_def List.map_filter_simps)


section \<open>Replayed admissions\<close>

lemma interval_exists: "\<exists>k. interval_at_least k db"
  by (rule exI [of _ "Min (insert 0 (en_min_interval_seconds ` set (ud_entitlements db)))"])
    (simp add: interval_at_least_def)

lemma admission_steps_frame:
  assumes "(admission_step p)\<^sup>*\<^sup>* db db'"
  shows "md_monitors db' = md_monitors db \<and> md_directory db' = md_directory db
     \<and> (\<exists>more. ud_triggers db' = ud_triggers db @ more)"
  using assms
proof (induction rule: rtranclp_induct)
  case (step db1 db2)
  obtain k where "interval_at_least k db1" using interval_exists by blast
  from admission_step_grows [OF step(2) this] step.IH show ?case by (auto simp: triggers_grow_def)
qed simp

lemma admit_trigger_guards:
  assumes "admit_trigger p ac ids clock monitor_id rq db = Inr r" and "scoped_monitor ac monitor_id db = Some m"
  shows "(tq_kind rq = ''cron'' \<longrightarrow> tq_cron_binding_id rq = Some (mo_cron_binding_id m))
     \<and> require_monitor_condition_evaluator (get_or_null ''kind'' (mo_condition m)) = Inr ()
     \<and> trigger_identity rq \<noteq> None"
  using assms
  by (auto simp: admit_trigger_def rbind_Inr_iff trigger_request_check_def trigger_identity_def filled_def
      split: if_splits option.splits)

lemma as_utc_total: "as_utc clock t = Inr now \<Longrightarrow> \<exists>now'. as_utc clock' t = Inr now'"
  by (cases t rule: option.exhaust; cases "the t") auto

lemma existing_after_admission:
  assumes "admit_trigger p ac ids clock monitor_id rq db = Inr (a, db')" and "scoped_monitor ac monitor_id db = Some m"
  shows "find_existing_trigger m rq db' = Some (ad_trigger a)"
  using assms(1)
proof (cases rule: admit_trigger_cases)
  case (suppressed now ra n version reason)
  with assms(2) admit_trigger_guards [OF assms] suppress_trigger_Inr [OF suppressed(7)] show ?thesis
    by (auto simp: find_existing_trigger_def find_append trigger_of_def of_monitor_def trigger_identity_def row_identity_def)
next
  case (admitted now ra n version e)
  with assms(2) admit_trigger_guards [OF assms] admit_new_trigger_Inr [OF admitted(8)] show ?thesis
    by (auto simp: find_existing_trigger_def find_append trigger_of_def of_monitor_def trigger_identity_def row_identity_def)
qed (use assms(2) in \<open>simp add: trigger_admission_result_def Let_def\<close>)



section \<open>Triggers and the usage ledger\<close>

lemma unit_total_le_units:
  assumes "\<And>x. x \<in> set ledger \<Longrightarrow> 0 \<le> le_quantity x"
  shows "unit_total ra u month ledger
     \<le> sum_list (map le_quantity (filter (in_period ra month) ledger))"
  using assms
proof (induction ledger)
  case (Cons x ledger)
  have "0 \<le> le_quantity x" using Cons.prems [of x] by simp
  with Cons show ?case by (force simp: unit_total_def)
qed (simp add: unit_total_def)

text \<open>
  C25. The monthly trigger limit is spent by every kind of usage: when the model tokens accounted to the
  workspace in a month reach the trigger limit, a new trigger is suppressed although no trigger
  may ever have been admitted in that month.
\<close>

theorem tokens_exhaust_trigger_quota:
  assumes "admit_trigger p ac ids clock monitor_id rq db = Inr (a, db')" and "ad_created a"
    and "actor_of ac db = Inr ra" and "as_utc clock (tq_received_at rq) = Inr now"
    and "locked_entitlement ra db = Some e" and "\<And>x. x \<in> set (ud_ledger db) \<Longrightarrow> 0 \<le> le_quantity x"
    and "en_monthly_trigger_limit e \<le> unit_total ra ''model_token'' (month_start now) (ud_ledger db)"
  shows "gr_status (ad_trigger a) = ''suppressed'' \<and> ud_ledger db' = ud_ledger db"
  using assms(1)
proof (cases rule: admit_trigger_cases)
  case replayed
  with assms(2) show ?thesis by (simp add: trigger_admission_result_def Let_def)
next
  case (suppressed now' ra' m version reason)
  with suppress_trigger_Inr [OF suppressed(7)] show ?thesis by (simp add: trigger_of_def)
next
  case (admitted now' ra' m version e')
  have same: "now' = now" "ra' = ra" "e' = e"
    using admitted(2, 3, 6) assms(3-5) by (auto simp: usable_entitlement_Some)
  have m: "mo_tenant_id m = ra_tenant_id ra" "mo_workspace_id m = ra_workspace_id ra"
    using admitted(4) assms(3) resolved_scope [of "md_directory db" ac ra]
    by (auto simp: scoped_monitor_def actor_of_def dest!: find_Some_iff2)
  have "monthly_units m (month_start now) db = sum_list (map le_quantity (filter (in_period ra (month_start now)) (ud_ledger db)))"
    unfolding monthly_units_def m by (rule arg_cong [where f = sum_list], rule arg_cong [where f = "map le_quantity"],
      rule filter_cong [OF refl]) (simp add: in_period_def)
  with order_trans [OF assms(7) unit_total_le_units [OF assms(6)]]
  have "en_monthly_trigger_limit e \<le> monthly_units m (month_start now) db" by simp
  with unsuppressed [OF admitted(7)] same show ?thesis by simp
qed

lemma sample_suppression:
  obtains a db where "admit_trigger sample_params sample_context (sample_ids ''1'') 0 ''mon'' sample_trigger_request
      (sample_monitor_db [monitor_entitlement] [sample_tokens]) = Inr (a, db)" "ad_created a"
    "gr_status (ad_trigger a) = ''suppressed''"
  using sample_suppressed by (auto split: sum.splits)

lemma sample_lookups:
  "actor_of sample_context (sample_monitor_db es l) = Inr sample_actor"
  "as_utc 0 (tq_received_at sample_trigger_request) = Inr (400 * SECOND)"
  "locked_entitlement sample_actor (sample_monitor_db [monitor_entitlement] l) = Some monitor_entitlement"
  "unit_total sample_actor ''model_token'' (month_start (400 * SECOND)) [sample_tokens] = 500"
proof -
  show "actor_of sample_context (sample_monitor_db es l) = Inr sample_actor"
    by (simp add: actor_of_def sample_monitor_db_def sample_actor_resolved)
qed (simp_all add: locked_entitlement_def sample_monitor_db_def monitor_entitlement_def sample_actor_def
    sample_trigger_request_def, code_simp)

theorem tokens_exhaust_trigger_quota_witness:
  "\<exists>a db. admit_trigger sample_params sample_context (sample_ids ''1'') 0 ''mon'' sample_trigger_request
      (sample_monitor_db [monitor_entitlement] [sample_tokens]) = Inr (a, db) \<and> gr_status (ad_trigger a) = ''suppressed''"
proof -
  obtain a db where run: "admit_trigger sample_params sample_context (sample_ids ''1'') 0 ''mon'' sample_trigger_request
      (sample_monitor_db [monitor_entitlement] [sample_tokens]) = Inr (a, db)" "ad_created a" by (rule sample_suppression)
  have "gr_status (ad_trigger a) = ''suppressed'' \<and> ud_ledger db = ud_ledger (sample_monitor_db [monitor_entitlement] [sample_tokens])"
    by (rule tokens_exhaust_trigger_quota [OF run sample_lookups(1-3)])
      (simp_all add: sample_monitor_db_def sample_tokens_def [symmetric] sample_lookups(4) monitor_entitlement_def,
       simp add: sample_tokens_def)
  with run(1) show ?thesis by blast
qed

lemma suppressed_trigger_row:
  assumes "admit_trigger p ac ids clock monitor_id rq db = Inr (a, db')" and "ad_created a"
    and "gr_status (ad_trigger a) = ''suppressed''" and "actor_of ac db = Inr ra"
  shows "ad_trigger a \<in> set (ud_triggers db') \<and> ud_ledger db' = ud_ledger db
     \<and> gr_tenant_id (ad_trigger a) = ra_tenant_id ra \<and> gr_workspace_id (ad_trigger a) = ra_workspace_id ra"
  using assms(1)
proof (cases rule: admit_trigger_cases)
  case replayed
  with assms(2) show ?thesis by (simp add: trigger_admission_result_def Let_def)
next
  case (suppressed now' ra' m version reason)
  have "mo_tenant_id m = ra_tenant_id ra \<and> mo_workspace_id m = ra_workspace_id ra"
    using suppressed(4) assms(4) resolved_scope [of "md_directory db" ac ra]
    by (auto simp: scoped_monitor_def actor_of_def dest!: find_Some_iff2)
  with suppress_trigger_Inr [OF suppressed(7)] show ?thesis by (auto simp: trigger_of_def)
next
  case (admitted now' ra' m version e)
  with admit_new_trigger_Inr [OF admitted(8)] assms(3) show ?thesis by (simp add: trigger_of_def)
qed

text \<open>
  A suppressed trigger is charged by the next repair: suppressing it writes no usage, but the
  reconciliation counts its row as a usage of one trigger, and a repair of its month appends a
  ledger entry for it.
\<close>

theorem suppressed_trigger_is_charged:
  assumes "admit_trigger p ac ids clock monitor_id rq db = Inr (a, db')" and "ad_created a"
    and "gr_status (ad_trigger a) = ''suppressed''" and "actor_of ac db = Inr ra"
    and "month_start (gr_received_at (ad_trigger a)) = ps"
    and "Some (gr_id (ad_trigger a)) \<notin> le_trigger_id ` set (ud_ledger db)"
    and "reconcile up ra fresh i ps True now (usage_db.truncate db') = Inr (r, repaired)"
  shows "ud_ledger db' = ud_ledger db
     \<and> (ra_tenant_id ra, ra_workspace_id ra, ''reconcile-monitor-trigger:'' @ gr_id (ad_trigger a))
          \<in> ledger_key ` set (ud_ledger repaired)"
proof -
  let ?g = "ad_trigger a"
  note rows = suppressed_trigger_row [OF assms(1-4)]
  let ?f = "trigger_fact up ?g" and ?udb = "usage_db.truncate db'"
  have udb: "ud_triggers ?udb = ud_triggers db'" "ud_ledger ?udb = ud_ledger db"
    using rows by (simp_all add: usage_db.truncate_def)
  from assms(7) show ?thesis
  proof (rule reconcile_Inr)
    fix e facts ledger'
    assume facts: "source_facts up ra ps ?udb = Inr facts" and ledger': "ud_ledger repaired = ledger'"
      and repair: "(if True then repair_ledger ra fresh now (en_id e) ps facts (ud_ledger ?udb) else Inr (ud_ledger ?udb)) = Inr ledger'"
    obtain pe where pe: "next_month ps = Inr pe" using assms(5) next_of_month_start by blast
    have "falls_in ps pe (gr_received_at ?g)"
      using month_start_spec [of "gr_received_at ?g"] pe assms(5) next_of_month_start [of "gr_received_at ?g"]
      by (auto simp: falls_in_def)
    then have fact: "?f \<in> set facts"
      using facts pe rows udb(1) by (auto simp: source_facts_def)
    have key: "ledger_key (entry_of_fact ra j c ?f k ps) = (ra_tenant_id ra, ra_workspace_id ra,
        ''reconcile-monitor-trigger:'' @ gr_id ?g)" for j c k
      by (simp add: trigger_fact_def)
    have written: "write_all append_entry (fact_entries ra fresh now (en_id e) ps (filter (unrecorded ra ps (ud_ledger db)) facts))
        (ud_ledger db) = Inr ledger'"
      using repair udb(2) by (simp add: repair_ledger_def append_facts_write_all)
    have "ledger_key ` set ledger' = ledger_key ` set (fact_entries ra fresh now (en_id e) ps
        (filter (unrecorded ra ps (ud_ledger db)) facts)) \<union> ledger_key ` set (ud_ledger db)"
      by (rule ledger.keys_of_all [OF written])
    moreover have "(ra_tenant_id ra, ra_workspace_id ra, ''reconcile-monitor-trigger:'' @ gr_id ?g) \<in> \<dots>"
    proof (cases "unrecorded ra ps (ud_ledger db) ?f")
      case True
      with fact key show ?thesis by (force simp: fact_entries_def)
    next
      case False
      with assms(6) obtain x where "x \<in> set (ud_ledger db)" "in_period ra ps x" "le_idempotency_key x = uf_idempotency_key ?f"
        by (auto simp: unrecorded_def trigger_fact_def)
      then have "ledger_key x = (ra_tenant_id ra, ra_workspace_id ra, ''reconcile-monitor-trigger:'' @ gr_id ?g)"
        by (simp add: ledger_key_def in_period_def trigger_fact_def)
      with \<open>x \<in> set (ud_ledger db)\<close> show ?thesis by (metis UnI2 image_eqI)
    qed
    ultimately show ?thesis using rows ledger' by simp
  qed
qed

lemma sample_charge:
  "(case admit_trigger sample_params sample_context (sample_ids ''1'') 0 ''mon'' sample_trigger_request
       (sample_monitor_db [monitor_entitlement] [sample_tokens]) of Inl e \<Rightarrow> False
     | Inr (a, db) \<Rightarrow> month_start (gr_received_at (ad_trigger a)) = 0 \<and> gr_id (ad_trigger a) = ''g1''
         \<and> is_ok (reconcile sample_usage sample_actor (\<lambda>k. k) ''j'' 0 True 9 (usage_db.truncate db)))"
  by code_simp

theorem suppressed_trigger_is_charged_witness:
  "\<exists>a db r repaired. admit_trigger sample_params sample_context (sample_ids ''1'') 0 ''mon'' sample_trigger_request
      (sample_monitor_db [monitor_entitlement] [sample_tokens]) = Inr (a, db) \<and> gr_status (ad_trigger a) = ''suppressed''
     \<and> reconcile sample_usage sample_actor (\<lambda>k. k) ''j'' 0 True 9 (usage_db.truncate db) = Inr (r, repaired)
     \<and> (''t'', ''w'', ''reconcile-monitor-trigger:g1'') \<in> ledger_key ` set (ud_ledger repaired)"
proof -
  obtain a db where run: "admit_trigger sample_params sample_context (sample_ids ''1'') 0 ''mon'' sample_trigger_request
      (sample_monitor_db [monitor_entitlement] [sample_tokens]) = Inr (a, db)" "ad_created a"
    "gr_status (ad_trigger a) = ''suppressed''" by (rule sample_suppression)
  with sample_charge have row: "month_start (gr_received_at (ad_trigger a)) = 0" "gr_id (ad_trigger a) = ''g1''"
    and "is_ok (reconcile sample_usage sample_actor (\<lambda>k. k) ''j'' 0 True 9 (usage_db.truncate db))" by simp_all
  then obtain r repaired where repair: "reconcile sample_usage sample_actor (\<lambda>k. k) ''j'' 0 True 9 (usage_db.truncate db)
      = Inr (r, repaired)" by (auto simp: is_ok_def split: sum.splits)
  have "Some (gr_id (ad_trigger a)) \<notin> le_trigger_id ` set (ud_ledger (sample_monitor_db [monitor_entitlement] [sample_tokens]))"
    by (simp add: sample_monitor_db_def sample_tokens_def)
  from suppressed_trigger_is_charged [OF run sample_lookups(1) row(1) this repair] run(1, 3) repair row(2)
  show ?thesis by (auto simp: sample_actor_def)
qed

end
