(* ===== verification/Retry_Policy.thy ===== *)
theory Retry_Policy
  imports Prelude
begin

text \<open>
  The two retry owners of \<open>providers/retry_policy.py\<close>. What happens outside is the observation
  of each attempt: the readings of the monotonic clock before it, how the operation ended, and
  the readings after it, in the order in which the code takes them. A run yields its outcome and the trace of calls, sleeps and recorded
  attempts. Clock arithmetic is exact: the rounding of the floating point subtractions is not
  modelled.
\<close>

section \<open>Provider retries\<close>

record retry_policy =
  rp_max_attempts :: nat
  rp_total_budget :: rat
  rp_backoff :: "rat list"

definition mk_retry_policy :: "nat \<Rightarrow> rat \<Rightarrow> rat list \<Rightarrow> (string, retry_policy) result" where
  "mk_retry_policy attempts budget backoff =
     (if attempts < 1 \<or> attempts > 3 \<or> budget \<le> 0 \<or> budget > 10
      then Inl ''provider retry budget requires at least 1 attempt, a positive budget, and allows at most 3 attempts and 10 seconds''
      else if backoff = [] \<or> list_ex (\<lambda>d. d < 0) backoff
      then Inl ''provider retry backoff must contain non-negative delays''
      else Inr \<lparr>rp_max_attempts = attempts, rp_total_budget = budget, rp_backoff = backoff\<rparr>)"

definition backoff_at :: "rat list \<Rightarrow> nat \<Rightarrow> rat" where
  "backoff_at backoff i = backoff ! min i (length backoff - 1)"

text \<open>A failure carries whether it may be retried, the delay it asks for and its type.\<close>

record failure =
  fl_retryable :: bool
  fl_retry_after :: "rat option"
  fl_error_type :: string

datatype 'a op_end = Op_ok 'a | Op_unavailable failure | Op_raised

record 'a observation =
  ob_before :: rat
  ob_started :: rat
  ob_end :: "'a op_end"
  ob_after :: rat
  ob_recorded :: rat

datatype attempt_outcome = Succeeded | Retryable_failure | Terminal_failure

record search_attempt =
  sa_provider :: string
  sa_attempt :: nat
  sa_correlation_id :: "string option"
  sa_remaining_budget :: rat
  sa_elapsed :: rat
  sa_outcome :: attempt_outcome
  sa_error_type :: "string option"

datatype retry_event = Called rat nat | Slept rat | Async_slept rat | Recorded search_attempt

text \<open>
  A raised failure with the attempt it belongs to and whether the retries are exhausted
  (\<open>None\<close> where the code leaves the flag alone).
\<close>

datatype 'a retry_end =
    Returned 'a
  | Raised_unavailable failure nat "bool option"
  | Raised_other
  | Never_started

fun give_up :: "(failure \<times> nat) option \<Rightarrow> 'a retry_end" where
  "give_up None = Never_started"
| "give_up (Some (f, n)) = Raised_unavailable f n (Some (fl_retryable f))"

definition prepend :: "'e list \<Rightarrow> 'b \<times> 'e list \<Rightarrow> 'b \<times> 'e list" where
  "prepend es r = (fst r, es @ snd r)"

text \<open>\<open>left\<close> counts the iterations the \<open>for\<close> loop still has; \<open>i\<close> is the attempt index.\<close>

fun retry_loop :: "retry_policy \<Rightarrow> rat \<Rightarrow> (nat \<Rightarrow> 'a observation) \<Rightarrow> nat \<Rightarrow> nat
    \<Rightarrow> (failure \<times> nat) option \<Rightarrow> 'a retry_end \<times> retry_event list" where
  "retry_loop p deadline obs 0 i last_err = (give_up last_err, [])"
| "retry_loop p deadline obs (Suc left) i last_err =
     (let remaining = deadline - ob_before (obs i) in
      if remaining \<le> 0 then (give_up last_err, [])
      else prepend [Called remaining (i + 1)]
        (case ob_end (obs i) of
           Op_ok x \<Rightarrow> (Returned x, [])
         | Op_raised \<Rightarrow> (Raised_other, [])
         | Op_unavailable f \<Rightarrow>
             (if \<not> fl_retryable f then (Raised_unavailable f (i + 1) (Some False), [])
              else if i + 1 \<ge> rp_max_attempts p then (Raised_unavailable f (i + 1) (Some True), [])
              else
                (let delay = backoff_at (rp_backoff p) i in
                 if delay \<ge> deadline - ob_after (obs i) then (give_up (Some (f, i + 1)), [])
                 else prepend [Slept delay]
                   (retry_loop p deadline obs left (i + 1) (Some (f, i + 1)))))))"

definition retry_execute ::
  "retry_policy \<Rightarrow> rat \<Rightarrow> (nat \<Rightarrow> 'a observation) \<Rightarrow> 'a retry_end \<times> retry_event list" where
  "retry_execute p started_at obs =
     retry_loop p (started_at + rp_total_budget p) obs (rp_max_attempts p) 0 None"

section \<open>Search retries\<close>

record search_policy =
  sp_max_attempts :: nat
  sp_total_budget :: rat
  sp_backoff :: "rat list"
  sp_first_share :: rat

definition mk_search_policy :: "nat \<Rightarrow> rat \<Rightarrow> rat list \<Rightarrow> rat \<Rightarrow> (string, search_policy) result" where
  "mk_search_policy attempts budget backoff share =
     (if attempts < 1 \<or> attempts > 3 \<or> budget \<le> 0 \<or> budget > 30
      then Inl ''search retry budget allows at most 3 attempts and 30 seconds''
      else if backoff = [] \<or> list_ex (\<lambda>d. d < 0) backoff
      then Inl ''search retry backoff must contain non-negative delays''
      else if \<not> (0 < share \<and> share \<le> 1)
      then Inl ''search first-attempt budget share must be in (0, 1]''
      else Inr \<lparr>sp_max_attempts = attempts, sp_total_budget = budget, sp_backoff = backoff,
                sp_first_share = share\<rparr>)"

definition future_backoff :: "search_policy \<Rightarrow> nat \<Rightarrow> rat" where
  "future_backoff p attempt =
     sum_list (map (backoff_at (sp_backoff p)) [attempt - 1..<sp_max_attempts p - 1])"

definition attempt_timeout_seconds :: "search_policy \<Rightarrow> rat \<Rightarrow> nat \<Rightarrow> rat" where
  "attempt_timeout_seconds p remaining_budget attempt =
     (let attempts_remaining = sp_max_attempts p - attempt + 1;
          reserved_backoff = min (future_backoff p attempt) (remaining_budget / 2);
          usable_budget = remaining_budget - reserved_backoff
      in if attempts_remaining = 3 then usable_budget * sp_first_share p
         else usable_budget / of_nat attempts_remaining)"

definition retry_after_of_failure :: "failure \<Rightarrow> rat" where
  "retry_after_of_failure f = max 0 (case fl_retry_after f of None \<Rightarrow> 0 | Some v \<Rightarrow> v)"

record search_call =
  sc_provider :: string
  sc_correlation_id :: "string option"

definition attempt_record ::
  "search_call \<Rightarrow> nat \<Rightarrow> rat \<Rightarrow> rat \<Rightarrow> attempt_outcome \<Rightarrow> string option \<Rightarrow> retry_event" where
  "attempt_record c attempt remaining_before elapsed outcome error_type = Recorded
     \<lparr>sa_provider = sc_provider c, sa_attempt = attempt, sa_correlation_id = sc_correlation_id c,
      sa_remaining_budget = max 0 remaining_before, sa_elapsed = max 0 elapsed,
      sa_outcome = outcome, sa_error_type = error_type\<rparr>"

fun search_give_up :: "(failure \<times> nat) option \<Rightarrow> 'a retry_end" where
  "search_give_up None = Never_started"
| "search_give_up (Some (f, n)) = Raised_unavailable f n None"

definition can_retry :: "search_policy \<Rightarrow> failure \<Rightarrow> nat \<Rightarrow> rat \<Rightarrow> rat \<Rightarrow> bool" where
  "can_retry p f attempt remaining_after delay \<longleftrightarrow> fl_retryable f \<and> attempt < sp_max_attempts p
     \<and> remaining_after > 0 \<and> delay < remaining_after"

fun search_loop :: "(rat \<Rightarrow> retry_event) \<Rightarrow> search_policy \<Rightarrow> search_call \<Rightarrow> rat \<Rightarrow> (nat \<Rightarrow> 'a observation)
    \<Rightarrow> nat \<Rightarrow> nat \<Rightarrow> (failure \<times> nat) option \<Rightarrow> 'a retry_end \<times> retry_event list" where
  "search_loop asleep p c deadline obs 0 attempt last_err = (search_give_up last_err, [])"
| "search_loop asleep p c deadline obs (Suc left) attempt last_err =
     (let ob = obs attempt; remaining_before = deadline - ob_before ob in
      if remaining_before \<le> 0 then (search_give_up last_err, [])
      else prepend [Called (attempt_timeout_seconds p remaining_before attempt) attempt]
        (case ob_end ob of
           Op_raised \<Rightarrow> (Raised_other, [])
         | Op_ok x \<Rightarrow> (Returned x,
             [attempt_record c attempt remaining_before (ob_recorded ob - ob_started ob) Succeeded None])
         | Op_unavailable f \<Rightarrow>
             (let remaining_after = deadline - ob_after ob;
                  delay = max (backoff_at (sp_backoff p) (attempt - 1)) (retry_after_of_failure f);
                  retry = can_retry p f attempt remaining_after delay;
                  note = attempt_record c attempt remaining_before (ob_recorded ob - ob_started ob)
                    (if retry then Retryable_failure else Terminal_failure) (Some (fl_error_type f))
              in if \<not> retry then (Raised_unavailable f attempt None, [note])
                 else prepend [note, asleep delay]
                   (search_loop asleep p c deadline obs left (attempt + 1) (Some (f, attempt))))))"

definition search_execute ::
  "search_policy \<Rightarrow> search_call \<Rightarrow> rat \<Rightarrow> (nat \<Rightarrow> 'a observation) \<Rightarrow> 'a retry_end \<times> retry_event list" where
  "search_execute p c started_at obs =
     search_loop Slept p c (started_at + sp_total_budget p) obs (sp_max_attempts p) 1 None"

definition search_execute_async ::
  "search_policy \<Rightarrow> search_call \<Rightarrow> rat \<Rightarrow> (nat \<Rightarrow> 'a observation) \<Rightarrow> 'a retry_end \<times> retry_event list" where
  "search_execute_async p c started_at obs =
     search_loop Async_slept p c (started_at + sp_total_budget p) obs (sp_max_attempts p) 1 None"

section \<open>What the trace of a run shows\<close>

fun call_of :: "retry_event \<Rightarrow> (rat \<times> nat) list" where
  "call_of (Called t n) = [(t, n)]"
| "call_of _ = []"

definition calls :: "retry_event list \<Rightarrow> (rat \<times> nat) list" where
  "calls es = concat (map call_of es)"

lemma calls_simps [simp]:
  "calls [] = []" "calls (e # es) = call_of e @ calls es" "calls (xs @ ys) = calls xs @ calls ys"
  by (simp_all add: calls_def)

lemma snd_prepend [simp]: "snd (prepend es r) = es @ snd r" "fst (prepend es r) = fst r"
  by (simp_all add: prepend_def)

lemma backoff_at_mem: "b \<noteq> [] \<Longrightarrow> backoff_at b i \<in> set b"
  by (auto simp: backoff_at_def intro!: nth_mem) (cases b; auto)

definition valid_search_policy :: "search_policy \<Rightarrow> bool" where
  "valid_search_policy p \<longleftrightarrow> 1 \<le> sp_max_attempts p \<and> sp_max_attempts p \<le> 3 \<and> 0 < sp_total_budget p
     \<and> sp_total_budget p \<le> 30 \<and> sp_backoff p \<noteq> [] \<and> list_all (\<lambda>d. 0 \<le> d) (sp_backoff p)
     \<and> 0 < sp_first_share p \<and> sp_first_share p \<le> 1"

definition valid_retry_policy :: "retry_policy \<Rightarrow> bool" where
  "valid_retry_policy p \<longleftrightarrow> 1 \<le> rp_max_attempts p \<and> rp_max_attempts p \<le> 3 \<and> 0 < rp_total_budget p
     \<and> rp_total_budget p \<le> 10 \<and> rp_backoff p \<noteq> [] \<and> list_all (\<lambda>d. 0 \<le> d) (rp_backoff p)"

lemma mk_search_policy_valid: "mk_search_policy a b k s = Inr p \<Longrightarrow> valid_search_policy p"
  by (auto simp: mk_search_policy_def valid_search_policy_def list_ex_iff list_all_iff not_less
      split: if_splits)

lemma mk_retry_policy_valid: "mk_retry_policy a b k = Inr p \<Longrightarrow> valid_retry_policy p"
  by (auto simp: mk_retry_policy_def valid_retry_policy_def list_ex_iff list_all_iff not_less
      split: if_splits)

lemma future_backoff_nonneg: "valid_search_policy p \<Longrightarrow> 0 \<le> future_backoff p n"
  using backoff_at_mem [of "sp_backoff p"]
  by (auto simp: future_backoff_def valid_search_policy_def list_all_iff intro!: sum_list_nonneg)

text \<open>A timeout is positive and leaves the reserved backoff of what remains.\<close>

lemma attempt_timeout_bounds:
  assumes p: "valid_search_policy p" and r: "0 < r" and n: "1 \<le> n" "n \<le> sp_max_attempts p"
  shows "0 < attempt_timeout_seconds p r n"
    and "attempt_timeout_seconds p r n + min (future_backoff p n) (r / 2) \<le> r"
proof -
  let ?u = "r - min (future_backoff p n) (r / 2)"
  have u: "r / 2 \<le> ?u" "0 < ?u" using r future_backoff_nonneg [OF p, of n] by (auto simp: min_def)
  have shares: "0 < ?u * sp_first_share p" "?u * sp_first_share p \<le> ?u"
    using u p by (auto simp: valid_search_policy_def mult_le_cancel_left2)
  have parts: "0 < ?u / of_nat k" "?u / of_nat k \<le> ?u" if "1 \<le> k" for k :: nat
    using u that by (auto simp: divide_le_eq)
  have "0 < attempt_timeout_seconds p r n \<and> attempt_timeout_seconds p r n \<le> ?u"
    using shares parts [of "sp_max_attempts p - n + 1"]
    by (auto simp: attempt_timeout_seconds_def Let_def)
  then show "0 < attempt_timeout_seconds p r n"
    and "attempt_timeout_seconds p r n + min (future_backoff p n) (r / 2) \<le> r" by auto
qed

lemma attempt_timeout_le:
  assumes "valid_search_policy p" and "0 < r" and "1 \<le> n" and "n \<le> sp_max_attempts p"
  shows "0 < attempt_timeout_seconds p r n \<and> attempt_timeout_seconds p r n \<le> r"
proof -
  have "0 \<le> min (future_backoff p n) (r / 2)"
    using assms(1, 2) by (simp add: future_backoff_nonneg)
  with attempt_timeout_bounds [OF assms] show ?thesis by linarith
qed

section \<open>The contract of a retry owner\<close>

text \<open>
  What a caller relies on: the calls are numbered from one, there are at most \<open>limit\<close> of them,
  and each has a positive timeout within the budget when no clock reading precedes the start.
\<close>

locale retry_owner =
  fixes calls_made :: "'p \<Rightarrow> rat \<Rightarrow> (nat \<Rightarrow> 'a observation) \<Rightarrow> (rat \<times> nat) list"
    and limit :: "'p \<Rightarrow> nat" and budget :: "'p \<Rightarrow> rat" and valid :: "'p \<Rightarrow> bool"
  assumes count: "valid p \<Longrightarrow> length (calls_made p started obs) \<le> limit p"
    and numbers: "valid p \<Longrightarrow> map snd (calls_made p started obs) = [1..<Suc (length (calls_made p started obs))]"
    and timed: "valid p \<Longrightarrow> (\<forall>i. started \<le> ob_before (obs i)) \<Longrightarrow>
      (t, n) \<in> set (calls_made p started obs) \<Longrightarrow> 0 < t \<and> t \<le> budget p"
    and budget_pos: "valid p \<Longrightarrow> 0 < budget p"
begin

lemma attempt_numbers: "valid p \<Longrightarrow> (t, n) \<in> set (calls_made p started obs) \<Longrightarrow> 1 \<le> n \<and> n \<le> limit p"
proof -
  assume p: "valid p" and "(t, n) \<in> set (calls_made p started obs)"
  then have "n \<in> set (map snd (calls_made p started obs))" by force
  with count [OF p, of started obs] numbers [OF p, of started obs] show ?thesis
    by (auto simp del: upt_Suc)
qed

lemma no_attempt_twice: "valid p \<Longrightarrow> distinct (map snd (calls_made p started obs))"
  by (simp add: numbers del: upt_Suc)

lemma total_time:
  assumes p: "valid p" and clock: "\<forall>i. started \<le> ob_before (obs i)"
  shows "sum_list (map fst (calls_made p started obs)) \<le> of_nat (limit p) * budget p"
proof -
  have sum: "sum_list (map fst cs) \<le> of_nat (length cs) * budget p"
    if "\<forall>c \<in> set cs. fst c \<le> budget p" for cs :: "(rat \<times> nat) list"
    using that by (induction cs) (auto simp: algebra_simps)
  have "\<forall>c \<in> set (calls_made p started obs). fst c \<le> budget p"
    using timed [OF p clock] by (metis prod.collapse)
  from sum [OF this] have "sum_list (map fst (calls_made p started obs))
      \<le> of_nat (length (calls_made p started obs)) * budget p" .
  also have "\<dots> \<le> of_nat (limit p) * budget p"
    using count [OF p] budget_pos [OF p] by (intro mult_right_mono) auto
  finally show ?thesis .
qed

end

section \<open>Both owners keep the contract\<close>

definition retry_calls :: "retry_policy \<Rightarrow> rat \<Rightarrow> (nat \<Rightarrow> 'a observation) \<Rightarrow> (rat \<times> nat) list" where
  "retry_calls p started_at obs = calls (snd (retry_execute p started_at obs))"

definition search_calls :: "search_call \<Rightarrow> search_policy \<Rightarrow> rat \<Rightarrow> (nat \<Rightarrow> 'a observation) \<Rightarrow> (rat \<times> nat) list" where
  "search_calls c p started_at obs = calls (snd (search_execute p c started_at obs))"

lemma retry_loop_calls:
  "length (calls (snd (retry_loop p d obs left i e))) \<le> left
   \<and> map snd (calls (snd (retry_loop p d obs left i e)))
       = [Suc i..<Suc i + length (calls (snd (retry_loop p d obs left i e)))]
   \<and> (\<forall>c \<in> set (calls (snd (retry_loop p d obs left i e))).
        0 < fst c \<and> fst c \<le> d - ob_before (obs (snd c - 1)))"
proof (induction p d obs left i e rule: retry_loop.induct)
  case (2 p d obs left i e)
  then show ?case
    by (auto simp: Let_def upt_conv_Cons simp del: upt_Suc split: op_end.splits)
qed simp

lemma attempt_record_calls [simp]: "call_of (attempt_record c n r el out err) = []"
  by (simp add: attempt_record_def)

lemma search_loop_calls:
  assumes "valid_search_policy p" and "\<And>d. call_of (asleep d) = []" and "1 \<le> n" and "n + left \<le> Suc (sp_max_attempts p)"
  shows "length (calls (snd (search_loop asleep p c d obs left n e))) \<le> left
   \<and> map snd (calls (snd (search_loop asleep p c d obs left n e)))
       = [n..<n + length (calls (snd (search_loop asleep p c d obs left n e)))]
   \<and> (\<forall>k \<in> set (calls (snd (search_loop asleep p c d obs left n e))).
        0 < fst k \<and> fst k \<le> d - ob_before (obs (snd k)))"
  using assms
proof (induction asleep p c d obs left n e rule: search_loop.induct)
  case (2 asleep p c d obs left n e)
  let ?r = "d - ob_before (obs n)"
  have t: "0 < attempt_timeout_seconds p ?r n" "attempt_timeout_seconds p ?r n \<le> ?r" if "0 < ?r"
    using attempt_timeout_le [OF 2(2) that, of n] 2(4, 5) by auto
  with 2 show ?case
    by (auto simp: Let_def upt_conv_Cons simp del: upt_Suc split: op_end.splits)
qed simp

interpretation provider_retry: retry_owner retry_calls rp_max_attempts rp_total_budget valid_retry_policy
proof
  fix p started and obs :: "nat \<Rightarrow> 'a observation"
  note facts = retry_loop_calls [of p "started + rp_total_budget p" obs "rp_max_attempts p" 0 None]
  show "length (retry_calls p started obs) \<le> rp_max_attempts p"
    and "map snd (retry_calls p started obs) = [1..<Suc (length (retry_calls p started obs))]"
    using facts by (simp_all add: retry_calls_def retry_execute_def del: upt_Suc)
  fix t n
  assume clock: "\<forall>i. started \<le> ob_before (obs i)" and "(t, n) \<in> set (retry_calls p started obs)"
  with facts have "0 < t \<and> t \<le> started + rp_total_budget p - ob_before (obs (n - 1))"
    by (auto simp: retry_calls_def retry_execute_def)
  with clock [rule_format, of "n - 1"] show "0 < t \<and> t \<le> rp_total_budget p" by auto
qed (simp add: valid_retry_policy_def)

interpretation search_retry: retry_owner "search_calls c" sp_max_attempts sp_total_budget valid_search_policy
  for c
proof
  fix p started and obs :: "nat \<Rightarrow> 'a observation"
  assume p: "valid_search_policy p"
  note facts = search_loop_calls [of p Slept 1 "sp_max_attempts p" c "started + sp_total_budget p" obs None, OF p]
  show "length (search_calls c p started obs) \<le> sp_max_attempts p"
    and "map snd (search_calls c p started obs) = [1..<Suc (length (search_calls c p started obs))]"
    using facts by (simp_all add: search_calls_def search_execute_def del: upt_Suc)
  fix t n
  assume clock: "\<forall>i. started \<le> ob_before (obs i)" and "(t, n) \<in> set (search_calls c p started obs)"
  with facts have "0 < t \<and> t \<le> started + sp_total_budget p - ob_before (obs n)"
    by (auto simp: search_calls_def search_execute_def)
  with clock [rule_format, of n] show "0 < t \<and> t \<le> sp_total_budget p" by auto
qed (simp add: valid_search_policy_def)

section \<open>What a run reports\<close>

fun record_of :: "retry_event \<Rightarrow> search_attempt list" where
  "record_of (Recorded r) = [r]"
| "record_of _ = []"

definition records :: "retry_event list \<Rightarrow> search_attempt list" where
  "records es = concat (map record_of es)"

lemma records_simps [simp]:
  "records [] = []" "records (e # es) = record_of e @ records es" "records (xs @ ys) = records xs @ records ys"
  by (simp_all add: records_def)

fun as_async :: "retry_event \<Rightarrow> retry_event" where
  "as_async (Slept d) = Async_slept d"
| "as_async e = e"

lemma as_async_record [simp]: "as_async (attempt_record c n r el out err) = attempt_record c n r el out err"
  by (simp add: attempt_record_def)

lemma record_of_attempt [simp]: "record_of (attempt_record c n r el out err) =
    [\<lparr>sa_provider = sc_provider c, sa_attempt = n, sa_correlation_id = sc_correlation_id c,
      sa_remaining_budget = max 0 r, sa_elapsed = max 0 el, sa_outcome = out, sa_error_type = err\<rparr>]"
  by (simp add: attempt_record_def)

lemma search_loop_async: "search_loop Async_slept p c d obs left n e =
    map_prod id (map as_async) (search_loop Slept p c d obs left n e)"
  by (induction "Slept" p c d obs left n e rule: search_loop.induct)
    (auto simp: prepend_def Let_def split: op_end.splits)

text \<open>The failure that a loop raises is the last one it saw, and why it was not retried.\<close>

definition not_retried :: "retry_policy \<Rightarrow> rat \<Rightarrow> (nat \<Rightarrow> 'a observation) \<Rightarrow> nat \<Rightarrow> failure \<Rightarrow> bool" where
  "not_retried p deadline obs n f \<longleftrightarrow> \<not> fl_retryable f \<or> rp_max_attempts p \<le> n
     \<or> deadline - ob_after (obs (n - 1)) \<le> backoff_at (rp_backoff p) (n - 1)
     \<or> deadline \<le> ob_before (obs n)"

lemma retry_loop_raises:
  assumes "fst (retry_loop p d obs left i e) = Raised_unavailable f n flag" and "rp_max_attempts p \<le> i + left"
    and "\<And>g k. e = Some (g, k) \<Longrightarrow> k = i \<and> 1 \<le> k \<and> ob_end (obs (k - 1)) = Op_unavailable g"
  shows "flag = Some (fl_retryable f) \<and> 1 \<le> n \<and> ob_end (obs (n - 1)) = Op_unavailable f
     \<and> n = i + length (calls (snd (retry_loop p d obs left i e))) \<and> not_retried p d obs n f"
  using assms
proof (induction p d obs left i e rule: retry_loop.induct)
  case (1 p d obs i e)
  then show ?case by (cases e) (auto simp: not_retried_def)
next
  case (2 p d obs left i e)
  show ?case
  proof (cases "d - ob_before (obs i) \<le> 0")
    case True
    with 2(2, 4) show ?thesis by (cases e) (auto simp: not_retried_def Let_def)
  next
    case False
    with 2 show ?thesis
      by (auto simp: Let_def not_retried_def split: op_end.splits if_splits)
  qed
qed

section \<open>Properties\<close>

text \<open>
  C39. A search policy that the constructor accepts makes at most three calls, numbered one after
  the other, each with a positive timeout, and a call that keeps its timeout ends before the
  deadline of the whole search.
\<close>

theorem search_calls_within_budget:
  assumes "mk_search_policy attempts budget backoff share = Inr p"
  shows "length (search_calls c p started obs) \<le> attempts \<and> attempts \<le> 3
     \<and> map snd (search_calls c p started obs) = [1..<Suc (length (search_calls c p started obs))]
     \<and> (\<forall>(t, n) \<in> set (search_calls c p started obs).
          0 < t \<and> ob_before (obs n) + t \<le> started + budget)"
proof -
  have p: "valid_search_policy p" and args: "sp_max_attempts p = attempts" "sp_total_budget p = budget"
    using assms mk_search_policy_valid [OF assms] by (auto simp: mk_search_policy_def split: if_splits)
  note facts = search_loop_calls [of p Slept 1 "sp_max_attempts p" c "started + sp_total_budget p" obs None, OF p]
  then have "\<forall>(t, n) \<in> set (search_calls c p started obs). 0 < t \<and> ob_before (obs n) + t \<le> started + budget"
    by (auto simp: search_calls_def search_execute_def args)
  moreover have "attempts \<le> 3" using p by (simp add: valid_search_policy_def args)
  ultimately show ?thesis
    using search_retry.count [OF p, of c started obs] search_retry.numbers [OF p, of c started obs]
    by (simp add: args)
qed

definition failing_search :: "nat \<Rightarrow> int observation" where
  "failing_search n = \<lparr>ob_before = of_nat n, ob_started = of_nat n,
     ob_end = (if n < 3 then Op_unavailable \<lparr>fl_retryable = True, fl_retry_after = None, fl_error_type = ''timeout''\<rparr>
       else Op_ok 7),
     ob_after = of_nat n, ob_recorded = of_nat n\<rparr>"

definition sample_search :: search_policy where
  "sample_search = \<lparr>sp_max_attempts = 3, sp_total_budget = 30, sp_backoff = [1, 2], sp_first_share = 1 / 2\<rparr>"

definition sample_call :: search_call where
  "sample_call = \<lparr>sc_provider = ''tavily'', sc_correlation_id = None\<rparr>"

lemmas sample_search_defs = failing_search_def sample_search_def sample_call_def

theorem search_calls_within_budget_witness:
  "mk_search_policy 3 30 [1, 2] (1 / 2) = Inr sample_search
   \<and> length (search_calls sample_call sample_search 0 failing_search) \<le> 3"
proof -
  have policy: "mk_search_policy 3 30 [1, 2] (1 / 2) = Inr sample_search"
    by (simp add: mk_search_policy_def sample_search_def)
  with search_calls_within_budget [OF policy, of sample_call 0 failing_search] show ?thesis by simp
qed

text \<open>
  The asynchronous search loop is the synchronous one: on the same observations it makes the
  same calls with the same timeouts, records the same attempts and ends the same way, and differs
  only in which sleep it waits on.
\<close>

lemma async_search_equals_sync:
  "search_execute_async p c started obs = map_prod id (map as_async) (search_execute p c started obs)"
  by (simp add: search_execute_async_def search_execute_def search_loop_async)

text \<open>
  When the provider retries end with a failure, it is the failure of the last call made, it is
  flagged as exhausted exactly when it could have been retried, and it was retried no further
  because it must not be, the attempts were used up, the next backoff would have outlasted the
  budget or the budget was spent.
\<close>

theorem provider_failure_is_exhausted:
  assumes "fst (retry_execute p started obs) = Raised_unavailable f n flag"
  shows "flag = Some (fl_retryable f) \<and> n = length (retry_calls p started obs)
     \<and> ob_end (obs (n - 1)) = Op_unavailable f
     \<and> not_retried p (started + rp_total_budget p) obs n f"
  using retry_loop_raises [of p "started + rp_total_budget p" obs "rp_max_attempts p" 0 None f n flag] assms
  by (auto simp: retry_execute_def retry_calls_def)

definition failing_fetch :: "nat \<Rightarrow> int observation" where
  "failing_fetch n = \<lparr>ob_before = of_nat n, ob_started = of_nat n,
     ob_end = Op_unavailable \<lparr>fl_retryable = True, fl_retry_after = None, fl_error_type = ''timeout''\<rparr>,
     ob_after = of_nat n, ob_recorded = of_nat n\<rparr>"

theorem provider_failure_is_exhausted_witness:
  "length (retry_calls \<lparr>rp_max_attempts = 2, rp_total_budget = 10, rp_backoff = [1]\<rparr> 0 failing_fetch) = 2"
proof -
  let ?p = "\<lparr>rp_max_attempts = 2, rp_total_budget = 10, rp_backoff = [1]\<rparr>"
  have "fst (retry_execute ?p 0 failing_fetch) = Raised_unavailable
      \<lparr>fl_retryable = True, fl_retry_after = None, fl_error_type = ''timeout''\<rparr> 2 (Some True)"
    by (simp add: retry_execute_def failing_fetch_def eval_nat_numeral backoff_at_def Let_def)
  from provider_failure_is_exhausted [OF this] show ?thesis by simp
qed

lemma search_loop_records:
  assumes "\<And>d. call_of (asleep d) = [] \<and> record_of (asleep d) = []" and "\<And>k. ob_end (obs k) \<noteq> Op_raised"
  shows "(let r = search_loop asleep p c d obs left n e; rs = records (snd r) in
     map sa_attempt rs = map snd (calls (snd r))
     \<and> (\<forall>a \<in> set (butlast rs). sa_outcome a = Retryable_failure)
     \<and> ((\<exists>x. fst r = Returned x) \<longleftrightarrow> rs \<noteq> [] \<and> sa_outcome (last rs) = Succeeded))"
  using assms
proof (induction asleep p c d obs left n e rule: search_loop.induct)
  case (1 asleep p c d obs n e)
  then show ?case by (cases e) auto
next
  case (2 asleep p c d obs left n e)
  show ?case
  proof (cases "d - ob_before (obs n) \<le> 0")
    case True
    then show ?thesis by (cases e) (auto simp: Let_def)
  next
    case False
    with 2 show ?thesis
      by (auto simp: Let_def can_retry_def split: op_end.splits)
  qed
qed

text \<open>
  The recorded attempts of a search are its calls: one record for each, with its number, and
  only the last one may be something else than a failure that was retried. The search returns
  a result exactly when the last record is a success.
\<close>

lemma search_records_match_calls:
  assumes "\<And>k. ob_end (obs k) \<noteq> Op_raised" and "rs = records (snd (search_execute p c started obs))"
  shows "map sa_attempt rs = map snd (search_calls c p started obs)
     \<and> (\<forall>a \<in> set (butlast rs). sa_outcome a = Retryable_failure)
     \<and> ((\<exists>x. fst (search_execute p c started obs) = Returned x)
          \<longleftrightarrow> rs \<noteq> [] \<and> sa_outcome (last rs) = Succeeded)"
  using search_loop_records [of Slept obs p c "started + sp_total_budget p" "sp_max_attempts p" 1 None] assms
  by (simp add: search_execute_def search_calls_def Let_def)

end
