(* ===== verification/Memory_Policy.thy ===== *)
theory Memory_Policy
  imports Domain_Models
begin

text \<open>
  The memory policy of \<open>domain/memory.py\<close>: which stored records may be injected into a new
  request. Only enabled, unexpired records without historical market facts pass. A key is
  compared after \<open>casefold\<close>, which agrees with \<open>lower\<close> on every Latin-1 character but the sharp s
  and the micro sign; no fact key contains what those two fold to, so \<open>lower\<close> decides the same.
\<close>

datatype memory_purpose =
    Session_clarification | Profile | Strategy_config | Process_lesson | Event_memory | Badcase
datatype memory_scope = Scope_session | Scope_workspace

record memory_record =
  mr_memory_id :: uuid
  mr_scope :: memory_scope
  mr_purpose :: memory_purpose
  mr_key :: string
  mr_content :: "(string \<times> json) list"
  mr_enabled :: bool
  mr_expires_at :: "pydatetime option"
  mr_refreshed_at :: "pydatetime option"
  mr_source_artifact_id :: "uuid option"

record memory_injection =
  mj_memory_id :: uuid
  mj_purpose :: memory_purpose
  mj_key :: string
  mj_content :: "(string \<times> json) list"

definition HISTORICAL_FACT_KEYS :: "string list" where
  "HISTORICAL_FACT_KEYS = [''action'', ''close'', ''entry_price'', ''fact'', ''market_price'',
     ''mfe'', ''mae'', ''pnl'', ''prediction'', ''profit'', ''recommendation'', ''return'']"

definition has_tzinfo :: "pydatetime \<Rightarrow> bool" where
  "has_tzinfo d = (\<not> tzinfo_is_none d)"

definition valid_memory_record :: "memory_record \<Rightarrow> bool" where [validity_defs]:
  "valid_memory_record r \<longleftrightarrow> len_between 1 128 (mr_key r)
     \<and> opt_ok has_tzinfo (mr_expires_at r) \<and> opt_ok has_tzinfo (mr_refreshed_at r)
     \<and> \<not> (mr_purpose r = Event_memory \<and> mr_refreshed_at r = None)"

fun contains_historical_fact :: "json \<Rightarrow> bool" where
  "contains_historical_fact (JObj kvs) =
     (list_ex (\<lambda>k. lower k \<in> set HISTORICAL_FACT_KEYS) (map fst kvs)
      \<or> list_ex contains_historical_fact (map snd kvs))"
| "contains_historical_fact (JArr xs) = list_ex contains_historical_fact xs"
| "contains_historical_fact _ = False"

datatype memory_error = Naive_now | Incomparable_times

definition memory_expired :: "memory_record \<Rightarrow> pydatetime \<Rightarrow> (memory_error, bool) result" where
  "memory_expired r now =
     (if tzinfo_is_none now then Inl Naive_now
      else case mr_expires_at r of
        None \<Rightarrow> Inr False
      | Some e \<Rightarrow> (case dt_le e now of None \<Rightarrow> Inl Incomparable_times | Some b \<Rightarrow> Inr b))"

definition injection_of :: "memory_record \<Rightarrow> memory_injection" where
  "injection_of r = \<lparr>mj_memory_id = mr_memory_id r, mj_purpose = mr_purpose r, mj_key = mr_key r,
     mj_content = mr_content r\<rparr>"

text \<open>One turn of the loop: the injections the record adds.\<close>

definition inject_record :: "pydatetime \<Rightarrow> memory_record \<Rightarrow> (memory_error, memory_injection list) result" where
  "inject_record now r =
     (if \<not> mr_enabled r then Inr []
      else rbind (case mr_expires_at r of None \<Rightarrow> Inr False
             | Some e \<Rightarrow> (case dt_le e now of None \<Rightarrow> Inl Incomparable_times | Some b \<Rightarrow> Inr b))
        (\<lambda>expired.
           if expired then Inr []
           else if contains_historical_fact (JObj (mr_content r)) then Inr []
           else if mr_purpose r = Event_memory \<and> mr_refreshed_at r = None then Inr []
           else Inr [injection_of r]))"

fun inject_all :: "pydatetime \<Rightarrow> memory_record list \<Rightarrow> (memory_error, memory_injection list) result" where
  "inject_all now [] = Inr []"
| "inject_all now (r # rs) =
     rbind (inject_record now r) (\<lambda>xs. rbind (inject_all now rs) (\<lambda>ys. Inr (xs @ ys)))"

definition safe_memory_injection ::
  "memory_record list \<Rightarrow> pydatetime \<Rightarrow> (memory_error, memory_injection list) result" where
  "safe_memory_injection records now =
     (if tzinfo_is_none now then Inl Naive_now else inject_all now records)"

section \<open>Facts\<close>

definition injectable :: "instant \<Rightarrow> memory_record \<Rightarrow> bool" where
  "injectable t r \<longleftrightarrow> mr_enabled r
     \<and> (case mr_expires_at r of Some (Aware e) \<Rightarrow> t < e | _ \<Rightarrow> True)
     \<and> \<not> contains_historical_fact (JObj (mr_content r))
     \<and> \<not> (mr_purpose r = Event_memory \<and> mr_refreshed_at r = None)"

definition comparable :: "memory_record \<Rightarrow> bool" where
  "comparable r \<longleftrightarrow> (case mr_expires_at r of None \<Rightarrow> True | Some e \<Rightarrow> \<not> utcoffset_is_none e)"

lemma inject_record_aware:
  "comparable r \<Longrightarrow> inject_record (Aware t) r = Inr (if injectable t r then [injection_of r] else [])"
  by (cases "mr_expires_at r"; cases "the (mr_expires_at r)")
    (auto simp: inject_record_def injectable_def comparable_def)

lemma inject_all_aware:
  "list_all comparable rs \<Longrightarrow> inject_all (Aware t) rs = Inr (map injection_of (filter (injectable t) rs))"
  by (induction rs) (auto simp: inject_record_aware)

text \<open>A document without historical facts has no fact key at any depth.\<close>

fun json_keys :: "json \<Rightarrow> string list" where
  "json_keys (JObj kvs) = map fst kvs @ concat (map json_keys (map snd kvs))"
| "json_keys (JArr xs) = concat (map json_keys xs)"
| "json_keys _ = []"

lemma contains_historical_fact_iff:
  "contains_historical_fact j \<longleftrightarrow> list_ex (\<lambda>k. lower k \<in> set HISTORICAL_FACT_KEYS) (json_keys j)"
  by (induction j rule: contains_historical_fact.induct) (auto simp: list_ex_iff)

section \<open>Property\<close>

definition fact_free :: "memory_injection \<Rightarrow> bool" where
  "fact_free m \<longleftrightarrow> \<not> list_ex (\<lambda>k. lower k \<in> set HISTORICAL_FACT_KEYS) (json_keys (JObj (mj_content m)))"

lemma injectable_fact_free: "injectable t r \<Longrightarrow> fact_free (injection_of r)"
  by (simp only: injectable_def fact_free_def injection_of_def contains_historical_fact_iff
      memory_injection.simps simp_thms)

text \<open>
  The injection is a filter: it returns, in their order, the enabled records that have not
  expired at that time, hold no historical fact at any depth and, for an event, were refreshed,
  and of each only its identity, purpose, key and content. No key of an injected document is
  a historical fact key, however deep.
\<close>

theorem injection_is_a_filter:
  assumes "list_all comparable rs"
  shows "safe_memory_injection rs (Aware t) = Inr (map injection_of (filter (injectable t) rs))
     \<and> list_all fact_free (map injection_of (filter (injectable t) rs))"
  using assms by (auto simp: safe_memory_injection_def inject_all_aware list_all_iff injectable_fact_free)

definition sample_memory :: "bool \<Rightarrow> string \<Rightarrow> memory_record" where
  "sample_memory enabled k = \<lparr>mr_memory_id = ''m'', mr_scope = Scope_workspace,
     mr_purpose = Process_lesson, mr_key = ''lesson'', mr_content = [(''note'', JObj [(k, JNull)])],
     mr_enabled = enabled, mr_expires_at = Some (Aware 10), mr_refreshed_at = None,
     mr_source_artifact_id = None\<rparr>"

theorem injection_is_a_filter_witness:
  "safe_memory_injection [sample_memory True ''PnL'', sample_memory False ''x'', sample_memory True ''x''] (Aware 5)
     = Inr [injection_of (sample_memory True ''x'')]"
proof -
  let ?rs = "[sample_memory True ''PnL'', sample_memory False ''x'', sample_memory True ''x'']"
  have "list_all comparable ?rs" by code_simp
  moreover have "filter (injectable 5) ?rs = [sample_memory True ''x'']" by code_simp
  ultimately show ?thesis using injection_is_a_filter [of ?rs 5] by simp
qed

end
