(* ===== verification/Outcome_Policy.thy ===== *)
theory Outcome_Policy
  imports Domain_Models
begin

text \<open>
  The outcome evaluation of \<open>domain/outcome.py\<close>. Arithmetic on \<open>Decimal\<close> is exact followed by a
  rounding to 28 significant digits, half to even, as the default context of Python's \<open>decimal\<close>
  does it (its exponent limits are not reached by prices and are not modelled). The two double
  operations of the Brier score are the parameters \<open>float_sub\<close> and \<open>float_square\<close>.
\<close>

section \<open>Decimal arithmetic\<close>

fun num_digits :: "nat \<Rightarrow> nat" where
  "num_digits n = (if n < 10 then 1 else Suc (num_digits (n div 10)))"

declare num_digits.simps [simp del]

definition pow10 :: "int \<Rightarrow> rat" where
  "pow10 e = (if 0 \<le> e then 10 ^ nat e else 1 / 10 ^ nat (- e))"

definition PRECISION :: int where "PRECISION = 28"

text \<open>The exponent at which a number has 28 digits before the point.\<close>

definition last_digit_exponent :: "rat \<Rightarrow> int" where
  "last_digit_exponent x =
     (let (p, q) = quotient_of \<bar>x\<bar>;
          e = int (num_digits (nat p)) - int (num_digits (nat q)) - PRECISION
      in if \<bar>x\<bar> / pow10 e \<ge> pow10 PRECISION then e + 1 else e)"

definition dec :: "rat \<Rightarrow> rat" where
  "dec x = (if x = 0 then 0
     else let e = last_digit_exponent x in of_int (round_half_even (x / pow10 e)) * pow10 e)"

lemma pow10_pos [simp]: "0 < pow10 e"
  by (simp add: pow10_def)

lemma pow10_pos_le [simp]: "0 \<le> pow10 e"
  by (simp add: less_imp_le)

lemma dec_nonneg: "0 \<le> x \<Longrightarrow> 0 \<le> dec x"
  by (simp add: dec_def Let_def round_half_even_nonneg)

lemma dec_nonpos: "x \<le> 0 \<Longrightarrow> dec x \<le> 0"
  by (auto simp: dec_def Let_def intro!: mult_nonpos_nonneg round_half_even_nonpos
      divide_nonpos_nonneg)

section \<open>Outcomes\<close>

datatype outcome_status = Oc_scheduled | Oc_pending | Oc_matured | Oc_insufficient | Oc_failed
datatype outcome_baseline = Bl_decision | Bl_hold | Bl_no_trade

record outcome_metrics =
  om_brier_score :: "float64 option"
  om_mfe :: "decimal option"
  om_mae :: "decimal option"
  om_gross_return :: "decimal option"
  om_fees :: decimal
  om_slippage :: decimal
  om_funding :: decimal
  om_net_return :: "decimal option"

definition valid_outcome_metrics :: "outcome_metrics \<Rightarrow> bool" where [validity_defs]:
  "valid_outcome_metrics m \<longleftrightarrow> opt_ok (\<lambda>x. 0 \<le> x \<and> x \<le> 1) (om_brier_score m)
     \<and> 0 \<le> om_fees m \<and> 0 \<le> om_slippage m"

record outcome_window =
  ow_horizon :: string
  ow_observed_at :: pydatetime

record outcome_observation =
  oo_artifact_version_id :: string
  oo_action :: action
  oo_baseline :: outcome_baseline
  oo_predicted_probability :: "float64 option"
  oo_realized_label :: "float64 option"
  oo_window :: outcome_window
  oo_status :: outcome_status
  oo_metrics :: "outcome_metrics option"

definition valid_outcome_observation :: "outcome_observation \<Rightarrow> bool" where [validity_defs]:
  "valid_outcome_observation ob \<longleftrightarrow> len_between 1 255 (oo_artifact_version_id ob)
     \<and> opt_ok (\<lambda>x. 0 \<le> x \<and> x \<le> 1) (oo_predicted_probability ob)
     \<and> opt_ok (\<lambda>x. 0 \<le> x \<and> x \<le> 1) (oo_realized_label ob)
     \<and> len_between 1 32 (ow_horizon (oo_window ob))
     \<and> opt_ok valid_outcome_metrics (oo_metrics ob)"

datatype outcome_error = Oe_naive | Oe_suffix | Oe_not_positive | Oe_inconsistent | Oe_invalid | Oe_overflow

text \<open>
  Python's \<open>int(text)\<close>: white space around, one sign, and decimal digits with single underscores
  between them. The digits of Latin-1 are the ASCII ones.
\<close>

fun digits_value :: "nat \<Rightarrow> string \<Rightarrow> nat option" where
  "digits_value acc [] = Some acc"
| "digits_value acc (c # cs) =
     (if is_digit c then digits_value (10 * acc + (of_char c - 48)) cs
      else if c = CHR ''_'' \<and> cs \<noteq> [] \<and> is_digit (hd cs) then digits_value acc cs
      else None)"

definition unsigned_value :: "string \<Rightarrow> nat option" where
  "unsigned_value s = (if s \<noteq> [] \<and> is_digit (hd s) then digits_value 0 s else None)"

definition int_of_text :: "string \<Rightarrow> int option" where
  "int_of_text text = (let s = strip text in
     case s of
       [] \<Rightarrow> None
     | c # cs \<Rightarrow>
         (if c = CHR ''-'' then map_option (\<lambda>n. - int n) (unsigned_value cs)
          else if c = CHR ''+'' then map_option int (unsigned_value cs)
          else map_option int (unsigned_value s)))"

definition unit_seconds :: "char \<Rightarrow> int option" where
  "unit_seconds c = (if c = CHR ''m'' then Some 60 else if c = CHR ''h'' then Some 3600
     else if c = CHR ''d'' then Some 86400 else None)"

text \<open>
  The limits of \<open>timedelta\<close> and of \<open>datetime\<close> (year 9999), which raise \<open>OverflowError\<close>; the
  wall clock of an aware value is taken in UTC.
\<close>

definition MAX_INSTANT :: int where "MAX_INSTANT = 253402300800 * SECOND - 1"
definition MAX_DELTA_DAYS :: int where "MAX_DELTA_DAYS = 999999999"

fun plus_micros :: "int \<Rightarrow> pydatetime \<Rightarrow> pydatetime" where
  "plus_micros d (Naive t) = Naive (t + d)"
| "plus_micros d (Offsetless t) = Offsetless (t + d)"
| "plus_micros d (Aware t) = Aware (t + d)"

definition maturation_at :: "pydatetime \<Rightarrow> string \<Rightarrow> (outcome_error, pydatetime) result" where
  "maturation_at created_at horizon =
     (let normalized = lower (strip horizon) in
      if tzinfo_is_none created_at then Inl Oe_naive
      else if length normalized < 2 then Inl Oe_suffix
      else case unit_seconds (last normalized) of
        None \<Rightarrow> Inl Oe_suffix
      | Some seconds \<Rightarrow>
          (case int_of_text (butlast normalized) of
             None \<Rightarrow> Inl Oe_suffix
           | Some amount \<Rightarrow>
               (if amount \<le> 0 then Inl Oe_not_positive
                else let delta = amount * seconds * SECOND in
                  if delta > MAX_DELTA_DAYS * DAY + DAY - 1 \<or> wall_micros created_at + delta > MAX_INSTANT
                  then Inl Oe_overflow else Inr (plus_micros delta created_at))))"

definition direction_of :: "action \<Rightarrow> rat" where
  "direction_of a = (if action_str a \<in> {''open_short'', ''hold_short'', ''close_long'',
     ''flip_long_to_short'', ''trigger_short''} then - 1 else 1)"

definition excursion :: "action \<Rightarrow> decimal \<Rightarrow> decimal \<Rightarrow> decimal" where
  \<comment> \<open>the direction times the move from the reference, relative to the reference\<close>
  "excursion a reference price = dec (dec (direction_of a * dec (price - reference)) / reference)"

definition consistent_prices :: "decimal \<Rightarrow> decimal \<Rightarrow> decimal \<Rightarrow> decimal \<Rightarrow> bool" where
  "consistent_prices reference close high low \<longleftrightarrow>
     \<not> (high < max reference close \<or> low > min reference close)"

definition evaluate_outcome ::
  "(float64 \<Rightarrow> float64 \<Rightarrow> float64) \<Rightarrow> (float64 \<Rightarrow> float64) \<Rightarrow> action \<Rightarrow> outcome_baseline
    \<Rightarrow> float64 option \<Rightarrow> float64 option \<Rightarrow> decimal \<Rightarrow> decimal \<Rightarrow> decimal \<Rightarrow> decimal
    \<Rightarrow> decimal \<Rightarrow> decimal \<Rightarrow> decimal \<Rightarrow> (outcome_error, outcome_metrics) result" where
  "evaluate_outcome float_sub float_square a baseline predicted realized reference close high low
       fees slippage funding =
     (if reference \<le> 0 \<or> close \<le> 0 \<or> high \<le> 0 \<or> low \<le> 0 then Inl Oe_not_positive
      else if \<not> consistent_prices reference close high low then Inl Oe_inconsistent
      else
        let brier = (case (predicted, realized) of
              (Some p, Some l) \<Rightarrow> Some (float_square (float_sub p l)) | _ \<Rightarrow> None);
            gross = excursion a reference close;
            metrics = \<lparr>om_brier_score = brier, om_mfe = Some (excursion a reference high),
              om_mae = Some (excursion a reference low), om_gross_return = Some gross,
              om_fees = fees, om_slippage = slippage, om_funding = funding,
              om_net_return = Some (dec (dec (dec (gross - fees) - slippage) - funding))\<rparr>
        in if valid_outcome_metrics metrics then Inr metrics else Inl Oe_invalid)"

definition quality_is_reportable :: "int \<Rightarrow> pydatetime \<Rightarrow> pydatetime \<Rightarrow> (outcome_error, bool) result" where
  "quality_is_reportable sample_count window_start now =
     (if sample_count < 30 then Inr False
      else if tzinfo_is_none window_start \<or> tzinfo_is_none now then Inl Oe_naive
      else case dt_le window_start now of None \<Rightarrow> Inl Oe_invalid | Some b \<Rightarrow> Inr b)"

section \<open>Facts\<close>

lemma excursion_long:
  "direction_of a = 1 \<Longrightarrow> 0 < reference \<Longrightarrow> reference \<le> price \<Longrightarrow> 0 \<le> excursion a reference price"
  "direction_of a = 1 \<Longrightarrow> 0 < reference \<Longrightarrow> price \<le> reference \<Longrightarrow> excursion a reference price \<le> 0"
  by (auto simp: excursion_def intro!: dec_nonneg dec_nonpos divide_nonpos_nonneg divide_nonneg_nonneg)

lemma excursion_short:
  "direction_of a = - 1 \<Longrightarrow> 0 < reference \<Longrightarrow> reference \<le> price \<Longrightarrow> excursion a reference price \<le> 0"
  "direction_of a = - 1 \<Longrightarrow> 0 < reference \<Longrightarrow> price \<le> reference \<Longrightarrow> 0 \<le> excursion a reference price"
proof -
  assume a: "direction_of a = - 1" and r: "0 < reference"
  show "reference \<le> price \<Longrightarrow> excursion a reference price \<le> 0"
    using a r dec_nonneg [of "price - reference"]
    by (auto simp: excursion_def intro!: dec_nonpos divide_nonpos_nonneg)
  show "price \<le> reference \<Longrightarrow> 0 \<le> excursion a reference price"
    using a r dec_nonpos [of "price - reference"]
    by (auto simp: excursion_def intro!: dec_nonneg divide_nonneg_nonneg)
qed

section \<open>Written amounts\<close>

lemma digit_char [simp]: "n < 10 \<Longrightarrow> is_digit (char_of (48 + n))" "n < 10 \<Longrightarrow> of_char (char_of (48 + n)) = 48 + n"
  for n :: nat
  by (simp_all add: is_digit_def)

lemma digits_value_append:
  "list_all is_digit xs \<Longrightarrow> digits_value acc (xs @ ys) =
     (case digits_value acc xs of None \<Rightarrow> None | Some v \<Rightarrow> digits_value v ys)"
  by (induction xs arbitrary: acc) auto

lemma show_nat_digits: "list_all is_digit (show_nat n) \<and> show_nat n \<noteq> [] \<and> digits_value 0 (show_nat n) = Some n"
proof (induction n rule: show_nat.induct)
  case (1 n)
  show ?case
  proof (cases "n < 10")
    case True
    then show ?thesis by (subst (1 2 3) show_nat.simps) simp
  next
    case False
    with 1 show ?thesis
      by (subst (1 2 3) show_nat.simps) (simp add: digits_value_append del: of_char_of)
  qed
qed

lemma digit_plain: "is_digit c \<Longrightarrow> \<not> is_space c \<and> lower_char c = c \<and> c \<noteq> CHR ''-'' \<and> c \<noteq> CHR ''+''"
  by (auto simp: is_digit_def is_space_def lower_char_def Let_def)

lemma strip_plain: "list_all (\<lambda>c. \<not> is_space c) xs \<Longrightarrow> strip xs = xs"
proof -
  have id: "dropWhile P ys = ys" if "\<forall>c \<in> set ys. \<not> P c" for P and ys :: string
    using that by (cases ys) auto
  show "list_all (\<lambda>c. \<not> is_space c) xs \<Longrightarrow> strip xs = xs"
    using id [of xs is_space] id [of "rev xs" is_space] by (simp add: strip_def strip_with_def list_all_iff)
qed

lemma int_of_text_show_nat: "int_of_text (show_nat n) = Some (int n)"
proof -
  have digits: "list_all is_digit (show_nat n)" "show_nat n \<noteq> []" "digits_value 0 (show_nat n) = Some n"
    using show_nat_digits [of n] by auto
  have strip: "strip (show_nat n) = show_nat n"
    using digits(1) by (intro strip_plain) (auto simp: list_all_iff dest: digit_plain)
  obtain c cs where c: "show_nat n = c # cs" using digits(2) by (cases "show_nat n") auto
  with digits(1) have "is_digit c" by simp
  moreover from this have "c \<noteq> CHR ''-'' \<and> c \<noteq> CHR ''+''" using digit_plain by blast
  ultimately show ?thesis using digits(3) strip
    by (simp add: int_of_text_def unsigned_value_def Let_def c)
qed

section \<open>Properties\<close>

text \<open>
  A horizon written as a positive decimal amount and a unit matures exactly that many minutes,
  hours or days after the decision: what is written is what is read back.
\<close>

theorem horizon_round_trip:
  assumes "unit_seconds u = Some seconds" and "0 < n"
    and "t + int n * seconds * SECOND \<le> MAX_INSTANT" and "int n * seconds * SECOND \<le> MAX_DELTA_DAYS * DAY"
  shows "maturation_at (Aware t) (show_nat n @ [u]) = Inr (Aware (t + int n * seconds * SECOND))"
proof -
  have digits: "list_all is_digit (show_nat n)" "show_nat n \<noteq> []"
    using show_nat_digits [of n] by auto
  have u: "\<not> is_space u \<and> lower_char u = u"
    using assms(1) by (auto simp: unit_seconds_def is_space_def lower_char_def split: if_splits)
  have "strip (show_nat n @ [u]) = show_nat n @ [u]"
    using digits u by (intro strip_plain) (auto simp: list_all_iff dest: digit_plain)
  moreover have "map lower_char (show_nat n) = show_nat n"
    using digits by (auto simp: list_all_iff dest: digit_plain intro!: map_idI)
  ultimately have "lower (strip (show_nat n @ [u])) = show_nat n @ [u]"
    using u by (simp add: lower_def)
  moreover have "2 \<le> length (show_nat n @ [u])" using digits(2) by (cases "show_nat n") auto
  moreover have "\<not> int n * seconds * SECOND > MAX_DELTA_DAYS * DAY + DAY - 1"
    using assms(4) DAY_pos by linarith
  ultimately show ?thesis
    using assms(1-3) digits(2) by (simp add: maturation_at_def int_of_text_show_nat Let_def)
qed

theorem horizon_round_trip_witness:
  "maturation_at (Aware 0) (show_nat 90 @ ''m'') = Inr (Aware (90 * 60 * SECOND))"
  using horizon_round_trip [of "CHR ''m''" 60 90 0]
  by (simp add: unit_seconds_def MAX_INSTANT_def MAX_DELTA_DAYS_def SECOND_def DAY_def)

text \<open>
  C40. An evaluated outcome of a long direction has a favourable excursion that is not negative, an
  adverse one that is not positive. Of a short direction the two
  are swapped: what is recorded as the favourable excursion is the loss at the highest price, and
  what is recorded as the adverse one is the gain at the lowest.
\<close>

theorem excursions_of_outcome:
  assumes "evaluate_outcome fsub fsquare a baseline predicted realized reference close high low
      fees slippage funding = Inr m"
  shows "\<exists>favourable adverse. om_mfe m = Some favourable \<and> om_mae m = Some adverse
     \<and> (if direction_of a = 1 then adverse \<le> 0 \<and> 0 \<le> favourable
        else favourable \<le> 0 \<and> 0 \<le> adverse)"
proof -
  have order: "0 < reference" "reference \<le> high" "low \<le> reference"
    and m: "om_mfe m = Some (excursion a reference high)" "om_mae m = Some (excursion a reference low)"
    using assms by (auto simp: evaluate_outcome_def consistent_prices_def Let_def split: if_splits)
  have "direction_of a = 1 \<or> direction_of a = - 1" by (simp add: direction_of_def)
  with order m show ?thesis by (auto simp: excursion_long excursion_short)
qed

theorem excursions_of_outcome_witness:
  "\<exists>m favourable. evaluate_outcome (-) (\<lambda>x. x * x) Open_short Bl_decision None None 100 90 110 80 0 0 0 = Inr m
     \<and> om_mfe m = Some favourable \<and> favourable \<le> 0"
proof -
  obtain m where m: "evaluate_outcome (-) (\<lambda>x. x * x) Open_short Bl_decision None None 100 90 110 80 0 0 0 = Inr m"
    by (simp add: evaluate_outcome_def consistent_prices_def valid_outcome_metrics_def Let_def)
  have "direction_of Open_short \<noteq> 1" by (simp add: direction_of_def)
  with excursions_of_outcome [OF m] m show ?thesis by auto
qed

end
