(* ===== verification/Observability_Delivery.thy ===== *)
theory Observability_Delivery
  imports Product_Tables Interfaces
begin

text \<open>
  Observability deliveries (\<open>observability/planning.py\<close> and the
  \<open>ObservabilityDeliveryRepository\<close> of \<open>persistence/repositories.py\<close>): for every run one intent
  per provider is planned and written once; workers lease the deliveries that are due under a
  growing fence and record whether the hosted trace was found. The columns are those of
  \<open>persistence/models.py\<close> but the update time; foreign keys and the range of integer columns are
  left out. Which rows another transaction holds is the argument \<open>busy\<close>.
\<close>

section \<open>Rows\<close>

definition OBSERVABILITY_DELIVERY_PROVIDERS :: "string list" where
  "OBSERVABILITY_DELIVERY_PROVIDERS = [''langsmith'', ''langfuse'']"

definition OBSERVABILITY_DELIVERY_STATUSES :: "string list" where
  "OBSERVABILITY_DELIVERY_STATUSES = [''not_requested'', ''planned'', ''leased'', ''verifying'', ''verified'',
     ''failed_retryable'', ''failed_terminal'', ''unknown'']"

record delivery =
  od_id :: uuid
  od_tenant_id :: uuid
  od_workspace_id :: uuid
  od_owner_user_id :: uuid
  od_task_id :: uuid
  od_run_id :: uuid
  od_provider :: string
  od_event_type :: string
  od_event_version :: int
  od_delivery_key :: string
  od_correlation_id :: string
  od_status :: string
  od_sampled :: bool
  od_skip_reason :: "string option"
  od_attempt_count :: int
  od_fence_token :: int
  od_lease_owner :: "string option"
  od_lease_expires_at :: "instant option"
  od_next_attempt_at :: "instant option"
  od_verification_deadline :: "instant option"
  od_provider_trace_id :: "string option"
  od_last_stage :: "string option"
  od_last_retry_state :: "string option"
  od_last_error_code :: "string option"
  od_last_error_type :: "string option"
  od_last_error_summary :: "string option"
  od_last_error_at :: "instant option"
  od_verified_at :: "instant option"
  od_terminal_at :: "instant option"
  od_created_at :: instant

definition active_status :: "string \<Rightarrow> bool" where
  "active_status s \<longleftrightarrow> s \<in> {''leased'', ''verifying''}"

definition delivery_check :: "delivery \<Rightarrow> bool" where
  "delivery_check d \<longleftrightarrow>
     od_provider d \<in> set OBSERVABILITY_DELIVERY_PROVIDERS \<and> od_status d \<in> set OBSERVABILITY_DELIVERY_STATUSES
     \<and> 1 \<le> od_event_version d \<and> 0 \<le> od_attempt_count d \<and> 0 \<le> od_fence_token d
     \<and> active_status (od_status d) = (od_lease_owner d \<noteq> None \<and> od_lease_expires_at d \<noteq> None)
     \<and> (od_status d = ''not_requested'') = (od_skip_reason d \<noteq> None)
     \<and> (od_status d = ''verified'') = (od_provider_trace_id d \<noteq> None \<and> od_verified_at d \<noteq> None)"

definition delivery_columns :: "delivery \<Rightarrow> bool" where
  \<comment> \<open>the lengths of the columns\<close>
  "delivery_columns d \<longleftrightarrow> fits 32 (od_provider d) \<and> fits 64 (od_event_type d) \<and> fits 255 (od_delivery_key d)
     \<and> fits 255 (od_correlation_id d) \<and> fits 32 (od_status d) \<and> opt_ok (fits 128) (od_skip_reason d)
     \<and> opt_ok (fits 255) (od_lease_owner d) \<and> opt_ok (fits 255) (od_provider_trace_id d)
     \<and> opt_ok (fits 32) (od_last_stage d) \<and> opt_ok (fits 32) (od_last_retry_state d)
     \<and> opt_ok (fits 128) (od_last_error_code d) \<and> opt_ok (fits 128) (od_last_error_type d)
     \<and> opt_ok (fits 500) (od_last_error_summary d)"

definition valid_delivery :: "delivery \<Rightarrow> bool" where
  "valid_delivery d \<longleftrightarrow> delivery_check d \<and> delivery_columns d"

type_synonym logical_delivery = "uuid \<times> uuid \<times> uuid \<times> uuid \<times> string \<times> string \<times> int"

definition delivery_logical_key :: "delivery \<Rightarrow> logical_delivery" where
  "delivery_logical_key d = (od_tenant_id d, od_workspace_id d, od_task_id d, od_run_id d, od_provider d,
     od_event_type d, od_event_version d)"

definition delivery_unique_key :: "delivery \<Rightarrow> uuid \<times> uuid \<times> string" where
  "delivery_unique_key d = (od_tenant_id d, od_workspace_id d, od_delivery_key d)"

datatype delivery_error = Value_error | Permission_error | Scoped_resource_not_found | Database_error

datatype delivery_actor = Context actor_context | Resolved resolved_actor

record delivery_db =
  dd_directory :: directory
  dd_tasks :: "task_row list"
  dd_deliveries :: "delivery list"

section \<open>Planning the intents of a run\<close>

record delivery_intent =
  di_provider :: string
  di_status :: string
  di_skip_reason :: "string option"
  di_sampled :: bool
  di_provider_trace_id :: "string option"
  di_verification_deadline :: "instant option"
  di_delivery_key :: string
  di_correlation_id :: string
  di_event_type :: string
  di_event_version :: int

record observability_runtime =
  or_langsmith_enabled :: bool
  or_langsmith_api_key :: "string option"
  or_langfuse_enabled :: bool
  or_langfuse_public_key :: "string option"
  or_langfuse_secret_key :: "string option"

definition no_text :: "string option \<Rightarrow> bool" where
  \<comment> \<open>\<open>not value\<close> of an optional string\<close>
  "no_text x \<longleftrightarrow> x = None \<or> x = Some []"

definition plan_intent ::
  "string \<Rightarrow> bool \<Rightarrow> uuid \<Rightarrow> uuid \<Rightarrow> string \<Rightarrow> string option \<Rightarrow> instant \<Rightarrow> delivery_intent" where
  "plan_intent provider enabled task_id run_id correlation_id trace_id deadline =
     \<lparr>di_provider = provider,
      di_status = (if enabled then ''planned'' else ''not_requested''),
      di_skip_reason = (if enabled then None else Some ''provider_disabled''),
      di_sampled = enabled,
      di_provider_trace_id = trace_id,
      di_verification_deadline = (if enabled then Some deadline else None),
      di_delivery_key = ''root-trace:v1:'' @ task_id @ '':'' @ run_id @ '':'' @ provider,
      di_correlation_id = correlation_id,
      di_event_type = ''root_trace'',
      di_event_version = 1\<rparr>"

text \<open>The digests of a task and of a run, by \<open>uuid5\<close> and by the client library of Langfuse.\<close>

record trace_names =
  uuid5 :: "string \<Rightarrow> string"
  create_trace_id :: "string \<Rightarrow> string"

definition correlation_id_for_task :: "trace_names \<Rightarrow> uuid \<Rightarrow> (delivery_error, string) result" where
  "correlation_id_for_task tn task_id =
     (let stable_task_id = strip task_id in
      if stable_task_id = [] then Inl Value_error
      else Inr (uuid5 tn (''urn:crypto-alert-v2:task:'' @ stable_task_id)))"

definition langfuse_trace_id_for_product_run :: "trace_names \<Rightarrow> string \<Rightarrow> (delivery_error, string) result" where
  "langfuse_trace_id_for_product_run tn product_run_id =
     (let stable_run_id = strip product_run_id in
      if stable_run_id = [] then Inl Value_error
      else if length stable_run_id > 255 then Inl Value_error
      else Inr (create_trace_id tn (''crypto-alert-v2:product-run:'' @ stable_run_id)))"

definition plan_observability_delivery_intents ::
  "trace_names \<Rightarrow> observability_runtime \<Rightarrow> uuid \<Rightarrow> uuid \<Rightarrow> pydatetime \<Rightarrow> int
     \<Rightarrow> (delivery_error, delivery_intent list) result" where
  "plan_observability_delivery_intents tn runtime task_id run_id now seconds =
     (if tzinfo_is_none now then Inl Value_error
      else if seconds < 30 then Inl Value_error
      else if or_langsmith_enabled runtime \<and> no_text (or_langsmith_api_key runtime) then Inl Value_error
      else if or_langfuse_enabled runtime
        \<and> (no_text (or_langfuse_public_key runtime) \<or> no_text (or_langfuse_secret_key runtime)) then Inl Value_error
      else rbind (correlation_id_for_task tn task_id) (\<lambda>correlation_id.
        let deadline = wall_micros now + seconds * SECOND in
        rbind (if or_langfuse_enabled runtime
               then rbind (langfuse_trace_id_for_product_run tn run_id) (\<lambda>t. Inr (Some t)) else Inr None) (\<lambda>trace_id.
        Inr [plan_intent ''langsmith'' (or_langsmith_enabled runtime) task_id run_id correlation_id None deadline,
             plan_intent ''langfuse'' (or_langfuse_enabled runtime) task_id run_id correlation_id trace_id deadline])))"

section \<open>Writing the intents\<close>

definition validate_worker_id :: "string \<Rightarrow> (delivery_error, string) result" where
  "validate_worker_id worker_id =
     (let normalized = strip worker_id in
      if normalized = [] \<or> length normalized > 255 then Inl Value_error else Inr normalized)"

definition validate_text :: "nat \<Rightarrow> string \<Rightarrow> (delivery_error, string) result" where
  "validate_text max_length value =
     (let normalized = strip value in
      if normalized = [] \<or> length normalized > max_length then Inl Value_error else Inr normalized)"

definition optional_text :: "nat \<Rightarrow> string option \<Rightarrow> (delivery_error, string option) result" where
  "optional_text max_length value =
     (case value of None \<Rightarrow> Inr None | Some v \<Rightarrow> rbind (validate_text max_length v) (\<lambda>t. Inr (Some t)))"

definition actor_allows :: "directory \<Rightarrow> delivery_actor option \<Rightarrow> uuid \<Rightarrow> uuid \<Rightarrow> uuid \<Rightarrow> bool" where
  "actor_allows d actor tenant workspace owner =
     (case actor of None \<Rightarrow> True
      | Some (Resolved ra) \<Rightarrow> tenant = ra_tenant_id ra \<and> workspace = ra_workspace_id ra \<and> owner = ra_user_id ra
      | Some (Context ac) \<Rightarrow> actor_scope d ac tenant workspace owner)"

record delivery_scope =
  sc_tenant_id :: uuid
  sc_workspace_id :: uuid
  sc_owner_user_id :: uuid
  sc_task_id :: uuid
  sc_run_id :: uuid

definition scope_has_task :: "delivery_db \<Rightarrow> delivery_actor option \<Rightarrow> delivery_scope \<Rightarrow> bool" where
  "scope_has_task db actor sc \<longleftrightarrow>
     actor_allows (dd_directory db) actor (sc_tenant_id sc) (sc_workspace_id sc) (sc_owner_user_id sc)
     \<and> (\<exists>t \<in> set (dd_tasks db). tr_tenant_id t = sc_tenant_id sc \<and> tr_workspace_id t = sc_workspace_id sc
          \<and> tr_owner_user_id t = sc_owner_user_id sc \<and> tr_id t = sc_task_id sc)"

text \<open>One turn of the loop over the intents: the row it adds, or what it raises.\<close>

definition intent_row :: "delivery_scope \<Rightarrow> instant \<Rightarrow> uuid \<Rightarrow> delivery_intent \<Rightarrow> (delivery_error, delivery) result" where
  "intent_row sc now new_id intent =
     rbind (validate_text 32 (di_provider intent)) (\<lambda>stripped.
     let provider = lower stripped in
     ensure (provider \<in> set OBSERVABILITY_DELIVERY_PROVIDERS) Value_error (
     rbind (validate_text 32 (di_status intent)) (\<lambda>status.
     ensure (status \<in> set OBSERVABILITY_DELIVERY_STATUSES) Value_error (
     ensure (\<not> active_status status) Value_error (
     rbind (optional_text 128 (di_skip_reason intent)) (\<lambda>skip_reason.
     ensure ((status \<noteq> ''not_requested'') \<noteq> (skip_reason \<noteq> None)) Value_error (
     rbind (optional_text 255 (di_provider_trace_id intent)) (\<lambda>trace_id.
     ensure (\<not> (status = ''verified'' \<and> trace_id = None)) Value_error (
     rbind (validate_text 64 (di_event_type intent)) (\<lambda>event_type.
     ensure (1 \<le> di_event_version intent) Value_error (
     rbind (validate_text 255 (di_delivery_key intent)) (\<lambda>delivery_key.
     rbind (validate_text 255 (di_correlation_id intent)) (\<lambda>correlation_id.
     Inr \<lparr>od_id = new_id, od_tenant_id = sc_tenant_id sc, od_workspace_id = sc_workspace_id sc,
       od_owner_user_id = sc_owner_user_id sc, od_task_id = sc_task_id sc, od_run_id = sc_run_id sc,
       od_provider = provider, od_event_type = event_type, od_event_version = di_event_version intent,
       od_delivery_key = delivery_key, od_correlation_id = correlation_id, od_status = status,
       od_sampled = di_sampled intent, od_skip_reason = skip_reason, od_attempt_count = 0, od_fence_token = 0,
       od_lease_owner = None, od_lease_expires_at = None, od_next_attempt_at = None,
       od_verification_deadline = di_verification_deadline intent, od_provider_trace_id = trace_id,
       od_last_stage = None, od_last_retry_state = None, od_last_error_code = None, od_last_error_type = None,
       od_last_error_summary = None, od_last_error_at = None,
       od_verified_at = (if status = ''verified'' then Some now else None), od_terminal_at = None,
       od_created_at = now\<rparr>)))))))))))))"

text \<open>
  The loop: \<open>fresh\<close> are the identifiers drawn, one per intent, \<open>seen\<close> the logical keys so far. All
  errors of a turn are the same exception, so the check for a repeated key may come last.
\<close>

fun intent_rows ::
  "delivery_scope \<Rightarrow> instant \<Rightarrow> (nat \<Rightarrow> uuid) \<Rightarrow> nat \<Rightarrow> logical_delivery list \<Rightarrow> delivery_intent list
     \<Rightarrow> (delivery_error, delivery list) result" where
  "intent_rows sc now fresh n seen [] = Inr []"
| "intent_rows sc now fresh n seen (intent # intents) =
     rbind (intent_row sc now (fresh n) intent) (\<lambda>row.
     ensure (delivery_logical_key row \<notin> set seen) Value_error (
     rbind (intent_rows sc now fresh (Suc n) (delivery_logical_key row # seen) intents) (\<lambda>rows.
     Inr (row # rows))))"

text \<open>\<open>INSERT ... ON CONFLICT (logical key) DO NOTHING\<close>: every other conflict and every check fails
  the statement.\<close>

fun insert_deliveries :: "delivery list \<Rightarrow> delivery list \<Rightarrow> (delivery_error, delivery list) result" where
  "insert_deliveries [] table = Inr table"
| "insert_deliveries (row # rows) table =
     (if \<not> valid_delivery row then Inl Database_error
      else if delivery_logical_key row \<in> delivery_logical_key ` set table then insert_deliveries rows table
      else if delivery_unique_key row \<in> delivery_unique_key ` set table \<or> od_id row \<in> od_id ` set table
        then Inl Database_error
      else insert_deliveries rows (table @ [row]))"

definition in_delivery_scope :: "delivery_scope \<Rightarrow> delivery \<Rightarrow> bool" where
  "in_delivery_scope sc d \<longleftrightarrow> od_tenant_id d = sc_tenant_id sc \<and> od_workspace_id d = sc_workspace_id sc
     \<and> od_owner_user_id d = sc_owner_user_id sc \<and> od_task_id d = sc_task_id sc \<and> od_run_id d = sc_run_id sc"

definition event_key :: "delivery \<Rightarrow> string \<times> string \<times> int" where
  "event_key d = (od_provider d, od_event_type d, od_event_version d)"

definition requested_deliveries :: "delivery_scope \<Rightarrow> delivery list \<Rightarrow> delivery list \<Rightarrow> delivery list" where
  "requested_deliveries sc rows table =
     sort_key event_key (filter (\<lambda>d. in_delivery_scope sc d \<and> event_key d \<in> event_key ` set rows) table)"

definition ensure_intents ::
  "delivery_actor option \<Rightarrow> instant \<Rightarrow> (nat \<Rightarrow> uuid) \<Rightarrow> delivery_scope \<Rightarrow> delivery_intent list \<Rightarrow> delivery_db
     \<Rightarrow> (delivery_error, delivery list \<times> delivery_db) result" where
  "ensure_intents actor clock fresh sc intents db =
     (if intents = [] then Inr ([], db)
      else if actor \<noteq> None \<and> \<not> scope_has_task db actor sc then Inl Scoped_resource_not_found
      else rbind (intent_rows sc clock fresh 0 [] intents) (\<lambda>rows.
           rbind (insert_deliveries rows (dd_deliveries db)) (\<lambda>table.
           let deliveries = requested_deliveries sc rows table in
           if length deliveries \<noteq> length rows then Inl Scoped_resource_not_found
           else Inr (deliveries, db\<lparr>dd_deliveries := table\<rparr>))))"

definition list_for_run ::
  "delivery_actor option \<Rightarrow> uuid \<Rightarrow> uuid \<Rightarrow> int \<Rightarrow> delivery_db \<Rightarrow> (delivery_error, delivery list) result" where
  "list_for_run actor task_id run_id limit db =
     (if actor = None then Inl Permission_error
      else if limit < 1 \<or> limit > 500 then Inl Value_error
      else Inr (take (nat limit) (sort_key event_key (filter (\<lambda>d. od_task_id d = task_id \<and> od_run_id d = run_id
        \<and> actor_allows (dd_directory db) actor (od_tenant_id d) (od_workspace_id d) (od_owner_user_id d))
        (dd_deliveries db)))))"

section \<open>Leases\<close>

definition lease_expired :: "(uuid \<Rightarrow> bool) \<Rightarrow> instant \<Rightarrow> delivery \<Rightarrow> bool" where
  "lease_expired busy now d \<longleftrightarrow> active_status (od_status d) \<and> \<not> busy (od_id d)
     \<and> (case od_lease_expires_at d of None \<Rightarrow> False | Some t \<Rightarrow> t \<le> now)"

definition recover_delivery :: "instant \<Rightarrow> delivery \<Rightarrow> delivery" where
  "recover_delivery now d = d\<lparr>od_status := ''unknown'', od_lease_owner := None, od_lease_expires_at := None,
     od_next_attempt_at := Some now, od_last_retry_state := Some ''unknown'',
     od_last_error_code := Some ''lease_expired'', od_last_error_type := Some ''LeaseExpired'',
     od_last_error_summary := Some ''Provider outcome could not be confirmed after lease expiry.'',
     od_last_error_at := Some now\<rparr>"

definition by_lease_expiry :: "delivery \<Rightarrow> int \<times> instant \<times> uuid" where
  \<comment> \<open>ascending with nulls last\<close>
  "by_lease_expiry d = (case od_lease_expires_at d of None \<Rightarrow> (1, 0, od_id d) | Some t \<Rightarrow> (0, t, od_id d))"

definition recover_deliveries ::
  "(uuid \<Rightarrow> bool) \<Rightarrow> instant \<Rightarrow> delivery_db \<Rightarrow> delivery list \<times> delivery_db" where
  "recover_deliveries busy now db =
     (map (recover_delivery now) (sort_key by_lease_expiry (filter (lease_expired busy now) (dd_deliveries db))),
      db\<lparr>dd_deliveries := update_where (lease_expired busy now) (recover_delivery now) (dd_deliveries db)\<rparr>)"

definition lease_owned :: "(uuid \<Rightarrow> bool) \<Rightarrow> string \<Rightarrow> delivery \<Rightarrow> bool" where
  "lease_owned busy owner d \<longleftrightarrow> od_lease_owner d = Some owner \<and> active_status (od_status d) \<and> \<not> busy (od_id d)"

definition release_delivery :: "instant \<Rightarrow> delivery \<Rightarrow> delivery" where
  "release_delivery now d = d\<lparr>od_status := ''failed_retryable'', od_lease_owner := None, od_lease_expires_at := None,
     od_next_attempt_at := Some now, od_last_retry_state := Some ''scheduled'',
     od_last_error_code := Some ''worker_shutdown'', od_last_error_type := Some ''WorkerShutdown'',
     od_last_error_summary := Some ''Worker shutdown released a read-only provider verification lease.'',
     od_last_error_at := Some now\<rparr>"

definition release_deliveries ::
  "(uuid \<Rightarrow> bool) \<Rightarrow> string \<Rightarrow> instant \<Rightarrow> delivery_db \<Rightarrow> (delivery_error, delivery list \<times> delivery_db) result" where
  "release_deliveries busy worker_id now db =
     rbind (validate_worker_id worker_id) (\<lambda>owner.
     Inr (map (release_delivery now) (sort_key by_lease_expiry (filter (lease_owned busy owner) (dd_deliveries db))),
          db\<lparr>dd_deliveries := update_where (lease_owned busy owner) (release_delivery now) (dd_deliveries db)\<rparr>))"

definition delivery_due :: "(uuid \<Rightarrow> bool) \<Rightarrow> instant \<Rightarrow> delivery \<Rightarrow> bool" where
  "delivery_due busy now d \<longleftrightarrow> od_status d \<in> {''planned'', ''failed_retryable'', ''unknown''} \<and> \<not> busy (od_id d)
     \<and> opt_ok (\<lambda>t. t \<le> now) (od_next_attempt_at d)"

definition by_next_attempt :: "delivery \<Rightarrow> int \<times> instant \<times> instant \<times> uuid" where
  \<comment> \<open>ascending with nulls last\<close>
  "by_next_attempt d = (case od_next_attempt_at d of
     None \<Rightarrow> (1, 0, od_created_at d, od_id d) | Some t \<Rightarrow> (0, t, od_created_at d, od_id d))"

definition due_deliveries :: "(uuid \<Rightarrow> bool) \<Rightarrow> nat \<Rightarrow> instant \<Rightarrow> delivery list \<Rightarrow> delivery list" where
  "due_deliveries busy limit now table = take limit (sort_key by_next_attempt (filter (delivery_due busy now) table))"

definition lease_delivery :: "string \<Rightarrow> instant \<Rightarrow> delivery \<Rightarrow> delivery" where
  "lease_delivery owner expires d = d\<lparr>
     od_status := (if od_status d = ''unknown'' then ''verifying'' else ''leased''),
     od_attempt_count := od_attempt_count d + 1, od_fence_token := od_fence_token d + 1,
     od_lease_owner := Some owner, od_lease_expires_at := Some expires, od_next_attempt_at := None\<rparr>"

text \<open>
  The lease a worker gets is the leased row; of its columns the code copies eighteen into an
  \<open>ObservabilityDeliveryLease\<close>. \<open>held\<close> are the rows locked during the recovery, \<open>busy\<close> those
  locked during the selection.
\<close>

definition lease_due ::
  "(uuid \<Rightarrow> bool) \<Rightarrow> (uuid \<Rightarrow> bool) \<Rightarrow> string \<Rightarrow> instant \<Rightarrow> int \<Rightarrow> int \<Rightarrow> delivery_db
     \<Rightarrow> (delivery_error, delivery list \<times> delivery_db) result" where
  "lease_due held busy worker_id now lease_seconds limit db =
     (if lease_seconds < 1 then Inl Value_error
      else if limit < 1 \<or> limit > 100 then Inl Value_error
      else rbind (validate_worker_id worker_id) (\<lambda>owner.
        let recovered = snd (recover_deliveries held now db);
            due = due_deliveries busy (nat limit) now (dd_deliveries recovered);
            lease = lease_delivery owner (now + lease_seconds * SECOND)
        in Inr (map lease due, recovered\<lparr>dd_deliveries :=
             update_where (\<lambda>d. od_id d \<in> od_id ` set due) lease (dd_deliveries recovered)\<rparr>)))"

section \<open>Fenced transitions\<close>

definition fenced_row :: "directory \<Rightarrow> delivery_actor option \<Rightarrow> uuid \<Rightarrow> string \<Rightarrow> int \<Rightarrow> delivery \<Rightarrow> bool" where
  "fenced_row dir actor delivery_id owner fence_token d \<longleftrightarrow>
     od_id d = delivery_id \<and> od_lease_owner d = Some owner \<and> od_fence_token d = fence_token
     \<and> active_status (od_status d) \<and> actor_allows dir actor (od_tenant_id d) (od_workspace_id d) (od_owner_user_id d)"

definition fenced_transition ::
  "delivery_actor option \<Rightarrow> uuid \<Rightarrow> string \<Rightarrow> int \<Rightarrow> (delivery \<Rightarrow> delivery) \<Rightarrow> delivery_db
     \<Rightarrow> (delivery_error, bool \<times> delivery_db) result" where
  "fenced_transition actor delivery_id worker_id fence_token change db =
     rbind (validate_worker_id worker_id) (\<lambda>owner.
     ensure (1 \<le> fence_token) Value_error (
     let hit = fenced_row (dd_directory db) actor delivery_id owner fence_token;
         rows = filter hit (dd_deliveries db)
     in ensure (\<forall>d \<in> set rows. valid_delivery (change d)) Database_error (
        Inr (length rows = 1, db\<lparr>dd_deliveries := update_where hit change (dd_deliveries db)\<rparr>))))"

record delivery_failure =
  df_error_code :: string
  df_error_type :: "string option"
  df_error_summary :: "string option"
  df_stage :: "string option"

definition verified_delivery :: "string \<Rightarrow> instant \<Rightarrow> delivery \<Rightarrow> delivery" where
  "verified_delivery receipt now d = d\<lparr>od_status := ''verified'', od_provider_trace_id := Some receipt,
     od_verified_at := Some now, od_lease_owner := None, od_lease_expires_at := None, od_next_attempt_at := None,
     od_last_retry_state := Some ''not_applicable'', od_last_error_code := None, od_last_error_type := None,
     od_last_error_summary := None, od_last_error_at := None\<rparr>"

definition mark_verified ::
  "delivery_actor option \<Rightarrow> uuid \<Rightarrow> string \<Rightarrow> int \<Rightarrow> string \<Rightarrow> instant \<Rightarrow> delivery_db
     \<Rightarrow> (delivery_error, bool \<times> delivery_db) result" where
  "mark_verified actor delivery_id worker_id fence_token provider_trace_id now db =
     rbind (validate_text 255 provider_trace_id) (\<lambda>receipt.
     fenced_transition actor delivery_id worker_id fence_token (verified_delivery receipt now) db)"

definition failed_delivery ::
  "string \<Rightarrow> string \<Rightarrow> string \<Rightarrow> instant option \<Rightarrow> delivery_failure \<Rightarrow> instant \<Rightarrow> delivery \<Rightarrow> delivery" where
  \<comment> \<open>the assignments the three failures share\<close>
  "failed_delivery status retry_state code next_attempt_at f now d = d\<lparr>od_status := status, od_lease_owner := None,
     od_lease_expires_at := None, od_next_attempt_at := next_attempt_at, od_last_stage := df_stage f,
     od_last_retry_state := Some retry_state, od_last_error_code := Some code, od_last_error_type := df_error_type f,
     od_last_error_summary := df_error_summary f, od_last_error_at := Some now\<rparr>"

definition mark_retryable ::
  "delivery_actor option \<Rightarrow> uuid \<Rightarrow> string \<Rightarrow> int \<Rightarrow> instant \<Rightarrow> delivery_failure \<Rightarrow> instant \<Rightarrow> delivery_db
     \<Rightarrow> (delivery_error, bool \<times> delivery_db) result" where
  "mark_retryable actor delivery_id worker_id fence_token next_attempt_at f now db =
     rbind (validate_text 128 (df_error_code f)) (\<lambda>code.
     fenced_transition actor delivery_id worker_id fence_token
       (failed_delivery ''failed_retryable'' ''scheduled'' code (Some next_attempt_at) f now) db)"

definition mark_unknown ::
  "delivery_actor option \<Rightarrow> uuid \<Rightarrow> string \<Rightarrow> int \<Rightarrow> instant option \<Rightarrow> delivery_failure \<Rightarrow> instant \<Rightarrow> delivery_db
     \<Rightarrow> (delivery_error, bool \<times> delivery_db) result" where
  "mark_unknown actor delivery_id worker_id fence_token next_attempt_at f now db =
     rbind (validate_text 128 (df_error_code f)) (\<lambda>code.
     fenced_transition actor delivery_id worker_id fence_token
       (failed_delivery ''unknown'' ''unknown'' code
          (Some (case next_attempt_at of None \<Rightarrow> now | Some t \<Rightarrow> t)) f now) db)"

definition mark_terminal ::
  "delivery_actor option \<Rightarrow> uuid \<Rightarrow> string \<Rightarrow> int \<Rightarrow> delivery_failure \<Rightarrow> instant \<Rightarrow> delivery_db
     \<Rightarrow> (delivery_error, bool \<times> delivery_db) result" where
  "mark_terminal actor delivery_id worker_id fence_token f now db =
     rbind (validate_text 128 (df_error_code f)) (\<lambda>code.
     fenced_transition actor delivery_id worker_id fence_token
       (\<lambda>d. failed_delivery ''failed_terminal'' ''exhausted'' code None f now d\<lparr>od_terminal_at := Some now\<rparr>) db)"

end
