(* ===== verification/Observability_Safety.thy ===== *)
theory Observability_Safety
  imports Observability_Delivery
begin

text \<open>
  The contract of observability deliveries: seen from outside a delivery is in one of four phases,
  and every transaction of the repository, in any order and by any number of workers, moves each
  delivery along the phases. Fences only grow and a delivery that is closed stays as it is.
\<close>

section \<open>The phases of a delivery\<close>

datatype phase = Absent | Waiting int | Held int | Closed int

inductive phase_step :: "phase \<Rightarrow> phase \<Rightarrow> bool" where
  planned: "phase_step Absent (Waiting 0)"
| skipped: "phase_step Absent (Closed 0)"
| leased: "phase_step (Waiting n) (Held (n + 1))"
| released: "phase_step (Held n) (Waiting n)"
| closed: "phase_step (Held n) (Closed n)"

inductive_cases Closed_stepE: "phase_step (Closed n) p"

fun phase_fence :: "phase \<Rightarrow> int" where
  "phase_fence Absent = 0"
| "phase_fence (Waiting n) = n"
| "phase_fence (Held n) = n"
| "phase_fence (Closed n) = n"

text \<open>The statuses of a delivery that waits for a lease.\<close>

definition open_status :: "string \<Rightarrow> bool" where
  "open_status s \<longleftrightarrow> s \<in> {''planned'', ''failed_retryable'', ''unknown''}"

definition phase :: "delivery \<Rightarrow> phase" where
  "phase d = (if active_status (od_status d) then Held (od_fence_token d)
     else if open_status (od_status d) then Waiting (od_fence_token d)
     else Closed (od_fence_token d))"

definition delivery_of :: "uuid \<Rightarrow> delivery_db \<Rightarrow> delivery option" where
  "delivery_of k db = find (\<lambda>d. od_id d = k) (dd_deliveries db)"

definition phase_of :: "uuid \<Rightarrow> delivery_db \<Rightarrow> phase" where
  "phase_of k db = (case delivery_of k db of None \<Rightarrow> Absent | Some d \<Rightarrow> phase d)"

lemma phase_step_fence: "phase_step p q \<Longrightarrow> phase_fence p \<le> phase_fence q"
  by (induction rule: phase_step.induct) simp_all

lemma phase_steps_fence: "phase_step\<^sup>*\<^sup>* p q \<Longrightarrow> phase_fence p \<le> phase_fence q"
  by (induction rule: rtranclp_induct) (auto dest: phase_step_fence)

lemma Closed_steps: "phase_step\<^sup>*\<^sup>* p q \<Longrightarrow> p = Closed n \<Longrightarrow> q = Closed n"
  by (induction rule: rtranclp_induct) (auto elim: Closed_stepE)

lemma phase_steps_row [intro]:
  "phase_step\<^sup>*\<^sup>* (Waiting n) (Held (n + 1))" "phase_step\<^sup>*\<^sup>* (Held n) (Waiting n)"
  "phase_step\<^sup>*\<^sup>* (Held n) (Closed n)"
  by (blast intro: phase_step.intros)+

section \<open>Transactions as steps\<close>

inductive delivery_step :: "delivery_db \<Rightarrow> delivery_db \<Rightarrow> bool" where
  ensuring: "ensure_intents actor clock fresh sc intents db = Inr (ds, db') \<Longrightarrow> delivery_step db db'"
| recovering: "delivery_step db (snd (recover_deliveries busy now db))"
| releasing: "release_deliveries busy worker now db = Inr (ds, db') \<Longrightarrow> delivery_step db db'"
| leasing: "lease_due held busy worker now seconds limit db = Inr (ds, db') \<Longrightarrow> delivery_step db db'"
| verifying: "mark_verified actor k worker f receipt now db = Inr (ok, db') \<Longrightarrow> delivery_step db db'"
| retrying: "mark_retryable actor k worker f due failure now db = Inr (ok, db') \<Longrightarrow> delivery_step db db'"
| losing: "mark_unknown actor k worker f again failure now db = Inr (ok, db') \<Longrightarrow> delivery_step db db'"
| terminating: "mark_terminal actor k worker f failure now db = Inr (ok, db') \<Longrightarrow> delivery_step db db'"
| elsewhere: "dd_deliveries db' = dd_deliveries db \<Longrightarrow> delivery_step db db'"

section \<open>How a row evolves\<close>

definition same_delivery :: "delivery \<Rightarrow> delivery \<Rightarrow> bool" where
  "same_delivery d e \<longleftrightarrow> od_id e = od_id d \<and> delivery_logical_key e = delivery_logical_key d
     \<and> od_owner_user_id e = od_owner_user_id d \<and> od_delivery_key e = od_delivery_key d
     \<and> od_verification_deadline e = od_verification_deadline d"

definition counted :: "delivery \<Rightarrow> bool" where
  "counted d \<longleftrightarrow> od_attempt_count d = od_fence_token d"

definition evolves :: "delivery \<Rightarrow> delivery \<Rightarrow> bool" where
  "evolves d e \<longleftrightarrow> same_delivery d e \<and> phase_step\<^sup>*\<^sup>* (phase d) (phase e)
     \<and> (valid_delivery d \<longrightarrow> valid_delivery e) \<and> (counted d \<longrightarrow> counted e)
     \<and> (phase d = Closed (od_fence_token d) \<longrightarrow> e = d)"

definition new_delivery :: "delivery \<Rightarrow> bool" where
  "new_delivery d \<longleftrightarrow> valid_delivery d \<and> counted d \<and> od_fence_token d = 0 \<and> \<not> active_status (od_status d)"

lemma evolves_refl [simp, intro]: "evolves d d"
  by (simp add: evolves_def same_delivery_def)

lemma evolves_trans:
  assumes "evolves d e" and "evolves e f"
  shows "evolves d f"
proof -
  have "phase_step\<^sup>*\<^sup>* (phase d) (phase f)"
    using assms by (meson evolves_def rtranclp_trans)
  with assms show ?thesis by (simp add: evolves_def same_delivery_def)
qed

lemmas row_changes = recover_delivery_def release_delivery_def lease_delivery_def verified_delivery_def failed_delivery_def

lemma status_values:
  "set OBSERVABILITY_DELIVERY_STATUSES = {''not_requested'', ''planned'', ''leased'', ''verifying'', ''verified'',
     ''failed_retryable'', ''failed_terminal'', ''unknown''}"
  by (simp add: OBSERVABILITY_DELIVERY_STATUSES_def)

lemma open_status_facts:
  "open_status s \<Longrightarrow> \<not> active_status s \<and> s \<noteq> ''not_requested'' \<and> s \<noteq> ''verified''
     \<and> s \<in> set OBSERVABILITY_DELIVERY_STATUSES \<and> length s \<le> 32"
  by (auto simp: open_status_def active_status_def status_values)

lemma active_status_facts:
  "active_status s \<Longrightarrow> \<not> open_status s \<and> s \<noteq> ''not_requested'' \<and> s \<noteq> ''verified''
     \<and> s \<in> set OBSERVABILITY_DELIVERY_STATUSES \<and> length s \<le> 32"
  by (auto simp: open_status_def active_status_def status_values)

lemma phase_waiting: "open_status (od_status d) \<Longrightarrow> phase d = Waiting (od_fence_token d)"
  by (simp add: phase_def open_status_facts)

lemma open_values [simp]: "open_status ''planned''" "open_status ''failed_retryable''" "open_status ''unknown''"
  and active_values [simp]: "active_status ''leased''" "active_status ''verifying''"
  by (simp_all add: open_status_def active_status_def)

lemma phase_active: "active_status (od_status d) \<Longrightarrow> phase d = Held (od_fence_token d)"
  by (simp add: phase_def)

lemma phase_closed: "phase d = Closed n \<Longrightarrow> n = od_fence_token d \<and> \<not> active_status (od_status d)
     \<and> \<not> open_status (od_status d)"
  by (simp add: phase_def split: if_splits)

lemma same_row_changes [simp]:
  "same_delivery d (recover_delivery now d)" "same_delivery d (release_delivery now d)"
  "same_delivery d (lease_delivery owner expires d)" "same_delivery d (verified_delivery receipt now d)"
  "same_delivery d (failed_delivery s r c t f now d)"
  "same_delivery d (failed_delivery s r c t f now d\<lparr>od_terminal_at := u\<rparr>)"
  by (simp_all add: same_delivery_def delivery_logical_key_def row_changes)

lemma counted_row_changes [simp]:
  "counted (recover_delivery now d) = counted d" "counted (release_delivery now d) = counted d"
  "counted (lease_delivery owner expires d) = counted d" "counted (verified_delivery receipt now d) = counted d"
  "counted (failed_delivery s r c t f now d) = counted d"
  "counted (failed_delivery s r c t f now d\<lparr>od_terminal_at := u\<rparr>) = counted d"
  by (simp_all add: counted_def row_changes)

lemma valid_unleased:
  assumes "valid_delivery d" and "active_status (od_status d)"
  shows "od_skip_reason d = None" and "od_provider_trace_id d = None \<or> od_verified_at d = None"
proof -
  have "od_status d \<noteq> ''not_requested'' \<and> od_status d \<noteq> ''verified''"
    using assms(2) by (auto simp: active_status_def)
  with assms(1) show "od_skip_reason d = None" "od_provider_trace_id d = None \<or> od_verified_at d = None"
    by (simp_all add: valid_delivery_def delivery_check_def)
qed

lemmas validity = valid_delivery_def delivery_check_def delivery_columns_def fits_def

lemma valid_recover:
  assumes "valid_delivery d" and "active_status (od_status d)"
  shows "valid_delivery (recover_delivery now d)"
  using assms valid_unleased [OF assms] open_status_facts [OF open_values(3)]
  by (simp add: validity recover_delivery_def)

lemma valid_release:
  assumes "valid_delivery d" and "active_status (od_status d)"
  shows "valid_delivery (release_delivery now d)"
  using assms valid_unleased [OF assms] open_status_facts [OF open_values(2)]
  by (simp add: validity release_delivery_def)

lemma valid_lease:
  assumes "valid_delivery d" and "open_status (od_status d)" and "length owner \<le> 255"
  shows "valid_delivery (lease_delivery owner expires d)"
proof -
  define s where "s = (if od_status d = ''unknown'' then ''verifying'' else ''leased'')"
  then have s: "active_status s" by simp
  have row: "lease_delivery owner expires d = d\<lparr>od_status := s,
     od_attempt_count := od_attempt_count d + 1, od_fence_token := od_fence_token d + 1,
     od_lease_owner := Some owner, od_lease_expires_at := Some expires, od_next_attempt_at := None\<rparr>"
    by (simp add: lease_delivery_def s_def)
  show ?thesis
    using assms open_status_facts [OF assms(2)] active_status_facts [OF s] s unfolding row
    by (simp add: validity)
qed

section \<open>Each change follows the phases\<close>

lemma changed_columns [simp]:
  "od_status (recover_delivery now d) = ''unknown''" "od_fence_token (recover_delivery now d) = od_fence_token d"
  "od_status (release_delivery now d) = ''failed_retryable''" "od_fence_token (release_delivery now d) = od_fence_token d"
  "od_fence_token (lease_delivery owner expires d) = od_fence_token d + 1"
  "od_status (verified_delivery receipt now d) = ''verified''"
  "od_fence_token (verified_delivery receipt now d) = od_fence_token d"
  "od_status (failed_delivery s r c t f now d) = s" "od_fence_token (failed_delivery s r c t f now d) = od_fence_token d"
  by (simp_all add: row_changes)

lemma leased_is_active [simp]: "active_status (od_status (lease_delivery owner expires d))"
  by (simp add: lease_delivery_def)

lemma evolvesI:
  assumes "same_delivery d e" and "counted d \<longrightarrow> counted e" and "valid_delivery d \<longrightarrow> valid_delivery e"
    and "phase_step (phase d) (phase e)" and "phase d = Held n \<or> phase d = Waiting n"
  shows "evolves d e"
  using assms by (auto simp: evolves_def)

lemma evolves_recover: "active_status (od_status d) \<Longrightarrow> evolves d (recover_delivery now d)"
  by (rule evolvesI [where n = "od_fence_token d"])
    (simp_all add: valid_recover phase_active phase_waiting phase_step.released)

lemma evolves_release: "active_status (od_status d) \<Longrightarrow> evolves d (release_delivery now d)"
  by (rule evolvesI [where n = "od_fence_token d"])
    (simp_all add: valid_release phase_active phase_waiting phase_step.released)

lemma evolves_lease: "open_status (od_status d) \<Longrightarrow> length owner \<le> 255 \<Longrightarrow> evolves d (lease_delivery owner expires d)"
  by (rule evolvesI [where n = "od_fence_token d"])
    (simp_all add: valid_lease phase_active phase_waiting phase_step.leased)

lemma evolves_failed:
  assumes "active_status (od_status d)" and "open_status s" and "valid_delivery (failed_delivery s r c t f now d)"
  shows "evolves d (failed_delivery s r c t f now d)"
  using assms by (intro evolvesI [where n = "od_fence_token d"])
    (simp_all add: phase_active phase_waiting phase_step.released)

lemma phase_verified [simp]: "od_status d = ''verified'' \<Longrightarrow> phase d = Closed (od_fence_token d)"
  and phase_terminal [simp]: "od_status d = ''failed_terminal'' \<Longrightarrow> phase d = Closed (od_fence_token d)"
  and phase_skipped [simp]: "od_status d = ''not_requested'' \<Longrightarrow> phase d = Closed (od_fence_token d)"
  by (simp_all add: phase_def active_status_def open_status_def)

lemma evolves_verified:
  assumes "active_status (od_status d)" and "valid_delivery (verified_delivery receipt now d)"
  shows "evolves d (verified_delivery receipt now d)"
  using assms by (intro evolvesI [where n = "od_fence_token d"])
    (simp_all add: phase_active phase_step.closed)

lemma evolves_terminal:
  assumes "active_status (od_status d)"
    and "valid_delivery (failed_delivery ''failed_terminal'' r c t f now d\<lparr>od_terminal_at := u\<rparr>)"
  shows "evolves d (failed_delivery ''failed_terminal'' r c t f now d\<lparr>od_terminal_at := u\<rparr>)"
  using assms by (intro evolvesI [where n = "od_fence_token d"])
    (simp_all add: phase_active phase_step.closed)

section \<open>Each transaction makes its rows evolve\<close>

definition deliveries_ok :: "delivery_db \<Rightarrow> bool" where
  "deliveries_ok db \<longleftrightarrow> distinct (map od_id (dd_deliveries db)) \<and> distinct (map delivery_logical_key (dd_deliveries db))
     \<and> (\<forall>d \<in> set (dd_deliveries db). valid_delivery d \<and> counted d)"

definition adds_to :: "delivery list \<Rightarrow> delivery list \<Rightarrow> bool" where
  "adds_to rows news \<longleftrightarrow> distinct (map od_id news) \<and> distinct (map delivery_logical_key news)
     \<and> (\<forall>e \<in> set news. od_id e \<notin> od_id ` set rows \<and> delivery_logical_key e \<notin> delivery_logical_key ` set rows)"

definition rows_evolve :: "delivery list \<Rightarrow> delivery list \<Rightarrow> bool" where
  "rows_evolve rows rows' \<longleftrightarrow> (\<exists>g news. rows' = map g rows @ news \<and> (\<forall>d \<in> set rows. evolves d (g d))
     \<and> (\<forall>e \<in> set news. new_delivery e) \<and> adds_to rows news)"

lemma adds_to_Nil [simp]: "adds_to rows []"
  by (simp add: adds_to_def)

lemma adds_to_Cons:
  assumes "adds_to (rows @ [e]) news" and "od_id e \<notin> od_id ` set rows"
    and "delivery_logical_key e \<notin> delivery_logical_key ` set rows"
  shows "adds_to rows (e # news)"
proof -
  have "od_id e \<notin> od_id ` set news" "delivery_logical_key e \<notin> delivery_logical_key ` set news"
    using assms(1) by (force simp: adds_to_def)+
  with assms show ?thesis by (simp add: adds_to_def)
qed

lemma rows_evolve_map:
  "(\<And>d. d \<in> set rows \<Longrightarrow> evolves d (g d)) \<Longrightarrow> rows_evolve rows (map g rows)"
  unfolding rows_evolve_def by (intro exI [of _ g] exI [of _ "[]"]) simp

lemma rows_evolve_update:
  "(\<And>d. d \<in> set rows \<Longrightarrow> p d \<Longrightarrow> evolves d (f d)) \<Longrightarrow> rows_evolve rows (update_where p f rows)"
  unfolding update_where_def by (rule rows_evolve_map) simp

lemma rows_evolve_refl [simp]: "rows_evolve rows rows"
  using rows_evolve_map [of rows "\<lambda>d. d"] by simp

lemma new_deliveryI: "intent_row sc now k i = Inr row \<Longrightarrow> valid_delivery row \<Longrightarrow> new_delivery row"
  by (auto simp: intent_row_def rbind_Inr_iff Let_def new_delivery_def counted_def)

lemma intent_rows_new:
  "intent_rows sc now fresh n seen intents = Inr rows \<Longrightarrow> row \<in> set rows \<Longrightarrow> valid_delivery row \<Longrightarrow> new_delivery row"
  by (induction intents arbitrary: n seen rows) (auto simp: rbind_Inr_iff intro: new_deliveryI)

lemma insert_deliveries_Inr:
  assumes "insert_deliveries rows table = Inr table'"
  shows "\<exists>news. table' = table @ news \<and> set news \<subseteq> set rows \<and> (\<forall>r \<in> set rows. valid_delivery r)
     \<and> adds_to table news \<and> delivery_logical_key ` set rows \<subseteq> delivery_logical_key ` set table'"
  using assms
proof (induction rows table rule: insert_deliveries.induct)
  case (2 row rows table)
  from 2(3) have valid: "valid_delivery row" by (simp split: if_splits)
  show ?case
  proof (cases "delivery_logical_key row \<in> delivery_logical_key ` set table")
    case True
    with 2(3) valid have "insert_deliveries rows table = Inr table'" by simp
    from 2(1) [OF _ True this] valid True show ?thesis by auto
  next
    case False
    with 2(3) valid have ids: "od_id row \<notin> od_id ` set table"
      "delivery_unique_key row \<notin> delivery_unique_key ` set table"
      and rest: "insert_deliveries rows (table @ [row]) = Inr table'" by (auto split: if_splits)
    from 2(2) [OF _ False _ rest] valid ids obtain news where news: "table' = (table @ [row]) @ news"
      "set news \<subseteq> set rows" "\<forall>r \<in> set rows. valid_delivery r" "adds_to (table @ [row]) news"
      "delivery_logical_key ` set rows \<subseteq> delivery_logical_key ` set table'" by auto
    have "adds_to table (row # news)" by (rule adds_to_Cons [OF news(4) ids(1) False])
    moreover have "delivery_logical_key row \<in> delivery_logical_key ` set table'" unfolding news(1) by simp
    ultimately show ?thesis
      using news(2, 3, 5) valid unfolding news(1) by (intro exI [of _ "row # news"]) auto
  qed
qed simp

lemma recover_evolves:
  "\<exists>g. dd_deliveries (snd (recover_deliveries busy now db)) = map g (dd_deliveries db)
     \<and> (\<forall>d \<in> set (dd_deliveries db). evolves d (g d))"
  by (rule exI [of _ "\<lambda>d. if lease_expired busy now d then recover_delivery now d else d"])
    (auto simp: recover_deliveries_def update_where_def lease_expired_def intro: evolves_recover)

lemma evolves_id: "evolves d e \<Longrightarrow> od_id e = od_id d" and evolves_key: "evolves d e \<Longrightarrow> delivery_logical_key e = delivery_logical_key d"
  by (simp_all add: evolves_def same_delivery_def)

lemma due_open: "d \<in> set (due_deliveries busy limit now table) \<Longrightarrow> d \<in> set table \<and> open_status (od_status d)"
  by (auto simp: due_deliveries_def delivery_due_def open_status_def dest!: in_set_takeD)

lemma lease_due_Inr:
  assumes "lease_due held busy worker now seconds limit db = Inr (ds, db')"
  shows "\<exists>owner recovered due. validate_worker_id worker = Inr owner \<and> length owner \<le> 255
     \<and> recovered = snd (recover_deliveries held now db)
     \<and> due = due_deliveries busy (nat limit) now (dd_deliveries recovered)
     \<and> ds = map (lease_delivery owner (now + seconds * SECOND)) due
     \<and> db' = recovered\<lparr>dd_deliveries := update_where (\<lambda>d. od_id d \<in> od_id ` set due)
          (lease_delivery owner (now + seconds * SECOND)) (dd_deliveries recovered)\<rparr>"
  using assms
  by (auto simp: lease_due_def rbind_Inr_iff Let_def validate_worker_id_def split: if_splits)

lemma lease_due_evolves:
  assumes "lease_due held busy worker now seconds limit db = Inr (ds, db')" and "distinct (map od_id (dd_deliveries db))"
  shows "rows_evolve (dd_deliveries db) (dd_deliveries db')"
proof -
  from lease_due_Inr [OF assms(1)] obtain owner recovered due where owner: "length owner \<le> 255"
    and rec: "recovered = snd (recover_deliveries held now db)"
    and due: "due = due_deliveries busy (nat limit) now (dd_deliveries recovered)"
    and db': "db' = recovered\<lparr>dd_deliveries := update_where (\<lambda>d. od_id d \<in> od_id ` set due)
          (lease_delivery owner (now + seconds * SECOND)) (dd_deliveries recovered)\<rparr>" by blast
  from recover_evolves [of held now db] rec obtain g where g: "dd_deliveries recovered = map g (dd_deliveries db)"
    "\<And>d. d \<in> set (dd_deliveries db) \<Longrightarrow> evolves d (g d)" by auto
  let ?f = "lease_delivery owner (now + seconds * SECOND)"
  let ?h = "\<lambda>d. if od_id d \<in> od_id ` set due then ?f d else d"
  have "map od_id (dd_deliveries recovered) = map od_id (dd_deliveries db)"
    using g by (simp add: evolves_id)
  with assms(2) have dist: "distinct (map od_id (dd_deliveries recovered))" by simp
  have leased: "evolves d (?h d)" if d: "d \<in> set (dd_deliveries recovered)" for d
  proof (cases "od_id d \<in> od_id ` set due")
    case True
    then obtain e where e: "e \<in> set due" "od_id e = od_id d" by force
    then have "e \<in> set (dd_deliveries recovered)" "open_status (od_status e)"
      using due_open [of e] due by auto
    moreover from this d e(2) have "e = d" using distinct_map_unique [OF dist] by metis
    ultimately show ?thesis using True owner by (simp add: evolves_lease)
  qed simp
  have "dd_deliveries db' = map (\<lambda>d. ?h (g d)) (dd_deliveries db)"
    unfolding db' by (simp add: update_where_def g(1) comp_def)
  moreover have "evolves d (?h (g d))" if "d \<in> set (dd_deliveries db)" for d
    by (rule evolves_trans [OF g(2) [OF that] leased]) (use that g(1) in simp)
  ultimately show ?thesis by (simp add: rows_evolve_map)
qed

lemma ensure_intents_evolves:
  assumes "ensure_intents actor clock fresh sc intents db = Inr (ds, db')"
  shows "rows_evolve (dd_deliveries db) (dd_deliveries db')"
proof (cases "intents = []")
  case True
  with assms show ?thesis by (simp add: ensure_intents_def)
next
  case False
  with assms obtain rows table where rows: "intent_rows sc clock fresh 0 [] intents = Inr rows"
    and table: "insert_deliveries rows (dd_deliveries db) = Inr table" and db': "db' = db\<lparr>dd_deliveries := table\<rparr>"
    by (auto simp: ensure_intents_def rbind_Inr_iff Let_def split: if_splits)
  from insert_deliveries_Inr [OF table] obtain news where news: "table = dd_deliveries db @ news"
    "set news \<subseteq> set rows" "\<forall>r \<in> set rows. valid_delivery r" "adds_to (dd_deliveries db) news" by blast
  then have "\<forall>e \<in> set news. new_delivery e" using intent_rows_new [OF rows] by blast
  with news(1, 4) show ?thesis
    unfolding rows_evolve_def db' by (intro exI [of _ "\<lambda>d. d"] exI [of _ news]) simp
qed

lemma fenced_transition_Inr:
  assumes "fenced_transition actor k worker f change db = Inr (ok, db')"
  shows "\<exists>owner. validate_worker_id worker = Inr owner
     \<and> ok = (length (filter (fenced_row (dd_directory db) actor k owner f) (dd_deliveries db)) = 1)
     \<and> db' = db\<lparr>dd_deliveries := update_where (fenced_row (dd_directory db) actor k owner f) change (dd_deliveries db)\<rparr>
     \<and> (\<forall>d \<in> set (dd_deliveries db). fenced_row (dd_directory db) actor k owner f d \<longrightarrow> valid_delivery (change d))"
  using assms by (auto simp: fenced_transition_def rbind_Inr_iff Let_def)

lemma fenced_transition_evolves:
  assumes "fenced_transition actor k worker f change db = Inr (ok, db')"
    and "\<And>d. active_status (od_status d) \<Longrightarrow> valid_delivery (change d) \<Longrightarrow> evolves d (change d)"
  shows "rows_evolve (dd_deliveries db) (dd_deliveries db')"
proof -
  from fenced_transition_Inr [OF assms(1)] obtain owner where
    db': "db' = db\<lparr>dd_deliveries := update_where (fenced_row (dd_directory db) actor k owner f) change (dd_deliveries db)\<rparr>"
    and valid: "\<forall>d \<in> set (dd_deliveries db). fenced_row (dd_directory db) actor k owner f d \<longrightarrow> valid_delivery (change d)"
    by blast
  show ?thesis
    unfolding db' using valid by (auto intro!: rows_evolve_update assms(2) simp: fenced_row_def)
qed

lemma delivery_step_evolves:
  assumes "delivery_step db db'" and "deliveries_ok db"
  shows "rows_evolve (dd_deliveries db) (dd_deliveries db')"
  using assms(1)
proof cases
  case ensuring
  then show ?thesis by (rule ensure_intents_evolves)
next
  case (recovering busy now)
  with recover_evolves [of busy now db] show ?thesis by (auto intro!: rows_evolve_map)
next
  case (releasing busy worker now ds)
  then show ?thesis
    by (auto simp: release_deliveries_def rbind_Inr_iff lease_owned_def intro!: rows_evolve_update evolves_release)
next
  case leasing
  with assms(2) show ?thesis by (auto simp: deliveries_ok_def intro: lease_due_evolves)
next
  case verifying
  then show ?thesis
    by (auto simp: mark_verified_def rbind_Inr_iff elim!: fenced_transition_evolves intro: evolves_verified)
next
  case retrying
  then show ?thesis
    by (auto simp: mark_retryable_def rbind_Inr_iff elim!: fenced_transition_evolves intro: evolves_failed)
next
  case losing
  then show ?thesis
    by (auto simp: mark_unknown_def rbind_Inr_iff elim!: fenced_transition_evolves intro: evolves_failed)
next
  case terminating
  then show ?thesis
    by (auto simp: mark_terminal_def rbind_Inr_iff elim!: fenced_transition_evolves intro: evolves_terminal)
next
  case elsewhere
  then show ?thesis by simp
qed

section \<open>The invariant and the refinement\<close>

lemma distinct_map_same: "(\<And>d. d \<in> set rows \<Longrightarrow> key (g d) = key d) \<Longrightarrow> map key (map g rows) = map key rows"
  by simp

lemma distinct_adding:
  "distinct (map key rows) \<Longrightarrow> distinct (map key news) \<Longrightarrow> \<forall>e \<in> set news. key e \<notin> key ` set rows
     \<Longrightarrow> distinct (map key rows @ map key news)"
  unfolding distinct_append set_map disjoint_iff by (metis imageE)

lemma deliveries_ok_step:
  assumes "delivery_step db db'" and "deliveries_ok db"
  shows "deliveries_ok db'"
proof -
  from delivery_step_evolves [OF assms] obtain g news where rows: "dd_deliveries db' = map g (dd_deliveries db) @ news"
    and g: "\<And>d. d \<in> set (dd_deliveries db) \<Longrightarrow> evolves d (g d)" and new: "\<And>e. e \<in> set news \<Longrightarrow> new_delivery e"
    and adds: "adds_to (dd_deliveries db) news" unfolding rows_evolve_def by blast
  have ids: "map od_id (map g (dd_deliveries db)) = map od_id (dd_deliveries db)"
    "map delivery_logical_key (map g (dd_deliveries db)) = map delivery_logical_key (dd_deliveries db)"
    using g by (auto intro!: distinct_map_same simp: evolves_id evolves_key simp del: map_map)
  have "distinct (map od_id (dd_deliveries db'))" "distinct (map delivery_logical_key (dd_deliveries db'))"
    unfolding rows map_append ids by (rule distinct_adding; use assms(2) adds in \<open>simp add: deliveries_ok_def adds_to_def\<close>)+
  moreover have "valid_delivery d \<and> counted d" if d: "d \<in> set (dd_deliveries db')" for d
  proof (cases "d \<in> set news")
    case True
    with new [OF True] show ?thesis by (simp add: new_delivery_def)
  next
    case False
    with d rows obtain e where "e \<in> set (dd_deliveries db)" "d = g e" by auto
    with g [of e] assms(2) show ?thesis by (simp add: evolves_def deliveries_ok_def)
  qed
  ultimately show ?thesis by (simp add: deliveries_ok_def)
qed

lemma find_map_id:
  "(\<And>d. d \<in> set rows \<Longrightarrow> key (g d) = key d)
    \<Longrightarrow> find (\<lambda>d. key d = k) (map g rows) = map_option g (find (\<lambda>d. key d = k) rows)"
  by (induction rows) auto

lemma delivery_of_Some: "delivery_of k db = Some d \<Longrightarrow> d \<in> set (dd_deliveries db) \<and> od_id d = k"
  by (auto simp: delivery_of_def dest: find_Some_iff2)

lemma delivery_of_row: "deliveries_ok db \<Longrightarrow> d \<in> set (dd_deliveries db) \<Longrightarrow> delivery_of (od_id d) db = Some d"
proof -
  assume ok: "deliveries_ok db" and d: "d \<in> set (dd_deliveries db)"
  then obtain e where e: "delivery_of (od_id d) db = Some e"
    by (cases "delivery_of (od_id d) db") (auto simp: delivery_of_def find_None_iff)
  with delivery_of_Some [OF e] ok d distinct_map_unique [of od_id "dd_deliveries db" e d]
  show ?thesis by (simp add: deliveries_ok_def)
qed

lemma delivery_of_step:
  assumes "delivery_step db db'" and "deliveries_ok db" and "delivery_of k db = Some d"
  shows "\<exists>e. delivery_of k db' = Some e \<and> evolves d e"
proof -
  from delivery_step_evolves [OF assms(1, 2)] obtain g news where rows: "dd_deliveries db' = map g (dd_deliveries db) @ news"
    and g: "\<And>d. d \<in> set (dd_deliveries db) \<Longrightarrow> evolves d (g d)" unfolding rows_evolve_def by blast
  have "find (\<lambda>d. od_id d = k) (map g (dd_deliveries db)) = Some (g d)"
    using assms(3) find_map_id [of "dd_deliveries db" od_id g k] g by (simp add: evolves_id delivery_of_def)
  then have "delivery_of k db' = Some (g d)" by (simp add: delivery_of_def rows find_append)
  with g [of d] delivery_of_Some [OF assms(3)] show ?thesis by blast
qed

lemma phase_new: "new_delivery d \<Longrightarrow> phase d = Waiting 0 \<or> phase d = Closed 0"
  by (auto simp: new_delivery_def phase_def)

lemma delivery_step_refines:
  assumes "delivery_step db db'" and "deliveries_ok db"
  shows "phase_step\<^sup>*\<^sup>* (phase_of k db) (phase_of k db')"
proof (cases "delivery_of k db")
  case (Some d)
  with delivery_of_step [OF assms Some] show ?thesis by (auto simp: phase_of_def evolves_def)
next
  case None
  from delivery_step_evolves [OF assms] obtain g news where rows: "dd_deliveries db' = map g (dd_deliveries db) @ news"
    and g: "\<And>d. d \<in> set (dd_deliveries db) \<Longrightarrow> evolves d (g d)" and new: "\<And>e. e \<in> set news \<Longrightarrow> new_delivery e"
    unfolding rows_evolve_def by blast
  have "find (\<lambda>d. od_id d = k) (map g (dd_deliveries db)) = None"
    using None find_map_id [of "dd_deliveries db" od_id g k] g by (simp add: evolves_id delivery_of_def)
  then have of': "delivery_of k db' = find (\<lambda>d. od_id d = k) news" by (simp add: delivery_of_def rows find_append)
  show ?thesis
  proof (cases "delivery_of k db'")
    case (Some e)
    with of' have "find (\<lambda>d. od_id d = k) news = Some e" by simp
    from find_Some_iff2 [OF this] have "e \<in> set news" by simp
    from phase_new [OF new [OF this]] have "phase_step Absent (phase e)"
      by (auto intro: phase_step.planned phase_step.skipped)
    with None Some show ?thesis by (simp add: phase_of_def)
  qed (simp add: phase_of_def None)
qed

definition delivery_fence :: "uuid \<Rightarrow> delivery_db \<Rightarrow> int" where
  "delivery_fence k db = phase_fence (phase_of k db)"

definition delivery_leased :: "uuid \<Rightarrow> int \<Rightarrow> delivery_db \<Rightarrow> bool" where
  "delivery_leased k f db \<longleftrightarrow> phase_of k db = Held f"

interpretation delivery_lease: fenced_lease delivery_step delivery_fence delivery_leased deliveries_ok
proof
  fix db db' k f
  show "delivery_step db db' \<Longrightarrow> deliveries_ok db \<Longrightarrow> deliveries_ok db'" by (rule deliveries_ok_step)
  show "delivery_step db db' \<Longrightarrow> deliveries_ok db \<Longrightarrow> delivery_fence k db \<le> delivery_fence k db'"
    unfolding delivery_fence_def by (intro phase_steps_fence delivery_step_refines)
  show "deliveries_ok db \<Longrightarrow> delivery_leased k f db \<Longrightarrow> delivery_fence k db = f"
    by (simp add: delivery_fence_def delivery_leased_def)
qed

end
