(* ===== verification/Observability_Worker.thy ===== *)
theory Observability_Worker
  imports Observability_Safety Json_Values
begin

text \<open>
  Reading a hosted trace back (\<open>observability/verification.py\<close>) and the worker that does so for
  the deliveries it leases (\<open>workers/observability.py\<close>). What the providers' client libraries
  answer or raise is an argument; of an exception the model keeps what the code asks about it.
\<close>

section \<open>The request\<close>

record verification_request =
  vq_provider :: string
  vq_provider_trace_id :: "string option"
  vq_product_run_id :: string
  vq_correlation_id :: string
  vq_project_name :: "string option"

definition project_name :: "verification_request \<Rightarrow> string option" where
  "project_name q = (case vq_project_name q of None \<Rightarrow> None
     | Some v \<Rightarrow> if strip v = [] then None else Some (strip v))"

definition valid_verification_request :: "verification_request \<Rightarrow> bool" where
  "valid_verification_request q \<longleftrightarrow> vq_provider q \<in> set OBSERVABILITY_DELIVERY_PROVIDERS
     \<and> strip (vq_product_run_id q) \<noteq> [] \<and> strip (vq_correlation_id q) \<noteq> []
     \<and> (if vq_provider q = ''langsmith'' then vq_provider_trace_id q \<noteq> None \<or> project_name q \<noteq> None
        else (case vq_provider_trace_id q of None \<Rightarrow> False | Some t \<Rightarrow> strip t \<noteq> []))"

datatype verification_outcome = Verified | Not_visible | Retryable_failure | Terminal_failure

record verification_result =
  vr_provider :: string
  vr_provider_trace_id :: "string option"
  vr_outcome :: verification_outcome
  vr_code :: string
  vr_error_type :: "string option"

definition result_for ::
  "verification_request \<Rightarrow> verification_outcome \<Rightarrow> string \<Rightarrow> string option \<Rightarrow> string option \<Rightarrow> verification_result" where
  "result_for q outcome code error_type trace_id =
     \<lparr>vr_provider = vq_provider q, vr_provider_trace_id = trace_id, vr_outcome = outcome, vr_code = code,
      vr_error_type = error_type\<rparr>"

section \<open>Classifying an exception\<close>

text \<open>
  The exceptions alive are a list; one refers to its \<open>__cause__\<close> or else its \<open>__context__\<close> by its
  position, and these references may form a cycle. \<open>xc_kinds\<close> are the classes the code tests for
  that the exception is an instance of.
\<close>

datatype exception_class =
    Verification_timeout | Lang_smith_not_found | Lang_smith_rate_limit | Lang_smith_api | Lang_smith_connection
  | Lang_smith_request_timeout | Lang_smith_auth | Lang_smith_user | Langfuse_not_found | Langfuse_unauthorized
  | Langfuse_access_denied | Langfuse_request | Langfuse_api | Builtin_timeout | Requests_timeout
  | Requests_connection | Httpx_timeout | Httpx_network | Httpx_protocol | Builtin_value | Builtin_type

record exception =
  xc_kinds :: "exception_class list"
  xc_name :: string
  xc_status_code :: "int option"
  xc_response_status :: "int option"
  xc_chained :: "nat option"

definition is_a :: "exception \<Rightarrow> exception_class list \<Rightarrow> bool" where
  "is_a x ks \<longleftrightarrow> (\<exists>k \<in> set ks. k \<in> set (xc_kinds x))"

function status_code_from :: "exception list \<Rightarrow> nat list \<Rightarrow> nat option \<Rightarrow> int option" where
  "status_code_from heap seen current =
     (case current of None \<Rightarrow> None
      | Some i \<Rightarrow>
        if i \<in> set seen \<or> length heap \<le> i then None
        else case xc_status_code (heap ! i) of Some s \<Rightarrow> Some s
          | None \<Rightarrow> (case xc_response_status (heap ! i) of Some s \<Rightarrow> Some s
              | None \<Rightarrow> status_code_from heap (i # seen) (xc_chained (heap ! i))))"
  by pat_completeness auto
termination
proof (relation "measure (\<lambda>(heap, seen, current). card ({..<length heap} - set seen))")
  fix heap :: "exception list" and seen current i
  assume open_ref: "\<not> (i \<in> set seen \<or> length heap \<le> i)"
  let ?rest = "{..<length heap} - set seen"
  have "i \<in> ?rest" using open_ref by simp
  then have "card (?rest - {i}) < card ?rest" by (rule card_Diff1_less [rotated]) simp
  moreover have "{..<length heap} - set (i # seen) = ?rest - {i}" unfolding list.set(2) by (rule Diff_insert)
  ultimately show "((heap, i # seen, xc_chained (heap ! i)), heap, seen, current)
      \<in> measure (\<lambda>(heap, seen, current). card ({..<length heap} - set seen))" by simp
qed (rule wf_measure)

declare status_code_from.simps [simp del]

definition exception_status_code :: "exception list \<Rightarrow> nat \<Rightarrow> int option" where
  "exception_status_code heap i = status_code_from heap [] (Some i)"

type_synonym classified = "verification_outcome \<times> string \<times> string"

definition classify_status_code :: "int option \<Rightarrow> classified option" where
  "classify_status_code status_code =
     (case status_code of None \<Rightarrow> None
      | Some s \<Rightarrow> Some (
          if s = 404 then (Not_visible, ''hosted_trace_not_visible'', ''not_found'')
          else if s \<in> {408, 409, 429} \<or> s \<ge> 500
          then (Retryable_failure, ''hosted_query_retryable'',
                if s = 408 then ''timeout'' else if s = 429 then ''rate_limit'' else ''server'')
          else if s \<in> {401, 403} then (Terminal_failure, ''hosted_query_authentication_error'', ''authentication'')
          else if 400 \<le> s \<and> s < 500 then (Terminal_failure, ''hosted_query_invalid_request'', ''invalid_request'')
          else (Terminal_failure, ''hosted_query_http_error'', ''http_error'')))"

definition classify_langsmith :: "exception \<Rightarrow> classified option" where
  "classify_langsmith x =
     (if is_a x [Lang_smith_not_found] then Some (Not_visible, ''hosted_trace_not_visible'', ''not_found'')
      else if is_a x [Lang_smith_rate_limit, Lang_smith_api, Lang_smith_connection, Lang_smith_request_timeout]
        then Some (Retryable_failure, ''hosted_query_retryable'', xc_name x)
      else if is_a x [Lang_smith_auth] then Some (Terminal_failure, ''hosted_query_authentication_error'', ''authentication'')
      else if is_a x [Lang_smith_user] then Some (Terminal_failure, ''hosted_query_sdk_error'', xc_name x)
      else None)"

definition classify_langfuse :: "exception \<Rightarrow> classified option" where
  "classify_langfuse x =
     (if is_a x [Langfuse_not_found] then Some (Not_visible, ''hosted_trace_not_visible'', ''not_found'')
      else if is_a x [Langfuse_unauthorized, Langfuse_access_denied]
        then Some (Terminal_failure, ''hosted_query_authentication_error'', ''authentication'')
      else if is_a x [Langfuse_request] then Some (Terminal_failure, ''hosted_query_invalid_request'', ''invalid_request'')
      else None)"

definition classify_exception :: "string \<Rightarrow> exception list \<Rightarrow> nat \<Rightarrow> classified" where
  "classify_exception provider heap i =
     (let x = heap ! i;
          specific = (if provider = ''langsmith'' then classify_langsmith x
                      else if provider = ''langfuse'' then classify_langfuse x else None)
      in if is_a x [Verification_timeout] then (Retryable_failure, ''hosted_query_timeout'', ''timeout'')
         else case specific of Some c \<Rightarrow> c
         | None \<Rightarrow> (case classify_status_code (exception_status_code heap i) of Some c \<Rightarrow> c
           | None \<Rightarrow>
             if is_a x [Builtin_timeout, Requests_timeout, Requests_connection, Httpx_timeout, Httpx_network, Httpx_protocol]
               then (Retryable_failure, ''hosted_query_transport_error'', xc_name x)
             else if is_a x [Builtin_value, Builtin_type] then (Terminal_failure, ''hosted_query_invalid_request'', xc_name x)
             else if provider = ''langfuse'' \<and> is_a x [Langfuse_api] then (Terminal_failure, ''hosted_query_sdk_error'', xc_name x)
             else (Terminal_failure, ''hosted_query_unexpected_error'', xc_name x)))"

definition classified_result ::
  "verification_request \<Rightarrow> exception list \<Rightarrow> nat \<Rightarrow> string option \<Rightarrow> verification_result" where
  "classified_result q heap i trace_id =
     (case classify_exception (vq_provider q) heap i of (outcome, code, error_type) \<Rightarrow>
        result_for q outcome code (Some error_type) trace_id)"

section \<open>The filter for a run's identity\<close>

definition replace_char :: "char \<Rightarrow> string \<Rightarrow> string \<Rightarrow> string" where
  "replace_char c new s = concat (map (\<lambda>x. if x = c then new else [x]) s)"

definition BACKSLASH :: char where "BACKSLASH = CHR 0x5C"
definition QUOTE :: char where "QUOTE = CHR 0x22"
definition NEWLINE :: char where "NEWLINE = CHR 0x0A"
definition CARRIAGE_RETURN :: char where "CARRIAGE_RETURN = CHR 0x0D"

definition langsmith_filter_literal :: "string \<Rightarrow> string" where
  "langsmith_filter_literal value =
     (let escaped = replace_char CARRIAGE_RETURN [BACKSLASH, CHR ''r'']
        (replace_char NEWLINE [BACKSLASH, CHR ''n'']
          (replace_char QUOTE [BACKSLASH, QUOTE] (replace_char BACKSLASH [BACKSLASH, BACKSLASH] value)))
      in [QUOTE] @ escaped @ [QUOTE])"

definition langsmith_identity_filter :: "verification_request \<Rightarrow> string" where
  "langsmith_identity_filter q =
     ''and(eq(metadata_key, '' @ [QUOTE] @ ''product_run_id'' @ [QUOTE] @ ''), eq(metadata_value, ''
       @ langsmith_filter_literal (vq_product_run_id q) @ ''))''"

section \<open>Reading a trace back\<close>

text \<open>
  A run the client library returns: its metadata, extra and identifier, read as keys or as
  attributes; the identifier is the text that \<open>str\<close> makes of it. \<open>answer\<close> is what a call returns,
  or the exceptions alive when it raised and the position of the one it raised; a call that takes
  too long raises \<open>Verification_timeout\<close>.
\<close>

record hosted_run =
  hr_metadata :: json
  hr_extra :: json
  hr_id :: "string option"

datatype 'a answer = Returned 'a | Raised "exception list" nat

record trace_adapter =
  ta_provider :: string
  ta_read_run :: "string \<Rightarrow> unit answer"
  ta_list_root_runs :: "string \<Rightarrow> string \<Rightarrow> hosted_run list answer"
  ta_fetch :: "string \<Rightarrow> unit answer"

definition run_metadata :: "hosted_run \<Rightarrow> json" where
  "run_metadata r = (if is_mapping (hr_metadata r) then hr_metadata r
     else if is_mapping (hr_extra r) \<and> is_mapping (get_or_null ''metadata'' (hr_extra r))
       then get_or_null ''metadata'' (hr_extra r)
     else JObj [])"

definition run_matches_identity :: "hosted_run \<Rightarrow> verification_request \<Rightarrow> bool" where
  "run_matches_identity r q \<longleftrightarrow>
     json_get ''product_run_id'' (run_metadata r) = Some (JStr (vq_product_run_id q))
     \<and> json_get ''correlation_id'' (run_metadata r) = Some (JStr (vq_correlation_id q))"

definition verify_langsmith :: "trace_adapter \<Rightarrow> verification_request \<Rightarrow> verification_result" where
  "verify_langsmith ad q = (case vq_provider_trace_id q of
     Some trace_id \<Rightarrow> (case ta_read_run ad trace_id of
         Raised heap i \<Rightarrow> classified_result q heap i (Some trace_id)
       | Returned _ \<Rightarrow> result_for q Verified ''hosted_trace_visible'' None (Some trace_id))
   | None \<Rightarrow> (case project_name q of
         None \<Rightarrow> result_for q Terminal_failure ''hosted_query_invalid_request'' (Some ''invalid_request'') None
       | Some name \<Rightarrow> (case ta_list_root_runs ad name (langsmith_identity_filter q) of
             Raised heap i \<Rightarrow> classified_result q heap i None
           | Returned [] \<Rightarrow> result_for q Not_visible ''hosted_trace_not_visible'' (Some ''not_found'') None
           | Returned [r] \<Rightarrow>
               if run_matches_identity r q then result_for q Verified ''hosted_trace_visible'' None (hr_id r)
               else result_for q Terminal_failure ''hosted_query_identity_mismatch'' (Some ''identity_mismatch'') None
           | Returned _ \<Rightarrow> result_for q Terminal_failure ''hosted_query_correlation_conflict''
               (Some ''correlation_conflict'') None)))"

definition verify_langfuse :: "trace_adapter \<Rightarrow> verification_request \<Rightarrow> verification_result" where
  "verify_langfuse ad q = (let trace_id = the (vq_provider_trace_id q) in case ta_fetch ad trace_id of
       Raised heap i \<Rightarrow> classified_result q heap i (Some trace_id)
     | Returned _ \<Rightarrow> result_for q Verified ''hosted_trace_visible'' None (Some trace_id))"

definition verify :: "trace_adapter \<Rightarrow> verification_request \<Rightarrow> verification_result" where
  "verify ad q =
     (if vq_provider q \<noteq> ta_provider ad
      then result_for q Terminal_failure ''hosted_query_provider_mismatch'' (Some ''configuration'') None
      else if vq_provider q = ''langsmith'' then verify_langsmith ad q else verify_langfuse ad q)"

section \<open>The worker\<close>

record observability_worker =
  ow_worker_id :: string
  ow_langsmith_project :: string
  ow_lease_seconds :: int
  ow_retry_seconds :: float64
  ow_max_attempts :: int

definition mk_observability_worker ::
  "string \<Rightarrow> string \<Rightarrow> int \<Rightarrow> float64 \<Rightarrow> int \<Rightarrow> (delivery_error, observability_worker) result" where
  "mk_observability_worker worker_id langsmith_project lease_seconds retry_seconds max_attempts =
     (if strip worker_id = [] then Inl Value_error
      else if strip langsmith_project = [] then Inl Value_error
      else if lease_seconds < 3 then Inl Value_error
      else if retry_seconds \<le> 0 then Inl Value_error
      else if max_attempts < 1 then Inl Value_error
      else Inr \<lparr>ow_worker_id = strip worker_id, ow_langsmith_project = strip langsmith_project,
        ow_lease_seconds = lease_seconds, ow_retry_seconds = retry_seconds, ow_max_attempts = max_attempts\<rparr>)"

definition budget_error :: "observability_worker \<Rightarrow> delivery \<Rightarrow> instant \<Rightarrow> string option" where
  "budget_error wk lease now = (case od_verification_deadline lease of
     None \<Rightarrow> Some ''hosted_verification_deadline_missing''
   | Some deadline \<Rightarrow> if now \<ge> deadline then Some ''hosted_verification_deadline_exceeded''
       else if od_attempt_count lease \<ge> ow_max_attempts wk then Some ''hosted_verification_attempts_exhausted''
       else None)"

text \<open>What the worker writes at the end of its work on a lease, and the store's part in it.\<close>

datatype mark =
    Mark_verified string
  | Mark_retryable instant string "string option"
  | Mark_terminal string "string option"

definition hosted_failure :: "string \<Rightarrow> string option \<Rightarrow> delivery_failure" where
  "hosted_failure code error_type =
     \<lparr>df_error_code = code, df_error_type = error_type, df_error_summary = None, df_stage = Some ''hosted_query''\<rparr>"

fun store_mark :: "delivery \<Rightarrow> mark \<Rightarrow> instant \<Rightarrow> delivery_db \<Rightarrow> (delivery_error, bool \<times> delivery_db) result" where
  "store_mark lease (Mark_verified receipt) now db =
     mark_verified None (od_id lease) (the (od_lease_owner lease)) (od_fence_token lease) receipt now db"
| "store_mark lease (Mark_retryable next_attempt_at code error_type) now db =
     mark_retryable None (od_id lease) (the (od_lease_owner lease)) (od_fence_token lease) next_attempt_at
       (hosted_failure code error_type) now db"
| "store_mark lease (Mark_terminal code error_type) now db =
     mark_terminal None (od_id lease) (the (od_lease_owner lease)) (od_fence_token lease)
       (hosted_failure code error_type) now db"

definition retry_mark :: "observability_worker \<Rightarrow> delivery \<Rightarrow> string \<Rightarrow> string option \<Rightarrow> instant \<Rightarrow> mark" where
  "retry_mark wk lease code error_type now = (case budget_error wk lease now of
     Some e \<Rightarrow> Mark_terminal e (if no_text error_type then Some ''VerificationBudgetExhausted'' else error_type)
   | None \<Rightarrow> Mark_retryable (now + timedelta_seconds (ow_retry_seconds wk)) code error_type)"

definition finish_mark :: "observability_worker \<Rightarrow> delivery \<Rightarrow> verification_result \<Rightarrow> instant \<Rightarrow> mark" where
  "finish_mark wk lease r now = (case vr_outcome r of
     Verified \<Rightarrow> if no_text (vr_provider_trace_id r)
       then Mark_terminal ''hosted_verification_receipt_missing'' (Some ''ProtocolError'')
       else Mark_verified (the (vr_provider_trace_id r))
   | Terminal_failure \<Rightarrow> Mark_terminal (vr_code r) (vr_error_type r)
   | _ \<Rightarrow> retry_mark wk lease (vr_code r) (vr_error_type r) now)"

definition request_of_lease :: "observability_worker \<Rightarrow> delivery \<Rightarrow> verification_request" where
  "request_of_lease wk lease =
     \<lparr>vq_provider = od_provider lease, vq_provider_trace_id = od_provider_trace_id lease,
      vq_product_run_id = od_run_id lease, vq_correlation_id = od_correlation_id lease,
      vq_project_name = (if od_provider lease = ''langsmith'' then Some (ow_langsmith_project wk) else None)\<rparr>"

text \<open>
  How \<open>verify\<close> ends: with a result, cancelled, with a \<open>TypeError\<close> or \<open>ValueError\<close>, or with another
  exception. \<open>verifiers\<close> are the configured ones, by provider.
\<close>

datatype attempt_end = Answered verification_result | Cancelled | Identity_error | Unexpected_error

definition early_mark :: "observability_worker \<Rightarrow> (string \<Rightarrow> bool) \<Rightarrow> delivery \<Rightarrow> instant \<Rightarrow> mark option" where
  "early_mark wk verifiers lease now = (case budget_error wk lease now of
     Some e \<Rightarrow> Some (Mark_terminal e (Some ''VerificationBudgetExhausted''))
   | None \<Rightarrow>
     if od_event_type lease \<noteq> ''root_trace'' \<or> od_event_version lease \<noteq> 1
       then Some (Mark_terminal ''unsupported_observability_event'' (Some ''ConfigurationError''))
     else if \<not> verifiers (od_provider lease)
       then Some (Mark_terminal ''hosted_verifier_not_configured'' (Some ''ConfigurationError''))
     else None)"

definition asks_verifier :: "observability_worker \<Rightarrow> (string \<Rightarrow> bool) \<Rightarrow> delivery \<Rightarrow> instant \<Rightarrow> bool" where
  "asks_verifier wk verifiers lease now \<longleftrightarrow>
     early_mark wk verifiers lease now = None \<and> valid_verification_request (request_of_lease wk lease)"

definition late_mark :: "observability_worker \<Rightarrow> delivery \<Rightarrow> attempt_end \<Rightarrow> instant \<Rightarrow> mark" where
  "late_mark wk lease e now =
     (if \<not> valid_verification_request (request_of_lease wk lease) \<or> e = Identity_error
      then Mark_terminal ''hosted_verification_identity_invalid'' (Some ''ConfigurationError'')
      else case e of
        Answered r \<Rightarrow> finish_mark wk lease r now
      | Cancelled \<Rightarrow> retry_mark wk lease ''worker_cancelled'' (Some ''WorkerCancelled'') now
      | _ \<Rightarrow> retry_mark wk lease ''hosted_query_unexpected_failure'' (Some ''UnexpectedVerificationError'') now)"

text \<open>
  \<open>execute_verification\<close> reads the clock when it starts and again when it is about to write; \<open>db\<close> is the
  database when it writes. A cancelled one writes and then raises again; the result is that of
  the write.
\<close>

definition execute_mark ::
  "observability_worker \<Rightarrow> (string \<Rightarrow> bool) \<Rightarrow> delivery \<Rightarrow> attempt_end \<Rightarrow> instant \<Rightarrow> instant \<Rightarrow> mark \<times> instant" where
  "execute_mark wk verifiers lease e started ended = (case early_mark wk verifiers lease started of
     Some m \<Rightarrow> (m, started) | None \<Rightarrow> (late_mark wk lease e ended, ended))"

definition execute_verification ::
  "observability_worker \<Rightarrow> (string \<Rightarrow> bool) \<Rightarrow> delivery \<Rightarrow> attempt_end \<Rightarrow> instant \<Rightarrow> instant \<Rightarrow> delivery_db
     \<Rightarrow> (delivery_error, bool \<times> delivery_db) result" where
  "execute_verification wk verifiers lease e started ended db =
     (case execute_mark wk verifiers lease e started ended of (m, now) \<Rightarrow> store_mark lease m now db)"

definition claim_delivery ::
  "(uuid \<Rightarrow> bool) \<Rightarrow> (uuid \<Rightarrow> bool) \<Rightarrow> observability_worker \<Rightarrow> instant \<Rightarrow> delivery_db
     \<Rightarrow> (delivery_error, delivery option \<times> delivery_db) result" where
  "claim_delivery held busy wk now db =
     rbind (lease_due held busy (ow_worker_id wk) now (ow_lease_seconds wk) 1 db) (\<lambda>(leases, db').
     Inr (case leases of [] \<Rightarrow> None | l # _ \<Rightarrow> Some l, db'))"

definition worker_release ::
  "(uuid \<Rightarrow> bool) \<Rightarrow> observability_worker \<Rightarrow> instant \<Rightarrow> delivery_db \<Rightarrow> (delivery_error, delivery_db) result" where
  "worker_release busy wk now db = rbind (release_deliveries busy (ow_worker_id wk) now db) (\<lambda>(_, db'). Inr db')"

text \<open>\<open>dispatch_verification\<close> of a worker that nobody interferes with: the times at which it claims, starts and
  ends, and how the verification ends.\<close>

record dispatch_round =
  rd_claimed :: instant
  rd_started :: instant
  rd_ended :: instant
  rd_end :: attempt_end

definition dispatch_verification ::
  "observability_worker \<Rightarrow> (string \<Rightarrow> bool) \<Rightarrow> dispatch_round \<Rightarrow> delivery_db \<Rightarrow> (delivery_error, bool \<times> delivery_db) result" where
  "dispatch_verification wk verifiers r db =
     rbind (claim_delivery (\<lambda>_. False) (\<lambda>_. False) wk (rd_claimed r) db) (\<lambda>(claimed, db1).
     case claimed of None \<Rightarrow> Inr (False, db1)
     | Some lease \<Rightarrow> rbind (execute_verification wk verifiers lease (rd_end r) (rd_started r) (rd_ended r) db1) (\<lambda>(_, db2).
         Inr (True, db2)))"

fun dispatch_rounds ::
  "observability_worker \<Rightarrow> (string \<Rightarrow> bool) \<Rightarrow> dispatch_round list \<Rightarrow> delivery_db \<Rightarrow> (delivery_error, delivery_db) result" where
  "dispatch_rounds wk verifiers [] db = Inr db"
| "dispatch_rounds wk verifiers (r # rs) db =
     rbind (dispatch_verification wk verifiers r db) (\<lambda>(_, db'). dispatch_rounds wk verifiers rs db')"

end
