(* ===== verification/Observability_Samples.thy ===== *)
theory Observability_Samples
  imports Observability_Worker
begin

text \<open>Concrete deliveries, a worker and an adapter for the witnesses of the observability properties.\<close>

section \<open>Concrete deliveries\<close>

definition sample_delivery :: delivery where
  "sample_delivery = \<lparr>od_id = ''d1'', od_tenant_id = ''t'', od_workspace_id = ''w'', od_owner_user_id = ''u'',
     od_task_id = ''k'', od_run_id = ''r'', od_provider = ''langsmith'', od_event_type = ''root_trace'', od_event_version = 1,
     od_delivery_key = ''root-trace:v1:k:r:langsmith'', od_correlation_id = ''c'', od_status = ''planned'', od_sampled = True,
     od_skip_reason = None, od_attempt_count = 0, od_fence_token = 0, od_lease_owner = None, od_lease_expires_at = None,
     od_next_attempt_at = None, od_verification_deadline = Some (1000 * SECOND), od_provider_trace_id = None,
     od_last_stage = None, od_last_retry_state = None, od_last_error_code = None, od_last_error_type = None,
     od_last_error_summary = None, od_last_error_at = None, od_verified_at = None, od_terminal_at = None, od_created_at = 0\<rparr>"

definition sample_skipped :: delivery where
  "sample_skipped = sample_delivery\<lparr>od_id := ''d2'', od_provider := ''langfuse'', od_status := ''not_requested'',
     od_delivery_key := ''root-trace:v1:k:r:langfuse'', od_skip_reason := Some ''provider_disabled'', od_sampled := False\<rparr>"

definition sample_deliveries :: delivery_db where
  "sample_deliveries = \<lparr>dd_directory = \<lparr>dir_tenants = [], dir_users = [], dir_workspaces = [], dir_memberships = []\<rparr>,
     dd_tasks = [], dd_deliveries = [sample_skipped, sample_delivery]\<rparr>"

definition sample_hosted_worker :: "int \<Rightarrow> observability_worker" where
  "sample_hosted_worker limit = \<lparr>ow_worker_id = ''worker'', ow_langsmith_project = ''project'', ow_lease_seconds = 30,
     ow_retry_seconds = 5, ow_max_attempts = limit\<rparr>"

definition sample_lease :: "int \<Rightarrow> instant \<Rightarrow> delivery" where
  "sample_lease n t = sample_delivery\<lparr>od_status := (if n = 1 then ''leased'' else ''verifying''), od_attempt_count := n,
     od_fence_token := n, od_lease_owner := Some ''worker'', od_lease_expires_at := Some (t + 30 * SECOND)\<rparr>"

definition sample_leased :: delivery_db where
  "sample_leased = sample_deliveries\<lparr>dd_deliveries := [sample_skipped, sample_lease 1 0]\<rparr>"

lemma sample_deliveries_ok: "deliveries_ok sample_deliveries"
  by code_simp

lemma sample_claim: "claim_delivery (\<lambda>_. False) (\<lambda>_. False) (sample_hosted_worker n) 0 sample_deliveries
    = Inr (Some (sample_lease 1 0), sample_leased)"
  by code_simp

text \<open>The lease expires unused and is taken again.\<close>

definition sample_leased_again :: delivery_db where
  "sample_leased_again = snd (projr (claim_delivery (\<lambda>_. False) (\<lambda>_. False) (sample_hosted_worker 3) (31 * SECOND) sample_leased))"

lemma sample_claim_again: "\<exists>l. claim_delivery (\<lambda>_. False) (\<lambda>_. False) (sample_hosted_worker 3) (31 * SECOND) sample_leased
    = Inr (Some l, sample_leased_again) \<and> od_id l = ''d1''"
proof -
  have "(case claim_delivery (\<lambda>_. False) (\<lambda>_. False) (sample_hosted_worker 3) (31 * SECOND) sample_leased of
      Inr (Some l, _) \<Rightarrow> od_id l = ''d1'' | _ \<Rightarrow> False)" by code_simp
  then show ?thesis by (auto simp: sample_leased_again_def split: sum.splits option.splits)
qed

lemma sample_late: "is_ok (execute_verification (sample_hosted_worker 3) (\<lambda>_. True) (sample_lease 1 0) Unexpected_error 2 3 sample_leased_again)"
  by code_simp

definition sample_hosted :: hosted_run where
  "sample_hosted = \<lparr>hr_metadata = JObj [(''product_run_id'', JStr ''r''), (''correlation_id'', JStr ''c'')],
     hr_extra = JNull, hr_id = Some ''x''\<rparr>"

definition sample_adapter :: trace_adapter where
  "sample_adapter = \<lparr>ta_provider = ''langsmith'', ta_read_run = (\<lambda>_. Returned ()),
     ta_list_root_runs = (\<lambda>_. \<lambda>_. Returned [sample_hosted]), ta_fetch = (\<lambda>_. Returned ())\<rparr>"

definition sample_answer :: attempt_end where
  "sample_answer = Answered (verify sample_adapter (request_of_lease (sample_hosted_worker 3) (sample_lease 1 0)))"

lemma sample_verification: "case execute_verification (sample_hosted_worker 3) (\<lambda>_. True) (sample_lease 1 0) sample_answer 2 3 sample_leased of
    Inr (ok, db') \<Rightarrow> ok \<and> (case delivery_of ''d1'' db' of Some d \<Rightarrow> od_status d = ''verified'' | None \<Rightarrow> False) | _ \<Rightarrow> False"
  by code_simp

definition sample_round :: "instant \<Rightarrow> dispatch_round" where
  "sample_round t = \<lparr>rd_claimed = t, rd_started = t, rd_ended = t, rd_end = Unexpected_error\<rparr>"

end
