(* ===== verification/Observability_Properties.thy ===== *)
theory Observability_Properties
  imports Observability_Samples
begin

text \<open>
  What the observability deliveries guarantee: phases, leases, the number of requests, what a
  verified delivery means, and that intents are written once.
\<close>

section \<open>The filter literal\<close>

text \<open>A reader of the filter language's string literals: the value and what follows the closing quote.\<close>

fun unescape_char :: "char \<Rightarrow> char" where
  "unescape_char c = (if c = CHR ''n'' then NEWLINE else if c = CHR ''r'' then CARRIAGE_RETURN else c)"

fun read_escaped :: "string \<Rightarrow> (string \<times> string) option" where
  "read_escaped [] = None"
| "read_escaped (c # s) =
     (if c = QUOTE then Some ([], s)
      else if c = BACKSLASH
      then (case s of [] \<Rightarrow> None | x # t \<Rightarrow> map_option (apfst (Cons (unescape_char x))) (read_escaped t))
      else map_option (apfst (Cons c)) (read_escaped s))"

fun read_literal :: "string \<Rightarrow> (string \<times> string) option" where
  "read_literal [] = None"
| "read_literal (c # s) = (if c = QUOTE then read_escaped s else None)"

definition escape_char :: "char \<Rightarrow> string" where
  "escape_char c = (if c = BACKSLASH then [BACKSLASH, BACKSLASH] else if c = QUOTE then [BACKSLASH, QUOTE]
     else if c = NEWLINE then [BACKSLASH, CHR ''n''] else if c = CARRIAGE_RETURN then [BACKSLASH, CHR ''r''] else [c])"

lemmas special_chars = BACKSLASH_def QUOTE_def NEWLINE_def CARRIAGE_RETURN_def

lemma replace_char_simps [simp]:
  "replace_char c new [] = []" "replace_char c new (x # s) = (if x = c then new else [x]) @ replace_char c new s"
  "replace_char c new (s @ t) = replace_char c new s @ replace_char c new t"
  by (simp_all add: replace_char_def)

lemma filter_literal_chars: "langsmith_filter_literal v = QUOTE # concat (map escape_char v) @ [QUOTE]"
proof -
  have "replace_char CARRIAGE_RETURN [BACKSLASH, CHR ''r''] (replace_char NEWLINE [BACKSLASH, CHR ''n'']
      (replace_char QUOTE [BACKSLASH, QUOTE] (replace_char BACKSLASH [BACKSLASH, BACKSLASH] v)))
    = concat (map escape_char v)"
    by (induction v) (simp_all add: escape_char_def special_chars)
  then show ?thesis by (simp add: langsmith_filter_literal_def Let_def)
qed

lemma read_escaped_char: "read_escaped (escape_char c @ s) = map_option (apfst (Cons c)) (read_escaped s)"
  by (simp add: escape_char_def special_chars)


section \<open>Phases\<close>

lemma delivery_steps_ok: "delivery_step\<^sup>*\<^sup>* db db' \<Longrightarrow> deliveries_ok db \<Longrightarrow> deliveries_ok db'"
  by (rule delivery_lease.sound_kept_all)

text \<open>
  C26. The repository refines the four phases of a delivery: whatever transactions run, in any order
  and by any number of workers, each delivery only moves from absent to waiting or closed, from
  waiting to held under the next fence, and from held back to waiting or to closed.
\<close>

theorem deliveries_refine_phases:
  assumes "delivery_step\<^sup>*\<^sup>* db db'" and "deliveries_ok db"
  shows "phase_step\<^sup>*\<^sup>* (phase_of k db) (phase_of k db')"
  using assms
proof (induction rule: rtranclp_induct)
  case (step db1 db2)
  from delivery_step_refines [OF step(2) delivery_steps_ok [OF step(1, 4)]] step show ?case
    by (meson rtranclp_trans)
qed simp

lemma delivery_steps_evolve:
  assumes "delivery_step\<^sup>*\<^sup>* db db'" and "deliveries_ok db" and "delivery_of k db = Some d"
  shows "\<exists>e. delivery_of k db' = Some e \<and> evolves d e"
  using assms
proof (induction rule: rtranclp_induct)
  case (step db1 db2)
  then obtain e where e: "delivery_of k db1 = Some e" "evolves d e" by blast
  from delivery_of_step [OF step(2) delivery_steps_ok [OF step(1, 4)] e(1)] e(2) show ?case
    by (meson evolves_trans)
qed auto

text \<open>A closed delivery stays as it is.\<close>

theorem closed_delivery_is_kept:
  assumes "delivery_step\<^sup>*\<^sup>* db db'" and "deliveries_ok db" and "delivery_of k db = Some d"
    and "od_status d \<in> {''verified'', ''failed_terminal'', ''not_requested''}"
  shows "delivery_of k db' = Some d"
proof -
  from delivery_steps_evolve [OF assms(1-3)] obtain e where e: "delivery_of k db' = Some e" "evolves d e" by blast
  have "phase d = Closed (od_fence_token d)" using assms(4) by auto
  with e show ?thesis by (simp add: evolves_def)
qed

section \<open>Leases\<close>

lemma delivery_fence_row: "delivery_of k db = Some d \<Longrightarrow> delivery_fence k db = od_fence_token d"
  by (simp add: delivery_fence_def phase_of_def phase_def)

lemma lease_due_row:
  assumes "lease_due held busy worker now seconds limit db = Inr (ds, db')" and "deliveries_ok db" and "l \<in> set ds"
  shows "delivery_of (od_id l) db' = Some l \<and> od_fence_token l = delivery_fence (od_id l) db + 1
     \<and> counted l \<and> 1 \<le> od_fence_token l \<and> phase l = Held (od_fence_token l)"
proof -
  from lease_due_Inr [OF assms(1)] obtain owner recovered due where
    rec: "recovered = snd (recover_deliveries held now db)"
    and due: "due = due_deliveries busy (nat limit) now (dd_deliveries recovered)"
    and ds: "ds = map (lease_delivery owner (now + seconds * SECOND)) due"
    and db': "db' = recovered\<lparr>dd_deliveries := update_where (\<lambda>d. od_id d \<in> od_id ` set due)
          (lease_delivery owner (now + seconds * SECOND)) (dd_deliveries recovered)\<rparr>" by blast
  have step: "delivery_step db recovered" unfolding rec by (rule recovering)
  then have ok: "deliveries_ok recovered" by (rule deliveries_ok_step [OF _ assms(2)])
  have ok': "deliveries_ok db'" by (rule deliveries_ok_step [OF leasing [OF assms(1)] assms(2)])
  from assms(3) ds obtain d where d: "d \<in> set due" "l = lease_delivery owner (now + seconds * SECOND) d" by auto
  with due_open due have row: "d \<in> set (dd_deliveries recovered)" by blast
  then have l: "l \<in> set (dd_deliveries db')"
    using d unfolding db' by (auto simp: set_update_where)
  have id: "od_id l = od_id d" unfolding d(2) by (simp add: lease_delivery_def)
  from recover_evolves [of held now db] rec obtain g where g: "dd_deliveries recovered = map g (dd_deliveries db)"
    "\<And>d. d \<in> set (dd_deliveries db) \<Longrightarrow> evolves d (g d)" by auto
  with row obtain e where e: "e \<in> set (dd_deliveries db)" "d = g e" by auto
  have "od_fence_token d = od_fence_token e"
  proof -
    have "d = e \<or> d = recover_delivery now e"
    proof -
      have "dd_deliveries recovered = map (\<lambda>d. if lease_expired held now d then recover_delivery now d else d) (dd_deliveries db)"
        unfolding rec by (simp add: recover_deliveries_def update_where_def)
      with g(1) e have "d = (if lease_expired held now e then recover_delivery now e else e)" by (simp add: map_eq_conv)
      then show ?thesis by (simp split: if_splits)
    qed
    then show ?thesis by auto
  qed
  moreover have "od_id d = od_id e" using g(2) [OF e(1)] e(2) by (simp add: evolves_id)
  moreover have "delivery_of (od_id e) db = Some e" by (rule delivery_of_row [OF assms(2) e(1)])
  ultimately have fence: "od_fence_token l = delivery_fence (od_id l) db + 1"
    using id d(2) by (simp add: delivery_fence_row)
  have valid: "counted l" "valid_delivery d" using ok ok' l row by (simp_all add: deliveries_ok_def)
  have "1 \<le> od_fence_token l" using valid(2) d(2) by (simp add: valid_delivery_def delivery_check_def)
  moreover have "phase l = Held (od_fence_token l)" unfolding d(2) by (simp add: phase_active)
  ultimately show ?thesis using fence valid(1) delivery_of_row [OF ok' l] by blast
qed

lemma claim_next_Inr:
  assumes "claim_delivery held busy wk now db = Inr (Some l, db')"
  shows "\<exists>ds. lease_due held busy (ow_worker_id wk) now (ow_lease_seconds wk) 1 db = Inr (ds, db') \<and> l \<in> set ds"
proof -
  from assms obtain ds where "lease_due held busy (ow_worker_id wk) now (ow_lease_seconds wk) 1 db = Inr (ds, db')"
    "(case ds of [] \<Rightarrow> None | l # _ \<Rightarrow> Some l) = Some l" by (auto simp: claim_delivery_def rbind_Inr_iff)
  then show ?thesis by (cases ds) auto
qed

lemma claim_next_step: "claim_delivery held busy wk now db = Inr (x, db') \<Longrightarrow> delivery_step db db'"
  by (auto simp: claim_delivery_def rbind_Inr_iff intro: leasing)

lemma store_mark_step: "store_mark l m now db = Inr (ok, db') \<Longrightarrow> delivery_step db db'"
  by (cases m) (simp_all add: verifying retrying terminating)

lemma store_mark_transition:
  assumes "store_mark l m now db = Inr (ok, db')"
  shows "\<exists>change. fenced_transition None (od_id l) (the (od_lease_owner l)) (od_fence_token l) change db = Inr (ok, db')"
proof (cases m)
  case (Mark_verified receipt)
  with assms show ?thesis by (auto simp: mark_verified_def rbind_Inr_iff)
next
  case (Mark_retryable at' code error_type)
  with assms show ?thesis by (auto simp: mark_retryable_def rbind_Inr_iff)
next
  case (Mark_terminal code error_type)
  with assms show ?thesis by (auto simp: mark_terminal_def rbind_Inr_iff)
qed

lemma not_leased_not_fenced:
  assumes "\<not> delivery_leased k f db" and "deliveries_ok db" and "d \<in> set (dd_deliveries db)"
  shows "\<not> fenced_row dir actor k owner f d"
proof
  assume "fenced_row dir actor k owner f d"
  then have "od_id d = k" "phase d = Held f" by (auto simp: fenced_row_def phase_active)
  with delivery_of_row [OF assms(2, 3)] assms(1) show False by (simp add: delivery_leased_def phase_of_def)
qed

lemma update_where_none: "(\<And>r. r \<in> set rows \<Longrightarrow> \<not> p r) \<Longrightarrow> update_where p f rows = rows"
  by (simp add: update_where_def map_idI)

lemma execute_without_lease:
  assumes "execute_verification wk verifiers l e started ended db = Inr (ok, db')" and "deliveries_ok db"
    and "\<not> delivery_leased (od_id l) (od_fence_token l) db"
  shows "\<not> ok \<and> db' = db"
proof -
  from assms(1) obtain m now where "store_mark l m now db = Inr (ok, db')"
    by (auto simp: execute_verification_def split: prod.splits)
  from store_mark_transition [OF this] fenced_transition_Inr obtain owner change where
    "ok = (length (filter (fenced_row (dd_directory db) None (od_id l) owner (od_fence_token l)) (dd_deliveries db)) = 1)"
    "db' = db\<lparr>dd_deliveries := update_where (fenced_row (dd_directory db) None (od_id l) owner (od_fence_token l)) change
       (dd_deliveries db)\<rparr>" by metis
  with not_leased_not_fenced [OF assms(3, 2)] show ?thesis by (simp add: update_where_none)
qed

text \<open>A worker whose lease was taken over changes nothing any more.\<close>

theorem superseded_verification_is_ignored:
  assumes "deliveries_ok db" and "claim_delivery h1 b1 wk t1 db = Inr (Some l, db1)"
    and "delivery_step\<^sup>*\<^sup>* db1 db2" and "claim_delivery h2 b2 wk' t2 db2 = Inr (Some l', db3)" and "od_id l' = od_id l"
    and "delivery_step\<^sup>*\<^sup>* db3 db4" and "execute_verification wk verifiers l e started ended db4 = Inr (ok, db5)"
  shows "\<not> ok \<and> db5 = db4"
proof -
  have ok1: "deliveries_ok db1" using claim_next_step [OF assms(2)] assms(1) by (rule deliveries_ok_step)
  have ok2: "deliveries_ok db2" by (rule delivery_steps_ok [OF assms(3) ok1])
  have ok3: "deliveries_ok db3" using claim_next_step [OF assms(4)] ok2 by (rule deliveries_ok_step)
  have ok4: "deliveries_ok db4" by (rule delivery_steps_ok [OF assms(6) ok3])
  have "od_fence_token l = delivery_fence (od_id l) db1"
    using claim_next_Inr [OF assms(2)] lease_due_row [OF _ assms(1)] by (metis delivery_fence_row)
  also have "\<dots> \<le> delivery_fence (od_id l) db2" by (rule delivery_lease.fence_grows_all [OF assms(3) ok1])
  also have "\<dots> < delivery_fence (od_id l) db3"
    using claim_next_Inr [OF assms(4)] lease_due_row [OF _ ok2] assms(5) by (metis delivery_fence_row less_add_one)
  finally have "\<not> delivery_leased (od_id l) (od_fence_token l) db4"
    by (rule delivery_lease.superseded [OF assms(6) ok3])
  from execute_without_lease [OF assms(7) ok4 this] show ?thesis .
qed

section \<open>How often a verifier is asked\<close>

text \<open>
  Workers that share a limit of attempts: the database, the leases they have claimed and not yet
  worked off, and the requests they have sent, as the delivery and the attempt.
\<close>

record hosted_state =
  hs_db :: delivery_db
  hs_leases :: "delivery list"
  hs_asked :: "(uuid \<times> int) list"

inductive hosted_step :: "int \<Rightarrow> hosted_state \<Rightarrow> hosted_state \<Rightarrow> bool" for limit where
  others: "delivery_step (hs_db s) db' \<Longrightarrow> hosted_step limit s (s\<lparr>hs_db := db'\<rparr>)"
| claims: "ow_max_attempts wk = limit \<Longrightarrow> claim_delivery held busy wk now (hs_db s) = Inr (Some l, db')
    \<Longrightarrow> hosted_step limit s (s\<lparr>hs_db := db', hs_leases := l # hs_leases s\<rparr>)"
| works: "ow_max_attempts wk = limit \<Longrightarrow> l \<in> set (hs_leases s)
    \<Longrightarrow> execute_verification wk verifiers l e started ended (hs_db s) = Inr (ok, db')
    \<Longrightarrow> hosted_step limit s (s\<lparr>hs_db := db', hs_leases := remove1 l (hs_leases s),
          hs_asked := (if asks_verifier wk verifiers l started then [(od_id l, od_attempt_count l)] else []) @ hs_asked s\<rparr>)"
| fails: "ow_max_attempts wk = limit \<Longrightarrow> l \<in> set (hs_leases s)
    \<Longrightarrow> execute_verification wk verifiers l e started ended (hs_db s) = Inl err
    \<Longrightarrow> hosted_step limit s (s\<lparr>hs_leases := remove1 l (hs_leases s),
          hs_asked := (if asks_verifier wk verifiers l started then [(od_id l, od_attempt_count l)] else []) @ hs_asked s\<rparr>)"

definition lease_names :: "hosted_state \<Rightarrow> (uuid \<times> int) list" where
  "lease_names s = map (\<lambda>l. (od_id l, od_attempt_count l)) (hs_leases s) @ hs_asked s"

definition hosted_ok :: "int \<Rightarrow> hosted_state \<Rightarrow> bool" where
  "hosted_ok limit s \<longleftrightarrow> deliveries_ok (hs_db s) \<and> distinct (lease_names s)
     \<and> (\<forall>(k, n) \<in> set (lease_names s). 1 \<le> n \<and> n \<le> delivery_fence k (hs_db s))
     \<and> (\<forall>(k, n) \<in> set (hs_asked s). n < limit)"

lemma asks_within_limit: "asks_verifier wk verifiers l now \<Longrightarrow> od_attempt_count l < ow_max_attempts wk"
  by (auto simp: asks_verifier_def early_mark_def budget_error_def split: option.splits if_splits)

lemma hosted_names_grow:
  assumes "hosted_ok limit s" and "delivery_step (hs_db s) db'" and "(k, n) \<in> set (lease_names s)"
  shows "1 \<le> n \<and> n \<le> delivery_fence k db'"
proof -
  have "delivery_fence k (hs_db s) \<le> delivery_fence k db'"
    using delivery_lease.fence_grows [OF assms(2)] assms(1) by (simp add: hosted_ok_def)
  moreover have "1 \<le> n \<and> n \<le> delivery_fence k (hs_db s)" using assms(1, 3) by (auto simp: hosted_ok_def)
  ultimately show ?thesis by simp
qed

lemma map_remove1_split:
  assumes "l \<in> set ls"
  shows "\<exists>xs ys. map f ls = xs @ f l # ys \<and> map f (remove1 l ls) = xs @ ys"
proof -
  from remove1_split [OF assms, of "remove1 l ls"] obtain us vs where "ls = us @ l # vs" "remove1 l ls = us @ vs"
    by blast
  then show ?thesis by (intro exI [of _ "map f us"] exI [of _ "map f vs"]) simp
qed

lemma names_after_work:
  assumes "l \<in> set (hs_leases s)" and "distinct (lease_names s)"
    and "t = s\<lparr>hs_db := db', hs_leases := remove1 l (hs_leases s),
          hs_asked := (if b then [(od_id l, od_attempt_count l)] else []) @ hs_asked s\<rparr>"
  shows "distinct (lease_names t) \<and> set (lease_names t) \<subseteq> set (lease_names s)"
proof -
  from map_remove1_split [OF assms(1)] obtain xs ys where
    "map (\<lambda>l. (od_id l, od_attempt_count l)) (hs_leases s) = xs @ (od_id l, od_attempt_count l) # ys"
    "map (\<lambda>l. (od_id l, od_attempt_count l)) (remove1 l (hs_leases s)) = xs @ ys" by blast
  with assms(2, 3) show ?thesis by (auto simp: lease_names_def)
qed

lemma hosted_ok_work:
  assumes ok: "hosted_ok limit s" and l: "l \<in> set (hs_leases s)" and wk: "ow_max_attempts wk = limit"
    and db: "db' = hs_db s \<or> delivery_step (hs_db s) db'"
    and t: "t = s\<lparr>hs_db := db', hs_leases := remove1 l (hs_leases s),
          hs_asked := (if asks_verifier wk verifiers l started then [(od_id l, od_attempt_count l)] else []) @ hs_asked s\<rparr>"
  shows "hosted_ok limit t"
proof -
  have names: "distinct (lease_names t)" "set (lease_names t) \<subseteq> set (lease_names s)"
    using names_after_work [OF l _ t] ok by (auto simp: hosted_ok_def)
  have "deliveries_ok (hs_db t)"
    using db ok deliveries_ok_step unfolding t hosted_ok_def by auto
  moreover have "1 \<le> n \<and> n \<le> delivery_fence k (hs_db t)" if "(k, n) \<in> set (lease_names t)" for k n
  proof -
    have n: "(k, n) \<in> set (lease_names s)" using that names(2) by blast
    from db show ?thesis
    proof
      assume "db' = hs_db s"
      with n ok show ?thesis by (auto simp: hosted_ok_def t)
    next
      assume "delivery_step (hs_db s) db'"
      from hosted_names_grow [OF ok this n] show ?thesis by (simp add: t)
    qed
  qed
  moreover have "n < limit" if "(k, n) \<in> set (hs_asked t)" for k n
    using that ok asks_within_limit [of wk verifiers l started] wk
    by (auto simp: t hosted_ok_def split: if_splits)
  ultimately show ?thesis using names(1) by (auto simp: hosted_ok_def)
qed

lemma hosted_ok_step: "hosted_step limit s t \<Longrightarrow> hosted_ok limit s \<Longrightarrow> hosted_ok limit t"
proof (induction rule: hosted_step.induct)
  case (others s db')
  then have "deliveries_ok db'" by (auto simp: hosted_ok_def intro: deliveries_ok_step)
  with others hosted_names_grow [OF others(2, 1)] show ?case by (auto simp: hosted_ok_def lease_names_def)
next
  case (claims wk held busy now s l db')
  let ?t = "s\<lparr>hs_db := db', hs_leases := l # hs_leases s\<rparr>"
  have step: "delivery_step (hs_db s) db'" by (rule claim_next_step [OF claims(2)])
  have ok: "deliveries_ok (hs_db s)" using claims(3) by (simp add: hosted_ok_def)
  from claim_next_Inr [OF claims(2)] lease_due_row [OF _ ok] have l: "delivery_of (od_id l) db' = Some l"
    "od_fence_token l = delivery_fence (od_id l) (hs_db s) + 1" "counted l" "1 \<le> od_fence_token l" by blast+
  have names: "lease_names ?t = (od_id l, od_attempt_count l) # lease_names s" by (simp add: lease_names_def)
  have "(od_id l, od_attempt_count l) \<notin> set (lease_names s)"
    using claims(3) l(2, 3) by (fastforce simp: hosted_ok_def counted_def)
  moreover have "od_attempt_count l = delivery_fence (od_id l) db'" using l(1, 3) by (simp add: delivery_fence_row counted_def)
  moreover have "1 \<le> od_attempt_count l" using l(3, 4) by (simp add: counted_def)
  moreover note hosted_names_grow [OF claims(3) step] deliveries_ok_step [OF step ok]
  ultimately show ?case
    using claims(3) unfolding hosted_ok_def names by auto
next
  case (works wk l s verifiers e started ended ok db')
  from works(3) have "delivery_step (hs_db s) db'"
    by (auto simp: execute_verification_def intro: store_mark_step split: prod.splits)
  with works show ?case by (intro hosted_ok_work [OF works(4, 2, 1) _ refl]) simp
next
  case (fails wk l s verifiers e started ended err)
  then show ?case by (intro hosted_ok_work [OF fails(4, 2, 1), where db' = "hs_db s"]) simp_all
qed

text \<open>
  C27. However workers with a limit of \<open>n\<close> attempts interleave with each other and with all other
  transactions, a provider is asked about a delivery at most \<open>n - 1\<close> times. With a limit of one
  attempt it is never asked.
\<close>

theorem verification_requests_bounded:
  assumes "(hosted_step limit)\<^sup>*\<^sup>* \<lparr>hs_db = db, hs_leases = [], hs_asked = []\<rparr> s" and "deliveries_ok db" and "1 \<le> limit"
  shows "int (length (filter (\<lambda>(i, n). i = k) (hs_asked s))) \<le> limit - 1"
proof -
  from assms(1) have ok: "hosted_ok limit s"
  proof (induction rule: rtranclp_induct)
    case base
    with assms(2) show ?case by (simp add: hosted_ok_def lease_names_def)
  qed (rule hosted_ok_step)
  let ?asked = "filter (\<lambda>(i, n). i = k) (hs_asked s)"
  have "distinct (hs_asked s)" using ok by (auto simp: hosted_ok_def lease_names_def)
  then have "distinct ?asked" by simp
  then have "length ?asked = card (set ?asked)" by (rule distinct_card [symmetric])
  also have "\<dots> \<le> card (Pair k ` {1..<limit})"
  proof (intro card_mono subsetI)
    fix x assume "x \<in> set ?asked"
    then obtain n where n: "x = (k, n)" "(k, n) \<in> set (hs_asked s)" by auto
    with ok have "1 \<le> n \<and> n < limit" by (auto simp: hosted_ok_def lease_names_def)
    with n(1) show "x \<in> Pair k ` {1..<limit}" by simp
  qed simp
  also have "\<dots> \<le> card {1..<limit}" by (rule card_image_le) simp
  finally show ?thesis using assms(3) by simp
qed

section \<open>What verified means\<close>

lemma fenced_transition_row:
  assumes "fenced_transition actor k worker f change db = Inr (True, db')" and "deliveries_ok db"
    and "\<And>d. od_id (change d) = od_id d"
  shows "\<exists>d. delivery_of k db = Some d \<and> phase d = Held f \<and> delivery_of k db' = Some (change d)"
proof -
  from fenced_transition_Inr [OF assms(1)] obtain owner where
    one: "length (filter (fenced_row (dd_directory db) actor k owner f) (dd_deliveries db)) = 1"
    and db': "db' = db\<lparr>dd_deliveries := update_where (fenced_row (dd_directory db) actor k owner f) change (dd_deliveries db)\<rparr>"
    by auto
  then obtain d where "d \<in> set (filter (fenced_row (dd_directory db) actor k owner f) (dd_deliveries db))"
    by (cases "filter (fenced_row (dd_directory db) actor k owner f) (dd_deliveries db)") auto
  then have row: "d \<in> set (dd_deliveries db)" and hit: "fenced_row (dd_directory db) actor k owner f d" by auto
  then have d: "delivery_of k db = Some d" "phase d = Held f"
    using delivery_of_row [OF assms(2) row] by (auto simp: fenced_row_def phase_active)
  have "delivery_of k db' = map_option (\<lambda>r. if fenced_row (dd_directory db) actor k owner f r then change r else r) (delivery_of k db)"
    unfolding delivery_of_def db' update_where_def by (simp add: find_map_id assms(3))
  with d hit show ?thesis by simp
qed

lemma exception_is_no_proof:
  "classify_exception provider heap i = (outcome, code, error_type) \<Longrightarrow> outcome \<noteq> Verified"
  by (auto simp: classify_exception_def Let_def classify_langsmith_def classify_langfuse_def
      classify_status_code_def split: if_splits option.splits)

lemma classified_not_verified: "vr_outcome (classified_result q heap i t) \<noteq> Verified"
  using exception_is_no_proof [of "vq_provider q" heap i]
  by (auto simp: classified_result_def result_for_def split: prod.split)

definition trace_visible :: "trace_adapter \<Rightarrow> verification_request \<Rightarrow> string \<Rightarrow> bool" where
  "trace_visible ad q receipt = (case vq_provider_trace_id q of
     Some t \<Rightarrow> t = receipt
       \<and> (if vq_provider q = ''langsmith'' then ta_read_run ad t else ta_fetch ad t) = Returned ()
   | None \<Rightarrow> vq_provider q = ''langsmith''
       \<and> (case project_name q of None \<Rightarrow> False | Some name \<Rightarrow>
           (case ta_list_root_runs ad name (langsmith_identity_filter q) of
              Returned [r] \<Rightarrow> run_matches_identity r q \<and> hr_id r = Some receipt | _ \<Rightarrow> False)))"

lemma verify_langsmith_verified:
  assumes "vr_outcome (verify_langsmith ad q) = Verified" and "vr_provider_trace_id (verify_langsmith ad q) = Some receipt"
    and "vq_provider q = ''langsmith''"
  shows "trace_visible ad q receipt"
  using assms
  by (auto simp: verify_langsmith_def trace_visible_def classified_not_verified result_for_def
      split: option.splits answer.splits list.splits if_splits)

lemma verify_langfuse_verified:
  assumes "vr_outcome (verify_langfuse ad q) = Verified" and "vr_provider_trace_id (verify_langfuse ad q) = Some receipt"
    and "vq_provider q \<noteq> ''langsmith''" and "vq_provider_trace_id q \<noteq> None"
  shows "trace_visible ad q receipt"
  using assms
  by (auto simp: verify_langfuse_def trace_visible_def classified_not_verified result_for_def Let_def
      split: option.splits answer.splits)

lemma verify_verified:
  assumes "vr_outcome (verify ad q) = Verified" and "vr_provider_trace_id (verify ad q) = Some receipt"
    and "valid_verification_request q"
  shows "trace_visible ad q receipt \<and> ta_provider ad = vq_provider q"
proof -
  have "vq_provider q = ta_provider ad" using assms(1) by (simp add: verify_def result_for_def split: if_splits)
  moreover have "vq_provider q \<noteq> ''langsmith'' \<Longrightarrow> vq_provider_trace_id q \<noteq> None"
    using assms(3) by (auto simp: valid_verification_request_def split: option.splits)
  ultimately show ?thesis
    using assms(1, 2) verify_langsmith_verified [of ad q receipt] verify_langfuse_verified [of ad q receipt]
    by (cases "vq_provider q = ''langsmith''") (simp_all add: verify_def)
qed

lemma finish_mark_verified:
  "finish_mark wk l r now = Mark_verified receipt \<Longrightarrow> vr_outcome r = Verified \<and> vr_provider_trace_id r = Some receipt"
  by (auto simp: finish_mark_def retry_mark_def no_text_def split: verification_outcome.splits if_splits option.splits)

lemma store_mark_status:
  assumes "store_mark l m now db = Inr (True, db')" and "deliveries_ok db"
  shows "\<exists>d. delivery_of (od_id l) db' = Some d \<and> (case m of
       Mark_verified receipt \<Rightarrow> od_status d = ''verified'' \<and> od_provider_trace_id d = Some (strip receipt) \<and> od_verified_at d = Some now
     | Mark_retryable t _ _ \<Rightarrow> od_status d = ''failed_retryable'' \<and> od_next_attempt_at d = Some t
     | Mark_terminal _ _ \<Rightarrow> od_status d = ''failed_terminal'')"
proof (cases m)
  case (Mark_verified receipt)
  with assms(1) have "fenced_transition None (od_id l) (the (od_lease_owner l)) (od_fence_token l)
      (verified_delivery (strip receipt) now) db = Inr (True, db')"
    by (auto simp: mark_verified_def rbind_Inr_iff validate_text_def Let_def split: if_splits)
  from fenced_transition_row [OF this assms(2)] Mark_verified show ?thesis
    by (auto simp: verified_delivery_def)
next
  case (Mark_retryable t code error_type)
  with assms(1) obtain c where "fenced_transition None (od_id l) (the (od_lease_owner l)) (od_fence_token l)
      (failed_delivery ''failed_retryable'' ''scheduled'' c (Some t) (hosted_failure code error_type) now) db = Inr (True, db')"
    by (auto simp: mark_retryable_def rbind_Inr_iff)
  from fenced_transition_row [OF this assms(2)] Mark_retryable show ?thesis
    by (auto simp: failed_delivery_def)
next
  case (Mark_terminal code error_type)
  with assms(1) obtain c where "fenced_transition None (od_id l) (the (od_lease_owner l)) (od_fence_token l)
      (\<lambda>d. failed_delivery ''failed_terminal'' ''exhausted'' c None (hosted_failure code error_type) now d\<lparr>od_terminal_at := Some now\<rparr>) db
      = Inr (True, db')"
    by (auto simp: mark_terminal_def rbind_Inr_iff)
  from fenced_transition_row [OF this assms(2)] Mark_terminal show ?thesis
    by (auto simp: failed_delivery_def)
qed

text \<open>
  C32. A delivery becomes verified only when the provider showed its trace: the trace known before
  could be read, or the project holds exactly one root run found by the filter and its metadata
  name this run and this correlation. The identifier that was seen is what is recorded.
\<close>

theorem verified_delivery_was_visible:
  assumes "deliveries_ok db"
    and "execute_verification wk verifiers l (Answered (verify ad (request_of_lease wk l))) started ended db = Inr (True, db')"
    and "delivery_of (od_id l) db' = Some d" and "od_status d = ''verified''"
  shows "\<exists>receipt. trace_visible ad (request_of_lease wk l) receipt \<and> ta_provider ad = od_provider l
     \<and> od_provider_trace_id d = Some (strip receipt) \<and> od_verified_at d = Some ended"
proof -
  let ?q = "request_of_lease wk l"
  from assms(2) obtain m now where m: "execute_mark wk verifiers l (Answered (verify ad ?q)) started ended = (m, now)"
    "store_mark l m now db = Inr (True, db')" by (auto simp: execute_verification_def split: prod.splits)
  from store_mark_status [OF m(2) assms(1)] assms(3, 4) obtain receipt where
    receipt: "m = Mark_verified receipt" "od_provider_trace_id d = Some (strip receipt)" "od_verified_at d = Some now"
    by (auto split: mark.splits)
  then have late: "now = ended" "valid_verification_request ?q" "finish_mark wk l (verify ad ?q) ended = Mark_verified receipt"
    using m(1) by (auto simp: execute_mark_def early_mark_def late_mark_def split: option.splits if_splits)
  from verify_verified [OF _ _ late(2)] finish_mark_verified [OF late(3)]
  have "trace_visible ad ?q receipt \<and> ta_provider ad = vq_provider ?q" by blast
  with receipt late(1) show ?thesis by (auto simp: request_of_lease_def)
qed

section \<open>Intents are written once\<close>

definition renew :: "instant \<Rightarrow> uuid \<Rightarrow> delivery \<Rightarrow> delivery" where
  "renew now k row = row\<lparr>od_id := k, od_created_at := now,
     od_verified_at := (if od_status row = ''verified'' then Some now else None)\<rparr>"

lemma intent_row_renew: "intent_row sc now' k' i = rbind (intent_row sc now k i) (\<lambda>row. Inr (renew now' k' row))"
  by (simp add: intent_row_def rbind_rbind rbind_ensure Let_def renew_def)

lemma intent_row_self: "intent_row sc now k i = Inr row \<Longrightarrow> renew now k row = row"
  using intent_row_renew [of sc now k i now k] by simp

lemma intent_row_again:
  assumes "intent_row sc now k i = Inr row"
  shows "\<exists>row'. intent_row sc now' k' i = Inr row' \<and> delivery_logical_key row' = delivery_logical_key row
     \<and> event_key row' = event_key row \<and> valid_delivery row' = valid_delivery row"
proof -
  have "valid_delivery (renew now' k' row) = valid_delivery (renew now k row)"
    by (simp add: validity renew_def)
  with assms intent_row_self [OF assms] intent_row_renew [of sc now' k' i now k] show ?thesis
    by (simp add: renew_def delivery_logical_key_def event_key_def)
qed

lemma intent_row_scope:
  "intent_row sc now k i = Inr row \<Longrightarrow> in_delivery_scope sc row \<and> od_id row = k"
  by (auto simp: intent_row_def rbind_Inr_iff Let_def in_delivery_scope_def)

lemma intent_rows_again:
  assumes "intent_rows sc now fresh n seen intents = Inr rows"
  shows "\<exists>rows'. intent_rows sc now' fresh' n' seen intents = Inr rows'
     \<and> map delivery_logical_key rows' = map delivery_logical_key rows \<and> map event_key rows' = map event_key rows
     \<and> map valid_delivery rows' = map valid_delivery rows"
  using assms
proof (induction intents arbitrary: n n' seen rows)
  case (Cons i intents)
  from Cons.prems obtain row rest where row: "intent_row sc now (fresh n) i = Inr row"
    "delivery_logical_key row \<notin> set seen" "intent_rows sc now fresh (Suc n) (delivery_logical_key row # seen) intents = Inr rest"
    "rows = row # rest" by (auto simp: rbind_Inr_iff)
  from intent_row_again [OF row(1)] obtain row' where row': "intent_row sc now' (fresh' n') i = Inr row'"
    "delivery_logical_key row' = delivery_logical_key row" "event_key row' = event_key row"
    "valid_delivery row' = valid_delivery row" by blast
  from Cons.IH [OF row(3), of "Suc n'"] obtain rest' where
    "intent_rows sc now' fresh' (Suc n') (delivery_logical_key row # seen) intents = Inr rest'"
    "map delivery_logical_key rest' = map delivery_logical_key rest" "map event_key rest' = map event_key rest"
    "map valid_delivery rest' = map valid_delivery rest" by blast
  with row row' show ?case by simp
qed simp

lemma insert_present:
  "(\<And>r. r \<in> set rows \<Longrightarrow> valid_delivery r \<and> delivery_logical_key r \<in> delivery_logical_key ` set table)
    \<Longrightarrow> insert_deliveries rows table = Inr table"
  by (induction rows) auto

text \<open>The rows asked for stay the rows asked for: no later row takes their logical keys.\<close>

lemma requested_step:
  assumes "delivery_step db db'" and "deliveries_ok db"
    and "\<And>r. r \<in> set rows \<Longrightarrow> in_delivery_scope sc r \<and> delivery_logical_key r \<in> delivery_logical_key ` set (dd_deliveries db)"
  shows "map od_id (requested_deliveries sc rows (dd_deliveries db')) = map od_id (requested_deliveries sc rows (dd_deliveries db))
     \<and> delivery_logical_key ` set (dd_deliveries db) \<subseteq> delivery_logical_key ` set (dd_deliveries db')"
proof -
  from delivery_step_evolves [OF assms(1, 2)] obtain g news where rows': "dd_deliveries db' = map g (dd_deliveries db) @ news"
    and g: "\<And>d. d \<in> set (dd_deliveries db) \<Longrightarrow> evolves d (g d)" and adds: "adds_to (dd_deliveries db) news"
    unfolding rows_evolve_def by blast
  let ?asked = "\<lambda>d. in_delivery_scope sc d \<and> event_key d \<in> event_key ` set rows"
  have none: "\<not> ?asked e" if "e \<in> set news" for e
  proof
    assume "?asked e"
    then obtain r where r: "r \<in> set rows" "event_key e = event_key r" "in_delivery_scope sc e" by auto
    with assms(3) [OF r(1)] have "delivery_logical_key e = delivery_logical_key r"
      by (simp add: delivery_logical_key_def event_key_def in_delivery_scope_def)
    with assms(3) [OF r(1)] adds that show False unfolding adds_to_def by metis
  qed
  have keep: "?asked (g d) = ?asked d \<and> event_key (g d) = event_key d \<and> od_id (g d) = od_id d"
    if "d \<in> set (dd_deliveries db)" for d
    using g [OF that] by (simp add: evolves_def same_delivery_def delivery_logical_key_def event_key_def in_delivery_scope_def)
  let ?old = "filter ?asked (dd_deliveries db)"
  have "filter ?asked (dd_deliveries db') = map g (filter (\<lambda>d. ?asked (g d)) (dd_deliveries db))"
    unfolding rows' using none by (simp add: filter_map comp_def)
  also have "filter (\<lambda>d. ?asked (g d)) (dd_deliveries db) = ?old"
    by (rule filter_cong [OF refl]) (use keep in blast)
  finally have "sort_key event_key (filter ?asked (dd_deliveries db')) = map g (sort_key (\<lambda>d. event_key (g d)) ?old)"
    by (simp add: sort_key_map)
  also have "sort_key (\<lambda>d. event_key (g d)) ?old = sort_key event_key ?old"
    by (rule sort_key_agree) (use keep in auto)
  finally have "map od_id (requested_deliveries sc rows (dd_deliveries db')) = map (od_id \<circ> g) (requested_deliveries sc rows (dd_deliveries db))"
    by (simp add: requested_deliveries_def)
  also have "\<dots> = map od_id (requested_deliveries sc rows (dd_deliveries db))"
    by (rule map_cong [OF refl]) (use keep in \<open>auto simp: requested_deliveries_def\<close>)
  finally have ids: "map od_id (requested_deliveries sc rows (dd_deliveries db')) = map od_id (requested_deliveries sc rows (dd_deliveries db))" .
  have "delivery_logical_key d \<in> delivery_logical_key ` set (dd_deliveries db')" if "d \<in> set (dd_deliveries db)" for d
    using evolves_key [OF g [OF that]] that unfolding rows' by (metis imageI image_set in_set_conv_decomp list.set_map set_append UnI1)
  with ids show ?thesis by blast
qed

lemma requested_steps:
  assumes "delivery_step\<^sup>*\<^sup>* db db'" and "deliveries_ok db"
    and "\<And>r. r \<in> set rows \<Longrightarrow> in_delivery_scope sc r \<and> delivery_logical_key r \<in> delivery_logical_key ` set (dd_deliveries db)"
  shows "map od_id (requested_deliveries sc rows (dd_deliveries db')) = map od_id (requested_deliveries sc rows (dd_deliveries db))
     \<and> delivery_logical_key ` set (dd_deliveries db) \<subseteq> delivery_logical_key ` set (dd_deliveries db')"
  using assms(1)
proof (induction rule: rtranclp_induct)
  case (step db1 db2)
  then have kept: "delivery_logical_key ` set (dd_deliveries db) \<subseteq> delivery_logical_key ` set (dd_deliveries db1)" by blast
  have present: "in_delivery_scope sc r \<and> delivery_logical_key r \<in> delivery_logical_key ` set (dd_deliveries db1)"
    if "r \<in> set rows" for r using assms(3) [OF that] kept by blast
  note later = requested_step [OF step(2) delivery_steps_ok [OF step(1) assms(2)] present]
  show ?case
  proof
    show "map od_id (requested_deliveries sc rows (dd_deliveries db2)) = map od_id (requested_deliveries sc rows (dd_deliveries db))"
      using later step.IH by presburger
    show "delivery_logical_key ` set (dd_deliveries db) \<subseteq> delivery_logical_key ` set (dd_deliveries db2)"
      by (rule order_trans [OF kept]) (use later in blast)
  qed
qed simp

lemma requested_cong: "event_key ` set rows = event_key ` set rows'
    \<Longrightarrow> requested_deliveries sc rows table = requested_deliveries sc rows' table"
  by (simp add: requested_deliveries_def)

lemma intent_rows_scope:
  "intent_rows sc now fresh n seen intents = Inr rows \<Longrightarrow> r \<in> set rows \<Longrightarrow> in_delivery_scope sc r"
proof (induction intents arbitrary: n seen rows)
  case (Cons i intents)
  then obtain row rest where "intent_row sc now (fresh n) i = Inr row" "rows = row # rest"
    "intent_rows sc now fresh (Suc n) (delivery_logical_key row # seen) intents = Inr rest" by (auto simp: rbind_Inr_iff)
  with Cons.IH [of "Suc n" "delivery_logical_key row # seen" rest] Cons.prems(2) intent_row_scope [of sc now "fresh n" i row]
  show ?case by auto
qed simp

text \<open>
  Intents that were written once may be written again at any later time, whatever the workers
  have done in between: the same deliveries are returned and nothing changes.
\<close>

theorem ensured_intents_replay:
  assumes "ensure_intents actor now fresh sc intents db = Inr (ds, db1)" and "deliveries_ok db"
    and "delivery_step\<^sup>*\<^sup>* db1 db2" and "actor = None \<or> scope_has_task db2 actor sc"
  shows "\<exists>ds'. ensure_intents actor now' fresh' sc intents db2 = Inr (ds', db2) \<and> map od_id ds' = map od_id ds"
proof (cases "intents = []")
  case True
  with assms(1) show ?thesis by (simp add: ensure_intents_def)
next
  case False
  with assms(1) obtain rows where rows: "intent_rows sc now fresh 0 [] intents = Inr rows"
    "insert_deliveries rows (dd_deliveries db) = Inr (dd_deliveries db1)"
    and ds: "ds = requested_deliveries sc rows (dd_deliveries db1)" "length ds = length rows"
    by (auto simp: ensure_intents_def rbind_Inr_iff Let_def split: if_splits)
  have ok1: "deliveries_ok db1" by (rule deliveries_ok_step [OF ensuring [OF assms(1)] assms(2)])
  have present: "in_delivery_scope sc r \<and> delivery_logical_key r \<in> delivery_logical_key ` set (dd_deliveries db1)"
    and valid: "valid_delivery r" if "r \<in> set rows" for r
    using insert_deliveries_Inr [OF rows(2)] intent_rows_scope [OF rows(1)] that by auto
  from intent_rows_again [OF rows(1)] obtain rows' where rows': "intent_rows sc now' fresh' 0 [] intents = Inr rows'"
    "map delivery_logical_key rows' = map delivery_logical_key rows" "map event_key rows' = map event_key rows"
    "map valid_delivery rows' = map valid_delivery rows" by blast
  note kept = requested_steps [OF assms(3) ok1 present]
  have images: "delivery_logical_key ` set rows' = delivery_logical_key ` set rows" "event_key ` set rows' = event_key ` set rows"
    "valid_delivery ` set rows' = valid_delivery ` set rows" using rows'(2-4) by (metis image_set)+
  have inserted: "insert_deliveries rows' (dd_deliveries db2) = Inr (dd_deliveries db2)"
  proof (rule insert_present)
    fix r assume "r \<in> set rows'"
    then have "delivery_logical_key r \<in> delivery_logical_key ` set rows" "valid_delivery r \<in> valid_delivery ` set rows"
      unfolding images(1, 3) [symmetric] by simp_all
    moreover have "delivery_logical_key ` set rows \<subseteq> delivery_logical_key ` set (dd_deliveries db2)"
      using present kept by blast
    ultimately show "valid_delivery r \<and> delivery_logical_key r \<in> delivery_logical_key ` set (dd_deliveries db2)"
      using valid by blast
  qed
  let ?ds = "requested_deliveries sc rows (dd_deliveries db2)"
  have asked: "requested_deliveries sc rows' (dd_deliveries db2) = ?ds" by (rule requested_cong [OF images(2)])
  have ids: "map od_id ?ds = map od_id ds" using kept ds(1) by simp
  have "length ?ds = length ds" using arg_cong [OF ids, of length] by simp
  also have "\<dots> = length rows'" using ds(2) arg_cong [OF rows'(2), of length] by simp
  finally have "length ?ds = length rows'" .
  then have "ensure_intents actor now' fresh' sc intents db2 = Inr (?ds, db2)"
    unfolding ensure_intents_def rows'(1) rbind.simps inserted asked Let_def
    using False assms(4) by simp
  with ids show ?thesis by blast
qed

section \<open>Concrete instances\<close>

theorem deliveries_refine_phases_witness:
  "phase_step\<^sup>*\<^sup>* (phase_of ''d1'' sample_deliveries) (phase_of ''d1'' sample_leased)
     \<and> phase_of ''d1'' sample_leased = Held 1"
proof -
  have "delivery_step\<^sup>*\<^sup>* sample_deliveries sample_leased"
    using claim_next_step [OF sample_claim] by (rule r_into_rtranclp)
  from deliveries_refine_phases [OF this sample_deliveries_ok] show ?thesis
    by (rule conjI) code_simp
qed

theorem closed_delivery_is_kept_witness:
  "\<exists>d. delivery_of ''d2'' sample_deliveries = Some d \<and> od_status d = ''not_requested''
     \<and> delivery_of ''d2'' sample_leased = Some d"
proof -
  have d: "delivery_of ''d2'' sample_deliveries = Some sample_skipped" "od_status sample_skipped = ''not_requested''"
    by (simp_all add: delivery_of_def sample_deliveries_def sample_skipped_def)
  have "delivery_step\<^sup>*\<^sup>* sample_deliveries sample_leased"
    using claim_next_step [OF sample_claim] by (rule r_into_rtranclp)
  from closed_delivery_is_kept [OF this sample_deliveries_ok d(1)] d show ?thesis by simp
qed

theorem superseded_verification_is_ignored_witness:
  "\<exists>ok db. execute_verification (sample_hosted_worker 3) (\<lambda>_. True) (sample_lease 1 0) Unexpected_error 2 3 sample_leased_again
     = Inr (ok, db) \<and> \<not> ok \<and> db = sample_leased_again"
proof -
  obtain l where again: "claim_delivery (\<lambda>_. False) (\<lambda>_. False) (sample_hosted_worker 3) (31 * SECOND) sample_leased
      = Inr (Some l, sample_leased_again)" "od_id l = ''d1''" using sample_claim_again by blast
  have id: "od_id l = od_id (sample_lease 1 0)" by (simp add: again(2) sample_lease_def sample_delivery_def)
  obtain ok db where run: "execute_verification (sample_hosted_worker 3) (\<lambda>_. True) (sample_lease 1 0) Unexpected_error 2 3 sample_leased_again
      = Inr (ok, db)" using sample_late by (auto simp: is_ok_def split: sum.splits)
  from superseded_verification_is_ignored [OF sample_deliveries_ok sample_claim [of 3] rtranclp.rtrancl_refl again(1) id
      rtranclp.rtrancl_refl run] run show ?thesis by blast
qed

lemma sample_hosted_run:
  "\<exists>s. (hosted_step 3)\<^sup>*\<^sup>* \<lparr>hs_db = sample_deliveries, hs_leases = [], hs_asked = []\<rparr> s \<and> hs_asked s = [(''d1'', 1)]"
proof -
  let ?s = "\<lparr>hs_db = sample_deliveries, hs_leases = [], hs_asked = []\<rparr>"
  let ?t = "\<lparr>hs_db = sample_leased, hs_leases = [sample_lease 1 0], hs_asked = []\<rparr>"
  have claim: "hosted_step 3 ?s ?t"
    using hosted_step.claims [of "sample_hosted_worker 3" 3 "\<lambda>_. False" "\<lambda>_. False" 0 ?s, OF _ _] sample_claim [of 3]
    by (simp add: sample_hosted_worker_def)
  have "is_ok (execute_verification (sample_hosted_worker 3) (\<lambda>_. True) (sample_lease 1 0) sample_answer 2 3 sample_leased)"
    by code_simp
  then obtain ok db where run: "execute_verification (sample_hosted_worker 3) (\<lambda>_. True) (sample_lease 1 0) sample_answer 2 3 (hs_db ?t)
      = Inr (ok, db)" by (auto simp: is_ok_def split: sum.splits)
  have asks: "asks_verifier (sample_hosted_worker 3) (\<lambda>_. True) (sample_lease 1 0) 2" by code_simp
  let ?u = "?t\<lparr>hs_db := db, hs_leases := remove1 (sample_lease 1 0) (hs_leases ?t),
     hs_asked := (if asks_verifier (sample_hosted_worker 3) (\<lambda>_. True) (sample_lease 1 0) 2
       then [(od_id (sample_lease 1 0), od_attempt_count (sample_lease 1 0))] else []) @ hs_asked ?t\<rparr>"
  have "hosted_step 3 ?t ?u"
    by (rule hosted_step.works [OF _ _ run]) (simp_all add: sample_hosted_worker_def)
  with claim have "(hosted_step 3)\<^sup>*\<^sup>* ?s ?u" by (meson converse_rtranclp_into_rtranclp rtranclp.rtrancl_refl)
  moreover have "hs_asked ?u = [(''d1'', 1)]" using asks by (simp add: sample_lease_def sample_delivery_def)
  ultimately show ?thesis by blast
qed

theorem verification_requests_bounded_witness:
  "\<exists>s :: hosted_state. hs_asked s = [(''d1'', 1)] \<and> int (length (filter (\<lambda>(i, n). i = ''d1'') (hs_asked s))) \<le> 3 - 1"
proof -
  obtain s where s: "(hosted_step 3)\<^sup>*\<^sup>* \<lparr>hs_db = sample_deliveries, hs_leases = [], hs_asked = []\<rparr> s"
    "hs_asked s = [(''d1'', 1)]" using sample_hosted_run by blast
  from verification_requests_bounded [OF s(1) sample_deliveries_ok, of "''d1''"]
  have "int (length (filter (\<lambda>(i, n). i = ''d1'') (hs_asked s))) \<le> 3 - 1" by simp
  with s(2) show ?thesis by blast
qed

theorem verified_delivery_was_visible_witness:
  "\<exists>db d receipt. execute_verification (sample_hosted_worker 3) (\<lambda>_. True) (sample_lease 1 0) sample_answer 2 3 sample_leased = Inr (True, db)
     \<and> delivery_of ''d1'' db = Some d \<and> od_provider_trace_id d = Some (strip receipt)
     \<and> trace_visible sample_adapter (request_of_lease (sample_hosted_worker 3) (sample_lease 1 0)) receipt"
proof -
  have id: "od_id (sample_lease 1 0) = ''d1''" by (simp add: sample_lease_def sample_delivery_def)
  have ok: "deliveries_ok sample_leased" by (rule deliveries_ok_step [OF claim_next_step [OF sample_claim] sample_deliveries_ok])
  from sample_verification obtain db d where run: "execute_verification (sample_hosted_worker 3) (\<lambda>_. True) (sample_lease 1 0)
      sample_answer 2 3 sample_leased = Inr (True, db)" "delivery_of (od_id (sample_lease 1 0)) db = Some d"
      "od_status d = ''verified''"
    unfolding id by (auto split: sum.splits option.splits prod.splits)
  from verified_delivery_was_visible [OF ok run(1) [unfolded sample_answer_def] run(2, 3)] run(1, 2) show ?thesis
    unfolding id by blast
qed

definition sample_scope :: delivery_scope where
  "sample_scope = \<lparr>sc_tenant_id = ''t'', sc_workspace_id = ''w'', sc_owner_user_id = ''u'', sc_task_id = ''k'', sc_run_id = ''r''\<rparr>"

definition sample_intents :: "delivery_intent list" where
  "sample_intents = [plan_intent ''langsmith'' True ''k'' ''r'' ''c'' None (1000 * SECOND),
     plan_intent ''langfuse'' False ''k'' ''r'' ''c'' None (1000 * SECOND)]"

lemma sample_ensured: "is_ok (ensure_intents None 0 (\<lambda>n. if n = 0 then ''d3'' else ''d4'') sample_scope sample_intents
    (sample_deliveries\<lparr>dd_deliveries := []\<rparr>))"
  by code_simp

theorem ensured_intents_replay_witness:
  "\<exists>ds db ds'. ensure_intents None 0 (\<lambda>n. if n = 0 then ''d3'' else ''d4'') sample_scope sample_intents
      (sample_deliveries\<lparr>dd_deliveries := []\<rparr>) = Inr (ds, db)
     \<and> ensure_intents None 5 (\<lambda>_. ''d5'') sample_scope sample_intents db = Inr (ds', db) \<and> map od_id ds' = map od_id ds"
proof -
  obtain ds db where run: "ensure_intents None 0 (\<lambda>n. if n = 0 then ''d3'' else ''d4'') sample_scope sample_intents
      (sample_deliveries\<lparr>dd_deliveries := []\<rparr>) = Inr (ds, db)"
    using sample_ensured by (auto simp: is_ok_def split: sum.splits)
  have "deliveries_ok (sample_deliveries\<lparr>dd_deliveries := []\<rparr>)" by (simp add: deliveries_ok_def)
  from ensured_intents_replay [OF run this rtranclp.rtrancl_refl, of 5 "\<lambda>_. ''d5''"] run show ?thesis by blast
qed

end
