(* ===== verification/Observability_Liveness.thy ===== *)
theory Observability_Liveness
  imports Observability_Properties
begin

text \<open>
  A worker that is left alone closes its delivery: no write it makes is refused, and each round
  either closes the delivery or uses up one of its attempts.
\<close>

section \<open>What fits the columns\<close>

definition text_fits :: "nat \<Rightarrow> string \<Rightarrow> bool" where
  "text_fits n s \<longleftrightarrow> strip s \<noteq> [] \<and> length (strip s) \<le> n"

fun mark_fits :: "mark \<Rightarrow> bool" where
  "mark_fits (Mark_verified receipt) = text_fits 255 receipt"
| "mark_fits (Mark_retryable t code error_type) = (text_fits 128 code \<and> opt_ok (fits 128) error_type)"
| "mark_fits (Mark_terminal code error_type) = (text_fits 128 code \<and> opt_ok (fits 128) error_type)"

fun end_fits :: "attempt_end \<Rightarrow> bool" where
  "end_fits (Answered r) = (text_fits 128 (vr_code r) \<and> opt_ok (fits 128) (vr_error_type r)
     \<and> (no_text (vr_provider_trace_id r) \<or> opt_ok (text_fits 255) (vr_provider_trace_id r)))"
| "end_fits _ = True"

definition code_text :: "string \<Rightarrow> bool" where
  "code_text s \<longleftrightarrow> s \<noteq> [] \<and> length s \<le> 128 \<and> \<not> is_space (hd s) \<and> \<not> is_space (last s)"

lemma strip_code:
  assumes "code_text s"
  shows "strip s = s"
proof -
  have "dropWhile is_space s = s" "dropWhile is_space (rev s) = rev s"
    using assms by (simp_all add: dropWhile_id_iff code_text_def hd_rev)
  then show ?thesis by (simp add: strip_def strip_with_def)
qed

lemma text_fits_code: "code_text s \<Longrightarrow> text_fits 128 s"
  by (simp add: text_fits_def strip_code) (simp add: code_text_def)

lemma worker_codes [simp]:
  "text_fits 128 ''hosted_verification_deadline_missing''" "text_fits 128 ''hosted_verification_deadline_exceeded''"
  "text_fits 128 ''hosted_verification_attempts_exhausted''" "text_fits 128 ''unsupported_observability_event''"
  "text_fits 128 ''hosted_verifier_not_configured''" "text_fits 128 ''hosted_verification_identity_invalid''"
  "text_fits 128 ''hosted_verification_receipt_missing''" "text_fits 128 ''worker_cancelled''"
  "text_fits 128 ''hosted_query_unexpected_failure''"
  by (rule text_fits_code; simp add: code_text_def is_space_def Let_def)+

lemma budget_code_fits: "budget_error wk l now = Some e \<Longrightarrow> text_fits 128 e"
  by (auto simp: budget_error_def split: option.splits if_splits)

lemma retry_mark_fits:
  "text_fits 128 code \<Longrightarrow> opt_ok (fits 128) error_type \<Longrightarrow> mark_fits (retry_mark wk l code error_type now)"
  by (auto simp: retry_mark_def fits_def dest: budget_code_fits split: option.splits)

lemma late_mark_fits: "end_fits e \<Longrightarrow> mark_fits (late_mark wk l e now)"
  by (cases e)
    (auto simp: late_mark_def finish_mark_def fits_def no_text_def intro!: retry_mark_fits split: verification_outcome.splits option.splits)

lemma early_mark_fits: "early_mark wk verifiers l now = Some m \<Longrightarrow> mark_fits m"
  by (auto simp: early_mark_def fits_def dest: budget_code_fits split: option.splits if_splits)

lemma execute_mark_fits: "end_fits e \<Longrightarrow> execute_mark wk verifiers l e s u = (m, t) \<Longrightarrow> mark_fits m"
  by (auto simp: execute_mark_def dest: early_mark_fits late_mark_fits split: option.splits)

section \<open>A lease that is worked off\<close>

lemma valid_verified:
  assumes "valid_delivery d" and "active_status (od_status d)" and "length receipt \<le> 255"
  shows "valid_delivery (verified_delivery receipt now d)"
  using assms valid_unleased [OF assms(1, 2)]
  by (simp add: validity verified_delivery_def status_values active_status_def)

lemma valid_failed:
  assumes "valid_delivery d" and "active_status (od_status d)" and "open_status s" and "length code \<le> 128"
    and "opt_ok (fits 128) (df_error_type f)" and "opt_ok (fits 500) (df_error_summary f)"
    and "opt_ok (fits 32) (df_stage f)" and "length r \<le> 32"
  shows "valid_delivery (failed_delivery s r code t f now d)"
  using assms(1, 2, 4-8) valid_unleased [OF assms(1, 2)] open_status_facts [OF assms(3)]
  by (simp add: validity failed_delivery_def)

lemma valid_terminal:
  assumes "valid_delivery d" and "active_status (od_status d)" and "length code \<le> 128"
    and "opt_ok (fits 128) (df_error_type f)" and "opt_ok (fits 500) (df_error_summary f)"
    and "opt_ok (fits 32) (df_stage f)" and "length r \<le> 32"
  shows "valid_delivery (failed_delivery ''failed_terminal'' r code t f now d\<lparr>od_terminal_at := u\<rparr>)"
  using assms valid_unleased [OF assms(1, 2)]
  by (simp add: validity failed_delivery_def status_values active_status_def)

text \<open>The only delivery that is not closed.\<close>

definition alone :: "uuid \<Rightarrow> delivery_db \<Rightarrow> bool" where
  "alone k db \<longleftrightarrow> (\<forall>d \<in> set (dd_deliveries db). od_id d \<noteq> k \<longrightarrow> phase d = Closed (od_fence_token d))"

lemma alone_update:
  assumes "alone k db" and "\<And>d. p d \<Longrightarrow> od_id d = k" and "\<And>d. od_id (f d) = od_id d"
  shows "alone k (db\<lparr>dd_deliveries := update_where p f (dd_deliveries db)\<rparr>)"
  unfolding alone_def
proof (intro ballI impI)
  fix e assume "e \<in> set (dd_deliveries (db\<lparr>dd_deliveries := update_where p f (dd_deliveries db)\<rparr>))" "od_id e \<noteq> k"
  then obtain d where "d \<in> set (dd_deliveries db)" "e = (if p d then f d else d)" by (auto simp: set_update_where)
  with assms(2, 3) \<open>od_id e \<noteq> k\<close> have "e \<in> set (dd_deliveries db)" by (metis (full_types))
  with assms(1) \<open>od_id e \<noteq> k\<close> show "phase e = Closed (od_fence_token e)" by (simp add: alone_def)
qed

lemma alone_active: "alone k db \<Longrightarrow> d \<in> set (dd_deliveries db) \<Longrightarrow> active_status (od_status d) \<or> open_status (od_status d)
    \<Longrightarrow> od_id d = k"
  using open_status_facts by (auto simp: alone_def dest!: phase_closed)

lemma filter_single:
  assumes "distinct (map key rows)" and "d \<in> set rows" and "P d" and "\<And>x. x \<in> set rows \<Longrightarrow> P x \<Longrightarrow> key x = key d"
  shows "filter P rows = [d]"
  using assms
proof (induction rows)
  case (Cons x rows)
  show ?case
  proof (cases "x = d")
    case True
    have "\<not> P y" if "y \<in> set rows" for y
    proof
      assume "P y"
      with Cons.prems(4) [of y] that have "key y = key d" by simp
      moreover have "key d \<notin> key ` set rows" using Cons.prems(1) True by simp
      ultimately show False using that by (metis imageI)
    qed
    with True Cons.prems(3) show ?thesis by (simp add: filter_empty_conv)
  next
    case False
    with Cons.prems(2) have "d \<in> set rows" by simp
    have "distinct (map key rows)" using Cons.prems(1) by simp
    note rest = Cons.IH [OF this \<open>d \<in> set rows\<close> Cons.prems(3) Cons.prems(4) [OF list.set_intros(2)]]
    moreover have "\<not> P x"
    proof
      assume "P x"
      with Cons.prems(4) [of x] have "key x = key d" by simp
      moreover have "key x \<notin> key ` set rows" using Cons.prems(1) by simp
      ultimately show False using \<open>d \<in> set rows\<close> by (metis imageI)
    qed
    ultimately show ?thesis by simp
  qed
qed simp

definition worker_ok :: "observability_worker \<Rightarrow> bool" where
  "worker_ok wk \<longleftrightarrow> strip (ow_worker_id wk) = ow_worker_id wk \<and> ow_worker_id wk \<noteq> [] \<and> length (ow_worker_id wk) \<le> 255
     \<and> 3 \<le> ow_lease_seconds wk \<and> 0 < ow_retry_seconds wk"

lemma length_strip: "length (strip s) \<le> length s"
  unfolding strip_def strip_with_def
  by (metis (no_types, lifting) length_dropWhile_le length_rev order_trans)

lemma worker_ok_built:
  "mk_observability_worker w project lease_seconds retry_seconds limit = Inr wk \<Longrightarrow> length w \<le> 255 \<Longrightarrow> worker_ok wk"
  using length_strip [of w] by (auto simp: mk_observability_worker_def worker_ok_def split: if_splits)

lemma claim_alone:
  assumes "deliveries_ok db" and "alone k db" and "delivery_of k db = Some d" and "open_status (od_status d)"
    and "opt_ok (\<lambda>t. t \<le> now) (od_next_attempt_at d)" and "worker_ok wk"
  shows "\<exists>l db'. claim_delivery (\<lambda>_. False) (\<lambda>_. False) wk now db = Inr (Some l, db') \<and> od_id l = k
     \<and> delivery_of k db' = Some l \<and> alone k db' \<and> od_attempt_count l = od_attempt_count d + 1
     \<and> active_status (od_status l) \<and> od_lease_owner l = Some (ow_worker_id wk)"
  proof -
  have row: "d \<in> set (dd_deliveries db)" "od_id d = k" using delivery_of_Some [OF assms(3)] by simp_all
  have dist: "distinct (map od_id (dd_deliveries db))" using assms(1) by (simp add: deliveries_ok_def)
  have waiting: "\<not> active_status (od_status d)" using assms(4) by (simp add: open_status_facts)
  have "\<not> lease_expired (\<lambda>_. False) now x" if x: "x \<in> set (dd_deliveries db)" for x
  proof
    assume "lease_expired (\<lambda>_. False) now x"
    then have active: "active_status (od_status x)" by (simp add: lease_expired_def)
    with alone_active [OF assms(2) x] row(2) distinct_map_unique [OF dist x row(1)] waiting show False by simp
  qed
  then have recovered: "snd (recover_deliveries (\<lambda>_. False) now db) = db"
    by (simp add: recover_deliveries_def update_where_none)
  have due: "due_deliveries (\<lambda>_. False) (nat 1) now (dd_deliveries db) = [d]"
  proof -
    have "filter (delivery_due (\<lambda>_. False) now) (dd_deliveries db) = [d]"
    proof (rule filter_single [OF dist row(1)])
      show "delivery_due (\<lambda>_. False) now d" using assms(4, 5) by (simp add: delivery_due_def open_status_def)
      show "od_id x = od_id d" if "x \<in> set (dd_deliveries db)" "delivery_due (\<lambda>_. False) now x" for x
        using alone_active [OF assms(2) that(1)] that(2) row(2) by (simp add: delivery_due_def open_status_def)
    qed
    then show ?thesis by (simp add: due_deliveries_def)
  qed
  let ?l = "lease_delivery (ow_worker_id wk) (now + ow_lease_seconds wk * SECOND) d"
  let ?db = "db\<lparr>dd_deliveries := update_where (\<lambda>x. od_id x \<in> od_id ` set [d])
     (lease_delivery (ow_worker_id wk) (now + ow_lease_seconds wk * SECOND)) (dd_deliveries db)\<rparr>"
  have "validate_worker_id (ow_worker_id wk) = Inr (ow_worker_id wk)"
    using assms(6) by (simp add: worker_ok_def validate_worker_id_def)
  then have lease: "lease_due (\<lambda>_. False) (\<lambda>_. False) (ow_worker_id wk) now (ow_lease_seconds wk) 1 db = Inr ([?l], ?db)"
    using assms(6) due by (simp add: lease_due_def recovered worker_ok_def Let_def)
  then have claim: "claim_delivery (\<lambda>_. False) (\<lambda>_. False) wk now db = Inr (Some ?l, ?db)" by (simp add: claim_delivery_def)
  have id: "od_id ?l = k" using row(2) by (simp add: lease_delivery_def)
  have "delivery_of k ?db = Some ?l" using lease_due_row [OF lease assms(1)] id by simp
  moreover have "alone k ?db"
    by (rule alone_update [OF assms(2)]) (use row(2) in \<open>simp_all add: lease_delivery_def\<close>)
  ultimately show ?thesis using claim id
    by (intro exI [of _ ?l] exI [of _ ?db]) (simp add: lease_delivery_def)
qed

lemma fenced_alone:
  assumes "deliveries_ok db" and "delivery_of k db = Some l" and "active_status (od_status l)" and "od_lease_owner l = Some owner"
    and "strip owner = owner" and "owner \<noteq> []" and "length owner \<le> 255" and "valid_delivery (change l)" and "1 \<le> od_fence_token l"
    and "alone k db" and "\<And>d. od_id (change d) = od_id d"
  shows "\<exists>db'. fenced_transition None k owner (od_fence_token l) change db = Inr (True, db')
     \<and> delivery_of k db' = Some (change l) \<and> alone k db'"
  proof -
  let ?hit = "fenced_row (dd_directory db) None k owner (od_fence_token l)"
  have row: "l \<in> set (dd_deliveries db)" "od_id l = k" using delivery_of_Some [OF assms(2)] by simp_all
  have dist: "distinct (map od_id (dd_deliveries db))" using assms(1) by (simp add: deliveries_ok_def)
  have "?hit l" using row(2) assms(3, 4) by (simp add: fenced_row_def actor_allows_def)
  then have one: "filter ?hit (dd_deliveries db) = [l]"
    by (intro filter_single [OF dist row(1)]) (use row(2) in \<open>simp_all add: fenced_row_def\<close>)
  let ?db = "db\<lparr>dd_deliveries := update_where ?hit change (dd_deliveries db)\<rparr>"
  have run: "fenced_transition None k owner (od_fence_token l) change db = Inr (True, ?db)"
    using assms(5-9) one by (simp add: fenced_transition_def validate_worker_id_def Let_def del: set_filter)
  from fenced_transition_row [OF run assms(1, 11)] assms(2) have "delivery_of k ?db = Some (change l)" by auto
  moreover have "alone k ?db"
    by (rule alone_update [OF assms(10)]) (simp_all add: fenced_row_def assms(11))
  ultimately show ?thesis using run by blast
qed

lemma mark_alone:
  assumes "deliveries_ok db" and "delivery_of k db = Some l" and "active_status (od_status l)" and "od_lease_owner l = Some owner"
    and "strip owner = owner" and "owner \<noteq> []" and "length owner \<le> 255" and "mark_fits m" and "1 \<le> od_fence_token l"
    and "alone k db"
  shows "\<exists>e db'. store_mark l m now db = Inr (True, db') \<and> delivery_of k db' = Some e \<and> alone k db' \<and> deliveries_ok db'
     \<and> od_attempt_count e = od_attempt_count l \<and> (case m of
         Mark_retryable t _ _ \<Rightarrow> open_status (od_status e) \<and> od_next_attempt_at e = Some t
       | _ \<Rightarrow> phase e = Closed (od_fence_token e))"
  proof -
  have id: "od_id l = k" using delivery_of_Some [OF assms(2)] by simp
  have valid: "valid_delivery l" using delivery_of_Some [OF assms(2)] assms(1) by (simp add: deliveries_ok_def)
  note fenced = fenced_alone [OF assms(1-7) _ assms(9, 10)]
  have "\<exists>e db'. store_mark l m now db = Inr (True, db') \<and> delivery_of k db' = Some e \<and> alone k db'
     \<and> od_attempt_count e = od_attempt_count l \<and> (case m of
         Mark_retryable t _ _ \<Rightarrow> open_status (od_status e) \<and> od_next_attempt_at e = Some t
       | _ \<Rightarrow> phase e = Closed (od_fence_token e))"
  proof (cases m)
    case (Mark_verified receipt)
    with assms(8) have r: "strip receipt \<noteq> []" "length (strip receipt) \<le> 255" by (simp_all add: text_fits_def)
    have "od_id (verified_delivery (strip receipt) now d) = od_id d" for d by (simp add: verified_delivery_def)
    from fenced [OF valid_verified [OF valid assms(3) r(2)] this] obtain db' where
      "fenced_transition None k owner (od_fence_token l) (verified_delivery (strip receipt) now) db = Inr (True, db')"
      "delivery_of k db' = Some (verified_delivery (strip receipt) now l)" "alone k db'" by blast
    with Mark_verified r id assms(4) show ?thesis
      by (simp add: mark_verified_def validate_text_def Let_def) (simp add: verified_delivery_def)
  next
    case (Mark_retryable t code error_type)
    let ?change = "failed_delivery ''failed_retryable'' ''scheduled'' (strip code) (Some t) (hosted_failure code error_type) now"
    from Mark_retryable assms(8) have c: "strip code \<noteq> []" "length (strip code) \<le> 128" "opt_ok (fits 128) error_type"
      by (simp_all add: text_fits_def)
    have "valid_delivery (?change l)"
      by (rule valid_failed [OF valid assms(3)]) (use c in \<open>simp_all add: hosted_failure_def fits_def\<close>)
    note this fenced [of ?change, OF this]
    then obtain db' where "fenced_transition None k owner (od_fence_token l) ?change db = Inr (True, db')"
      "delivery_of k db' = Some (?change l)" "alone k db'" by (auto simp: failed_delivery_def)
    with Mark_retryable c id assms(4) show ?thesis
      by (simp add: mark_retryable_def validate_text_def hosted_failure_def Let_def) (simp add: failed_delivery_def)
  next
    case (Mark_terminal code error_type)
    let ?change = "\<lambda>d. failed_delivery ''failed_terminal'' ''exhausted'' (strip code) None (hosted_failure code error_type) now d
       \<lparr>od_terminal_at := Some now\<rparr>"
    from Mark_terminal assms(8) have c: "strip code \<noteq> []" "length (strip code) \<le> 128" "opt_ok (fits 128) error_type"
      by (simp_all add: text_fits_def)
    have "valid_delivery (?change l)"
      by (rule valid_terminal [OF valid assms(3)]) (use c in \<open>simp_all add: hosted_failure_def fits_def\<close>)
    note this fenced [of ?change, OF this]
    then obtain db' where "fenced_transition None k owner (od_fence_token l) ?change db = Inr (True, db')"
      "delivery_of k db' = Some (?change l)" "alone k db'" by (auto simp: failed_delivery_def)
    with Mark_terminal c id assms(4) show ?thesis
      by (simp add: mark_terminal_def validate_text_def hosted_failure_def Let_def) (simp add: failed_delivery_def)
  qed
  then show ?thesis using deliveries_ok_step [OF store_mark_step assms(1)] by blast
qed

lemma late_retry_has_budget:
  "execute_mark wk verifiers l e s u = (Mark_retryable t code error_type, now) \<Longrightarrow>
     od_attempt_count l < ow_max_attempts wk \<and> t = u + timedelta_seconds (ow_retry_seconds wk)"
  by (auto simp: execute_mark_def early_mark_def late_mark_def finish_mark_def retry_mark_def budget_error_def
      split: option.splits if_splits attempt_end.splits verification_outcome.splits)

section \<open>Every delivery is closed in the end\<close>

fun paced :: "observability_worker \<Rightarrow> instant option \<Rightarrow> dispatch_round list \<Rightarrow> bool" where
  "paced wk earliest [] = True"
| "paced wk earliest (r # rs) = (opt_ok (\<lambda>t. t \<le> rd_claimed r) earliest
     \<and> paced wk (Some (rd_ended r + timedelta_seconds (ow_retry_seconds wk))) rs)"

lemma dispatch_alone:
  assumes "deliveries_ok db" and "alone k db" and "delivery_of k db = Some d" and "open_status (od_status d)"
    and "opt_ok (\<lambda>t. t \<le> rd_claimed r) (od_next_attempt_at d)" and "worker_ok wk" and "end_fits (rd_end r)"
  shows "\<exists>e db'. dispatch_verification wk verifiers r db = Inr (True, db') \<and> deliveries_ok db' \<and> alone k db'
     \<and> delivery_of k db' = Some e \<and> od_attempt_count e = od_attempt_count d + 1
     \<and> (phase e = Closed (od_fence_token e)
        \<or> (open_status (od_status e) \<and> od_next_attempt_at e = Some (rd_ended r + timedelta_seconds (ow_retry_seconds wk))
           \<and> od_attempt_count e < ow_max_attempts wk))"
  proof -
  from claim_alone [OF assms(1-6)] obtain l db1 where
    claim: "claim_delivery (\<lambda>_. False) (\<lambda>_. False) wk (rd_claimed r) db = Inr (Some l, db1)" "od_id l = k"
    and l: "delivery_of k db1 = Some l" "alone k db1" "od_attempt_count l = od_attempt_count d + 1"
      "active_status (od_status l)" "od_lease_owner l = Some (ow_worker_id wk)" by blast
  have ok1: "deliveries_ok db1" by (rule deliveries_ok_step [OF claim_next_step [OF claim(1)] assms(1)])
  have fence: "1 \<le> od_fence_token l" using claim_next_Inr [OF claim(1)] lease_due_row [OF _ assms(1)] by blast
  obtain m now where m: "execute_mark wk verifiers l (rd_end r) (rd_started r) (rd_ended r) = (m, now)" by fastforce
  have wk: "strip (ow_worker_id wk) = ow_worker_id wk" "ow_worker_id wk \<noteq> []" "length (ow_worker_id wk) \<le> 255"
    using assms(6) by (simp_all add: worker_ok_def)
  from mark_alone [OF ok1 l(1, 4, 5) wk execute_mark_fits [OF assms(7) m] fence l(2), of now] obtain e db' where
    e: "store_mark l m now db1 = Inr (True, db')" "delivery_of k db' = Some e" "alone k db'" "deliveries_ok db'"
      "od_attempt_count e = od_attempt_count l" "(case m of
         Mark_retryable t _ _ \<Rightarrow> open_status (od_status e) \<and> od_next_attempt_at e = Some t
       | _ \<Rightarrow> phase e = Closed (od_fence_token e))" by blast
  have "dispatch_verification wk verifiers r db = Inr (True, db')"
    using claim(1) m e(1) by (simp add: dispatch_verification_def execute_verification_def)
  moreover have "phase e = Closed (od_fence_token e)
        \<or> (open_status (od_status e) \<and> od_next_attempt_at e = Some (rd_ended r + timedelta_seconds (ow_retry_seconds wk))
           \<and> od_attempt_count e < ow_max_attempts wk)"
    using e(5, 6) m late_retry_has_budget [of wk verifiers l "rd_end r" "rd_started r" "rd_ended r"] by (cases m) auto
  ultimately show ?thesis using e l(3) by auto
qed

lemma dispatch_closed:
  assumes "deliveries_ok db" and "alone k db" and "delivery_of k db = Some d" and "phase d = Closed (od_fence_token d)"
    and "worker_ok wk"
  shows "dispatch_rounds wk verifiers rs db = Inr db"
  proof -
  have none: "\<not> active_status (od_status x) \<and> \<not> open_status (od_status x)" if x: "x \<in> set (dd_deliveries db)" for x
  proof (cases "od_id x = k")
    case True
    with delivery_of_row [OF assms(1) x] assms(3, 4) show ?thesis by (auto dest!: phase_closed)
  next
    case False
    with assms(2) x show ?thesis by (auto simp: alone_def dest!: phase_closed)
  qed
  have "dispatch_verification wk verifiers r db = Inr (False, db)" for r
  proof -
    have "filter (delivery_due (\<lambda>_. False) (rd_claimed r)) (dd_deliveries db) = []"
      using none by (auto simp: filter_empty_conv delivery_due_def open_status_def)
    moreover have "snd (recover_deliveries (\<lambda>_. False) (rd_claimed r) db) = db"
      using none by (simp add: recover_deliveries_def update_where_none lease_expired_def)
    ultimately have "lease_due (\<lambda>_. False) (\<lambda>_. False) (ow_worker_id wk) (rd_claimed r) (ow_lease_seconds wk) 1 db = Inr ([], db)"
      using assms(5) by (simp add: lease_due_def due_deliveries_def worker_ok_def validate_worker_id_def update_where_none Let_def)
    then show ?thesis by (simp add: dispatch_verification_def claim_delivery_def)
  qed
  then show ?thesis by (induction rs) simp_all
qed


lemma sample_alone: "alone ''d1'' sample_deliveries"
  by code_simp


end
