(* ===== verification/Domain_Events.thy ===== *)
theory Domain_Events
  imports Product_Tables Json_Values Notification_Outbox
begin

text \<open>
  The event log of a product thread (\<open>projections/domain_events.py\<close>, table \<open>domain_events\<close>): the
  updates of a running graph and the output of a finished run become events, numbered without a
  gap within their thread; an event already recorded under its source is not recorded again, nor
  is a payload equal to the latest one of its type. A worker records what the log of a finished
  run still misses. Hashing and the validation of the documents by Pydantic are parameters.
\<close>

section \<open>Rows\<close>

definition DOMAIN_EVENT_TYPES :: "string list" where
  "DOMAIN_EVENT_TYPES = [''market.snapshot.committed'', ''research.evidence.committed'',
     ''agent.output.committed'', ''evidence.verdict.committed'', ''risk.verdict.committed'',
     ''artifact.committed'', ''notification.planned'', ''run.terminal'']"

definition TERMINAL_RUN_STATUSES :: "string list" where
  "TERMINAL_RUN_STATUSES = [''succeeded'', ''blocked'', ''failed'', ''cancelled'']"

record domain_event =
  de_id :: uuid
  de_tenant_id :: uuid
  de_workspace_id :: uuid
  de_owner_user_id :: uuid
  de_thread_id :: uuid
  de_task_id :: uuid
  de_run_id :: uuid
  de_official_run_id :: "string option"
  de_checkpoint_id :: "string option"
  de_event_type :: string
  de_source_event_key :: string
  de_source_event_id :: "string option"
  de_schema_version :: string
  de_payload_ref :: string
  de_payload_hash :: string
  de_payload :: json
  de_sequence :: int
  de_created_at :: instant

type_synonym run_scope = "uuid \<times> uuid \<times> uuid \<times> uuid \<times> uuid \<times> uuid"

definition event_scope :: "domain_event \<Rightarrow> run_scope" where
  "event_scope e = (de_tenant_id e, de_workspace_id e, de_owner_user_id e, de_thread_id e, de_task_id e, de_run_id e)"

definition run_scope_of :: "run_row \<Rightarrow> run_scope" where
  "run_scope_of r = (rn_tenant_id r, rn_workspace_id r, rn_owner_user_id r, rn_thread_id r, rn_task_id r, rn_id r)"

definition event_check :: "domain_event \<Rightarrow> bool" where
  "event_check e \<longleftrightarrow> de_event_type e \<in> set DOMAIN_EVENT_TYPES \<and> 1 \<le> de_sequence e
     \<and> opt_ok (fits 255) (de_official_run_id e) \<and> opt_ok (fits 255) (de_checkpoint_id e)
     \<and> fits 64 (de_event_type e) \<and> fits 255 (de_source_event_key e) \<and> opt_ok (fits 255) (de_source_event_id e)
     \<and> fits 32 (de_schema_version e) \<and> fits 64 (de_payload_hash e)"

text \<open>The primary key and the two unique constraints.\<close>

definition event_clash :: "domain_event \<Rightarrow> domain_event \<Rightarrow> bool" where
  "event_clash d e \<longleftrightarrow> de_id d = de_id e
     \<or> (de_run_id d = de_run_id e \<and> de_source_event_key d = de_source_event_key e)
     \<or> (de_thread_id d = de_thread_id e \<and> de_sequence d = de_sequence e)"

record event_db =
  ev_threads :: "thread_row list"
  ev_tasks :: "task_row list"
  ev_runs :: "run_row list"
  ev_outbox :: "notification list"
  ev_events :: "domain_event list"

text \<open>
  The parameters: the SHA-256 digest of a text and of the canonical text of a document, and for
  each model the document \<open>model_validate\<close> followed by \<open>model_dump(exclude_none=True)\<close> gives.
\<close>

record event_params =
  ep_sha256 :: "string \<Rightarrow> string"
  ep_digest :: "json \<Rightarrow> string"
  ep_market_snapshot :: "json \<Rightarrow> json option"
  ep_web_evidence :: "json \<Rightarrow> json option"
  ep_deep_research :: "json \<Rightarrow> json option"
  ep_market_analysis :: "json \<Rightarrow> json option"
  ep_evidence_verdict :: "json \<Rightarrow> json option"
  ep_risk_verdict :: "json \<Rightarrow> json option"

datatype event_error = Projection_conflict | Validation_error | Missing_key | Invalid_event_id
  | Thread_missing | Event_rejected

definition event_payload_hash :: "event_params \<Rightarrow> json \<Rightarrow> string" where
  "event_payload_hash p payload = ep_digest p (canonical payload)"

record event_spec =
  es_event_type :: string
  es_payload_ref :: string
  es_payload_hash :: string
  es_payload :: json
  es_schema_version :: string

definition mk_event_spec :: "event_params \<Rightarrow> string \<Rightarrow> string \<Rightarrow> json \<Rightarrow> event_spec" where
  "mk_event_spec p event_type payload_ref payload = \<lparr>es_event_type = event_type, es_payload_ref = payload_ref,
     es_payload_hash = event_payload_hash p payload, es_payload = payload, es_schema_version = ''1.0''\<rparr>"

section \<open>The events of a graph update\<close>

definition validated_dump :: "(json \<Rightarrow> json option) \<Rightarrow> json \<Rightarrow> (event_error, json) result" where
  "validated_dump f j = (case f j of None \<Rightarrow> Inl Validation_error | Some v \<Rightarrow> Inr v)"

fun validated_dumps :: "(json \<Rightarrow> json option) \<Rightarrow> json list \<Rightarrow> (event_error, json list) result" where
  "validated_dumps f [] = Inr []"
| "validated_dumps f (j # js) = rbind (validated_dump f j) (\<lambda>v. rbind (validated_dumps f js) (\<lambda>vs. Inr (v # vs)))"

definition required_key :: "string \<Rightarrow> json \<Rightarrow> (event_error, json) result" where
  "required_key k j = (case json_get k j of None \<Rightarrow> Inl Missing_key | Some v \<Rightarrow> Inr v)"

definition object_specs ::
  "event_params \<Rightarrow> (json \<Rightarrow> json option) \<Rightarrow> string \<Rightarrow> string \<Rightarrow> json \<Rightarrow> (event_error, event_spec list) result" where
  "object_specs p f event_type payload_ref j = (if is_mapping j
     then rbind (validated_dump f j) (\<lambda>payload. Inr [mk_event_spec p event_type payload_ref payload]) else Inr [])"

definition evidence_specs :: "event_params \<Rightarrow> string \<Rightarrow> json \<Rightarrow> (event_error, event_spec list) result" where
  "evidence_specs p payload_ref j = (case j of
     JArr items \<Rightarrow> rbind (validated_dumps (ep_web_evidence p) items) (\<lambda>payload.
       Inr [mk_event_spec p ''research.evidence.committed'' payload_ref (JArr payload)])
   | _ \<Rightarrow> Inr [])"

definition report_specs :: "event_params \<Rightarrow> string \<Rightarrow> json \<Rightarrow> (event_error, event_spec list) result" where
  "report_specs p payload_ref j = (if is_mapping j
     then rbind (validated_dump (ep_deep_research p) j) (\<lambda>payload.
            rbind (required_key ''report'' payload) (\<lambda>report.
            rbind (required_key ''status'' payload) (\<lambda>status.
              Inr (mk_event_spec p ''agent.output.committed'' (payload_ref @ ''/report'') report
                # (if status = JStr ''committed'' then [mk_event_spec p ''artifact.committed'' payload_ref payload]
                   else [])))))
     else Inr [])"

definition both :: "('e, 'a list) result \<Rightarrow> ('e, 'a list) result \<Rightarrow> ('e, 'a list) result" where
  "both a b = rbind a (\<lambda>xs. rbind b (\<lambda>ys. Inr (xs @ ys)))"

definition node_specs :: "event_params \<Rightarrow> string \<Rightarrow> json \<Rightarrow> (event_error, event_spec list) result" where
  "node_specs p node u = (
     if \<not> is_mapping u then Inr []
     else if node = ''collect_market_snapshot'' then both
       (object_specs p (ep_market_snapshot p) ''market.snapshot.committed''
          ''official-update#/collect_market_snapshot/market_snapshot'' (get_or_null ''market_snapshot'' u))
       (evidence_specs p ''official-update#/collect_market_snapshot/web_evidence'' (get_or_null ''web_evidence'' u))
     else if node = ''research_events'' then
       evidence_specs p ''official-update#/research_events/web_evidence'' (get_or_null ''web_evidence'' u)
     else if node = ''run_deep_research'' then both
       (evidence_specs p ''official-update#/run_deep_research/web_evidence'' (get_or_null ''web_evidence'' u))
       (report_specs p ''official-update#/run_deep_research/deep_research_artifact''
          (get_or_null ''deep_research_artifact'' u))
     else if node = ''analyze_market'' then
       object_specs p (ep_market_analysis p) ''agent.output.committed''
         ''official-update#/analyze_market/analysis'' (get_or_null ''analysis'' u)
     else if node = ''validate_evidence'' then
       object_specs p (ep_evidence_verdict p) ''evidence.verdict.committed''
         ''official-update#/validate_evidence/evidence_verdict'' (get_or_null ''evidence_verdict'' u)
     else if node = ''apply_risk_policy'' then
       object_specs p (ep_risk_verdict p) ''risk.verdict.committed''
         ''official-update#/apply_risk_policy/risk_verdict'' (get_or_null ''risk_verdict'' u)
     else Inr [])"

fun progressive_event_specs ::
  "event_params \<Rightarrow> (string \<times> json) list \<Rightarrow> (event_error, event_spec list) result" where
  "progressive_event_specs p [] = Inr []"
| "progressive_event_specs p ((node, u) # updates) = both (node_specs p node u) (progressive_event_specs p updates)"

section \<open>The events of a finished run\<close>

definition market_specs :: "event_params \<Rightarrow> json \<Rightarrow> event_spec list" where
  "market_specs p output = (let market = get_or_null ''market_snapshot'' output in
     if is_mapping market then [mk_event_spec p ''market.snapshot.committed'' ''output_payload#/market_snapshot'' market]
     else [])"

definition final_evidence_specs :: "event_params \<Rightarrow> json \<Rightarrow> event_spec list" where
  "final_evidence_specs p output = (case get_or_null ''web_evidence'' output of
     JArr items \<Rightarrow> if items \<noteq> [] \<or> is_mapping (get_or_null ''artifact'' output)
         \<or> is_mapping (get_or_null ''deep_research_artifact'' output)
       then [mk_event_spec p ''research.evidence.committed'' ''output_payload#/web_evidence'' (JArr items)] else []
   | _ \<Rightarrow> [])"

definition field_specs :: "event_params \<Rightarrow> json \<Rightarrow> string \<Rightarrow> string \<Rightarrow> event_spec list" where
  "field_specs p artifact event_type field = (let payload = get_or_null field artifact in
     if is_mapping payload then [mk_event_spec p event_type (''output_payload#/artifact/'' @ field) payload] else [])"

definition artifact_specs :: "event_params \<Rightarrow> json \<Rightarrow> event_spec list" where
  "artifact_specs p output = (let artifact = get_or_null ''artifact'' output in
     if is_mapping artifact then
       field_specs p artifact ''agent.output.committed'' ''analysis''
       @ field_specs p artifact ''evidence.verdict.committed'' ''evidence_verdict''
       @ field_specs p artifact ''risk.verdict.committed'' ''risk_verdict''
       @ (if get_or_null ''status'' artifact = JStr ''committed''
          then [mk_event_spec p ''artifact.committed'' ''output_payload#/artifact'' artifact] else [])
     else [])"

definition domain_event_specs ::
  "event_params \<Rightarrow> json \<Rightarrow> json option \<Rightarrow> (event_error, event_spec list) result" where
  "domain_event_specs p output notification_payload =
     rbind (report_specs p ''output_payload#/deep_research_artifact'' (get_or_null ''deep_research_artifact'' output))
       (\<lambda>research. Inr (market_specs p output @ final_evidence_specs p output @ artifact_specs p output @ research
         @ (case notification_payload of None \<Rightarrow> []
            | Some payload \<Rightarrow> [mk_event_spec p ''notification.planned'' ''notification_outbox#/payload'' payload])
         @ [mk_event_spec p ''run.terminal'' ''output_payload#'' output]))"

section \<open>Appending\<close>

text \<open>A \<open>dict\<close> built from the events keeps the last one for every key.\<close>

definition last_with :: "('r \<Rightarrow> 'k) \<Rightarrow> 'k \<Rightarrow> 'r list \<Rightarrow> 'r option" where
  "last_with key k rows = find (\<lambda>r. key r = k) (rev rows)"

definition run_events :: "uuid \<Rightarrow> event_db \<Rightarrow> domain_event list" where
  "run_events run_id db = sort_key de_sequence (filter (\<lambda>e. de_run_id e = run_id) (ev_events db))"

definition stable_key :: "event_params \<Rightarrow> string \<Rightarrow> event_spec \<Rightarrow> string" where
  "stable_key p source_event_key s = ep_sha256 p source_event_key @ '':'' @ es_event_type s"

fun pending_specs ::
  "event_params \<Rightarrow> string \<Rightarrow> domain_event list \<Rightarrow> event_spec list \<Rightarrow> (event_error, event_spec list) result" where
  "pending_specs p source existing [] = Inr []"
| "pending_specs p source existing (s # ss) =
     (case last_with de_source_event_key (stable_key p source s) existing of
        Some exact \<Rightarrow>
          if de_payload_hash exact \<noteq> es_payload_hash s \<or> event_payload_hash p (de_payload exact) \<noteq> es_payload_hash s
          then Inl Projection_conflict else pending_specs p source existing ss
      | None \<Rightarrow>
          (case last_with de_event_type (es_event_type s) existing of
             Some latest \<Rightarrow>
               if de_payload_hash latest = es_payload_hash s
               then if event_payload_hash p (de_payload latest) \<noteq> es_payload_hash s then Inl Projection_conflict
                    else pending_specs p source existing ss
               else rbind (pending_specs p source existing ss) (\<lambda>rest. Inr (s # rest))
           | None \<Rightarrow> rbind (pending_specs p source existing ss) (\<lambda>rest. Inr (s # rest))))"

definition event_row ::
  "event_params \<Rightarrow> uuid \<Rightarrow> task_row \<Rightarrow> run_row \<Rightarrow> string \<Rightarrow> string option \<Rightarrow> string option \<Rightarrow> instant \<Rightarrow> int
   \<Rightarrow> event_spec \<Rightarrow> domain_event" where
  "event_row p event_id task run source source_event_id checkpoint_id created_at sequence s =
     \<lparr>de_id = event_id, de_tenant_id = tr_tenant_id task, de_workspace_id = tr_workspace_id task,
      de_owner_user_id = tr_owner_user_id task, de_thread_id = tr_thread_id task, de_task_id = tr_id task,
      de_run_id = rn_id run, de_official_run_id = rn_official_run_id run, de_checkpoint_id = checkpoint_id,
      de_event_type = es_event_type s, de_source_event_key = stable_key p source s,
      de_source_event_id = source_event_id, de_schema_version = es_schema_version s,
      de_payload_ref = ''domain-event://'' @ event_id @ ''/payload'', de_payload_hash = es_payload_hash s,
      de_payload = es_payload s, de_sequence = sequence, de_created_at = created_at\<rparr>"

text \<open>The insertion with its checks: the row's own, the key of its run, the unique constraints.\<close>

fun insert_events :: "run_row list \<Rightarrow> domain_event list \<Rightarrow> domain_event list \<Rightarrow> (event_error, domain_event list) result" where
  "insert_events runs [] events = Inr events"
| "insert_events runs (e # es) events =
     ensure (event_check e \<and> event_scope e \<in> run_scope_of ` set runs \<and> (\<forall>d \<in> set events. \<not> event_clash d e))
       Event_rejected (insert_events runs es (events @ [e]))"

text \<open>\<open>ids k\<close> is the identifier drawn for the k-th pending event.\<close>

definition append_event_specs ::
  "event_params \<Rightarrow> (nat \<Rightarrow> uuid) \<Rightarrow> task_row \<Rightarrow> run_row \<Rightarrow> event_spec list \<Rightarrow> string \<Rightarrow> string option
   \<Rightarrow> string option \<Rightarrow> instant \<Rightarrow> event_db \<Rightarrow> (event_error, nat \<times> event_db) result" where
  "append_event_specs p ids task run specs source source_event_id checkpoint_id created_at db =
     (if specs = [] then Inr (0, db)
      else rbind (pending_specs p source (run_events (rn_id run) db) specs) (\<lambda>pending.
        if pending = [] then Inr (0, db)
        else (case find (\<lambda>t. th_id t = tr_thread_id task) (ev_threads db) of
          None \<Rightarrow> Inl Thread_missing
        | Some thread \<Rightarrow>
            rbind (insert_events (ev_runs db)
                (map (\<lambda>k. event_row p (ids k) task run source source_event_id checkpoint_id created_at
                       (th_next_domain_event_sequence thread + int k) (pending ! k)) [0..<length pending])
                (ev_events db)) (\<lambda>events.
              Inr (length pending, db\<lparr>ev_events := events,
                ev_threads := update_where (\<lambda>t. th_id t = tr_thread_id task)
                  (\<lambda>t. t\<lparr>th_next_domain_event_sequence := th_next_domain_event_sequence t + int (length pending)\<rparr>)
                  (ev_threads db)\<rparr>)))))"

definition append_domain_events ::
  "event_params \<Rightarrow> (nat \<Rightarrow> uuid) \<Rightarrow> task_row \<Rightarrow> run_row \<Rightarrow> json \<Rightarrow> json option \<Rightarrow> instant \<Rightarrow> event_db
   \<Rightarrow> (event_error, nat \<times> event_db) result" where
  "append_domain_events p ids task run output notification_payload created_at db =
     rbind (domain_event_specs p output notification_payload) (\<lambda>specs.
       append_event_specs p ids task run specs (''terminal:'' @ event_payload_hash p output) None
         (rn_checkpoint_id run) created_at db)"

definition append_progressive_events ::
  "event_params \<Rightarrow> (nat \<Rightarrow> uuid) \<Rightarrow> task_row \<Rightarrow> run_row \<Rightarrow> (string \<times> json) list \<Rightarrow> string \<Rightarrow> string option
   \<Rightarrow> instant \<Rightarrow> event_db \<Rightarrow> (event_error, nat \<times> event_db) result" where
  "append_progressive_events p ids task run updates source_event_id checkpoint_id created_at db =
     ensure (source_event_id \<noteq> [] \<and> length source_event_id \<le> 255) Invalid_event_id
       (rbind (progressive_event_specs p updates) (\<lambda>specs.
          append_event_specs p ids task run specs (''stream:'' @ source_event_id) (Some source_event_id)
            checkpoint_id created_at db))"

section \<open>The projection worker\<close>

text \<open>The types the log of a finished run should have, by the paths of its output.\<close>

definition json_at :: "string list \<Rightarrow> json \<Rightarrow> json option" where
  "json_at path j = fold (\<lambda>k v. Option.bind v (json_get k)) path (Some j)"

definition expected_types :: "bool \<Rightarrow> json \<Rightarrow> string list" where
  "expected_types notified output = [''run.terminal'']
     @ (if json_at [''market_snapshot''] output \<noteq> None then [''market.snapshot.committed''] else [])
     @ (if json_at [''artifact''] output \<noteq> None \<or> json_at [''web_evidence''] output \<noteq> None
        then [''research.evidence.committed''] else [])
     @ (if json_at [''artifact'', ''analysis''] output \<noteq> None then [''agent.output.committed''] else [])
     @ (if json_at [''artifact'', ''evidence_verdict''] output \<noteq> None then [''evidence.verdict.committed''] else [])
     @ (if json_at [''artifact'', ''risk_verdict''] output \<noteq> None then [''risk.verdict.committed''] else [])
     @ (if json_at [''artifact'', ''status''] output = Some (JStr ''committed'') then [''artifact.committed''] else [])
     @ (if notified then [''notification.planned''] else [])"

definition event_types_of :: "uuid \<Rightarrow> event_db \<Rightarrow> string set" where
  "event_types_of run_id db = de_event_type ` set (filter (\<lambda>e. de_run_id e = run_id) (ev_events db))"

definition is_notified :: "uuid \<Rightarrow> event_db \<Rightarrow> bool" where
  "is_notified run_id db \<longleftrightarrow> (\<exists>n \<in> set (ev_outbox db). nt_run_id n = run_id)"

definition log_incomplete :: "event_db \<Rightarrow> run_row \<Rightarrow> bool" where
  "log_incomplete db run \<longleftrightarrow> rn_status run \<in> set TERMINAL_RUN_STATUSES
     \<and> (case rn_output_payload run of None \<Rightarrow> False
        | Some output \<Rightarrow> \<not> set (expected_types (is_notified (rn_id run) db) output) \<subseteq> event_types_of (rn_id run) db)"

text \<open>\<open>ORDER BY finished_at, id\<close>: in PostgreSQL a null comes last.\<close>

definition by_finished :: "run_row \<times> task_row \<Rightarrow> (bool \<times> int) \<times> string" where
  "by_finished rt = (case rn_finished_at (fst rt) of
     None \<Rightarrow> ((True, 0), rn_id (fst rt)) | Some t \<Rightarrow> ((False, t), rn_id (fst rt)))"

definition candidate_runs :: "(uuid \<Rightarrow> bool) \<Rightarrow> uuid option \<Rightarrow> event_db \<Rightarrow> (run_row \<times> task_row) list" where
  "candidate_runs busy run_id db = filter (\<lambda>(r, t). tr_id t = rn_task_id r \<and> log_incomplete db r
     \<and> \<not> busy (rn_id r) \<and> opt_ok (\<lambda>i. rn_id r = i) run_id) (List.product (ev_runs db) (ev_tasks db))"

definition latest_notification_payload :: "uuid \<Rightarrow> event_db \<Rightarrow> json option" where
  "latest_notification_payload run_id db =
     (case first_by (\<lambda>n. - nt_created_at n) (filter (\<lambda>n. nt_run_id n = run_id) (ev_outbox db)) of
        None \<Rightarrow> None | Some n \<Rightarrow> if is_mapping (nt_payload n) then Some (nt_payload n) else None)"

definition dispatch_projection ::
  "event_params \<Rightarrow> (nat \<Rightarrow> uuid) \<Rightarrow> (uuid \<Rightarrow> bool) \<Rightarrow> uuid option \<Rightarrow> instant \<Rightarrow> event_db
   \<Rightarrow> (event_error, bool \<times> event_db) result" where
  "dispatch_projection p ids busy run_id now db =
     (case first_by by_finished (candidate_runs busy run_id db) of
        None \<Rightarrow> Inr (False, db)
      | Some (run, task) \<Rightarrow>
          (case rn_output_payload run of
             Some (JObj kvs) \<Rightarrow>
               rbind (append_domain_events p ids task run (JObj kvs) (latest_notification_payload (rn_id run) db)
                   (case rn_finished_at run of None \<Rightarrow> now | Some t \<Rightarrow> t) db) (\<lambda>(n, after). Inr (True, after))
           | _ \<Rightarrow> Inr (False, db)))"

end
