(* ===== verification/Domain_Event_Log.thy ===== *)
theory Domain_Event_Log
  imports Domain_Events
begin

text \<open>
  What the event log promises: events are only added, the events of a thread are numbered from
  one without a gap, and the events of one type in the log of a run differ from one to the next.
\<close>

section \<open>Pending events and their insertion\<close>

lemma last_with_None_iff: "last_with key k rows = None \<longleftrightarrow> k \<notin> key ` set rows"
  by (auto simp: last_with_def find_None_iff)

lemma last_with_Some: "last_with key k rows = Some r \<Longrightarrow> r \<in> set rows \<and> key r = k"
  by (auto simp: last_with_def dest: find_Some_iff2)

lemma last_with_append:
  "last_with key k (xs @ ys) = (case last_with key k ys of None \<Rightarrow> last_with key k xs | Some r \<Rightarrow> Some r)"
  by (simp add: last_with_def find_append cong: option.case_cong)

lemma last_with_last: "last_with key k rows = (let xs = filter (\<lambda>r. key r = k) rows in
    if xs = [] then None else Some (last xs))"
  by (induction rows rule: rev_induct) (auto simp: last_with_append last_with_def Let_def)

text \<open>What is settled already: recorded under its source, or equal to the latest of its type.\<close>

definition settled_spec :: "event_params \<Rightarrow> string \<Rightarrow> domain_event list \<Rightarrow> event_spec \<Rightarrow> bool" where
  "settled_spec p source existing s = (case last_with de_source_event_key (stable_key p source s) existing of
     Some e \<Rightarrow> de_payload_hash e = es_payload_hash s \<and> event_payload_hash p (de_payload e) = es_payload_hash s
   | None \<Rightarrow> (case last_with de_event_type (es_event_type s) existing of
       Some e \<Rightarrow> de_payload_hash e = es_payload_hash s \<and> event_payload_hash p (de_payload e) = es_payload_hash s
     | None \<Rightarrow> False))"

definition unrecorded_spec :: "event_params \<Rightarrow> string \<Rightarrow> domain_event list \<Rightarrow> event_spec \<Rightarrow> bool" where
  "unrecorded_spec p source existing s \<longleftrightarrow> last_with de_source_event_key (stable_key p source s) existing = None
     \<and> opt_ok (\<lambda>e. de_payload_hash e \<noteq> es_payload_hash s) (last_with de_event_type (es_event_type s) existing)"

lemma pending_specs_step:
  "pending_specs p source existing (s # ss) =
     (if unrecorded_spec p source existing s then rbind (pending_specs p source existing ss) (\<lambda>rest. Inr (s # rest))
      else if settled_spec p source existing s then pending_specs p source existing ss
      else Inl Projection_conflict)"
  by (auto simp: unrecorded_spec_def settled_spec_def split: option.splits)

lemma pending_specs_filter:
  "pending_specs p source existing specs = Inr pending \<Longrightarrow>
     pending = filter (unrecorded_spec p source existing) specs
     \<and> (\<forall>s \<in> set specs. unrecorded_spec p source existing s \<or> settled_spec p source existing s)"
proof (induction specs arbitrary: pending)
  case (Cons s ss)
  then show ?case
    by (auto simp: pending_specs_step rbind_Inr_iff simp del: pending_specs.simps split: if_splits)
qed simp

lemma settled_recorded: "settled_spec p source existing s \<Longrightarrow> \<not> unrecorded_spec p source existing s"
  by (auto simp: settled_spec_def unrecorded_spec_def split: option.splits)

lemma pending_specs_settled:
  "\<forall>s \<in> set specs. settled_spec p source existing s \<Longrightarrow> pending_specs p source existing specs = Inr []"
  by (induction specs) (simp_all add: pending_specs_step settled_recorded del: pending_specs.simps(2))

lemma insert_events_Inr:
  "insert_events runs es events = Inr events' \<Longrightarrow>
     events' = events @ es \<and> (\<forall>e \<in> set es. event_check e \<and> event_scope e \<in> run_scope_of ` set runs)
     \<and> (\<forall>e \<in> set es. \<forall>d \<in> set events. \<not> event_clash d e) \<and> sorted_wrt (\<lambda>d e. \<not> event_clash d e) es"
proof (induction es arbitrary: events)
  case (Cons e es)
  from Cons.prems have "insert_events runs es (events @ [e]) = Inr events'" by simp
  from Cons.IH [OF this] Cons.prems show ?case by auto
qed simp

section \<open>One append\<close>

definition new_rows ::
  "event_params \<Rightarrow> (nat \<Rightarrow> uuid) \<Rightarrow> task_row \<Rightarrow> run_row \<Rightarrow> string \<Rightarrow> string option \<Rightarrow> string option \<Rightarrow> instant
   \<Rightarrow> int \<Rightarrow> event_spec list \<Rightarrow> domain_event list" where
  "new_rows p ids task run source sid checkpoint at_time start pending =
     map (\<lambda>k. event_row p (ids k) task run source sid checkpoint at_time (start + int k) (pending ! k))
       [0..<length pending]"

lemma event_row_sel [simp]:
  "de_thread_id (event_row p i task run source sid checkpoint c n s) = tr_thread_id task"
  "de_run_id (event_row p i task run source sid checkpoint c n s) = rn_id run"
  "de_task_id (event_row p i task run source sid checkpoint c n s) = tr_id task"
  "de_event_type (event_row p i task run source sid checkpoint c n s) = es_event_type s"
  "de_payload_hash (event_row p i task run source sid checkpoint c n s) = es_payload_hash s"
  "de_payload (event_row p i task run source sid checkpoint c n s) = es_payload s"
  "de_source_event_key (event_row p i task run source sid checkpoint c n s) = stable_key p source s"
  "de_sequence (event_row p i task run source sid checkpoint c n s) = n"
  by (simp_all add: event_row_def)

lemma map_nth_upt: "map (\<lambda>k. f (xs ! k)) [0..<length xs] = map f xs"
  by (rule nth_equalityI) simp_all

lemma new_rows_maps:
  "map de_event_type (new_rows p ids task run source sid cp c start pending) = map es_event_type pending"
  "map de_payload_hash (new_rows p ids task run source sid cp c start pending) = map es_payload_hash pending"
  "map de_source_event_key (new_rows p ids task run source sid cp c start pending) = map (stable_key p source) pending"
  "map de_sequence (new_rows p ids task run source sid cp c start pending) = [start..start + int (length pending) - 1]"
proof -
  show "map de_sequence (new_rows p ids task run source sid cp c start pending) = [start..start + int (length pending) - 1]"
    by (rule nth_equalityI) (simp_all add: new_rows_def)
qed (simp_all add: new_rows_def o_def map_nth_upt)

lemma length_new_rows [simp]: "length (new_rows p ids task run source sid cp c start pending) = length pending"
  by (simp add: new_rows_def)

lemma set_new_rows:
  "e \<in> set (new_rows p ids task run source sid cp c start pending) \<Longrightarrow>
     de_thread_id e = tr_thread_id task \<and> de_run_id e = rn_id run \<and>
     (\<exists>s \<in> set pending. de_event_type e = es_event_type s \<and> de_payload_hash e = es_payload_hash s
        \<and> de_payload e = es_payload s \<and> de_source_event_key e = stable_key p source s)"
  by (auto simp: new_rows_def)

definition advanced :: "uuid \<Rightarrow> nat \<Rightarrow> thread_row list \<Rightarrow> thread_row list" where
  "advanced thread n threads = update_where (\<lambda>t. th_id t = thread)
     (\<lambda>t. t\<lparr>th_next_domain_event_sequence := th_next_domain_event_sequence t + int n\<rparr>) threads"

lemma append_event_specs_cases:
  assumes "append_event_specs p ids task run specs source sid cp c db = Inr (n, db')"
  obtains (unchanged) "n = 0" "db' = db" "\<forall>s \<in> set specs. settled_spec p source (run_events (rn_id run) db) s"
  | (appended) thread pending where
      "pending = filter (unrecorded_spec p source (run_events (rn_id run) db)) specs" "pending \<noteq> []"
      "\<forall>s \<in> set specs. s \<in> set pending \<or> settled_spec p source (run_events (rn_id run) db) s"
      "n = length pending" "thread \<in> set (ev_threads db)" "th_id thread = tr_thread_id task"
      "insert_events (ev_runs db) (new_rows p ids task run source sid cp c (th_next_domain_event_sequence thread) pending)
         (ev_events db) = Inr (ev_events db')"
      "db' = db\<lparr>ev_events := ev_events db @ new_rows p ids task run source sid cp c (th_next_domain_event_sequence thread) pending,
         ev_threads := advanced (tr_thread_id task) n (ev_threads db)\<rparr>"
proof (cases "specs = []")
  case True
  with assms show thesis by (intro unchanged) (simp_all add: append_event_specs_def)
next
  case False
  with assms obtain pending where pending: "pending_specs p source (run_events (rn_id run) db) specs = Inr pending"
    by (auto simp: append_event_specs_def rbind_Inr_iff)
  note filtered = pending_specs_filter [OF pending]
  show thesis
  proof (cases "pending = []")
    case True
    with filtered have all_settled: "\<forall>s \<in> set specs. settled_spec p source (run_events (rn_id run) db) s"
      by (metis filter_empty_conv)
    from assms False pending True all_settled show thesis
      by (intro unchanged) (simp_all add: append_event_specs_def)
  next
    case nonempty: False
    with assms False pending obtain thread where
      found: "find (\<lambda>t. th_id t = tr_thread_id task) (ev_threads db) = Some thread"
      by (auto simp: append_event_specs_def split: option.splits)
    let ?rows = "new_rows p ids task run source sid cp c (th_next_domain_event_sequence thread) pending"
    from assms False pending nonempty found obtain events where
      inserted: "insert_events (ev_runs db) ?rows (ev_events db) = Inr events" and n: "n = length pending"
      and db': "db' = db\<lparr>ev_events := events, ev_threads := advanced (tr_thread_id task) n (ev_threads db)\<rparr>"
      by (auto simp: append_event_specs_def rbind_Inr_iff new_rows_def advanced_def)
    from insert_events_Inr [OF inserted] have events: "events = ev_events db @ ?rows" by blast
    have here: "thread \<in> set (ev_threads db)" and that_one: "th_id thread = tr_thread_id task"
      using find_Some_iff2 [OF found] by simp_all
    have every: "\<forall>s \<in> set specs. s \<in> set pending \<or> settled_spec p source (run_events (rn_id run) db) s"
      using filtered by auto
    show thesis
      by (rule appended [OF conjunct1 [OF filtered] nonempty every n here that_one])
        (simp_all add: inserted db' events)
  qed
qed

section \<open>The log of a thread and of a run\<close>

definition thread_log :: "uuid \<Rightarrow> event_db \<Rightarrow> domain_event list" where
  "thread_log t db = filter (\<lambda>e. de_thread_id e = t) (ev_events db)"

definition run_log :: "uuid \<Rightarrow> event_db \<Rightarrow> domain_event list" where
  "run_log r db = filter (\<lambda>e. de_run_id e = r) (ev_events db)"

definition type_log :: "uuid \<Rightarrow> string \<Rightarrow> event_db \<Rightarrow> domain_event list" where
  "type_log r ty db = filter (\<lambda>e. de_event_type e = ty) (run_log r db)"

definition threads_counted :: "event_db \<Rightarrow> bool" where
  "threads_counted db \<longleftrightarrow> distinct (map th_id (ev_threads db))
     \<and> (\<forall>t \<in> set (ev_threads db). 1 \<le> th_next_domain_event_sequence t
          \<and> map de_sequence (thread_log (th_id t) db) = [1..th_next_domain_event_sequence t - 1])
     \<and> (\<forall>e \<in> set (ev_events db). de_thread_id e \<in> th_id ` set (ev_threads db))"

definition events_scoped :: "event_db \<Rightarrow> bool" where
  "events_scoped db \<longleftrightarrow> distinct (map rn_id (ev_runs db))
     \<and> (\<forall>e \<in> set (ev_events db). event_scope e \<in> run_scope_of ` set (ev_runs db))"

definition events_hashed :: "event_params \<Rightarrow> event_db \<Rightarrow> bool" where
  "events_hashed p db \<longleftrightarrow> (\<forall>e \<in> set (ev_events db). de_payload_hash e = event_payload_hash p (de_payload e))"

definition only_changes :: "event_db \<Rightarrow> bool" where
  "only_changes db \<longleftrightarrow> (\<forall>r ty. distinct_adj (map de_payload_hash (type_log r ty db)))"

definition events_keyed :: "event_params \<Rightarrow> event_db \<Rightarrow> bool" where
  "events_keyed p db \<longleftrightarrow>
     (\<forall>e \<in> set (ev_events db). \<exists>source. de_source_event_key e = ep_sha256 p source @ '':'' @ de_event_type e)"

definition logs_ok :: "event_params \<Rightarrow> event_db \<Rightarrow> bool" where
  "logs_ok p db \<longleftrightarrow> threads_counted db \<and> events_scoped db \<and> events_hashed p db
     \<and> events_keyed p db \<and> only_changes db"

text \<open>The events of a run are of one thread, so the database's order is the order of insertion.\<close>

lemma run_has_one_thread:
  assumes "events_scoped db" "d \<in> set (ev_events db)" "e \<in> set (ev_events db)" "de_run_id d = de_run_id e"
  shows "de_thread_id d = de_thread_id e"
proof -
  from assms(1-3) obtain q r where rows: "q \<in> set (ev_runs db)" "r \<in> set (ev_runs db)"
    and scopes: "event_scope d = run_scope_of q" "event_scope e = run_scope_of r"
    unfolding events_scoped_def by blast
  from scopes assms(4) have "rn_id q = rn_id r" by (simp add: event_scope_def run_scope_of_def)
  with assms(1) rows have "q = r" by (auto simp: events_scoped_def distinct_map inj_on_def)
  with scopes show ?thesis by (simp add: event_scope_def run_scope_of_def)
qed

lemma run_log_of_thread:
  assumes "events_scoped db"
  shows "\<exists>t. run_log r db = filter (\<lambda>e. de_run_id e = r) (thread_log t db)"
proof (cases "run_log r db = []")
  case True
  then show ?thesis by (auto simp: run_log_def thread_log_def filter_empty_conv)
next
  case False
  then obtain d where d: "d \<in> set (ev_events db)" "de_run_id d = r"
    by (auto simp: run_log_def filter_empty_conv)
  have "run_log r db = filter (\<lambda>e. de_run_id e = r) (thread_log (de_thread_id d) db)"
    unfolding run_log_def thread_log_def filter_filter
    by (rule filter_cong [OF refl]) (metis run_has_one_thread [OF assms] d)
  then show ?thesis ..
qed

lemma sorted_upto_map: "map f xs = [a..b] \<Longrightarrow> sorted (map f xs)" for f :: "'a \<Rightarrow> int"
  by simp

lemma run_events_sorted:
  assumes "threads_counted db" "events_scoped db"
  shows "run_events r db = run_log r db"
proof -
  obtain t where t: "run_log r db = filter (\<lambda>e. de_run_id e = r) (thread_log t db)"
    using run_log_of_thread [OF assms(2)] by blast
  have "sorted (map de_sequence (thread_log t db))"
  proof (cases "t \<in> th_id ` set (ev_threads db)")
    case True
    with assms(1) show ?thesis by (auto simp: threads_counted_def)
  next
    case False
    with assms(1) have "thread_log t db = []" by (auto simp: threads_counted_def thread_log_def filter_empty_conv)
    then show ?thesis by simp
  qed
  then have "sorted (map de_sequence (run_log r db))" unfolding t by (rule sorted_filter)
  then show ?thesis unfolding run_events_def run_log_def by (rule sort_key_id_if_sorted)
qed

end
