(* ===== verification/Domain_Event_Keep.thy ===== *)
theory Domain_Event_Keep
  imports Domain_Event_Log
begin

section \<open>An append keeps the log\<close>

lemma advanced_sel:
  "map th_id (advanced i n ts) = map th_id ts"
  "th_id ` set (advanced i n ts) = th_id ` set ts"
proof -
  show ids: "map th_id (advanced i n ts) = map th_id ts"
    by (simp add: advanced_def update_where_def)
  show "th_id ` set (advanced i n ts) = th_id ` set ts" by (metis ids list.set_map)
qed

lemma upto_join: "i \<le> j \<Longrightarrow> j \<le> k + 1 \<Longrightarrow> [i..j - 1] @ [j..k] = [i..k]" for i j k :: int
  by (cases "j = k + 1") (simp_all add: upto_split1 [of i j k])

lemma in_advanced:
  "t \<in> set (advanced i n ts) \<Longrightarrow> \<exists>u \<in> set ts. th_id t = th_id u \<and>
     th_next_domain_event_sequence t = th_next_domain_event_sequence u + (if th_id u = i then int n else 0)"
  by (auto simp: advanced_def update_where_def split: if_splits)

lemma same_type_one_row:
  assumes "sorted_wrt (\<lambda>d e. \<not> event_clash d e) rows"
    and "\<forall>e \<in> set rows. de_run_id e = r \<and> de_source_event_key e = f (de_event_type e)"
  shows "length (filter (\<lambda>e. de_event_type e = ty) rows) \<le> 1"
  using assms
proof (induction rows)
  case (Cons e rows)
  show ?case
  proof (cases "de_event_type e = ty")
    case True
    have "filter (\<lambda>d. de_event_type d = ty) rows = []"
      unfolding filter_empty_conv using Cons.prems True by (auto simp: event_clash_def)
    then show ?thesis by simp
  qed (use Cons in auto)
qed simp

lemma threads_counted_append:
  assumes counted: "threads_counted db" and thread: "thread \<in> set (ev_threads db)"
    and rows: "\<forall>e \<in> set rows. de_thread_id e = th_id thread"
    and numbered: "map de_sequence rows = [th_next_domain_event_sequence thread..th_next_domain_event_sequence thread + int (length rows) - 1]"
  shows "threads_counted (db\<lparr>ev_events := ev_events db @ rows, ev_threads := advanced (th_id thread) (length rows) (ev_threads db)\<rparr>)"
    (is "threads_counted ?db'")
proof -
  have log: "thread_log t ?db' = thread_log t db @ (if t = th_id thread then rows else [])" for t
    using rows by (auto simp: thread_log_def intro: filter_True filter_False)
  have one: "u = thread" if "u \<in> set (ev_threads db)" "th_id u = th_id thread" for u
    using counted thread that by (auto simp: threads_counted_def distinct_map inj_on_def)
  have "1 \<le> th_next_domain_event_sequence t
      \<and> map de_sequence (thread_log (th_id t) ?db') = [1..th_next_domain_event_sequence t - 1]"
    if t: "t \<in> set (ev_threads ?db')" for t
  proof -
    from t in_advanced [of t "th_id thread" "length rows" "ev_threads db"] obtain u where
      u: "u \<in> set (ev_threads db)" "th_id t = th_id u" and counter: "th_next_domain_event_sequence t
        = th_next_domain_event_sequence u + (if th_id u = th_id thread then int (length rows) else 0)"
      by auto
    from counted u(1) have old: "1 \<le> th_next_domain_event_sequence u"
      "map de_sequence (thread_log (th_id u) db) = [1..th_next_domain_event_sequence u - 1]"
      by (auto simp: threads_counted_def)
    show ?thesis
    proof (cases "th_id u = th_id thread")
      case True
      with one u(1) have "u = thread" by blast
      with old numbered counter u(2) show ?thesis
        by (simp add: log upto_join)
    qed (use old counter u(2) log in simp)
  qed
  moreover have "de_thread_id e \<in> th_id ` set (ev_threads ?db')" if "e \<in> set (ev_events ?db')" for e
    using that counted rows thread by (auto simp: threads_counted_def advanced_sel)
  ultimately show ?thesis using counted by (simp add: threads_counted_def advanced_sel)
qed

lemma only_changes_append:
  assumes changes: "only_changes db" and log: "run_events r db = run_log r db"
    and rows: "\<forall>e \<in> set rows. de_run_id e = r \<and> de_source_event_key e = f (de_event_type e)
        \<and> opt_ok (\<lambda>d. de_payload_hash d \<noteq> de_payload_hash e) (last_with de_event_type (de_event_type e) (run_events r db))"
    and apart: "sorted_wrt (\<lambda>d e. \<not> event_clash d e) rows"
  shows "only_changes (db\<lparr>ev_events := ev_events db @ rows, ev_threads := ts\<rparr>)" (is "only_changes ?db'")
  unfolding only_changes_def
proof (intro allI)
  fix q ty
  show "distinct_adj (map de_payload_hash (type_log q ty ?db'))"
  proof (cases "q = r")
    case False
    with rows have "type_log q ty ?db' = type_log q ty db"
      by (auto simp: type_log_def run_log_def filter_empty_conv)
    with changes show ?thesis by (simp add: only_changes_def)
  next
    case True
    let ?new = "filter (\<lambda>e. de_event_type e = ty) rows"
    have split: "type_log q ty ?db' = type_log q ty db @ ?new"
      using rows True by (auto simp: type_log_def run_log_def intro!: arg_cong [where f = "filter _"] filter_True)
    have old: "distinct_adj (map de_payload_hash (type_log q ty db))"
      using changes by (simp add: only_changes_def)
    have "length ?new \<le> 1" by (rule same_type_one_row [OF apart, of r f]) (use rows in blast)
    then consider "?new = []" | e where "?new = [e]" by (cases ?new) auto
    then show ?thesis
    proof cases
      case 1
      with split old show ?thesis by simp
    next
      case 2
      then have "e \<in> set ?new" by (simp only: list.set_intros)
      then have e: "e \<in> set rows" "de_event_type e = ty" by simp_all
      with rows have "opt_ok (\<lambda>d. de_payload_hash d \<noteq> de_payload_hash e) (last_with de_event_type ty (run_log r db))"
        unfolding log [symmetric] by blast
      then have "type_log q ty db = [] \<or> de_payload_hash (last (type_log q ty db)) \<noteq> de_payload_hash e"
        by (auto simp: last_with_last type_log_def True Let_def split: if_splits)
      with 2 split old show ?thesis
        by (auto simp: distinct_adj_append_iff last_map)
    qed
  qed
qed


lemma append_keeps_logs:
  assumes ok: "logs_ok p db" and append: "append_event_specs p ids task run specs source sid cp c db = Inr (n, db')"
    and hashed: "\<forall>s \<in> set specs. es_payload_hash s = event_payload_hash p (es_payload s)"
  shows "logs_ok p db' \<and> (\<exists>rows. ev_events db' = ev_events db @ rows \<and> length rows = n)"
  using append
proof (cases rule: append_event_specs_cases)
  case unchanged
  with ok show ?thesis by simp
next
  case (appended thread pending)
  let ?rows = "new_rows p ids task run source sid cp c (th_next_domain_event_sequence thread) pending"
  from ok have parts: "threads_counted db" "events_scoped db" "events_hashed p db" "events_keyed p db" "only_changes db"
    by (simp_all add: logs_ok_def)
  have count: "length ?rows = n" using appended(4) by simp
  note inserted = insert_events_Inr [OF appended(7)]
  note row = set_new_rows [of _ p ids task run source sid cp c "th_next_domain_event_sequence thread" pending]
  have "threads_counted (db\<lparr>ev_events := ev_events db @ ?rows, ev_threads := advanced (th_id thread) (length ?rows) (ev_threads db)\<rparr>)"
    by (rule threads_counted_append [OF parts(1) appended(5)])
      (use row appended(6) in \<open>simp_all add: new_rows_maps\<close>)
  then have "threads_counted db'" unfolding appended(8) count appended(6) .
  moreover have "events_scoped db'"
    using parts(2) inserted unfolding appended(8) events_scoped_def by auto
  moreover have "events_hashed p db'"
    using parts(3) hashed row appended(1) unfolding appended(8) events_hashed_def by fastforce
  moreover have "events_keyed p db'"
    using parts(4) row unfolding appended(8) events_keyed_def stable_key_def by fastforce
  moreover have "only_changes db'"
    unfolding appended(8)
  proof (rule only_changes_append [where r = "rn_id run" and f = "\<lambda>ty. ep_sha256 p source @ '':'' @ ty"])
    show "only_changes db" by (rule parts(5))
    show "run_events (rn_id run) db = run_log (rn_id run) db" by (rule run_events_sorted [OF parts(1,2)])
    show "sorted_wrt (\<lambda>d e. \<not> event_clash d e) ?rows" using inserted by blast
    show "\<forall>e \<in> set ?rows. de_run_id e = rn_id run \<and> de_source_event_key e = ep_sha256 p source @ '':'' @ de_event_type e
        \<and> opt_ok (\<lambda>d. de_payload_hash d \<noteq> de_payload_hash e)
            (last_with de_event_type (de_event_type e) (run_events (rn_id run) db))"
    proof
      fix e assume "e \<in> set ?rows"
      from row [OF this] obtain s where s: "s \<in> set pending" "de_run_id e = rn_id run" "de_event_type e = es_event_type s"
        "de_payload_hash e = es_payload_hash s" "de_source_event_key e = stable_key p source s" by blast
      from s(1) have "unrecorded_spec p source (run_events (rn_id run) db) s" unfolding appended(1) by simp
      with s(2-) show "de_run_id e = rn_id run \<and> de_source_event_key e = ep_sha256 p source @ '':'' @ de_event_type e
        \<and> opt_ok (\<lambda>d. de_payload_hash d \<noteq> de_payload_hash e)
            (last_with de_event_type (de_event_type e) (run_events (rn_id run) db))"
        by (simp add: unrecorded_spec_def stable_key_def)
    qed
  qed
  ultimately show ?thesis using appended(8) count by (auto simp: logs_ok_def)
qed

section \<open>The transactions\<close>

lemma mk_event_spec_hashed [simp]:
  "es_payload_hash (mk_event_spec p ty ref j) = event_payload_hash p (es_payload (mk_event_spec p ty ref j))"
  by (simp add: mk_event_spec_def)

definition all_hashed :: "event_params \<Rightarrow> event_spec list \<Rightarrow> bool" where
  "all_hashed p specs \<longleftrightarrow> (\<forall>s \<in> set specs. es_payload_hash s = event_payload_hash p (es_payload s))"

lemma all_hashed_simps [simp]:
  "all_hashed p []" "all_hashed p (mk_event_spec p ty ref j # specs) = all_hashed p specs"
  "all_hashed p (xs @ ys) = (all_hashed p xs \<and> all_hashed p ys)"
  by (auto simp: all_hashed_def)

lemma all_hashed_both: "both a b = Inr specs \<Longrightarrow> (\<And>xs. a = Inr xs \<Longrightarrow> all_hashed p xs) \<Longrightarrow>
    (\<And>ys. b = Inr ys \<Longrightarrow> all_hashed p ys) \<Longrightarrow> all_hashed p specs"
  by (auto simp: both_def rbind_Inr_iff)

lemma parts_hashed:
  "object_specs p f ty ref j = Inr specs \<Longrightarrow> all_hashed p specs"
  "evidence_specs p ref j = Inr specs \<Longrightarrow> all_hashed p specs"
  "report_specs p ref j = Inr specs \<Longrightarrow> all_hashed p specs"
  by (auto simp: object_specs_def evidence_specs_def report_specs_def rbind_Inr_iff split: if_splits json.splits)

lemma node_specs_hashed: "node_specs p node u = Inr specs \<Longrightarrow> all_hashed p specs"
  unfolding node_specs_def
  by (auto split: if_split_asm elim: all_hashed_both dest: parts_hashed)

lemma progressive_hashed: "progressive_event_specs p updates = Inr specs \<Longrightarrow> all_hashed p specs"
  by (induction p updates arbitrary: specs rule: progressive_event_specs.induct)
    (auto elim!: all_hashed_both dest: node_specs_hashed)

lemma output_parts_hashed [simp]:
  "all_hashed p (market_specs p out)" "all_hashed p (final_evidence_specs p out)"
  "all_hashed p (field_specs p j ty field)" "all_hashed p (artifact_specs p out)"
proof -
  show field: "all_hashed p (field_specs p j ty field)" for j ty field
    by (simp add: field_specs_def Let_def)
  show "all_hashed p (artifact_specs p out)" by (simp add: artifact_specs_def Let_def field)
qed (simp_all add: market_specs_def final_evidence_specs_def Let_def split: json.split)

lemma final_hashed: "domain_event_specs p out payload = Inr specs \<Longrightarrow> all_hashed p specs"
  unfolding domain_event_specs_def rbind_Inr_iff by (auto simp: parts_hashed split: option.split)

lemmas append_defs = append_domain_events_def append_progressive_events_def

lemma transactions_keep_logs:
  assumes "logs_ok p db"
  shows "append_domain_events p ids task run output payload c db = Inr (n, db') \<Longrightarrow>
      logs_ok p db' \<and> (\<exists>rows. ev_events db' = ev_events db @ rows \<and> length rows = n)"
    and "append_progressive_events p ids task run updates sid cp c db = Inr (n, db') \<Longrightarrow>
      logs_ok p db' \<and> (\<exists>rows. ev_events db' = ev_events db @ rows \<and> length rows = n)"
  using append_keeps_logs [OF assms, folded all_hashed_def] final_hashed progressive_hashed
  unfolding append_defs rbind_Inr_iff ensure_Inr_iff by blast+

lemma dispatch_cases:
  assumes "dispatch_projection p ids busy run_id now db = Inr (b, db')"
  obtains (idle) "\<not> b" "db' = db"
  | (projected) run task out n where "b"
      "first_by by_finished (candidate_runs busy run_id db) = Some (run, task)"
      "rn_output_payload run = Some out" "is_mapping out"
      "append_domain_events p ids task run out (latest_notification_payload (rn_id run) db)
         (case rn_finished_at run of None \<Rightarrow> now | Some t \<Rightarrow> t) db = Inr (n, db')"
  using assms unfolding dispatch_projection_def
  by (auto simp: rbind_Inr_iff split: option.splits json.splits)

text \<open>
  The log under every interleaving: events streamed from a running graph, events of a finished
  run, the projection worker, new threads, and other transactions on runs, tasks and the outbox,
  which keep the scope of every run.
\<close>

inductive event_step :: "event_params \<Rightarrow> event_db \<Rightarrow> event_db \<Rightarrow> bool" for p where
  streamed: "append_progressive_events p ids task run updates sid cp c db = Inr (n, db') \<Longrightarrow> event_step p db db'"
| finished: "append_domain_events p ids task run output payload c db = Inr (n, db') \<Longrightarrow> event_step p db db'"
| projected: "dispatch_projection p ids busy run_id now db = Inr (b, db') \<Longrightarrow> event_step p db db'"
| thread_created: "th_id t \<notin> th_id ` set (ev_threads db) \<Longrightarrow> th_next_domain_event_sequence t = 1 \<Longrightarrow>
    event_step p db (db\<lparr>ev_threads := t # ev_threads db\<rparr>)"
| rows_written: "distinct (map rn_id runs) \<Longrightarrow> run_scope_of ` set (ev_runs db) \<subseteq> run_scope_of ` set runs \<Longrightarrow>
    event_step p db (db\<lparr>ev_runs := runs, ev_tasks := tasks, ev_outbox := outbox\<rparr>)"

lemma thread_created_keeps_logs:
  assumes "logs_ok p db" "th_id t \<notin> th_id ` set (ev_threads db)" "th_next_domain_event_sequence t = 1"
  shows "logs_ok p (db\<lparr>ev_threads := t # ev_threads db\<rparr>)"
proof -
  from assms(1) have "\<forall>e \<in> set (ev_events db). de_thread_id e \<in> th_id ` set (ev_threads db)"
    by (simp add: logs_ok_def threads_counted_def)
  with assms(2) have "thread_log (th_id t) db = []" unfolding thread_log_def filter_empty_conv by metis
  with assms show ?thesis
    by (auto simp: logs_ok_def threads_counted_def events_scoped_def events_hashed_def events_keyed_def
        only_changes_def thread_log_def type_log_def run_log_def)
qed

lemma rows_written_keeps_logs:
  assumes "logs_ok p db" "distinct (map rn_id runs)" "run_scope_of ` set (ev_runs db) \<subseteq> run_scope_of ` set runs"
  shows "logs_ok p (db\<lparr>ev_runs := runs, ev_tasks := tasks, ev_outbox := outbox\<rparr>)"
  using assms by (auto simp: logs_ok_def threads_counted_def events_scoped_def events_hashed_def events_keyed_def
      only_changes_def thread_log_def type_log_def run_log_def)

lemma event_step_keeps_logs:
  assumes "event_step p db db'" "logs_ok p db"
  shows "logs_ok p db' \<and> (\<exists>rows. ev_events db' = ev_events db @ rows)"
  using assms
proof cases
  case (projected ids busy run_id now b)
  from projected show ?thesis
  proof (cases rule: dispatch_cases)
    case projected: (projected run task out n)
    with transactions_keep_logs(1) [OF assms(2)] show ?thesis by blast
  qed (use assms in simp)
next
  case (thread_created t)
  with thread_created_keeps_logs [OF assms(2)] show ?thesis by simp
next
  case (rows_written runs tasks outbox)
  with rows_written_keeps_logs [OF assms(2)] show ?thesis by simp
qed (use transactions_keep_logs [OF assms(2)] in blast)+

lemma event_steps_keep_logs:
  "(event_step p)\<^sup>*\<^sup>* db db' \<Longrightarrow> logs_ok p db \<Longrightarrow> logs_ok p db' \<and> (\<exists>rows. ev_events db' = ev_events db @ rows)"
proof (induction rule: rtranclp_induct)
  case (step db1 db2)
  then obtain rows where "logs_ok p db1" "ev_events db1 = ev_events db @ rows" by blast
  with event_step_keeps_logs [OF step.hyps(2)] show ?case by fastforce
qed simp

end
