(* ===== verification/Domain_Event_Replay.thy ===== *)
theory Domain_Event_Replay
  imports Domain_Event_Keep
begin

text \<open>
  Appending the same events again, and the progress of the projection worker: a run whose output
  has the expected shape is complete after one round; a failed run without evidence never is.
\<close>

section \<open>Replays\<close>

lemma stable_key_type: "stable_key p source s = stable_key p source t \<longleftrightarrow> es_event_type s = es_event_type t"
  by (simp add: stable_key_def)

lemma last_with_unique:
  assumes "r \<in> set rows" "\<And>q. q \<in> set rows \<Longrightarrow> key q = key r \<Longrightarrow> q = r"
  shows "last_with key (key r) rows = Some r"
proof (cases "last_with key (key r) rows")
  case None
  with assms(1) show ?thesis by (auto simp: last_with_None_iff)
next
  case (Some q)
  from last_with_Some [OF this] assms(2) have "q = r" by blast
  with Some show ?thesis by simp
qed

text \<open>After an append every one of its specs is settled, when their types differ.\<close>

lemma distinct_types_eq:
  "distinct (map es_event_type specs) \<Longrightarrow> s \<in> set specs \<Longrightarrow> t \<in> set specs \<Longrightarrow> es_event_type s = es_event_type t \<Longrightarrow> s = t"
  by (auto simp: distinct_map inj_on_def)

lemma settled_by_new_row:
  assumes types: "distinct (map es_event_type specs)" "set pending \<subseteq> set specs" "distinct (map es_event_type pending)"
    and s: "s \<in> set pending" and hashed: "es_payload_hash s = event_payload_hash p (es_payload s)"
  shows "settled_spec p source (existing @ new_rows p ids task run source sid cp c start pending) s"
proof -
  let ?rows = "new_rows p ids task run source sid cp c start pending"
  have "stable_key p source s \<in> set (map de_source_event_key ?rows)" using s by (simp add: new_rows_maps)
  then have "last_with de_source_event_key (stable_key p source s) ?rows \<noteq> None" by (simp add: last_with_None_iff)
  then obtain e where e: "last_with de_source_event_key (stable_key p source s) ?rows = Some e" by blast
  from last_with_Some [OF this] set_new_rows [of e p ids task run source sid cp c start pending] obtain t where
    t: "t \<in> set pending" "de_payload_hash e = es_payload_hash t" "de_payload e = es_payload t"
      "stable_key p source t = stable_key p source s" by auto
  then have "t = s" using types s distinct_types_eq [of specs t s] by (auto simp: stable_key_type)
  with t e hashed show ?thesis by (simp add: settled_spec_def last_with_append)
qed

lemma settled_stays:
  assumes types: "distinct (map es_event_type specs)" "set pending \<subseteq> set specs"
    and s: "s \<in> set specs" "s \<notin> set pending" and old: "settled_spec p source existing s"
  shows "settled_spec p source (existing @ new_rows p ids task run source sid cp c start pending) s"
proof -
  let ?rows = "new_rows p ids task run source sid cp c start pending"
  have "es_event_type s \<notin> set (map es_event_type pending)"
    using types s distinct_types_eq [of specs s] by auto
  then have "last_with de_event_type (es_event_type s) ?rows = None"
    unfolding last_with_None_iff using new_rows_maps(1) [of p ids task run source sid cp c start pending]
    by (metis list.set_map)
  moreover have "stable_key p source s \<notin> set (map (stable_key p source) pending)"
    using \<open>es_event_type s \<notin> _\<close> by (auto simp: stable_key_type)
  then have "last_with de_source_event_key (stable_key p source s) ?rows = None"
    unfolding last_with_None_iff using new_rows_maps(3) [of p ids task run source sid cp c start pending]
    by (metis list.set_map)
  ultimately show ?thesis using old by (simp add: settled_spec_def last_with_append cong: option.case_cong)
qed

lemma append_extends_run_log:
  "run_log (rn_id run) (db\<lparr>ev_events := ev_events db @ new_rows p ids task run source sid cp c start pending, ev_threads := ts\<rparr>)
     = run_log (rn_id run) db @ new_rows p ids task run source sid cp c start pending"
  by (auto simp: run_log_def intro!: filter_True dest: set_new_rows)

lemma append_settles:
  assumes ok: "logs_ok p db" and append: "append_event_specs p ids task run specs source sid cp c db = Inr (n, db')"
    and types: "distinct (map es_event_type specs)" and hashed: "all_hashed p specs" and s: "s \<in> set specs"
  shows "settled_spec p source (run_events (rn_id run) db') s"
  using append
proof (cases rule: append_event_specs_cases)
  case unchanged
  with s show ?thesis by simp
next
  case (appended thread pending)
  have logs: "run_events (rn_id run) d = run_log (rn_id run) d" if "logs_ok p d" for d
    using that run_events_sorted unfolding logs_ok_def by blast
  have "logs_ok p db'" using append_keeps_logs [OF ok append] hashed by (simp add: all_hashed_def)
  then have after: "run_events (rn_id run) db' = run_events (rn_id run) db
      @ new_rows p ids task run source sid cp c (th_next_domain_event_sequence thread) pending"
    by (simp add: logs ok) (simp add: appended(8) append_extends_run_log)
  have sub: "set pending \<subseteq> set specs" and pending_types: "distinct (map es_event_type pending)"
    using types by (auto simp: appended(1) distinct_map_filter)
  show ?thesis
  proof (cases "s \<in> set pending")
    case True
    with settled_by_new_row [OF types sub pending_types] hashed s show ?thesis
      by (simp add: after all_hashed_def)
  next
    case False
    with settled_stays [OF types sub s] appended(3) s show ?thesis by (auto simp: after)
  qed
qed

lemma settled_append_unchanged:
  "\<forall>s \<in> set specs. settled_spec p source (run_events (rn_id run) db) s \<Longrightarrow>
     append_event_specs p ids task run specs source sid cp c db = Inr (0, db)"
  by (simp add: append_event_specs_def pending_specs_settled)

lemma append_replays:
  assumes "logs_ok p db" "append_event_specs p ids task run specs source sid cp c db = Inr (n, db')"
    and "distinct (map es_event_type specs)" "all_hashed p specs"
  shows "append_event_specs p ids' task run specs source sid' cp' c' db' = Inr (0, db')"
  using append_settles [OF assms] by (blast intro: settled_append_unchanged)

text \<open>The output of a finished run carries one artifact at most, so its events differ in type.\<close>

definition one_artifact :: "json \<Rightarrow> bool" where
  "one_artifact out \<longleftrightarrow> \<not> (is_mapping (get_or_null ''artifact'' out) \<and> is_mapping (get_or_null ''deep_research_artifact'' out))"

lemma spec_types [simp]: "es_event_type (mk_event_spec p ty ref j) = ty"
  by (simp add: mk_event_spec_def)

lemma market_types: "map es_event_type (market_specs p out) \<in> {[], [''market.snapshot.committed'']}"
  by (simp add: market_specs_def Let_def)

lemma evidence_types: "map es_event_type (final_evidence_specs p out) \<in> {[], [''research.evidence.committed'']}"
  by (simp add: final_evidence_specs_def split: json.split)

lemma report_types: "report_specs p ref j = Inr specs \<Longrightarrow>
    map es_event_type specs \<in> {[], [''agent.output.committed''], [''agent.output.committed'', ''artifact.committed'']}
    \<and> (\<not> is_mapping j \<longrightarrow> specs = [])"
  by (auto simp: report_specs_def rbind_Inr_iff split: if_splits)

lemma field_types: "map es_event_type (field_specs p j ty field) \<in> {[], [ty]}"
  by (simp add: field_specs_def Let_def)

definition types_within :: "string set \<Rightarrow> event_spec list \<Rightarrow> bool" where
  "types_within A specs \<longleftrightarrow> distinct (map es_event_type specs) \<and> es_event_type ` set specs \<subseteq> A"

lemma types_withinI: "map es_event_type specs = tys \<Longrightarrow> distinct tys \<Longrightarrow> set tys \<subseteq> A \<Longrightarrow> types_within A specs"
  unfolding types_within_def by (metis list.set_map)

lemma types_within_append:
  "types_within A xs \<Longrightarrow> types_within B ys \<Longrightarrow> A \<inter> B = {} \<Longrightarrow> types_within (A \<union> B) (xs @ ys)"
  by (auto simp: types_within_def)

lemma types_within_Nil [simp]: "types_within A []"
  by (simp add: types_within_def)

lemma parts_within:
  "types_within {''market.snapshot.committed''} (market_specs p out)"
  "types_within {''research.evidence.committed''} (final_evidence_specs p out)"
  "types_within {ty} (field_specs p j ty field)"
  using market_types [of p out] evidence_types [of p out] field_types [of p j ty field]
  by (auto intro!: types_withinI)

definition COMMITTED :: "string set" where
  "COMMITTED = {''agent.output.committed'', ''evidence.verdict.committed'', ''risk.verdict.committed'', ''artifact.committed''}"

lemma artifact_within: "types_within COMMITTED (artifact_specs p out)"
proof -
  define art where "art = get_or_null ''artifact'' out"
  have tail: "types_within {''artifact.committed''}
      (if get_or_null ''status'' art = JStr ''committed'' then [mk_event_spec p ''artifact.committed'' r art] else [])" for r
    by (simp add: types_within_def)
  have "types_within ({''agent.output.committed''} \<union> ({''evidence.verdict.committed''} \<union> ({''risk.verdict.committed''} \<union> {''artifact.committed''})))
     (field_specs p art ''agent.output.committed'' ''analysis'' @ (field_specs p art ''evidence.verdict.committed'' ''evidence_verdict''
       @ (field_specs p art ''risk.verdict.committed'' ''risk_verdict''
       @ (if get_or_null ''status'' art = JStr ''committed'' then [mk_event_spec p ''artifact.committed'' r art] else []))))" for r
    by (intro types_within_append parts_within tail) simp_all
  then show ?thesis unfolding artifact_specs_def Let_def art_def [symmetric] COMMITTED_def
    by (simp add: insert_commute)
qed

lemma final_types_distinct:
  assumes specs: "domain_event_specs p out payload = Inr specs" and one: "one_artifact out"
  shows "distinct (map es_event_type specs)"
proof -
  from specs obtain research where research:
      "report_specs p ''output_payload#/deep_research_artifact'' (get_or_null ''deep_research_artifact'' out) = Inr research"
    and all: "specs = market_specs p out @ final_evidence_specs p out @ (artifact_specs p out @ research)
        @ (case payload of None \<Rightarrow> [] | Some payload \<Rightarrow> [mk_event_spec p ''notification.planned'' ''notification_outbox#/payload'' payload])
        @ [mk_event_spec p ''run.terminal'' ''output_payload#'' out]"
    by (auto simp: domain_event_specs_def rbind_Inr_iff)
  have "artifact_specs p out = [] \<or> research = []"
    using one report_types [OF research] by (auto simp: one_artifact_def artifact_specs_def Let_def)
  moreover have "types_within COMMITTED research"
    using report_types [OF research] by (auto simp: COMMITTED_def intro!: types_withinI)
  ultimately have "types_within COMMITTED (artifact_specs p out @ research)" using artifact_within by auto
  then have "types_within ({''market.snapshot.committed''} \<union> ({''research.evidence.committed''} \<union> (COMMITTED
      \<union> ({''notification.planned''} \<union> {''run.terminal''})))) specs"
    unfolding all by (intro types_within_append parts_within) (auto simp: COMMITTED_def types_within_def split: option.split)
  then show ?thesis by (simp add: types_within_def)
qed

lemma final_append_replays:
  assumes ok: "logs_ok p db" and append: "append_domain_events p ids task run out payload c db = Inr (n, db')"
    and one: "one_artifact out"
  shows "append_domain_events p ids' task run out payload c' db' = Inr (0, db')"
proof -
  from append obtain specs where specs: "domain_event_specs p out payload = Inr specs"
    and step: "append_event_specs p ids task run specs (''terminal:'' @ event_payload_hash p out) None
         (rn_checkpoint_id run) c db = Inr (n, db')"
    by (auto simp: append_domain_events_def rbind_Inr_iff)
  from append_replays [OF ok step final_types_distinct [OF specs one] final_hashed [OF specs]] specs
  show ?thesis by (simp add: append_domain_events_def)
qed

end
