(* ===== verification/Domain_Event_Progress.thy ===== *)
theory Domain_Event_Progress
  imports Domain_Event_Replay
begin

section \<open>What the log of a run misses\<close>

definition fixed_digest :: "event_params \<Rightarrow> bool" where
  \<comment> \<open>the hexadecimal text of a SHA-256 digest\<close>
  "fixed_digest p \<longleftrightarrow> (\<forall>s. length (ep_sha256 p s) = 64)"

lemma settled_type:
  assumes "logs_ok p db" "fixed_digest p" "settled_spec p source (run_events r db) s"
  shows "es_event_type s \<in> event_types_of r db"
proof -
  have log: "run_events r db = run_log r db" using assms(1) run_events_sorted unfolding logs_ok_def by blast
  from assms(3) obtain e where e: "e \<in> set (run_log r db)"
      "de_source_event_key e = stable_key p source s \<or> de_event_type e = es_event_type s"
    unfolding settled_spec_def log by (auto split: option.splits dest!: last_with_Some)
  have "de_event_type e = es_event_type s"
    using e(2)
  proof
    assume key: "de_source_event_key e = stable_key p source s"
    from e(1) assms(1) obtain src where "de_source_event_key e = ep_sha256 p src @ '':'' @ de_event_type e"
      unfolding logs_ok_def events_keyed_def run_log_def by (metis mem_Collect_eq set_filter)
    with key have "ep_sha256 p src @ '':'' @ de_event_type e = ep_sha256 p source @ '':'' @ es_event_type s"
      by (simp add: stable_key_def)
    moreover have "length (ep_sha256 p src) = length (ep_sha256 p source)" using assms(2) by (simp add: fixed_digest_def)
    ultimately show ?thesis by simp
  qed
  with e(1) show ?thesis by (auto simp: event_types_of_def run_log_def image_iff intro!: bexI [of _ e])
qed

lemma append_rows:
  assumes "append_event_specs p ids task run specs source sid cp c db = Inr (n, db')"
  shows "ev_runs db' = ev_runs db" "ev_tasks db' = ev_tasks db" "ev_outbox db' = ev_outbox db"
    "r \<noteq> rn_id run \<Longrightarrow> event_types_of r db' = event_types_of r db"
    "event_types_of (rn_id run) db' \<subseteq> event_types_of (rn_id run) db \<union> es_event_type ` set specs"
  using assms by (cases rule: append_event_specs_cases; auto simp: event_types_of_def dest!: set_new_rows)+

lemma final_append_rows:
  assumes "append_domain_events p ids task run out payload c db = Inr (n, db')"
  shows "ev_runs db' = ev_runs db" "ev_tasks db' = ev_tasks db" "ev_outbox db' = ev_outbox db"
    "r \<noteq> rn_id run \<Longrightarrow> event_types_of r db' = event_types_of r db"
    "domain_event_specs p out payload = Inr specs \<Longrightarrow>
       event_types_of (rn_id run) db' \<subseteq> event_types_of (rn_id run) db \<union> es_event_type ` set specs"
  using assms append_rows unfolding append_domain_events_def rbind_Inr_iff by (metis sum.inject(2))+

lemma final_append_types:
  assumes "logs_ok p db" "fixed_digest p" "append_domain_events p ids task run out payload c db = Inr (n, db')"
    "one_artifact out" "domain_event_specs p out payload = Inr specs"
  shows "es_event_type ` set specs \<subseteq> event_types_of (rn_id run) db'"
proof -
  from assms(3,5) have step: "append_event_specs p ids task run specs (''terminal:'' @ event_payload_hash p out) None
         (rn_checkpoint_id run) c db = Inr (n, db')"
    by (simp add: append_domain_events_def)
  have "logs_ok p db'" using transactions_keep_logs(1) [OF assms(1,3)] by blast
  from settled_type [OF this assms(2)] append_settles [OF assms(1) step final_types_distinct [OF assms(5,4)] final_hashed [OF assms(5)]]
  show ?thesis by blast
qed

section \<open>Outputs the worker can complete\<close>

definition projectable :: "json \<Rightarrow> bool" where
  "projectable out \<longleftrightarrow> is_mapping out \<and> one_artifact out
     \<and> (\<forall>path \<in> {[''market_snapshot''], [''artifact''], [''artifact'', ''analysis''],
           [''artifact'', ''evidence_verdict''], [''artifact'', ''risk_verdict'']}. opt_ok is_mapping (json_at path out))
     \<and> (case json_at [''web_evidence''] out of
          None \<Rightarrow> json_at [''artifact''] out = None
        | Some (JArr items) \<Rightarrow> items \<noteq> [] \<or> is_mapping (get_or_null ''artifact'' out)
            \<or> is_mapping (get_or_null ''deep_research_artifact'' out)
        | _ \<Rightarrow> False)"

lemma json_at_simps [simp]:
  "json_at [k] j = json_get k j"
  "json_at [k, l] j = Option.bind (json_get k j) (json_get l)"
  by (simp_all add: json_at_def)

lemma market_expected: "opt_ok is_mapping (json_get ''market_snapshot'' out) \<Longrightarrow> json_get ''market_snapshot'' out \<noteq> None \<Longrightarrow>
    ''market.snapshot.committed'' \<in> es_event_type ` set (market_specs p out)"
  by (auto simp: market_specs_def get_or_null_def)

lemma field_expected: "json_get field j = Some v \<Longrightarrow> is_mapping v \<Longrightarrow> ty \<in> es_event_type ` set (field_specs p j ty field)"
  by (simp add: field_specs_def get_or_null_def)

lemma artifact_expected:
  assumes "json_get ''artifact'' out = Some art" "is_mapping art"
  shows "json_get ''analysis'' art = Some v \<Longrightarrow> is_mapping v \<Longrightarrow> ''agent.output.committed'' \<in> es_event_type ` set (artifact_specs p out)"
    and "json_get ''evidence_verdict'' art = Some v \<Longrightarrow> is_mapping v \<Longrightarrow> ''evidence.verdict.committed'' \<in> es_event_type ` set (artifact_specs p out)"
    and "json_get ''risk_verdict'' art = Some v \<Longrightarrow> is_mapping v \<Longrightarrow> ''risk.verdict.committed'' \<in> es_event_type ` set (artifact_specs p out)"
    and "json_get ''status'' art = Some (JStr ''committed'') \<Longrightarrow> ''artifact.committed'' \<in> es_event_type ` set (artifact_specs p out)"
  using assms by (auto simp: artifact_specs_def get_or_null_def Let_def image_Un dest: field_expected)

lemma evidence_expected:
  assumes "projectable out" "json_get ''artifact'' out \<noteq> None \<or> json_get ''web_evidence'' out \<noteq> None"
  shows "''research.evidence.committed'' \<in> es_event_type ` set (final_evidence_specs p out)"
  using assms by (auto simp: projectable_def final_evidence_specs_def get_or_null_def split: option.splits json.splits)

lemma in_if_list: "y \<in> set (if c then [x] else []) \<longleftrightarrow> c \<and> y = x"
  by (cases c) auto

lemma expected_cases:
  assumes "ty \<in> set (expected_types notified out)"
  obtains "ty = ''run.terminal''"
  | "ty = ''market.snapshot.committed''" "json_at [''market_snapshot''] out \<noteq> None"
  | "ty = ''research.evidence.committed''" "json_at [''artifact''] out \<noteq> None \<or> json_at [''web_evidence''] out \<noteq> None"
  | "ty = ''agent.output.committed''" "json_at [''artifact'', ''analysis''] out \<noteq> None"
  | "ty = ''evidence.verdict.committed''" "json_at [''artifact'', ''evidence_verdict''] out \<noteq> None"
  | "ty = ''risk.verdict.committed''" "json_at [''artifact'', ''risk_verdict''] out \<noteq> None"
  | "ty = ''artifact.committed''" "json_at [''artifact'', ''status''] out = Some (JStr ''committed'')"
  | "ty = ''notification.planned''" "notified"
  using assms unfolding expected_types_def set_append Un_iff in_if_list list.set insert_iff empty_iff
  by (elim disjE conjE FalseE) (erule that; (assumption | erule disjI1 | erule disjI2))+

lemma nested_mapping:
  assumes "json_at [k, l] out \<noteq> None" "opt_ok is_mapping (json_at [k] out)" "opt_ok is_mapping (json_at [k, l] out)"
  obtains j v where "json_get k out = Some j" "is_mapping j" "json_get l j = Some v" "is_mapping v"
  using assms by (cases "json_get k out"; cases "json_at [k, l] out") simp_all

lemma expected_covered:
  assumes out: "projectable out" and specs: "domain_event_specs p out payload = Inr specs"
    and notified: "notified \<Longrightarrow> payload \<noteq> None"
  shows "set (expected_types notified out) \<subseteq> es_event_type ` set specs"
proof
  fix ty assume ty: "ty \<in> set (expected_types notified out)"
  let ?found = "es_event_type ` set (market_specs p out) \<union> es_event_type ` set (final_evidence_specs p out)
     \<union> es_event_type ` set (artifact_specs p out) \<union> (if payload = None then {} else {''notification.planned''}) \<union> {''run.terminal''}"
  have within: "?found \<subseteq> es_event_type ` set specs"
    using specs by (auto simp: domain_event_specs_def rbind_Inr_iff)
  have shape: "opt_ok is_mapping (json_at [''market_snapshot''] out)" "opt_ok is_mapping (json_at [''artifact''] out)"
    "opt_ok is_mapping (json_at [''artifact'', ''analysis''] out)" "opt_ok is_mapping (json_at [''artifact'', ''evidence_verdict''] out)"
    "opt_ok is_mapping (json_at [''artifact'', ''risk_verdict''] out)"
    using out by (simp_all add: projectable_def)
  from ty have "ty \<in> ?found"
  proof (cases rule: expected_cases)
    case 2
    with market_expected [of out p] shape(1) show ?thesis by simp
  next
    case 3
    with evidence_expected [OF out, of p] show ?thesis by simp
  next
    case 4
    from nested_mapping [OF 4(2) shape(2,3)] artifact_expected(1) [of out _ _ p] 4(1) show ?thesis by blast
  next
    case 5
    from nested_mapping [OF 5(2) shape(2,4)] artifact_expected(2) [of out _ _ p] 5(1) show ?thesis by blast
  next
    case 6
    from nested_mapping [OF 6(2) shape(2,5)] artifact_expected(3) [of out _ _ p] 6(1) show ?thesis by blast
  next
    case 7
    then obtain art where "json_get ''artifact'' out = Some art" "json_get ''status'' art = Some (JStr ''committed'')"
      by (cases "json_get ''artifact'' out") simp_all
    with artifact_expected(4) [of out art p] shape(2) 7(1) show ?thesis by simp
  next
    case 8
    with notified have "ty \<in> (if payload = None then {} else {''notification.planned''})" by simp
    then show ?thesis by blast
  qed simp
  with within show "ty \<in> es_event_type ` set specs" by blast
qed

section \<open>Rounds of the worker\<close>

lemma log_incomplete_other:
  "event_types_of (rn_id r) db' = event_types_of (rn_id r) db \<Longrightarrow> ev_outbox db' = ev_outbox db \<Longrightarrow>
     log_incomplete db' r = log_incomplete db r"
  by (cases "rn_output_payload r") (simp_all add: log_incomplete_def is_notified_def)

lemma candidate_props:
  assumes "first_by by_finished (candidate_runs busy run_id db) = Some (run, task)"
  shows "run \<in> set (ev_runs db)" "task \<in> set (ev_tasks db)" "log_incomplete db run" "tr_id task = rn_task_id run" "\<not> busy (rn_id run)"
  using first_by_Some [OF assms] by (auto simp: candidate_runs_def)

lemma notified_payload:
  assumes "\<forall>n \<in> set (ev_outbox db). is_mapping (nt_payload n)" "is_notified r db"
  shows "latest_notification_payload r db \<noteq> None"
proof -
  have "filter (\<lambda>n. nt_run_id n = r) (ev_outbox db) \<noteq> []"
    using assms(2) by (auto simp: is_notified_def filter_empty_conv)
  then obtain n where first: "first_by (\<lambda>n. - nt_created_at n) (filter (\<lambda>n. nt_run_id n = r) (ev_outbox db)) = Some n"
    using first_by_None_iff [of "\<lambda>n. - nt_created_at n"] by (metis not_None_eq)
  with first_by_Some [OF this] assms(1) show ?thesis by (simp add: latest_notification_payload_def)
qed

definition all_projectable :: "event_db \<Rightarrow> bool" where
  "all_projectable db \<longleftrightarrow> (\<forall>n \<in> set (ev_outbox db). is_mapping (nt_payload n))
     \<and> (\<forall>r \<in> set (ev_runs db). opt_ok projectable (rn_output_payload r))"

lemma round_completes_run:
  assumes ok: "logs_ok p db" "fixed_digest p" "all_projectable db"
    and round: "first_by by_finished (candidate_runs busy run_id db) = Some (run, task)"
      "rn_output_payload run = Some out" "append_domain_events p ids task run out (latest_notification_payload (rn_id run) db) c db = Inr (n, db')"
  shows "\<not> log_incomplete db' run"
proof -
  have out: "projectable out" using ok(3) candidate_props(1) [OF round(1)] round(2) by (auto simp: all_projectable_def)
  from round(3) obtain specs where specs: "domain_event_specs p out (latest_notification_payload (rn_id run) db) = Inr specs"
    by (auto simp: append_domain_events_def rbind_Inr_iff)
  have "set (expected_types (is_notified (rn_id run) db) out) \<subseteq> es_event_type ` set specs"
    using expected_covered [OF out specs] notified_payload ok(3) by (auto simp: all_projectable_def)
  also have "\<dots> \<subseteq> event_types_of (rn_id run) db'"
    using final_append_types [OF ok(1,2) round(3) _ specs] out by (simp add: projectable_def)
  finally show ?thesis using round(2) final_append_rows(3) [OF round(3)]
    by (simp add: log_incomplete_def is_notified_def)
qed

definition lagging :: "event_db \<Rightarrow> nat" where
  "lagging db = length (filter (log_incomplete db) (ev_runs db))"

lemma one_less:
  assumes "distinct xs" "x \<in> set xs" "P x" "\<And>y. y \<in> set xs \<Longrightarrow> Q y \<longleftrightarrow> P y \<and> y \<noteq> x"
  shows "length (filter P xs) = Suc (length (filter Q xs))"
proof -
  have "filter Q xs = filter (\<lambda>y. y \<noteq> x) (filter P xs)" using assms(4) by (auto intro: filter_cong)
  also have "\<dots> = remove1 x (filter P xs)"
    using assms(1) by (simp add: distinct_remove1_removeAll removeAll_filter_not_eq eq_commute)
  finally show ?thesis using assms(2,3) by (simp add: length_remove1) (metis Suc_pred filter_empty_conv length_greater_0_conv)
qed

lemma round_lowers_lagging:
  assumes ok: "logs_ok p db" "fixed_digest p" "all_projectable db"
    and round: "first_by by_finished (candidate_runs busy run_id db) = Some (run, task)"
      "rn_output_payload run = Some out" "append_domain_events p ids task run out (latest_notification_payload (rn_id run) db) c db = Inr (n, db')"
  shows "lagging db = Suc (lagging db')"
proof -
  note rows = final_append_rows [OF round(3)]
  have ids: "distinct (map rn_id (ev_runs db))" using ok(1) by (simp add: logs_ok_def events_scoped_def)
  have "log_incomplete db' r \<longleftrightarrow> log_incomplete db r \<and> r \<noteq> run" if "r \<in> set (ev_runs db)" for r
  proof (cases "rn_id r = rn_id run")
    case True
    with ids that candidate_props(1) [OF round(1)] have "r = run" by (auto simp: distinct_map inj_on_def)
    with round_completes_run [OF ok round] show ?thesis by simp
  next
    case False
    with log_incomplete_other [OF rows(4) rows(3)] show ?thesis by auto
  qed
  with ids candidate_props [OF round(1)] show ?thesis
    unfolding lagging_def rows(1) by (intro one_less) (simp_all add: distinct_map)
qed

section \<open>A run that stays incomplete\<close>

definition evidence_without_artifact :: "json \<Rightarrow> bool" where
  "evidence_without_artifact out \<longleftrightarrow> json_get ''web_evidence'' out = Some (JArr [])
     \<and> json_get ''artifact'' out = None \<and> json_get ''deep_research_artifact'' out = None"

lemma no_evidence_event:
  assumes "evidence_without_artifact out" "domain_event_specs p out payload = Inr specs"
  shows "''research.evidence.committed'' \<notin> es_event_type ` set specs"
  using assms by (auto simp: evidence_without_artifact_def domain_event_specs_def rbind_Inr_iff market_specs_def
      final_evidence_specs_def artifact_specs_def report_specs_def get_or_null_def Let_def split: option.splits if_splits)

lemma stays_incomplete:
  assumes "evidence_without_artifact out" "rn_status run \<in> set TERMINAL_RUN_STATUSES" "rn_output_payload run = Some out"
    "''research.evidence.committed'' \<notin> event_types_of (rn_id run) db"
  shows "log_incomplete db run"
  using assms by (auto simp: log_incomplete_def expected_types_def evidence_without_artifact_def)

lemma same_candidates:
  assumes "ev_runs db' = ev_runs db" "ev_tasks db' = ev_tasks db"
    "\<And>r. r \<in> set (ev_runs db) \<Longrightarrow> log_incomplete db' r = log_incomplete db r"
  shows "candidate_runs busy run_id db' = candidate_runs busy run_id db"
  unfolding candidate_runs_def assms(1,2) by (rule filter_cong [OF refl]) (use assms(3) in auto)

end
