(* ===== verification/Domain_Event_Properties.thy ===== *)
theory Domain_Event_Properties
  imports Domain_Event_Progress
begin

text \<open>The properties of the event log, with a small product database for their witnesses.\<close>

section \<open>A small database\<close>

definition event_sample_params :: event_params where
  "event_sample_params = \<lparr>ep_sha256 = (\<lambda>s. take 64 (s @ replicate 64 (CHR ''0''))),
     ep_digest = (\<lambda>j. case j of JObj ((k, v) # kvs) \<Rightarrow> k | JObj [] \<Rightarrow> ''o'' | _ \<Rightarrow> ''v''),
     ep_market_snapshot = Some, ep_web_evidence = Some, ep_deep_research = Some, ep_market_analysis = Some,
     ep_evidence_verdict = Some, ep_risk_verdict = Some\<rparr>"

definition event_sample_run :: "string \<Rightarrow> string \<Rightarrow> instant \<Rightarrow> json \<Rightarrow> run_row" where
  "event_sample_run i status finished out = \<lparr>rn_id = i, rn_tenant_id = ''t'', rn_workspace_id = ''w'', rn_owner_user_id = ''u'',
     rn_thread_id = ''h'', rn_task_id = ''k'', rn_attempt = 1, rn_status = status,
     rn_official_assistant_id = None, rn_official_run_id = None, rn_checkpoint_id = None, rn_input_payload = JNull,
     rn_output_payload = Some out, rn_failure_code = None, rn_failure_message = None, rn_started_at = Some 0,
     rn_finished_at = Some finished, rn_last_heartbeat_at = None, rn_reconciliation_deadline_at = None, rn_projection_fence = 0,
     rn_terminal_output_hash = None, rn_cancel_requested_at = None, rn_observed_terminal_status = None,
     rn_official_stream_last_event_id = None, rn_official_stream_last_event_at = None,
     rn_resume_of_run_id = None, rn_retry_of_run_id = None, rn_forked_from_run_id = None,
     rn_forked_from_checkpoint_id = None\<rparr>"

definition event_sample_task :: task_row where
  "event_sample_task = \<lparr>tr_id = ''k'', tr_tenant_id = ''t'', tr_workspace_id = ''w'', tr_owner_user_id = ''u'',
     tr_thread_id = ''h'', tr_task_type = ''market_analysis'', tr_status = ''failed'', tr_idempotency_key = ''i'',
     tr_request_payload_hash = ''p'', tr_request_payload = JNull, tr_completed_at = None, tr_created_at = 0\<rparr>"

definition event_sample_thread :: thread_row where
  "event_sample_thread = \<lparr>th_id = ''h'', th_tenant_id = ''t'', th_workspace_id = ''w'', th_owner_user_id = ''u'',
     th_official_thread_id = None, th_title = None, th_context = JNull, th_next_domain_event_sequence = 1\<rparr>"

definition failed_output :: json where
  "failed_output = JObj [(''terminal_status'', JStr ''failed''), (''web_evidence'', JArr []), (''errors'', JArr [JObj []])]"

definition committed_output :: json where
  "committed_output = JObj [(''artifact'', JObj [(''status'', JStr ''committed''), (''analysis'', JObj [])]),
     (''web_evidence'', JArr [JObj []])]"

definition event_sample_db :: "run_row list \<Rightarrow> event_db" where
  "event_sample_db runs = \<lparr>ev_threads = [event_sample_thread], ev_tasks = [event_sample_task], ev_runs = runs,
     ev_outbox = [], ev_events = []\<rparr>"

definition first_runs :: "run_row list" where
  "first_runs = [event_sample_run ''r1'' ''failed'' 5 failed_output, event_sample_run ''r2'' ''succeeded'' 9 committed_output]"

definition event_ids :: "string \<Rightarrow> nat \<Rightarrow> uuid" where
  "event_ids prefix k = prefix @ show_nat k"

definition round_of :: "string \<Rightarrow> event_db \<Rightarrow> (event_error, bool \<times> event_db) result" where
  "round_of prefix = dispatch_projection event_sample_params (event_ids prefix) (\<lambda>_. False) None 20"

lemma sample_logs_ok:
  "distinct (map rn_id runs) \<Longrightarrow> logs_ok event_sample_params (event_sample_db runs)"
  by (simp add: logs_ok_def threads_counted_def events_scoped_def events_hashed_def events_keyed_def only_changes_def
      event_sample_db_def event_sample_thread_def thread_log_def type_log_def run_log_def)

lemma first_runs_distinct: "distinct (map rn_id first_runs)"
  by (simp add: first_runs_def event_sample_run_def)

section \<open>The log\<close>

text \<open>
  C29. The events of a thread are numbered from one without a gap, whoever appends them and in
  whatever order; the events of one type in the log of a run differ from each to the next; and
  nothing recorded is ever changed or removed.
\<close>

theorem event_log_is_gapless:
  assumes start: "ev_events db0 = []" "distinct (map th_id (ev_threads db0))"
      "\<forall>t \<in> set (ev_threads db0). th_next_domain_event_sequence t = 1" "distinct (map rn_id (ev_runs db0))"
    and steps: "(event_step p)\<^sup>*\<^sup>* db0 db"
  shows "(\<forall>t \<in> set (ev_threads db). map de_sequence (thread_log (th_id t) db) = [1..th_next_domain_event_sequence t - 1])
     \<and> (\<forall>r ty. distinct_adj (map de_payload_hash (type_log r ty db)))
     \<and> (\<forall>db'. (event_step p)\<^sup>*\<^sup>* db db' \<longrightarrow> (\<exists>rows. ev_events db' = ev_events db @ rows))"
proof -
  from start have "logs_ok p db0"
    by (simp add: logs_ok_def threads_counted_def events_scoped_def events_hashed_def events_keyed_def only_changes_def
        thread_log_def type_log_def run_log_def)
  with event_steps_keep_logs [OF steps] have ok: "logs_ok p db" by blast
  with event_steps_keep_logs show ?thesis
    unfolding logs_ok_def threads_counted_def only_changes_def by blast
qed

lemma sample_stream:
  "is_ok (append_progressive_events event_sample_params (event_ids ''s'') event_sample_task (hd first_runs)
     [(''research_events'', JObj [(''web_evidence'', JArr [])])] ''1-0'' None 3 (event_sample_db first_runs))"
  by code_simp

theorem event_log_is_gapless_witness:
  "\<exists>db. (event_step event_sample_params)\<^sup>*\<^sup>* (event_sample_db first_runs) db \<and> length (ev_events db) = 1
     \<and> (\<forall>t \<in> set (ev_threads db). map de_sequence (thread_log (th_id t) db) = [1..th_next_domain_event_sequence t - 1])"
proof -
  let ?r = "append_progressive_events event_sample_params (event_ids ''s'') event_sample_task (hd first_runs)
     [(''research_events'', JObj [(''web_evidence'', JArr [])])] ''1-0'' None 3 (event_sample_db first_runs)"
  from sample_stream obtain n db where r: "?r = Inr (n, db)" by (auto simp: is_ok_def split: sum.splits)
  have "length (ev_events (snd (projr ?r))) = 1" by code_simp
  then have one: "length (ev_events db) = 1" by (simp add: r)
  have steps: "(event_step event_sample_params)\<^sup>*\<^sup>* (event_sample_db first_runs) db"
    using streamed [OF r] by (rule r_into_rtranclp)
  have "ev_events (event_sample_db first_runs) = []" "distinct (map th_id (ev_threads (event_sample_db first_runs)))"
    "\<forall>t \<in> set (ev_threads (event_sample_db first_runs)). th_next_domain_event_sequence t = 1"
    "distinct (map rn_id (ev_runs (event_sample_db first_runs)))"
    using first_runs_distinct by (simp_all add: event_sample_db_def event_sample_thread_def)
  from event_log_is_gapless [OF this steps] steps one show ?thesis by blast
qed

text \<open>
  Appending the events of a finished run again, under other identifiers and at another time,
  adds nothing.
\<close>

theorem finished_run_replays:
  assumes "logs_ok p db" "append_domain_events p ids task run out payload c db = Inr (n, db')" "one_artifact out"
  shows "append_domain_events p ids' task run out payload c' db' = Inr (0, db')"
  using assms by (rule final_append_replays)

lemma sample_append:
  "is_ok (append_domain_events event_sample_params (event_ids ''a'') event_sample_task (last first_runs) committed_output None 9
     (event_sample_db first_runs))"
  by code_simp

theorem finished_run_replays_witness:
  "\<exists>db. append_domain_events event_sample_params (event_ids ''a'') event_sample_task (last first_runs) committed_output None 9
      (event_sample_db first_runs) = Inr (4, db)
     \<and> append_domain_events event_sample_params (event_ids ''b'') event_sample_task (last first_runs) committed_output None 11 db
      = Inr (0, db)"
proof -
  let ?r = "append_domain_events event_sample_params (event_ids ''a'') event_sample_task (last first_runs) committed_output None 9
     (event_sample_db first_runs)"
  from sample_append obtain n db where r: "?r = Inr (n, db)" by (auto simp: is_ok_def split: sum.splits)
  have "fst (projr ?r) = 4" by code_simp
  then have "n = 4" by (simp add: r)
  moreover have "one_artifact committed_output" by code_simp
  ultimately show ?thesis
    using finished_run_replays [OF sample_logs_ok [OF first_runs_distinct] r] r by blast
qed

section \<open>The projection worker\<close>


definition second_runs :: "run_row list" where
  "second_runs = tl first_runs"

lemma sample_round: "\<exists>db. round_of ''c'' (event_sample_db second_runs) = Inr (True, db)"
proof -
  have "(case round_of ''c'' (event_sample_db second_runs) of Inr (b, _) \<Rightarrow> b | _ \<Rightarrow> False)" by code_simp
  then show ?thesis by (auto split: sum.splits)
qed

lemma sample_shapes: "logs_ok event_sample_params (event_sample_db second_runs)" "fixed_digest event_sample_params"
  "all_projectable (event_sample_db second_runs)"
proof -
  show "logs_ok event_sample_params (event_sample_db second_runs)"
    using sample_logs_ok [of second_runs] by (simp add: second_runs_def first_runs_def)
  show "fixed_digest event_sample_params" by (simp add: fixed_digest_def event_sample_params_def min_def)
  show "all_projectable (event_sample_db second_runs)" by code_simp
qed


text \<open>
  C30. A finished run whose output has an empty list of evidence and no artifact, as every failed
  run without evidence has, is selected for ever: once it is the first of the waiting runs, every
  later round reports progress and changes nothing, and the runs behind it are never projected.
\<close>

theorem projection_stuck_on_failed_run:
  assumes ok: "logs_ok p db" and first: "first_by by_finished (candidate_runs busy run_id db) = Some (run, task)"
    and out: "rn_output_payload run = Some out" "is_mapping out" "evidence_without_artifact out"
    and none_yet: "''research.evidence.committed'' \<notin> event_types_of (rn_id run) db"
    and round: "dispatch_projection p ids busy run_id now db = Inr (b, db1)"
  shows "b \<and> dispatch_projection p ids' busy run_id now' db1 = Inr (True, db1)
     \<and> (\<forall>r \<in> set (ev_runs db). log_incomplete db1 r = log_incomplete db r)"
proof -
  note candidate = candidate_props [OF first]
  obtain kvs where kvs: "out = JObj kvs" using out(2) by (cases out) simp_all
  let ?payload = "latest_notification_payload (rn_id run) db"
  let ?c = "\<lambda>now. case rn_finished_at run of None \<Rightarrow> now | Some t \<Rightarrow> t"
  from round first out(1) kvs obtain n where b: "b" and append: "append_domain_events p ids task run out ?payload (?c now) db = Inr (n, db1)"
    by (auto simp: dispatch_projection_def rbind_Inr_iff)
  note rows = final_append_rows [OF append]
  from append obtain specs where specs: "domain_event_specs p out ?payload = Inr specs"
    by (auto simp: append_domain_events_def rbind_Inr_iff)
  have status: "rn_status run \<in> set TERMINAL_RUN_STATUSES" using candidate(3) by (simp add: log_incomplete_def)
  have "''research.evidence.committed'' \<notin> event_types_of (rn_id run) db1"
    using rows(5) [OF specs] none_yet no_evidence_event [OF out(3) specs] by blast
  from stays_incomplete [OF out(3) status out(1) this] have still: "log_incomplete db1 run" .
  have same: "log_incomplete db1 r = log_incomplete db r" if r: "r \<in> set (ev_runs db)" for r
  proof (cases "rn_id r = rn_id run")
    case True
    with ok r candidate(1) have "r = run" by (auto simp: logs_ok_def events_scoped_def distinct_map inj_on_def)
    with still candidate(3) show ?thesis by simp
  qed (use log_incomplete_other rows(3,4) in blast)
  have "candidate_runs busy run_id db1 = candidate_runs busy run_id db"
    by (rule same_candidates [OF rows(1,2) same])
  moreover have "latest_notification_payload (rn_id run) db1 = ?payload"
    by (simp add: latest_notification_payload_def rows(3))
  moreover have "one_artifact out" using out(3) by (simp add: one_artifact_def evidence_without_artifact_def get_or_null_def)
  then have "append_domain_events p ids' task run out ?payload (?c now') db1 = Inr (0, db1)"
    by (rule final_append_replays [OF ok append])
  ultimately have "dispatch_projection p ids' busy run_id now' db1 = Inr (True, db1)"
    using first out(1) kvs by (simp add: dispatch_projection_def)
  with b same show ?thesis by blast
qed

lemma sample_first_round: "\<exists>db. round_of ''d'' (event_sample_db first_runs) = Inr (True, db)"
proof -
  have "(case round_of ''d'' (event_sample_db first_runs) of Inr (b, _) \<Rightarrow> b | _ \<Rightarrow> False)" by code_simp
  then show ?thesis by (auto split: sum.splits)
qed

theorem projection_stuck_on_failed_run_witness:
  "\<exists>db. round_of ''d'' (event_sample_db first_runs) = Inr (True, db) \<and> round_of ''e'' db = Inr (True, db)
     \<and> log_incomplete db (last first_runs)"
proof -
  let ?db = "event_sample_db first_runs"
  let ?run = "hd first_runs"
  have first: "first_by by_finished (candidate_runs (\<lambda>_. False) None ?db) = Some (?run, event_sample_task)" by code_simp
  have out: "rn_output_payload ?run = Some failed_output" "is_mapping failed_output" "evidence_without_artifact failed_output"
    by code_simp+
  have none_yet: "''research.evidence.committed'' \<notin> event_types_of (rn_id ?run) ?db" by code_simp
  have behind: "last first_runs \<in> set (ev_runs ?db)" "log_incomplete ?db (last first_runs)" by code_simp+
  obtain db where round: "round_of ''d'' ?db = Inr (True, db)" using sample_first_round by blast
  from projection_stuck_on_failed_run [OF sample_logs_ok [OF first_runs_distinct] first out none_yet
      round [unfolded round_of_def], of "event_ids ''e''" 20] round behind
  show ?thesis by (auto simp: round_of_def)
qed

end
