(* ===== verification/Command_Tables.thy ===== *)
theory Command_Tables
  imports Graph_Request Usage_Governance Observability_Delivery Domain_Events Outcome_Policy
begin

text \<open>
  The state of the command dispatcher (\<open>commands/dispatcher.py\<close>): the product tables it reads and
  writes, the output a graph run ends with, the payloads of task commands and the lease of a
  command. What Pydantic reads from and writes to JSON, and the Agent Server, are parameters.
\<close>

section \<open>Pauses and their members\<close>

definition INTERRUPT_STATUSES :: "string list" where
  "INTERRUPT_STATUSES = [''pending'', ''responding'', ''resolved'', ''expired'', ''cancelled'']"

definition INTERRUPT_PAUSE_STATUSES :: "string list" where
  "INTERRUPT_PAUSE_STATUSES = [''pending'', ''responding'', ''resolved'', ''expired'', ''resume_failed'', ''cancelled'']"

record pause_row =
  ip_id :: uuid
  ip_tenant_id :: uuid
  ip_workspace_id :: uuid
  ip_owner_user_id :: uuid
  ip_task_id :: uuid
  ip_run_id :: uuid
  ip_pause_version :: int
  ip_root_thread_id :: string
  ip_root_checkpoint_ns :: string
  ip_root_checkpoint_id :: string
  ip_root_checkpoint_map :: json
  ip_member_set_hash :: string
  ip_status :: string
  ip_expires_at :: "instant option"
  ip_resume_run_id :: "uuid option"
  ip_accepted_payload_hash :: "string option"

definition active_pause :: "pause_row \<Rightarrow> bool" where
  "active_pause p \<longleftrightarrow> ip_status p \<in> {''pending'', ''responding''}"

definition pause_check :: "pause_row \<Rightarrow> bool" where
  "pause_check p \<longleftrightarrow> ip_status p \<in> set INTERRUPT_PAUSE_STATUSES \<and> 1 \<le> ip_pause_version p
     \<and> ip_resume_run_id p \<noteq> Some (ip_run_id p)
     \<and> fits 255 (ip_root_thread_id p) \<and> fits 255 (ip_root_checkpoint_id p) \<and> fits 64 (ip_member_set_hash p)
     \<and> opt_ok (fits 64) (ip_accepted_payload_hash p)"

text \<open>The unique constraints; the last one is partial: one active pause per task.\<close>

definition pause_clash :: "pause_row \<Rightarrow> pause_row \<Rightarrow> bool" where
  "pause_clash p q \<longleftrightarrow> ip_id p = ip_id q
     \<or> ip_run_id p = ip_run_id q \<and> ip_pause_version p = ip_pause_version q
     \<or> ip_run_id p = ip_run_id q \<and> ip_root_checkpoint_ns p = ip_root_checkpoint_ns q
         \<and> ip_root_checkpoint_id p = ip_root_checkpoint_id q
     \<or> ip_resume_run_id p \<noteq> None \<and> ip_resume_run_id p = ip_resume_run_id q
     \<or> active_pause p \<and> active_pause q \<and> ip_tenant_id p = ip_tenant_id q \<and> ip_workspace_id p = ip_workspace_id q
         \<and> ip_owner_user_id p = ip_owner_user_id q \<and> ip_task_id p = ip_task_id q"

record member_row =
  im_id :: uuid
  im_tenant_id :: uuid
  im_workspace_id :: uuid
  im_owner_user_id :: uuid
  im_task_id :: uuid
  im_run_id :: uuid
  im_pause_id :: uuid
  im_official_interrupt_id :: string
  im_namespace :: string
  im_checkpoint_id :: string
  im_response_version :: int
  im_status :: string
  im_payload :: json
  im_response :: "json option"
  im_expires_at :: "instant option"
  im_responded_at :: "instant option"

definition member_check :: "member_row \<Rightarrow> bool" where
  "member_check m \<longleftrightarrow> im_status m \<in> set INTERRUPT_STATUSES \<and> 1 \<le> im_response_version m
     \<and> (im_responded_at m \<noteq> None \<longrightarrow> im_response m \<noteq> None)
     \<and> (im_status m = ''pending'' \<longrightarrow> im_response m = None \<and> im_responded_at m = None)
     \<and> (im_status m \<in> {''responding'', ''resolved''} \<longrightarrow> im_response m \<noteq> None)
     \<and> (im_status m = ''resolved'' \<longrightarrow> im_responded_at m \<noteq> None)
     \<and> (im_status m = ''expired'' \<longrightarrow> im_expires_at m \<noteq> None)
     \<and> fits 255 (im_official_interrupt_id m) \<and> fits 255 (im_checkpoint_id m)"

definition member_clash :: "member_row \<Rightarrow> member_row \<Rightarrow> bool" where
  "member_clash m k \<longleftrightarrow> im_id m = im_id k
     \<or> im_tenant_id m = im_tenant_id k \<and> im_workspace_id m = im_workspace_id k
         \<and> im_official_interrupt_id m = im_official_interrupt_id k \<and> im_checkpoint_id m = im_checkpoint_id k
         \<and> im_response_version m = im_response_version k
     \<or> im_pause_id m = im_pause_id k \<and> im_official_interrupt_id m = im_official_interrupt_id k"

section \<open>What a finished run commits\<close>

record snapshot_row =
  sn_id :: uuid
  sn_tenant_id :: uuid
  sn_workspace_id :: uuid
  sn_owner_user_id :: uuid
  sn_task_id :: uuid
  sn_run_id :: uuid
  sn_symbol :: string
  sn_snapshot :: json
  sn_fetched_at :: pydatetime

record evidence_row =
  wr_id :: uuid
  wr_tenant_id :: uuid
  wr_workspace_id :: uuid
  wr_owner_user_id :: uuid
  wr_task_id :: uuid
  wr_run_id :: uuid
  wr_source_url :: string
  wr_title :: "string option"
  wr_payload :: json
  wr_fetched_at :: pydatetime
  wr_published_at :: "pydatetime option"

record report_row =
  af_id :: uuid
  af_tenant_id :: uuid
  af_workspace_id :: uuid
  af_owner_user_id :: uuid
  af_task_id :: uuid
  af_artifact_type :: string
  af_latest_version_number :: int

record report_version_row =
  vn_id :: uuid
  vn_tenant_id :: uuid
  vn_workspace_id :: uuid
  vn_owner_user_id :: uuid
  vn_artifact_id :: uuid
  vn_task_id :: uuid
  vn_run_id :: uuid
  vn_version_number :: int
  vn_schema_version :: string
  vn_status :: string
  vn_content :: json

record decision_row =
  dn_id :: uuid
  dn_tenant_id :: uuid
  dn_workspace_id :: uuid
  dn_owner_user_id :: uuid
  dn_artifact_id :: uuid
  dn_artifact_version_id :: uuid
  dn_task_id :: uuid
  dn_run_id :: uuid
  dn_decision_version :: int
  dn_decision :: json
  dn_evidence_verdict :: json
  dn_risk_verdict :: json

text \<open>An outcome observation as it is scheduled; what its observation fills in is left out.\<close>

record outcome_row =
  oc_id :: uuid
  oc_tenant_id :: uuid
  oc_workspace_id :: uuid
  oc_owner_user_id :: uuid
  oc_artifact_version_id :: uuid
  oc_task_id :: uuid
  oc_run_id :: uuid
  oc_status :: string
  oc_action :: string
  oc_baseline :: string
  oc_predicted_probability :: json
  oc_horizon :: string
  oc_source :: string
  oc_maturation_at :: pydatetime
  oc_available_at :: pydatetime

record bark_destination =
  bk_id :: uuid
  bk_tenant_id :: uuid
  bk_workspace_id :: uuid
  bk_owner_user_id :: uuid
  bk_channel :: string
  bk_status :: string

text \<open>The product database as the dispatcher sees it.\<close>

record command_db =
  cd_directory :: directory
  cd_threads :: "thread_row list"
  cd_tasks :: "task_row list"
  cd_runs :: "run_row list"
  cd_commands :: "command_row list"
  cd_pauses :: "pause_row list"
  cd_members :: "member_row list"
  cd_deliveries :: "delivery list"
  cd_outbox :: outbox_db
  cd_events :: "domain_event list"
  cd_entitlements :: "entitlement list"
  cd_ledger :: "ledger_entry list"
  cd_reviews :: "review_row list"
  cd_snapshots :: "snapshot_row list"
  cd_evidence :: "evidence_row list"
  cd_artifacts :: "report_row list"
  cd_versions :: "report_version_row list"
  cd_decisions :: "decision_row list"
  cd_outcomes :: "outcome_row list"
  cd_destinations :: "bark_destination list"

datatype command_error =
    Inconsistent \<comment> \<open>a \<open>RuntimeError\<close> or a failed assertion\<close>
  | Bad_request \<comment> \<open>a \<open>ValueError\<close>, \<open>ValidationError\<close> or \<open>KeyError\<close>\<close>
  | Scope_missing \<comment> \<open>\<open>ScopedResourceNotFound\<close>\<close>
  | Row_rejected \<comment> \<open>a constraint of the database\<close>
  | Database_unavailable
  | Event_failure event_error
  | Usage_failure usage_error
  | Delivery_failure delivery_error
  | Outbox_failure outbox_error
  | Horizon_failure outcome_error

text \<open>What SQLAlchemy raises as \<open>DBAPIError\<close>.\<close>

definition database_error :: "command_error \<Rightarrow> bool" where
  "database_error e \<longleftrightarrow> e \<in> {Row_rejected, Database_unavailable, Event_failure Event_rejected, Delivery_failure Database_error}"

definition lifted :: "('a \<Rightarrow> command_error) \<Rightarrow> ('a, 'b) result \<Rightarrow> (command_error, 'b) result" where
  "lifted f r = (case r of Inl e \<Rightarrow> Inl (f e) | Inr x \<Rightarrow> Inr x)"

section \<open>The output of a run\<close>

record graph_error =
  ge_code :: string
  ge_retryable :: bool
  ge_provider :: "string option"
  ge_error_type :: "string option"
  ge_attempt :: "int option"
  ge_endpoint :: "string option"
  ge_fallback_from :: "string option"
  ge_primary_attempt :: "int option"
  ge_correlation_id :: "string option"
  ge_field :: "string option"
  ge_expected :: "string option"
  ge_actual :: "string option"

definition label_char :: "char \<Rightarrow> bool" where
  "label_char c \<longleftrightarrow> is_alnum_ascii c \<or> c \<in> set ''._-''"

definition lower_ascii :: "char \<Rightarrow> bool" where
  "lower_ascii c \<longleftrightarrow> c \<in> set ''abcdefghijklmnopqrstuvwxyz''"

definition valid_error_code :: "string \<Rightarrow> bool" where
  "valid_error_code s \<longleftrightarrow> len_between 1 128 s \<and> lower_ascii (hd s)
     \<and> list_all (\<lambda>c. lower_ascii c \<or> is_digit c \<or> c = CHR ''_'') s"

definition valid_label :: "nat \<Rightarrow> string \<Rightarrow> bool" where
  "valid_label n s \<longleftrightarrow> len_between 1 n s \<and> list_all label_char s"

definition valid_try :: "int \<Rightarrow> bool" where
  "valid_try n \<longleftrightarrow> 1 \<le> n \<and> n \<le> 100"

definition valid_graph_error :: "graph_error \<Rightarrow> bool" where
  "valid_graph_error e \<longleftrightarrow> valid_error_code (ge_code e) \<and> opt_ok (valid_label 64) (ge_provider e)
     \<and> opt_ok (valid_label 128) (ge_error_type e) \<and> opt_ok valid_try (ge_attempt e) \<and> opt_ok (valid_label 128) (ge_endpoint e)
     \<and> opt_ok (valid_label 64) (ge_fallback_from e) \<and> opt_ok valid_try (ge_primary_attempt e)
     \<and> opt_ok (len_between 1 255) (ge_correlation_id e) \<and> opt_ok (len_between 1 64) (ge_field e)
     \<and> opt_ok (len_between 1 128) (ge_expected e) \<and> opt_ok (len_between 1 128) (ge_actual e)"

record terminal_output =
  tg_terminal_status :: string
  tg_market_snapshot :: "market_snapshot option"
  tg_web_evidence :: "web_evidence list"
  tg_artifact :: "artifact option"
  tg_deep_research :: "deep_research_artifact option"
  tg_errors :: "graph_error list"

definition count_if :: "bool \<Rightarrow> nat" where
  "count_if b = (if b then 1 else 0)"

definition valid_terminal_output :: "terminal_output \<Rightarrow> bool" where
  "valid_terminal_output t \<longleftrightarrow> list_all valid_graph_error (tg_errors t) \<and>
     (if tg_terminal_status t = ''succeeded'' then
        count_if (case tg_artifact t of None \<Rightarrow> False | Some a \<Rightarrow> ar_status a = Committed)
        + count_if (case tg_deep_research t of None \<Rightarrow> False | Some a \<Rightarrow> da_status a = Deep_committed) = 1
      else if tg_terminal_status t = ''blocked'' then
        count_if (case tg_artifact t of None \<Rightarrow> False | Some a \<Rightarrow> ar_status a = Draft)
        + count_if (case tg_deep_research t of None \<Rightarrow> False | Some a \<Rightarrow> da_status a = Deep_draft) = 1
        \<and> \<not> (case tg_artifact t of None \<Rightarrow> False | Some a \<Rightarrow> rv_allowed (ar_risk_verdict a))
      else if tg_terminal_status t = ''failed'' then
        tg_artifact t = None \<and> tg_deep_research t = None \<and> tg_errors t \<noteq> []
      else tg_terminal_status t = ''cancelled'')"

text \<open>The payloads of the commands; the validators run after Pydantic has read the fields.\<close>

record resume_checkpoint =
  rk_thread_id :: string
  rk_checkpoint_ns :: string
  rk_checkpoint_id :: string
  rk_checkpoint_map :: json

record respond_member =
  rm_projection_id :: uuid
  rm_interrupt_id :: string
  rm_namespace :: string
  rm_checkpoint_id :: string
  rm_response_version :: int
  rm_response :: review_response

record respond_payload =
  rp_pause_id :: uuid
  rp_pause_version :: int
  rp_root_checkpoint :: resume_checkpoint
  rp_responses :: "respond_member list"
  rp_expired :: bool

definition valid_resume_checkpoint :: "resume_checkpoint \<Rightarrow> bool" where
  "valid_resume_checkpoint k \<longleftrightarrow> len_between 1 255 (rk_thread_id k) \<and> length (rk_checkpoint_ns k) \<le> 1024
     \<and> len_between 1 255 (rk_checkpoint_id k)"

definition valid_respond_member :: "respond_member \<Rightarrow> bool" where
  "valid_respond_member m \<longleftrightarrow> len_between 1 255 (rm_interrupt_id m) \<and> length (rm_namespace m) \<le> 1024
     \<and> len_between 1 255 (rm_checkpoint_id m) \<and> 1 \<le> rm_response_version m \<and> valid_review_response (rm_response m)"

definition valid_respond_payload :: "respond_payload \<Rightarrow> bool" where
  "valid_respond_payload r \<longleftrightarrow> 1 \<le> rp_pause_version r \<and> valid_resume_checkpoint (rp_root_checkpoint r)
     \<and> 1 \<le> length (rp_responses r) \<and> length (rp_responses r) \<le> 64 \<and> list_all valid_respond_member (rp_responses r)
     \<and> distinct (map rm_interrupt_id (rp_responses r)) \<and> distinct (map rm_projection_id (rp_responses r))"

record fork_payload =
  fp_source_run_id :: uuid
  fp_fork_run_id :: uuid
  fp_checkpoint_id :: string

definition valid_fork_payload :: "fork_payload \<Rightarrow> bool" where
  "valid_fork_payload f \<longleftrightarrow> len_between 1 255 (fp_checkpoint_id f) \<and> fp_source_run_id f \<noteq> fp_fork_run_id f"

record retry_payload =
  ry_source_run_id :: uuid
  ry_retry_run_id :: uuid

definition valid_retry_payload :: "retry_payload \<Rightarrow> bool" where
  "valid_retry_payload r \<longleftrightarrow> ry_source_run_id r \<noteq> ry_retry_run_id r"

datatype product_submission = Submit_analysis analysis_request | Submit_research deep_research_request

text \<open>The parameters. The dumps take whether null values are left out.\<close>

record command_params =
  cp_events :: event_params
  cp_usage :: usage_params
  cp_redact :: "string \<Rightarrow> string"
  cp_sensitive :: "string \<Rightarrow> bool"
  cp_text :: "json \<Rightarrow> string"
  cp_dump_market :: "bool \<Rightarrow> market_snapshot \<Rightarrow> json"
  cp_dump_evidence :: "bool \<Rightarrow> web_evidence \<Rightarrow> json"
  cp_dump_artifact :: "bool \<Rightarrow> artifact \<Rightarrow> json"
  cp_dump_research :: "bool \<Rightarrow> deep_research_artifact \<Rightarrow> json"
  cp_dump_review :: "review_payload \<Rightarrow> json"
  cp_read_output :: "json \<Rightarrow> terminal_output option"
  cp_read_respond :: "json \<Rightarrow> respond_payload option"
  cp_read_fork :: "json \<Rightarrow> fork_payload option"
  cp_read_retry :: "json \<Rightarrow> retry_payload option"
  cp_read_cancel_run :: "json \<Rightarrow> uuid option"
  cp_read_review :: "json \<Rightarrow> review_payload option"
  cp_read_decision :: "json \<Rightarrow> decision_request option"
  cp_read_analysis :: "json \<Rightarrow> analysis_request option"
  cp_read_research :: "json \<Rightarrow> deep_research_request option"

definition checked :: "('a \<Rightarrow> bool) \<Rightarrow> 'a option \<Rightarrow> 'a option" where
  "checked P x = (case x of None \<Rightarrow> None | Some v \<Rightarrow> if P v then Some v else None)"

definition payload_hash :: "command_params \<Rightarrow> json \<Rightarrow> string" where
  "payload_hash p j = event_payload_hash (cp_events p) j"

section \<open>Outputs as documents\<close>

definition opt_key :: "string \<Rightarrow> json option \<Rightarrow> (string \<times> json) list" where
  "opt_key k v = (case v of None \<Rightarrow> [] | Some j \<Rightarrow> [(k, j)])"

definition graph_error_json :: "graph_error \<Rightarrow> json" where
  "graph_error_json e = JObj ([(''code'', JStr (ge_code e)), (''retryable'', JBool (ge_retryable e))]
     @ opt_key ''provider'' (map_option JStr (ge_provider e)) @ opt_key ''error_type'' (map_option JStr (ge_error_type e))
     @ opt_key ''attempt'' (map_option JInt (ge_attempt e)) @ opt_key ''endpoint'' (map_option JStr (ge_endpoint e))
     @ opt_key ''fallback_from'' (map_option JStr (ge_fallback_from e))
     @ opt_key ''primary_attempt'' (map_option JInt (ge_primary_attempt e))
     @ opt_key ''correlation_id'' (map_option JStr (ge_correlation_id e)) @ opt_key ''field'' (map_option JStr (ge_field e))
     @ opt_key ''expected'' (map_option JStr (ge_expected e)) @ opt_key ''actual'' (map_option JStr (ge_actual e)))"

definition terminal_json :: "command_params \<Rightarrow> terminal_output \<Rightarrow> json" where
  "terminal_json p t = JObj ([(''terminal_status'', JStr (tg_terminal_status t))]
     @ opt_key ''market_snapshot'' (map_option (cp_dump_market p True) (tg_market_snapshot t))
     @ [(''web_evidence'', JArr (map (cp_dump_evidence p True) (tg_web_evidence t)))]
     @ opt_key ''artifact'' (map_option (cp_dump_artifact p True) (tg_artifact t))
     @ opt_key ''deep_research_artifact'' (map_option (cp_dump_research p True) (tg_deep_research t))
     @ [(''errors'', JArr (map graph_error_json (tg_errors t)))])"

definition simple_error :: "string \<Rightarrow> string \<Rightarrow> bool \<Rightarrow> int option \<Rightarrow> graph_error" where
  "simple_error code error_type retryable attempt = \<lparr>ge_code = code, ge_retryable = retryable, ge_provider = None,
     ge_error_type = Some error_type, ge_attempt = attempt, ge_endpoint = None, ge_fallback_from = None,
     ge_primary_attempt = None, ge_correlation_id = None, ge_field = None, ge_expected = None, ge_actual = None\<rparr>"

definition failure_output :: "string \<Rightarrow> string \<Rightarrow> bool \<Rightarrow> int option \<Rightarrow> terminal_output" where
  "failure_output code error_type retryable attempt = \<lparr>tg_terminal_status = ''failed'', tg_market_snapshot = None,
     tg_web_evidence = [], tg_artifact = None, tg_deep_research = None,
     tg_errors = [simple_error code error_type retryable attempt]\<rparr>"

definition cancelled_output :: terminal_output where
  "cancelled_output = \<lparr>tg_terminal_status = ''cancelled'', tg_market_snapshot = None, tg_web_evidence = [],
     tg_artifact = None, tg_deep_research = None, tg_errors = []\<rparr>"

definition clipped_attempt :: "int \<Rightarrow> int" where
  "clipped_attempt n = max 1 (min n 100)"

section \<open>Leases\<close>

record remote_handle =
  rh_assistant_id :: string
  rh_thread_id :: string
  rh_run_id :: string

record command_lease =
  cl_command_id :: uuid
  cl_task_id :: uuid
  cl_product_thread_id :: uuid
  cl_product_run_id :: "uuid option"
  cl_command_type :: string
  cl_command_sequence :: int
  cl_worker_id :: string
  cl_fence_token :: int
  cl_actor :: actor_context
  cl_task_type :: string
  cl_submission :: "product_submission option"
  cl_remote_handle :: "remote_handle option"
  cl_resume_handle :: "remote_handle option"
  cl_respond_payload :: "respond_payload option"
  cl_fork_source_handle :: "remote_handle option"
  cl_fork_payload :: "fork_payload option"
  cl_review_policy :: string
  cl_observed_terminal_status :: "string option"
  cl_submit_reconcile_only :: bool
  cl_resume_reconcile_only :: bool
  cl_fork_reconcile_only :: bool
  cl_official_stream_last_event_id :: "string option"

record command_worker =
  cw_worker_id :: string
  cw_lease_seconds :: int
  cw_max_attempts :: int
  cw_max_cancel_attempts :: int
  cw_max_cancel_seconds :: int
  cw_remote_operation_timeout :: float64
  cw_reconciliation_interval :: float64
  cw_max_run_seconds :: int
  cw_interrupt_ttl_seconds :: int
  cw_planner :: "(uuid \<Rightarrow> uuid \<Rightarrow> instant \<Rightarrow> delivery_intent list) option"
  cw_stream_slice_seconds :: float64
  cw_max_stream_events :: int

definition mk_command_worker :: "command_worker \<Rightarrow> (command_error, command_worker) result" where
  "mk_command_worker w = ensure (strip (cw_worker_id w) \<noteq> [] \<and> 3 \<le> cw_lease_seconds w \<and> 1 \<le> cw_max_attempts w
     \<and> 1 \<le> cw_max_cancel_attempts w \<and> 1 \<le> cw_max_cancel_seconds w \<and> 0 < cw_remote_operation_timeout w
     \<and> 0 < cw_reconciliation_interval w \<and> 1 \<le> cw_max_run_seconds w \<and> 1 \<le> cw_interrupt_ttl_seconds w
     \<and> 0 < cw_stream_slice_seconds w \<and> 1 \<le> cw_max_stream_events w) Bad_request (Inr w)"

text \<open>The identifiers a transaction draws.\<close>

record fresh_ids =
  fi_thread :: uuid
  fi_task :: uuid
  fi_run :: uuid
  fi_command :: uuid
  fi_pause :: uuid
  fi_member :: "nat \<Rightarrow> uuid"
  fi_event :: "nat \<Rightarrow> uuid"
  fi_usage :: "string \<Rightarrow> uuid"
  fi_delivery :: "nat \<Rightarrow> uuid"
  fi_snapshot :: uuid
  fi_evidence :: "nat \<Rightarrow> uuid"
  fi_artifact :: uuid
  fi_version :: uuid
  fi_decision :: uuid
  fi_outcome :: uuid
  fi_outbox :: uuid
  fi_created :: instant \<comment> \<open>the time the database puts on a new row\<close>

section \<open>Reading and writing rows\<close>

definition run_at :: "uuid \<Rightarrow> command_db \<Rightarrow> run_row option" where
  "run_at i db = find (\<lambda>r. rn_id r = i) (cd_runs db)"

definition task_at :: "uuid \<Rightarrow> command_db \<Rightarrow> task_row option" where
  "task_at i db = find (\<lambda>t. tr_id t = i) (cd_tasks db)"

definition thread_at :: "uuid \<Rightarrow> command_db \<Rightarrow> thread_row option" where
  "thread_at i db = find (\<lambda>t. th_id t = i) (cd_threads db)"

definition set_run :: "uuid \<Rightarrow> (run_row \<Rightarrow> run_row) \<Rightarrow> command_db \<Rightarrow> command_db" where
  "set_run i f db = db\<lparr>cd_runs := update_where (\<lambda>r. rn_id r = i) f (cd_runs db)\<rparr>"

definition set_task :: "uuid \<Rightarrow> (task_row \<Rightarrow> task_row) \<Rightarrow> command_db \<Rightarrow> command_db" where
  "set_task i f db = db\<lparr>cd_tasks := update_where (\<lambda>t. tr_id t = i) f (cd_tasks db)\<rparr>"

definition set_thread :: "uuid \<Rightarrow> (thread_row \<Rightarrow> thread_row) \<Rightarrow> command_db \<Rightarrow> command_db" where
  "set_thread i f db = db\<lparr>cd_threads := update_where (\<lambda>t. th_id t = i) f (cd_threads db)\<rparr>"

definition set_command :: "uuid \<Rightarrow> (command_row \<Rightarrow> command_row) \<Rightarrow> command_db \<Rightarrow> command_db" where
  "set_command i f db = db\<lparr>cd_commands := update_where (\<lambda>c. tc_id c = i) f (cd_commands db)\<rparr>"

definition set_pause :: "uuid \<Rightarrow> (pause_row \<Rightarrow> pause_row) \<Rightarrow> command_db \<Rightarrow> command_db" where
  "set_pause i f db = db\<lparr>cd_pauses := update_where (\<lambda>q. ip_id q = i) f (cd_pauses db)\<rparr>"

text \<open>The part of the state the event log works on.\<close>

definition event_view :: "command_db \<Rightarrow> event_db" where
  "event_view db = \<lparr>ev_threads = cd_threads db, ev_tasks = cd_tasks db, ev_runs = cd_runs db,
     ev_outbox = db_outbox (cd_outbox db), ev_events = cd_events db\<rparr>"

definition store_events :: "event_db \<Rightarrow> command_db \<Rightarrow> command_db" where
  "store_events e db = db\<lparr>cd_threads := ev_threads e, cd_events := ev_events e\<rparr>"

definition task_scope :: "task_row \<Rightarrow> uuid \<times> uuid \<times> uuid" where
  "task_scope t = (tr_tenant_id t, tr_workspace_id t, tr_owner_user_id t)"

definition run_actor :: "run_row \<Rightarrow> uuid \<times> uuid \<times> uuid" where
  "run_actor r = (rn_tenant_id r, rn_workspace_id r, rn_owner_user_id r)"

definition run_of_task :: "task_row \<Rightarrow> run_row \<Rightarrow> bool" where
  "run_of_task t r \<longleftrightarrow> rn_task_id r = tr_id t \<and> run_actor r = task_scope t"

text \<open>\<open>ORDER BY attempt DESC LIMIT 1\<close>.\<close>

definition latest_run :: "task_row \<Rightarrow> command_db \<Rightarrow> run_row option" where
  "latest_run t db = first_by (\<lambda>r. - rn_attempt r) (filter (run_of_task t) (cd_runs db))"

definition new_run :: "uuid \<Rightarrow> task_row \<Rightarrow> int \<Rightarrow> string \<Rightarrow> json \<Rightarrow> run_row" where
  "new_run i t attempt status input = \<lparr>rn_id = i, rn_tenant_id = tr_tenant_id t, rn_workspace_id = tr_workspace_id t,
     rn_owner_user_id = tr_owner_user_id t, rn_thread_id = tr_thread_id t, rn_task_id = tr_id t, rn_attempt = attempt,
     rn_status = status, rn_official_assistant_id = None, rn_official_run_id = None, rn_checkpoint_id = None,
     rn_input_payload = input, rn_output_payload = None, rn_failure_code = None, rn_failure_message = None,
     rn_started_at = None, rn_finished_at = None, rn_last_heartbeat_at = None, rn_reconciliation_deadline_at = None,
     rn_projection_fence = 0, rn_terminal_output_hash = None, rn_cancel_requested_at = None,
     rn_observed_terminal_status = None, rn_official_stream_last_event_id = None, rn_official_stream_last_event_at = None,
     rn_resume_of_run_id = None, rn_retry_of_run_id = None, rn_forked_from_run_id = None,
     rn_forked_from_checkpoint_id = None\<rparr>"

text \<open>The insertions with the constraints of their tables.\<close>

definition run_clash :: "run_row \<Rightarrow> run_row \<Rightarrow> bool" where
  "run_clash q r \<longleftrightarrow> rn_id q = rn_id r \<or> rn_task_id q = rn_task_id r \<and> rn_attempt q = rn_attempt r
     \<or> rn_official_run_id q \<noteq> None \<and> rn_official_run_id q = rn_official_run_id r
     \<or> rn_resume_of_run_id q \<noteq> None \<and> rn_resume_of_run_id q = rn_resume_of_run_id r
     \<or> rn_retry_of_run_id q \<noteq> None \<and> rn_retry_of_run_id q = rn_retry_of_run_id r"

definition insert_run :: "run_row \<Rightarrow> command_db \<Rightarrow> (command_error, command_db) result" where
  "insert_run r db = ensure (run_status_check r \<and> run_lineage_check r \<and> (\<forall>q \<in> set (cd_runs db). \<not> run_clash q r))
     Row_rejected (Inr (db\<lparr>cd_runs := cd_runs db @ [r]\<rparr>))"

definition command_clash :: "command_row \<Rightarrow> command_row \<Rightarrow> bool" where
  "command_clash c d \<longleftrightarrow> tc_id c = tc_id d \<or> command_sequence_key c = command_sequence_key d \<or> command_key c = command_key d"

definition insert_command :: "command_row \<Rightarrow> command_db \<Rightarrow> (command_error, command_db) result" where
  "insert_command c db = ensure (command_check c \<and> (\<forall>d \<in> set (cd_commands db). \<not> command_clash d c))
     Row_rejected (Inr (db\<lparr>cd_commands := cd_commands db @ [c]\<rparr>))"

definition insert_pause :: "pause_row \<Rightarrow> command_db \<Rightarrow> (command_error, command_db) result" where
  "insert_pause q db = ensure (pause_check q \<and> (\<forall>r \<in> set (cd_pauses db). \<not> pause_clash r q))
     Row_rejected (Inr (db\<lparr>cd_pauses := cd_pauses db @ [q]\<rparr>))"

definition insert_member :: "member_row \<Rightarrow> command_db \<Rightarrow> (command_error, command_db) result" where
  "insert_member m db = ensure (member_check m \<and> (\<forall>k \<in> set (cd_members db). \<not> member_clash k m))
     Row_rejected (Inr (db\<lparr>cd_members := cd_members db @ [m]\<rparr>))"

end
