(* ===== verification/Command_Claim.thy ===== *)
theory Command_Claim
  imports Command_Tables
begin

text \<open>
  How the dispatcher ends a run in the product tables and how it claims the next command
  (\<open>CommandDispatcher._persist_terminal_run\<close> and \<open>claim_next\<close> of \<open>commands/dispatcher.py\<close>).
\<close>

section \<open>Ending a run\<close>

text \<open>Usage receipts are accounted to the workspace and owner of the task.\<close>

definition task_actor :: "task_row \<Rightarrow> resolved_actor" where
  "task_actor t = \<lparr>ra_tenant_id = tr_tenant_id t, ra_workspace_id = tr_workspace_id t, ra_user_id = tr_owner_user_id t,
     ra_membership_id = '''', ra_role = '''', ra_permissions = []\<rparr>"

definition record_receipts ::
  "command_params \<Rightarrow> fresh_ids \<Rightarrow> instant \<Rightarrow> task_row \<Rightarrow> run_row \<Rightarrow> command_db \<Rightarrow> (command_error, command_db) result" where
  "record_receipts p fresh now t r db =
     rbind (lifted Usage_failure (append_run_usage_receipts (cp_usage p) (fi_usage fresh) now (cd_entitlements db)
        (task_actor t) r (cd_ledger db))) (\<lambda>ledger. Inr (db\<lparr>cd_ledger := ledger\<rparr>))"

definition record_events ::
  "command_params \<Rightarrow> fresh_ids \<Rightarrow> instant \<Rightarrow> task_row \<Rightarrow> run_row \<Rightarrow> json \<Rightarrow> json option \<Rightarrow> command_db
     \<Rightarrow> (command_error, command_db) result" where
  "record_events p fresh now t r out notification_payload db =
     rbind (lifted Event_failure (append_domain_events (cp_events p) (fi_event fresh) t r out notification_payload now
        (event_view db))) (\<lambda>(n, e). Inr (store_events e db))"

definition ended_run :: "command_params \<Rightarrow> instant \<Rightarrow> int \<Rightarrow> terminal_output \<Rightarrow> run_row \<Rightarrow> run_row" where
  "ended_run p now fence terminal r = r\<lparr>rn_status := tg_terminal_status terminal,
     rn_output_payload := Some (terminal_json p terminal), rn_finished_at := Some now, rn_projection_fence := fence,
     rn_terminal_output_hash := Some (payload_hash p (terminal_json p terminal))\<rparr>"

definition run_failure :: "terminal_output \<Rightarrow> string option \<Rightarrow> run_row \<Rightarrow> run_row" where
  "run_failure terminal failure_message r = (case tg_errors terminal of
     e # es \<Rightarrow> r\<lparr>rn_failure_code := Some (ge_code e), rn_failure_message := failure_message\<rparr>
   | [] \<Rightarrow> r\<lparr>rn_failure_code := None, rn_failure_message := None\<rparr>)"

definition ended_task :: "instant \<Rightarrow> string \<Rightarrow> task_row \<Rightarrow> task_row" where
  "ended_task now status t = t\<lparr>tr_status := status, tr_completed_at := Some now\<rparr>"

text \<open>\<open>t\<close> and \<open>r\<close> are the rows of the task and of the run in \<open>db\<close>.\<close>

definition persist_terminal_run ::
  "command_params \<Rightarrow> fresh_ids \<Rightarrow> instant \<Rightarrow> task_row \<Rightarrow> run_row \<Rightarrow> terminal_output \<Rightarrow> int \<Rightarrow> bool \<Rightarrow> string option
     \<Rightarrow> command_db \<Rightarrow> (command_error, command_db) result" where
  "persist_terminal_run p fresh now t r terminal fence terminalize_task failure_message db =
     (let r1 = ended_run p now fence terminal r; r2 = run_failure terminal failure_message r1;
          t1 = (if terminalize_task then ended_task now (tg_terminal_status terminal) t else t) in
      rbind (record_receipts p fresh now t r1 (set_run (rn_id r) (\<lambda>_. r1) db)) (\<lambda>db1.
        record_events p fresh now t1 r2 (terminal_json p terminal) None
          (set_task (tr_id t) (\<lambda>_. t1) (set_run (rn_id r) (\<lambda>_. r2) db1))))"

section \<open>Statuses\<close>

definition open_task :: "string \<Rightarrow> bool" where
  "open_task s \<longleftrightarrow> s \<in> {''queued'', ''running'', ''waiting_human''}"

definition open_command :: "string \<Rightarrow> bool" where
  "open_command s \<longleftrightarrow> s \<in> {''pending'', ''dispatching''}"

definition ended_status :: "string \<Rightarrow> bool" where
  "ended_status s \<longleftrightarrow> s \<in> {''succeeded'', ''blocked'', ''failed'', ''cancelled''}"

definition closed_command :: "string \<Rightarrow> command_row \<Rightarrow> command_row" where
  "closed_command s c = c\<lparr>tc_status := s, tc_lease_owner := None, tc_lease_expires_at := None\<rparr>"

definition close_command :: "uuid \<Rightarrow> string \<Rightarrow> command_db \<Rightarrow> command_db" where
  "close_command i s = set_command i (closed_command s)"

section \<open>Which command is next\<close>

definition prior_unfinished :: "command_db \<Rightarrow> command_row \<Rightarrow> bool" where
  "prior_unfinished db c \<longleftrightarrow> (\<exists>d \<in> set (cd_commands db). tc_thread_id d = tc_thread_id c
     \<and> tc_sequence d < tc_sequence c \<and> open_command (tc_status d))"

definition command_due :: "instant \<Rightarrow> command_row \<Rightarrow> bool" where
  "command_due now c \<longleftrightarrow>
     tc_status c = ''pending'' \<and> opt_ok (\<lambda>t. t \<le> now) (tc_lease_expires_at c)
     \<or> tc_status c = ''dispatching'' \<and> (case tc_lease_expires_at c of None \<Rightarrow> False | Some t \<Rightarrow> t \<le> now)"

record claim_row =
  ck_command :: command_row
  ck_task :: task_row
  ck_thread :: thread_row
  ck_tenant :: tenant_row
  ck_workspace :: workspace_row
  ck_user :: user_row
  ck_membership :: "membership_row option"

text \<open>The joins are on primary keys, and a membership is unique for its tenant, workspace and user.\<close>

definition claim_row_of :: "command_db \<Rightarrow> command_row \<Rightarrow> claim_row option" where
  "claim_row_of db c = (let d = cd_directory db in
     case (task_at (tc_task_id c) db, thread_at (tc_thread_id c) db, find (\<lambda>t. tn_id t = tc_tenant_id c) (dir_tenants d),
       find (\<lambda>w. ws_id w = tc_workspace_id c) (dir_workspaces d), find (\<lambda>u. us_id u = tc_actor_user_id c) (dir_users d)) of
       (Some t, Some h, Some tn, Some w, Some u) \<Rightarrow>
         Some \<lparr>ck_command = c, ck_task = t, ck_thread = h, ck_tenant = tn, ck_workspace = w, ck_user = u,
           ck_membership = find (\<lambda>m. mb_tenant_id m = tc_tenant_id c \<and> mb_workspace_id m = tc_workspace_id c
             \<and> mb_user_id m = tc_actor_user_id c) (dir_memberships d)\<rparr>
     | _ \<Rightarrow> None)"

definition claim_rows :: "(uuid \<Rightarrow> bool) \<Rightarrow> instant \<Rightarrow> command_db \<Rightarrow> claim_row list" where
  "claim_rows busy now db = filter (\<lambda>k. tc_command_type (ck_command k) \<in> set TASK_COMMAND_TYPES
     \<and> open_task (tr_status (ck_task k)) \<and> command_due now (ck_command k) \<and> \<not> prior_unfinished db (ck_command k)
     \<and> \<not> busy (tr_id (ck_task k))) (List.map_filter (claim_row_of db) (cd_commands db))"

definition claim_order :: "claim_row \<Rightarrow> int \<times> int" where
  "claim_order k = (tc_created_at (ck_command k), tc_sequence (ck_command k))"

text \<open>\<open>dict.fromkeys\<close> keeps the first occurrence of every key.\<close>

definition first_occurrences :: "'a list \<Rightarrow> 'a list" where
  "first_occurrences xs = rev (remdups (rev xs))"

definition claim_actor :: "claim_row \<Rightarrow> actor_context" where
  "claim_actor k = \<lparr>ac_tenant_id = tn_external_id (ck_tenant k), ac_workspace_id = ws_external_id (ck_workspace k),
     ac_user_id = us_external_subject (ck_user k), ac_identity_issuer = us_identity_issuer (ck_user k),
     ac_context_id = map_option mb_id (ck_membership k),
     ac_roles = [case ck_membership k of None \<Rightarrow> ''member'' | Some m \<Rightarrow> if mb_role m = [] then ''member'' else mb_role m],
     ac_permissions = first_occurrences ((case ck_membership k of None \<Rightarrow> [] | Some m \<Rightarrow> mb_permissions m)
       @ [''analysis:read'', ''analysis:write''])\<rparr>"

section \<open>The run a command is about\<close>

definition scoped_run :: "task_row \<Rightarrow> uuid \<Rightarrow> run_row \<Rightarrow> bool" where
  "scoped_run t i r \<longleftrightarrow> rn_id r = i \<and> run_of_task t r \<and> rn_thread_id r = tr_thread_id t"

definition scoped_run_at :: "task_row \<Rightarrow> uuid \<Rightarrow> command_db \<Rightarrow> run_row option" where
  "scoped_run_at t i db = find (scoped_run t i) (cd_runs db)"

definition fail_run_or_task ::
  "command_params \<Rightarrow> fresh_ids \<Rightarrow> instant \<Rightarrow> command_row \<Rightarrow> task_row \<Rightarrow> run_row option \<Rightarrow> string \<Rightarrow> string \<Rightarrow> string
     \<Rightarrow> command_db \<Rightarrow> (command_error, command_db) result" where
  \<comment> \<open>the command is failed, and with it its run, or its task when there is no run\<close>
  "fail_run_or_task p fresh now c t run code error_type failure_message db =
     (let db1 = close_command (tc_id c) ''failed'' db in
      case run of
        Some r \<Rightarrow> persist_terminal_run p fresh now t r (failure_output code error_type False None) (tc_sequence c) True
          (Some failure_message) db1
      | None \<Rightarrow> Inr (set_task (tr_id t) (ended_task now ''failed'') db1))"

datatype claim_target =
    Refused command_db \<comment> \<open>the command was closed instead of leased\<close>
  | Target "run_row option" "respond_payload option" "fork_payload option" "run_row option" \<comment> \<open>run, payloads, fork source\<close>

definition cancel_run_target ::
  "command_params \<Rightarrow> command_row \<Rightarrow> task_row \<Rightarrow> command_db \<Rightarrow> (command_error, claim_target) result" where
  "cancel_run_target p c t db = (case cp_read_cancel_run p (tc_payload c) of
     None \<Rightarrow> Inr (Refused (close_command (tc_id c) ''failed'' db))
   | Some i \<Rightarrow>
       (case scoped_run_at t i db of
          None \<Rightarrow> Inr (Refused (close_command (tc_id c) ''cancelled'' db))
        | Some r \<Rightarrow> if ended_status (rn_status r) then Inr (Refused (close_command (tc_id c) ''cancelled'' db))
            else Inr (Target (Some r) None None None)))"

definition refused ::
  "(command_error, command_db) result \<Rightarrow> (command_error, claim_target) result" where
  "refused r = rbind r (\<lambda>db. Inr (Refused db))"

definition respond_target ::
  "command_params \<Rightarrow> fresh_ids \<Rightarrow> instant \<Rightarrow> command_row \<Rightarrow> task_row \<Rightarrow> run_row option \<Rightarrow> command_db
     \<Rightarrow> (command_error, claim_target) result" where
  "respond_target p fresh now c t latest db = (case checked valid_respond_payload (cp_read_respond p (tc_payload c)) of
     None \<Rightarrow> refused (fail_run_or_task p fresh now c t latest ''invalid_respond_command'' ''CommandValidationError''
               ''The respond command payload was invalid.'' db)
   | Some payload \<Rightarrow> Inr (Target latest (Some payload) None None))"

definition fork_lineage :: "fork_payload \<Rightarrow> run_row option \<Rightarrow> bool" where
  "fork_lineage f run = (case run of None \<Rightarrow> False
   | Some r \<Rightarrow> rn_checkpoint_id r = Some (fp_checkpoint_id f) \<and> rn_forked_from_run_id r = Some (fp_source_run_id f)
       \<and> rn_forked_from_checkpoint_id r = Some (fp_checkpoint_id f))"

definition or_else :: "'a option \<Rightarrow> 'a option \<Rightarrow> 'a option" where
  "or_else x y = (case x of None \<Rightarrow> y | Some v \<Rightarrow> Some v)"

definition fork_target ::
  "command_params \<Rightarrow> fresh_ids \<Rightarrow> instant \<Rightarrow> command_row \<Rightarrow> task_row \<Rightarrow> run_row option \<Rightarrow> command_db
     \<Rightarrow> (command_error, claim_target) result" where
  "fork_target p fresh now c t latest db = (case checked valid_fork_payload (cp_read_fork p (tc_payload c)) of
     None \<Rightarrow> refused (fail_run_or_task p fresh now c t latest ''invalid_fork_command'' ''CommandValidationError''
               ''The fork command payload was invalid.'' db)
   | Some f \<Rightarrow>
       (let run = scoped_run_at t (fp_fork_run_id f) db;
            source = find (\<lambda>r. scoped_run t (fp_source_run_id f) r \<and> rn_checkpoint_id r = Some (fp_checkpoint_id f)) (cd_runs db)
        in if \<not> fork_lineage f run \<or> source = None
           then refused (fail_run_or_task p fresh now c t (or_else run latest) ''invalid_fork_lineage'' ''CommandLineageError''
                  ''Fork command does not match its Product Run lineage.'' db)
           else Inr (Target run None (Some f) source)))"

definition retry_target ::
  "command_params \<Rightarrow> fresh_ids \<Rightarrow> instant \<Rightarrow> command_row \<Rightarrow> task_row \<Rightarrow> run_row option \<Rightarrow> command_db
     \<Rightarrow> (command_error, claim_target) result" where
  "retry_target p fresh now c t latest db = (case checked valid_retry_payload (cp_read_retry p (tc_payload c)) of
     None \<Rightarrow> refused (fail_run_or_task p fresh now c t latest ''invalid_retry_command'' ''CommandValidationError''
               ''The retry command payload was invalid.'' db)
   | Some y \<Rightarrow>
       (let run = find (\<lambda>r. scoped_run t (ry_retry_run_id y) r \<and> rn_retry_of_run_id r = Some (ry_source_run_id y)) (cd_runs db);
            source = find (\<lambda>r. scoped_run t (ry_source_run_id y) r \<and> rn_status r \<in> {''failed'', ''blocked''}) (cd_runs db)
        in if run = None \<or> source = None
           then refused (fail_run_or_task p fresh now c t (or_else run latest) ''invalid_retry_lineage'' ''CommandLineageError''
                  ''Retry command does not match its Product Run lineage.'' db)
           else Inr (Target run None None None)))"

definition command_target ::
  "command_params \<Rightarrow> fresh_ids \<Rightarrow> instant \<Rightarrow> command_row \<Rightarrow> task_row \<Rightarrow> command_db \<Rightarrow> (command_error, claim_target) result" where
  "command_target p fresh now c t db = (let latest = latest_run t db; typ = tc_command_type c in
     if typ = ''cancel_run'' then cancel_run_target p c t db
     else if typ = ''respond'' then respond_target p fresh now c t latest db
     else if typ = ''fork'' then fork_target p fresh now c t latest db
     else if typ = ''retry'' then retry_target p fresh now c t latest db
     else Inr (Target latest None None None))"

section \<open>Leasing the command\<close>

definition submitted_run :: "command_worker \<Rightarrow> fresh_ids \<Rightarrow> instant \<Rightarrow> task_row \<Rightarrow> command_db \<Rightarrow> run_row" where
  "submitted_run w fresh now t db =
     (new_run (fi_run fresh) t (Max (insert 0 (rn_attempt ` {r \<in> set (cd_runs db). rn_task_id r = tr_id t})) + 1) ''running''
        (tr_request_payload t))\<lparr>rn_started_at := Some now, rn_last_heartbeat_at := Some now,
        rn_reconciliation_deadline_at := Some (now + cw_max_run_seconds w * SECOND)\<rparr>"

definition with_submitted_run ::
  "command_worker \<Rightarrow> fresh_ids \<Rightarrow> instant \<Rightarrow> command_row \<Rightarrow> task_row \<Rightarrow> run_row option \<Rightarrow> command_db
     \<Rightarrow> (command_error, run_row option \<times> command_db) result" where
  "with_submitted_run w fresh now c t run db =
     (if tc_command_type c = ''submit'' \<and> run = None
      then rbind (insert_run (submitted_run w fresh now t db) db) (\<lambda>db1. Inr (Some (submitted_run w fresh now t db), db1))
      else Inr (run, db))"

definition STARTING_COMMANDS :: "string list" where
  "STARTING_COMMANDS = [''submit'', ''respond'', ''fork'', ''retry'']"

definition with_intents ::
  "command_worker \<Rightarrow> fresh_ids \<Rightarrow> instant \<Rightarrow> command_row \<Rightarrow> task_row \<Rightarrow> run_row option \<Rightarrow> command_db
     \<Rightarrow> (command_error, command_db) result" where
  "with_intents w fresh now c t run db =
     (case (run, cw_planner w) of
        (Some r, Some planner) \<Rightarrow>
          if tc_command_type c \<in> set STARTING_COMMANDS then
            rbind (lifted Delivery_failure (ensure_intents None now (fi_delivery fresh)
                \<lparr>sc_tenant_id = tr_tenant_id t, sc_workspace_id = tr_workspace_id t, sc_owner_user_id = tr_owner_user_id t,
                 sc_task_id = tr_id t, sc_run_id = rn_id r\<rparr> (planner (tr_id t) (rn_id r) now)
                \<lparr>dd_directory = cd_directory db, dd_tasks = cd_tasks db, dd_deliveries = cd_deliveries db\<rparr>))
              (\<lambda>(rows, d). Inr (db\<lparr>cd_deliveries := dd_deliveries d\<rparr>))
          else Inr db
      | _ \<Rightarrow> Inr db)"

definition cancelled_before_claim :: "command_row \<Rightarrow> task_row \<Rightarrow> run_row option \<Rightarrow> command_db \<Rightarrow> bool" where
  "cancelled_before_claim c t run db \<longleftrightarrow> tc_command_type c = ''submit''
     \<and> (case run of None \<Rightarrow> False | Some r \<Rightarrow> rn_cancel_requested_at r \<noteq> None)
     \<and> (\<exists>d \<in> set (cd_commands db). tc_task_id d = tr_id t \<and> tc_command_type d = ''cancel_task'' \<and> open_command (tc_status d))"

definition leased_command :: "command_worker \<Rightarrow> instant \<Rightarrow> command_row \<Rightarrow> command_row" where
  "leased_command w now c = c\<lparr>tc_status := ''dispatching'', tc_lease_owner := Some (cw_worker_id w),
     tc_lease_expires_at := Some (now + cw_lease_seconds w * SECOND), tc_attempt := tc_attempt c + 1\<rparr>"

definition started_run :: "command_worker \<Rightarrow> instant \<Rightarrow> run_row \<Rightarrow> run_row" where
  "started_run w now r = r\<lparr>rn_status := ''running'',
     rn_started_at := (case rn_started_at r of None \<Rightarrow> Some now | Some s \<Rightarrow> Some s), rn_last_heartbeat_at := Some now,
     rn_reconciliation_deadline_at := (case rn_reconciliation_deadline_at r of
        None \<Rightarrow> Some (now + cw_max_run_seconds w * SECOND) | Some d \<Rightarrow> Some d)\<rparr>"

text \<open>The marks of a create whose outcome may be unknown, per kind of command.\<close>

definition create_kind :: "string \<Rightarrow> string option" where
  "create_kind typ = (if typ = ''respond'' then Some ''resume'' else if typ \<in> {''submit'', ''retry''} then Some ''submit''
     else if typ = ''fork'' then Some ''fork'' else None)"

definition create_marks :: "string \<Rightarrow> string set" where
  "create_marks kind = {''agent_'' @ kind @ ''_create_intent'', ''agent_'' @ kind @ ''_indeterminate''}"

definition intent_message :: "string \<Rightarrow> string" where
  "intent_message kind = (if kind = ''resume''
     then ''Official resume create intent is durable; a replacement worker must reconcile metadata before any second create.''
     else if kind = ''submit''
     then ''Official submit create intent is durable; a replacement worker must reconcile metadata before any second create.''
     else ''Official checkpoint fork create intent is durable; a replacement worker must reconcile metadata before any second create.'')"

definition reconcile_only :: "string \<Rightarrow> run_row option \<Rightarrow> string \<Rightarrow> bool" where
  "reconcile_only typ run kind = (case run of None \<Rightarrow> False
   | Some r \<Rightarrow> create_kind typ = Some kind \<and> rn_official_run_id r = None
       \<and> (case rn_failure_code r of None \<Rightarrow> False | Some code \<Rightarrow> code \<in> create_marks kind))"

definition intent_marked :: "string \<Rightarrow> run_row \<Rightarrow> run_row" where
  "intent_marked typ r = (case create_kind typ of None \<Rightarrow> r
   | Some kind \<Rightarrow> if rn_official_run_id r = None \<and> \<not> reconcile_only typ (Some r) kind
       then r\<lparr>rn_failure_code := Some (''agent_'' @ kind @ ''_create_intent''), rn_failure_message := Some (intent_message kind)\<rparr>
       else r)"

definition claimed_task_status :: "string \<Rightarrow> respond_payload option \<Rightarrow> string" where
  "claimed_task_status typ respond = (if typ \<noteq> ''respond'' \<or> (case respond of None \<Rightarrow> False | Some y \<Rightarrow> rp_expired y)
     then ''running'' else ''waiting_human'')"

definition nonempty_text :: "string option \<Rightarrow> string option" where
  "nonempty_text s = checked (\<lambda>x. x \<noteq> []) s"

definition handle_of :: "thread_row \<Rightarrow> run_row option \<Rightarrow> remote_handle option" where
  "handle_of h run = (case run of None \<Rightarrow> None
   | Some r \<Rightarrow> (case (nonempty_text (rn_official_assistant_id r), nonempty_text (th_official_thread_id h),
         nonempty_text (rn_official_run_id r)) of
       (Some a, Some th, Some o_run) \<Rightarrow> Some \<lparr>rh_assistant_id = a, rh_thread_id = th, rh_run_id = o_run\<rparr>
     | _ \<Rightarrow> None))"

definition resumed_run :: "run_row option \<Rightarrow> command_db \<Rightarrow> run_row option" where
  "resumed_run run db = (case run of None \<Rightarrow> None
   | Some r \<Rightarrow> (case rn_resume_of_run_id r of None \<Rightarrow> None | Some i \<Rightarrow> run_at i db))"

definition submission_of :: "command_params \<Rightarrow> string \<Rightarrow> json \<Rightarrow> (command_error, product_submission) result" where
  "submission_of p task_type payload =
     (if get_or_null ''schema_version'' payload = JStr ''1.0'' \<and> json_get ''entry_kind'' payload \<noteq> None then
        (case cp_read_decision p payload of None \<Rightarrow> Inl Bad_request
         | Some d \<Rightarrow> (case graph_request_for_decision (cp_redact p) d of
             Inl e \<Rightarrow> Inl Bad_request
           | Inr (Req_deep_research q) \<Rightarrow> if task_type \<noteq> ''deep_research'' then Inl Bad_request
               else (case mk_deep_research_request (cp_redact p) q of Inl e \<Rightarrow> Inl Bad_request | Inr v \<Rightarrow> Inr (Submit_research v))
           | Inr (Req_analysis q) \<Rightarrow> if task_type = ''deep_research'' then Inl Bad_request
               else (case mk_analysis_request (cp_redact p) q of Inl e \<Rightarrow> Inl Bad_request | Inr v \<Rightarrow> Inr (Submit_analysis v))))
      else if task_type = ''deep_research''
      then (case cp_read_research p payload of None \<Rightarrow> Inl Bad_request | Some q \<Rightarrow> Inr (Submit_research q))
      else (case cp_read_analysis p payload of None \<Rightarrow> Inl Bad_request | Some q \<Rightarrow> Inr (Submit_analysis q)))"

definition lease_of ::
  "command_params \<Rightarrow> command_worker \<Rightarrow> claim_row \<Rightarrow> command_row \<Rightarrow> run_row option \<Rightarrow> run_row option \<Rightarrow> respond_payload option
     \<Rightarrow> fork_payload option \<Rightarrow> run_row option \<Rightarrow> command_db \<Rightarrow> (command_error, command_lease) result" where
  \<comment> \<open>\<open>run0\<close> is the run before its intent was marked\<close>
  "lease_of p w k c run0 run respond fork source db =
     (let typ = tc_command_type c; t = ck_task k; h = ck_thread k;
          own = handle_of h run;
          resumed = (if typ = ''respond'' then handle_of h (resumed_run run db) else None);
          cancel_source = (if typ = ''cancel_task'' \<and> own = None then handle_of h (resumed_run run db) else None) in
      rbind (if typ \<in> {''submit'', ''retry''} then rbind (submission_of p (tr_task_type t) (tr_request_payload t)) (\<lambda>s. Inr (Some s))
             else Inr None) (\<lambda>submission.
      Inr \<lparr>cl_command_id = tc_id c, cl_task_id = tr_id t, cl_product_thread_id = th_id h, cl_product_run_id = map_option rn_id run,
        cl_command_type = typ, cl_command_sequence = tc_sequence c, cl_worker_id = cw_worker_id w, cl_fence_token = tc_attempt c,
        cl_actor = claim_actor k, cl_task_type = tr_task_type t, cl_submission = submission,
        cl_remote_handle = or_else own cancel_source, cl_resume_handle = resumed, cl_respond_payload = respond,
        cl_fork_source_handle = (if typ = ''fork'' then handle_of h source else None), cl_fork_payload = fork,
        cl_review_policy = ws_review_policy (ck_workspace k),
        cl_observed_terminal_status = Option.bind run rn_observed_terminal_status,
        cl_submit_reconcile_only = reconcile_only typ run0 ''submit'',
        cl_resume_reconcile_only = reconcile_only typ run0 ''resume'',
        cl_fork_reconcile_only = reconcile_only typ run0 ''fork'',
        cl_official_stream_last_event_id = Option.bind run rn_official_stream_last_event_id\<rparr>))"

definition lease_target ::
  "command_params \<Rightarrow> command_worker \<Rightarrow> fresh_ids \<Rightarrow> instant \<Rightarrow> claim_row \<Rightarrow> run_row option \<Rightarrow> respond_payload option
     \<Rightarrow> fork_payload option \<Rightarrow> run_row option \<Rightarrow> command_db \<Rightarrow> (command_error, command_lease option \<times> command_db) result" where
  "lease_target p w fresh now k run respond fork source db =
     (let c = ck_command k; t = ck_task k; typ = tc_command_type c in
      rbind (with_submitted_run w fresh now c t run db) (\<lambda>(run1, db1).
      rbind (with_intents w fresh now c t run1 db1) (\<lambda>db2.
      if cancelled_before_claim c t run1 db2 then Inr (None, close_command (tc_id c) ''cancelled'' db2)
      else let c1 = leased_command w now c; db3 = set_command (tc_id c) (\<lambda>_. c1) db2 in
        if typ \<in> set STARTING_COMMANDS then
          (case run1 of None \<Rightarrow> Inl Inconsistent
           | Some r \<Rightarrow>
               (let r1 = started_run w now r; r2 = intent_marked typ r1;
                    db4 = set_run (rn_id r) (\<lambda>_. r2) (set_task (tr_id t) (\<lambda>_. t\<lparr>tr_status := claimed_task_status typ respond\<rparr>) db3) in
                rbind (lease_of p w k c1 (Some r1) (Some r2) respond fork source db4) (\<lambda>l. Inr (Some l, db4))))
        else rbind (lease_of p w k c1 run1 run1 respond fork source db3) (\<lambda>l. Inr (Some l, db3)))))"

definition claim_next_command ::
  "command_params \<Rightarrow> command_worker \<Rightarrow> fresh_ids \<Rightarrow> (uuid \<Rightarrow> bool) \<Rightarrow> instant \<Rightarrow> command_db
     \<Rightarrow> (command_error, command_lease option \<times> command_db) result" where
  "claim_next_command p w fresh busy now db =
     (case first_by claim_order (claim_rows busy now db) of
        None \<Rightarrow> Inr (None, db)
      | Some k \<Rightarrow>
          rbind (command_target p fresh now (ck_command k) (ck_task k) db) (\<lambda>target. case target of
            Refused db1 \<Rightarrow> Inr (None, db1)
          | Target run respond fork source \<Rightarrow> lease_target p w fresh now k run respond fork source db))"

end
