(* ===== verification/Command_Settle.thy ===== *)
theory Command_Settle
  imports Command_Claim
begin

text \<open>
  The transactions a worker performs under its lease, all but the review pauses: registering the
  official run, renewing and rescheduling, cancelling, and recording errors
  (\<open>commands/dispatcher.py\<close>). Each one first locks the command and stops when the lease was lost.
\<close>

section \<open>The lease\<close>

definition lease_held :: "bool \<Rightarrow> instant \<Rightarrow> command_lease \<Rightarrow> command_row \<Rightarrow> bool" where
  "lease_held allow_expired now l c \<longleftrightarrow> tc_id c = cl_command_id l \<and> tc_status c = ''dispatching''
     \<and> tc_lease_owner c = Some (cl_worker_id l) \<and> tc_attempt c = cl_fence_token l
     \<and> (allow_expired \<or> (case tc_lease_expires_at c of None \<Rightarrow> False | Some t \<Rightarrow> now < t))"

definition owns_lease :: "instant \<Rightarrow> command_lease \<Rightarrow> command_db \<Rightarrow> bool" where
  "owns_lease now l db \<longleftrightarrow> (\<exists>c \<in> set (cd_commands db). lease_held False now l c)"

definition locked_command :: "bool \<Rightarrow> instant \<Rightarrow> command_lease \<Rightarrow> command_db \<Rightarrow> command_row option" where
  "locked_command allow_expired now l db =
     (if task_at (cl_task_id l) db = None then None else find (lease_held allow_expired now l) (cd_commands db))"

definition lease_run :: "command_lease \<Rightarrow> command_db \<Rightarrow> run_row option" where
  "lease_run l db = (case cl_product_run_id l of None \<Rightarrow> None | Some i \<Rightarrow> run_at i db)"

definition task_accepts_active_run :: "task_row \<Rightarrow> command_lease \<Rightarrow> bool" where
  "task_accepts_active_run t l \<longleftrightarrow> tr_status t = ''running''
     \<or> tr_status t = ''waiting_human'' \<and> cl_command_type l = ''respond''
         \<and> (case cl_respond_payload l of None \<Rightarrow> False | Some y \<Rightarrow> \<not> rp_expired y)"

definition is_cancel :: "command_lease \<Rightarrow> bool" where
  "is_cancel l \<longleftrightarrow> cl_command_type l \<in> {''cancel_run'', ''cancel_task''}"

definition next_poll :: "command_worker \<Rightarrow> instant \<Rightarrow> instant" where
  "next_poll w now = now + timedelta_seconds (cw_reconciliation_interval w)"

text \<open>A row given back with its next poll; it stays in dispatch.\<close>

definition postponed :: "command_worker \<Rightarrow> instant \<Rightarrow> command_row \<Rightarrow> command_row" where
  "postponed w now c = c\<lparr>tc_lease_owner := None, tc_lease_expires_at := Some (next_poll w now)\<rparr>"

definition requeued :: "command_worker \<Rightarrow> instant \<Rightarrow> command_row \<Rightarrow> command_row" where
  "requeued w now c = c\<lparr>tc_status := ''pending'', tc_lease_owner := None, tc_lease_expires_at := Some (next_poll w now)\<rparr>"

section \<open>Registering the official run\<close>

datatype registration = Registered | Cancel_requested | Lost

definition registered_run :: "remote_handle \<Rightarrow> instant \<Rightarrow> run_row \<Rightarrow> run_row" where
  "registered_run hn now r = r\<lparr>rn_official_assistant_id := Some (rh_assistant_id hn),
     rn_official_run_id := Some (rh_run_id hn), rn_last_heartbeat_at := Some now\<rparr>"

definition handle_fits :: "remote_handle \<Rightarrow> bool" where
  "handle_fits hn \<longleftrightarrow> fits 255 (rh_assistant_id hn) \<and> fits 255 (rh_thread_id hn) \<and> fits 255 (rh_run_id hn)"

definition store_handle ::
  "remote_handle \<Rightarrow> run_row \<Rightarrow> thread_row \<Rightarrow> command_lease \<Rightarrow> command_db \<Rightarrow> (command_error, command_db) result" where
  \<comment> \<open>\<open>r\<close> is the run as it will be stored\<close>
  "store_handle hn r h l db =
     ensure (handle_fits hn \<and> (\<forall>q \<in> set (cd_runs db). rn_id q \<noteq> rn_id r \<longrightarrow> rn_official_run_id q \<noteq> Some (rh_run_id hn))
             \<and> (\<forall>g \<in> set (cd_threads db). th_id g \<noteq> th_id h \<and> th_workspace_id g = th_workspace_id h
               \<longrightarrow> th_official_thread_id g \<noteq> Some (rh_thread_id hn)))
       Row_rejected
       (Inr (set_command (cl_command_id l) (\<lambda>c. c\<lparr>tc_official_run_id := Some (rh_run_id hn)\<rparr>)
              (set_run (rn_id r) (\<lambda>_. r) (set_thread (th_id h) (\<lambda>g. g\<lparr>th_official_thread_id := Some (rh_thread_id hn)\<rparr>) db))))"

definition register_remote ::
  "command_worker \<Rightarrow> instant \<Rightarrow> command_lease \<Rightarrow> remote_handle \<Rightarrow> command_db
     \<Rightarrow> (command_error, registration \<times> command_db) result" where
  "register_remote w now l hn db =
     (case (locked_command False now l db, task_at (cl_task_id l) db, lease_run l db, thread_at (cl_product_thread_id l) db) of
        (Some c, Some t, Some r, Some h) \<Rightarrow>
          if \<not> task_accepts_active_run t l then Inr (Lost, db)
          else rbind (store_handle hn ((registered_run hn now r)\<lparr>rn_failure_code := None, rn_failure_message := None\<rparr>) h l db)
            (\<lambda>db1. if rn_cancel_requested_at r \<noteq> None then Inr (Cancel_requested, close_command (tc_id c) ''cancelled'' db1)
              else Inr (Registered, set_command (tc_id c)
                     (\<lambda>c. c\<lparr>tc_lease_expires_at := Some (now + cw_lease_seconds w * SECOND)\<rparr>) db1))
      | _ \<Rightarrow> Inr (Lost, db))"

definition register_cancel_target ::
  "instant \<Rightarrow> command_lease \<Rightarrow> remote_handle \<Rightarrow> command_db \<Rightarrow> (command_error, bool \<times> command_db) result" where
  "register_cancel_target now l hn db =
     (case (locked_command True now l db, lease_run l db, thread_at (cl_product_thread_id l) db) of
        (Some c, Some r, Some h) \<Rightarrow> rbind (store_handle hn (registered_run hn now r) h l db) (\<lambda>db1. Inr (True, db1))
      | _ \<Rightarrow> Inr (False, db))"

section \<open>Renewing and rescheduling\<close>

definition renew_lease :: "command_worker \<Rightarrow> instant \<Rightarrow> command_lease \<Rightarrow> command_db \<Rightarrow> bool \<times> command_db" where
  "renew_lease w now l db =
     (case (locked_command False now l db, lease_run l db) of
        (Some c, Some r) \<Rightarrow> (True, set_run (rn_id r) (\<lambda>r. r\<lparr>rn_last_heartbeat_at := Some now\<rparr>)
          (set_command (tc_id c) (\<lambda>c. c\<lparr>tc_lease_expires_at := Some (now + cw_lease_seconds w * SECOND)\<rparr>) db))
      | _ \<Rightarrow> (False, db))"

definition schedule_reconciliation :: "command_worker \<Rightarrow> instant \<Rightarrow> command_lease \<Rightarrow> command_db \<Rightarrow> bool \<times> command_db" where
  "schedule_reconciliation w now l db =
     (case (locked_command True now l db, lease_run l db) of
        (Some c, Some r) \<Rightarrow> if rn_status r \<noteq> ''running'' then (False, db)
          else (True, set_command (tc_id c) (postponed w now) (set_run (rn_id r) (\<lambda>r. r\<lparr>rn_last_heartbeat_at := Some now\<rparr>) db))
      | _ \<Rightarrow> (False, db))"

definition postpone_cancel :: "command_worker \<Rightarrow> instant \<Rightarrow> command_lease \<Rightarrow> command_db \<Rightarrow> bool \<times> command_db" where
  "postpone_cancel w now l db = (case locked_command True now l db of
     None \<Rightarrow> (False, db) | Some c \<Rightarrow> (True, set_command (tc_id c) (postponed w now) db))"

datatype orphan_step = Orphan_lost | Orphan_postponed | Orphan_exhausted

definition schedule_orphan_cancel :: "command_worker \<Rightarrow> instant \<Rightarrow> command_lease \<Rightarrow> command_db \<Rightarrow> orphan_step \<times> command_db" where
  "schedule_orphan_cancel w now l db =
     (case (locked_command True now l db, lease_run l db) of
        (Some c, Some r) \<Rightarrow>
          if rn_status r \<noteq> ''running'' then (Orphan_lost, db)
          else if (case rn_cancel_requested_at r of None \<Rightarrow> False | Some s \<Rightarrow> s + cw_max_cancel_seconds w * SECOND \<le> now)
          then (Orphan_exhausted, db)
          else (Orphan_postponed, set_command (tc_id c) (postponed w now) (set_run (rn_id r) (\<lambda>r. r\<lparr>
                  rn_cancel_requested_at := (case rn_cancel_requested_at r of None \<Rightarrow> Some now | Some s \<Rightarrow> Some s),
                  rn_last_heartbeat_at := Some now\<rparr>) db))
      | _ \<Rightarrow> (Orphan_lost, db))"

definition run_deadline_exceeded :: "command_worker \<Rightarrow> instant \<Rightarrow> command_lease \<Rightarrow> command_db \<Rightarrow> bool" where
  "run_deadline_exceeded w now l db = (case lease_run l db of
     None \<Rightarrow> True
   | Some r \<Rightarrow> (case (rn_reconciliation_deadline_at r, rn_started_at r) of
       (Some d, _) \<Rightarrow> d \<le> now
     | (None, Some s) \<Rightarrow> s + cw_max_run_seconds w * SECOND \<le> now
     | (None, None) \<Rightarrow> False))"

definition remember_remote_terminal ::
  "instant \<Rightarrow> command_lease \<Rightarrow> string \<Rightarrow> command_db \<Rightarrow> (command_error, bool \<times> command_db) result" where
  "remember_remote_terminal now l status db =
     (if status \<notin> {''error'', ''success'', ''timeout''} then Inl Inconsistent
      else case (locked_command True now l db, lease_run l db) of
        (Some c, Some r) \<Rightarrow>
          if \<not> opt_ok (\<lambda>s. s = status) (rn_observed_terminal_status r) then Inl Inconsistent
          else Inr (True, set_run (rn_id r) (\<lambda>r. r\<lparr>rn_observed_terminal_status := Some status, rn_last_heartbeat_at := Some now\<rparr>) db)
      | _ \<Rightarrow> Inr (False, db))"

definition release_worker_leases :: "(uuid \<Rightarrow> bool) \<Rightarrow> command_worker \<Rightarrow> instant \<Rightarrow> command_db \<Rightarrow> command_db" where
  "release_worker_leases busy w now db = db\<lparr>cd_commands := update_where
     (\<lambda>c. tc_status c = ''dispatching'' \<and> tc_lease_owner c = Some (cw_worker_id w) \<and> \<not> busy (tc_id c))
     (\<lambda>c. c\<lparr>tc_lease_owner := None, tc_lease_expires_at := Some now\<rparr>) (cd_commands db)\<rparr>"

section \<open>Progress of the graph\<close>

definition persist_progressive_update ::
  "command_params \<Rightarrow> command_worker \<Rightarrow> fresh_ids \<Rightarrow> instant \<Rightarrow> command_lease \<Rightarrow> remote_handle \<Rightarrow> string \<Rightarrow> (string \<times> json) list
     \<Rightarrow> command_db \<Rightarrow> (command_error, bool \<times> command_db) result" where
  "persist_progressive_update p w fresh now l hn event_id updates db =
     (case (locked_command False now l db, task_at (cl_task_id l) db, lease_run l db) of
        (Some c, Some t, Some r) \<Rightarrow>
          if \<not> task_accepts_active_run t l \<or> rn_official_run_id r \<noteq> Some (rh_run_id hn) \<or> tc_official_run_id c \<noteq> Some (rh_run_id hn)
          then Inr (False, db)
          else rbind (lifted Event_failure (append_progressive_events (cp_events p) (fi_event fresh) t r updates event_id
                 (rn_checkpoint_id r) now (event_view db))) (\<lambda>(n, e).
            Inr (True, set_command (tc_id c) (\<lambda>c. c\<lparr>tc_lease_expires_at := Some (now + cw_lease_seconds w * SECOND)\<rparr>)
              (set_run (rn_id r) (\<lambda>r. r\<lparr>rn_official_stream_last_event_id := Some event_id,
                 rn_official_stream_last_event_at := Some now, rn_last_heartbeat_at := Some now\<rparr>) (store_events e db))))
      | _ \<Rightarrow> Inr (False, db))"

section \<open>Pauses of a cancelled run\<close>

text \<open>A change of members under the check constraints of their table.\<close>

definition set_members :: "(member_row \<Rightarrow> bool) \<Rightarrow> (member_row \<Rightarrow> member_row) \<Rightarrow> command_db \<Rightarrow> (command_error, command_db) result" where
  "set_members P f db = ensure (\<forall>m \<in> set (cd_members db). P m \<longrightarrow> member_check (f m)) Row_rejected
     (Inr (db\<lparr>cd_members := update_where P f (cd_members db)\<rparr>))"

definition lineage_pause :: "command_lease \<Rightarrow> uuid \<Rightarrow> pause_row \<Rightarrow> bool" where
  "lineage_pause l run_id q \<longleftrightarrow> ip_task_id q = cl_task_id l \<and> active_pause q
     \<and> (ip_run_id q = run_id \<or> ip_resume_run_id q = Some run_id)"

definition member_of :: "command_lease \<Rightarrow> pause_row \<Rightarrow> member_row \<Rightarrow> bool" where
  "member_of l q m \<longleftrightarrow> im_task_id m = cl_task_id l \<and> im_pause_id m = ip_id q"

definition close_pause :: "command_lease \<Rightarrow> string \<Rightarrow> pause_row \<Rightarrow> command_db \<Rightarrow> (command_error, command_db) result" where
  "close_pause l pause_status q db =
     (let members = filter (member_of l q) (cd_members db);
          accepted = (pause_status = ''resolved'' \<and> ip_status q = ''responding'' \<and> list_all (\<lambda>m. im_response m \<noteq> None) members);
          status = (if accepted then ''resolved'' else ''cancelled'') in
      ensure (members \<noteq> [] \<and> list_all (\<lambda>m. im_status m = ip_status q) members) Inconsistent
        (set_members (member_of l q) (\<lambda>m. m\<lparr>im_status := status\<rparr>) (set_pause (ip_id q) (\<lambda>q. q\<lparr>ip_status := status\<rparr>) db)))"

fun close_pauses :: "command_lease \<Rightarrow> string \<Rightarrow> pause_row list \<Rightarrow> command_db \<Rightarrow> (command_error, command_db) result" where
  "close_pauses l pause_status [] db = Inr db"
| "close_pauses l pause_status (q # qs) db = rbind (close_pause l pause_status q db) (close_pauses l pause_status qs)"

definition close_active_interrupt_lineage ::
  "command_lease \<Rightarrow> string \<Rightarrow> command_db \<Rightarrow> (command_error, command_db) result" where
  "close_active_interrupt_lineage l pause_status db = (case cl_product_run_id l of
     None \<Rightarrow> Inr db
   | Some i \<Rightarrow> close_pauses l pause_status (sort_key ip_id (filter (lineage_pause l i) (cd_pauses db))) db)"

definition resolve_responding_interrupt ::
  "instant \<Rightarrow> command_lease \<Rightarrow> command_db \<Rightarrow> (command_error, command_db) result" where
  "resolve_responding_interrupt now l db = (case cl_respond_payload l of
     None \<Rightarrow> Inr db
   | Some y \<Rightarrow>
       (case find (\<lambda>q. ip_id q = rp_pause_id y \<and> ip_task_id q = cl_task_id l) (cd_pauses db) of
          None \<Rightarrow> Inl Inconsistent
        | Some q \<Rightarrow>
            (let members = filter (member_of l q) (cd_members db) in
             if im_id ` set members \<noteq> rm_projection_id ` set (rp_responses y) then Inl Inconsistent
             else if ip_status q \<noteq> ''responding'' then Inr db
             else ensure (list_all (\<lambda>m. im_status m = ''responding'') members) Inconsistent
               (set_members (member_of l q) (\<lambda>m. m\<lparr>im_status := ''resolved'',
                   im_responded_at := (case im_responded_at m of None \<Rightarrow> Some now | Some x \<Rightarrow> Some x)\<rparr>)
                 (set_pause (ip_id q) (\<lambda>q. q\<lparr>ip_status := ''resolved''\<rparr>) db)))))"

end
