(* ===== verification/Command_Finish.thy ===== *)
theory Command_Finish
  imports Command_Settle
begin

text \<open>
  How a command ends (\<open>commands/dispatcher.py\<close>): a cancelled run, an error of the Agent Server, and the
  commit of a finished run with its snapshot, evidence, artifact version, decision, outcome and
  notification (\<open>ArtifactRepository\<close> of \<open>persistence/repositories.py\<close>, \<open>_finalize\<close>).
\<close>

section \<open>Cancelling\<close>

definition target_is_latest :: "command_lease \<Rightarrow> task_row \<Rightarrow> run_row option \<Rightarrow> command_db \<Rightarrow> bool" where
  "target_is_latest l t run db \<longleftrightarrow> cl_command_type l = ''cancel_task''
     \<or> cl_command_type l = ''cancel_run'' \<and> (case run of None \<Rightarrow> False
         | Some r \<Rightarrow> map_option rn_id (latest_run t db) = Some (rn_id r))"

definition failed_attempt :: "string \<Rightarrow> string \<Rightarrow> bool \<Rightarrow> int \<Rightarrow> terminal_output" where
  "failed_attempt code error_type retryable attempt = failure_output code error_type retryable (Some (clipped_attempt attempt))"

definition finalize_cancel_failure ::
  "command_params \<Rightarrow> fresh_ids \<Rightarrow> instant \<Rightarrow> command_lease \<Rightarrow> string option \<Rightarrow> string \<Rightarrow> string \<Rightarrow> command_db
     \<Rightarrow> (command_error, bool \<times> command_db) result" where
  \<comment> \<open>\<open>exc\<close> is the name of the exception's class\<close>
  "finalize_cancel_failure p fresh now l exc failure_code failure_message db =
     (case locked_command True now l db of
        None \<Rightarrow> Inr (False, db)
      | Some c \<Rightarrow>
          (case task_at (cl_task_id l) db of
             None \<Rightarrow> Inr (False, close_command (tc_id c) ''cancelled'' db)
           | Some t \<Rightarrow>
               if ended_status (tr_status t) then Inr (False, close_command (tc_id c) ''cancelled'' db)
               else rbind (close_active_interrupt_lineage l ''cancelled'' db) (\<lambda>db1.
                 let run = lease_run l db; latest = target_is_latest l t run db1;
                     t1 = (if latest then ended_task now ''failed'' t else t);
                     db2 = close_command (tc_id c) ''failed'' (set_task (tr_id t) (\<lambda>_. t1) db1);
                     error_type = (case exc of None \<Rightarrow> ''RunDiscoveryTimeout'' | Some e \<Rightarrow> e) in
                 case run of
                   None \<Rightarrow> Inr (True, db2)
                 | Some r \<Rightarrow> rbind (persist_terminal_run p fresh now t1 r
                     (failed_attempt failure_code error_type False (cl_fence_token l)) (cl_command_sequence l) latest
                     (Some failure_message) db2) (\<lambda>db3. Inr (True, db3)))))"

definition finalize_cancel ::
  "command_params \<Rightarrow> fresh_ids \<Rightarrow> instant \<Rightarrow> command_lease \<Rightarrow> command_db \<Rightarrow> (command_error, bool \<times> command_db) result" where
  "finalize_cancel p fresh now l db =
     (case locked_command True now l db of
        None \<Rightarrow> Inr (False, db)
      | Some c \<Rightarrow>
          (case task_at (cl_task_id l) db of
             None \<Rightarrow> Inr (False, close_command (tc_id c) ''cancelled'' db)
           | Some t \<Rightarrow>
               (let run = lease_run l db in
                if ended_status (tr_status t) \<or> (case run of None \<Rightarrow> False | Some r \<Rightarrow> cl_command_sequence l < rn_projection_fence r)
                then Inr (False, close_command (tc_id c) ''cancelled'' db)
                else rbind (close_active_interrupt_lineage l ''cancelled'' db) (\<lambda>db1.
                  let t1 = (if cl_command_type l = ''cancel_task'' then ended_task now ''cancelled'' t else t);
                      db2 = close_command (tc_id c) ''dispatched'' (set_task (tr_id t) (\<lambda>_. t1) db1) in
                  case run of
                    None \<Rightarrow> Inr (True, db2)
                  | Some r \<Rightarrow> rbind (persist_terminal_run p fresh now t1 r cancelled_output (cl_command_sequence l)
                      (target_is_latest l t run db1) None db2) (\<lambda>db3. Inr (True, db3))))))"

section \<open>Errors of the Agent Server\<close>

datatype remote_error =
    Submit_indeterminate
  | Resume_indeterminate
  | Fork_indeterminate
  | Remote_failure string \<comment> \<open>any other exception, by the name of its class\<close>

fun error_name_of :: "remote_error \<Rightarrow> string" where
  "error_name_of Submit_indeterminate = ''RemoteSubmitIndeterminateError''"
| "error_name_of Resume_indeterminate = ''RemoteResumeIndeterminateError''"
| "error_name_of Fork_indeterminate = ''RemoteForkIndeterminateError''"
| "error_name_of (Remote_failure s) = s"

definition before_deadline :: "instant \<Rightarrow> run_row \<Rightarrow> bool" where
  "before_deadline now r \<longleftrightarrow> (case rn_reconciliation_deadline_at r of None \<Rightarrow> False | Some d \<Rightarrow> now < d)"

text \<open>The command goes back to the queue and the run waits under a failure code.\<close>

definition requeue_run ::
  "command_worker \<Rightarrow> instant \<Rightarrow> command_row \<Rightarrow> task_row \<Rightarrow> string \<Rightarrow> run_row \<Rightarrow> string \<Rightarrow> string \<Rightarrow> command_db \<Rightarrow> command_db" where
  "requeue_run w now c t task_status r code failure_message db =
     set_command (tc_id c) (requeued w now)
       (set_run (rn_id r) (\<lambda>r. r\<lparr>rn_status := ''queued'', rn_failure_code := Some code, rn_failure_message := Some failure_message\<rparr>)
         (set_task (tr_id t) (\<lambda>t. t\<lparr>tr_status := task_status\<rparr>) db))"

definition fail_command_run ::
  "command_params \<Rightarrow> fresh_ids \<Rightarrow> instant \<Rightarrow> command_lease \<Rightarrow> command_row \<Rightarrow> task_row \<Rightarrow> run_row \<Rightarrow> terminal_output \<Rightarrow> string
     \<Rightarrow> command_db \<Rightarrow> (command_error, command_db) result" where
  "fail_command_run p fresh now l c t r terminal failure_message db =
     rbind (persist_terminal_run p fresh now t r terminal (cl_command_sequence l) True (Some failure_message) db)
       (\<lambda>db1. Inr (close_command (tc_id c) ''failed'' db1))"

definition record_submit_error ::
  "command_params \<Rightarrow> command_worker \<Rightarrow> fresh_ids \<Rightarrow> instant \<Rightarrow> command_lease \<Rightarrow> command_row \<Rightarrow> run_row \<Rightarrow> command_db
     \<Rightarrow> (command_error, command_db) result" where
  "record_submit_error p w fresh now l c r db = (case task_at (cl_task_id l) db of
     None \<Rightarrow> Inl Inconsistent
   | Some t \<Rightarrow>
       if before_deadline now r then Inr (requeue_run w now c t ''queued'' r ''agent_submit_indeterminate''
         ''Official submit may have succeeded; only metadata reconciliation is allowed until the recovery deadline.'' db)
       else fail_command_run p fresh now l c t r (failed_attempt ''agent_submit_indeterminate''
         (error_name_of Submit_indeterminate) False (tc_attempt c))
         ''The official submit acceptance remained unknown until the recovery deadline; no second Run was created.'' db)"

definition record_respond_error ::
  "command_params \<Rightarrow> command_worker \<Rightarrow> fresh_ids \<Rightarrow> instant \<Rightarrow> command_lease \<Rightarrow> respond_payload \<Rightarrow> remote_error \<Rightarrow> command_row
     \<Rightarrow> run_row \<Rightarrow> command_db \<Rightarrow> (command_error, command_db) result" where
  "record_respond_error p w fresh now l y exc c r db =
     (case (task_at (cl_task_id l) db, find (\<lambda>q. ip_id q = rp_pause_id y \<and> ip_task_id q = cl_task_id l) (cd_pauses db)) of
        (Some t, Some q) \<Rightarrow>
          (let members = filter (member_of l q) (cd_members db);
               pause_status = (if rp_expired y then ''expired'' else ''responding'');
               task_status = (if rp_expired y then ''running'' else ''waiting_human'');
               attempt_limit = (if rp_expired y then cw_max_cancel_attempts w else cw_max_attempts w) in
           if ip_status q \<noteq> pause_status \<or> im_id ` set members \<noteq> rm_projection_id ` set (rp_responses y)
              \<or> list_ex (\<lambda>m. im_status m \<noteq> pause_status) members then Inl Inconsistent
           else if exc = Resume_indeterminate \<and> before_deadline now r
           then Inr (requeue_run w now c t task_status r ''agent_resume_indeterminate''
             ''Official resume create may have succeeded; only metadata reconciliation is allowed until the recovery deadline.'' db)
           else if tc_attempt c < attempt_limit
           then Inr (requeue_run w now c t task_status r ''agent_server_unavailable''
             ''Agent Server is temporarily unavailable; the accepted review batch is still awaiting resume.'' db)
           else fail_command_run p fresh now l c t r (failed_attempt ''agent_resume_failed'' (error_name_of exc) False (tc_attempt c))
             ''Official Run resume failed after the configured attempt limit.''
             (set_pause (ip_id q) (\<lambda>q. q\<lparr>ip_status := ''resume_failed''\<rparr>) db))
      | _ \<Rightarrow> Inl Inconsistent)"

definition record_fork_error ::
  "command_params \<Rightarrow> command_worker \<Rightarrow> fresh_ids \<Rightarrow> instant \<Rightarrow> command_lease \<Rightarrow> remote_error \<Rightarrow> command_row \<Rightarrow> run_row \<Rightarrow> command_db
     \<Rightarrow> (command_error, command_db) result" where
  "record_fork_error p w fresh now l exc c r db = (case task_at (cl_task_id l) db of
     None \<Rightarrow> Inl Inconsistent
   | Some t \<Rightarrow>
       if exc = Fork_indeterminate \<and> before_deadline now r
       then Inr (requeue_run w now c t ''queued'' r ''agent_fork_indeterminate''
         ''Official checkpoint fork may have succeeded; only metadata reconciliation is allowed until the recovery deadline.'' db)
       else if tc_attempt c < cw_max_attempts w
       then Inr (requeue_run w now c t ''queued'' r ''agent_server_unavailable''
         ''Agent Server is temporarily unavailable; the admitted checkpoint fork is awaiting dispatch.'' db)
       else fail_command_run p fresh now l c t r (failed_attempt ''agent_fork_failed'' (error_name_of exc) False (tc_attempt c))
         ''Official checkpoint fork failed after the configured attempt limit.'' db)"

definition record_other_error ::
  "command_params \<Rightarrow> command_worker \<Rightarrow> fresh_ids \<Rightarrow> instant \<Rightarrow> command_lease \<Rightarrow> remote_error \<Rightarrow> command_row \<Rightarrow> run_row \<Rightarrow> command_db
     \<Rightarrow> (command_error, command_db) result" where
  "record_other_error p w fresh now l exc c r db =
     (if tc_attempt c < cw_max_attempts w then
        (let db1 = (if cl_command_type l \<in> {''submit'', ''retry''}
             then set_run (rn_id r) (\<lambda>r. r\<lparr>rn_status := ''queued'', rn_failure_code := Some ''agent_server_unavailable'',
                    rn_failure_message := Some ''Agent Server rejected the request before an official Run was known to exist; submit may be retried.''\<rparr>)
                  (set_task (cl_task_id l) (\<lambda>t. t\<lparr>tr_status := ''queued'', tr_completed_at := None\<rparr>) db)
             else db)
         in Inr (set_command (tc_id c) (\<lambda>c. c\<lparr>tc_lease_expires_at := Some now\<rparr>) db1))
      else (case task_at (cl_task_id l) db of
        None \<Rightarrow> Inr db
      | Some t \<Rightarrow> fail_command_run p fresh now l c t r (failed_attempt ''agent_server_unavailable'' (error_name_of exc) True (tc_attempt c))
          ''Agent Server unavailable'' db))"

definition record_remote_error ::
  "command_params \<Rightarrow> command_worker \<Rightarrow> fresh_ids \<Rightarrow> instant \<Rightarrow> command_lease \<Rightarrow> remote_error \<Rightarrow> command_db
     \<Rightarrow> (command_error, command_db) result" where
  "record_remote_error p w fresh now l exc db =
     (case (locked_command True now l db, lease_run l db) of
        (Some c, Some r) \<Rightarrow>
          if rn_cancel_requested_at r \<noteq> None then Inr (close_command (tc_id c) ''cancelled'' db)
          else if cl_command_type l \<in> {''submit'', ''retry''} \<and> exc = Submit_indeterminate then record_submit_error p w fresh now l c r db
          else if cl_command_type l = ''respond'' \<and> cl_respond_payload l \<noteq> None
          then record_respond_error p w fresh now l (the (cl_respond_payload l)) exc c r db
          else if cl_command_type l = ''fork'' \<and> cl_fork_payload l \<noteq> None then record_fork_error p w fresh now l exc c r db
          else record_other_error p w fresh now l exc c r db
      | _ \<Rightarrow> Inr db)"

end
