(* ===== verification/Command_Commit.thy ===== *)
theory Command_Commit
  imports Command_Finish
begin

text \<open>
  The commit of a finished run (\<open>_finalize\<close> and \<open>_record_terminal_projection_database_error\<close> of
  \<open>commands/dispatcher.py\<close>, \<open>ArtifactRepository\<close> of \<open>persistence/repositories.py\<close>).
\<close>

section \<open>Web evidence\<close>

definition py_text :: "command_params \<Rightarrow> json \<Rightarrow> string" where
  "py_text p j = (case j of JStr s \<Rightarrow> s | _ \<Rightarrow> cp_text p j)"

definition stored_identity :: "command_params \<Rightarrow> evidence_row \<Rightarrow> string \<times> string" where
  "stored_identity p r = (wr_source_url r, py_text p (py_or (get_or_null ''content_hash'' (wr_payload r)) (JStr '''')))"

definition evidence_of_run :: "task_row \<Rightarrow> run_row \<Rightarrow> evidence_row \<Rightarrow> bool" where
  "evidence_of_run t r e \<longleftrightarrow> (wr_tenant_id e, wr_workspace_id e, wr_owner_user_id e) = task_scope t
     \<and> wr_task_id e = tr_id t \<and> wr_run_id e = rn_id r"

text \<open>What is added, in order: \<open>seen\<close> are the identities so far, \<open>k\<close> counts the rows drawn.\<close>

fun new_evidence ::
  "command_params \<Rightarrow> fresh_ids \<Rightarrow> task_row \<Rightarrow> run_row \<Rightarrow> (string \<times> string) list \<Rightarrow> nat \<Rightarrow> web_evidence list \<Rightarrow> evidence_row list" where
  "new_evidence p fresh t r seen k [] = []"
| "new_evidence p fresh t r seen k (e # es) =
     (if evidence_key e \<in> set seen then new_evidence p fresh t r seen k es
      else \<lparr>wr_id = fi_evidence fresh k, wr_tenant_id = tr_tenant_id t, wr_workspace_id = tr_workspace_id t,
        wr_owner_user_id = tr_owner_user_id t, wr_task_id = tr_id t, wr_run_id = rn_id r, wr_source_url = we_final_url e,
        wr_title = Some (we_title e), wr_payload = cp_dump_evidence p False e, wr_fetched_at = we_fetched_at e,
        wr_published_at = we_published_at e\<rparr> # new_evidence p fresh t r (evidence_key e # seen) (Suc k) es)"

definition persist_verified_web_evidence ::
  "command_params \<Rightarrow> fresh_ids \<Rightarrow> task_row \<Rightarrow> run_row \<Rightarrow> web_evidence list \<Rightarrow> command_db \<Rightarrow> command_db" where
  "persist_verified_web_evidence p fresh t r items db = db\<lparr>cd_evidence := cd_evidence db
     @ new_evidence p fresh t r (map (stored_identity p) (filter (evidence_of_run t r) (cd_evidence db))) 0 items\<rparr>"

definition persist_snapshot ::
  "command_params \<Rightarrow> fresh_ids \<Rightarrow> task_row \<Rightarrow> run_row \<Rightarrow> market_snapshot option \<Rightarrow> command_db \<Rightarrow> command_db" where
  "persist_snapshot p fresh t r market db = (case market of
     None \<Rightarrow> db
   | Some m \<Rightarrow> db\<lparr>cd_snapshots := cd_snapshots db @ [\<lparr>sn_id = fi_snapshot fresh, sn_tenant_id = tr_tenant_id t,
       sn_workspace_id = tr_workspace_id t, sn_owner_user_id = tr_owner_user_id t, sn_task_id = tr_id t, sn_run_id = rn_id r,
       sn_symbol = symbol_str (ms_symbol m), sn_snapshot = cp_dump_market p False m, sn_fetched_at = ms_fetched_at m\<rparr>]\<rparr>)"

section \<open>Artifacts and their versions\<close>

definition artifact_of_task :: "task_row \<Rightarrow> string \<Rightarrow> report_row \<Rightarrow> bool" where
  "artifact_of_task t typ a \<longleftrightarrow> (af_tenant_id a, af_workspace_id a, af_owner_user_id a) = task_scope t
     \<and> af_task_id a = tr_id t \<and> af_artifact_type a = typ"

definition task_artifact ::
  "fresh_ids \<Rightarrow> task_row \<Rightarrow> string \<Rightarrow> command_db \<Rightarrow> (command_error, report_row \<times> command_db) result" where
  "task_artifact fresh t typ db = (case find (artifact_of_task t typ) (cd_artifacts db) of
     Some a \<Rightarrow> Inr (a, db)
   | None \<Rightarrow>
       (let a = \<lparr>af_id = fi_artifact fresh, af_tenant_id = tr_tenant_id t, af_workspace_id = tr_workspace_id t,
              af_owner_user_id = tr_owner_user_id t, af_task_id = tr_id t, af_artifact_type = typ, af_latest_version_number = 0\<rparr>
        in ensure (\<forall>b \<in> set (cd_artifacts db). af_id b \<noteq> af_id a \<and> \<not> (af_task_id b = tr_id t \<and> af_artifact_type b = typ))
             Row_rejected (Inr (a, db\<lparr>cd_artifacts := cd_artifacts db @ [a]\<rparr>))))"

definition scoped_version :: "command_db \<Rightarrow> actor_context \<Rightarrow> uuid \<Rightarrow> report_version_row \<Rightarrow> bool" where
  "scoped_version db ac artifact_id v \<longleftrightarrow> vn_artifact_id v = artifact_id
     \<and> actor_scope (cd_directory db) ac (vn_tenant_id v) (vn_workspace_id v) (vn_owner_user_id v)"

definition next_version_number :: "command_db \<Rightarrow> actor_context \<Rightarrow> uuid \<Rightarrow> int" where
  "next_version_number db ac artifact_id =
     Max (insert 0 (vn_version_number ` {v \<in> set (cd_versions db). scoped_version db ac artifact_id v})) + 1"

definition commit_version ::
  "fresh_ids \<Rightarrow> actor_context \<Rightarrow> uuid \<Rightarrow> uuid \<Rightarrow> json \<Rightarrow> string \<Rightarrow> command_db
     \<Rightarrow> (command_error, report_version_row \<times> command_db) result" where
  "commit_version fresh ac artifact_id run_id content schema_version db =
     (case (find (\<lambda>a. af_id a = artifact_id \<and> actor_scope (cd_directory db) ac (af_tenant_id a) (af_workspace_id a) (af_owner_user_id a))
              (cd_artifacts db), run_at run_id db) of
        (Some a, Some r) \<Rightarrow>
          if rn_task_id r \<noteq> af_task_id a \<or> run_actor r \<noteq> (af_tenant_id a, af_workspace_id a, af_owner_user_id a) then Inl Scope_missing
          else (let n = next_version_number db ac artifact_id;
                 v = \<lparr>vn_id = fi_version fresh, vn_tenant_id = af_tenant_id a, vn_workspace_id = af_workspace_id a,
                   vn_owner_user_id = af_owner_user_id a, vn_artifact_id = artifact_id, vn_task_id = af_task_id a, vn_run_id = run_id,
                   vn_version_number = n, vn_schema_version = schema_version, vn_status = ''committed'', vn_content = content\<rparr>
               in ensure (fits 32 schema_version \<and> (\<forall>x \<in> set (cd_versions db). vn_id x \<noteq> vn_id v
                      \<and> \<not> (vn_artifact_id x = artifact_id \<and> vn_version_number x = n))) Row_rejected
                    (Inr (v, db\<lparr>cd_versions := cd_versions db @ [v], cd_artifacts := update_where (\<lambda>b. af_id b = artifact_id)
                       (\<lambda>b. b\<lparr>af_latest_version_number := n\<rparr>) (cd_artifacts db)\<rparr>)))
      | _ \<Rightarrow> Inl Scope_missing)"

definition commit_version_and_decision ::
  "fresh_ids \<Rightarrow> actor_context \<Rightarrow> uuid \<Rightarrow> uuid \<Rightarrow> json \<Rightarrow> json \<Rightarrow> json \<Rightarrow> json \<Rightarrow> string \<Rightarrow> command_db
     \<Rightarrow> (command_error, (report_version_row \<times> decision_row) \<times> command_db) result" where
  "commit_version_and_decision fresh ac artifact_id run_id content decision evidence_verdict risk_verdict schema_version db =
     rbind (commit_version fresh ac artifact_id run_id content schema_version db) (\<lambda>(v, db1).
       let d = \<lparr>dn_id = fi_decision fresh, dn_tenant_id = vn_tenant_id v, dn_workspace_id = vn_workspace_id v,
             dn_owner_user_id = vn_owner_user_id v, dn_artifact_id = artifact_id, dn_artifact_version_id = vn_id v,
             dn_task_id = vn_task_id v, dn_run_id = run_id, dn_decision_version = vn_version_number v, dn_decision = decision,
             dn_evidence_verdict = evidence_verdict, dn_risk_verdict = risk_verdict\<rparr>
       in ensure (\<forall>x \<in> set (cd_decisions db1). dn_id x \<noteq> dn_id d \<and> dn_artifact_version_id x \<noteq> vn_id v
              \<and> \<not> (dn_artifact_id x = artifact_id \<and> dn_decision_version x = vn_version_number v)) Row_rejected
            (Inr ((v, d), db1\<lparr>cd_decisions := cd_decisions db1 @ [d]\<rparr>)))"

definition key_of :: "string \<Rightarrow> json \<Rightarrow> (command_error, json) result" where
  "key_of k j = (case json_get k j of None \<Rightarrow> Inl Bad_request | Some v \<Rightarrow> Inr v)"

definition schedule_outcome ::
  "command_params \<Rightarrow> fresh_ids \<Rightarrow> instant \<Rightarrow> task_row \<Rightarrow> run_row \<Rightarrow> json \<Rightarrow> report_version_row \<Rightarrow> command_db
     \<Rightarrow> (command_error, command_db) result" where
  "schedule_outcome p fresh now t r analysis v db =
     (let horizon = py_text p (py_or (get_or_null ''horizon'' analysis)
            (py_or (get_or_null ''horizon'' (tr_request_payload t)) (JStr ''1h''))) in
      if \<exists>o' \<in> set (cd_outcomes db). (oc_tenant_id o', oc_workspace_id o', oc_owner_user_id o') = task_scope t
           \<and> oc_artifact_version_id o' = vn_id v \<and> oc_horizon o' = horizon
      then Inr db
      else rbind (key_of ''main_action'' analysis) (\<lambda>action.
           rbind (lifted Horizon_failure (maturation_at (Aware now) horizon)) (\<lambda>matures.
             Inr (db\<lparr>cd_outcomes := cd_outcomes db @ [\<lparr>oc_id = fi_outcome fresh, oc_tenant_id = tr_tenant_id t,
               oc_workspace_id = tr_workspace_id t, oc_owner_user_id = tr_owner_user_id t, oc_artifact_version_id = vn_id v,
               oc_task_id = tr_id t, oc_run_id = rn_id r, oc_status = ''scheduled'', oc_action = py_text p action,
               oc_baseline = ''decision'', oc_predicted_probability = get_or_null ''probability'' analysis, oc_horizon = horizon,
               oc_source = ''exchange_native'', oc_maturation_at = matures, oc_available_at = matures\<rparr>]\<rparr>))))"

section \<open>The notification of a committed decision\<close>

fun payload_of_json :: "json \<Rightarrow> payload" where
  "payload_of_json JNull = P_null"
| "payload_of_json (JBool b) = P_bool b"
| "payload_of_json (JInt n) = P_int n"
| "payload_of_json (JFloat x) = P_float (Some x)"
| "payload_of_json (JStr s) = P_str s"
| "payload_of_json (JArr xs) = P_seq (map payload_of_json xs)"
| "payload_of_json (JObj kvs) = P_map (map (\<lambda>(k, v). (Key_str k, payload_of_json v)) kvs)"

definition completion_payload ::
  "command_params \<Rightarrow> decision_row \<Rightarrow> json \<Rightarrow> json \<Rightarrow> json \<Rightarrow> json \<Rightarrow> json" where
  "completion_payload p d instrument action allowed analysis = JObj [
     (''title'', JStr (py_text p instrument @ '' analysis complete'')), (''body'', JStr (py_text p action)),
     (''task_id'', JStr (dn_task_id d)), (''run_id'', JStr (dn_run_id d)), (''artifact_id'', JStr (dn_artifact_id d)),
     (''artifact_version_id'', JStr (dn_artifact_version_id d)), (''decision_id'', JStr (dn_id d)),
     (''decision_version'', JInt (dn_decision_version d)), (''instrument'', instrument), (''action'', action),
     (''risk_allowed'', JBool (truthy allowed))]"

definition enabled_destination :: "decision_row \<Rightarrow> bark_destination \<Rightarrow> bool" where
  "enabled_destination d b \<longleftrightarrow> bk_tenant_id b = dn_tenant_id d \<and> bk_workspace_id b = dn_workspace_id d
     \<and> bk_owner_user_id b = dn_owner_user_id d \<and> bk_channel b = ''bark'' \<and> bk_status b = ''enabled''"

definition notify_completion ::
  "command_params \<Rightarrow> fresh_ids \<Rightarrow> instant \<Rightarrow> task_row \<Rightarrow> json \<Rightarrow> json \<Rightarrow> decision_row \<Rightarrow> command_db
     \<Rightarrow> (command_error, json option \<times> command_db) result" where
  "notify_completion p fresh now t analysis risk_verdict d db =
     (if get_or_null ''notify'' (tr_request_payload t) \<noteq> JBool True then Inr (None, db)
      else rbind (key_of ''instrument'' analysis) (\<lambda>instrument. rbind (key_of ''main_action'' analysis) (\<lambda>action.
           rbind (key_of ''allowed'' risk_verdict) (\<lambda>allowed.
             let body = completion_payload p d instrument action allowed analysis in
             rbind (lifted Outbox_failure (plan_notification (cp_sensitive p) (ep_digest (cp_events p)) (fi_outbox fresh) now
                 (Some (Aware now)) \<lparr>pr_tenant_id = dn_tenant_id d, pr_workspace_id = dn_workspace_id d,
                   pr_owner_user_id = dn_owner_user_id d, pr_task_id = dn_task_id d, pr_run_id = dn_run_id d,
                   pr_artifact_id = dn_artifact_id d, pr_artifact_version_id = dn_artifact_version_id d, pr_decision_id = dn_id d,
                   pr_decision_version = dn_decision_version d,
                   pr_destination_id = map_option bk_id (find (enabled_destination d) (cd_destinations db)),
                   pr_channel = ''bark'', pr_notification_type = ''analysis_completed'', pr_payload = payload_of_json body\<rparr>
                 (cd_outbox db))) (\<lambda>(plan, outbox). Inr (Some body, db\<lparr>cd_outbox := outbox\<rparr>))))))"

text \<open>What a succeeded run commits; the result is the payload of the notification, if any.\<close>

definition commit_artifact ::
  "command_params \<Rightarrow> fresh_ids \<Rightarrow> instant \<Rightarrow> actor_context \<Rightarrow> task_row \<Rightarrow> run_row \<Rightarrow> artifact \<Rightarrow> command_db
     \<Rightarrow> (command_error, json option \<times> command_db) result" where
  "commit_artifact p fresh now ac t r art db =
     rbind (task_artifact fresh t ''analysis_report'' db) (\<lambda>(a, db1).
       let content = cp_dump_artifact p False art in
       rbind (key_of ''analysis'' content) (\<lambda>analysis. rbind (key_of ''evidence_verdict'' content) (\<lambda>evidence_verdict.
       rbind (key_of ''risk_verdict'' content) (\<lambda>risk_verdict.
       rbind (commit_version_and_decision fresh ac (af_id a) (rn_id r) content analysis evidence_verdict risk_verdict
                (ar_schema_version art) db1) (\<lambda>((v, d), db2).
       rbind (schedule_outcome p fresh now t r analysis v db2) (\<lambda>db3.
         notify_completion p fresh now t analysis risk_verdict d db3))))))"

definition commit_research ::
  "command_params \<Rightarrow> fresh_ids \<Rightarrow> actor_context \<Rightarrow> task_row \<Rightarrow> run_row \<Rightarrow> deep_research_artifact \<Rightarrow> command_db
     \<Rightarrow> (command_error, json option \<times> command_db) result" where
  "commit_research p fresh ac t r art db =
     rbind (task_artifact fresh t ''deep_research_report'' db) (\<lambda>(a, db1).
     rbind (commit_version fresh ac (af_id a) (rn_id r) (cp_dump_research p False art) ''1.0'' db1) (\<lambda>(v, db2). Inr (None, db2)))"

definition commit_outputs ::
  "command_params \<Rightarrow> fresh_ids \<Rightarrow> instant \<Rightarrow> command_lease \<Rightarrow> task_row \<Rightarrow> run_row \<Rightarrow> terminal_output \<Rightarrow> command_db
     \<Rightarrow> (command_error, json option \<times> command_db) result" where
  "commit_outputs p fresh now l t r terminal db =
     (if tg_terminal_status terminal \<noteq> ''succeeded'' then Inr (None, db)
      else case tg_artifact terminal of
        Some art \<Rightarrow> commit_artifact p fresh now (cl_actor l) t r art db
      | None \<Rightarrow> (case tg_deep_research terminal of
          Some art \<Rightarrow> commit_research p fresh (cl_actor l) t r art db
        | None \<Rightarrow> Inr (None, db)))"

end
