(* ===== verification/Command_Finalize.thy ===== *)
theory Command_Finalize
  imports Command_Commit
begin

text \<open>
  The projection of a finished run (\<open>_finalize\<close>, \<open>_finalize_with_database_recovery\<close> and
  \<open>_record_terminal_projection_database_error\<close> of \<open>commands/dispatcher.py\<close>): the first output of a
  command is stored with everything it commits, the same output again is answered from what was
  stored, and a different one is a conflict.
\<close>

section \<open>Which projections are accepted\<close>

definition accepts_projection :: "task_row \<Rightarrow> command_lease \<Rightarrow> bool" where
  "accepts_projection t l \<longleftrightarrow> task_accepts_active_run t l \<or> is_cancel l \<and> tr_status t = ''waiting_human''"

definition settle_interrupts :: "instant \<Rightarrow> command_lease \<Rightarrow> command_db \<Rightarrow> (command_error, command_db) result" where
  "settle_interrupts now l db = (if is_cancel l then close_active_interrupt_lineage l ''resolved'' db
     else resolve_responding_interrupt now l db)"

definition stored_output :: "command_params \<Rightarrow> terminal_output \<Rightarrow> run_row \<Rightarrow> bool" where
  \<comment> \<open>the run holds this output, and the hash is the one of what it holds\<close>
  "stored_output p terminal r \<longleftrightarrow> (let h = payload_hash p (terminal_json p terminal) in
     rn_terminal_output_hash r = Some h
     \<and> (case rn_output_payload r of None \<Rightarrow> False | Some out \<Rightarrow> payload_hash p out = h))"

section \<open>Storing an output\<close>

definition replay_terminal ::
  "command_params \<Rightarrow> fresh_ids \<Rightarrow> instant \<Rightarrow> command_lease \<Rightarrow> command_row \<Rightarrow> task_row \<Rightarrow> run_row \<Rightarrow> terminal_output \<Rightarrow> command_db
     \<Rightarrow> (command_error, bool \<times> command_db) result" where
  "replay_terminal p fresh now l c t r terminal db =
     rbind (persist_terminal_run p fresh now t r terminal (cl_command_sequence l) True (rn_failure_message r) db)
       (\<lambda>db1. Inr (True, close_command (tc_id c) ''dispatched'' db1))"

definition reject_conflict ::
  "command_params \<Rightarrow> fresh_ids \<Rightarrow> instant \<Rightarrow> command_lease \<Rightarrow> command_row \<Rightarrow> task_row \<Rightarrow> run_row \<Rightarrow> command_db
     \<Rightarrow> (command_error, bool \<times> command_db) result" where
  "reject_conflict p fresh now l c t r db =
     rbind (fail_command_run p fresh now l c t r
        (failed_attempt ''terminal_projection_conflict'' ''TerminalOutputHashConflict'' False (tc_attempt c))
        ''A terminal replay did not match the persisted output hash.'' db)
       (\<lambda>db1. Inr (False, db1))"

text \<open>The message of an earlier failure stays beside a new failure code.\<close>

definition first_failure :: "terminal_output \<Rightarrow> run_row \<Rightarrow> run_row" where
  "first_failure terminal r = run_failure terminal (rn_failure_message r) r"

definition store_terminal ::
  "command_params \<Rightarrow> fresh_ids \<Rightarrow> instant \<Rightarrow> command_lease \<Rightarrow> command_row \<Rightarrow> task_row \<Rightarrow> run_row \<Rightarrow> terminal_output \<Rightarrow> command_db
     \<Rightarrow> (command_error, bool \<times> command_db) result" where
  "store_terminal p fresh now l c t r terminal db =
     (let r1 = ended_run p now (cl_command_sequence l) terminal r;
          r2 = first_failure terminal r1;
          t1 = ended_task now (tg_terminal_status terminal) t in
      rbind (record_receipts p fresh now t1 r1 (set_task (tr_id t) (\<lambda>_. t1) (set_run (rn_id r) (\<lambda>_. r1) db))) (\<lambda>db1.
        let db2 = close_command (tc_id c) ''dispatched'' (set_run (rn_id r) (\<lambda>_. r2) db1);
            db3 = persist_verified_web_evidence p fresh t1 r2 (tg_web_evidence terminal)
                    (persist_snapshot p fresh t1 r2 (tg_market_snapshot terminal) db2) in
        rbind (commit_outputs p fresh now l t1 r2 terminal db3) (\<lambda>(notification, db4).
        rbind (record_events p fresh now t1 r2 (terminal_json p terminal) notification db4) (\<lambda>db5. Inr (True, db5)))))"

definition finalize ::
  "command_params \<Rightarrow> command_lease \<Rightarrow> terminal_output \<Rightarrow> fresh_ids \<Rightarrow> instant \<Rightarrow> command_db
     \<Rightarrow> (command_error, bool \<times> command_db) result" where
  "finalize p l terminal fresh now db =
     (case (locked_command True now l db, task_at (cl_task_id l) db, lease_run l db) of
        (Some c, Some t, Some r) \<Rightarrow>
          if \<not> accepts_projection t l then Inr (False, close_command (tc_id c) ''cancelled'' db)
          else rbind (settle_interrupts now l db) (\<lambda>db1.
            if cl_command_sequence l < rn_projection_fence r then Inr (False, close_command (tc_id c) ''cancelled'' db1)
            else if rn_projection_fence r = cl_command_sequence l \<and> rn_terminal_output_hash r \<noteq> None
            then (if stored_output p terminal r then replay_terminal p fresh now l c t r terminal db1
                  else reject_conflict p fresh now l c t r db1)
            else store_terminal p fresh now l c t r terminal db1)
      | _ \<Rightarrow> Inr (False, db))"

section \<open>When the database refuses\<close>

definition projection_unavailable :: string where
  "projection_unavailable = ''The terminal Product projection could not be committed.''"

definition record_projection_error ::
  "command_params \<Rightarrow> command_worker \<Rightarrow> command_lease \<Rightarrow> terminal_output \<Rightarrow> command_error \<Rightarrow> fresh_ids \<Rightarrow> instant \<Rightarrow> command_db
     \<Rightarrow> (command_error, bool \<times> command_db) result" where
  "record_projection_error p w l terminal exc fresh now db =
     (case (locked_command True now l db, task_at (cl_task_id l) db, lease_run l db) of
        (Some c, Some t, Some r) \<Rightarrow>
          if rn_task_id r \<noteq> cl_task_id l then Inr (False, db)
          else if rn_projection_fence r = cl_command_sequence l \<and> stored_output p terminal r
          then replay_terminal p fresh now l c t r terminal db
          else
            (let r1 = r\<lparr>rn_failure_code := Some ''terminal_projection_unavailable'',
                   rn_failure_message := Some projection_unavailable, rn_last_heartbeat_at := Some now\<rparr> in
             if tc_attempt c < cw_max_attempts w
             then Inr (False, set_command (tc_id c) (requeued w now)
               (set_run (rn_id r) (\<lambda>_. r1\<lparr>rn_status := ''queued'', rn_finished_at := None\<rparr>)
                 (set_task (tr_id t) (\<lambda>t. t\<lparr>tr_status := ''queued'', tr_completed_at := None\<rparr>) db)))
             else rbind (fail_command_run p fresh now l c t r1
                 (failed_attempt ''terminal_projection_unavailable''
                    (if exc = Database_unavailable then ''DatabaseOperationalError'' else ''DatabaseError'') True (tc_attempt c))
                 projection_unavailable (set_run (rn_id r) (\<lambda>_. r1) db))
               (\<lambda>db1. Inr (False, db1)))
      | _ \<Rightarrow> Inr (False, db))"

end
