(* ===== verification/Command_Review.thy ===== *)
theory Command_Review
  imports Command_Finalize
begin

text \<open>
  Review pauses (\<open>_mark_waiting_human\<close> and \<open>_expire_due_interrupt_once\<close> of
  \<open>commands/dispatcher.py\<close>): the interrupts of the official run become the members of a pause, and a
  pause nobody answered in time is answered with a rejection.
\<close>

section \<open>An interrupted run\<close>

record remote_interrupt =
  ri_interrupt_id :: string
  ri_namespace :: string
  ri_checkpoint_id :: string
  ri_value :: json

record interrupt_set =
  iu_checkpoint :: resume_checkpoint
  iu_interrupts :: "remote_interrupt list"

definition member_set_json :: "interrupt_set \<Rightarrow> json" where
  "member_set_json s = (let k = iu_checkpoint s in JObj [
     (''root_checkpoint'', JObj [(''thread_id'', JStr (rk_thread_id k)), (''checkpoint_ns'', JStr (rk_checkpoint_ns k)),
        (''checkpoint_id'', JStr (rk_checkpoint_id k)), (''checkpoint_map'', rk_checkpoint_map k)]),
     (''members'', JArr (map (\<lambda>i. JObj [(''interrupt_id'', JStr (ri_interrupt_id i)), (''namespace'', JStr (ri_namespace i)),
        (''checkpoint_id'', JStr (ri_checkpoint_id i))]) (sort_key ri_interrupt_id (iu_interrupts s))))])"

definition member_set_hash :: "command_params \<Rightarrow> interrupt_set \<Rightarrow> string" where
  "member_set_hash p s = payload_hash p (member_set_json s)"

definition pause_deadline :: "command_worker \<Rightarrow> instant \<Rightarrow> instant" where
  "pause_deadline w now = now + cw_interrupt_ttl_seconds w * SECOND"

definition pause_of_task :: "task_row \<Rightarrow> pause_row \<Rightarrow> bool" where
  "pause_of_task t q \<longleftrightarrow> ip_task_id q = tr_id t \<and> (ip_tenant_id q, ip_workspace_id q, ip_owner_user_id q) = task_scope t"

definition next_pause_version :: "task_row \<Rightarrow> command_db \<Rightarrow> int" where
  "next_pause_version t db = Max (insert 0 (ip_pause_version ` {q \<in> set (cd_pauses db). pause_of_task t q})) + 1"

definition new_pause ::
  "command_params \<Rightarrow> command_worker \<Rightarrow> fresh_ids \<Rightarrow> instant \<Rightarrow> task_row \<Rightarrow> run_row \<Rightarrow> interrupt_set \<Rightarrow> command_db \<Rightarrow> pause_row" where
  "new_pause p w fresh now t r s db = (let k = iu_checkpoint s in \<lparr>ip_id = fi_pause fresh, ip_tenant_id = tr_tenant_id t,
     ip_workspace_id = tr_workspace_id t, ip_owner_user_id = tr_owner_user_id t, ip_task_id = tr_id t, ip_run_id = rn_id r,
     ip_pause_version = next_pause_version t db, ip_root_thread_id = rk_thread_id k, ip_root_checkpoint_ns = rk_checkpoint_ns k,
     ip_root_checkpoint_id = rk_checkpoint_id k, ip_root_checkpoint_map = rk_checkpoint_map k,
     ip_member_set_hash = member_set_hash p s, ip_status = ''pending'', ip_expires_at = Some (pause_deadline w now),
     ip_resume_run_id = None, ip_accepted_payload_hash = None\<rparr>)"

definition pause_for ::
  "command_params \<Rightarrow> command_worker \<Rightarrow> fresh_ids \<Rightarrow> instant \<Rightarrow> task_row \<Rightarrow> run_row \<Rightarrow> interrupt_set \<Rightarrow> command_db
     \<Rightarrow> (command_error, pause_row \<times> command_db) result" where
  "pause_for p w fresh now t r s db = (let k = iu_checkpoint s in
     case find (\<lambda>q. ip_run_id q = rn_id r \<and> ip_root_checkpoint_ns q = rk_checkpoint_ns k
            \<and> ip_root_checkpoint_id q = rk_checkpoint_id k) (cd_pauses db) of
       None \<Rightarrow> rbind (insert_pause (new_pause p w fresh now t r s db) db) (\<lambda>db1. Inr (new_pause p w fresh now t r s db, db1))
     | Some q \<Rightarrow> ensure (ip_member_set_hash q = member_set_hash p s \<and> ip_root_thread_id q = rk_thread_id k
           \<and> ip_root_checkpoint_map q = rk_checkpoint_map k) Inconsistent (Inr (q, db)))"

section \<open>Its members\<close>

definition valid_review_payload :: "review_payload \<Rightarrow> bool" where
  "valid_review_payload y = (case y of Pay_artifact a \<Rightarrow> valid_artifact_review_payload a | Pay_deep d \<Rightarrow> valid_deep_review_payload d)"

definition review_matches_task :: "review_payload \<Rightarrow> string \<Rightarrow> json \<Rightarrow> json \<Rightarrow> bool" where
  \<comment> \<open>a symbol or horizon of the task that is no symbol or no text equals none of the payload\<close>
  "review_matches_task y task_type symbol horizon =
     (case (symbol, horizon) of
        (JStr s, JStr h) \<Rightarrow> (case parse_symbol s of None \<Rightarrow> False
          | Some x \<Rightarrow> is_ok (validate_review_payload_for_task y
              (if task_type = ''market_analysis'' then Task_market_analysis else Task_deep_research) x h))
      | _ \<Rightarrow> False)"

definition reviewed_evidence :: "review_payload \<Rightarrow> web_evidence list" where
  "reviewed_evidence y = (case y of Pay_artifact a \<Rightarrow> [] | Pay_deep d \<Rightarrow> map is_evidence (da_sources (dp_artifact d)))"

definition new_member ::
  "command_params \<Rightarrow> command_worker \<Rightarrow> fresh_ids \<Rightarrow> instant \<Rightarrow> task_row \<Rightarrow> run_row \<Rightarrow> pause_row \<Rightarrow> nat \<Rightarrow> remote_interrupt \<Rightarrow> review_payload
     \<Rightarrow> member_row" where
  "new_member p w fresh now t r q k i y = \<lparr>im_id = fi_member fresh k, im_tenant_id = tr_tenant_id t,
     im_workspace_id = tr_workspace_id t, im_owner_user_id = tr_owner_user_id t, im_task_id = tr_id t, im_run_id = rn_id r,
     im_pause_id = ip_id q, im_official_interrupt_id = ri_interrupt_id i, im_namespace = ri_namespace i,
     im_checkpoint_id = ri_checkpoint_id i, im_response_version = 1, im_status = ''pending'', im_payload = cp_dump_review p y,
     im_response = None, im_expires_at = Some (pause_deadline w now), im_responded_at = None\<rparr>"

definition member_for :: "task_row \<Rightarrow> pause_row \<Rightarrow> string \<Rightarrow> member_row \<Rightarrow> bool" where
  "member_for t q interrupt_id m \<longleftrightarrow> (im_tenant_id m, im_workspace_id m, im_owner_user_id m) = task_scope t
     \<and> im_task_id m = tr_id t \<and> im_pause_id m = ip_id q \<and> im_official_interrupt_id m = interrupt_id"

definition project_member ::
  "command_params \<Rightarrow> command_worker \<Rightarrow> fresh_ids \<Rightarrow> instant \<Rightarrow> task_row \<Rightarrow> run_row \<Rightarrow> pause_row \<Rightarrow> nat \<Rightarrow> remote_interrupt \<Rightarrow> command_db
     \<Rightarrow> (command_error, web_evidence list \<times> command_db) result" where
  "project_member p w fresh now t r q k i db =
     (case checked valid_review_payload (cp_read_review p (ri_value i)) of
        None \<Rightarrow> Inl Bad_request
      | Some y \<Rightarrow>
          rbind (key_of ''symbol'' (tr_request_payload t)) (\<lambda>symbol. rbind (key_of ''horizon'' (tr_request_payload t)) (\<lambda>horizon.
          if \<not> review_matches_task y (tr_task_type t) symbol horizon then Inl Bad_request
          else case find (member_for t q (ri_interrupt_id i)) (cd_members db) of
            None \<Rightarrow> rbind (insert_member (new_member p w fresh now t r q k i y) db) (\<lambda>db1. Inr (reviewed_evidence y, db1))
          | Some m \<Rightarrow>
              if im_run_id m \<noteq> rn_id r then Inl Inconsistent
              else if im_status m \<noteq> ''pending'' then Inr (reviewed_evidence y, db)
              else if im_checkpoint_id m \<noteq> ri_checkpoint_id i \<or> im_namespace m \<noteq> ri_namespace i then Inl Inconsistent
              else Inr (reviewed_evidence y, db\<lparr>cd_members := update_where (\<lambda>n. im_id n = im_id m)
                     (\<lambda>n. n\<lparr>im_payload := cp_dump_review p y\<rparr>) (cd_members db)\<rparr>))))"

fun project_members ::
  "command_params \<Rightarrow> command_worker \<Rightarrow> fresh_ids \<Rightarrow> instant \<Rightarrow> task_row \<Rightarrow> run_row \<Rightarrow> pause_row \<Rightarrow> nat \<Rightarrow> remote_interrupt list \<Rightarrow> command_db
     \<Rightarrow> (command_error, web_evidence list \<times> command_db) result" where
  "project_members p w fresh now t r q k [] db = Inr ([], db)"
| "project_members p w fresh now t r q k (i # is) db =
     rbind (project_member p w fresh now t r q k i db) (\<lambda>(found, db1).
     rbind (project_members p w fresh now t r q (Suc k) is db1) (\<lambda>(more, db2). Inr (found @ more, db2)))"

definition waiting_run :: "instant \<Rightarrow> interrupt_set \<Rightarrow> run_row \<Rightarrow> run_row" where
  "waiting_run now s r = r\<lparr>rn_status := ''waiting_human'', rn_checkpoint_id := Some (rk_checkpoint_id (iu_checkpoint s)),
     rn_last_heartbeat_at := Some now\<rparr>"

text \<open>A set with members, at most 64 of them; the caller turns a larger one into a failed run.\<close>

definition mark_waiting_human ::
  "command_params \<Rightarrow> command_worker \<Rightarrow> command_lease \<Rightarrow> interrupt_set \<Rightarrow> fresh_ids \<Rightarrow> instant \<Rightarrow> command_db
     \<Rightarrow> (command_error, bool \<times> command_db) result" where
  "mark_waiting_human p w l s fresh now db =
     (case (locked_command True now l db, task_at (cl_task_id l) db, lease_run l db) of
        (Some c, Some t, Some r) \<Rightarrow>
          if \<not> task_accepts_active_run t l then Inr (False, db)
          else rbind (resolve_responding_interrupt now l db) (\<lambda>db1.
               rbind (pause_for p w fresh now t r s db1) (\<lambda>(q, db2).
               rbind (project_members p w fresh now t r q 0 (iu_interrupts s) db2) (\<lambda>(evidence, db3).
               if length (filter (\<lambda>m. im_pause_id m = ip_id q) (cd_members db3)) \<noteq> length (iu_interrupts s) then Inl Inconsistent
               else Inr (True, close_command (tc_id c) ''dispatched'' (set_run (rn_id r) (waiting_run now s)
                      (set_task (tr_id t) (\<lambda>t. t\<lparr>tr_status := ''waiting_human''\<rparr>)
                        (persist_verified_web_evidence p fresh t r evidence db3)))))))
      | _ \<Rightarrow> Inr (False, db))"

section \<open>Expiry\<close>

definition pause_due :: "(uuid \<Rightarrow> bool) \<Rightarrow> instant \<Rightarrow> command_db \<Rightarrow> pause_row \<Rightarrow> bool" where
  "pause_due busy now db q \<longleftrightarrow> ip_status q = ''pending'' \<and> (case ip_expires_at q of None \<Rightarrow> False | Some e \<Rightarrow> e \<le> now)
     \<and> (case task_at (ip_task_id q) db of None \<Rightarrow> False | Some t \<Rightarrow> tr_status t = ''waiting_human'' \<and> \<not> busy (tr_id t))"

definition expiry_key :: "pause_row \<Rightarrow> int \<times> uuid" where
  "expiry_key q = (the (ip_expires_at q), ip_id q)"

definition due_pause :: "(uuid \<Rightarrow> bool) \<Rightarrow> instant \<Rightarrow> command_db \<Rightarrow> pause_row option" where
  "due_pause busy now db = first_by expiry_key (filter (pause_due busy now db) (cd_pauses db))"

definition expiry_response :: json where
  "expiry_response = JObj [(''action'', JStr ''reject''),
     (''comment'', JStr ''The review window expired before a decision was submitted.'')]"

definition answer_json :: "member_row \<Rightarrow> json \<Rightarrow> json" where
  "answer_json m response = JObj [(''projection_id'', JStr (im_id m)), (''interrupt_id'', JStr (im_official_interrupt_id m)),
     (''namespace'', JStr (im_namespace m)), (''checkpoint_id'', JStr (im_checkpoint_id m)),
     (''response_version'', JInt (im_response_version m)), (''response'', response)]"

definition checkpoint_json :: "pause_row \<Rightarrow> json" where
  "checkpoint_json q = JObj [(''thread_id'', JStr (ip_root_thread_id q)), (''checkpoint_ns'', JStr (ip_root_checkpoint_ns q)),
     (''checkpoint_id'', JStr (ip_root_checkpoint_id q)), (''checkpoint_map'', ip_root_checkpoint_map q)]"

definition respond_json :: "pause_row \<Rightarrow> json list \<Rightarrow> bool \<Rightarrow> json" where
  "respond_json q answers expired = JObj [(''pause_id'', JStr (ip_id q)), (''pause_version'', JInt (ip_pause_version q)),
     (''root_checkpoint'', checkpoint_json q), (''responses'', JArr answers), (''expired'', JBool expired)]"

definition expiry_payload :: "pause_row \<Rightarrow> member_row list \<Rightarrow> json" where
  "expiry_payload q members =
     respond_json q (map (\<lambda>m. answer_json m expiry_response) (sort_key im_official_interrupt_id members)) True"

definition sequence_after :: "command_row list \<Rightarrow> int" where
  "sequence_after cs = (if cs = [] then 0 else Max (tc_sequence ` set cs)) + 1"

definition next_command_sequence :: "uuid \<Rightarrow> command_db \<Rightarrow> int" where
  "next_command_sequence task_id db = sequence_after (filter (\<lambda>c. tc_task_id c = task_id) (cd_commands db))"

definition resumed_from :: "fresh_ids \<Rightarrow> task_row \<Rightarrow> run_row \<Rightarrow> run_row" where
  "resumed_from fresh t r = (new_run (fi_run fresh) t (rn_attempt r + 1) ''queued'' (tr_request_payload t))
     \<lparr>rn_resume_of_run_id := Some (rn_id r)\<rparr>"

definition expiry_command ::
  "command_params \<Rightarrow> fresh_ids \<Rightarrow> task_row \<Rightarrow> pause_row \<Rightarrow> json \<Rightarrow> int \<Rightarrow> command_row" where
  "expiry_command p fresh t q payload n = \<lparr>tc_id = fi_command fresh, tc_tenant_id = tr_tenant_id t,
     tc_workspace_id = tr_workspace_id t, tc_actor_user_id = tr_owner_user_id t, tc_task_id = tr_id t, tc_thread_id = tr_thread_id t,
     tc_command_type = ''respond'', tc_payload = payload, tc_payload_hash = payload_hash p payload, tc_sequence = n,
     tc_status = ''pending'', tc_lease_owner = None, tc_lease_expires_at = None, tc_attempt = 0,
     tc_idempotency_key = ''expire:'' @ ip_id q @ '':'' @ py_text p (JInt (ip_pause_version q)),
     tc_official_run_id = None, tc_official_command_id = None, tc_created_at = fi_created fresh\<rparr>"

definition parent_run :: "task_row \<Rightarrow> pause_row \<Rightarrow> command_db \<Rightarrow> run_row option" where
  "parent_run t q db = find (\<lambda>r. rn_id r = ip_run_id q \<and> rn_task_id r = tr_id t \<and> rn_status r = ''waiting_human'') (cd_runs db)"

definition answer_open :: "task_row \<Rightarrow> command_db \<Rightarrow> bool" where
  "answer_open t db \<longleftrightarrow>
     (\<exists>c \<in> set (cd_commands db). tc_task_id c = tr_id t \<and> tc_command_type c = ''respond'' \<and> open_command (tc_status c))"

definition expire_pause ::
  "command_params \<Rightarrow> fresh_ids \<Rightarrow> instant \<Rightarrow> task_row \<Rightarrow> run_row \<Rightarrow> pause_row \<Rightarrow> command_db \<Rightarrow> (command_error, command_db) result" where
  "expire_pause p fresh now t r q db =
     (let mine = (\<lambda>m. im_pause_id m = ip_id q \<and> im_task_id m = tr_id t);
          members = sort_key im_id (filter mine (cd_members db));
          payload = expiry_payload q members in
      ensure (members \<noteq> [] \<and> list_all (\<lambda>m. im_status m = ''pending'') members) Inconsistent
       (rbind (insert_run (resumed_from fresh t r) db) (\<lambda>db1.
        rbind (insert_command (expiry_command p fresh t q payload (next_command_sequence (tr_id t) db)) db1) (\<lambda>db2.
        set_members mine (\<lambda>m. m\<lparr>im_status := ''expired'', im_response := Some expiry_response, im_responded_at := Some now\<rparr>)
          (set_pause (ip_id q) (\<lambda>q. q\<lparr>ip_status := ''expired'', ip_resume_run_id := Some (fi_run fresh),
             ip_accepted_payload_hash := Some (payload_hash p payload)\<rparr>) db2)))))"

definition expire_due_interrupt ::
  "command_params \<Rightarrow> (uuid \<Rightarrow> bool) \<Rightarrow> fresh_ids \<Rightarrow> instant \<Rightarrow> command_db \<Rightarrow> (command_error, bool \<times> command_db) result" where
  "expire_due_interrupt p busy fresh now db =
     (case due_pause busy now db of
        None \<Rightarrow> Inr (False, db)
      | Some q \<Rightarrow>
          (case task_at (ip_task_id q) db of
             None \<Rightarrow> Inr (False, db)
           | Some t \<Rightarrow>
               if answer_open t db then Inr (False, db)
               else (case parent_run t q db of
                 None \<Rightarrow> Inr (False, db)
               | Some r \<Rightarrow> rbind (expire_pause p fresh now t r q db) (\<lambda>db1. Inr (True, db1)))))"

end
