(* ===== verification/Command_Worker.thy ===== *)
theory Command_Worker
  imports Command_Review
begin

text \<open>
  One round of the dispatcher (\<open>dispatch_once\<close>, \<open>execute\<close> and their helpers in
  \<open>commands/dispatcher.py\<close>). Between two transactions of a round other clients may change the
  tables; a transaction that fails leaves nothing, and the exception ends the round unless the code
  catches it. The Agent Server is a set of answers.
\<close>

section \<open>The surroundings of a round\<close>

datatype 'a reply = Reply 'a | Timed_out | Broken remote_error

text \<open>A create call and the heartbeats that elapse before its answer.\<close>

record creation =
  cn_beats :: nat
  cn_answer :: "remote_handle reply"

datatype cancel_result = Cancel_confirmed | Cancel_terminal "string option" | Cancel_unconfirmed

record stream_part =
  sp_event :: string
  sp_id :: "string option"
  sp_data :: json

datatype stream_end = Stream_ended | Stream_broken string

text \<open>The \<open>n\<close>th transaction of the round runs at \<open>dw_clock n\<close>, after what the others did.\<close>

record dispatch_world =
  dw_clock :: "nat \<Rightarrow> instant"
  dw_fresh :: "nat \<Rightarrow> fresh_ids"
  dw_busy :: "nat \<Rightarrow> uuid \<Rightarrow> bool"
  dw_others :: "nat \<Rightarrow> command_db \<Rightarrow> command_db"
  dw_outage :: "nat \<Rightarrow> bool"
  dw_class_name :: "command_error \<Rightarrow> string"
  dw_authorize :: "(remote_handle \<Rightarrow> actor_context \<Rightarrow> remote_handle) option"
  dw_start :: "command_lease \<Rightarrow> creation"
  dw_resume :: "command_lease \<Rightarrow> remote_handle \<Rightarrow> respond_payload \<Rightarrow> creation"
  dw_fork :: "command_lease \<Rightarrow> remote_handle \<Rightarrow> fork_payload \<Rightarrow> creation"
  dw_find :: "command_lease \<Rightarrow> string \<Rightarrow> remote_handle option reply"
  dw_stream :: "(remote_handle \<Rightarrow> string option \<Rightarrow> stream_part list \<times> stream_end) option"
  dw_get :: "remote_handle \<Rightarrow> string reply"
  dw_interrupts :: "remote_handle \<Rightarrow> interrupt_set reply"
  dw_cancel :: "remote_handle \<Rightarrow> cancel_result reply"
  dw_join :: "remote_handle \<Rightarrow> json reply"

type_synonym 'a work = "dispatch_world \<Rightarrow> nat \<times> command_db \<Rightarrow> (command_error, 'a) result \<times> nat \<times> command_db"

definition ret :: "'a \<Rightarrow> 'a work" where
  "ret x d s = (Inr x, s)"

definition andthen :: "'a work \<Rightarrow> ('a \<Rightarrow> 'b work) \<Rightarrow> 'b work" where
  "andthen m f d s = (case m d s of (Inl e, s') \<Rightarrow> (Inl e, s') | (Inr x, s') \<Rightarrow> f x d s')"

text \<open>\<open>try ... except Exception\<close>.\<close>

definition caught :: "'a work \<Rightarrow> (command_error, 'a) result work" where
  "caught m d s = (case m d s of (r, s') \<Rightarrow> (Inr r, s'))"

definition raising :: "command_error \<Rightarrow> 'a work" where
  "raising e d s = (Inl e, s)"

definition transact :: "(fresh_ids \<Rightarrow> instant \<Rightarrow> command_db \<Rightarrow> (command_error, 'a \<times> command_db) result) \<Rightarrow> 'a work" where
  "transact f d s = (case s of (n, db) \<Rightarrow>
     let db1 = dw_others d n db in
     if dw_outage d n then (Inl Database_unavailable, Suc n, db1)
     else case f (dw_fresh d n) (dw_clock d n) db1 of
       Inl e \<Rightarrow> (Inl e, Suc n, db1)
     | Inr (x, db2) \<Rightarrow> (Inr x, Suc n, db2))"

definition written :: "'a \<times> command_db \<Rightarrow> (command_error, 'a \<times> command_db) result" where
  "written x = Inr x"

section \<open>Finalizing\<close>

definition finalize_with_recovery :: "command_params \<Rightarrow> command_worker \<Rightarrow> command_lease \<Rightarrow> terminal_output \<Rightarrow> bool work" where
  "finalize_with_recovery p w l terminal = andthen (caught (transact (finalize p l terminal))) (\<lambda>r. case r of
     Inr b \<Rightarrow> ret b
   | Inl e \<Rightarrow> if database_error e then transact (record_projection_error p w l terminal e) else raising e)"

definition reconcile_later :: "command_worker \<Rightarrow> command_lease \<Rightarrow> bool work" where
  "reconcile_later w l = transact (\<lambda>fresh now db. written (schedule_reconciliation w now l db))"

definition deadline_exceeded :: "command_worker \<Rightarrow> command_lease \<Rightarrow> bool work" where
  "deadline_exceeded w l = transact (\<lambda>fresh now db. written (run_deadline_exceeded w now l db, db))"

definition schedule_interrupt_retry :: "command_params \<Rightarrow> command_worker \<Rightarrow> command_lease \<Rightarrow> string \<Rightarrow> bool work" where
  "schedule_interrupt_retry p w l exc = andthen (deadline_exceeded w l) (\<lambda>late.
     if late then finalize_with_recovery p w l (failed_attempt ''interrupt_projection_unavailable'' exc False (cl_fence_token l))
     else reconcile_later w l)"

definition attempt_limit :: "command_worker \<Rightarrow> command_lease \<Rightarrow> int" where
  "attempt_limit w l = (if is_cancel l then cw_max_cancel_attempts w else cw_max_attempts w)"

definition schedule_terminal_retry :: "command_params \<Rightarrow> command_worker \<Rightarrow> command_lease \<Rightarrow> string \<Rightarrow> bool work" where
  "schedule_terminal_retry p w l exc = (if attempt_limit w l \<le> cl_fence_token l
     then finalize_with_recovery p w l (failed_attempt ''terminal_projection_unavailable'' exc False (cl_fence_token l))
     else reconcile_later w l)"

definition mistyped_output :: "string \<Rightarrow> terminal_output \<Rightarrow> bool" where
  "mistyped_output task_type t \<longleftrightarrow> tg_terminal_status t = ''succeeded''
     \<and> (task_type = ''market_analysis'' \<and> tg_artifact t = None \<or> task_type = ''deep_research'' \<and> tg_deep_research t = None)"

definition observed_output :: "command_params \<Rightarrow> string \<Rightarrow> json \<Rightarrow> terminal_output" where
  "observed_output p task_type out = (case checked valid_terminal_output (cp_read_output p out) of
     None \<Rightarrow> failure_output ''invalid_agent_output'' ''ValidationError'' False None
   | Some t \<Rightarrow> if mistyped_output task_type t
       then failure_output ''invalid_agent_output'' ''TaskArtifactTypeMismatch'' False None else t)"

definition project_remote_terminal :: "command_params \<Rightarrow> command_worker \<Rightarrow> command_lease \<Rightarrow> remote_handle \<Rightarrow> string \<Rightarrow> bool work" where
  "project_remote_terminal p w l h status =
     andthen (transact (\<lambda>fresh now db. remember_remote_terminal now l status db)) (\<lambda>remembered.
       if \<not> remembered then ret False
       else if status \<noteq> ''success''
       then finalize_with_recovery p w l (failure_output
         (if status = ''timeout'' then ''agent_run_timeout'' else ''agent_run_error'') ''OfficialRunStatus'' (status = ''timeout'') None)
       else (\<lambda>d. (case dw_join d h of
          Timed_out \<Rightarrow> schedule_terminal_retry p w l ''TimeoutError''
        | Broken e \<Rightarrow> schedule_terminal_retry p w l (error_name_of e)
        | Reply out \<Rightarrow> finalize_with_recovery p w l (observed_output p (cl_task_type l) out)) d))"

section \<open>Cancelling\<close>

definition schedule_cancel_retry :: "command_params \<Rightarrow> command_worker \<Rightarrow> command_lease \<Rightarrow> string option \<Rightarrow> bool work" where
  "schedule_cancel_retry p w l exc = (if cw_max_cancel_attempts w \<le> cl_fence_token l
     then transact (\<lambda>fresh now. finalize_cancel_failure p fresh now l exc ''agent_cancel_failed''
       ''Official Run cancellation could not be confirmed.'')
     else transact (\<lambda>fresh now db. written (postpone_cancel w now l db)))"

definition authorized :: "dispatch_world \<Rightarrow> command_lease \<Rightarrow> remote_handle \<Rightarrow> remote_handle" where
  "authorized d l h = (case dw_authorize d of None \<Rightarrow> h | Some f \<Rightarrow> f h (cl_actor l))"

definition cancel_and_finish :: "command_params \<Rightarrow> command_worker \<Rightarrow> command_lease \<Rightarrow> remote_handle option \<Rightarrow> bool work" where
  "cancel_and_finish p w l handle d = (case handle of
     None \<Rightarrow> transact (\<lambda>fresh now. finalize_cancel p fresh now l)
   | Some h0 \<Rightarrow> (let h = authorized d l h0 in
       case dw_cancel d h of
         Timed_out \<Rightarrow> schedule_cancel_retry p w l (Some ''TimeoutError'')
       | Broken e \<Rightarrow> schedule_cancel_retry p w l (Some (error_name_of e))
       | Reply Cancel_unconfirmed \<Rightarrow> schedule_cancel_retry p w l None
       | Reply (Cancel_terminal None) \<Rightarrow> schedule_cancel_retry p w l None
       | Reply (Cancel_terminal (Some status)) \<Rightarrow> project_remote_terminal p w l h status
       | Reply Cancel_confirmed \<Rightarrow> transact (\<lambda>fresh now. finalize_cancel p fresh now l))) d"

definition execute_cancel :: "command_params \<Rightarrow> command_worker \<Rightarrow> command_lease \<Rightarrow> bool work" where
  "execute_cancel p w l d =
     (case (cl_observed_terminal_status l, cl_remote_handle l) of
        (Some status, None) \<Rightarrow> schedule_terminal_retry p w l ''RuntimeError''
      | (Some status, Some h) \<Rightarrow> project_remote_terminal p w l (authorized d l h) status
      | (None, Some h) \<Rightarrow> cancel_and_finish p w l (Some h)
      | (None, None) \<Rightarrow>
          if cl_product_run_id l = None then cancel_and_finish p w l None
          else case dw_find d l (cl_product_thread_id l) of
            Timed_out \<Rightarrow> schedule_cancel_retry p w l (Some ''TimeoutError'')
          | Broken e \<Rightarrow> schedule_cancel_retry p w l (Some (error_name_of e))
          | Reply None \<Rightarrow> schedule_cancel_retry p w l None
          | Reply (Some h) \<Rightarrow> andthen (transact (\<lambda>fresh now. register_cancel_target now l h)) (\<lambda>registered.
              if registered then cancel_and_finish p w l (Some h) else ret False)) d"

definition orphan_cancel :: "command_params \<Rightarrow> command_worker \<Rightarrow> command_lease \<Rightarrow> string \<Rightarrow> bool work" where
  "orphan_cancel p w l exc = andthen (transact (\<lambda>fresh now db. written (schedule_orphan_cancel w now l db))) (\<lambda>r. case r of
     Orphan_lost \<Rightarrow> ret False
   | Orphan_postponed \<Rightarrow> ret True
   | Orphan_exhausted \<Rightarrow> transact (\<lambda>fresh now. finalize_cancel_failure p fresh now l (Some exc) ''orphan_cancel_unconfirmed''
       ''Official Run cleanup after the orphan deadline could not be confirmed.''))"

definition reconcile_or_timeout :: "command_params \<Rightarrow> command_worker \<Rightarrow> command_lease \<Rightarrow> remote_handle \<Rightarrow> bool work" where
  "reconcile_or_timeout p w l h = andthen (deadline_exceeded w l) (\<lambda>late.
     if \<not> late then reconcile_later w l
     else (\<lambda>d. (case dw_cancel d h of
        Timed_out \<Rightarrow> orphan_cancel p w l ''TimeoutError''
      | Broken e \<Rightarrow> orphan_cancel p w l (error_name_of e)
      | Reply Cancel_unconfirmed \<Rightarrow> orphan_cancel p w l ''RuntimeError''
      | Reply (Cancel_terminal None) \<Rightarrow> orphan_cancel p w l ''RuntimeError''
      | Reply (Cancel_terminal (Some status)) \<Rightarrow> project_remote_terminal p w l h status
      | Reply Cancel_confirmed \<Rightarrow> finalize_with_recovery p w l
          (failure_output ''agent_run_timeout'' ''OrphanDeadlineExceeded'' True None)) d))"

section \<open>Creating the official run\<close>

fun renewals :: "command_worker \<Rightarrow> command_lease \<Rightarrow> nat \<Rightarrow> bool work" where
  "renewals w l 0 = ret True"
| "renewals w l (Suc n) = andthen (transact (\<lambda>fresh now db. written (renew_lease w now l db))) (\<lambda>held.
     if held then renewals w l n else ret False)"

definition with_heartbeat ::
  "command_worker \<Rightarrow> command_lease \<Rightarrow> remote_error \<Rightarrow> creation \<Rightarrow> (remote_error, remote_handle option) result work" where
  "with_heartbeat w l indeterminate call = andthen (caught (renewals w l (cn_beats call))) (\<lambda>r d. case r of
     Inl e \<Rightarrow> ret (Inl (Remote_failure (dw_class_name d e))) d
   | Inr False \<Rightarrow> ret (Inr None) d
   | Inr True \<Rightarrow> ret (case cn_answer call of Reply h \<Rightarrow> Inr (Some h) | Timed_out \<Rightarrow> Inl indeterminate | Broken e \<Rightarrow> Inl e) d)"

definition found_run :: "remote_error \<Rightarrow> remote_handle option reply \<Rightarrow> (remote_error, remote_handle option) result" where
  "found_run indeterminate r = (case r of
     Reply (Some h) \<Rightarrow> Inr (Some h) | Reply None \<Rightarrow> Inl indeterminate | Timed_out \<Rightarrow> Inl indeterminate | Broken e \<Rightarrow> Inl e)"

definition obtain_handle :: "command_worker \<Rightarrow> command_lease \<Rightarrow> (remote_error, remote_handle option) result work" where
  "obtain_handle w l d =
     (if cl_command_type l = ''respond'' then
        (case (cl_resume_handle l, cl_respond_payload l) of
           (Some h, Some y) \<Rightarrow>
             if cl_resume_reconcile_only l then ret (found_run Resume_indeterminate (dw_find d l (rh_thread_id h)))
             else with_heartbeat w l Resume_indeterminate (dw_resume d l h y)
         | _ \<Rightarrow> ret (Inl (Remote_failure ''RuntimeError'')))
      else if cl_command_type l = ''fork'' then
        (case (cl_fork_source_handle l, cl_fork_payload l) of
           (Some h0, Some y) \<Rightarrow> (let h = authorized d l h0 in
             if cl_fork_reconcile_only l then ret (found_run Fork_indeterminate (dw_find d l (rh_thread_id h)))
             else with_heartbeat w l Fork_indeterminate (dw_fork d l h y))
         | _ \<Rightarrow> ret (Inl (Remote_failure ''RuntimeError'')))
      else if cl_submit_reconcile_only l then ret (found_run Submit_indeterminate (dw_find d l (cl_product_thread_id l)))
      else with_heartbeat w l Submit_indeterminate (dw_start d l)) d"

section \<open>Following the run\<close>

fun drain_parts :: "command_params \<Rightarrow> command_worker \<Rightarrow> command_lease \<Rightarrow> remote_handle \<Rightarrow> int \<Rightarrow> stream_end \<Rightarrow> stream_part list
    \<Rightarrow> (string, bool) result work" where
  \<comment> \<open>a failure is the class of the exception\<close>
  "drain_parts p w l h seen ending [] = ret (case ending of Stream_ended \<Rightarrow> Inr True | Stream_broken e \<Rightarrow> Inl e)"
| "drain_parts p w l h seen ending (part # parts) =
     (if sp_event part \<noteq> ''updates'' then drain_parts p w l h seen ending parts
      else case (nonempty_text (sp_id part), sp_data part) of
        (Some event_id, JObj updates) \<Rightarrow>
          andthen (caught (transact (\<lambda>fresh now. persist_progressive_update p w fresh now l h event_id updates))) (\<lambda>r d. (case r of
            Inl e \<Rightarrow> ret (Inl (dw_class_name d e))
          | Inr False \<Rightarrow> ret (Inr False)
          | Inr True \<Rightarrow> if cw_max_stream_events w \<le> seen + 1 then ret (Inr True)
              else drain_parts p w l h (seen + 1) ending parts) d)
      | _ \<Rightarrow> ret (Inl ''RuntimeError''))"

definition drain_stream :: "command_params \<Rightarrow> command_worker \<Rightarrow> command_lease \<Rightarrow> remote_handle \<Rightarrow> (string, bool) result work" where
  "drain_stream p w l h d = (case dw_stream d of
     None \<Rightarrow> ret (Inr True)
   | Some join_stream \<Rightarrow> (case join_stream h (cl_official_stream_last_event_id l) of
       (parts, ending) \<Rightarrow> drain_parts p w l h 0 ending parts)) d"

definition mark_interrupted :: "command_params \<Rightarrow> command_worker \<Rightarrow> command_lease \<Rightarrow> interrupt_set \<Rightarrow> bool work" where
  "mark_interrupted p w l s =
     (if iu_interrupts s = [] then ret False
      else if 64 < length (iu_interrupts s)
      then finalize_with_recovery p w l (failure_output ''interrupt_member_limit_exceeded'' ''OfficialInterruptSet'' False None)
      else transact (mark_waiting_human p w l s))"

definition report_error :: "command_params \<Rightarrow> command_worker \<Rightarrow> command_lease \<Rightarrow> remote_error \<Rightarrow> bool work" where
  "report_error p w l e = transact (\<lambda>fresh now db. rbind (record_remote_error p w fresh now l e db) (\<lambda>db1. Inr (False, db1)))"

definition follow_run :: "command_params \<Rightarrow> command_worker \<Rightarrow> command_lease \<Rightarrow> remote_handle \<Rightarrow> bool work" where
  "follow_run p w l h = andthen (drain_stream p w l h) (\<lambda>r. case r of
     Inl e \<Rightarrow> report_error p w l (Remote_failure e)
   | Inr False \<Rightarrow> ret False
   | Inr True \<Rightarrow>
       (case cl_observed_terminal_status l of
          Some status \<Rightarrow> project_remote_terminal p w l h status
        | None \<Rightarrow> (\<lambda>d. (case dw_get d h of
            Timed_out \<Rightarrow> reconcile_or_timeout p w l h
          | Broken e \<Rightarrow> reconcile_or_timeout p w l h
          | Reply status \<Rightarrow>
              if status \<in> {''pending'', ''running''} then reconcile_or_timeout p w l h
              else if status = ''interrupted'' then
                (case dw_interrupts d h of
                   Timed_out \<Rightarrow> schedule_interrupt_retry p w l ''TimeoutError''
                 | Broken e \<Rightarrow> schedule_interrupt_retry p w l (error_name_of e)
                 | Reply s \<Rightarrow> mark_interrupted p w l s)
              else project_remote_terminal p w l h status) d)))"

definition executable :: "command_lease \<Rightarrow> bool" where
  "executable l \<longleftrightarrow> cl_product_run_id l \<noteq> None \<and> (cl_command_type l \<in> {''submit'', ''retry''} \<longrightarrow> cl_submission l \<noteq> None)
     \<and> (cl_command_type l = ''respond'' \<longrightarrow> cl_respond_payload l \<noteq> None) \<and> (cl_command_type l = ''fork'' \<longrightarrow> cl_fork_payload l \<noteq> None)"

definition start_and_follow :: "command_params \<Rightarrow> command_worker \<Rightarrow> command_lease \<Rightarrow> bool work" where
  "start_and_follow p w l = andthen (obtain_handle w l) (\<lambda>r. case r of
     Inl e \<Rightarrow> report_error p w l e
   | Inr None \<Rightarrow> ret False
   | Inr (Some h) \<Rightarrow> andthen (transact (\<lambda>fresh now. register_remote w now l h)) (\<lambda>registration.
       case registration of Cancel_requested \<Rightarrow> ret True | Lost \<Rightarrow> ret False | Registered \<Rightarrow> follow_run p w l h))"

definition execute_command :: "command_params \<Rightarrow> command_worker \<Rightarrow> command_lease \<Rightarrow> bool work" where
  "execute_command p w l = andthen (transact (\<lambda>fresh now db. written (owns_lease now l db, db))) (\<lambda>owned.
     if \<not> owned then ret False
     else if is_cancel l then execute_cancel p w l
     else if \<not> executable l then ret False
     else case cl_remote_handle l of
       Some h \<Rightarrow> (\<lambda>d. follow_run p w l (authorized d l h) d)
     | None \<Rightarrow> start_and_follow p w l)"

definition dispatch_task_command :: "command_params \<Rightarrow> command_worker \<Rightarrow> bool work" where
  "dispatch_task_command p w d = andthen (\<lambda>d s. transact (expire_due_interrupt p (dw_busy d (fst s))) d s) (\<lambda>expired.
     if expired then ret True
     else andthen (\<lambda>d s. transact (\<lambda>fresh. claim_next_command p w fresh (dw_busy d (fst s))) d s) (\<lambda>claimed.
       case claimed of None \<Rightarrow> ret False | Some l \<Rightarrow> execute_command p w l)) d"

end
