(* ===== verification/Command_Service.thy ===== *)
theory Command_Service
  imports Command_Worker
begin

text \<open>
  The operations on tasks the API offers (\<open>ProductService\<close> in \<open>api/service.py\<close>): admitting a task,
  cancelling a task or a run, retrying, forking from a checkpoint, and answering a review pause. Each
  one is a transaction that writes a command for the dispatcher; what it answers is which task and
  run the caller is shown.
\<close>

section \<open>Errors and answers\<close>

datatype service_error =
    Unresolved_actor actor_error
  | Not_permitted
  | Reused_key \<comment> \<open>\<open>IdempotencyConflictError\<close>\<close>
  | Not_cancellable
  | Not_retryable
  | Fork_conflict
  | Response_conflict
  | Inconsistent_state \<comment> \<open>a \<open>RuntimeError\<close>, \<open>KeyError\<close> or \<open>ValueError\<close>\<close>
  | Not_admitted usage_error
  | Integrity_rejected

datatype service_answer = Missing | Shown uuid "uuid option"

record service_params =
  sv_command :: command_params
  sv_uuid :: "string \<Rightarrow> uuid option" \<comment> \<open>\<open>UUID(text)\<close>\<close>
  sv_digest :: "string \<Rightarrow> string" \<comment> \<open>SHA-256 in hexadecimal\<close>
  sv_dump_response :: "review_response \<Rightarrow> json"

type_synonym served = "(service_error, service_answer \<times> command_db) result"

definition writer :: "actor_context \<Rightarrow> command_db \<Rightarrow> (service_error, resolved_actor) result" where
  "writer ac db = (case resolve_actor (cd_directory db) ac of
     Inl e \<Rightarrow> Inl (Unresolved_actor e)
   | Inr ra \<Rightarrow> ensure (''analysis:write'' \<in> set (ra_permissions ra)) Not_permitted (Inr ra))"

definition rejected :: "(command_error, 'a) result \<Rightarrow> (service_error, 'a) result" where
  "rejected r = (case r of Inl e \<Rightarrow> Inl Integrity_rejected | Inr x \<Rightarrow> Inr x)"

definition actor_key :: "resolved_actor \<Rightarrow> uuid \<times> uuid \<times> uuid" where
  "actor_key ra = (ra_tenant_id ra, ra_workspace_id ra, ra_user_id ra)"

definition own_task :: "resolved_actor \<Rightarrow> uuid \<Rightarrow> command_db \<Rightarrow> task_row option" where
  "own_task ra i db = find (\<lambda>t. tr_id t = i \<and> task_scope t = actor_key ra) (cd_tasks db)"

text \<open>The commands of a task in their order; with \<open>mine\<close> only those the actor wrote.\<close>

definition task_commands :: "bool \<Rightarrow> resolved_actor \<Rightarrow> task_row \<Rightarrow> command_db \<Rightarrow> command_row list" where
  "task_commands mine ra t db = sort_key tc_sequence (filter (\<lambda>c. tc_task_id c = tr_id t
     \<and> tc_tenant_id c = ra_tenant_id ra \<and> tc_workspace_id c = ra_workspace_id ra
     \<and> (mine \<longrightarrow> tc_actor_user_id c = ra_user_id ra)) (cd_commands db))"

definition with_key :: "string \<Rightarrow> command_row list \<Rightarrow> command_row option" where
  "with_key k cs = find (\<lambda>c. tc_idempotency_key c = k) cs"

definition has_open :: "command_row list \<Rightarrow> bool" where
  "has_open cs \<longleftrightarrow> list_ex (\<lambda>c. open_command (tc_status c)) cs"

definition cancel_pending :: "command_row list \<Rightarrow> bool" where
  "cancel_pending cs \<longleftrightarrow> list_ex (\<lambda>c. tc_command_type c = ''cancel_task'' \<and> open_command (tc_status c)) cs"

definition written_command ::
  "fresh_ids \<Rightarrow> resolved_actor \<Rightarrow> task_row \<Rightarrow> string \<Rightarrow> json \<Rightarrow> string \<Rightarrow> int \<Rightarrow> string \<Rightarrow> command_row" where
  "written_command fresh ra t typ payload digest n key = \<lparr>tc_id = fi_command fresh, tc_tenant_id = ra_tenant_id ra,
     tc_workspace_id = ra_workspace_id ra, tc_actor_user_id = ra_user_id ra, tc_task_id = tr_id t, tc_thread_id = tr_thread_id t,
     tc_command_type = typ, tc_payload = payload, tc_payload_hash = digest, tc_sequence = n, tc_status = ''pending'',
     tc_lease_owner = None, tc_lease_expires_at = None, tc_attempt = 0, tc_idempotency_key = key, tc_official_run_id = None,
     tc_official_command_id = None, tc_created_at = fi_created fresh\<rparr>"

definition request_key :: "service_params \<Rightarrow> string \<Rightarrow> uuid \<Rightarrow> string \<Rightarrow> string" where
  "request_key sp kind i key = kind @ '':'' @ i @ '':'' @ sv_digest sp key"

section \<open>Admitting a task\<close>

definition admission_task :: "resolved_actor \<Rightarrow> string \<Rightarrow> command_db \<Rightarrow> task_row option" where
  "admission_task ra key db = find (\<lambda>t. task_scope t = actor_key ra \<and> tr_idempotency_key t = key) (cd_tasks db)"

definition admission_replay :: "task_row \<Rightarrow> string \<Rightarrow> (service_error, service_answer) result" where
  "admission_replay t h = ensure (tr_request_payload_hash t = h) Reused_key (Inr (Shown (tr_id t) None))"

definition admitted_thread :: "fresh_ids \<Rightarrow> resolved_actor \<Rightarrow> string \<Rightarrow> thread_row" where
  "admitted_thread fresh ra title = \<lparr>th_id = fi_thread fresh, th_tenant_id = ra_tenant_id ra,
     th_workspace_id = ra_workspace_id ra, th_owner_user_id = ra_user_id ra, th_official_thread_id = None,
     th_title = Some title, th_context = JObj [], th_next_domain_event_sequence = 1\<rparr>"

definition admitted_task :: "fresh_ids \<Rightarrow> resolved_actor \<Rightarrow> string \<Rightarrow> string \<Rightarrow> string \<Rightarrow> json \<Rightarrow> task_row" where
  "admitted_task fresh ra task_type key h payload = \<lparr>tr_id = fi_task fresh, tr_tenant_id = ra_tenant_id ra,
     tr_workspace_id = ra_workspace_id ra, tr_owner_user_id = ra_user_id ra, tr_thread_id = fi_thread fresh,
     tr_task_type = task_type, tr_status = ''queued'', tr_idempotency_key = key, tr_request_payload_hash = h,
     tr_request_payload = payload, tr_completed_at = None, tr_created_at = fi_created fresh\<rparr>"

definition add_thread :: "thread_row \<Rightarrow> command_db \<Rightarrow> (command_error, command_db) result" where
  "add_thread h db = ensure (thread_check h \<and> th_id h \<notin> th_id ` set (cd_threads db)) Row_rejected
     (Inr (db\<lparr>cd_threads := cd_threads db @ [h]\<rparr>))"

definition add_task :: "task_row \<Rightarrow> command_db \<Rightarrow> (command_error, command_db) result" where
  "add_task t db = ensure (task_check t \<and> tr_id t \<notin> tr_id ` set (cd_tasks db) \<and> task_key t \<notin> task_key ` set (cd_tasks db))
     Row_rejected (Inr (db\<lparr>cd_tasks := cd_tasks db @ [t]\<rparr>))"

definition charge_admission ::
  "service_params \<Rightarrow> fresh_ids \<Rightarrow> resolved_actor \<Rightarrow> string \<Rightarrow> instant \<Rightarrow> command_db \<Rightarrow> (service_error, command_db) result" where
  "charge_admission sp fresh ra task_type now db =
     (case admit_agent (cp_usage (sv_command sp)) ra (fi_usage fresh ''agent_admission'') task_type ''task'' (fi_task fresh)
         (''agent-admission:'' @ fi_task fresh) now None
         \<lparr>ud_entitlements = cd_entitlements db, ud_tasks = cd_tasks db, ud_reviews = cd_reviews db, ud_triggers = [],
          ud_runs = cd_runs db, ud_ledger = cd_ledger db, ud_reconciliations = []\<rparr> of
        Inl Integrity_error \<Rightarrow> Inl Integrity_rejected
      | Inl e \<Rightarrow> Inl (Not_admitted e)
      | Inr (x, u) \<Rightarrow> Inr (db\<lparr>cd_ledger := ud_ledger u\<rparr>))"

definition admit_task ::
  "service_params \<Rightarrow> fresh_ids \<Rightarrow> instant \<Rightarrow> actor_context \<Rightarrow> json \<Rightarrow> string \<Rightarrow> string \<Rightarrow> string \<Rightarrow> command_db \<Rightarrow> served" where
  "admit_task sp fresh now ac payload key task_type title db =
     rbind (writer ac db) (\<lambda>ra. let h = payload_hash (sv_command sp) payload in
     case admission_task ra key db of
       Some t \<Rightarrow> rbind (admission_replay t h) (\<lambda>v. Inr (v, db))
     | None \<Rightarrow>
         (let t = admitted_task fresh ra task_type key h payload in
          rbind (charge_admission sp fresh ra task_type now db) (\<lambda>db1.
          rbind (rejected (add_thread (admitted_thread fresh ra title) db1)) (\<lambda>db2.
          rbind (rejected (add_task t db2)) (\<lambda>db3.
          rbind (rejected (insert_command (written_command fresh ra t ''submit'' payload h 1 (''submit:'' @ tr_id t)) db3)) (\<lambda>db4.
            Inr (Shown (tr_id t) None, db4)))))))"

text \<open>When the insertion was refused, a second transaction looks for the task a concurrent request admitted.\<close>

definition create_product_task ::
  "service_params \<Rightarrow> fresh_ids \<Rightarrow> instant \<Rightarrow> actor_context \<Rightarrow> json \<Rightarrow> string \<Rightarrow> string \<Rightarrow> string \<Rightarrow> command_db \<Rightarrow> command_db \<Rightarrow> served" where
  \<comment> \<open>\<open>later\<close> is the database the second transaction reads\<close>
  "create_product_task sp fresh now ac payload key task_type title later db =
     (case admit_task sp fresh now ac payload key task_type title db of
        Inl Integrity_rejected \<Rightarrow>
          rbind (writer ac later) (\<lambda>ra. case admission_task ra key later of
            None \<Rightarrow> Inl Integrity_rejected
          | Some t \<Rightarrow> rbind (admission_replay t (payload_hash (sv_command sp) payload)) (\<lambda>v. Inr (v, later)))
      | r \<Rightarrow> r)"

section \<open>Cancelling\<close>

definition superseded_by_cancel :: "command_row \<Rightarrow> bool" where
  "superseded_by_cancel c \<longleftrightarrow> tc_status c = ''pending''
     \<or> tc_status c = ''dispatching'' \<and> \<not> (tc_command_type c = ''submit'' \<and> tc_official_run_id c = None)"

definition cancel_commands :: "command_row list \<Rightarrow> command_db \<Rightarrow> command_db" where
  "cancel_commands cs db = db\<lparr>cd_commands := update_where (\<lambda>c. tc_id c \<in> tc_id ` set cs \<and> superseded_by_cancel c)
     (closed_command ''cancelled'') (cd_commands db)\<rparr>"

definition mark_cancelled :: "instant \<Rightarrow> run_row option \<Rightarrow> command_db \<Rightarrow> command_db" where
  "mark_cancelled now run db = (case run of None \<Rightarrow> db
   | Some r \<Rightarrow> set_run (rn_id r) (\<lambda>r. r\<lparr>rn_cancel_requested_at := Some now\<rparr>) db)"

definition write_cancel ::
  "service_params \<Rightarrow> fresh_ids \<Rightarrow> instant \<Rightarrow> resolved_actor \<Rightarrow> task_row \<Rightarrow> run_row option \<Rightarrow> string \<Rightarrow> json \<Rightarrow> string \<Rightarrow> command_row list
     \<Rightarrow> command_db \<Rightarrow> (service_error, command_db) result" where
  "write_cancel sp fresh now ra t run typ payload key cs db =
     rejected (insert_command (written_command fresh ra t typ payload (payload_hash (sv_command sp) payload) (sequence_after cs) key)
       (mark_cancelled now run (cancel_commands cs db)))"

definition cancel_task :: "service_params \<Rightarrow> fresh_ids \<Rightarrow> instant \<Rightarrow> actor_context \<Rightarrow> string \<Rightarrow> string \<Rightarrow> command_db \<Rightarrow> served" where
  "cancel_task sp fresh now ac task_text key db = (case sv_uuid sp task_text of
     None \<Rightarrow> Inr (Missing, db)
   | Some i \<Rightarrow> rbind (writer ac db) (\<lambda>ra. case own_task ra i db of
       None \<Rightarrow> Inr (Missing, db)
     | Some t \<Rightarrow>
         if tr_status t = ''cancelled'' then Inr (Shown i None, db)
         else if tr_status t \<in> {''succeeded'', ''blocked'', ''failed''} then Inl Not_cancellable
         else (let cs = task_commands False ra t db; k = request_key sp ''cancel'' i key in
           if with_key k cs \<noteq> None \<or> cancel_pending cs then Inr (Shown i None, db)
           else rbind (write_cancel sp fresh now ra t (latest_run t db) ''cancel_task'' (JObj [(''task_id'', JStr i)]) k cs db)
                  (\<lambda>db1. Inr (Shown i None, db1)))))"

definition own_run :: "resolved_actor \<Rightarrow> uuid \<Rightarrow> command_db \<Rightarrow> run_row option" where
  "own_run ra i db = find (\<lambda>r. rn_id r = i \<and> run_actor r = actor_key ra) (cd_runs db)"

definition run_cancel_pending :: "uuid \<Rightarrow> command_row list \<Rightarrow> bool" where
  "run_cancel_pending i cs \<longleftrightarrow> list_ex (\<lambda>c. tc_command_type c = ''cancel_run'' \<and> open_command (tc_status c)
     \<and> json_get ''run_id'' (tc_payload c) = Some (JStr i)) cs"

definition cancel_run :: "service_params \<Rightarrow> fresh_ids \<Rightarrow> instant \<Rightarrow> actor_context \<Rightarrow> string \<Rightarrow> string \<Rightarrow> command_db \<Rightarrow> served" where
  "cancel_run sp fresh now ac run_text key db = (case sv_uuid sp run_text of
     None \<Rightarrow> Inr (Missing, db)
   | Some i \<Rightarrow> rbind (writer ac db) (\<lambda>ra. case own_run ra i db of
       None \<Rightarrow> Inr (Missing, db)
     | Some r \<Rightarrow> (case own_task ra (rn_task_id r) db of
         None \<Rightarrow> Inr (Missing, db)
       | Some t \<Rightarrow> (let cs = task_commands True ra t db; k = request_key sp ''cancel-run'' i key in
           if with_key k cs \<noteq> None then Inr (Shown (tr_id t) (Some i), db)
           else if ended_status (rn_status r) \<or> cancel_pending cs then Inl Not_cancellable
           else if run_cancel_pending i cs then Inr (Shown (tr_id t) (Some i), db)
           else rbind (write_cancel sp fresh now ra t (Some r) ''cancel_run'' (JObj [(''run_id'', JStr i)]) k cs db)
                  (\<lambda>db1. Inr (Shown (tr_id t) (Some i), db1))))))"

section \<open>Retrying\<close>

definition payload_uuid :: "service_params \<Rightarrow> string \<Rightarrow> json \<Rightarrow> (service_error, uuid option) result" where
  "payload_uuid sp k j = (case json_get k j of
     Some (JStr s) \<Rightarrow> (case sv_uuid sp s of None \<Rightarrow> Inl Inconsistent_state | Some i \<Rightarrow> Inr (Some i))
   | _ \<Rightarrow> Inr None)"

definition cancelled_run_retryable :: "task_row \<Rightarrow> run_row option \<Rightarrow> command_row list \<Rightarrow> bool" where
  "cancelled_run_retryable t source cs \<longleftrightarrow> tr_status t = ''cancelled''
     \<and> (case source of None \<Rightarrow> False | Some r \<Rightarrow> rn_status r = ''cancelled''
         \<and> list_ex (\<lambda>c. tc_command_type c = ''cancel_run'' \<and> tc_status c = ''dispatched''
             \<and> json_get ''run_id'' (tc_payload c) = Some (JStr (rn_id r))) cs)"

definition next_attempt :: "task_row \<Rightarrow> command_db \<Rightarrow> int" where
  "next_attempt t db = Max (insert 0 (rn_attempt ` {r \<in> set (cd_runs db). run_of_task t r})) + 1"

definition reopen_task :: "uuid \<Rightarrow> command_db \<Rightarrow> command_db" where
  "reopen_task i = set_task i (\<lambda>t. t\<lparr>tr_status := ''queued'', tr_completed_at := None\<rparr>)"

definition retry_run_of :: "fresh_ids \<Rightarrow> task_row \<Rightarrow> run_row \<Rightarrow> command_db \<Rightarrow> run_row" where
  "retry_run_of fresh t source db = (new_run (fi_run fresh) t (next_attempt t db) ''queued'' (rn_input_payload source))
     \<lparr>rn_retry_of_run_id := Some (rn_id source)\<rparr>"

definition retry_payload_json :: "uuid \<Rightarrow> uuid \<Rightarrow> json" where
  "retry_payload_json source_id retry_id = JObj [(''source_run_id'', JStr source_id), (''retry_run_id'', JStr retry_id)]"

definition write_retry ::
  "service_params \<Rightarrow> fresh_ids \<Rightarrow> resolved_actor \<Rightarrow> task_row \<Rightarrow> run_row \<Rightarrow> string \<Rightarrow> command_row list \<Rightarrow> command_db
     \<Rightarrow> (service_error, command_db) result" where
  "write_retry sp fresh ra t source k cs db =
     rbind (rejected (insert_run (retry_run_of fresh t source db) db)) (\<lambda>db1.
     rbind (rejected (insert_command (written_command fresh ra t ''retry'' (retry_payload_json (rn_id source) (fi_run fresh))
        (payload_hash (sv_command sp) (JObj [(''task_id'', JStr (tr_id t))])) (sequence_after cs) k) db1)) (\<lambda>db2.
       Inr (reopen_task (tr_id t) db2)))"

definition retry_task :: "service_params \<Rightarrow> fresh_ids \<Rightarrow> actor_context \<Rightarrow> string \<Rightarrow> string \<Rightarrow> command_db \<Rightarrow> served" where
  "retry_task sp fresh ac task_text key db = (case sv_uuid sp task_text of
     None \<Rightarrow> Inr (Missing, db)
   | Some i \<Rightarrow> rbind (writer ac db) (\<lambda>ra. case own_task ra i db of
       None \<Rightarrow> Inr (Missing, db)
     | Some t \<Rightarrow> (let cs = task_commands True ra t db; k = request_key sp ''retry'' i key; source = latest_run t db in
         case with_key k cs of
           Some c \<Rightarrow> rbind (payload_uuid sp ''retry_run_id'' (tc_payload c)) (\<lambda>shown. Inr (Shown i shown, db))
         | None \<Rightarrow>
             if tr_status t \<notin> {''failed'', ''blocked''} \<and> \<not> cancelled_run_retryable t source cs then Inl Not_retryable
             else if has_open cs then Inl Not_retryable
             else (case source of
               None \<Rightarrow> Inl Not_retryable
             | Some r \<Rightarrow> if rn_status r \<notin> {''failed'', ''blocked'', ''cancelled''} then Inl Not_retryable
                 else rbind (write_retry sp fresh ra t r k cs db) (\<lambda>db1. Inr (Shown i (Some (fi_run fresh)), db1))))))"

section \<open>Forking\<close>

record fork_request =
  fq_source_run_id :: uuid
  fq_checkpoint_id :: "string option"

definition fork_replay :: "service_params \<Rightarrow> uuid \<Rightarrow> fork_request \<Rightarrow> command_row \<Rightarrow> (service_error, service_answer) result" where
  "fork_replay sp i q c = ensure (json_get ''source_run_id'' (tc_payload c) = Some (JStr (fq_source_run_id q))
       \<and> opt_ok (\<lambda>k. json_get ''checkpoint_id'' (tc_payload c) = Some (JStr k)) (fq_checkpoint_id q)) Reused_key
     (rbind (payload_uuid sp ''fork_run_id'' (tc_payload c)) (\<lambda>shown. Inr (Shown i shown)))"

definition cancel_pause_for_fork ::
  "instant \<Rightarrow> resolved_actor \<Rightarrow> task_row \<Rightarrow> command_db \<Rightarrow> (service_error, command_db) result" where
  "cancel_pause_for_fork now ra t db =
     (case filter (\<lambda>q. pause_of_task t q \<and> active_pause q) (cd_pauses db) of
        [] \<Rightarrow> Inr db
      | [q] \<Rightarrow>
          if ip_status q = ''responding'' then Inl Fork_conflict
          else (let mine = (\<lambda>m. im_pause_id m = ip_id q \<and> im_task_id m = tr_id t
                      \<and> (im_tenant_id m, im_workspace_id m, im_owner_user_id m) = actor_key ra);
                    members = filter mine (cd_members db);
                    paused = find (\<lambda>r. rn_id r = ip_run_id q \<and> run_of_task t r) (cd_runs db) in
            if members = [] \<or> list_ex (\<lambda>m. im_status m \<noteq> ''pending'') members then Inl Inconsistent_state
            else (case paused of
              None \<Rightarrow> Inl Inconsistent_state
            | Some r \<Rightarrow> if rn_status r \<noteq> ''waiting_human'' then Inl Inconsistent_state
                else rejected (set_members mine (\<lambda>m. m\<lparr>im_status := ''cancelled''\<rparr>)
                  (set_pause (ip_id q) (\<lambda>q. q\<lparr>ip_status := ''cancelled''\<rparr>)
                    (set_run (rn_id r) (\<lambda>r. r\<lparr>rn_status := ''cancelled'',
                       rn_finished_at := (case rn_finished_at r of None \<Rightarrow> Some now | Some x \<Rightarrow> Some x)\<rparr>) db)))))
      | _ \<Rightarrow> Inl Inconsistent_state)"

definition fork_run_of :: "fresh_ids \<Rightarrow> task_row \<Rightarrow> run_row \<Rightarrow> string \<Rightarrow> command_db \<Rightarrow> run_row" where
  "fork_run_of fresh t source checkpoint db = (new_run (fi_run fresh) t (next_attempt t db) ''queued'' (rn_input_payload source))
     \<lparr>rn_checkpoint_id := Some checkpoint, rn_forked_from_run_id := Some (rn_id source),
      rn_forked_from_checkpoint_id := Some checkpoint\<rparr>"

definition write_fork ::
  "service_params \<Rightarrow> fresh_ids \<Rightarrow> instant \<Rightarrow> resolved_actor \<Rightarrow> task_row \<Rightarrow> run_row \<Rightarrow> string \<Rightarrow> string \<Rightarrow> command_row list \<Rightarrow> command_db
     \<Rightarrow> (service_error, command_db) result" where
  "write_fork sp fresh now ra t source checkpoint k cs db =
     rbind (cancel_pause_for_fork now ra t db) (\<lambda>db1.
     rbind (rejected (insert_run (fork_run_of fresh t source checkpoint db1) db1)) (\<lambda>db2.
     rbind (rejected (insert_command (written_command fresh ra t ''fork''
         (JObj [(''source_run_id'', JStr (rn_id source)), (''fork_run_id'', JStr (fi_run fresh)), (''checkpoint_id'', JStr checkpoint)])
         (payload_hash (sv_command sp) (JObj [(''task_id'', JStr (tr_id t)), (''source_run_id'', JStr (rn_id source)),
            (''checkpoint_id'', JStr checkpoint)]))
         (sequence_after cs) k) db2)) (\<lambda>db3. Inr (reopen_task (tr_id t) db3))))"

definition fork_task ::
  "service_params \<Rightarrow> fresh_ids \<Rightarrow> instant \<Rightarrow> actor_context \<Rightarrow> string \<Rightarrow> fork_request \<Rightarrow> string \<Rightarrow> command_db \<Rightarrow> served" where
  "fork_task sp fresh now ac task_text q key db = (case sv_uuid sp task_text of
     None \<Rightarrow> Inr (Missing, db)
   | Some i \<Rightarrow> rbind (writer ac db) (\<lambda>ra. case own_task ra i db of
       None \<Rightarrow> Inr (Missing, db)
     | Some t \<Rightarrow> (let cs = task_commands True ra t db; k = request_key sp ''fork'' i key in
         case with_key k cs of
           Some c \<Rightarrow> rbind (fork_replay sp i q c) (\<lambda>v. Inr (v, db))
         | None \<Rightarrow>
             if tr_status t = ''cancelled'' then Inl Fork_conflict
             else (case scoped_run_at t (fq_source_run_id q) db of
               None \<Rightarrow> Inr (Missing, db)
             | Some source \<Rightarrow> (case rn_checkpoint_id source of
                 None \<Rightarrow> Inl Fork_conflict
               | Some checkpoint \<Rightarrow>
                   if \<not> opt_ok (\<lambda>x. x = checkpoint) (fq_checkpoint_id q) \<or> has_open cs then Inl Fork_conflict
                   else rbind (write_fork sp fresh now ra t source checkpoint k cs db)
                          (\<lambda>db1. Inr (Shown i (Some (fi_run fresh)), db1)))))))"

section \<open>Answering a review\<close>

record response_item =
  xr_interrupt_id :: string
  xr_response_version :: int
  xr_response :: review_response

record responses_request =
  xs_pause_id :: uuid
  xs_pause_version :: int
  xs_responses :: "response_item list"

definition valid_responses_request :: "responses_request \<Rightarrow> bool" where
  "valid_responses_request q \<longleftrightarrow> 1 \<le> xs_pause_version q \<and> len_between 1 64 (xs_responses q)
     \<and> list_all (\<lambda>x. len_between 1 255 (xr_interrupt_id x) \<and> 1 \<le> xr_response_version x \<and> valid_review_response (xr_response x))
         (xs_responses q)
     \<and> distinct (map xr_interrupt_id (xs_responses q))"

definition canonical_response ::
  "service_params \<Rightarrow> task_row \<Rightarrow> responses_request \<Rightarrow> member_row \<Rightarrow> (service_error, json) result" where
  "canonical_response sp t q m = (case find (\<lambda>x. xr_interrupt_id x = im_official_interrupt_id m) (xs_responses q) of
     None \<Rightarrow> Inl Inconsistent_state
   | Some x \<Rightarrow>
       if im_response_version m \<noteq> xr_response_version x then Inl Response_conflict
       else (case (checked valid_review_payload (cp_read_review (sv_command sp) (im_payload m)),
             json_get ''symbol'' (tr_request_payload t), json_get ''horizon'' (tr_request_payload t)) of
          (Some y, Some symbol, Some horizon) \<Rightarrow>
            if \<not> review_matches_task y (tr_task_type t) symbol horizon then Inl Inconsistent_state
            else (case validate_review_response_for_payload y (xr_response x) of
              Inl e \<Rightarrow> Inl Inconsistent_state
            | Inr r \<Rightarrow> Inr (sv_dump_response sp r))
        | _ \<Rightarrow> Inl Inconsistent_state))"

fun canonical_responses ::
  "service_params \<Rightarrow> task_row \<Rightarrow> responses_request \<Rightarrow> member_row list \<Rightarrow> (service_error, (uuid \<times> json) list) result" where
  "canonical_responses sp t q [] = Inr []"
| "canonical_responses sp t q (m # ms) = rbind (canonical_response sp t q m) (\<lambda>r.
     rbind (canonical_responses sp t q ms) (\<lambda>rs. Inr ((im_id m, r) # rs)))"

definition answers_json :: "member_row list \<Rightarrow> (uuid \<times> json) list \<Rightarrow> json list" where
  "answers_json members answers = map (\<lambda>(m, i, r). answer_json m r) (zip members answers)"

definition request_identity :: "task_row \<Rightarrow> pause_row \<Rightarrow> json list \<Rightarrow> json" where
  "request_identity t q answers = JObj [(''task_id'', JStr (tr_id t)), (''pause_id'', JStr (ip_id q)),
     (''pause_version'', JInt (ip_pause_version q)), (''root_checkpoint'', checkpoint_json q), (''responses'', JArr answers)]"

definition member_of_pause :: "resolved_actor \<Rightarrow> task_row \<Rightarrow> pause_row \<Rightarrow> member_row \<Rightarrow> bool" where
  "member_of_pause ra t q m \<longleftrightarrow> im_pause_id m = ip_id q \<and> im_task_id m = tr_id t
     \<and> (im_tenant_id m, im_workspace_id m, im_owner_user_id m) = actor_key ra"

definition latest_waiting_run :: "task_row \<Rightarrow> command_db \<Rightarrow> run_row option" where
  "latest_waiting_run t db =
     first_by (\<lambda>r. - rn_attempt r) (filter (\<lambda>r. run_of_task t r \<and> rn_status r = ''waiting_human'') (cd_runs db))"

definition answerable :: "instant \<Rightarrow> task_row \<Rightarrow> pause_row \<Rightarrow> member_row list \<Rightarrow> command_db \<Rightarrow> run_row option" where
  \<comment> \<open>the run the answer resumes\<close>
  "answerable now t q members db = (case find (\<lambda>r. rn_id r = ip_run_id q \<and> run_of_task t r) (cd_runs db) of
     None \<Rightarrow> None
   | Some r \<Rightarrow>
       if rn_status r = ''waiting_human'' \<and> map_option rn_id (latest_waiting_run t db) = Some (rn_id r)
          \<and> tr_status t = ''waiting_human'' \<and> ip_status q = ''pending'' \<and> opt_ok (\<lambda>e. now < e) (ip_expires_at q)
          \<and> list_all (\<lambda>m. im_status m = ''pending'') members
       then Some r else None)"

definition answered_run :: "fresh_ids \<Rightarrow> task_row \<Rightarrow> run_row \<Rightarrow> run_row" where
  "answered_run fresh t r = (new_run (fi_run fresh) t (rn_attempt r + 1) ''queued'' (rn_input_payload r))
     \<lparr>rn_resume_of_run_id := Some (rn_id r)\<rparr>"

definition accept_answers ::
  "fresh_ids \<Rightarrow> instant \<Rightarrow> resolved_actor \<Rightarrow> task_row \<Rightarrow> pause_row \<Rightarrow> run_row \<Rightarrow> (uuid \<times> json) list \<Rightarrow> json list \<Rightarrow> string \<Rightarrow> string
     \<Rightarrow> command_row list \<Rightarrow> command_db \<Rightarrow> (service_error, command_db) result" where
  "accept_answers fresh now ra t q r answers answer_docs h k cs db =
     rbind (rejected (insert_run (answered_run fresh t r) db)) (\<lambda>db1.
     rbind (rejected (set_members (member_of_pause ra t q)
        (\<lambda>m. m\<lparr>im_status := ''responding'', im_response := map_of answers (im_id m), im_responded_at := Some now\<rparr>)
        (set_pause (ip_id q) (\<lambda>q. q\<lparr>ip_status := ''responding'', ip_resume_run_id := Some (fi_run fresh),
           ip_accepted_payload_hash := Some h\<rparr>) db1))) (\<lambda>db2.
       rejected (insert_command (written_command fresh ra t ''respond'' (respond_json q answer_docs False) h
         (sequence_after cs) k) db2)))"

definition respond_interrupts ::
  "service_params \<Rightarrow> fresh_ids \<Rightarrow> instant \<Rightarrow> actor_context \<Rightarrow> string \<Rightarrow> responses_request \<Rightarrow> string \<Rightarrow> command_db \<Rightarrow> served" where
  "respond_interrupts sp fresh now ac task_text q key db = (case sv_uuid sp task_text of
     None \<Rightarrow> Inr (Missing, db)
   | Some i \<Rightarrow> rbind (writer ac db) (\<lambda>ra. case own_task ra i db of
       None \<Rightarrow> Inr (Missing, db)
     | Some t \<Rightarrow> (case find (\<lambda>x. ip_id x = xs_pause_id q \<and> pause_of_task t x) (cd_pauses db) of
         None \<Rightarrow> Inr (Missing, db)
       | Some pause \<Rightarrow>
           (let cs = task_commands False ra t db;
                k = ''respond-all:'' @ sv_digest sp (i @ '':'' @ xs_pause_id q @ '':'' @ key);
                members = sort_key im_official_interrupt_id (sort_key im_id (filter (member_of_pause ra t pause) (cd_members db))) in
            if members = [] \<or> xr_interrupt_id ` set (xs_responses q) \<noteq> im_official_interrupt_id ` set members
               \<or> ip_pause_version pause \<noteq> xs_pause_version q then Inl Response_conflict
            else rbind (canonical_responses sp t q members) (\<lambda>answers.
              let docs = answers_json members answers; h = payload_hash (sv_command sp) (request_identity t pause docs) in
              case with_key k cs of
                Some c \<Rightarrow> ensure (tc_payload_hash c = h) Reused_key (Inr (Shown i None, db))
              | None \<Rightarrow> (case answerable now t pause members db of
                  None \<Rightarrow> Inl Response_conflict
                | Some r \<Rightarrow> rbind (accept_answers fresh now ra t pause r answers docs h k cs db)
                    (\<lambda>db1. Inr (Shown i None, db1))))))))"

end
