(* ===== verification/Command_Steps.thy ===== *)
theory Command_Steps
  imports Command_Service Interfaces
begin

text \<open>
  What a transaction of the dispatcher may change. \<open>affects i\<close> bounds a change that concerns the
  task \<open>i\<close> only: rows of other tasks and other tasks' commands stay as they are, no command is
  reopened or leased, and no pause becomes pending again. It is reflexive and transitive, so the
  bound of a transaction is composed from those of its writes.
\<close>

section \<open>Bounds on a change\<close>

definition command_same :: "command_row \<Rightarrow> command_row \<Rightarrow> bool" where
  "command_same c d \<longleftrightarrow> tc_id d = tc_id c \<and> tc_task_id d = tc_task_id c \<and> tc_thread_id d = tc_thread_id c
     \<and> tc_sequence d = tc_sequence c \<and> tc_command_type d = tc_command_type c \<and> tc_payload d = tc_payload c
     \<and> tc_tenant_id d = tc_tenant_id c \<and> tc_workspace_id d = tc_workspace_id c \<and> tc_actor_user_id d = tc_actor_user_id c
     \<and> tc_created_at d = tc_created_at c \<and> tc_idempotency_key d = tc_idempotency_key c"

definition command_kept :: "uuid \<Rightarrow> command_row \<Rightarrow> command_row \<Rightarrow> bool" where
  "command_kept i c d \<longleftrightarrow> command_same c d \<and> tc_attempt d = tc_attempt c
     \<and> (tc_status d = ''dispatching'' \<longrightarrow> tc_status c = ''dispatching'')
     \<and> (open_command (tc_status d) \<longrightarrow> open_command (tc_status c)) \<and> (tc_task_id c \<noteq> i \<longrightarrow> d = c)"

definition task_same :: "task_row \<Rightarrow> task_row \<Rightarrow> bool" where
  "task_same t u \<longleftrightarrow> tr_id u = tr_id t \<and> tr_thread_id u = tr_thread_id t \<and> task_scope u = task_scope t
     \<and> tr_task_type u = tr_task_type t \<and> tr_request_payload u = tr_request_payload t"

definition task_kept :: "uuid \<Rightarrow> task_row \<Rightarrow> task_row \<Rightarrow> bool" where
  "task_kept i t u \<longleftrightarrow> task_same t u \<and> (tr_id t \<noteq> i \<longrightarrow> u = t)"

definition pause_ids :: "pause_row list \<Rightarrow> uuid set" where
  "pause_ids ps = ip_id ` set ps"

definition pending_ids :: "pause_row list \<Rightarrow> uuid set" where
  "pending_ids ps = ip_id ` {q \<in> set ps. ip_status q = ''pending''}"

definition pauses_kept :: "pause_row list \<Rightarrow> pause_row list \<Rightarrow> bool" where
  "pauses_kept ps qs \<longleftrightarrow> pause_ids ps \<subseteq> pause_ids qs \<and> pending_ids qs \<inter> pause_ids ps \<subseteq> pending_ids ps"

definition affects :: "uuid \<Rightarrow> command_db \<Rightarrow> command_db \<Rightarrow> bool" where
  "affects i db db' \<longleftrightarrow> list_all2 (task_kept i) (cd_tasks db) (cd_tasks db')
     \<and> list_all2 (command_kept i) (cd_commands db) (cd_commands db') \<and> pauses_kept (cd_pauses db) (cd_pauses db')
     \<and> map th_id (cd_threads db') = map th_id (cd_threads db)"

lemma command_same_refl [simp]: "command_same c c" by (simp add: command_same_def)
lemma task_same_refl [simp]: "task_same t t" by (simp add: task_same_def)
lemma task_same_sym: "task_same t u \<Longrightarrow> task_same u t" by (simp add: task_same_def)
lemma task_same_trans: "task_same t u \<Longrightarrow> task_same u v \<Longrightarrow> task_same t v" by (simp add: task_same_def)
lemma command_kept_refl [simp]: "command_kept i c c" by (simp add: command_kept_def)
lemma task_kept_refl [simp]: "task_kept i t t" by (simp add: task_kept_def)

lemma command_kept_trans: "command_kept i c d \<Longrightarrow> command_kept i d e \<Longrightarrow> command_kept i c e"
  by (auto simp: command_kept_def command_same_def)

lemma task_kept_trans: "task_kept i t u \<Longrightarrow> task_kept i u v \<Longrightarrow> task_kept i t v"
  by (auto simp: task_kept_def task_same_def)

lemma pauses_kept_refl [simp]: "pauses_kept ps ps" by (auto simp: pauses_kept_def)

lemma pauses_kept_trans: "pauses_kept ps qs \<Longrightarrow> pauses_kept qs rs \<Longrightarrow> pauses_kept ps rs"
  unfolding pauses_kept_def by blast

lemma affects_refl [simp]: "affects i db db"
  by (simp add: affects_def list_all2_refl)

lemma tasks_kept_trans: "list_all2 (task_kept i) ts us \<Longrightarrow> list_all2 (task_kept i) us vs \<Longrightarrow> list_all2 (task_kept i) ts vs"
  by (rule list_all2_trans [OF task_kept_trans])

lemma commands_kept_trans:
  "list_all2 (command_kept i) cs ds \<Longrightarrow> list_all2 (command_kept i) ds es \<Longrightarrow> list_all2 (command_kept i) cs es"
  by (rule list_all2_trans [OF command_kept_trans])

lemma affects_trans: "affects i db db1 \<Longrightarrow> affects i db1 db2 \<Longrightarrow> affects i db db2"
  by (auto simp only: affects_def intro: tasks_kept_trans commands_kept_trans pauses_kept_trans)

section \<open>The writes\<close>

named_theorems affects_intros \<open>bounds of single writes\<close>

lemma kept_update: "list_all2 P xs (update_where Q f xs) \<longleftrightarrow> (\<forall>x \<in> set xs. P x (if Q x then f x else x))"
  by (simp add: update_where_def list_all2_map2 list_all2_same)

text \<open>A write that leaves tasks, commands, pauses and threads alone.\<close>

lemma affects_elsewhere:
  "cd_tasks db' = cd_tasks db \<Longrightarrow> cd_commands db' = cd_commands db \<Longrightarrow> cd_pauses db' = cd_pauses db
     \<Longrightarrow> map th_id (cd_threads db') = map th_id (cd_threads db) \<Longrightarrow> affects i db db'"
  by (simp add: affects_def list_all2_refl)

lemma affects_set_run [affects_intros]: "affects i db (set_run j f db)"
  by (rule affects_elsewhere) (simp_all add: set_run_def)

lemma affects_set_thread [affects_intros]: "(\<And>h. th_id (f h) = th_id h) \<Longrightarrow> affects i db (set_thread j f db)"
  by (rule affects_elsewhere) (simp_all add: set_thread_def update_where_def)

lemma affects_set_command [affects_intros]:
  "(\<And>c. c \<in> set (cd_commands db) \<Longrightarrow> tc_id c = j \<Longrightarrow> command_kept i c (f c)) \<Longrightarrow> affects i db (set_command j f db)"
  by (simp add: affects_def set_command_def kept_update list_all2_refl)

lemma affects_set_task [affects_intros]:
  "(\<And>t. t \<in> set (cd_tasks db) \<Longrightarrow> tr_id t = i \<Longrightarrow> task_same t (f t)) \<Longrightarrow> affects i db (set_task i f db)"
  by (simp add: affects_def set_task_def kept_update list_all2_refl task_kept_def)

lemma pauses_kept_update:
  assumes "\<And>q. ip_id (f q) = ip_id q" and "\<And>q. ip_status (f q) = ''pending'' \<Longrightarrow> ip_status q = ''pending''"
  shows "pauses_kept ps (update_where P f ps)"
proof -
  have "pause_ids (update_where P f ps) = pause_ids ps"
    unfolding pause_ids_def by (rule image_key_update_where) (simp add: assms(1))
  moreover have "pending_ids (update_where P f ps) \<subseteq> pending_ids ps"
    by (auto simp: pending_ids_def update_where_def assms(1) dest: assms(2) split: if_splits)
  ultimately show ?thesis by (auto simp: pauses_kept_def)
qed

lemma affects_set_pause [affects_intros]:
  "(\<And>q. ip_id (f q) = ip_id q) \<Longrightarrow> (\<And>q. ip_status (f q) = ''pending'' \<Longrightarrow> ip_status q = ''pending'')
     \<Longrightarrow> affects i db (set_pause j f db)"
  by (simp add: affects_def set_pause_def pauses_kept_update list_all2_refl)

lemma affects_insert_pause: "insert_pause q db = Inr db' \<Longrightarrow> affects i db db'"
proof -
  assume ins: "insert_pause q db = Inr db'"
  then have db': "db' = db\<lparr>cd_pauses := cd_pauses db @ [q]\<rparr>" and "ip_id q \<notin> pause_ids (cd_pauses db)"
    by (auto simp: insert_pause_def pause_clash_def pause_ids_def)
  then have "pauses_kept (cd_pauses db) (cd_pauses db')"
    by (auto simp: pauses_kept_def pause_ids_def pending_ids_def)
  then show ?thesis by (simp add: affects_def db' list_all2_refl)
qed

lemma affects_insert_run: "insert_run r db = Inr db' \<Longrightarrow> affects i db db'"
  by (auto simp: insert_run_def intro!: affects_elsewhere)

lemma affects_insert_member: "insert_member m db = Inr db' \<Longrightarrow> affects i db db'"
  by (auto simp: insert_member_def intro!: affects_elsewhere)

lemma affects_set_members: "set_members P f db = Inr db' \<Longrightarrow> affects i db db'"
  by (auto simp: set_members_def intro!: affects_elsewhere)

lemma affects_record_receipts: "record_receipts p fresh now t r db = Inr db' \<Longrightarrow> affects i db db'"
  by (auto simp: record_receipts_def rbind_Inr_iff intro!: affects_elsewhere)

lemma append_event_specs_threads:
  "append_event_specs p ids task run specs source sid cp c db = Inr (n, e) \<Longrightarrow> map th_id (ev_threads e) = map th_id (ev_threads db)"
  by (auto simp: append_event_specs_def rbind_Inr_iff update_where_def split: if_splits option.splits)

lemma affects_store_events: "map th_id (ev_threads e) = map th_id (cd_threads db) \<Longrightarrow> affects i db (store_events e db)"
  by (rule affects_elsewhere) (simp_all add: store_events_def)

lemma affects_record_events: "record_events p fresh now t r out note db = Inr db' \<Longrightarrow> affects i db db'"
  by (auto simp: record_events_def rbind_Inr_iff lifted_def append_domain_events_def event_view_def
      split: sum.splits dest!: append_event_specs_threads intro!: affects_store_events)

lemma closed_command_kept: "\<not> open_command s \<Longrightarrow> tc_task_id c = i \<Longrightarrow> command_kept i c (closed_command s c)"
  by (auto simp: command_kept_def command_same_def closed_command_def open_command_def)

lemma affects_close_command:
  "\<not> open_command s \<Longrightarrow> (\<And>c. c \<in> set (cd_commands db) \<Longrightarrow> tc_id c = j \<Longrightarrow> tc_task_id c = i)
     \<Longrightarrow> affects i db (close_command j s db)"
  unfolding close_command_def by (rule affects_set_command) (simp add: closed_command_kept)


section \<open>Ending a run\<close>

definition known :: "task_row \<Rightarrow> command_db \<Rightarrow> bool" where
  \<comment> \<open>\<open>t\<close> is a version of the task with its identifier\<close>
  "known t db \<longleftrightarrow> (\<forall>u \<in> set (cd_tasks db). tr_id u = tr_id t \<longrightarrow> task_same u t)"

definition owned :: "uuid \<Rightarrow> uuid \<Rightarrow> command_db \<Rightarrow> bool" where
  \<comment> \<open>a command \<open>k\<close> is of task \<open>i\<close>\<close>
  "owned k i db \<longleftrightarrow> (\<forall>c \<in> set (cd_commands db). tc_id c = k \<longrightarrow> tc_task_id c = i)"

lemma list_all2_back: "list_all2 P xs ys \<Longrightarrow> y \<in> set ys \<Longrightarrow> \<exists>x \<in> set xs. P x y"
  by (induction xs ys rule: list_all2_induct) auto

lemma list_all2_forth: "list_all2 P xs ys \<Longrightarrow> x \<in> set xs \<Longrightarrow> \<exists>y \<in> set ys. P x y"
  by (induction xs ys rule: list_all2_induct) auto

lemma affects_commands_back:
  "affects i db db' \<Longrightarrow> d \<in> set (cd_commands db') \<Longrightarrow> \<exists>c \<in> set (cd_commands db). command_kept i c d"
  unfolding affects_def by (blast dest: list_all2_back)

lemma affects_tasks_back:
  "affects i db db' \<Longrightarrow> u \<in> set (cd_tasks db') \<Longrightarrow> \<exists>t \<in> set (cd_tasks db). task_kept i t u"
  unfolding affects_def by (blast dest: list_all2_back)

lemma known_kept:
  assumes "affects i db db'" and "known t db"
  shows "known t db'"
  unfolding known_def
proof (intro ballI impI)
  fix u assume u: "u \<in> set (cd_tasks db')" and id: "tr_id u = tr_id t"
  from affects_tasks_back [OF assms(1) u] obtain v where "v \<in> set (cd_tasks db)" and v: "task_same v u"
    unfolding task_kept_def by blast
  moreover from v id have "tr_id v = tr_id t" by (simp add: task_same_def)
  ultimately have "task_same v t" using assms(2) unfolding known_def by blast
  with v show "task_same u t" by (rule task_same_trans [OF task_same_sym])
qed

lemma known_same: "known t db \<Longrightarrow> task_same t u \<Longrightarrow> known u db"
  by (auto simp: known_def task_same_def)

lemma owned_kept:
  assumes "affects i db db'" and "owned k j db"
  shows "owned k j db'"
  unfolding owned_def
proof (intro ballI impI)
  fix d assume d: "d \<in> set (cd_commands db')" and id: "tc_id d = k"
  from affects_commands_back [OF assms(1) d] obtain c where "c \<in> set (cd_commands db)" and c: "command_same c d"
    unfolding command_kept_def by blast
  moreover from c id have "tc_id c = k" by (simp add: command_same_def)
  ultimately have "tc_task_id c = j" using assms(2) unfolding owned_def by blast
  with c show "tc_task_id d = j" by (simp add: command_same_def)
qed

lemma affects_put_task: "known t db \<Longrightarrow> affects (tr_id t) db (set_task (tr_id t) (\<lambda>_. t) db)"
  by (rule affects_set_task) (simp add: known_def)

lemma affects_closing: "owned k i db \<Longrightarrow> \<not> open_command s \<Longrightarrow> affects i db (close_command k s db)"
  by (rule affects_close_command) (auto simp: owned_def)

lemma ended_task_same [simp]: "task_same t (ended_task now s t)"
  by (simp add: ended_task_def task_same_def task_scope_def)

lemma ended_task_id [simp]: "tr_id (ended_task now s t) = tr_id t"
  by (simp add: ended_task_def)

lemma persist_terminal_run_affects:
  assumes "persist_terminal_run p fresh now t r terminal fence terminalize msg db = Inr db'" and "known t db"
  shows "affects (tr_id t) db db'"
proof -
  define t1 where "t1 = (if terminalize then ended_task now (tg_terminal_status terminal) t else t)"
  define r1 where "r1 = ended_run p now fence terminal r"
  have t1: "task_same t t1" "tr_id t1 = tr_id t" by (simp_all add: t1_def)
  from assms(1) obtain db1 where 1: "record_receipts p fresh now t r1 (set_run (rn_id r) (\<lambda>_. r1) db) = Inr db1"
    and 2: "record_events p fresh now t1 (run_failure terminal msg r1) (terminal_json p terminal) None
      (set_task (tr_id t) (\<lambda>_. t1) (set_run (rn_id r) (\<lambda>_. run_failure terminal msg r1) db1)) = Inr db'"
    by (auto simp: persist_terminal_run_def Let_def t1_def r1_def rbind_Inr_iff)
  have a: "affects (tr_id t) db (set_run (rn_id r) (\<lambda>_. run_failure terminal msg r1) db1)"
    by (rule affects_trans [OF affects_trans [OF affects_set_run affects_record_receipts [OF 1]] affects_set_run])
  from known_same [OF known_kept [OF a assms(2)] t1(1)] affects_put_task t1(2)
  have "affects (tr_id t) (set_run (rn_id r) (\<lambda>_. run_failure terminal msg r1) db1)
     (set_task (tr_id t) (\<lambda>_. t1) (set_run (rn_id r) (\<lambda>_. run_failure terminal msg r1) db1))" by metis
  from affects_trans [OF affects_trans [OF a this] affects_record_events [OF 2]] show ?thesis .
qed

section \<open>Transactions under a lease\<close>

definition keyed :: "command_db \<Rightarrow> bool" where
  "keyed db \<longleftrightarrow> distinct (map tr_id (cd_tasks db)) \<and> distinct (map tc_id (cd_commands db))"

definition issued :: "command_lease \<Rightarrow> command_db \<Rightarrow> bool" where
  "issued l db \<longleftrightarrow> owned (cl_command_id l) (cl_task_id l) db"

lemma task_atD: "task_at i db = Some t \<Longrightarrow> t \<in> set (cd_tasks db) \<and> tr_id t = i"
  by (auto simp: task_at_def find_Some_iff)

lemma known_task_at: "keyed db \<Longrightarrow> task_at i db = Some t \<Longrightarrow> known t db"
  by (auto simp: keyed_def known_def distinct_map dest!: task_atD dest: inj_onD)

lemma locked_commandD:
  assumes "locked_command allow now l db = Some c"
  shows "c \<in> set (cd_commands db)" "tc_id c = cl_command_id l" "tc_status c = ''dispatching''"
    "tc_attempt c = cl_fence_token l" "tc_lease_owner c = Some (cl_worker_id l)"
  using assms by (auto simp: locked_command_def lease_held_def find_Some_iff split: if_splits)

lemma affects_own_command:
  assumes "keyed db" and "c \<in> set (cd_commands db)" and "tc_id c = k" and "command_kept i c (f c)"
  shows "affects i db (set_command k f db)"
proof (rule affects_set_command)
  fix d assume "d \<in> set (cd_commands db)" "tc_id d = k"
  with assms(1-3) have "d = c" by (auto simp: keyed_def distinct_map dest: inj_onD)
  with assms(4) show "command_kept i d (f d)" by simp
qed

lemma affects_lease_fields:
  assumes "owned k i db" and "\<And>c. command_same c (f c)" and "\<And>c. tc_attempt (f c) = tc_attempt c"
    and "\<And>c. tc_status (f c) = tc_status c"
  shows "affects i db (set_command k f db)"
  by (rule affects_set_command) (use assms in \<open>auto simp: command_kept_def owned_def\<close>)

lemma keyed_kept:
  assumes "affects i db db'" and "keyed db"
  shows "keyed db'"
proof -
  have "map tr_id ts = map tr_id us" if "list_all2 (task_kept i) ts us" for ts us
    using that by (induction rule: list_all2_induct) (auto simp: task_kept_def task_same_def)
  moreover have "map tc_id cs = map tc_id ds" if "list_all2 (command_kept i) cs ds" for cs ds
    using that by (induction rule: list_all2_induct) (auto simp: command_kept_def command_same_def)
  ultimately show ?thesis using assms unfolding affects_def keyed_def by metis
qed

lemma issued_kept: "affects i db db' \<Longrightarrow> issued l db \<Longrightarrow> issued l db'"
  unfolding issued_def by (rule owned_kept)

lemma issued_locked: "issued l db \<Longrightarrow> locked_command allow now l db = Some c \<Longrightarrow> tc_task_id c = cl_task_id l"
  using locked_commandD(1,2) by (auto simp: issued_def owned_def)

lemmas lease_simps = postponed_def requeued_def closed_command_def command_kept_def command_same_def open_command_def

lemma store_handle_affects:
  assumes "store_handle hn r h l db = Inr db'" and own: "owned (cl_command_id l) i db"
  shows "affects i db db'"
proof -
  define db1 where "db1 = set_run (rn_id r) (\<lambda>_. r) (set_thread (th_id h) (\<lambda>g. g\<lparr>th_official_thread_id := Some (rh_thread_id hn)\<rparr>) db)"
  have a: "affects i db db1"
    unfolding db1_def by (rule affects_trans [OF affects_set_thread affects_set_run]) simp
  have "affects i db1 (set_command (cl_command_id l) (\<lambda>c. c\<lparr>tc_official_run_id := Some (rh_run_id hn)\<rparr>) db1)"
    by (rule affects_lease_fields [OF owned_kept [OF a own]]) (simp_all add: command_same_def)
  moreover from assms(1) have "db' = set_command (cl_command_id l) (\<lambda>c. c\<lparr>tc_official_run_id := Some (rh_run_id hn)\<rparr>) db1"
    by (simp add: store_handle_def db1_def)
  ultimately show ?thesis using affects_trans [OF a] by simp
qed

lemma close_affects: "owned (tc_id c) i db \<Longrightarrow> affects i db (close_command (tc_id c) ''cancelled'' db)"
  "owned (tc_id c) i db \<Longrightarrow> affects i db (close_command (tc_id c) ''failed'' db)"
  "owned (tc_id c) i db \<Longrightarrow> affects i db (close_command (tc_id c) ''dispatched'' db)"
  by (simp_all add: affects_closing open_command_def)

lemma register_remote_affects:
  assumes "register_remote w now l hn db = Inr (x, db')" and "issued l db"
  shows "affects (cl_task_id l) db db'"
proof (cases "db' = db")
  case False
  with assms(1) obtain c r h db1 where c: "locked_command False now l db = Some c"
    and store: "store_handle hn ((registered_run hn now r)\<lparr>rn_failure_code := None, rn_failure_message := None\<rparr>) h l db = Inr db1"
    and db': "db' = close_command (tc_id c) ''cancelled'' db1
       \<or> db' = set_command (tc_id c) (\<lambda>c. c\<lparr>tc_lease_expires_at := Some (now + cw_lease_seconds w * SECOND)\<rparr>) db1"
    by (auto simp: register_remote_def rbind_Inr_iff split: option.splits if_splits)
  have a: "affects (cl_task_id l) db db1" using store_handle_affects [OF store] assms(2) by (simp add: issued_def)
  have o: "owned (tc_id c) (cl_task_id l) db1"
    using owned_kept [OF a] assms(2) locked_commandD(2) [OF c] by (simp add: issued_def)
  from db' show ?thesis
    by (elim disjE) (auto intro!: affects_trans [OF a] close_affects affects_lease_fields simp: o command_same_def)
qed simp

lemma register_cancel_target_affects:
  "register_cancel_target now l hn db = Inr (x, db') \<Longrightarrow> issued l db \<Longrightarrow> affects (cl_task_id l) db db'"
  by (auto simp: register_cancel_target_def rbind_Inr_iff issued_def split: option.splits dest: store_handle_affects)

lemma affects_touch_command:
  assumes "keyed db" and "issued l db" and "locked_command allow now l db = Some c" and "command_kept (tc_task_id c) c (f c)"
  shows "affects (cl_task_id l) db (set_command (tc_id c) f db)"
  using affects_own_command [of db c "tc_id c" "cl_task_id l" f] assms locked_commandD(1) [OF assms(3)]
    issued_locked [OF assms(2,3)] by simp

lemma renew_lease_affects:
  "renew_lease w now l db = (x, db') \<Longrightarrow> keyed db \<Longrightarrow> issued l db \<Longrightarrow> affects (cl_task_id l) db db'"
  by (auto simp: renew_lease_def lease_simps split: option.splits
      intro!: affects_trans [OF affects_touch_command affects_set_run])

lemma postponed_kept: "locked_command allow now l db = Some c \<Longrightarrow> command_kept (tc_task_id c) c (postponed w now c)"
  by (simp add: lease_simps)

lemma postponed_affects:
  assumes "keyed db" and "issued l db" and "locked_command allow now l db = Some c"
  shows "affects (cl_task_id l) (set_run j f db) (set_command (tc_id c) (postponed w now) (set_run j f db))"
  by (rule affects_own_command [of _ c])
    (use assms postponed_kept [OF assms(3)] issued_locked [OF assms(2,3)] locked_commandD(1) [OF assms(3)]
      in \<open>simp_all add: keyed_def set_run_def\<close>)

lemma schedule_reconciliation_affects:
  "schedule_reconciliation w now l db = (x, db') \<Longrightarrow> keyed db \<Longrightarrow> issued l db \<Longrightarrow> affects (cl_task_id l) db db'"
  by (auto simp: schedule_reconciliation_def split: option.splits if_splits
      intro!: affects_trans [OF affects_set_run postponed_affects])

lemma schedule_orphan_cancel_affects:
  "schedule_orphan_cancel w now l db = (x, db') \<Longrightarrow> keyed db \<Longrightarrow> issued l db \<Longrightarrow> affects (cl_task_id l) db db'"
  by (auto simp: schedule_orphan_cancel_def split: option.splits if_splits
      intro!: affects_trans [OF affects_set_run postponed_affects])

lemma postpone_cancel_affects:
  "postpone_cancel w now l db = (x, db') \<Longrightarrow> keyed db \<Longrightarrow> issued l db \<Longrightarrow> affects (cl_task_id l) db db'"
  by (auto simp: postpone_cancel_def lease_simps split: option.splits
      intro!: affects_touch_command)

lemma remember_remote_terminal_affects:
  "remember_remote_terminal now l status db = Inr (x, db') \<Longrightarrow> affects (cl_task_id l) db db'"
  by (auto simp: remember_remote_terminal_def split: option.splits if_splits intro: affects_set_run)

end
