(* ===== verification/Command_Bounds.thy ===== *)
theory Command_Bounds
  imports Command_Steps
begin

text \<open>
  The bounds of the remaining transactions under a lease: closing pauses, cancelling, errors of the
  Agent Server, the projection of a finished run, and review pauses.
\<close>

section \<open>Pauses and members\<close>

lemma end_pause_affects:
  assumes "set_members P f (set_pause j (\<lambda>q. q\<lparr>ip_status := s\<rparr>) db) = Inr db'" and "s \<noteq> ''pending''"
  shows "affects i db db'"
proof -
  have "affects i db (set_pause j (\<lambda>q. q\<lparr>ip_status := s\<rparr>) db)"
    by (rule affects_set_pause) (use assms(2) in simp_all)
  from affects_trans [OF this affects_set_members [OF assms(1)]] show ?thesis .
qed

lemma close_pause_affects: "close_pause l status q db = Inr db' \<Longrightarrow> affects i db db'"
  by (auto simp: close_pause_def Let_def dest: end_pause_affects split: if_splits)

lemma close_pauses_affects: "close_pauses l status qs db = Inr db' \<Longrightarrow> affects i db db'"
  by (induction qs arbitrary: db) (auto simp: rbind_Inr_iff intro: affects_trans close_pause_affects)

lemma close_lineage_affects: "close_active_interrupt_lineage l status db = Inr db' \<Longrightarrow> affects i db db'"
  by (auto simp: close_active_interrupt_lineage_def split: option.splits dest: close_pauses_affects)

lemma resolve_affects: "resolve_responding_interrupt now l db = Inr db' \<Longrightarrow> affects i db db'"
  by (auto simp: resolve_responding_interrupt_def Let_def dest: end_pause_affects split: option.splits if_splits)

lemma settle_affects: "settle_interrupts now l db = Inr db' \<Longrightarrow> affects i db db'"
  by (auto simp: settle_interrupts_def split: if_splits dest: close_lineage_affects resolve_affects)

section \<open>Closing the command beside the run\<close>

lemma put_task_affects: "known u db \<Longrightarrow> tr_id u = i \<Longrightarrow> affects i db (set_task i (\<lambda>_. u) db)"
  using affects_put_task by blast

lemma fail_command_run_affects:
  assumes "fail_command_run p fresh now l c t r terminal msg db = Inr db'" and "known t db" and "owned (tc_id c) (tr_id t) db"
  shows "affects (tr_id t) db db'"
proof -
  from assms(1) obtain db1 where
    1: "persist_terminal_run p fresh now t r terminal (cl_command_sequence l) True (Some msg) db = Inr db1"
    and db': "db' = close_command (tc_id c) ''failed'' db1"
    by (auto simp: fail_command_run_def rbind_Inr_iff)
  note a = persist_terminal_run_affects [OF 1 assms(2)]
  from affects_trans [OF a close_affects(2) [OF owned_kept [OF a assms(3)]]] show ?thesis by (simp add: db')
qed

lemma task_close_affects:
  assumes "known t db" and "owned k (tr_id t) db" and "task_same t u" and "\<not> open_command s"
  shows "affects (tr_id t) db (close_command k s (set_task (tr_id t) (\<lambda>_. u) db))"
proof -
  have "tr_id u = tr_id t" using assms(3) by (simp add: task_same_def)
  with put_task_affects [OF known_same [OF assms(1,3)]] have a: "affects (tr_id t) db (set_task (tr_id t) (\<lambda>_. u) db)" by simp
  from affects_trans [OF a affects_closing [OF owned_kept [OF a assms(2)] assms(4)]] show ?thesis .
qed

lemma end_command_affects:
  assumes a: "affects (tr_id t) db db1" and kn: "known t db" and o: "owned k (tr_id t) db" and t1: "task_same t t1"
    and s: "\<not> open_command s"
    and rest: "case run of None \<Rightarrow> db' = close_command k s (set_task (tr_id t) (\<lambda>_. t1) db1)
      | Some r \<Rightarrow> \<exists>terminal fence b m. persist_terminal_run p fresh now t1 r terminal fence b m
          (close_command k s (set_task (tr_id t) (\<lambda>_. t1) db1)) = Inr db'"
  shows "affects (tr_id t) db db'"
proof -
  have a2: "affects (tr_id t) db (close_command k s (set_task (tr_id t) (\<lambda>_. t1) db1))"
    by (rule affects_trans [OF a task_close_affects [OF known_kept [OF a kn] owned_kept [OF a o] t1 s]])
  show ?thesis
  proof (cases run)
    case None
    with rest a2 show ?thesis by simp
  next
    case (Some r)
    with rest obtain terminal fence b m where "persist_terminal_run p fresh now t1 r terminal fence b m
        (close_command k s (set_task (tr_id t) (\<lambda>_. t1) db1)) = Inr db'" by auto
    from persist_terminal_run_affects [OF this known_same [OF known_kept [OF a2 kn] t1]] t1
    have "affects (tr_id t) (close_command k s (set_task (tr_id t) (\<lambda>_. t1) db1)) db'" by (simp add: task_same_def)
    from affects_trans [OF a2 this] show ?thesis .
  qed
qed

text \<open>Every transaction that ends a command starts alike.\<close>

lemma locked_known:
  assumes "keyed db" and "issued l db" and "locked_command allow now l db = Some c" and "task_at (cl_task_id l) db = Some t"
  shows "tr_id t = cl_task_id l" and "known t db" and "owned (tc_id c) (tr_id t) db" and "owned (tc_id c) (cl_task_id l) db"
  using assms locked_commandD(2) [OF assms(3)] task_atD [OF assms(4)] known_task_at [OF assms(1,4)] by (auto simp: issued_def)

lemma finalize_cancel_affects:
  assumes "finalize_cancel p fresh now l db = Inr (x, db')" and k: "keyed db" and own: "issued l db"
  shows "affects (cl_task_id l) db db'"
proof (cases "locked_command True now l db")
  case None
  with assms(1) show ?thesis by (simp add: finalize_cancel_def)
next
  case c: (Some c)
  then obtain t where t: "task_at (cl_task_id l) db = Some t" by (auto simp: locked_command_def split: if_splits)
  note lk = locked_known [OF k own c t]
  show ?thesis
  proof (cases "ended_status (tr_status t) \<or> (case lease_run l db of None \<Rightarrow> False | Some r \<Rightarrow> cl_command_sequence l < rn_projection_fence r)")
    case True
    with assms(1) c t show ?thesis by (auto simp: finalize_cancel_def Let_def intro: close_affects(1) [OF lk(4)])
  next
    case False
    define t1 where "t1 = (if cl_command_type l = ''cancel_task'' then ended_task now ''cancelled'' t else t)"
    from False assms(1) c t obtain db1 where 1: "close_active_interrupt_lineage l ''cancelled'' db = Inr db1"
      and rest: "case lease_run l db of None \<Rightarrow> db' = close_command (tc_id c) ''dispatched'' (set_task (tr_id t) (\<lambda>_. t1) db1)
        | Some r \<Rightarrow> \<exists>terminal fence b m. persist_terminal_run p fresh now t1 r terminal fence b m
            (close_command (tc_id c) ''dispatched'' (set_task (tr_id t) (\<lambda>_. t1) db1)) = Inr db'"
      by (auto simp: finalize_cancel_def Let_def rbind_Inr_iff t1_def split: option.splits)
    have "affects (tr_id t) db db'"
      by (rule end_command_affects [OF close_lineage_affects [OF 1] lk(2,3) _ _ rest])
        (simp_all add: t1_def open_command_def)
    with lk(1) show ?thesis by simp
  qed
qed

lemma finalize_cancel_failure_affects:
  assumes "finalize_cancel_failure p fresh now l exc code msg db = Inr (x, db')" and k: "keyed db" and own: "issued l db"
  shows "affects (cl_task_id l) db db'"
proof (cases "locked_command True now l db")
  case None
  with assms(1) show ?thesis by (simp add: finalize_cancel_failure_def)
next
  case c: (Some c)
  then obtain t where t: "task_at (cl_task_id l) db = Some t" by (auto simp: locked_command_def split: if_splits)
  note lk = locked_known [OF k own c t]
  show ?thesis
  proof (cases "ended_status (tr_status t)")
    case True
    with assms(1) c t show ?thesis by (auto simp: finalize_cancel_failure_def Let_def intro: close_affects(1) [OF lk(4)])
  next
    case False
    with assms(1) c t obtain db1 t1 where 1: "close_active_interrupt_lineage l ''cancelled'' db = Inr db1"
      and t1: "task_same t t1"
      and rest: "case lease_run l db of None \<Rightarrow> db' = close_command (tc_id c) ''failed'' (set_task (tr_id t) (\<lambda>_. t1) db1)
        | Some r \<Rightarrow> \<exists>terminal fence b m. persist_terminal_run p fresh now t1 r terminal fence b m
            (close_command (tc_id c) ''failed'' (set_task (tr_id t) (\<lambda>_. t1) db1)) = Inr db'"
      by (cases "lease_run l db") (force simp: finalize_cancel_failure_def Let_def rbind_Inr_iff split: if_splits)+
    have "affects (tr_id t) db db'"
      by (rule end_command_affects [OF close_lineage_affects [OF 1] lk(2,3) t1 _ rest]) (simp add: open_command_def)
    with lk(1) show ?thesis by simp
  qed
qed

section \<open>Errors of the Agent Server\<close>

lemma requeue_run_affects:
  assumes "keyed db" and "issued l db" and "locked_command allow now l db = Some c" and "task_at (cl_task_id l) db = Some t"
  shows "affects (cl_task_id l) db (requeue_run w now' c t s r code msg db)"
proof -
  define db1 where "db1 = set_run (rn_id r) (\<lambda>r. r\<lparr>rn_status := ''queued'', rn_failure_code := Some code, rn_failure_message := Some msg\<rparr>)
      (set_task (tr_id t) (\<lambda>t. t\<lparr>tr_status := s\<rparr>) db)"
  note lk = locked_known [OF assms]
  have "affects (tr_id t) db db1"
    unfolding db1_def by (rule affects_trans [OF affects_set_task affects_set_run]) (simp add: task_same_def task_scope_def)
  moreover from this have "affects (tr_id t) db1 (set_command (tc_id c) (requeued w now') db1)"
    using assms lk(1) locked_commandD [OF assms(3)] issued_locked [OF assms(2,3)] keyed_kept
    by (intro affects_own_command [of _ c]) (auto simp: lease_simps db1_def set_run_def set_task_def)
  ultimately show ?thesis using lk(1) by (auto simp: requeue_run_def db1_def intro: affects_trans)
qed

lemma record_other_error_affects:
  assumes "record_other_error p w fresh now l exc c r db = Inr db'" and k: "keyed db" and own: "issued l db"
    and c: "locked_command True now l db = Some c"
  shows "affects (cl_task_id l) db db'"
proof (cases "tc_attempt c < cw_max_attempts w")
  case True
  define db1 where "db1 = (if cl_command_type l \<in> {''submit'', ''retry''}
     then set_run (rn_id r) (\<lambda>r. r\<lparr>rn_status := ''queued'', rn_failure_code := Some ''agent_server_unavailable'',
            rn_failure_message := Some ''Agent Server rejected the request before an official Run was known to exist; submit may be retried.''\<rparr>)
          (set_task (cl_task_id l) (\<lambda>t. t\<lparr>tr_status := ''queued'', tr_completed_at := None\<rparr>) db)
     else db)"
  have a: "affects (cl_task_id l) db db1"
    by (auto simp: db1_def task_same_def task_scope_def intro!: affects_trans [OF affects_set_task affects_set_run])
  moreover have "affects (cl_task_id l) db1 (set_command (tc_id c) (\<lambda>c. c\<lparr>tc_lease_expires_at := Some now\<rparr>) db1)"
    using owned_kept [OF a] own locked_commandD(2) [OF c]
    by (intro affects_lease_fields) (auto simp: command_same_def issued_def)
  moreover from assms(1) True have "db' = set_command (tc_id c) (\<lambda>c. c\<lparr>tc_lease_expires_at := Some now\<rparr>) db1"
    by (simp add: record_other_error_def db1_def Let_def)
  ultimately show ?thesis by (auto intro: affects_trans)
next
  case False
  from c obtain t where t: "task_at (cl_task_id l) db = Some t" by (auto simp: locked_command_def split: if_splits)
  note lk = locked_known [OF k own c t]
  from False assms(1) t have "fail_command_run p fresh now l c t r (failed_attempt ''agent_server_unavailable'' (error_name_of exc)
      True (tc_attempt c)) ''Agent Server unavailable'' db = Inr db'" by (simp add: record_other_error_def)
  from fail_command_run_affects [OF this lk(2,3)] lk(1) show ?thesis by simp
qed

lemma record_remote_error_affects:
  assumes e: "record_remote_error p w fresh now l exc db = Inr db'" and k: "keyed db" and own: "issued l db"
  shows "affects (cl_task_id l) db db'"
proof (cases "locked_command True now l db")
  case None
  with e show ?thesis by (simp add: record_remote_error_def)
next
  case c: (Some c)
  then obtain t where t: "task_at (cl_task_id l) db = Some t" by (auto simp: locked_command_def split: if_splits)
  note lk = locked_known [OF k own c t]
  note requeue = requeue_run_affects [OF k own c t]
  note fail = fail_command_run_affects [OF _ lk(2,3), unfolded lk(1)]
  show ?thesis
  proof (cases "lease_run l db")
    case None
    with e c show ?thesis by (simp add: record_remote_error_def)
  next
    case r: (Some r)
    have submit: ?thesis if "record_submit_error p w fresh now l c r db = Inr db'"
      using that t by (auto simp: record_submit_error_def intro: requeue fail split: if_splits)
    have fork: ?thesis if "record_fork_error p w fresh now l exc c r db = Inr db'"
      using that t by (auto simp: record_fork_error_def intro: requeue fail split: if_splits)
    have resume_failed: ?thesis if "fail_command_run p fresh now l c t r terminal msg
        (set_pause j (\<lambda>q. q\<lparr>ip_status := ''resume_failed''\<rparr>) db) = Inr db'" for terminal msg j
    proof -
      have a: "affects (tr_id t) db (set_pause j (\<lambda>q. q\<lparr>ip_status := ''resume_failed''\<rparr>) db)"
        by (rule affects_set_pause) simp_all
      from affects_trans [OF a fail_command_run_affects [OF that known_kept [OF a lk(2)] owned_kept [OF a lk(3)]]] lk(1)
      show ?thesis by simp
    qed
    have respond: ?thesis if "record_respond_error p w fresh now l y exc c r db = Inr db'" for y
      using that t by (auto simp: record_respond_error_def Let_def intro: requeue resume_failed split: option.splits if_splits)
    from e c r show ?thesis
      by (auto simp: record_remote_error_def intro: submit fork respond record_other_error_affects [OF _ k own c]
          close_affects(1) [OF lk(4)] split: if_splits)
  qed
qed

section \<open>Progress and commits\<close>

lemma append_progressive_threads:
  "append_progressive_events p ids t r updates event_id checkpoint now db = Inr (n, e) \<Longrightarrow> map th_id (ev_threads e) = map th_id (ev_threads db)"
  by (auto simp: append_progressive_events_def rbind_Inr_iff dest: append_event_specs_threads)

lemma affects_renewed:
  "owned (tc_id c) i db \<Longrightarrow> affects i db (set_command (tc_id c) (\<lambda>c. c\<lparr>tc_lease_expires_at := e\<rparr>) db)"
  by (rule affects_lease_fields) (simp_all add: command_same_def)

lemma persist_progressive_update_affects:
  assumes e: "persist_progressive_update p w fresh now l hn event_id updates db = Inr (x, db')" and own: "issued l db"
  shows "affects (cl_task_id l) db db'"
proof (cases "db' = db")
  case False
  with e obtain c t r n ev where c: "locked_command False now l db = Some c"
    and ev: "append_progressive_events (cp_events p) (fi_event fresh) t r updates event_id (rn_checkpoint_id r) now (event_view db) = Inr (n, ev)"
    and db': "db' = set_command (tc_id c) (\<lambda>c. c\<lparr>tc_lease_expires_at := Some (now + cw_lease_seconds w * SECOND)\<rparr>)
         (set_run (rn_id r) (\<lambda>r. r\<lparr>rn_official_stream_last_event_id := Some event_id,
             rn_official_stream_last_event_at := Some now, rn_last_heartbeat_at := Some now\<rparr>) (store_events ev db))"
    by (auto simp: persist_progressive_update_def rbind_Inr_iff lifted_def split: option.splits if_splits sum.splits)
  have a: "affects (cl_task_id l) db (set_run (rn_id r) (\<lambda>r. r\<lparr>rn_official_stream_last_event_id := Some event_id,
             rn_official_stream_last_event_at := Some now, rn_last_heartbeat_at := Some now\<rparr>) (store_events ev db))"
    using append_progressive_threads [OF ev]
    by (intro affects_trans [OF affects_store_events affects_set_run]) (simp add: event_view_def)
  have o: "owned (tc_id c) (cl_task_id l) db" using own locked_commandD(2) [OF c] by (simp add: issued_def)
  show ?thesis unfolding db' by (rule affects_trans [OF a affects_renewed [OF owned_kept [OF a o]]])
qed simp

text \<open>What a finished run commits leaves the tables of the dispatcher alone.\<close>

definition beside :: "command_db \<Rightarrow> command_db \<Rightarrow> bool" where
  "beside db db' \<longleftrightarrow> cd_tasks db' = cd_tasks db \<and> cd_runs db' = cd_runs db \<and> cd_commands db' = cd_commands db
     \<and> cd_pauses db' = cd_pauses db \<and> cd_threads db' = cd_threads db \<and> cd_events db' = cd_events db"

lemma beside_refl [simp]: "beside db db" by (simp add: beside_def)
lemma beside_trans: "beside db db1 \<Longrightarrow> beside db1 db2 \<Longrightarrow> beside db db2" by (simp add: beside_def)
lemma beside_affects: "beside db db' \<Longrightarrow> affects i db db'" by (rule affects_elsewhere) (simp_all add: beside_def)

lemma evidence_beside [simp]: "beside db (persist_verified_web_evidence p fresh t r items db)"
  by (simp add: beside_def persist_verified_web_evidence_def)

lemma snapshot_beside [simp]: "beside db (persist_snapshot p fresh t r market db)"
  by (simp add: beside_def persist_snapshot_def split: option.split)

lemma task_artifact_beside: "task_artifact fresh t typ db = Inr (a, db') \<Longrightarrow> beside db db'"
  by (auto simp: task_artifact_def beside_def Let_def split: option.splits)

lemma commit_version_beside: "commit_version fresh ac a r content v db = Inr (row, db') \<Longrightarrow> beside db db'"
  by (auto simp: commit_version_def beside_def Let_def split: option.splits if_splits)

lemma commit_decision_beside:
  assumes "commit_version_and_decision fresh ac a r content dcn ev rk v db = Inr (x, db')"
  shows "beside db db'"
proof -
  from assms obtain row db1 ds where "commit_version fresh ac a r content v db = Inr (row, db1)" and "db' = db1\<lparr>cd_decisions := ds\<rparr>"
    by (auto simp: commit_version_and_decision_def rbind_Inr_iff Let_def)
  from commit_version_beside [OF this(1)] this(2) show ?thesis by (simp add: beside_def)
qed

lemma schedule_outcome_beside: "schedule_outcome p fresh now t r analysis v db = Inr db' \<Longrightarrow> beside db db'"
  by (auto simp: schedule_outcome_def beside_def Let_def rbind_Inr_iff split: if_splits)

lemma notify_completion_beside: "notify_completion p fresh now t analysis risk d db = Inr (x, db') \<Longrightarrow> beside db db'"
  by (auto simp: notify_completion_def beside_def Let_def rbind_Inr_iff split: if_splits)

lemma commit_artifact_beside: "commit_artifact p fresh now ac t r art db = Inr (x, db') \<Longrightarrow> beside db db'"
  by (auto simp: commit_artifact_def Let_def rbind_Inr_iff dest!: task_artifact_beside commit_decision_beside
      schedule_outcome_beside notify_completion_beside intro: beside_trans)

lemma commit_research_beside: "commit_research p fresh ac t r art db = Inr (x, db') \<Longrightarrow> beside db db'"
  by (auto simp: commit_research_def Let_def rbind_Inr_iff dest!: task_artifact_beside commit_version_beside intro: beside_trans)

lemma commit_outputs_beside: "commit_outputs p fresh now l t r terminal db = Inr (x, db') \<Longrightarrow> beside db db'"
  by (auto simp: commit_outputs_def dest: commit_artifact_beside commit_research_beside split: if_splits option.splits)

section \<open>The projection of a finished run\<close>

lemma replay_terminal_affects:
  assumes "replay_terminal p fresh now l c t r terminal db = Inr (x, db')" and kn: "known t db" and o: "owned (tc_id c) (tr_id t) db"
  shows "affects (tr_id t) db db'"
proof -
  from assms(1) obtain db1 where
    1: "persist_terminal_run p fresh now t r terminal (cl_command_sequence l) True (rn_failure_message r) db = Inr db1"
    and db': "db' = close_command (tc_id c) ''dispatched'' db1"
    by (auto simp: replay_terminal_def rbind_Inr_iff)
  note a = persist_terminal_run_affects [OF 1 kn]
  from affects_trans [OF a close_affects(3) [OF owned_kept [OF a o]]] show ?thesis by (simp add: db')
qed

lemma store_terminal_affects:
  assumes "store_terminal p fresh now l c t r terminal db = Inr (x, db')" and kn: "known t db" and o: "owned (tc_id c) (tr_id t) db"
  shows "affects (tr_id t) db db'"
proof -
  define r1 where "r1 = ended_run p now (cl_command_sequence l) terminal r"
  define t1 where "t1 = ended_task now (tg_terminal_status terminal) t"
  define dba where "dba = set_task (tr_id t) (\<lambda>_. t1) (set_run (rn_id r) (\<lambda>_. r1) db)"
  from assms(1) obtain db1 ntf db4 where
    1: "record_receipts p fresh now t1 r1 dba = Inr db1"
    and 2: "commit_outputs p fresh now l t1 (first_failure terminal r1) terminal
      (persist_verified_web_evidence p fresh t1 (first_failure terminal r1) (tg_web_evidence terminal)
        (persist_snapshot p fresh t1 (first_failure terminal r1) (tg_market_snapshot terminal)
          (close_command (tc_id c) ''dispatched'' (set_run (rn_id r) (\<lambda>_. first_failure terminal r1) db1)))) = Inr (ntf, db4)"
    and 3: "record_events p fresh now t1 (first_failure terminal r1) (terminal_json p terminal) ntf db4 = Inr db'"
    by (auto simp: store_terminal_def Let_def rbind_Inr_iff r1_def t1_def dba_def)
  have "affects (tr_id t) db (set_run (rn_id r) (\<lambda>_. r1) db)" by (rule affects_set_run)
  moreover from known_same [OF known_kept [OF this kn], of t1] put_task_affects
  have "affects (tr_id t) (set_run (rn_id r) (\<lambda>_. r1) db) dba" by (simp add: dba_def t1_def)
  ultimately have a: "affects (tr_id t) db dba" by (rule affects_trans)
  have b: "affects (tr_id t) db (set_run (rn_id r) (\<lambda>_. first_failure terminal r1) db1)"
    by (rule affects_trans [OF affects_trans [OF a affects_record_receipts [OF 1]] affects_set_run])
  note c = affects_trans [OF b close_affects(3) [OF owned_kept [OF b o]]]
  note d = affects_trans [OF c beside_affects [OF beside_trans [OF snapshot_beside evidence_beside]]]
  from affects_trans [OF affects_trans [OF d beside_affects [OF commit_outputs_beside [OF 2]]] affects_record_events [OF 3]]
  show ?thesis .
qed

lemma finalize_affects:
  assumes "finalize p l terminal fresh now db = Inr (x, db')" and k: "keyed db" and own: "issued l db"
  shows "affects (cl_task_id l) db db'"
proof (cases "db' = db")
  case False
  with assms(1) obtain c t r where c: "locked_command True now l db = Some c" and t: "task_at (cl_task_id l) db = Some t"
    and r: "lease_run l db = Some r"
    by (auto simp: finalize_def split: option.splits)
  note lk = locked_known [OF k own c t]
  show ?thesis
  proof (cases "accepts_projection t l")
    case False
    with assms(1) c t r show ?thesis by (auto simp: finalize_def intro: close_affects(1) [OF lk(4)])
  next
    case True
    with assms(1) c t r obtain db1 where 1: "settle_interrupts now l db = Inr db1"
      and rest: "db' = close_command (tc_id c) ''cancelled'' db1
        \<or> replay_terminal p fresh now l c t r terminal db1 = Inr (x, db')
        \<or> (\<exists>msg terminal. fail_command_run p fresh now l c t r terminal msg db1 = Inr db')
        \<or> store_terminal p fresh now l c t r terminal db1 = Inr (x, db')"
      by (auto simp: finalize_def rbind_Inr_iff reject_conflict_def split: if_splits)
    note a = settle_affects [OF 1, of "cl_task_id l"]
    note kn = known_kept [OF a lk(2)] and o = owned_kept [OF a lk(3)]
    from rest have "affects (cl_task_id l) db1 db'"
      by (elim disjE exE)
        (auto simp flip: lk(1) intro: close_affects(1) [OF o] replay_terminal_affects [OF _ kn o]
           fail_command_run_affects [OF _ kn o] store_terminal_affects [OF _ kn o])
    with a show ?thesis by (rule affects_trans)
  qed
qed simp

lemma record_projection_error_affects:
  assumes e: "record_projection_error p w l terminal exc fresh now db = Inr (x, db')" and k: "keyed db" and own: "issued l db"
  shows "affects (cl_task_id l) db db'"
proof (cases "db' = db")
  case False
  with e obtain c t r where c: "locked_command True now l db = Some c" and t: "task_at (cl_task_id l) db = Some t"
    and r: "lease_run l db = Some r"
    by (auto simp: record_projection_error_def split: option.splits)
  note lk = locked_known [OF k own c t]
  define r1 where "r1 = r\<lparr>rn_failure_code := Some ''terminal_projection_unavailable'',
                   rn_failure_message := Some projection_unavailable, rn_last_heartbeat_at := Some now\<rparr>"
  define dbq where "dbq = set_run (rn_id r) (\<lambda>_. r1\<lparr>rn_status := ''queued'', rn_finished_at := None\<rparr>)
                 (set_task (tr_id t) (\<lambda>t. t\<lparr>tr_status := ''queued'', tr_completed_at := None\<rparr>) db)"
  from e c t r False have cases: "replay_terminal p fresh now l c t r terminal db = Inr (x, db')
      \<or> db' = set_command (tc_id c) (requeued w now) dbq
      \<or> (\<exists>msg terminal. fail_command_run p fresh now l c t r1 terminal msg (set_run (rn_id r) (\<lambda>_. r1) db) = Inr db')"
    by (auto simp: record_projection_error_def rbind_Inr_iff Let_def r1_def dbq_def split: if_splits)
  have q: "affects (tr_id t) db dbq"
    unfolding dbq_def by (rule affects_trans [OF affects_set_task affects_set_run]) (simp add: task_same_def task_scope_def)
  have "affects (tr_id t) dbq (set_command (tc_id c) (requeued w now) dbq)"
    using locked_commandD [OF c] issued_locked [OF own c] lk(1) keyed_kept [OF q k]
    by (intro affects_own_command [of _ c]) (auto simp: lease_simps dbq_def set_run_def set_task_def)
  note requeued = affects_trans [OF q this]
  have a: "affects (tr_id t) db (set_run (rn_id r) (\<lambda>_. r1) db)" by (rule affects_set_run)
  from cases have "affects (tr_id t) db db'"
    by (elim disjE exE)
      (auto intro: replay_terminal_affects [OF _ lk(2,3)] requeued
         affects_trans [OF a fail_command_run_affects [OF _ known_kept [OF a lk(2)] owned_kept [OF a lk(3)]]])
  with lk(1) show ?thesis by simp
qed simp

section \<open>Review pauses\<close>

lemma pause_for_affects: "pause_for p w fresh now t r s db = Inr (q, db') \<Longrightarrow> affects i db db'"
  by (auto simp: pause_for_def Let_def rbind_Inr_iff split: option.splits dest: affects_insert_pause)

lemma project_member_affects: "project_member p w fresh now t r q k i db = Inr (e, db') \<Longrightarrow> affects j db db'"
  by (auto simp: project_member_def rbind_Inr_iff split: option.splits if_splits dest: affects_insert_member intro: affects_elsewhere)

lemma project_members_affects: "project_members p w fresh now t r q k is db = Inr (e, db') \<Longrightarrow> affects j db db'"
  by (induction "is" arbitrary: k db e) (auto simp: rbind_Inr_iff intro: affects_trans dest: project_member_affects)

lemma mark_waiting_human_affects:
  assumes e: "mark_waiting_human p w l s fresh now db = Inr (x, db')" and k: "keyed db" and own: "issued l db"
  shows "affects (cl_task_id l) db db'"
proof (cases "db' = db")
  case False
  with e obtain c t r db1 q db2 ev db3 where c: "locked_command True now l db = Some c" and t: "task_at (cl_task_id l) db = Some t"
    and 1: "resolve_responding_interrupt now l db = Inr db1" and 2: "pause_for p w fresh now t r s db1 = Inr (q, db2)"
    and 3: "project_members p w fresh now t r q 0 (iu_interrupts s) db2 = Inr (ev, db3)"
    and db': "db' = close_command (tc_id c) ''dispatched'' (set_run (rn_id r) (waiting_run now s)
                      (set_task (tr_id t) (\<lambda>t. t\<lparr>tr_status := ''waiting_human''\<rparr>)
                        (persist_verified_web_evidence p fresh t r ev db3)))"
    by (auto simp: mark_waiting_human_def rbind_Inr_iff split: option.splits if_splits)
  note lk = locked_known [OF k own c t]
  have "affects (tr_id t) db (set_run (rn_id r) (waiting_run now s)
                      (set_task (tr_id t) (\<lambda>t. t\<lparr>tr_status := ''waiting_human''\<rparr>)
                        (persist_verified_web_evidence p fresh t r ev db3)))"
    by (rule affects_trans [OF affects_trans [OF affects_trans [OF affects_trans [OF affects_trans
          [OF resolve_affects [OF 1] pause_for_affects [OF 2]] project_members_affects [OF 3]]
          beside_affects [OF evidence_beside]] affects_set_task] affects_set_run])
      (simp add: task_same_def task_scope_def)
  from affects_trans [OF this close_affects(3) [OF owned_kept [OF this lk(3)]]] lk(1) show ?thesis by (simp add: db')
qed simp

end
