(* ===== verification/Command_System.thy ===== *)
theory Command_System
  imports Command_Bounds
begin

text \<open>
  The dispatcher and the API as a transition system, and the abstract machine it refines: commands
  are written behind those of their task, one that nothing precedes is leased, and settled ones stay
  settled. The order of a thread's commands and the fencing of leases are proved of the abstract
  machine; the transactions inherit them.
\<close>

section \<open>The transactions\<close>

inductive lease_step :: "command_params \<Rightarrow> command_worker \<Rightarrow> command_lease \<Rightarrow> command_db \<Rightarrow> command_db \<Rightarrow> bool"
  for p :: command_params and w :: command_worker and l :: command_lease where
  registered: "register_remote w now l h db = Inr (x, db') \<Longrightarrow> lease_step p w l db db'"
| targeted: "register_cancel_target now l h db = Inr (x, db') \<Longrightarrow> lease_step p w l db db'"
| renewed: "renew_lease w now l db = (x, db') \<Longrightarrow> lease_step p w l db db'"
| rescheduled: "schedule_reconciliation w now l db = (x, db') \<Longrightarrow> lease_step p w l db db'"
| postponed: "postpone_cancel w now l db = (x, db') \<Longrightarrow> lease_step p w l db db'"
| orphaned: "schedule_orphan_cancel w now l db = (x, db') \<Longrightarrow> lease_step p w l db db'"
| remembered: "remember_remote_terminal now l status db = Inr (x, db') \<Longrightarrow> lease_step p w l db db'"
| progressed: "persist_progressive_update p w fresh now l h event_id updates db = Inr (x, db') \<Longrightarrow> lease_step p w l db db'"
| cancel_failed: "finalize_cancel_failure p fresh now l exc code msg db = Inr (x, db') \<Longrightarrow> lease_step p w l db db'"
| cancel_finished: "finalize_cancel p fresh now l db = Inr (x, db') \<Longrightarrow> lease_step p w l db db'"
| error_recorded: "record_remote_error p w fresh now l exc db = Inr db' \<Longrightarrow> lease_step p w l db db'"
| projected: "finalize p l terminal fresh now db = Inr (x, db') \<Longrightarrow> lease_step p w l db db'"
| unprojected: "record_projection_error p w l terminal failure fresh now db = Inr (x, db') \<Longrightarrow> lease_step p w l db db'"
| paused: "mark_waiting_human p w l s fresh now db = Inr (x, db') \<Longrightarrow> lease_step p w l db db'"

text \<open>A lease names a command that exists and its task.\<close>

definition granted :: "command_lease \<Rightarrow> command_db \<Rightarrow> bool" where
  "granted l db \<longleftrightarrow> (\<exists>c \<in> set (cd_commands db). tc_id c = cl_command_id l \<and> tc_task_id c = cl_task_id l)"

inductive dispatcher_step :: "command_params \<Rightarrow> command_db \<Rightarrow> command_db \<Rightarrow> bool"
  for p :: command_params where
  expire: "expire_due_interrupt p busy fresh now db = Inr (x, db') \<Longrightarrow> dispatcher_step p db db'"
| claim: "claim_next_command p w fresh busy now db = Inr (x, db') \<Longrightarrow> dispatcher_step p db db'"
| leased: "lease_step p w l db db' \<Longrightarrow> granted l db \<Longrightarrow> dispatcher_step p db db'"
| release: "dispatcher_step p db (release_worker_leases busy w now db)"

inductive service_step :: "service_params \<Rightarrow> command_db \<Rightarrow> command_db \<Rightarrow> bool"
  for sp :: service_params where
  admit: "admit_task sp fresh now ac payload key task_type title db = Inr (x, db') \<Longrightarrow> service_step sp db db'"
| cancel_task: "cancel_task sp fresh now ac text key db = Inr (x, db') \<Longrightarrow> service_step sp db db'"
| cancel_run: "cancel_run sp fresh now ac text key db = Inr (x, db') \<Longrightarrow> service_step sp db db'"
| retry: "retry_task sp fresh ac text key db = Inr (x, db') \<Longrightarrow> service_step sp db db'"
| fork: "fork_task sp fresh now ac text q key db = Inr (x, db') \<Longrightarrow> service_step sp db db'"
| respond: "respond_interrupts sp fresh now ac text rq key db = Inr (x, db') \<Longrightarrow> service_step sp db db'"

definition system_step :: "service_params \<Rightarrow> command_db \<Rightarrow> command_db \<Rightarrow> bool" where
  "system_step sp db db' \<longleftrightarrow> dispatcher_step (sv_command sp) db db' \<or> service_step sp db db'"

section \<open>The abstract machine\<close>

definition of_task :: "task_row \<Rightarrow> command_row \<Rightarrow> bool" where
  "of_task t c \<longleftrightarrow> tr_id t = tc_task_id c \<and> tr_thread_id t = tc_thread_id c
     \<and> task_scope t = (tc_tenant_id c, tc_workspace_id c, tc_actor_user_id c)"

inductive command_move :: "command_db \<Rightarrow> command_db \<Rightarrow> bool" where
  settle: "affects i db db' \<Longrightarrow> command_move db db'"
| release: "command_move db (release_worker_leases busy w now db)"
| lease: "c \<in> set (cd_commands db) \<Longrightarrow> open_command (tc_status c) \<Longrightarrow> \<not> prior_unfinished db c
    \<Longrightarrow> command_move db (set_command (tc_id c) (\<lambda>_. leased_command w now c) db)"
| enqueue: "insert_command c db = Inr db' \<Longrightarrow> tc_status c = ''pending'' \<Longrightarrow> tc_attempt c = 0
    \<Longrightarrow> \<forall>d \<in> set (cd_commands db). tc_task_id d = tc_task_id c \<longrightarrow> tc_sequence d < tc_sequence c
    \<Longrightarrow> \<exists>t \<in> set (cd_tasks db). of_task t c \<Longrightarrow> command_move db db'"
| admit: "add_thread h db = Inr db1 \<Longrightarrow> add_task t db1 = Inr db' \<Longrightarrow> tr_thread_id t = th_id h \<Longrightarrow> command_move db db'"

definition lined :: "command_db \<Rightarrow> bool" where
  "lined db \<longleftrightarrow> (\<forall>c \<in> set (cd_commands db). \<exists>t \<in> set (cd_tasks db). of_task t c)"

definition sound :: "command_db \<Rightarrow> bool" where
  "sound db \<longleftrightarrow> keyed db \<and> distinct (map tr_thread_id (cd_tasks db))
     \<and> tr_thread_id ` set (cd_tasks db) \<subseteq> th_id ` set (cd_threads db) \<and> lined db"

text \<open>A command in dispatch has no unfinished predecessor in its thread.\<close>

definition in_order :: "command_db \<Rightarrow> bool" where
  "in_order db \<longleftrightarrow> (\<forall>c \<in> set (cd_commands db). tc_status c = ''dispatching'' \<longrightarrow> \<not> prior_unfinished db c)"

section \<open>Every transaction is a sequence of moves\<close>

lemma keyed_command:
  "keyed db \<Longrightarrow> c \<in> set (cd_commands db) \<Longrightarrow> d \<in> set (cd_commands db) \<Longrightarrow> tc_id c = tc_id d \<Longrightarrow> c = d"
  by (auto simp: keyed_def distinct_map dest: inj_onD)

lemma granted_issued: "keyed db \<Longrightarrow> granted l db \<Longrightarrow> issued l db"
  unfolding granted_def issued_def owned_def using keyed_command by metis

lemma affects_lease_step: "lease_step p w l db db' \<Longrightarrow> keyed db \<Longrightarrow> issued l db \<Longrightarrow> affects (cl_task_id l) db db'"
  by (induction rule: lease_step.induct)
    (simp_all add: register_remote_affects register_cancel_target_affects renew_lease_affects schedule_reconciliation_affects
      postpone_cancel_affects schedule_orphan_cancel_affects remember_remote_terminal_affects persist_progressive_update_affects
      finalize_cancel_failure_affects finalize_cancel_affects record_remote_error_affects finalize_affects
      record_projection_error_affects mark_waiting_human_affects)

lemma map_kept:
  assumes "affects i db db'"
  shows "map tr_id (cd_tasks db') = map tr_id (cd_tasks db)" "map tr_thread_id (cd_tasks db') = map tr_thread_id (cd_tasks db)"
    "map tc_id (cd_commands db') = map tc_id (cd_commands db)" "map th_id (cd_threads db') = map th_id (cd_threads db)"
proof -
  have "map tr_id us = map tr_id ts \<and> map tr_thread_id us = map tr_thread_id ts" if "list_all2 (task_kept i) ts us" for ts us
    using that by (induction rule: list_all2_induct) (auto simp: task_kept_def task_same_def)
  moreover have "map tc_id ds = map tc_id cs" if "list_all2 (command_kept i) cs ds" for cs ds
    using that by (induction rule: list_all2_induct) (auto simp: command_kept_def command_same_def)
  ultimately show "map tr_id (cd_tasks db') = map tr_id (cd_tasks db)" "map tr_thread_id (cd_tasks db') = map tr_thread_id (cd_tasks db)"
    "map tc_id (cd_commands db') = map tc_id (cd_commands db)" "map th_id (cd_threads db') = map th_id (cd_threads db)"
    using assms unfolding affects_def by blast+
qed

text \<open>Rows change, but their identity does not: what lines commands up with tasks.\<close>

lemma lined_kept:
  assumes "affects i db db'" and "lined db"
  shows "lined db'"
  unfolding lined_def
proof
  fix d assume "d \<in> set (cd_commands db')"
  with affects_commands_back [OF assms(1)] obtain c where c: "c \<in> set (cd_commands db)" "command_same c d"
    unfolding command_kept_def by blast
  with assms(2) obtain t where t: "t \<in> set (cd_tasks db)" "of_task t c"
    unfolding lined_def by blast
  from assms(1) have "list_all2 (task_kept i) (cd_tasks db) (cd_tasks db')" by (simp add: affects_def)
  from list_all2_forth [OF this t(1)] obtain u where "u \<in> set (cd_tasks db')" "task_kept i t u" by blast
  with t c show "\<exists>t \<in> set (cd_tasks db'). of_task t d"
    by (auto simp: of_task_def task_kept_def task_same_def command_same_def)
qed

lemma sound_kept: "affects i db db' \<Longrightarrow> sound db \<Longrightarrow> sound db'"
  unfolding sound_def using keyed_kept lined_kept map_kept by (metis image_set)

lemma leased_same [simp]: "command_same c (leased_command w now c)"
  by (simp add: leased_command_def command_same_def)

lemma lease_command_rows:
  assumes "keyed db" and "c \<in> set (cd_commands db)"
  shows "set (cd_commands (set_command (tc_id c) (\<lambda>_. u) db)) = insert u (set (cd_commands db) - {c})"
proof -
  have "tc_id d = tc_id c \<longleftrightarrow> d = c" if "d \<in> set (cd_commands db)" for d
    using keyed_command [OF assms(1) that assms(2)] by auto
  with assms(2) show ?thesis by (auto simp: set_command_def set_update_where)
qed

lemma keyed_leased: "keyed (set_command (tc_id c) (\<lambda>_. leased_command w now c) db) = keyed db"
proof -
  have "map tc_id (update_where (\<lambda>d. tc_id d = tc_id c) (\<lambda>_. leased_command w now c) (cd_commands db)) = map tc_id (cd_commands db)"
    by (rule map_key_update_where) (simp add: leased_command_def)
  then show ?thesis by (simp add: keyed_def set_command_def)
qed

lemma lined_lease:
  assumes "lined db" and "c \<in> set (cd_commands db)"
  shows "lined (set_command (tc_id c) (\<lambda>_. leased_command w now c) db)"
proof -
  have "of_task t (leased_command w now c) = of_task t c" for t
    by (simp add: of_task_def leased_command_def)
  with assms show ?thesis unfolding lined_def by (auto simp: set_command_def set_update_where)
qed

definition given_back :: "(uuid \<Rightarrow> bool) \<Rightarrow> command_worker \<Rightarrow> instant \<Rightarrow> command_row \<Rightarrow> command_row" where
  "given_back busy w now c = (if tc_status c = ''dispatching'' \<and> tc_lease_owner c = Some (cw_worker_id w) \<and> \<not> busy (tc_id c)
     then c\<lparr>tc_lease_owner := None, tc_lease_expires_at := Some now\<rparr> else c)"

lemma given_back_same [simp]: "command_same c (given_back busy w now c)"
  "tc_id (given_back busy w now c) = tc_id c" "tc_status (given_back busy w now c) = tc_status c"
  "tc_attempt (given_back busy w now c) = tc_attempt c" "tc_thread_id (given_back busy w now c) = tc_thread_id c"
  "tc_task_id (given_back busy w now c) = tc_task_id c" "tc_sequence (given_back busy w now c) = tc_sequence c"
  by (simp_all add: given_back_def command_same_def)

lemma released_rows: "cd_commands (release_worker_leases busy w now db) = map (given_back busy w now) (cd_commands db)"
  by (simp add: release_worker_leases_def update_where_def given_back_def)

lemma given_back_task [simp]: "of_task t (given_back busy w now c) = of_task t c"
  by (simp add: of_task_def given_back_def)

lemma released_tables: "cd_tasks (release_worker_leases busy w now db) = cd_tasks db"
  "cd_threads (release_worker_leases busy w now db) = cd_threads db" "cd_pauses (release_worker_leases busy w now db) = cd_pauses db"
  by (simp_all add: release_worker_leases_def)

lemma sound_move: "command_move db db' \<Longrightarrow> sound db \<Longrightarrow> sound db'"
proof (induction rule: command_move.induct)
  case (settle i db db')
  then show ?case by (blast intro: sound_kept)
next
  case (release db busy w now)
  then show ?case by (simp add: sound_def keyed_def lined_def released_rows released_tables comp_def)
next
  case (lease c db w now)
  moreover have "cd_tasks (set_command (tc_id c) (\<lambda>_. leased_command w now c) db) = cd_tasks db"
    "cd_threads (set_command (tc_id c) (\<lambda>_. leased_command w now c) db) = cd_threads db" by (simp_all add: set_command_def)
  ultimately show ?case by (simp add: sound_def keyed_leased lined_lease)
next
  case (enqueue c db db')
  then have db': "db' = db\<lparr>cd_commands := cd_commands db @ [c]\<rparr>" and "tc_id c \<notin> tc_id ` set (cd_commands db)"
    by (auto simp: insert_command_def command_clash_def)
  with enqueue show ?case by (simp add: sound_def keyed_def lined_def)
next
  case (admit h db db1 t db')
  from admit(1,2) have db': "db' = db\<lparr>cd_threads := cd_threads db @ [h], cd_tasks := cd_tasks db @ [t]\<rparr>"
    and "tr_id t \<notin> tr_id ` set (cd_tasks db)" and th: "th_id h \<notin> th_id ` set (cd_threads db)"
    by (auto simp: add_thread_def add_task_def)
  moreover have "tr_thread_id t \<notin> tr_thread_id ` set (cd_tasks db)"
    using admit(3,4) th unfolding sound_def by auto
  moreover have "lined db'" using admit(4) by (auto simp: sound_def lined_def db')
  moreover have "keyed db" "distinct (map tr_thread_id (cd_tasks db))" "tr_thread_id ` set (cd_tasks db) \<subseteq> th_id ` set (cd_threads db)"
    using admit(4) by (simp_all add: sound_def)
  ultimately show ?case using admit(3) by (simp add: sound_def keyed_def image_subset_iff)
qed

section \<open>Order\<close>

lemma kept_unfinished:
  assumes "affects i db db'" and "command_same c d" and "prior_unfinished db' d"
  shows "prior_unfinished db c"
proof -
  from assms(3) obtain e where e: "e \<in> set (cd_commands db')" "tc_thread_id e = tc_thread_id d" "tc_sequence e < tc_sequence d"
      "open_command (tc_status e)"
    by (auto simp: prior_unfinished_def)
  from affects_commands_back [OF assms(1) e(1)] obtain a where "a \<in> set (cd_commands db)" "command_kept i a e" by blast
  with e assms(2) show ?thesis by (auto simp: prior_unfinished_def command_kept_def command_same_def)
qed

lemma in_order_move: "command_move db db' \<Longrightarrow> sound db \<Longrightarrow> in_order db \<Longrightarrow> in_order db'"
proof (induction rule: command_move.induct)
  case (settle i db db')
  show ?case
    unfolding in_order_def
  proof (intro ballI impI)
    fix d assume d: "d \<in> set (cd_commands db')" and s: "tc_status d = ''dispatching''"
    from affects_commands_back [OF settle(1) d] obtain c where c: "c \<in> set (cd_commands db)" "command_kept i c d" by blast
    with s have "tc_status c = ''dispatching''" and same: "command_same c d" by (auto simp: command_kept_def)
    with c(1) settle(3) have "\<not> prior_unfinished db c" by (auto simp: in_order_def)
    with kept_unfinished [OF settle(1) same] show "\<not> prior_unfinished db' d" by blast
  qed
next
  case (release db busy w now)
  have "prior_unfinished (release_worker_leases busy w now db) (given_back busy w now c) = prior_unfinished db c" for c
    by (simp add: prior_unfinished_def released_rows)
  with release show ?case by (simp add: in_order_def released_rows)
next
  case (lease c db w now)
  let ?d = "leased_command w now c"
  have rows: "set (cd_commands (set_command (tc_id c) (\<lambda>_. ?d) db)) = insert ?d (set (cd_commands db) - {c})"
    using lease(1,4) by (simp add: lease_command_rows sound_def)
  have same: "tc_thread_id ?d = tc_thread_id c" "tc_sequence ?d = tc_sequence c" by (simp_all add: leased_command_def)
  have earlier: "prior_unfinished db e" if "prior_unfinished (set_command (tc_id c) (\<lambda>_. ?d) db) e" for e
    using that lease(1,2) unfolding prior_unfinished_def rows by (auto simp: same)
  have "\<not> prior_unfinished db ?d" using lease(3) by (simp add: prior_unfinished_def same)
  then show ?case using lease(5) earlier unfolding in_order_def rows by blast
next
  case (enqueue c db db')
  from enqueue(1) have rows: "set (cd_commands db') = insert c (set (cd_commands db))"
    by (auto simp: insert_command_def)
  have "tc_task_id e = tc_task_id c" if e: "e \<in> set (cd_commands db)" "tc_thread_id e = tc_thread_id c" for e
  proof -
    from enqueue(6) e(1) obtain t where t: "t \<in> set (cd_tasks db)" "tr_id t = tc_task_id e" "tr_thread_id t = tc_thread_id e"
      unfolding sound_def lined_def of_task_def by blast
    from enqueue(5) obtain u where u: "u \<in> set (cd_tasks db)" "tr_id u = tc_task_id c" "tr_thread_id u = tc_thread_id c"
      unfolding of_task_def by blast
    from t u e(2) enqueue(6) have "t = u" unfolding sound_def distinct_map by (metis inj_onD)
    with t u show ?thesis by simp
  qed
  with enqueue(4) have "prior_unfinished db' e = prior_unfinished db e" if "e \<in> set (cd_commands db)" for e
    using that unfolding prior_unfinished_def rows by force
  with enqueue(2,7) show ?case unfolding in_order_def rows by auto
next
  case (admit h db db1 t db')
  then have "cd_commands db' = cd_commands db" by (auto simp: add_thread_def add_task_def)
  with admit show ?case by (simp add: in_order_def prior_unfinished_def)
qed

section \<open>Fencing\<close>

definition command_fence :: "uuid \<Rightarrow> command_db \<Rightarrow> int" where
  "command_fence k db = (case find (\<lambda>c. tc_id c = k) (cd_commands db) of None \<Rightarrow> 0 | Some c \<Rightarrow> tc_attempt c)"

definition command_leased :: "uuid \<Rightarrow> int \<Rightarrow> command_db \<Rightarrow> bool" where
  "command_leased k f db \<longleftrightarrow> (\<exists>c \<in> set (cd_commands db). tc_id c = k \<and> tc_status c = ''dispatching'' \<and> tc_attempt c = f)"

lemma fence_of:
  assumes "keyed db" and c: "c \<in> set (cd_commands db)"
  shows "command_fence (tc_id c) db = tc_attempt c"
proof (cases "find (\<lambda>d. tc_id d = tc_id c) (cd_commands db)")
  case None
  with c show ?thesis by (auto simp: find_None_iff)
next
  case (Some d)
  then have "d \<in> set (cd_commands db)" "tc_id d = tc_id c" by (auto simp: find_Some_iff)
  with keyed_command [OF assms] have "c = d" by simp
  with Some show ?thesis by (simp add: command_fence_def)
qed

lemma fence_absent: "k \<notin> tc_id ` set (cd_commands db) \<Longrightarrow> command_fence k db = 0"
  unfolding command_fence_def by (auto split: option.splits simp: find_Some_iff)

text \<open>It is enough that every row keeps its identity and does not lose attempts, and that new rows start at zero.\<close>

lemma fence_mono:
  assumes "keyed db" and "keyed db'"
    and "\<And>c. c \<in> set (cd_commands db) \<Longrightarrow> \<exists>d \<in> set (cd_commands db'). tc_id d = tc_id c \<and> tc_attempt c \<le> tc_attempt d"
    and "\<And>d. d \<in> set (cd_commands db') \<Longrightarrow> tc_id d \<notin> tc_id ` set (cd_commands db) \<Longrightarrow> 0 \<le> tc_attempt d"
  shows "command_fence k db \<le> command_fence k db'"
proof (cases "k \<in> tc_id ` set (cd_commands db)")
  case True
  then obtain c where c: "c \<in> set (cd_commands db)" "k = tc_id c" by blast
  with assms(3) obtain d where d: "d \<in> set (cd_commands db')" "tc_id d = tc_id c" "tc_attempt c \<le> tc_attempt d" by blast
  with fence_of [OF assms(1) c(1)] fence_of [OF assms(2) d(1)] c(2) show ?thesis by simp
next
  case False
  then have "command_fence k db = 0" by (rule fence_absent)
  moreover have "0 \<le> command_fence k db'"
  proof (cases "k \<in> tc_id ` set (cd_commands db')")
    case True
    then obtain d where "d \<in> set (cd_commands db')" "k = tc_id d" by blast
    with fence_of [OF assms(2) this(1)] assms(4) False show ?thesis by simp
  qed (simp add: fence_absent)
  ultimately show ?thesis by simp
qed

lemma fence_move:
  assumes "command_move db db'" and "sound db"
  shows "command_fence k db \<le> command_fence k db'"
proof -
  have keyed: "keyed db" "keyed db'" using assms sound_move by (auto simp: sound_def)
  from assms(1) show ?thesis
  proof cases
    case (settle i)
    show ?thesis
    proof (rule fence_mono [OF keyed])
      fix c assume c: "c \<in> set (cd_commands db)"
      from settle have "list_all2 (command_kept i) (cd_commands db) (cd_commands db')" by (simp add: affects_def)
      from list_all2_forth [OF this c] show "\<exists>d \<in> set (cd_commands db'). tc_id d = tc_id c \<and> tc_attempt c \<le> tc_attempt d"
        by (force simp: command_kept_def command_same_def)
    next
      fix d assume "d \<in> set (cd_commands db')" "tc_id d \<notin> tc_id ` set (cd_commands db)"
      with map_kept(3) [OF settle] show "0 \<le> tc_attempt d" by (metis image_eqI image_set)
    qed
  next
    case (release busy w now)
    show ?thesis unfolding release
      by (rule fence_mono [OF keyed [unfolded release]]) (auto simp: released_rows)
  next
    case (lease c w now)
    show ?thesis unfolding lease
      by (rule fence_mono [OF keyed [unfolded lease(1)]])
        (use lease(2) in \<open>auto simp: lease_command_rows [OF keyed(1) lease(2)] leased_command_def\<close>)
  next
    case (enqueue c)
    then show ?thesis by (intro fence_mono [OF keyed]) (auto simp: insert_command_def)
  next
    case (admit h db1 t)
    then have "cd_commands db' = cd_commands db" by (auto simp: add_thread_def add_task_def)
    then show ?thesis by (simp add: command_fence_def)
  qed
qed

interpretation cl: fenced_lease command_move command_fence command_leased sound
proof
  show "command_move s t \<Longrightarrow> sound s \<Longrightarrow> sound t" for s t by (rule sound_move)
  show "command_move s t \<Longrightarrow> sound s \<Longrightarrow> command_fence k s \<le> command_fence k t" for s t k by (rule fence_move)
  show "sound s \<Longrightarrow> command_leased k f s \<Longrightarrow> command_fence k s = f" for s k f
    by (auto simp: command_leased_def sound_def fence_of)
qed

end
