(* ===== verification/Command_Refinement.thy ===== *)
theory Command_Refinement
  imports Command_System
begin

text \<open>
  Every transaction of the dispatcher and of the API is a sequence of moves of the abstract machine.
\<close>

section \<open>Claiming\<close>

lemma settle_moves: "affects i db db' \<Longrightarrow> command_move\<^sup>*\<^sup>* db db'"
  by (blast intro: command_move.settle)

lemma moves_trans: "command_move\<^sup>*\<^sup>* db db1 \<Longrightarrow> command_move\<^sup>*\<^sup>* db1 db2 \<Longrightarrow> command_move\<^sup>*\<^sup>* db db2"
  by (rule rtranclp_trans)

lemma claim_rowD:
  assumes "k \<in> set (claim_rows busy now db)"
  shows "ck_command k \<in> set (cd_commands db)" "open_command (tc_status (ck_command k))" "\<not> prior_unfinished db (ck_command k)"
    "task_at (tc_task_id (ck_command k)) db = Some (ck_task k)" "open_task (tr_status (ck_task k))"
    "command_due now (ck_command k)" "\<not> busy (tr_id (ck_task k))"
  using assms
  by (auto simp: claim_rows_def map_filter_def claim_row_of_def Let_def command_due_def open_command_def split: option.splits)

lemma fail_run_or_task_affects:
  assumes "fail_run_or_task p fresh now c t run code error_type msg db = Inr db'" and kn: "known t db" and o: "owned (tc_id c) (tr_id t) db"
  shows "affects (tr_id t) db db'"
proof -
  note a = close_affects(2) [OF o]
  show ?thesis
  proof (cases run)
    case None
    have "task_same t (ended_task now ''failed'' t)" by simp
    have "affects (tr_id t) (close_command (tc_id c) ''failed'' db)
        (set_task (tr_id t) (ended_task now ''failed'') (close_command (tc_id c) ''failed'' db))"
      by (rule affects_set_task) simp
    from affects_trans [OF a this] None assms(1) show ?thesis by (simp add: fail_run_or_task_def)
  next
    case (Some r)
    with assms(1) have "persist_terminal_run p fresh now t r (failure_output code error_type False None) (tc_sequence c) True (Some msg)
        (close_command (tc_id c) ''failed'' db) = Inr db'" by (simp add: fail_run_or_task_def)
    from affects_trans [OF a persist_terminal_run_affects [OF this known_kept [OF a kn]]] show ?thesis .
  qed
qed

lemma command_target_affects:
  assumes "command_target p fresh now c t db = Inr (Refused db')" and kn: "known t db" and o: "owned (tc_id c) (tr_id t) db"
  shows "affects (tr_id t) db db'"
  using assms(1) close_affects(1,2) [OF o] fail_run_or_task_affects [OF _ kn o]
  by (auto simp: command_target_def Let_def cancel_run_target_def respond_target_def fork_target_def retry_target_def
      refused_def rbind_Inr_iff split: option.splits if_splits)

lemma with_submitted_run_affects: "with_submitted_run w fresh now c t run db = Inr (run1, db') \<Longrightarrow> affects i db db'"
  by (auto simp: with_submitted_run_def rbind_Inr_iff dest: affects_insert_run split: if_splits)

lemma with_submitted_run_commands: "with_submitted_run w fresh now c t run db = Inr (run1, db') \<Longrightarrow> cd_commands db' = cd_commands db"
  by (auto simp: with_submitted_run_def rbind_Inr_iff insert_run_def split: if_splits)

lemma with_intents_beside: "with_intents w fresh now c t run db = Inr db' \<Longrightarrow> beside db db'"
  by (auto simp: with_intents_def rbind_Inr_iff beside_def split: option.splits if_splits)

lemma lease_target_moves:
  assumes e: "lease_target p w fresh now k run y f source db = Inr (x, db')" and k: "k \<in> set (claim_rows busy now' db)" and s: "sound db"
  obtains db2 where "affects (tr_id (ck_task k)) db db2" "db' = close_command (tc_id (ck_command k)) ''cancelled'' db2 \<and> x = None"
      "cd_commands db2 = cd_commands db"
  | db2 where "affects (tr_id (ck_task k)) db db2" "cd_commands db2 = cd_commands db"
      "affects (tr_id (ck_task k)) (set_command (tc_id (ck_command k)) (\<lambda>_. leased_command w now (ck_command k)) db2) db'"
proof -
  let ?c = "ck_command k" and ?t = "ck_task k"
  from e obtain run1 db1 db2 where 1: "with_submitted_run w fresh now ?c ?t run db = Inr (run1, db1)"
    and 2: "with_intents w fresh now ?c ?t run1 db1 = Inr db2"
    by (auto simp: lease_target_def Let_def rbind_Inr_iff)
  have a: "affects (tr_id ?t) db db2"
    by (rule affects_trans [OF with_submitted_run_affects [OF 1] beside_affects [OF with_intents_beside [OF 2]]])
  have cmds: "cd_commands db2 = cd_commands db"
    using with_submitted_run_commands [OF 1] with_intents_beside [OF 2] by (simp add: beside_def)
  show thesis
  proof (cases "cancelled_before_claim ?c ?t run1 db2")
    case True
    with e 1 2 have "db' = close_command (tc_id ?c) ''cancelled'' db2 \<and> x = None" by (auto simp: lease_target_def Let_def)
    with a cmds show thesis by (intro that(1))
  next
    case False
    define db3 where "db3 = set_command (tc_id ?c) (\<lambda>_. leased_command w now ?c) db2"
    from e 1 2 False have "db' = db3 \<or> (\<exists>j f s. db' = set_run j f (set_task (tr_id ?t) (\<lambda>_. ?t\<lparr>tr_status := s\<rparr>) db3))"
      by (auto simp: lease_target_def Let_def rbind_Inr_iff db3_def split: if_splits option.splits)
    moreover have "affects (tr_id ?t) db3 (set_run j f (set_task (tr_id ?t) (\<lambda>_. ?t\<lparr>tr_status := s\<rparr>) db3))" for j f s
    proof (rule affects_trans [OF affects_set_task affects_set_run])
      fix u assume u: "u \<in> set (cd_tasks db3)" "tr_id u = tr_id ?t"
      have "known ?t db2"
        by (rule known_kept [OF a known_task_at]) (use claim_rowD(4) [OF k] assms(3) in \<open>auto simp: sound_def\<close>)
      with u have "task_same u ?t" by (auto simp: known_def db3_def set_command_def)
      then show "task_same u (?t\<lparr>tr_status := s\<rparr>)" by (simp add: task_same_def task_scope_def)
    qed
    ultimately have "affects (tr_id ?t) db3 db'" by auto
    with a cmds show thesis unfolding db3_def by (rule that(2))
  qed
qed

lemma same_unfinished: "cd_commands db' = cd_commands db \<Longrightarrow> prior_unfinished db' c = prior_unfinished db c"
  by (simp add: prior_unfinished_def)

text \<open>What a claim does, with the command it is about.\<close>

lemma claim_cases:
  assumes e: "claim_next_command p w fresh busy now db = Inr (x, db')" and s: "sound db"
  obtains (idle) "x = None" "db' = db"
  | (refused) k :: claim_row where "k \<in> set (claim_rows busy now db)" "affects (tr_id (ck_task k)) db db'" "x = None"
  | (leased) k :: claim_row and db2 where "k \<in> set (claim_rows busy now db)" "affects (tr_id (ck_task k)) db db2" "cd_commands db2 = cd_commands db"
      "affects (tr_id (ck_task k)) (set_command (tc_id (ck_command k)) (\<lambda>_. leased_command w now (ck_command k)) db2) db'"
proof (cases "first_by claim_order (claim_rows busy now db)")
  case None
  with e show thesis by (intro idle) (simp_all add: claim_next_command_def)
next
  case (Some k)
  then have k: "k \<in> set (claim_rows busy now db)" by (rule first_by_Some)
  note row = claim_rowD [OF k]
  have kn: "known (ck_task k) db" using s row(4) by (auto simp: sound_def intro: known_task_at)
  have o: "owned (tc_id (ck_command k)) (tr_id (ck_task k)) db"
    using s row(1) task_atD [OF row(4)] keyed_command by (metis owned_def sound_def)
  from e Some obtain target where t: "command_target p fresh now (ck_command k) (ck_task k) db = Inr target"
    by (auto simp: claim_next_command_def rbind_Inr_iff)
  show thesis
  proof (cases target)
    case (Refused db1)
    with e Some t have "db' = db1" "x = None" by (auto simp: claim_next_command_def)
    with command_target_affects [OF t [unfolded Refused] kn o] k show thesis by (intro refused) simp_all
  next
    case (Target run y f source)
    with e Some t have l: "lease_target p w fresh now k run y f source db = Inr (x, db')"
      by (simp add: claim_next_command_def)
    from lease_target_moves [OF l k s] show thesis
    proof cases
      case (1 db2)
      with affects_trans [OF 1(1) close_affects(1) [OF owned_kept [OF 1(1) o]]] k show thesis by (intro refused) auto
    next
      case (2 db2)
      with k show thesis by (rule leased)
    qed
  qed
qed

lemma claim_moves: "claim_next_command p w fresh busy now db = Inr (x, db') \<Longrightarrow> sound db \<Longrightarrow> command_move\<^sup>*\<^sup>* db db'"
proof (erule claim_cases, assumption)
  assume "db' = db" then show ?thesis by simp
next
  fix k :: claim_row assume "affects (tr_id (ck_task k)) db db'" then show ?thesis by (rule settle_moves)
next
  fix k :: claim_row and db2
  assume s: "sound db" and k: "k \<in> set (claim_rows busy now db)" and a: "affects (tr_id (ck_task k)) db db2"
    and c: "cd_commands db2 = cd_commands db"
    and b: "affects (tr_id (ck_task k)) (set_command (tc_id (ck_command k)) (\<lambda>_. leased_command w now (ck_command k)) db2) db'"
  have "command_move db2 (set_command (tc_id (ck_command k)) (\<lambda>_. leased_command w now (ck_command k)) db2)"
    using claim_rowD(1-3) [OF k] by (intro command_move.lease) (simp_all add: c same_unfinished [OF c])
  with settle_moves [OF a] settle_moves [OF b] show ?thesis by (meson moves_trans r_into_rtranclp)
qed

section \<open>Writing commands\<close>

lemma sequence_after_gt: "c \<in> set cs \<Longrightarrow> tc_sequence c < sequence_after cs"
  by (auto simp: sequence_after_def intro: le_less_trans [OF Max_ge])

text \<open>A command of \<open>t\<close> behind the commands \<open>cs\<close>, which are all of the task.\<close>

lemma enqueue_moves:
  assumes "insert_command c db = Inr db'" and "tc_status c = ''pending''" and "tc_attempt c = 0"
    and "of_task t c" and "\<exists>u \<in> set (cd_tasks db). task_same t u"
    and "tc_sequence c = sequence_after cs"
    and "\<And>d. d \<in> set (cd_commands db) \<Longrightarrow> tc_task_id d = tr_id t \<Longrightarrow> \<exists>b \<in> set cs. tc_sequence b = tc_sequence d"
  shows "command_move\<^sup>*\<^sup>* db db'"
proof -
  have "tc_sequence d < tc_sequence c" if "d \<in> set (cd_commands db)" "tc_task_id d = tc_task_id c" for d
  proof -
    from that(2) assms(4) have "tc_task_id d = tr_id t" by (simp add: of_task_def)
    with assms(7) that(1) obtain b where "b \<in> set cs" "tc_sequence b = tc_sequence d" by blast
    with sequence_after_gt [of b cs] assms(6) show ?thesis by simp
  qed
  moreover have "\<exists>u \<in> set (cd_tasks db). of_task u c" using assms(4,5) by (auto simp: of_task_def task_same_def)
  ultimately show ?thesis using assms(1-3) by (auto intro: command_move.enqueue)
qed

lemma expire_moves:
  assumes "expire_due_interrupt p busy fresh now db = Inr (x, db')" and s: "sound db"
  shows "command_move\<^sup>*\<^sup>* db db'"
proof (cases "db' = db")
  case False
  with assms(1) obtain q t r where q: "due_pause busy now db = Some q" and t: "task_at (ip_task_id q) db = Some t"
    and x: "expire_pause p fresh now t r q db = Inr db'"
    by (auto simp: expire_due_interrupt_def rbind_Inr_iff split: option.splits if_splits)
  obtain db1 db2 payload P f h where 1: "insert_run (resumed_from fresh t r) db = Inr db1"
    and 2: "insert_command (expiry_command p fresh t q payload (next_command_sequence (tr_id t) db)) db1 = Inr db2"
    and 3: "set_members P f (set_pause (ip_id q) (\<lambda>q. q\<lparr>ip_status := ''expired'', ip_resume_run_id := Some (fi_run fresh),
             ip_accepted_payload_hash := Some h\<rparr>) db2) = Inr db'"
    using x by (auto simp: expire_pause_def Let_def rbind_Inr_iff)
  have cmds: "cd_commands db1 = cd_commands db" "cd_tasks db1 = cd_tasks db" using 1 by (auto simp: insert_run_def)
  have "affects (tr_id t) db2 (set_pause (ip_id q) (\<lambda>q. q\<lparr>ip_status := ''expired'', ip_resume_run_id := Some (fi_run fresh),
             ip_accepted_payload_hash := Some h\<rparr>) db2)" by (rule affects_set_pause) simp_all
  from settle_moves [OF affects_trans [OF this affects_set_members [OF 3]]] have "command_move\<^sup>*\<^sup>* db2 db'" .
  moreover have "command_move\<^sup>*\<^sup>* db1 db2"
    by (rule enqueue_moves [OF 2, where t = t and cs = "filter (\<lambda>c. tc_task_id c = tr_id t) (cd_commands db)"])
      (use task_atD [OF t] in \<open>auto simp: expiry_command_def of_task_def task_scope_def next_command_sequence_def cmds
         intro!: bexI [of _ t]\<close>)
  ultimately show ?thesis using settle_moves [OF affects_insert_run [OF 1]] by (meson moves_trans)
qed simp

section \<open>The operations of the API\<close>

text \<open>The branches that succeed, under any binder.\<close>

lemma chosen:
  "(case o' of None \<Rightarrow> n | Some y \<Rightarrow> f y) = Inr z \<longleftrightarrow> o' = None \<and> n = Inr z \<or> (\<exists>y. o' = Some y \<and> f y = Inr z)"
  "(if b then m else n) = Inr z \<longleftrightarrow> b \<and> m = Inr z \<or> \<not> b \<and> n = Inr z"
  by (simp_all split: option.split)

lemma own_taskD: "own_task ra i db = Some t \<Longrightarrow> t \<in> set (cd_tasks db) \<and> tr_id t = i \<and> task_scope t = actor_key ra"
  by (auto simp: own_task_def find_Some_iff)

text \<open>In a sound database the filters on the tenant, the workspace and the actor leave nothing of a task out.\<close>

lemma task_commands_all:
  assumes s: "sound db" and t: "t \<in> set (cd_tasks db)" "task_scope t = actor_key ra"
    and d: "d \<in> set (cd_commands db)" "tc_task_id d = tr_id t"
  shows "d \<in> set (task_commands mine ra t db)"
proof -
  from s d(1) obtain u where u: "u \<in> set (cd_tasks db)" "of_task u d" unfolding sound_def lined_def by blast
  with d(2) have "tr_id u = tr_id t" by (simp add: of_task_def)
  with s u(1) t(1) have "u = t" unfolding sound_def keyed_def distinct_map by (metis inj_onD)
  with u(2) t(2) d show ?thesis by (auto simp: task_commands_def of_task_def actor_key_def)
qed

lemma task_commands_of: "d \<in> set (task_commands mine ra t db) \<Longrightarrow> d \<in> set (cd_commands db) \<and> tc_task_id d = tr_id t"
  by (simp add: task_commands_def)

lemma serve_enqueue:
  assumes s: "sound db" and t: "t \<in> set (cd_tasks db)" "task_scope t = actor_key ra" and a: "affects (tr_id t) db db1"
    and ins: "insert_command (written_command fresh ra t typ payload h (sequence_after (task_commands mine ra t db)) k) db1 = Inr db2"
  shows "command_move\<^sup>*\<^sup>* db db2"
proof -
  from a have "list_all2 (task_kept (tr_id t)) (cd_tasks db) (cd_tasks db1)" by (simp add: affects_def)
  from list_all2_forth [OF this t(1)] have "\<exists>u \<in> set (cd_tasks db1). task_same t u" by (auto simp: task_kept_def)
  moreover have "\<exists>b \<in> set (task_commands mine ra t db). tc_sequence b = tc_sequence d"
    if d: "d \<in> set (cd_commands db1)" "tc_task_id d = tr_id t" for d
  proof -
    from affects_commands_back [OF a d(1)] obtain c where c: "c \<in> set (cd_commands db)" "command_same c d"
      unfolding command_kept_def by blast
    with d(2) task_commands_all [OF s t] show ?thesis by (metis command_same_def)
  qed
  ultimately have "command_move\<^sup>*\<^sup>* db1 db2"
    using t(2) by (intro enqueue_moves [OF ins, where t = t and cs = "task_commands mine ra t db"])
      (auto simp: written_command_def of_task_def actor_key_def)
  with settle_moves [OF a] show ?thesis by (rule moves_trans)
qed

lemma rejected_Inr [simp]: "rejected r = Inr x \<longleftrightarrow> r = Inr x"
  by (simp add: rejected_def split: sum.split)

lemma cancel_commands_affects:
  assumes "keyed db" and "\<And>c. c \<in> set cs \<Longrightarrow> c \<in> set (cd_commands db) \<and> tc_task_id c = i"
  shows "affects i db (cancel_commands cs db)"
proof -
  have "command_kept i d (closed_command ''cancelled'' d)"
    if "d \<in> set (cd_commands db)" "tc_id d \<in> tc_id ` set cs" for d
  proof -
    from that(2) obtain c where "c \<in> set cs" "tc_id d = tc_id c" by blast
    with assms keyed_command [OF assms(1) that(1)] have "tc_task_id d = i" by metis
    then show ?thesis by (simp add: closed_command_kept open_command_def)
  qed
  then show ?thesis
    by (simp add: affects_def cancel_commands_def kept_update list_all2_refl)
qed

lemma write_cancel_moves:
  assumes "write_cancel sp fresh now ra t run typ payload key (task_commands mine ra t db) db = Inr db'" and s: "sound db"
    and t: "t \<in> set (cd_tasks db)" "task_scope t = actor_key ra"
  shows "command_move\<^sup>*\<^sup>* db db'"
proof -
  have "affects (tr_id t) db (cancel_commands (task_commands mine ra t db) db)"
    using s by (intro cancel_commands_affects) (auto simp: sound_def dest: task_commands_of)
  moreover have "affects (tr_id t) db1 (mark_cancelled now run db1)" for db1
    by (auto simp: mark_cancelled_def intro: affects_set_run split: option.split)
  ultimately have "affects (tr_id t) db (mark_cancelled now run (cancel_commands (task_commands mine ra t db) db))"
    by (rule affects_trans)
  with assms show ?thesis by (auto simp: write_cancel_def intro: serve_enqueue)
qed

lemma cancel_task_moves: "cancel_task sp fresh now ac text key db = Inr (x, db') \<Longrightarrow> sound db \<Longrightarrow> command_move\<^sup>*\<^sup>* db db'"
  by (auto simp: cancel_task_def rbind_Inr_iff Let_def chosen
      intro: write_cancel_moves [OF _ _ conjunct1 [OF own_taskD] conjunct2 [OF conjunct2 [OF own_taskD]]])

lemma cancel_run_moves: "cancel_run sp fresh now ac text key db = Inr (x, db') \<Longrightarrow> sound db \<Longrightarrow> command_move\<^sup>*\<^sup>* db db'"
  by (auto simp: cancel_run_def rbind_Inr_iff Let_def chosen
      intro: write_cancel_moves [OF _ _ conjunct1 [OF own_taskD] conjunct2 [OF conjunct2 [OF own_taskD]]])

lemma reopen_affects: "affects i db (reopen_task i db)"
  unfolding reopen_task_def by (rule affects_set_task) (simp add: task_same_def task_scope_def)

lemma write_retry_moves:
  assumes "write_retry sp fresh ra t source k (task_commands mine ra t db) db = Inr db'" and s: "sound db"
    and t: "t \<in> set (cd_tasks db)" "task_scope t = actor_key ra"
  shows "command_move\<^sup>*\<^sup>* db db'"
  using assms by (auto simp: write_retry_def rbind_Inr_iff
      intro!: moves_trans [OF serve_enqueue [OF s t affects_insert_run] settle_moves [OF reopen_affects]])

lemma retry_task_moves: "retry_task sp fresh ac text key db = Inr (x, db') \<Longrightarrow> sound db \<Longrightarrow> command_move\<^sup>*\<^sup>* db db'"
  by (auto simp: retry_task_def rbind_Inr_iff Let_def chosen
      intro: write_retry_moves [OF _ _ conjunct1 [OF own_taskD] conjunct2 [OF conjunct2 [OF own_taskD]]])

lemma cancel_pause_for_fork_affects:
  assumes "cancel_pause_for_fork now ra t db = Inr db'"
  shows "affects i db db'"
proof (cases "db' = db")
  case False
  with assms obtain q :: pause_row and r :: run_row and P f where m: "set_members P (\<lambda>m. m\<lparr>im_status := ''cancelled''\<rparr>)
      (set_pause (ip_id q) (\<lambda>q. q\<lparr>ip_status := ''cancelled''\<rparr>) (set_run (rn_id r) f db)) = Inr db'"
    by (auto simp: cancel_pause_for_fork_def Let_def split: list.splits option.splits if_splits)
  from affects_trans [OF affects_set_run end_pause_affects [OF m]] show ?thesis by simp
qed simp

lemma write_fork_moves:
  assumes "write_fork sp fresh now ra t source checkpoint k (task_commands mine ra t db) db = Inr db'" and s: "sound db"
    and t: "t \<in> set (cd_tasks db)" "task_scope t = actor_key ra"
  shows "command_move\<^sup>*\<^sup>* db db'"
  using assms by (auto simp: write_fork_def rbind_Inr_iff
      intro!: moves_trans [OF serve_enqueue [OF s t affects_trans [OF cancel_pause_for_fork_affects affects_insert_run]]
        settle_moves [OF reopen_affects]])

lemma fork_task_moves: "fork_task sp fresh now ac text q key db = Inr (x, db') \<Longrightarrow> sound db \<Longrightarrow> command_move\<^sup>*\<^sup>* db db'"
  by (auto simp: fork_task_def rbind_Inr_iff Let_def chosen
      intro: write_fork_moves [OF _ _ conjunct1 [OF own_taskD] conjunct2 [OF conjunct2 [OF own_taskD]]])

lemma accept_answers_moves:
  assumes "accept_answers fresh now ra t q r answers docs h k (task_commands mine ra t db) db = Inr db'" and s: "sound db"
    and t: "t \<in> set (cd_tasks db)" "task_scope t = actor_key ra"
  shows "command_move\<^sup>*\<^sup>* db db'"
proof -
  from assms(1) obtain db1 db2 P f g where 1: "insert_run (answered_run fresh t r) db = Inr db1"
    and 2: "set_members P f (set_pause (ip_id q) (\<lambda>q. q\<lparr>ip_status := ''responding'', ip_resume_run_id := Some (fi_run fresh),
           ip_accepted_payload_hash := Some h\<rparr>) db1) = Inr db2"
    and 3: "insert_command (written_command fresh ra t ''respond'' (respond_json q docs False) h
         (sequence_after (task_commands mine ra t db)) k) db2 = Inr db'"
    by (auto simp: accept_answers_def rbind_Inr_iff)
  have "affects (tr_id t) db1 (set_pause (ip_id q) (\<lambda>q. q\<lparr>ip_status := ''responding'', ip_resume_run_id := Some (fi_run fresh),
           ip_accepted_payload_hash := Some h\<rparr>) db1)" by (rule affects_set_pause) simp_all
  from affects_trans [OF affects_trans [OF affects_insert_run [OF 1] this] affects_set_members [OF 2]] 3
  show ?thesis by (intro serve_enqueue [OF s t])
qed

lemma respond_interrupts_moves: "respond_interrupts sp fresh now ac text rq key db = Inr (x, db') \<Longrightarrow> sound db \<Longrightarrow> command_move\<^sup>*\<^sup>* db db'"
  by (auto simp: respond_interrupts_def rbind_Inr_iff Let_def chosen
      intro: accept_answers_moves [OF _ _ conjunct1 [OF own_taskD] conjunct2 [OF conjunct2 [OF own_taskD]]])

lemma admit_task_moves:
  assumes e: "admit_task sp fresh now ac payload key task_type title db = Inr (x, db')" and s: "sound db"
  shows "command_move\<^sup>*\<^sup>* db db'"
proof (cases "db' = db")
  case False
  with e obtain ra t db1 db2 db3 h where w: "task_scope t = actor_key ra"
    and t: "t = admitted_task fresh ra task_type key h payload"
    and 1: "charge_admission sp fresh ra task_type now db = Inr db1"
    and 2: "add_thread (admitted_thread fresh ra title) db1 = Inr db2" and 3: "add_task t db2 = Inr db3"
    and 4: "insert_command (written_command fresh ra t ''submit'' payload h 1 (''submit:'' @ tr_id t)) db3 = Inr db'"
    by (auto simp: admit_task_def rbind_Inr_iff Let_def admitted_task_def task_scope_def actor_key_def split: option.splits)
  have a: "affects (tr_id t) db db1" using 1
    by (auto simp: charge_admission_def split: sum.splits usage_error.splits intro: affects_elsewhere)
  note s1 = sound_kept [OF a s]
  have m: "command_move db1 db3" using 2 3 t by (auto intro: command_move.admit simp: admitted_task_def admitted_thread_def)
  have rows: "cd_commands db3 = cd_commands db1" "cd_tasks db3 = cd_tasks db1 @ [t]" "tr_id t \<notin> tr_id ` set (cd_tasks db1)"
    using 2 3 by (auto simp: add_thread_def add_task_def)
  have "tc_task_id d \<noteq> tr_id t" if "d \<in> set (cd_commands db3)" for d
  proof -
    from that rows(1) s1 obtain u where "u \<in> set (cd_tasks db1)" "of_task u d"
      unfolding sound_def lined_def by auto
    with rows(3) show ?thesis by (metis image_eqI of_task_def)
  qed
  then have "command_move db3 db'"
    using w by (intro command_move.enqueue [OF 4]) (auto simp: written_command_def rows of_task_def task_scope_def actor_key_def)
  with m settle_moves [OF a] show ?thesis by (meson rtranclp.rtrancl_into_rtrancl)
qed simp

section \<open>Refinement\<close>

lemma dispatcher_step_moves: "dispatcher_step p db db' \<Longrightarrow> sound db \<Longrightarrow> command_move\<^sup>*\<^sup>* db db'"
proof (induction rule: dispatcher_step.induct)
  case (leased w l db db')
  then show ?case
    using settle_moves [OF affects_lease_step [OF leased(1) _ granted_issued]] by (auto simp: sound_def)
qed (auto intro: expire_moves claim_moves command_move.release)

lemma service_step_moves: "service_step sp db db' \<Longrightarrow> sound db \<Longrightarrow> command_move\<^sup>*\<^sup>* db db'"
  by (induction rule: service_step.induct)
    (auto intro: admit_task_moves cancel_task_moves cancel_run_moves retry_task_moves fork_task_moves respond_interrupts_moves)

lemma system_step_moves: "system_step sp db db' \<Longrightarrow> sound db \<Longrightarrow> command_move\<^sup>*\<^sup>* db db'"
  by (auto simp: system_step_def intro: dispatcher_step_moves service_step_moves)

lemma sound_moves: "command_move\<^sup>*\<^sup>* db db' \<Longrightarrow> sound db \<Longrightarrow> sound db'"
  by (rule cl.sound_kept_all)

lemma system_moves: "(system_step sp)\<^sup>*\<^sup>* db db' \<Longrightarrow> sound db \<Longrightarrow> command_move\<^sup>*\<^sup>* db db'"
proof (induction rule: rtranclp_induct)
  case (step db1 db2)
  then have "command_move\<^sup>*\<^sup>* db db1" by blast
  with step system_step_moves sound_moves show ?case by (meson moves_trans)
qed simp

end
