(* ===== verification/Command_Properties.thy ===== *)
theory Command_Properties
  imports Command_Refinement
begin

text \<open>
  What holds of the dispatcher and the API together, for every interleaving of their transactions: who
  may still write under a lease, in which order a thread's commands run, what a create leaves behind,
  and where a task or the whole queue gets stuck.
\<close>

section \<open>What a claim leaves\<close>

lemma claimed_target:
  assumes e: "claim_next_command p w fresh busy now db = Inr (Some l, db')"
  obtains k run y f source where "first_by claim_order (claim_rows busy now db) = Some k"
    "command_target p fresh now (ck_command k) (ck_task k) db = Inr (Target run y f source)"
    "lease_target p w fresh now k run y f source db = Inr (Some l, db')"
proof (cases "first_by claim_order (claim_rows busy now db)")
  case (Some k)
  with e obtain target where t: "command_target p fresh now (ck_command k) (ck_task k) db = Inr target"
    by (auto simp: claim_next_command_def rbind_Inr_iff)
  with e Some show thesis by (cases target) (auto simp: claim_next_command_def intro: that)
qed (use e in \<open>simp add: claim_next_command_def\<close>)

text \<open>The lease is of the command it leased, under the attempt it counted; nothing else of the commands changes.\<close>

lemma lease_target_lease:
  assumes "lease_target p w fresh now k run y f source db = Inr (Some l, db')"
  shows "cd_commands db' = update_where (\<lambda>c. tc_id c = tc_id (ck_command k)) (\<lambda>_. leased_command w now (ck_command k)) (cd_commands db)
     \<and> cl_command_id l = tc_id (ck_command k) \<and> cl_fence_token l = tc_attempt (ck_command k) + 1
     \<and> cl_task_id l = tr_id (ck_task k) \<and> cl_command_type l = tc_command_type (ck_command k)"
proof -
  let ?c = "ck_command k" and ?t = "ck_task k"
  from assms obtain run1 db1 db2 where 1: "with_submitted_run w fresh now ?c ?t run db = Inr (run1, db1)"
    and 2: "with_intents w fresh now ?c ?t run1 db1 = Inr db2"
    by (auto simp: lease_target_def Let_def rbind_Inr_iff)
  have cmds: "cd_commands db2 = cd_commands db"
    using with_submitted_run_commands [OF 1] with_intents_beside [OF 2] by (simp add: beside_def)
  from assms 1 2 have n: "\<not> cancelled_before_claim ?c ?t run1 db2"
    by (auto simp: lease_target_def Let_def)
  define db3 where "db3 = set_command (tc_id ?c) (\<lambda>_. leased_command w now ?c) db2"
  from assms 1 2 n have "cd_commands db' = cd_commands db3 \<and>
      (\<exists>r0 r1 db4. lease_of p w k (leased_command w now ?c) r0 r1 y f source db4 = Inr l)"
    by (auto simp: lease_target_def Let_def rbind_Inr_iff db3_def set_run_def set_task_def chosen)
  then show ?thesis
    by (auto simp: lease_of_def Let_def rbind_Inr_iff db3_def set_command_def cmds leased_command_def)
qed

lemma claimed_lease:
  assumes e: "claim_next_command p w fresh busy now db = Inr (Some l, db')" and s: "sound db"
  shows "command_fence (cl_command_id l) db = cl_fence_token l - 1"
    and "command_leased (cl_command_id l) (cl_fence_token l) db'" and "granted l db'"
proof -
  from e obtain k run y f source where k: "first_by claim_order (claim_rows busy now db) = Some k"
    and t: "lease_target p w fresh now k run y f source db = Inr (Some l, db')"
    by (rule claimed_target)
  note l = lease_target_lease [OF t]
  note row = claim_rowD [OF first_by_Some [OF k]]
  have kd: "keyed db" using s by (simp add: sound_def)
  show "command_fence (cl_command_id l) db = cl_fence_token l - 1"
    using fence_of [OF kd row(1)] l by simp
  have "leased_command w now (ck_command k) \<in> set (cd_commands db')"
    using row(1) l by (auto simp: set_update_where)
  moreover have "tc_task_id (ck_command k) = tr_id (ck_task k)" using task_atD [OF row(4)] by simp
  moreover have "tc_id d = tc_id c \<and> tc_status d = ''dispatching'' \<and> tc_attempt d = tc_attempt c + 1 \<and> tc_task_id d = tc_task_id c"
    if "d = leased_command w now c" for c d using that by (simp add: leased_command_def)
  ultimately show "command_leased (cl_command_id l) (cl_fence_token l) db'" and "granted l db'"
    using l unfolding command_leased_def granted_def by metis+
qed

section \<open>A superseded lease\<close>

lemma unlocked:
  "(\<And>c. c \<in> set (cd_commands db) \<Longrightarrow> \<not> lease_held a now l c) \<Longrightarrow> locked_command a now l db = None"
  by (auto simp: locked_command_def find_None_iff)

text \<open>Without a row that carries the lease every transaction of a worker leaves the database as it is.\<close>

lemma powerless:
  assumes "lease_step p w l db db'" and "\<And>a now c. c \<in> set (cd_commands db) \<Longrightarrow> \<not> lease_held a now l c"
  shows "db' = db"
proof -
  have none: "locked_command a now l db = None" for a now using assms(2) by (rule unlocked)
  from assms(1) show ?thesis
    by cases (auto simp: none register_remote_def register_cancel_target_def renew_lease_def schedule_reconciliation_def
        postpone_cancel_def schedule_orphan_cancel_def remember_remote_terminal_def persist_progressive_update_def
        finalize_cancel_failure_def finalize_cancel_def record_remote_error_def finalize_def record_projection_error_def
        mark_waiting_human_def split: if_splits)
qed

lemma held_leased: "c \<in> set (cd_commands db) \<Longrightarrow> lease_held a now l c \<Longrightarrow> command_leased (cl_command_id l) (cl_fence_token l) db"
  by (auto simp: lease_held_def command_leased_def)

lemma dispatcher_claim: "claim_next_command (sv_command sp) w fresh busy now db = Inr (x, db') \<Longrightarrow> system_step sp db db'"
  by (auto simp: system_step_def intro: dispatcher_step.claim)

text \<open>
  C4. A worker that lost its lease can do nothing any more: once the same command was claimed again,
  after whatever transactions of dispatchers and clients, and whatever happened since, none of the
  transactions a worker performs under the earlier lease changes the database.
\<close>

theorem superseded_command_lease_is_powerless:
  assumes s: "sound db0"
    and first: "claim_next_command (sv_command sp) w fresh busy now db0 = Inr (Some l, db1)"
    and between: "(system_step sp)\<^sup>*\<^sup>* db1 db2"
    and again: "claim_next_command (sv_command sp) w' fresh' busy' now' db2 = Inr (Some l', db3)"
    and same: "cl_command_id l' = cl_command_id l"
    and later: "(system_step sp)\<^sup>*\<^sup>* db3 db4"
    and late: "lease_step (sv_command sp) w'' l db4 db5"
  shows "cl_fence_token l < cl_fence_token l' \<and> db5 = db4"
proof -
  have s1: "sound db1" using sound_moves [OF claim_moves [OF first s] s] .
  note m12 = system_moves [OF between s1]
  have s2: "sound db2" using sound_moves [OF m12 s1] .
  have s3: "sound db3" using sound_moves [OF claim_moves [OF again s2] s2] .
  have "cl_fence_token l = command_fence (cl_command_id l) db1"
    using cl.holder [OF s1 claimed_lease(2) [OF first s]] by simp
  also have "\<dots> \<le> command_fence (cl_command_id l) db2" by (rule cl.fence_grows_all [OF m12 s1])
  also have "\<dots> = cl_fence_token l' - 1" using claimed_lease(1) [OF again s2] same by simp
  finally have less: "cl_fence_token l < cl_fence_token l'" by simp
  have "command_fence (cl_command_id l) db3 = cl_fence_token l'"
    using cl.holder [OF s3 claimed_lease(2) [OF again s2]] same by simp
  with less have "\<not> command_leased (cl_command_id l) (cl_fence_token l) db4"
    by (intro cl.superseded [OF system_moves [OF later s3] s3]) simp
  with held_leased have "db5 = db4" by (intro powerless [OF late]) blast
  with less show ?thesis ..
qed

section \<open>The order of a thread's commands\<close>

lemma in_order_moves: "command_move\<^sup>*\<^sup>* db db' \<Longrightarrow> sound db \<Longrightarrow> in_order db \<Longrightarrow> in_order db'"
  by (induction rule: rtranclp_induct) (auto intro: in_order_move sound_moves)

text \<open>
  C5. However the dispatchers and the clients interleave, a command is in dispatch only when every
  command before it in its thread is finished.
\<close>

theorem thread_commands_run_in_order:
  assumes "sound db0" and "in_order db0" and "(system_step sp)\<^sup>*\<^sup>* db0 db"
    and "c \<in> set (cd_commands db)" and "tc_status c = ''dispatching''"
    and "d \<in> set (cd_commands db)" and "tc_thread_id d = tc_thread_id c" and "tc_sequence d < tc_sequence c"
  shows "tc_status d \<notin> {''pending'', ''dispatching''}"
proof -
  have "in_order db" by (rule in_order_moves [OF system_moves [OF assms(3,1)] assms(1,2)])
  with assms(4,5) have "\<not> prior_unfinished db c" by (simp add: in_order_def)
  with assms(6-8) have "\<not> open_command (tc_status d)" unfolding prior_unfinished_def by blast
  then show ?thesis by (simp add: open_command_def)
qed

section \<open>A review is answered once\<close>

definition answered :: "uuid \<Rightarrow> command_db \<Rightarrow> bool" where
  "answered i db \<longleftrightarrow> i \<in> pause_ids (cd_pauses db) \<and> i \<notin> pending_ids (cd_pauses db)"

lemma answered_move: "command_move db db' \<Longrightarrow> answered i db \<Longrightarrow> answered i db'"
proof (induction rule: command_move.induct)
  case (settle j db db')
  then have "pauses_kept (cd_pauses db) (cd_pauses db')" by (simp add: affects_def)
  with settle(2) show ?case unfolding answered_def pauses_kept_def by blast
next
  case (release db busy w now)
  then show ?case by (simp add: answered_def released_tables)
next
  case (lease c db w now)
  then show ?case by (simp add: answered_def set_command_def)
next
  case (enqueue c db db')
  then have "cd_pauses db' = cd_pauses db" by (auto simp: insert_command_def)
  with enqueue show ?case by (simp add: answered_def)
next
  case (admit h db db1 t db')
  then have "cd_pauses db' = cd_pauses db" by (auto simp: add_thread_def add_task_def)
  with admit show ?case by (simp add: answered_def)
qed

lemma answered_moves: "command_move\<^sup>*\<^sup>* db db' \<Longrightarrow> answered i db \<Longrightarrow> answered i db'"
  by (induction rule: rtranclp_induct) (auto intro: answered_move)

lemma answered_status: "answered (ip_id q) db \<Longrightarrow> q \<in> set (cd_pauses db) \<Longrightarrow> ip_status q \<noteq> ''pending''"
  by (auto simp: answered_def pending_ids_def)

lemma answer_written:
  assumes "respond_interrupts sp fresh now ac text rq key db = Inr (x, db')" and "db' \<noteq> db"
  shows "\<exists>q \<in> set (cd_pauses db). ip_id q = xs_pause_id rq \<and> ip_status q = ''pending''
     \<and> (\<exists>ra t r answers docs h k cs. accept_answers fresh now ra t q r answers docs h k cs db = Inr db')"
proof -
  have "\<exists>q P t ms r. find (\<lambda>y. ip_id y = xs_pause_id rq \<and> P y) (cd_pauses db) = Some q \<and> answerable now t q ms db = Some r
      \<and> (\<exists>ra t r answers docs h k cs. accept_answers fresh now ra t q r answers docs h k cs db = Inr db')"
    using assms by (auto simp: respond_interrupts_def rbind_Inr_iff Let_def chosen) (rule exI conjI | assumption)+
  then obtain q P t ms r where q: "find (\<lambda>y. ip_id y = xs_pause_id rq \<and> P y) (cd_pauses db) = Some q"
      "answerable now t q ms db = Some r"
    and acc: "\<exists>ra t r answers docs h k cs. accept_answers fresh now ra t q r answers docs h k cs db = Inr db'" by blast
  from q(1) have "q \<in> set (cd_pauses db)" "ip_id q = xs_pause_id rq" by (auto simp: find_Some_iff)
  moreover from q(2) have "ip_status q = ''pending''" by (auto simp: answerable_def chosen split: option.splits if_splits)
  ultimately show ?thesis using acc by blast
qed

lemma accepted_is_answered:
  assumes "accept_answers fresh now ra t q r answers docs h k cs db = Inr db'" and "q \<in> set (cd_pauses db)"
  shows "answered (ip_id q) db'"
proof -
  have "cd_pauses db' = update_where (\<lambda>p. ip_id p = ip_id q) (\<lambda>q. q\<lparr>ip_status := ''responding'',
      ip_resume_run_id := Some (fi_run fresh), ip_accepted_payload_hash := Some h\<rparr>) (cd_pauses db)"
    using assms(1) by (auto simp: accept_answers_def rbind_Inr_iff insert_run_def set_members_def set_pause_def insert_command_def)
  note rows = this
  have "pause_ids (cd_pauses db') = pause_ids (cd_pauses db)" unfolding rows pause_ids_def by (rule image_key_update_where) simp
  moreover have "ip_id q \<notin> pending_ids (cd_pauses db')" unfolding rows
    by (auto simp: pending_ids_def update_where_def split: if_splits)
  ultimately show ?thesis using assms(2) by (simp add: answered_def pause_ids_def)
qed

text \<open>
  C6. A review is answered once: after a client's answer was accepted, whatever happens later, the
  pause never waits for an answer again, and no second answer to it, by anybody, with any key, writes
  anything.
\<close>

theorem accepted_answer_is_final:
  assumes s: "sound db" and accepted: "respond_interrupts sp fresh now ac text rq key db = Inr (x, db1)" "db1 \<noteq> db"
    and later: "(system_step sp)\<^sup>*\<^sup>* db1 db2" and same: "xs_pause_id rq' = xs_pause_id rq"
  shows "(\<forall>q \<in> set (cd_pauses db2). ip_id q = xs_pause_id rq \<longrightarrow> ip_status q \<noteq> ''pending'')
     \<and> (\<forall>y db3. respond_interrupts sp fresh' now' ac' text' rq' key' db2 = Inr (y, db3) \<longrightarrow> db3 = db2)"
proof -
  from answer_written [OF accepted] obtain q where "q \<in> set (cd_pauses db)" "ip_id q = xs_pause_id rq"
    "\<exists>ra t r answers docs h k cs. accept_answers fresh now ra t q r answers docs h k cs db = Inr db1" by blast
  with accepted_is_answered have a: "answered (xs_pause_id rq) db1" by metis
  have "sound db1" by (rule sound_moves [OF respond_interrupts_moves [OF accepted(1) s] s])
  from answered_moves [OF system_moves [OF later this] a] have a2: "answered (xs_pause_id rq) db2" .
  have "db3 = db2" if e: "respond_interrupts sp fresh' now' ac' text' rq' key' db2 = Inr (y, db3)" for y db3
  proof (rule ccontr)
    assume "db3 \<noteq> db2"
    from answer_written [OF e this] obtain q where "q \<in> set (cd_pauses db2)" "ip_id q = xs_pause_id rq'" "ip_status q = ''pending''"
      by blast
    with a2 answered_status same show False by metis
  qed
  moreover from a2 answered_status have "\<forall>q \<in> set (cd_pauses db2). ip_id q = xs_pause_id rq \<longrightarrow> ip_status q \<noteq> ''pending''" by metis
  ultimately show ?thesis by blast
qed

end
