(* ===== verification/Command_Stuck.thy ===== *)
theory Command_Stuck
  imports Command_Properties
begin

text \<open>
  Where the dispatcher gets stuck: a task whose last open command an interrupted cleanup closed, a
  queue whose oldest request it cannot read, a retry it refuses although the API accepted it, and a
  create it repeats although the first one may have succeeded.
\<close>

section \<open>A stranded task\<close>

text \<open>A running task without an open command.\<close>

definition stranded :: "task_row \<Rightarrow> command_db \<Rightarrow> bool" where
  "stranded t db \<longleftrightarrow> task_at (tr_id t) db = Some t \<and> tr_status t = ''running''
     \<and> (\<forall>c \<in> set (cd_commands db). tc_task_id c = tr_id t \<longrightarrow> \<not> open_command (tc_status c))"

lemma task_at_kept:
  assumes "affects j db db'" and "j \<noteq> i"
  shows "task_at i db' = task_at i db"
proof -
  have "find (\<lambda>t. tr_id t = i) us = find (\<lambda>t. tr_id t = i) ts" if "list_all2 (task_kept j) ts us" for ts us
    using that by (induction rule: list_all2_induct) (use assms(2) in \<open>auto simp: task_kept_def task_same_def\<close>)
  with assms(1) show ?thesis by (simp add: affects_def task_at_def)
qed

lemma stranded_affects:
  assumes "affects j db db'" and "j \<noteq> tr_id t" and "stranded t db"
  shows "stranded t db'"
  unfolding stranded_def
proof (intro conjI ballI impI)
  show "task_at (tr_id t) db' = Some t" "tr_status t = ''running''"
    using assms(3) task_at_kept [OF assms(1,2)] by (simp_all add: stranded_def)
  fix d assume d: "d \<in> set (cd_commands db')" "tc_task_id d = tr_id t"
  from affects_commands_back [OF assms(1) d(1)] obtain c where c: "c \<in> set (cd_commands db)" "command_kept j c d" by blast
  with d(2) assms(2) have "d = c" by (auto simp: command_kept_def command_same_def)
  with c d(2) assms(3) show "\<not> open_command (tc_status d)" by (simp add: stranded_def)
qed

lemma stranded_tables:
  assumes "cd_tasks db' = cd_tasks db" and "set (cd_commands db') \<subseteq> insert c (set (cd_commands db))" and "tc_task_id c \<noteq> tr_id t"
    and "stranded t db"
  shows "stranded t db'"
  using assms by (auto simp: stranded_def task_at_def)

lemma claim_row_task: "k \<in> set (claim_rows busy now db) \<Longrightarrow> stranded t db \<Longrightarrow> tr_id (ck_task k) \<noteq> tr_id t"
  using claim_rowD task_atD unfolding stranded_def by metis

lemma stranded_claim:
  assumes e: "claim_next_command p w fresh busy now db = Inr (x, db')" and s: "sound db" and t: "stranded t db"
  shows "stranded t db'"
  using e s
proof (cases rule: claim_cases)
  case idle
  with t show ?thesis by simp
next
  case (refused k)
  from stranded_affects [OF refused(2) claim_row_task [OF refused(1) t] t] show ?thesis .
next
  case (leased k db2)
  note j = claim_row_task [OF leased(1) t]
  have sub: "set (cd_commands (set_command (tc_id (ck_command k)) (\<lambda>_. leased_command w now (ck_command k)) db2))
      \<subseteq> insert (leased_command w now (ck_command k)) (set (cd_commands db2))"
    by (auto simp: set_command_def update_where_def)
  have other: "tc_task_id (leased_command w now (ck_command k)) \<noteq> tr_id t"
    using j task_atD [OF claim_rowD(4) [OF leased(1)]] by (simp add: leased_command_def)
  have "stranded t (set_command (tc_id (ck_command k)) (\<lambda>_. leased_command w now (ck_command k)) db2)"
    by (rule stranded_tables [OF _ sub other stranded_affects [OF leased(2) j t]]) (simp add: set_command_def)
  from stranded_affects [OF leased(4) j this] show ?thesis .
qed

lemma stranded_expire:
  assumes e: "expire_due_interrupt p busy fresh now db = Inr (x, db')" and t: "stranded t db"
  shows "stranded t db'"
proof (cases "db' = db")
  case False
  with e obtain q u r where q: "due_pause busy now db = Some q" and u: "task_at (ip_task_id q) db = Some u"
    and x: "expire_pause p fresh now u r q db = Inr db'"
    by (auto simp: expire_due_interrupt_def rbind_Inr_iff split: option.splits if_splits)
  have "q \<in> set (filter (pause_due busy now db) (cd_pauses db))" by (rule first_by_Some [OF q [unfolded due_pause_def]])
  with u have waiting: "tr_status u = ''waiting_human''" by (simp add: pause_due_def)
  have u': "tr_id u \<noteq> tr_id t"
  proof
    assume "tr_id u = tr_id t"
    with task_atD [OF u] u have "task_at (tr_id t) db = Some u" by metis
    with t waiting show False by (simp add: stranded_def)
  qed
  define c where "c = expiry_command p fresh u q (expiry_payload q
     (sort_key im_id (filter (\<lambda>m. im_pause_id m = ip_id q \<and> im_task_id m = tr_id u) (cd_members db)))) (next_command_sequence (tr_id u) db)"
  from x have rows: "cd_tasks db' = cd_tasks db" "cd_commands db' = cd_commands db @ [c]"
    by (auto simp: expire_pause_def Let_def rbind_Inr_iff insert_run_def insert_command_def set_members_def set_pause_def c_def)
  have "tc_task_id c = tr_id u" by (simp add: c_def expiry_command_def)
  with u' have "tc_task_id c \<noteq> tr_id t" by simp
  from stranded_tables [OF rows(1) _ this t] rows(2) show ?thesis by simp
qed (use t in simp)

lemma stranded_lease:
  assumes step: "lease_step p w l db db'" and g: "granted l db" and s: "sound db" and t: "stranded t db"
  shows "stranded t db'"
proof (cases "cl_task_id l = tr_id t")
  case True
  have "\<not> lease_held a now l c" if c: "c \<in> set (cd_commands db)" for a now c
  proof
    assume h: "lease_held a now l c"
    from g obtain d where d: "d \<in> set (cd_commands db)" "tc_id d = cl_command_id l" "tc_task_id d = cl_task_id l"
      by (auto simp: granted_def)
    with h s keyed_command [OF _ c d(1)] have "c = d" by (simp add: lease_held_def sound_def)
    with d True t h show False by (auto simp: stranded_def lease_held_def open_command_def)
  qed
  with powerless [OF step] t show ?thesis by blast
next
  case False
  from s have "keyed db" by (simp add: sound_def)
  from stranded_affects [OF affects_lease_step [OF step this granted_issued [OF this g]] False t] show ?thesis .
qed

lemma stranded_step: "dispatcher_step p db db' \<Longrightarrow> sound db \<Longrightarrow> stranded t db \<Longrightarrow> stranded t db'"
proof (induction rule: dispatcher_step.induct)
  case (expire busy fresh now db x db')
  from stranded_expire [OF expire(1,3)] show ?case .
next
  case (claim w fresh busy now db x db')
  from stranded_claim [OF claim] show ?case .
next
  case (leased w l db db')
  from stranded_lease [OF leased] show ?case .
next
  case (release db busy w now)
  have "stranded t (release_worker_leases busy w now db) \<longleftrightarrow> stranded t db"
    by (simp add: stranded_def released_rows released_tables task_at_def)
  with release show ?case by simp
qed

lemma stranded_steps: "(dispatcher_step p)\<^sup>*\<^sup>* db db' \<Longrightarrow> sound db \<Longrightarrow> stranded t db \<Longrightarrow> stranded t db' \<and> sound db'"
  by (induction rule: rtranclp_induct) (auto intro: stranded_step dispatcher_step_moves sound_moves)


section \<open>An unreadable request\<close>

lemma first_by_unique:
  assumes "x \<in> set xs" and "\<And>y. y \<in> set xs \<Longrightarrow> y \<noteq> x \<Longrightarrow> key x < key y"
  shows "first_by key xs = Some x"
proof -
  from assms(1) obtain y where y: "first_by key xs = Some y"
    by (cases "sort_key key xs") (auto simp: first_by_def dest: arg_cong [of _ _ set])
  from first_by_least [OF y assms(1)] assms(2) [OF first_by_Some [OF y]] have "y = x" using leD by blast
  with y show ?thesis by simp
qed

lemma claim_row_command: "claim_row_of db c = Some k \<Longrightarrow> ck_command k = c"
  by (auto simp: claim_row_of_def Let_def split: option.splits)

text \<open>The oldest command that is due is the one a claim takes, whoever claims and whenever.\<close>

lemma oldest_is_first:
  assumes c: "c \<in> set (cd_commands db)" and row: "claim_row_of db c = Some k" and due: "k \<in> set (claim_rows busy now db)"
    and oldest: "\<forall>d \<in> set (cd_commands db). d \<noteq> c \<longrightarrow> tc_created_at c < tc_created_at d"
  shows "first_by claim_order (claim_rows busy now db) = Some k"
proof (rule first_by_unique [OF due])
  fix j assume j: "j \<in> set (claim_rows busy now db)" "j \<noteq> k"
  then obtain d where d: "d \<in> set (cd_commands db)" "claim_row_of db d = Some j"
    by (auto simp: claim_rows_def map_filter_def)
  with row j(2) have "d \<noteq> c" by auto
  with oldest d have "tc_created_at c < tc_created_at d" by blast
  then show "claim_order k < claim_order j"
    using claim_row_command [OF row] claim_row_command [OF d(2)] by (simp add: claim_order_def less_prod_simp)
qed

lemma unreadable_submission:
  assumes "get_or_null ''schema_version'' payload = JStr ''1.0''" and "json_get ''entry_kind'' payload \<noteq> None"
    and "cp_read_decision p payload = Some r" and "rt_status (route_decision_request r) = Admitted"
    and "len_between 2001 4000 (dr_query_text r)" and "opt_ok (len_between 1 32) (dr_horizon r)" and "dr_intent r \<noteq> Deep_research"
  shows "submission_of p task_type payload = Inl Bad_request"
proof -
  have "\<not> is_ok (graph_request_for_decision (cp_redact p) r)"
    using admitted_request_executable_iff [OF assms(4) _ assms(6)] assms(5,7) by (simp add: len_between_def)
  then obtain e where "graph_request_for_decision (cp_redact p) r = Inl e"
    by (cases "graph_request_for_decision (cp_redact p) r") (auto simp: is_ok_def)
  with assms(1-3) show ?thesis by (simp add: submission_of_def)
qed

lemma submit_without_submission:
  assumes "tc_command_type (ck_command k) = ''submit''" and "\<forall>r \<in> set (cd_runs db). \<not> run_of_task (ck_task k) r"
    and "submission_of p (tr_task_type (ck_task k)) (tr_request_payload (ck_task k)) = Inl e"
    and "first_by claim_order (claim_rows busy now db) = Some k"
  shows "\<exists>e. claim_next_command p w fresh busy now db = Inl e"
proof -
  have run: "latest_run (ck_task k) db = None" using assms(2) by (simp add: latest_run_def first_by_def filter_empty_conv)
  have "lease_target p w fresh now k None None None None db \<noteq> Inr z" for z
    using assms(1,3)
    by (auto simp: lease_target_def with_submitted_run_def cancelled_before_claim_def submitted_run_def new_run_def
        STARTING_COMMANDS_def lease_of_def Let_def rbind_Inr_iff leased_command_def)
  then obtain e where "lease_target p w fresh now k None None None None db = Inl e"
    by (cases "lease_target p w fresh now k None None None None db") auto
  with assms(1,4) run show ?thesis by (simp add: claim_next_command_def command_target_def)
qed


section \<open>A retry that is accepted and refused\<close>

lemma retry_written:
  assumes e: "retry_task sp fresh ac text key db = Inr (Shown i shown, db')" and n: "db' \<noteq> db"
  shows "\<exists>ra t r k. own_task ra i db = Some t \<and> write_retry sp fresh ra t r k (task_commands True ra t db) db = Inr db'
    \<and> latest_run t db = Some r \<and> (tr_status t = ''cancelled'' \<longrightarrow> rn_status r = ''cancelled'')"
  using assms
  by (auto simp: retry_task_def rbind_Inr_iff Let_def chosen cancelled_run_retryable_def) (rule exI conjI | assumption | simp)+

lemma persist_rows:
  assumes "persist_terminal_run p fresh now t r terminal fence True msg db = Inr db'"
  shows "cd_tasks db' = update_where (\<lambda>u. tr_id u = tr_id t) (\<lambda>_. ended_task now (tg_terminal_status terminal) t) (cd_tasks db)"
    and "cd_commands db' = cd_commands db"
  using assms
  by (auto simp: persist_terminal_run_def Let_def rbind_Inr_iff record_receipts_def record_events_def set_run_def set_task_def
      store_events_def)

lemma failed_by_claim:
  assumes e: "fail_run_or_task p fresh now c t run code typ msg db = Inr db'" and t: "t' \<in> set (cd_tasks db)" "tr_id t' = tr_id t"
    and c: "c' \<in> set (cd_commands db)" "tc_id c' = tc_id c"
  shows "(\<exists>u \<in> set (cd_tasks db'). tr_id u = tr_id t \<and> tr_status u = ''failed'')
     \<and> (\<exists>d \<in> set (cd_commands db'). tc_id d = tc_id c \<and> tc_status d = ''failed'')"
proof -
  have "cd_commands db' = update_where (\<lambda>d. tc_id d = tc_id c) (closed_command ''failed'') (cd_commands db)
      \<and> (\<exists>f. cd_tasks db' = update_where (\<lambda>u. tr_id u = tr_id t) f (cd_tasks db)
         \<and> (\<forall>u. tr_id u = tr_id t \<longrightarrow> tr_id (f u) = tr_id t \<and> tr_status (f u) = ''failed''))"
  proof (cases run)
    case None
    with e have "db' = set_task (tr_id t) (ended_task now ''failed'') (close_command (tc_id c) ''failed'' db)"
      by (simp add: fail_run_or_task_def)
    then show ?thesis
      by (auto simp: set_task_def close_command_def set_command_def ended_task_def intro!: exI [of _ "ended_task now ''failed''"])
  next
    case (Some r)
    with e have "persist_terminal_run p fresh now t r (failure_output code typ False None) (tc_sequence c) True (Some msg)
        (close_command (tc_id c) ''failed'' db) = Inr db'" by (simp add: fail_run_or_task_def)
    from persist_rows [OF this] show ?thesis
      by (auto simp: close_command_def set_command_def ended_task_def failure_output_def
          intro!: exI [of _ "\<lambda>_. ended_task now ''failed'' t"])
  qed
  then obtain f where rows: "cd_commands db' = update_where (\<lambda>d. tc_id d = tc_id c) (closed_command ''failed'') (cd_commands db)"
      "cd_tasks db' = update_where (\<lambda>u. tr_id u = tr_id t) f (cd_tasks db)"
    and f: "\<And>u. tr_id u = tr_id t \<Longrightarrow> tr_id (f u) = tr_id t \<and> tr_status (f u) = ''failed''" by blast
  from t have "f t' \<in> set (cd_tasks db')" by (force simp: rows set_update_where)
  moreover from c have "closed_command ''failed'' c' \<in> set (cd_commands db')" by (force simp: rows set_update_where)
  ultimately show ?thesis using f [OF t(2)] c(2) by (intro conjI bexI) (auto simp: closed_command_def)
qed

text \<open>
  C9. The API accepts a retry of a task whose run was cancelled and puts a command and a new run into the
  queue; the dispatcher accepts only failed and blocked runs as sources. The claim of that retry
  dispatches nothing and leaves both the command and the task failed.
\<close>

theorem retry_of_cancelled_run_fails:
  assumes s: "sound db" and runs: "distinct (map rn_id (cd_runs db))"
    and retried: "retry_task sp fresh ac text key db = Inr (Shown i shown, db1)" and new: "db1 \<noteq> db"
    and cancelled: "\<exists>t \<in> set (cd_tasks db). tr_id t = i \<and> tr_status t = ''cancelled''"
    and reads: "\<And>a b. cp_read_retry (sv_command sp) (retry_payload_json a b) = Some \<lparr>ry_source_run_id = a, ry_retry_run_id = b\<rparr>"
    and next': "first_by claim_order (claim_rows busy now db1) = Some k" "tc_id (ck_command k) = fi_command fresh"
    and claimed: "claim_next_command (sv_command sp) w fresh' busy now db1 = Inr (x, db2)"
  shows "x = None \<and> (\<exists>t \<in> set (cd_tasks db2). tr_id t = i \<and> tr_status t = ''failed'')
     \<and> (\<exists>c \<in> set (cd_commands db2). tc_id c = fi_command fresh \<and> tc_status c = ''failed'')"
proof -
  obtain ra t r ky where t: "own_task ra i db = Some t" and wr: "write_retry sp fresh ra t r ky (task_commands True ra t db) db = Inr db1"
    and r: "latest_run t db = Some r" and st: "tr_status t = ''cancelled'' \<longrightarrow> rn_status r = ''cancelled''"
    using retry_written [OF retried new] by blast
  note t' = own_taskD [OF t]
  from s have kd: "keyed db" by (simp add: sound_def)
  from kd t' cancelled have "tr_status t = ''cancelled''" by (auto simp: keyed_def distinct_map dest: inj_onD)
  with st have rs: "rn_status r = ''cancelled''" by simp
  have rin: "r \<in> set (cd_runs db)" using first_by_Some [OF r [unfolded latest_run_def]] by simp
  define c where "c = written_command fresh ra t ''retry'' (retry_payload_json (rn_id r) (fi_run fresh))
        (payload_hash (sv_command sp) (JObj [(''task_id'', JStr (tr_id t))])) (sequence_after (task_commands True ra t db)) ky"
  define q where "q = retry_run_of fresh t r db"
  from wr have rows: "cd_runs db1 = cd_runs db @ [q]" "cd_commands db1 = cd_commands db @ [c]"
      "cd_tasks db1 = update_where (\<lambda>u. tr_id u = tr_id t) (\<lambda>t. t\<lparr>tr_status := ''queued'', tr_completed_at := None\<rparr>) (cd_tasks db)"
    and clash: "\<forall>q' \<in> set (cd_runs db). \<not> run_clash q' q" "\<forall>d \<in> set (cd_commands db). \<not> command_clash d c"
    by (auto simp: write_retry_def rbind_Inr_iff insert_run_def insert_command_def reopen_task_def set_task_def c_def q_def)
  have q: "rn_id q = fi_run fresh" by (simp add: q_def retry_run_of_def new_run_def)
  have c: "tc_id c = fi_command fresh" "tc_command_type c = ''retry''" "tc_payload c = retry_payload_json (rn_id r) (fi_run fresh)"
      "tc_task_id c = i" using t' by (simp_all add: c_def written_command_def)
  note row = claim_rowD [OF first_by_Some [OF next'(1)]]
  have ck: "ck_command k = c" using row(1) next'(2) c(1) clash(2) by (auto simp: rows command_clash_def)
  have u: "ck_task k \<in> set (cd_tasks db1)" "tr_id (ck_task k) = i" using task_atD [OF row(4)] ck c(4) by simp_all
  have ne: "rn_id r \<noteq> fi_run fresh" using clash(1) rin q by (auto simp: run_clash_def)
  have "find (\<lambda>r'. scoped_run (ck_task k) (rn_id r) r' \<and> rn_status r' \<in> {''failed'', ''blocked''}) (cd_runs db1) = None"
  proof -
    have "r' = r" if "r' \<in> set (cd_runs db)" "rn_id r' = rn_id r" for r'
      using runs rin that by (auto simp: distinct_map dest: inj_onD)
    then have "rn_status r' = ''cancelled''" if "r' \<in> set (cd_runs db)" "rn_id r' = rn_id r" for r'
      using rs that by metis
    with ne q show ?thesis by (fastforce simp: find_None_iff rows scoped_run_def)
  qed
  then have tgt: "command_target (sv_command sp) fresh' now c (ck_task k) db1
      = refused (fail_run_or_task (sv_command sp) fresh' now c (ck_task k)
         (or_else (find (\<lambda>r'. scoped_run (ck_task k) (fi_run fresh) r' \<and> rn_retry_of_run_id r' = Some (rn_id r)) (cd_runs db1))
            (latest_run (ck_task k) db1)) ''invalid_retry_lineage'' ''CommandLineageError''
         ''Retry command does not match its Product Run lineage.'' db1)"
    using ne by (simp add: command_target_def c reads retry_target_def checked_def valid_retry_payload_def Let_def)
  from claimed next'(1) tgt ck have "x = None" and f: "fail_run_or_task (sv_command sp) fresh' now c (ck_task k)
         (or_else (find (\<lambda>r'. scoped_run (ck_task k) (fi_run fresh) r' \<and> rn_retry_of_run_id r' = Some (rn_id r)) (cd_runs db1))
            (latest_run (ck_task k) db1)) ''invalid_retry_lineage'' ''CommandLineageError''
         ''Retry command does not match its Product Run lineage.'' db1 = Inr db2"
    by (auto simp: claim_next_command_def refused_def rbind_Inr_iff)
  have "c \<in> set (cd_commands db1)" by (simp add: rows)
  from failed_by_claim [OF f u(1) _ this] \<open>x = None\<close> u(2) c(1) show ?thesis by simp
qed

end
