(* ===== verification/Command_Creates.thy ===== *)
theory Command_Creates
  imports Command_Properties
begin

text \<open>
  Official runs are created once: a claim marks the run before anything is created, and a run that
  carries the mark is only looked for. The mark is lost in one place, where an unclear create whose
  deadline has passed is treated like an outage.
\<close>

section \<open>The run of a lease\<close>

lemma target_run: "command_target p fresh now c t db = Inr (Target (Some r) y f source) \<Longrightarrow> r \<in> set (cd_runs db)"
  by (auto simp: command_target_def cancel_run_target_def respond_target_def fork_target_def retry_target_def refused_def
      rbind_Inr_iff Let_def latest_run_def scoped_run_at_def find_Some_iff chosen dest!: first_by_Some split: if_splits)

lemma with_intents_runs: "with_intents w fresh now c t run db = Inr db' \<Longrightarrow> cd_runs db' = cd_runs db"
  by (auto simp: with_intents_def rbind_Inr_iff split: option.splits if_splits)

lemma started_reconcile [simp]: "reconcile_only typ (Some (started_run w now r)) kind = reconcile_only typ (Some r) kind"
  by (simp add: reconcile_only_def started_run_def)

lemma started_same [simp]: "rn_id (started_run w now r) = rn_id r" "rn_official_run_id (started_run w now r) = rn_official_run_id r"
  "rn_failure_code (started_run w now r) = rn_failure_code r"
  by (simp_all add: started_run_def)

lemma intent_marked_id [simp]: "rn_id (intent_marked typ r) = rn_id r" "rn_official_run_id (intent_marked typ r) = rn_official_run_id r"
  by (simp_all add: intent_marked_def split: option.split)

lemma handle_without_run: "rn_official_run_id r = None \<Longrightarrow> handle_of h (Some r) = None"
  by (simp add: handle_of_def nonempty_text_def checked_def split: option.split)

lemma lease_of_fields:
  assumes "lease_of p w k c run0 run y f source db = Inr l"
  shows "cl_command_type l = tc_command_type c" "cl_product_run_id l = map_option rn_id run"
    "cl_submit_reconcile_only l = reconcile_only (cl_command_type l) run0 ''submit''"
    "cl_resume_reconcile_only l = reconcile_only (cl_command_type l) run0 ''resume''"
    "cl_fork_reconcile_only l = reconcile_only (cl_command_type l) run0 ''fork''"
    "cl_command_type l \<noteq> ''cancel_task'' \<Longrightarrow> cl_remote_handle l = or_else (handle_of (ck_thread k) run) None"
  using assms by (auto simp: lease_of_def Let_def rbind_Inr_iff)

text \<open>The run the lease names, as it was before the claim and as the claim leaves it.\<close>

lemma claimed_run:
  assumes e: "claim_next_command p w fresh busy now db = Inr (Some l, db')" and start: "cl_command_type l \<in> set STARTING_COMMANDS"
  obtains r where "r \<in> set (cd_runs db) \<or> rn_id r \<notin> rn_id ` set (cd_runs db)" "cl_product_run_id l = Some (rn_id r)"
    "intent_marked (cl_command_type l) (started_run w now r) \<in> set (cd_runs db')"
    "rn_official_run_id r = None \<Longrightarrow> cl_remote_handle l = None"
    "cl_submit_reconcile_only l = reconcile_only (cl_command_type l) (Some r) ''submit''"
    "cl_resume_reconcile_only l = reconcile_only (cl_command_type l) (Some r) ''resume''"
    "cl_fork_reconcile_only l = reconcile_only (cl_command_type l) (Some r) ''fork''"
proof -
  from e obtain k run y f source where tgt: "command_target p fresh now (ck_command k) (ck_task k) db = Inr (Target run y f source)"
    and t: "lease_target p w fresh now k run y f source db = Inr (Some l, db')"
    by (rule claimed_target)
  let ?c = "ck_command k" and ?t = "ck_task k"
  have ty: "tc_command_type ?c = cl_command_type l" using lease_target_lease [OF t] by simp
  from t obtain run1 db1 db2 where 1: "with_submitted_run w fresh now ?c ?t run db = Inr (run1, db1)"
    and 2: "with_intents w fresh now ?c ?t run1 db1 = Inr db2"
    by (auto simp: lease_target_def Let_def rbind_Inr_iff)
  from t 1 2 have n: "\<not> cancelled_before_claim ?c ?t run1 db2" by (auto simp: lease_target_def Let_def)
  from t 1 2 n start ty obtain r where r: "run1 = Some r"
    by (cases run1) (auto simp: lease_target_def Let_def rbind_Inr_iff)
  define r2 where "r2 = intent_marked (cl_command_type l) (started_run w now r)"
  from t 1 2 n start ty r obtain db3 where lo: "lease_of p w k (leased_command w now ?c) (Some (started_run w now r)) (Some r2) y f source db' = Inr l"
      and db': "db' = set_run (rn_id r) (\<lambda>_. r2) db3" and db3: "cd_runs db3 = cd_runs db2"
    by (auto simp: lease_target_def Let_def rbind_Inr_iff r2_def set_task_def set_command_def)
  from 1 r tgt target_run have r12: "r \<in> set (cd_runs db1)" "r \<in> set (cd_runs db) \<or> rn_id r \<notin> rn_id ` set (cd_runs db)"
    by (auto simp: with_submitted_run_def rbind_Inr_iff insert_run_def run_clash_def split: if_splits)
  have mem: "r2 \<in> set (cd_runs db')"
    using r12(1) with_intents_runs [OF 2] db3 by (auto simp: db' set_run_def set_update_where)
  have same: "rn_id r2 = rn_id r" "rn_official_run_id r2 = rn_official_run_id r" by (simp_all add: r2_def)
  show thesis
  proof (rule that)
    show "r \<in> set (cd_runs db) \<or> rn_id r \<notin> rn_id ` set (cd_runs db)" by (rule r12(2))
    show "intent_marked (cl_command_type l) (started_run w now r) \<in> set (cd_runs db')" using mem by (simp add: r2_def)
    show "cl_product_run_id l = Some (rn_id r)" "cl_submit_reconcile_only l = reconcile_only (cl_command_type l) (Some r) ''submit''"
      "cl_resume_reconcile_only l = reconcile_only (cl_command_type l) (Some r) ''resume''"
      "cl_fork_reconcile_only l = reconcile_only (cl_command_type l) (Some r) ''fork''"
      using lease_of_fields [OF lo] same by simp_all
    show "rn_official_run_id r = None \<Longrightarrow> cl_remote_handle l = None"
      using lease_of_fields [OF lo] same start by (auto simp: handle_without_run or_else_def STARTING_COMMANDS_def)
  qed
qed

section \<open>Rounds that create nothing\<close>

definition with_creates ::
  "(command_lease \<Rightarrow> creation) \<Rightarrow> (command_lease \<Rightarrow> remote_handle \<Rightarrow> respond_payload \<Rightarrow> creation)
     \<Rightarrow> (command_lease \<Rightarrow> remote_handle \<Rightarrow> fork_payload \<Rightarrow> creation) \<Rightarrow> dispatch_world \<Rightarrow> dispatch_world" where
  "with_creates f g h d = d\<lparr>dw_start := f, dw_resume := g, dw_fork := h\<rparr>"

lemma with_creates_fields [simp]:
  "dw_clock (with_creates f g h d) = dw_clock d" "dw_fresh (with_creates f g h d) = dw_fresh d"
  "dw_busy (with_creates f g h d) = dw_busy d" "dw_others (with_creates f g h d) = dw_others d"
  "dw_outage (with_creates f g h d) = dw_outage d" "dw_class_name (with_creates f g h d) = dw_class_name d"
  "dw_authorize (with_creates f g h d) = dw_authorize d" "dw_find (with_creates f g h d) = dw_find d"
  "dw_stream (with_creates f g h d) = dw_stream d" "dw_get (with_creates f g h d) = dw_get d"
  "dw_interrupts (with_creates f g h d) = dw_interrupts d" "dw_cancel (with_creates f g h d) = dw_cancel d"
  "dw_join (with_creates f g h d) = dw_join d"
  by (simp_all add: with_creates_def)

named_theorems create_free \<open>programs that do not look at the answers to creates\<close>

lemma transact_free [create_free]: "transact F (with_creates f g h d) s = transact F d s"
  by (cases s) (simp add: transact_def Let_def)

lemma finalize_free [create_free]: "finalize_with_recovery p w l t (with_creates f g h d) s = finalize_with_recovery p w l t d s"
  by (simp add: finalize_with_recovery_def andthen_def caught_def ret_def raising_def create_free split: prod.split sum.split)

lemma reconcile_later_free [create_free]: "reconcile_later w l (with_creates f g h d) s = reconcile_later w l d s"
  by (simp add: reconcile_later_def create_free)

lemma deadline_free [create_free]: "deadline_exceeded w l (with_creates f g h d) s = deadline_exceeded w l d s"
  by (simp add: deadline_exceeded_def create_free)

lemma interrupt_retry_free [create_free]:
  "schedule_interrupt_retry p w l e (with_creates f g h d) s = schedule_interrupt_retry p w l e d s"
  by (simp add: schedule_interrupt_retry_def andthen_def create_free split: prod.split sum.split)

lemma terminal_retry_free [create_free]:
  "schedule_terminal_retry p w l e (with_creates f g h d) s = schedule_terminal_retry p w l e d s"
  by (simp add: schedule_terminal_retry_def create_free)

lemma project_free [create_free]:
  "project_remote_terminal p w l h' st (with_creates f g h d) s = project_remote_terminal p w l h' st d s"
  by (simp add: project_remote_terminal_def andthen_def ret_def create_free split: prod.split sum.split reply.split)

lemma cancel_retry_free [create_free]: "schedule_cancel_retry p w l e (with_creates f g h d) s = schedule_cancel_retry p w l e d s"
  by (simp add: schedule_cancel_retry_def create_free)

lemma orphan_free [create_free]: "orphan_cancel p w l e (with_creates f g h d) s = orphan_cancel p w l e d s"
  by (simp add: orphan_cancel_def andthen_def ret_def create_free split: prod.split sum.split orphan_step.split)

lemma timeout_free [create_free]: "reconcile_or_timeout p w l h' (with_creates f g h d) s = reconcile_or_timeout p w l h' d s"
  by (simp add: reconcile_or_timeout_def andthen_def create_free
      split: prod.split sum.split reply.split cancel_result.split option.split)

lemma drain_parts_free [create_free]:
  "drain_parts p w l h' n ending ps (with_creates f g h d) s = drain_parts p w l h' n ending ps d s"
  by (induction p w l h' n ending ps arbitrary: s rule: drain_parts.induct)
    (simp_all add: andthen_def caught_def ret_def create_free split: prod.split sum.split option.split json.split bool.split)

lemma drain_free [create_free]: "drain_stream p w l h' (with_creates f g h d) s = drain_stream p w l h' d s"
  by (simp add: drain_stream_def ret_def create_free split: option.split prod.split)

lemma interrupted_free [create_free]: "mark_interrupted p w l i (with_creates f g h d) s = mark_interrupted p w l i d s"
  by (simp add: mark_interrupted_def ret_def create_free)

lemma report_free [create_free]: "report_error p w l e (with_creates f g h d) s = report_error p w l e d s"
  by (simp add: report_error_def create_free)

lemma follow_free [create_free]: "follow_run p w l h' (with_creates f g h d) s = follow_run p w l h' d s"
  by (simp add: follow_run_def andthen_def ret_def create_free split: prod.split sum.split bool.split option.split reply.split)

lemma cancel_finish_free [create_free]: "cancel_and_finish p w l hn (with_creates f g h d) s = cancel_and_finish p w l hn d s"
  by (simp add: cancel_and_finish_def Let_def authorized_def create_free split: option.split reply.split cancel_result.split)

lemma execute_cancel_free [create_free]: "execute_cancel p w l (with_creates f g h d) s = execute_cancel p w l d s"
  by (cases "cl_product_run_id l") (simp_all add: execute_cancel_def authorized_def andthen_def ret_def create_free split: option.split reply.split prod.split sum.split)

definition only_reconciles :: "command_lease \<Rightarrow> bool" where
  "only_reconciles l \<longleftrightarrow> (if cl_command_type l = ''respond'' then cl_resume_reconcile_only l
     else if cl_command_type l = ''fork'' then cl_fork_reconcile_only l else cl_submit_reconcile_only l)"

lemma obtain_free: "only_reconciles l \<Longrightarrow> obtain_handle w l (with_creates f g h d) s = obtain_handle w l d s"
  by (simp add: obtain_handle_def only_reconciles_def Let_def authorized_def ret_def split: option.split if_splits)

lemma execute_free:
  assumes "only_reconciles l \<or> is_cancel l \<or> cl_remote_handle l \<noteq> None"
  shows "execute_command p w l (with_creates f g h d) s = execute_command p w l d s"
  using assms
  by (auto simp: execute_command_def start_and_follow_def andthen_def ret_def authorized_def create_free obtain_free
      split: prod.split sum.split option.split registration.split)

section \<open>No second create\<close>

lemma starting_kind: "typ \<in> set STARTING_COMMANDS \<Longrightarrow> \<exists>kind. create_kind typ = Some kind"
  by (auto simp: STARTING_COMMANDS_def create_kind_def)

text \<open>The failure code that marks a run whose create may have happened.\<close>

definition create_marked :: "string \<Rightarrow> run_row \<Rightarrow> bool" where
  "create_marked typ r \<longleftrightarrow> rn_official_run_id r = None \<and> (case create_kind typ of None \<Rightarrow> False
     | Some kind \<Rightarrow> (case rn_failure_code r of None \<Rightarrow> False | Some code \<Rightarrow> code \<in> create_marks kind))"

lemma marked_reconciles:
  assumes "create_marked typ r" and "typ \<in> set STARTING_COMMANDS"
  shows "reconcile_only typ (Some r) (if typ = ''respond'' then ''resume'' else if typ = ''fork'' then ''fork'' else ''submit'')"
  using assms by (auto simp: create_marked_def reconcile_only_def create_kind_def STARTING_COMMANDS_def split: option.splits)

lemma intent_marked_marks:
  assumes "typ \<in> set STARTING_COMMANDS" and "rn_official_run_id r = None"
  shows "create_marked typ (intent_marked typ r)"
proof -
  from starting_kind [OF assms(1)] obtain kind where k: "create_kind typ = Some kind" by blast
  show ?thesis
  proof (cases "reconcile_only typ (Some r) kind")
    case True
    with k assms(2) show ?thesis by (auto simp: create_marked_def intent_marked_def reconcile_only_def split: option.splits)
  next
    case False
    with k assms(2) show ?thesis by (simp add: create_marked_def intent_marked_def create_marks_def)
  qed
qed

text \<open>
  C3. A claim leaves the run with an official identifier or with a mark that a create may have happened,
  and when the run carried the mark before the claim, the round is the same whatever a create would
  answer: the official run is looked up and never created.
\<close>

theorem no_second_create:
  assumes claimed: "claim_next_command p w fresh busy now db = Inr (Some l, db1)"
    and start: "cl_command_type l \<in> {''submit'', ''retry'', ''respond'', ''fork''}" and runs: "distinct (map rn_id (cd_runs db))"
  shows "(\<exists>r \<in> set (cd_runs db1). cl_product_run_id l = Some (rn_id r) \<and> (rn_official_run_id r \<noteq> None \<or> create_marked (cl_command_type l) r))
     \<and> (\<forall>r \<in> set (cd_runs db). cl_product_run_id l = Some (rn_id r) \<and> create_marked (cl_command_type l) r
          \<longrightarrow> execute_command p w l (d\<lparr>dw_start := f, dw_resume := g, dw_fork := h\<rparr>) s = execute_command p w l d s)"
proof -
  have ty: "cl_command_type l \<in> set STARTING_COMMANDS" using start by (auto simp: STARTING_COMMANDS_def)
  obtain r where r: "r \<in> set (cd_runs db) \<or> rn_id r \<notin> rn_id ` set (cd_runs db)" "cl_product_run_id l = Some (rn_id r)"
    "intent_marked (cl_command_type l) (started_run w now r) \<in> set (cd_runs db1)"
    and flags: "cl_submit_reconcile_only l = reconcile_only (cl_command_type l) (Some r) ''submit''"
    "cl_resume_reconcile_only l = reconcile_only (cl_command_type l) (Some r) ''resume''"
    "cl_fork_reconcile_only l = reconcile_only (cl_command_type l) (Some r) ''fork''"
    using claimed_run [OF claimed ty] by blast
  have "execute_command p w l (with_creates f g h d) s = execute_command p w l d s"
    if q: "q \<in> set (cd_runs db)" "cl_product_run_id l = Some (rn_id q)" "create_marked (cl_command_type l) q" for q
  proof -
    have "rn_id q = rn_id r" using q(2) r(2) by simp
    with r(1) q(1) runs have "q = r" by (metis (no_types) distinct_map image_eqI inj_onD)
    with marked_reconciles [OF q(3) ty] have "only_reconciles l" by (auto simp: only_reconciles_def flags split: if_splits)
    then show ?thesis by (intro execute_free) blast
  qed
  moreover have "rn_official_run_id r = None \<Longrightarrow> create_marked (cl_command_type l) (intent_marked (cl_command_type l) (started_run w now r))"
    using intent_marked_marks [OF ty] by simp
  ultimately show ?thesis using r(2,3) unfolding with_creates_def by (intro conjI bexI [OF _ r(3)]) auto
qed

section \<open>A second create after the deadline\<close>

lemma requeued_runs:
  "cd_runs (requeue_run w now c t st r code msg db) = update_where (\<lambda>q. rn_id q = rn_id r)
     (\<lambda>q. q\<lparr>rn_status := ''queued'', rn_failure_code := Some code, rn_failure_message := Some msg\<rparr>) (cd_runs db)"
  by (simp add: requeue_run_def set_command_def set_run_def set_task_def)

lemma late_respond_error:
  assumes "record_respond_error p w fresh now l y exc c r db = Inr db1" and "\<not> before_deadline now r"
    and "tc_attempt c < (if rp_expired y then cw_max_cancel_attempts w else cw_max_attempts w)"
  shows "\<exists>msg. cd_runs db1 = update_where (\<lambda>q. rn_id q = rn_id r)
     (\<lambda>q. q\<lparr>rn_status := ''queued'', rn_failure_code := Some ''agent_server_unavailable'', rn_failure_message := Some msg\<rparr>) (cd_runs db)"
  using assms by (auto simp: record_respond_error_def Let_def requeued_runs chosen)

text \<open>
  C10. The mark is lost after the deadline: when it is unclear whether a resume happened, the deadline has
  passed and attempts are left, the error handler treats it as an outage, and the next claim sends a
  second create.
\<close>

theorem uncertain_resume_is_created_again:
  assumes runs: "distinct (map rn_id (cd_runs db))"
    and lock: "locked_command True now l db = Some c" "lease_run l db = Some r" "rn_cancel_requested_at r = None"
    and respond: "cl_command_type l = ''respond''" "cl_respond_payload l = Some y"
    and late: "\<not> before_deadline now r" "tc_attempt c < (if rp_expired y then cw_max_cancel_attempts w else cw_max_attempts w)"
    and err: "record_remote_error p w fresh now l Resume_indeterminate db = Inr db1"
    and again: "claim_next_command p w' fresh' busy now' db1 = Inr (Some l', db2)" "cl_command_type l' = ''respond''"
      "cl_product_run_id l' = cl_product_run_id l"
    and ready: "cl_resume_handle l' = Some h" "cl_respond_payload l' = Some y'"
  shows "obtain_handle w' l' d s = with_heartbeat w' l' Resume_indeterminate (dw_resume d l' h y') d s"
proof -
  from lock respond err have "record_respond_error p w fresh now l y Resume_indeterminate c r db = Inr db1"
    by (simp add: record_remote_error_def)
  from late_respond_error [OF this late] obtain msg where rows: "cd_runs db1 = update_where (\<lambda>q. rn_id q = rn_id r)
     (\<lambda>q. q\<lparr>rn_status := ''queued'', rn_failure_code := Some ''agent_server_unavailable'', rn_failure_message := Some msg\<rparr>) (cd_runs db)" ..
  from lock(2) have r: "r \<in> set (cd_runs db)" "cl_product_run_id l = Some (rn_id r)"
    by (auto simp: lease_run_def run_at_def find_Some_iff split: option.splits)
  from again(2) have "cl_command_type l' \<in> set STARTING_COMMANDS" by (simp add: STARTING_COMMANDS_def)
  from claimed_run [OF again(1) this] obtain q where q: "q \<in> set (cd_runs db1) \<or> rn_id q \<notin> rn_id ` set (cd_runs db1)"
    "cl_product_run_id l' = Some (rn_id q)" "cl_resume_reconcile_only l' = reconcile_only (cl_command_type l') (Some q) ''resume''"
    by blast
  have same: "rn_id q = rn_id r" using q(2) again(3) r(2) by simp
  have "rn_id ` set (cd_runs db1) = rn_id ` set (cd_runs db)"
    unfolding rows by (rule image_key_update_where) simp
  with q(1) same r(1) have "q \<in> set (cd_runs db1)" by auto
  with same have "rn_failure_code q = Some ''agent_server_unavailable''" by (auto simp: rows set_update_where split: if_splits)
  then have "\<not> cl_resume_reconcile_only l'" by (simp add: q(3) reconcile_only_def create_marks_def)
  with again(2) ready show ?thesis by (simp add: obtain_handle_def)
qed

end
