(* ===== verification/Command_Rounds.thy ===== *)
theory Command_Rounds
  imports Command_Creates
begin

text \<open>
  Rounds and outputs: whatever a round of the dispatcher does, to the database it is a sequence of the
  system's transactions, and the output a worker projects is what the tables show.
\<close>

section \<open>A round as transactions\<close>

lemma granted_move:
  assumes "command_move db db'" and "sound db" and "granted l db"
  shows "granted l db'"
proof -
  from assms(3) obtain c where c: "c \<in> set (cd_commands db)" "tc_id c = cl_command_id l" "tc_task_id c = cl_task_id l"
    by (auto simp: granted_def)
  have "\<exists>d \<in> set (cd_commands db'). tc_id d = tc_id c \<and> tc_task_id d = tc_task_id c"
    using assms(1)
  proof cases
    case (settle i)
    then have "list_all2 (command_kept i) (cd_commands db) (cd_commands db')" by (simp add: affects_def)
    from list_all2_forth [OF this c(1)] show ?thesis by (auto simp: command_kept_def command_same_def)
  next
    case (release busy w now)
    with c(1) show ?thesis by (auto simp: released_rows)
  next
    case (lease d w now)
    have rows: "set (cd_commands db') = insert (leased_command w now d) (set (cd_commands db) - {d})"
      unfolding lease(1) using assms(2) lease(2) by (intro lease_command_rows) (simp_all add: sound_def)
    have "tc_id (leased_command w now d) = tc_id d" "tc_task_id (leased_command w now d) = tc_task_id d"
      by (simp_all add: leased_command_def)
    with c(1) show ?thesis unfolding rows by (cases "c = d") auto
  next
    case (enqueue d)
    with c(1) show ?thesis by (auto simp: insert_command_def)
  next
    case (admit h db1 t)
    with c(1) show ?thesis by (auto simp: add_thread_def add_task_def)
  qed
  with c show ?thesis by (auto simp: granted_def)
qed

lemma granted_moves: "command_move\<^sup>*\<^sup>* db db' \<Longrightarrow> sound db \<Longrightarrow> granted l db \<Longrightarrow> granted l db'"
  by (induction rule: rtranclp_induct) (auto intro: granted_move sound_moves)

text \<open>\<open>follows\<close> says of a program that its writes, and those of the others meanwhile, are transactions.\<close>

definition steps_of_others :: "service_params \<Rightarrow> dispatch_world \<Rightarrow> bool" where
  "steps_of_others sp d \<longleftrightarrow> (\<forall>n db. (system_step sp)\<^sup>*\<^sup>* db (dw_others d n db))"

definition follows :: "service_params \<Rightarrow> (command_db \<Rightarrow> bool) \<Rightarrow> 'a work \<Rightarrow> bool" where
  "follows sp I m \<longleftrightarrow> (\<forall>d n db. steps_of_others sp d \<longrightarrow> sound db \<longrightarrow> I db \<longrightarrow> (system_step sp)\<^sup>*\<^sup>* db (snd (snd (m d (n, db)))))"

definition stays :: "(command_db \<Rightarrow> bool) \<Rightarrow> bool" where
  "stays I \<longleftrightarrow> (\<forall>db db'. command_move\<^sup>*\<^sup>* db db' \<longrightarrow> sound db \<longrightarrow> I db \<longrightarrow> I db')"

lemma stays_granted: "stays (granted l)" using granted_moves by (auto simp: stays_def)
lemma stays_true: "stays (\<lambda>_. True)" by (simp add: stays_def)

named_theorems follow_intros \<open>programs whose writes are transactions\<close>

lemma follows_ret [follow_intros]: "follows sp I (ret x)"
  by (simp add: follows_def ret_def)

lemma follows_raising [follow_intros]: "follows sp I (raising e)"
  by (simp add: follows_def raising_def)

lemma followsD:
  "follows sp I m \<Longrightarrow> steps_of_others sp d \<Longrightarrow> sound db \<Longrightarrow> I db \<Longrightarrow> m d (n, db) = (r, n', db') \<Longrightarrow> (system_step sp)\<^sup>*\<^sup>* db db'"
  unfolding follows_def by (metis snd_conv)

lemma stays_steps: "stays I \<Longrightarrow> (system_step sp)\<^sup>*\<^sup>* db db' \<Longrightarrow> sound db \<Longrightarrow> I db \<Longrightarrow> I db' \<and> sound db'"
  using system_moves sound_moves unfolding stays_def by blast

lemma follows_andthen:
  assumes m: "follows sp I m" and st: "stays I" and k: "\<And>x. follows sp I (f x)"
  shows "follows sp I (andthen m f)"
  unfolding follows_def
proof (intro allI impI)
  fix d n db assume o: "steps_of_others sp d" and s: "sound db" and i: "I db"
  obtain r n' db' where e: "m d (n, db) = (r, n', db')" by (cases "m d (n, db)") auto
  note one = followsD [OF m o s i e]
  show "(system_step sp)\<^sup>*\<^sup>* db (snd (snd (andthen m f d (n, db))))"
  proof (cases r)
    case (Inr x)
    obtain r2 n2 db2 where e2: "f x d (n', db') = (r2, n2, db2)" by (cases "f x d (n', db')") auto
    from stays_steps [OF st one s i] have "(system_step sp)\<^sup>*\<^sup>* db' db2" using followsD [OF k o _ _ e2] by blast
    with one show ?thesis by (simp add: andthen_def e Inr e2)
  qed (simp add: andthen_def e one)
qed

lemma follows_caught: "follows sp I m \<Longrightarrow> follows sp I (caught m)"
  by (auto simp: follows_def caught_def split: prod.split) (metis snd_conv)

lemma follows_transact:
  assumes st: "stays I"
    and F: "\<And>fresh now db x db'. F fresh now db = Inr (x, db') \<Longrightarrow> I db \<Longrightarrow> (system_step sp)\<^sup>*\<^sup>* db db'"
  shows "follows sp I (transact F)"
  unfolding follows_def
proof (intro allI impI)
  fix d n db assume o: "steps_of_others sp d" and s: "sound db" and i: "I db"
  then have one: "(system_step sp)\<^sup>*\<^sup>* db (dw_others d n db)" by (simp add: steps_of_others_def)
  from stays_steps [OF st one s i] have "I (dw_others d n db)" by simp
  with F one show "(system_step sp)\<^sup>*\<^sup>* db (snd (snd (transact F d (n, db))))"
    by (auto simp: transact_def Let_def split: sum.split) (meson rtranclp_trans)
qed

text \<open>The same at one world, for the programs that look at it.\<close>

definition runs :: "service_params \<Rightarrow> (command_db \<Rightarrow> bool) \<Rightarrow> dispatch_world
    \<Rightarrow> (nat \<times> command_db \<Rightarrow> (command_error, 'a) result \<times> nat \<times> command_db) \<Rightarrow> bool" where
  "runs sp I d f \<longleftrightarrow> (\<forall>n db. steps_of_others sp d \<longrightarrow> sound db \<longrightarrow> I db \<longrightarrow> (system_step sp)\<^sup>*\<^sup>* db (snd (snd (f (n, db)))))"

lemma followsI: "(\<And>d. runs sp I d (m d)) \<Longrightarrow> follows sp I m"
  by (simp add: follows_def runs_def)

lemma runs_of: "follows sp I m \<Longrightarrow> runs sp I d (m d)"
  by (simp add: follows_def runs_def)

section \<open>The transactions under a lease\<close>

lemma leased_system_step:
  "lease_step (sv_command sp) w l db db' \<Longrightarrow> granted l db \<Longrightarrow> (system_step sp)\<^sup>*\<^sup>* db db'"
  by (rule r_into_rtranclp) (simp add: system_step_def dispatcher_step.leased)

lemma follows_lease:
  assumes "\<And>fresh now db x db'. F fresh now db = Inr (x, db') \<Longrightarrow> db' = db \<or> lease_step (sv_command sp) w l db db'"
  shows "follows sp (granted l) (transact F)"
  using assms leased_system_step by (intro follows_transact stays_granted) blast

lemma written_Inr [simp]: "written x = Inr y \<longleftrightarrow> x = y"
  by (simp add: written_def)

lemmas follows_step = follows_lease [OF disjI2] follows_lease [OF disjI1]

lemma follows_chain: "follows sp (granted l) m \<Longrightarrow> (\<And>x. follows sp (granted l) (f x)) \<Longrightarrow> follows sp (granted l) (andthen m f)"
  by (rule follows_andthen [OF _ stays_granted])

lemma follows_finalize: "follows sp (granted l) (finalize_with_recovery (sv_command sp) w l t)"
  unfolding finalize_with_recovery_def
  by (intro follows_chain follows_caught)
    (auto split: sum.split intro!: follows_ret follows_raising follows_step(1) intro: lease_step.intros)

lemma follows_later: "follows sp (granted l) (reconcile_later w l)"
  unfolding reconcile_later_def by (rule follows_step(1)) (auto intro: lease_step.intros)

lemma follows_deadline: "follows sp (granted l) (deadline_exceeded w l)"
  unfolding deadline_exceeded_def by (rule follows_step(2)) simp

lemma follows_interrupt_retry: "follows sp (granted l) (schedule_interrupt_retry (sv_command sp) w l e)"
  unfolding schedule_interrupt_retry_def
  by (intro follows_chain follows_deadline) (simp add: follows_finalize follows_later)

lemma follows_terminal_retry: "follows sp (granted l) (schedule_terminal_retry (sv_command sp) w l e)"
  by (simp add: schedule_terminal_retry_def follows_finalize follows_later)

lemma follows_project: "follows sp (granted l) (project_remote_terminal (sv_command sp) w l h st)"
  unfolding project_remote_terminal_def
proof (intro follows_chain)
  show "follows sp (granted l) (transact (\<lambda>fresh now db. remember_remote_terminal now l st db))"
    by (rule follows_step(1)) (auto intro: lease_step.intros)
  show "follows sp (granted l) (if \<not> x then ret False else if st \<noteq> ''success''
       then finalize_with_recovery (sv_command sp) w l (failure_output
         (if st = ''timeout'' then ''agent_run_timeout'' else ''agent_run_error'') ''OfficialRunStatus'' (st = ''timeout'') None)
       else (\<lambda>d. (case dw_join d h of
          Timed_out \<Rightarrow> schedule_terminal_retry (sv_command sp) w l ''TimeoutError''
        | Broken e \<Rightarrow> schedule_terminal_retry (sv_command sp) w l (error_name_of e)
        | Reply out \<Rightarrow> finalize_with_recovery (sv_command sp) w l (observed_output (sv_command sp) (cl_task_type l) out)) d))" for x
    by (auto simp: follows_ret follows_finalize split: reply.split
        intro!: followsI runs_of [OF follows_terminal_retry] runs_of [OF follows_finalize])
qed

section \<open>Cancelling\<close>

lemma follows_cancel_retry: "follows sp (granted l) (schedule_cancel_retry (sv_command sp) w l e)"
  unfolding schedule_cancel_retry_def by (auto intro!: follows_step(1) intro: lease_step.intros)

lemma follows_finish_cancel: "follows sp (granted l) (transact (\<lambda>fresh now. finalize_cancel (sv_command sp) fresh now l))"
  by (rule follows_step(1)) (auto intro: lease_step.intros)

lemma follows_cancel: "follows sp (granted l) (cancel_and_finish (sv_command sp) w l hn)"
  by (rule followsI)
    (auto simp: cancel_and_finish_def Let_def split: option.split reply.split cancel_result.split
      intro: runs_of [OF follows_finish_cancel] runs_of [OF follows_cancel_retry] runs_of [OF follows_project])

lemma follows_cancel_target: "follows sp (granted l) (transact (\<lambda>fresh now. register_cancel_target now l h))"
  by (rule follows_step(1)) (auto intro: lease_step.intros)

lemma follows_registered_cancel:
  "follows sp (granted l) (andthen (transact (\<lambda>fresh now. register_cancel_target now l h)) (\<lambda>registered.
     if registered then cancel_and_finish (sv_command sp) w l hn else ret False))"
  by (intro follows_chain follows_cancel_target) (simp add: follows_cancel follows_ret)

lemma follows_execute_cancel: "follows sp (granted l) (execute_cancel (sv_command sp) w l)"
  by (rule followsI)
    (auto simp: execute_cancel_def split: option.split reply.split
      intro: runs_of [OF follows_terminal_retry] runs_of [OF follows_project] runs_of [OF follows_cancel]
        runs_of [OF follows_cancel_retry] runs_of [OF follows_registered_cancel])

lemma follows_orphan: "follows sp (granted l) (orphan_cancel (sv_command sp) w l e)"
  unfolding orphan_cancel_def
proof (intro follows_chain)
  show "follows sp (granted l) (transact (\<lambda>fresh now db. written (schedule_orphan_cancel w now l db)))"
    by (rule follows_step(1)) (auto intro: lease_step.intros)
  show "follows sp (granted l) (case r of Orphan_lost \<Rightarrow> ret False | Orphan_postponed \<Rightarrow> ret True
     | Orphan_exhausted \<Rightarrow> transact (\<lambda>fresh now. finalize_cancel_failure (sv_command sp) fresh now l (Some e)
         ''orphan_cancel_unconfirmed'' ''Official Run cleanup after the orphan deadline could not be confirmed.''))" for r
    by (cases r) (auto simp: follows_ret intro!: follows_step(1) intro: lease_step.intros)
qed

lemma follows_timeout: "follows sp (granted l) (reconcile_or_timeout (sv_command sp) w l h)"
  unfolding reconcile_or_timeout_def
  by (intro follows_chain follows_deadline)
    (auto simp: follows_later split: reply.split cancel_result.split option.split
      intro!: followsI intro: runs_of [OF follows_orphan] runs_of [OF follows_project] runs_of [OF follows_finalize])

section \<open>Creating and following\<close>

lemma follows_renewals: "follows sp (granted l) (renewals w l n)"
proof (induction n)
  case (Suc n)
  have "follows sp (granted l) (transact (\<lambda>fresh now db. written (renew_lease w now l db)))"
    by (rule follows_step(1)) (auto intro: lease_step.intros)
  with Suc show ?case by (auto intro!: follows_chain simp: follows_ret)
qed (simp add: follows_ret)

lemma follows_heartbeat: "follows sp (granted l) (with_heartbeat w l e call)"
  unfolding with_heartbeat_def
  by (intro follows_chain follows_caught follows_renewals followsI) (auto split: sum.split bool.split intro: runs_of [OF follows_ret])

lemma follows_obtain: "follows sp (granted l) (obtain_handle w l)"
  by (rule followsI)
    (auto simp: obtain_handle_def Let_def split: option.split intro: runs_of [OF follows_ret] runs_of [OF follows_heartbeat])

lemma follows_progress:
  "follows sp (granted l) (transact (\<lambda>fresh now. persist_progressive_update (sv_command sp) w fresh now l h i u))"
  by (rule follows_step(1)) (auto intro: lease_step.intros)

lemma follows_parts: "follows sp (granted l) (drain_parts (sv_command sp) w l h n ending ps)"
proof (induction ps arbitrary: n)
  case (Cons part ps)
  have "follows sp (granted l) (andthen (caught (transact (\<lambda>fresh now. persist_progressive_update (sv_command sp) w fresh now l h i u)))
      (\<lambda>r d. (case r of Inl e \<Rightarrow> ret (Inl (dw_class_name d e)) | Inr False \<Rightarrow> ret (Inr False)
        | Inr True \<Rightarrow> if cw_max_stream_events w \<le> n + 1 then ret (Inr True)
            else drain_parts (sv_command sp) w l h (n + 1) ending ps) d))" for i u
    by (intro follows_chain follows_caught follows_progress followsI)
      (auto split: sum.split bool.split intro: runs_of [OF follows_ret] runs_of [OF Cons.IH])
  with Cons.IH show ?case
    by (cases "sp_event part = ''updates''") (auto simp: follows_ret split: option.split json.split split del: if_split)
qed (simp add: follows_ret)

lemma follows_drain: "follows sp (granted l) (drain_stream (sv_command sp) w l h)"
  by (rule followsI)
    (auto simp: drain_stream_def split: option.split prod.split intro: runs_of [OF follows_ret] runs_of [OF follows_parts])

lemma follows_interrupted: "follows sp (granted l) (mark_interrupted (sv_command sp) w l s)"
  unfolding mark_interrupted_def
  by (auto simp: follows_ret follows_finalize intro!: follows_step(1) intro: lease_step.intros)

lemma follows_report: "follows sp (granted l) (report_error (sv_command sp) w l e)"
  unfolding report_error_def
  by (rule follows_step(1)) (auto simp: rbind_Inr_iff intro: lease_step.intros)

lemma runs_interrupts:
  "runs sp (granted l) d ((case dw_interrupts d h of
      Timed_out \<Rightarrow> schedule_interrupt_retry (sv_command sp) w l ''TimeoutError''
    | Broken e \<Rightarrow> schedule_interrupt_retry (sv_command sp) w l (error_name_of e)
    | Reply s \<Rightarrow> mark_interrupted (sv_command sp) w l s) d)"
  by (cases "dw_interrupts d h") (simp_all add: runs_of [OF follows_interrupt_retry] runs_of [OF follows_interrupted])

lemma follows_run: "follows sp (granted l) (follow_run (sv_command sp) w l h)"
  unfolding follow_run_def
proof (intro follows_chain follows_drain followsI)
  fix x d
  show "runs sp (granted l) d ((case x of Inl e \<Rightarrow> report_error (sv_command sp) w l (Remote_failure e) | Inr False \<Rightarrow> ret False
     | Inr True \<Rightarrow> (case cl_observed_terminal_status l of
          Some status \<Rightarrow> project_remote_terminal (sv_command sp) w l h status
        | None \<Rightarrow> (\<lambda>d. (case dw_get d h of
            Timed_out \<Rightarrow> reconcile_or_timeout (sv_command sp) w l h
          | Broken e \<Rightarrow> reconcile_or_timeout (sv_command sp) w l h
          | Reply status \<Rightarrow>
              if status \<in> {''pending'', ''running''} then reconcile_or_timeout (sv_command sp) w l h
              else if status = ''interrupted'' then
                (case dw_interrupts d h of
                   Timed_out \<Rightarrow> schedule_interrupt_retry (sv_command sp) w l ''TimeoutError''
                 | Broken e \<Rightarrow> schedule_interrupt_retry (sv_command sp) w l (error_name_of e)
                 | Reply s \<Rightarrow> mark_interrupted (sv_command sp) w l s)
              else project_remote_terminal (sv_command sp) w l h status) d))) d)"
  proof (cases x)
    case (Inr b)
    then show ?thesis
      by (cases b; cases "cl_observed_terminal_status l"; cases "dw_get d h")
        (simp_all add: runs_of [OF follows_ret] runs_of [OF follows_project] runs_of [OF follows_timeout] runs_interrupts)
  qed (simp add: runs_of [OF follows_report])
qed

lemma follows_start: "follows sp (granted l) (start_and_follow (sv_command sp) w l)"
  unfolding start_and_follow_def
proof (intro follows_chain follows_obtain)
  have r: "follows sp (granted l) (transact (\<lambda>fresh now. register_remote w now l h))" for h
    by (rule follows_step(1)) (auto intro: lease_step.intros)
  show "follows sp (granted l) (case x of Inl e \<Rightarrow> report_error (sv_command sp) w l e | Inr None \<Rightarrow> ret False
     | Inr (Some h) \<Rightarrow> andthen (transact (\<lambda>fresh now. register_remote w now l h)) (\<lambda>registration. case registration of
         Cancel_requested \<Rightarrow> ret True | Lost \<Rightarrow> ret False | Registered \<Rightarrow> follow_run (sv_command sp) w l h))" for x
    by (auto simp: follows_report follows_ret follows_run split: sum.split option.split registration.split
        intro!: follows_chain r)
qed

lemma follows_execute: "follows sp (granted l) (execute_command (sv_command sp) w l)"
  unfolding execute_command_def
  by (intro follows_chain follows_step(2))
    (auto simp: follows_ret follows_execute_cancel follows_start split: option.split
      intro!: followsI intro: runs_of [OF follows_run])

section \<open>Refinement\<close>

text \<open>A claim hands out a lease on a row that exists; what the round does then is done under it.\<close>

lemma dispatcher_system: "dispatcher_step (sv_command sp) db db' \<Longrightarrow> (system_step sp)\<^sup>*\<^sup>* db db'"
  by (rule r_into_rtranclp) (simp add: system_step_def)

lemma follows_claimed:
  assumes o: "steps_of_others sp d" and s: "sound db"
  shows "(system_step sp)\<^sup>*\<^sup>* db (snd (snd (andthen (\<lambda>d s. transact (\<lambda>fresh. claim_next_command (sv_command sp) w fresh (dw_busy d (fst s))) d s)
     (\<lambda>claimed. case claimed of None \<Rightarrow> ret False | Some l \<Rightarrow> execute_command (sv_command sp) w l) d (n, db))))"
proof -
  define db1 where "db1 = dw_others d n db"
  have one: "(system_step sp)\<^sup>*\<^sup>* db db1" using o by (simp add: steps_of_others_def db1_def)
  have s1: "sound db1" using sound_moves [OF system_moves [OF one s] s] .
  show ?thesis
  proof (cases "dw_outage d n")
    case True
    with one show ?thesis by (simp add: andthen_def transact_def db1_def)
  next
    case False
    show ?thesis
    proof (cases "claim_next_command (sv_command sp) w (dw_fresh d n) (dw_busy d n) (dw_clock d n) db1")
      case (Inl e)
      with one False show ?thesis by (simp add: andthen_def transact_def db1_def)
    next
      case (Inr v)
      obtain x db2 where v: "v = (x, db2)" by (cases v)
      note e = Inr [unfolded v]
      have two: "(system_step sp)\<^sup>*\<^sup>* db1 db2" by (rule dispatcher_system) (rule dispatcher_step.claim [OF e])
      have s2: "sound db2" using sound_moves [OF claim_moves [OF e s1] s1] .
      show ?thesis
      proof (cases x)
        case None
        with one two False Inr v show ?thesis by (simp add: andthen_def transact_def db1_def ret_def)
      next
        case (Some l)
        have "granted l db2" using claimed_lease(3) [OF e [unfolded Some] s1] .
        with runs_of [OF follows_execute] o s2
        have "(system_step sp)\<^sup>*\<^sup>* db2 (snd (snd (execute_command (sv_command sp) w l d (Suc n, db2))))"
          unfolding runs_def by blast
        with one two Some False Inr v show ?thesis by (simp add: andthen_def transact_def db1_def)
      qed
    qed
  qed
qed

text \<open>
  C2. A round of the dispatcher, with every create, poll, stream and error on its way and with any
  transactions of others between its own, changes the database by a sequence of transactions of the
  system, and that is a sequence of moves of the abstract machine.
\<close>

theorem round_refines_transactions:
  assumes o: "\<forall>n db. (system_step sp)\<^sup>*\<^sup>* db (dw_others d n db)" and s: "sound db"
    and round: "dispatch_task_command (sv_command sp) w d (n, db) = (r, n', db')"
  shows "(system_step sp)\<^sup>*\<^sup>* db db' \<and> command_move\<^sup>*\<^sup>* db db'"
proof -
  have o': "steps_of_others sp d" using o by (simp add: steps_of_others_def)
  obtain r1 n1 db1 where e: "transact (expire_due_interrupt (sv_command sp) (dw_busy d n)) d (n, db) = (r1, n1, db1)"
    by (cases "transact (expire_due_interrupt (sv_command sp) (dw_busy d n)) d (n, db)") auto
  have "follows sp (\<lambda>_. True) (transact (expire_due_interrupt (sv_command sp) (dw_busy d n)))"
    by (intro follows_transact stays_true) (auto intro: dispatcher_system dispatcher_step.expire)
  from followsD [OF this o' s _ e] have one: "(system_step sp)\<^sup>*\<^sup>* db db1" by simp
  have s1: "sound db1" using sound_moves [OF system_moves [OF one s] s] .
  have "(system_step sp)\<^sup>*\<^sup>* db1 db'"
  proof (cases "r1 = Inr False")
    case True
    with round e have "db' = snd (snd (andthen (\<lambda>d s. transact (\<lambda>fresh. claim_next_command (sv_command sp) w fresh (dw_busy d (fst s))) d s)
     (\<lambda>claimed. case claimed of None \<Rightarrow> ret False | Some l \<Rightarrow> execute_command (sv_command sp) w l) d (n1, db1)))"
      by (simp add: dispatch_task_command_def andthen_def)
    with follows_claimed [OF o' s1] show ?thesis by simp
  next
    case False
    with round e have "db' = db1"
      by (cases r1) (auto simp: dispatch_task_command_def andthen_def ret_def)
    then show ?thesis by simp
  qed
  with one have "(system_step sp)\<^sup>*\<^sup>* db db'" by simp
  with system_moves [OF this s] show ?thesis by simp
qed

end
