(* ===== verification/Command_Outputs.thy ===== *)
theory Command_Outputs
  imports Command_Rounds
begin

text \<open>What is in the tables once a worker has projected an output.\<close>

section \<open>Settling the pauses leaves runs, tasks and commands alone\<close>

definition rows_same :: "command_db \<Rightarrow> command_db \<Rightarrow> bool" where
  "rows_same db db' \<longleftrightarrow> cd_runs db' = cd_runs db \<and> cd_tasks db' = cd_tasks db \<and> cd_commands db' = cd_commands db"

lemma rows_same_trans: "rows_same db db1 \<Longrightarrow> rows_same db1 db2 \<Longrightarrow> rows_same db db2"
  by (simp add: rows_same_def)

lemma set_members_rows: "set_members P f (set_pause i g db) = Inr db' \<Longrightarrow> rows_same db db'"
  by (auto simp: set_members_def set_pause_def rows_same_def)

lemma close_pauses_rows: "close_pauses l st qs db = Inr db' \<Longrightarrow> rows_same db db'"
proof (induction qs arbitrary: db)
  case (Cons q qs)
  then obtain db1 where "close_pause l st q db = Inr db1" "close_pauses l st qs db1 = Inr db'"
    by (auto simp: rbind_Inr_iff)
  then show ?case using Cons.IH by (auto simp: close_pause_def Let_def intro: rows_same_trans set_members_rows)
qed (simp add: rows_same_def)

lemma settle_rows: "settle_interrupts now l db = Inr db' \<Longrightarrow> rows_same db db'"
  by (auto simp: settle_interrupts_def close_active_interrupt_lineage_def resolve_responding_interrupt_def Let_def chosen
      intro: close_pauses_rows set_members_rows) (simp_all add: rows_same_def)

section \<open>The three rows of an output\<close>

definition run_shows :: "command_params \<Rightarrow> int \<Rightarrow> terminal_output \<Rightarrow> run_row \<Rightarrow> bool" where
  "run_shows p fence terminal r \<longleftrightarrow> rn_status r = tg_terminal_status terminal \<and> rn_output_payload r = Some (terminal_json p terminal)
     \<and> rn_terminal_output_hash r = Some (payload_hash p (terminal_json p terminal)) \<and> rn_projection_fence r = fence"

lemma failure_shows: "run_shows p fence terminal (run_failure terminal msg (ended_run p now fence terminal r))"
  by (simp add: run_shows_def run_failure_def ended_run_def split: list.split)

lemma run_failure_id [simp]: "rn_id (run_failure terminal msg r) = rn_id r"
  by (simp add: run_failure_def split: list.split)

lemma ended_run_id [simp]: "rn_id (ended_run p now fence terminal r) = rn_id r"
  by (simp add: ended_run_def)

lemma receipts_rows: "record_receipts p fresh now t r db = Inr db' \<Longrightarrow> rows_same db db'"
  by (auto simp: record_receipts_def rbind_Inr_iff rows_same_def)

lemma events_rows: "record_events p fresh now t r out n db = Inr db' \<Longrightarrow> rows_same db db'"
  by (auto simp: record_events_def rbind_Inr_iff store_events_def rows_same_def)

definition projected :: "command_params \<Rightarrow> instant \<Rightarrow> command_lease \<Rightarrow> command_row \<Rightarrow> task_row \<Rightarrow> run_row \<Rightarrow> terminal_output \<Rightarrow> command_db \<Rightarrow> bool" where
  "projected p now l c t r terminal db \<longleftrightarrow>
     (\<exists>q \<in> set (cd_runs db). rn_id q = rn_id r \<and> run_shows p (cl_command_sequence l) terminal q)
     \<and> ended_task now (tg_terminal_status terminal) t \<in> set (cd_tasks db)
     \<and> (\<exists>d \<in> set (cd_commands db). tc_id d = tc_id c \<and> tc_status d = ''dispatched'' \<and> tc_lease_owner d = None)"

lemma replay_projects:
  assumes e: "replay_terminal p fresh now l c t r terminal db = Inr (True, db')"
    and rows: "r \<in> set (cd_runs db)" "t \<in> set (cd_tasks db)" "c \<in> set (cd_commands db)"
  shows "projected p now l c t r terminal db'"
proof -
  define r1 where "r1 = ended_run p now (cl_command_sequence l) terminal r"
  define r2 where "r2 = run_failure terminal (rn_failure_message r) r1"
  define t1 where "t1 = ended_task now (tg_terminal_status terminal) t"
  from e obtain db1 db2 where 1: "record_receipts p fresh now t r1 (set_run (rn_id r) (\<lambda>_. r1) db) = Inr db1"
    and 2: "record_events p fresh now t1 r2 (terminal_json p terminal) None
      (set_task (tr_id t) (\<lambda>_. t1) (set_run (rn_id r) (\<lambda>_. r2) db1)) = Inr db2"
    and db': "db' = close_command (tc_id c) ''dispatched'' db2"
    by (auto simp: replay_terminal_def persist_terminal_run_def Let_def rbind_Inr_iff r1_def r2_def t1_def)
  have ids: "rn_id r1 = rn_id r" "rn_id r2 = rn_id r" "run_shows p (cl_command_sequence l) terminal r2"
    by (simp_all add: r1_def r2_def failure_shows)
  have "r1 \<in> set (cd_runs db1)" using receipts_rows [OF 1] rows(1)
    by (force simp: rows_same_def set_run_def set_update_where)
  then have "r2 \<in> set (cd_runs db')" using events_rows [OF 2] ids
    by (force simp: rows_same_def set_run_def set_task_def set_update_where db' close_command_def set_command_def)
  moreover have "t1 \<in> set (cd_tasks db')" using events_rows [OF 2] receipts_rows [OF 1] rows(2)
    by (force simp: rows_same_def set_run_def set_task_def set_update_where db' close_command_def set_command_def)
  moreover have "closed_command ''dispatched'' c \<in> set (cd_commands db')" using events_rows [OF 2] receipts_rows [OF 1] rows(3)
    by (force simp: rows_same_def set_run_def set_task_def set_update_where db' close_command_def set_command_def)
  ultimately show ?thesis using ids
    by (auto simp: projected_def t1_def closed_command_def intro: bexI [of _ r2] bexI [of _ "closed_command ''dispatched'' c"])
qed

lemma store_projects:
  assumes e: "store_terminal p fresh now l c t r terminal db = Inr (True, db')"
    and rows: "r \<in> set (cd_runs db)" "t \<in> set (cd_tasks db)" "c \<in> set (cd_commands db)"
  shows "projected p now l c t r terminal db'"
proof -
  define r1 where "r1 = ended_run p now (cl_command_sequence l) terminal r"
  define r2 where "r2 = first_failure terminal r1"
  define t1 where "t1 = ended_task now (tg_terminal_status terminal) t"
  from e obtain db1 db3 db4 n where 1: "record_receipts p fresh now t1 r1 (set_task (tr_id t) (\<lambda>_. t1) (set_run (rn_id r) (\<lambda>_. r1) db)) = Inr db1"
    and 3: "db3 = persist_verified_web_evidence p fresh t1 r2 (tg_web_evidence terminal) (persist_snapshot p fresh t1 r2
        (tg_market_snapshot terminal) (close_command (tc_id c) ''dispatched'' (set_run (rn_id r) (\<lambda>_. r2) db1)))"
    and 4: "commit_outputs p fresh now l t1 r2 terminal db3 = Inr (n, db4)"
    and 5: "record_events p fresh now t1 r2 (terminal_json p terminal) n db4 = Inr db'"
    by (auto simp: store_terminal_def Let_def rbind_Inr_iff r1_def r2_def t1_def)
  have ids: "rn_id r1 = rn_id r" "rn_id r2 = rn_id r" "run_shows p (cl_command_sequence l) terminal r2"
    by (simp_all add: r1_def r2_def first_failure_def failure_shows)
  define db2 where "db2 = close_command (tc_id c) ''dispatched'' (set_run (rn_id r) (\<lambda>_. r2) db1)"
  have "beside db2 db4"
    using beside_trans [OF beside_trans [OF snapshot_beside evidence_beside] commit_outputs_beside [OF 4 [unfolded 3]]]
    by (simp add: db2_def)
  then have same: "rows_same db2 db'" using events_rows [OF 5] by (simp add: beside_def rows_same_def)
  have "r1 \<in> set (cd_runs db1)" using receipts_rows [OF 1] rows(1)
    by (force simp: rows_same_def set_run_def set_task_def set_update_where)
  then have "r2 \<in> set (cd_runs db')" using same ids
    by (force simp: rows_same_def set_run_def set_update_where db2_def close_command_def set_command_def)
  moreover have "t1 \<in> set (cd_tasks db')" using same receipts_rows [OF 1] rows(2)
    by (force simp: rows_same_def set_run_def set_task_def set_update_where db2_def close_command_def set_command_def)
  moreover have "closed_command ''dispatched'' c \<in> set (cd_commands db')" using same receipts_rows [OF 1] rows(3)
    by (force simp: rows_same_def set_run_def set_task_def set_update_where db2_def close_command_def set_command_def)
  ultimately show ?thesis using ids
    by (auto simp: projected_def t1_def closed_command_def intro: bexI [of _ r2] bexI [of _ "closed_command ''dispatched'' c"])
qed

text \<open>
  C11. When a worker reports an output as projected, the run holds the output with its status, its hash and
  the sequence of the command as fence, the task has ended with that status at that time, and the
  command is dispatched and nobody's.
\<close>

theorem projected_output_is_stored:
  assumes "finalize p l terminal fresh now db = Inr (True, db')"
  shows "(\<exists>r \<in> set (cd_runs db'). cl_product_run_id l = Some (rn_id r) \<and> rn_status r = tg_terminal_status terminal
        \<and> rn_output_payload r = Some (terminal_json p terminal)
        \<and> rn_terminal_output_hash r = Some (payload_hash p (terminal_json p terminal)) \<and> rn_projection_fence r = cl_command_sequence l)
     \<and> (\<exists>t \<in> set (cd_tasks db'). tr_id t = cl_task_id l \<and> tr_status t = tg_terminal_status terminal \<and> tr_completed_at t = Some now)
     \<and> (\<exists>c \<in> set (cd_commands db'). tc_id c = cl_command_id l \<and> tc_status c = ''dispatched'' \<and> tc_lease_owner c = None)"
proof -
  from assms obtain c t r db1 where lock: "locked_command True now l db = Some c" and t: "task_at (cl_task_id l) db = Some t"
    and r: "lease_run l db = Some r" and 1: "settle_interrupts now l db = Inr db1"
    and 2: "replay_terminal p fresh now l c t r terminal db1 = Inr (True, db') \<or> store_terminal p fresh now l c t r terminal db1 = Inr (True, db')"
    by (auto simp: finalize_def rbind_Inr_iff reject_conflict_def split: option.splits if_splits)
  have rid: "r \<in> set (cd_runs db)" "cl_product_run_id l = Some (rn_id r)"
    using r by (auto simp: lease_run_def run_at_def find_Some_iff split: option.splits)
  have "r \<in> set (cd_runs db1)" "t \<in> set (cd_tasks db1)" "c \<in> set (cd_commands db1)"
    using settle_rows [OF 1] rid task_atD [OF t] locked_commandD(1) [OF lock] by (simp_all add: rows_same_def)
  with 2 replay_projects store_projects have "projected p now l c t r terminal db'" by blast
  then obtain q d where "q \<in> set (cd_runs db')" "rn_id q = rn_id r" "run_shows p (cl_command_sequence l) terminal q"
    "ended_task now (tg_terminal_status terminal) t \<in> set (cd_tasks db')"
    "d \<in> set (cd_commands db')" "tc_id d = tc_id c" "tc_status d = ''dispatched''" "tc_lease_owner d = None"
    unfolding projected_def by blast
  moreover have "tr_id t = cl_task_id l" "tc_id c = cl_command_id l" using task_atD [OF t] locked_commandD(2) [OF lock] by simp_all
  ultimately show ?thesis using rid(2)
    by (intro conjI bexI [of _ q] bexI [of _ "ended_task now (tg_terminal_status terminal) t"] bexI [of _ d])
      (simp_all add: run_shows_def, simp_all add: ended_task_def)
qed

end
