(* ===== verification/Command_Samples.thy ===== *)
theory Command_Samples
  imports Command_Stuck Command_Outputs
begin

text \<open>Small databases for the witnesses: one task of one thread, with its runs and commands.\<close>

definition desk_event_params :: event_params where
  "desk_event_params = \<lparr>ep_sha256 = (\<lambda>s. take 64 (s @ replicate 64 (CHR ''0''))), ep_digest = (\<lambda>j. replicate 64 CHR ''d''),
     ep_market_snapshot = Some, ep_web_evidence = Some, ep_deep_research = Some, ep_market_analysis = Some,
     ep_evidence_verdict = Some, ep_risk_verdict = Some\<rparr>"

definition desk_usage_params :: usage_params where
  "desk_usage_params = \<lparr>up_hash = (\<lambda>j. replicate 64 CHR ''a''), up_size = (\<lambda>j. 1), up_millis = (\<lambda>d. d div 1000), up_text = (\<lambda>j. [])\<rparr>"

definition desk_params :: command_params where
  "desk_params = \<lparr>cp_events = desk_event_params, cp_usage = desk_usage_params, cp_redact = (\<lambda>s. s), cp_sensitive = (\<lambda>_. False),
     cp_text = (\<lambda>_. []), cp_dump_market = (\<lambda>_ _. JNull), cp_dump_evidence = (\<lambda>_ _. JNull), cp_dump_artifact = (\<lambda>_ _. JNull),
     cp_dump_research = (\<lambda>_ _. JNull), cp_dump_review = (\<lambda>_. JNull), cp_read_output = (\<lambda>_. None), cp_read_respond = (\<lambda>_. None),
     cp_read_fork = (\<lambda>_. None),
     cp_read_retry = (\<lambda>j. case (json_get ''source_run_id'' j, json_get ''retry_run_id'' j) of
        (Some (JStr a), Some (JStr b)) \<Rightarrow> Some \<lparr>ry_source_run_id = a, ry_retry_run_id = b\<rparr> | _ \<Rightarrow> None),
     cp_read_cancel_run = (\<lambda>_. None), cp_read_review = (\<lambda>_. None), cp_read_decision = (\<lambda>_. None),
     cp_read_analysis = (\<lambda>_. Some \<lparr>aq_symbol = BTC_USDT_SWAP, aq_horizon = ''4h'', aq_query_text = ''q'', aq_notify = False\<rparr>),
     cp_read_research = (\<lambda>_. None)\<rparr>"

definition desk_service :: service_params where
  "desk_service = \<lparr>sv_command = desk_params, sv_uuid = Some, sv_digest = (\<lambda>s. s), sv_dump_response = (\<lambda>_. JNull)\<rparr>"

definition desk_directory :: directory where
  "desk_directory = sample_directory\<lparr>dir_memberships := [\<lparr>mb_id = ''m'', mb_tenant_id = ''t'', mb_workspace_id = ''w'',
     mb_user_id = ''u'', mb_role = ''operator'', mb_permissions = [''analysis:write''], mb_is_active = True\<rparr>]\<rparr>"

definition desk_entitlement :: entitlement where
  "desk_entitlement = \<lparr>en_id = ''e'', en_tenant_id = ''t'', en_workspace_id = ''w'', en_active = True,
     en_active_monitor_limit = 20, en_min_interval_seconds = 300, en_max_concurrent_tasks = 5,
     en_monthly_trigger_limit = 10, en_allowed_task_types = [''market_analysis''],
     en_monthly_agent_admission_limit = 10, en_monthly_model_token_limit = 100,
     en_monthly_search_request_limit = 100, en_monthly_runtime_millisecond_limit = 100,
     en_storage_byte_limit = 100, en_max_retention_days = 30, en_valid_from = 0, en_valid_until = None\<rparr>"

definition desk_thread :: thread_row where
  "desk_thread = \<lparr>th_id = ''h'', th_tenant_id = ''t'', th_workspace_id = ''w'', th_owner_user_id = ''u'',
     th_official_thread_id = Some ''oh'', th_title = None, th_context = JNull, th_next_domain_event_sequence = 1\<rparr>"

definition desk_task :: "string \<Rightarrow> task_row" where
  "desk_task status = \<lparr>tr_id = ''k'', tr_tenant_id = ''t'', tr_workspace_id = ''w'', tr_owner_user_id = ''u'',
     tr_thread_id = ''h'', tr_task_type = ''market_analysis'', tr_status = status, tr_idempotency_key = ''i'',
     tr_request_payload_hash = ''p'', tr_request_payload = JNull, tr_completed_at = None, tr_created_at = 0\<rparr>"

definition desk_run :: "uuid \<Rightarrow> int \<Rightarrow> string \<Rightarrow> run_row" where
  "desk_run i attempt status = (new_run i (desk_task ''queued'') attempt status JNull)\<lparr>rn_started_at := Some 0\<rparr>"

definition desk_command :: "uuid \<Rightarrow> int \<Rightarrow> string \<Rightarrow> string \<Rightarrow> command_row" where
  "desk_command i n ty status = \<lparr>tc_id = i, tc_tenant_id = ''t'', tc_workspace_id = ''w'', tc_actor_user_id = ''u'', tc_task_id = ''k'',
     tc_thread_id = ''h'', tc_command_type = ty, tc_payload = JNull, tc_payload_hash = ''p'', tc_sequence = n, tc_status = status,
     tc_lease_owner = None, tc_lease_expires_at = None, tc_attempt = 0, tc_idempotency_key = i, tc_official_run_id = None,
     tc_official_command_id = None, tc_created_at = n\<rparr>"

definition desk_db :: "task_row \<Rightarrow> run_row list \<Rightarrow> command_row list \<Rightarrow> command_db" where
  "desk_db t rs commands = \<lparr>cd_directory = desk_directory, cd_threads = [desk_thread], cd_tasks = [t], cd_runs = rs,
     cd_commands = commands, cd_pauses = [], cd_members = [], cd_deliveries = [], cd_outbox = \<lparr>db_outbox = [], db_attempts = []\<rparr>,
     cd_events = [], cd_entitlements = [desk_entitlement], cd_ledger = [], cd_reviews = [], cd_snapshots = [], cd_evidence = [],
     cd_artifacts = [], cd_versions = [], cd_decisions = [], cd_outcomes = [], cd_destinations = []\<rparr>"

definition desk_worker :: "string \<Rightarrow> command_worker" where
  "desk_worker i = \<lparr>cw_worker_id = i, cw_lease_seconds = 30, cw_max_attempts = 5, cw_max_cancel_attempts = 5,
     cw_max_cancel_seconds = 60, cw_remote_operation_timeout = 1, cw_reconciliation_interval = 1, cw_max_run_seconds = 60,
     cw_interrupt_ttl_seconds = 60, cw_planner = None, cw_stream_slice_seconds = 1, cw_max_stream_events = 10\<rparr>"

definition desk_ids :: "string \<Rightarrow> fresh_ids" where
  "desk_ids s = \<lparr>fi_thread = s, fi_task = s, fi_run = s, fi_command = s, fi_pause = s, fi_member = (\<lambda>n. s @ show_nat n),
     fi_event = (\<lambda>n. s @ show_nat n), fi_usage = (\<lambda>k. s @ k), fi_delivery = (\<lambda>n. s), fi_snapshot = s, fi_evidence = (\<lambda>n. s),
     fi_artifact = s, fi_version = s, fi_decision = s, fi_outcome = s, fi_outbox = s, fi_created = 9\<rparr>"

definition nobody :: "uuid \<Rightarrow> bool" where
  "nobody i = False"

lemma sound_desk:
  assumes "tr_id t = ''k''" and "tr_thread_id t = ''h''" and "task_scope t = (''t'', ''w'', ''u'')" and "distinct (map tc_id cs)"
    and "\<forall>c \<in> set cs. tc_task_id c = ''k'' \<and> tc_thread_id c = ''h'' \<and> (tc_tenant_id c, tc_workspace_id c, tc_actor_user_id c) = (''t'', ''w'', ''u'')"
  shows "sound (desk_db t rs cs)"
  using assms by (simp add: sound_def keyed_def lined_def of_task_def desk_db_def desk_thread_def)

section \<open>A cancelled task, leased twice\<close>

definition cancel_db :: command_db where
  "cancel_db = desk_db (desk_task ''running'') [desk_run ''r'' 1 ''running'']
     [desk_command ''c1'' 1 ''submit'' ''cancelled'', desk_command ''c2'' 2 ''cancel_task'' ''pending'']"

definition first_claim :: "(command_error, command_lease option \<times> command_db) result" where
  "first_claim = claim_next_command desk_params (desk_worker ''a'') (desk_ids ''x'') nobody 0 cancel_db"

definition second_claim :: "command_db \<Rightarrow> (command_error, command_lease option \<times> command_db) result" where
  "second_claim = claim_next_command desk_params (desk_worker ''b'') (desk_ids ''y'') nobody 40000000"

lemma claims_twice:
  "(case first_claim of Inr (Some l, db1) \<Rightarrow> (case second_claim db1 of Inr (Some l', db3) \<Rightarrow> cl_command_id l' = cl_command_id l
     | _ \<Rightarrow> False) | _ \<Rightarrow> False)"
  by code_simp

end
