(* ===== verification/Command_Witnesses.thy ===== *)
theory Command_Witnesses
  imports Command_Samples
begin

text \<open>The properties of the dispatcher at concrete databases.\<close>

lemma claimed_case: "(case r of Inr (Some l, db) \<Rightarrow> P l db | _ \<Rightarrow> False) \<Longrightarrow> \<exists>l db. r = Inr (Some l, db) \<and> P l db"
  by (cases r) (auto split: option.splits)

lemma shown_case: "(case r of Inr (Shown i v, db) \<Rightarrow> P i v db | _ \<Rightarrow> False) \<Longrightarrow> \<exists>i v db. r = Inr (Shown i v, db) \<and> P i v db"
proof (cases r)
  case (Inr y)
  assume "case r of Inr (Shown i v, db) \<Rightarrow> P i v db | _ \<Rightarrow> False"
  with Inr show ?thesis by (cases y; cases "fst y") auto
qed simp

section \<open>Leases\<close>

lemma cancel_db_sound: "sound cancel_db" "in_order cancel_db"
proof -
  show "sound cancel_db" unfolding cancel_db_def
    by (rule sound_desk) (simp_all add: desk_task_def task_scope_def desk_command_def)
  show "in_order cancel_db" by (simp add: in_order_def cancel_db_def desk_db_def desk_command_def)
qed

lemma claims_twice_cases:
  obtains l db1 l' db3 where "first_claim = Inr (Some l, db1)" "second_claim db1 = Inr (Some l', db3)" "cl_command_id l' = cl_command_id l"
proof -
  from claimed_case [OF claims_twice] obtain l db1 where 1: "first_claim = Inr (Some l, db1)"
    and 2: "case second_claim db1 of Inr (Some l', db3) \<Rightarrow> cl_command_id l' = cl_command_id l | _ \<Rightarrow> False" by blast
  from claimed_case [OF 2] 1 show thesis using that by blast
qed

theorem superseded_command_lease_is_powerless_witness:
  "\<exists>l l' db1 db3. first_claim = Inr (Some l, db1) \<and> second_claim db1 = Inr (Some l', db3)
     \<and> cl_fence_token l < cl_fence_token l' \<and> snd (postpone_cancel (desk_worker ''a'') 41000000 l db3) = db3"
proof -
  obtain l db1 l' db3 where c: "first_claim = Inr (Some l, db1)" "second_claim db1 = Inr (Some l', db3)" "cl_command_id l' = cl_command_id l"
    by (rule claims_twice_cases)
  have p: "sv_command desk_service = desk_params" by (simp add: desk_service_def)
  obtain x db5 where s: "postpone_cancel (desk_worker ''a'') 41000000 l db3 = (x, db5)" by fastforce
  have "cl_fence_token l < cl_fence_token l' \<and> db5 = db3"
    by (rule superseded_command_lease_is_powerless [where sp = desk_service, unfolded p, OF cancel_db_sound(1)
        c(1) [unfolded first_claim_def] rtranclp.rtrancl_refl c(2) [unfolded second_claim_def] c(3) rtranclp.rtrancl_refl
        lease_step.postponed [OF s]])
  with c(1,2) s show ?thesis by (intro exI conjI) auto
qed

lemma first_claim_rows:
  "(case first_claim of Inr (Some l, db1) \<Rightarrow> (case cd_commands db1 of [d, c] \<Rightarrow> tc_status c = ''dispatching''
      \<and> tc_thread_id d = tc_thread_id c \<and> tc_sequence d < tc_sequence c | _ \<Rightarrow> False) | _ \<Rightarrow> False)"
  by code_simp

theorem thread_commands_run_in_order_witness:
  "\<exists>l db1 c d. first_claim = Inr (Some l, db1) \<and> cd_commands db1 = [d, c] \<and> tc_status c = ''dispatching''
     \<and> tc_status d \<notin> {''pending'', ''dispatching''}"
proof -
  from claimed_case [OF first_claim_rows] obtain l db1 where 1: "first_claim = Inr (Some l, db1)"
    and 2: "case cd_commands db1 of [d, c] \<Rightarrow> tc_status c = ''dispatching'' \<and> tc_thread_id d = tc_thread_id c
       \<and> tc_sequence d < tc_sequence c | _ \<Rightarrow> False" by blast
  from 2 obtain d c where 3: "cd_commands db1 = [d, c]" by (auto split: list.split_asm)
  with 1 2 have c: "first_claim = Inr (Some l, db1)" "cd_commands db1 = [d, c]" "tc_status c = ''dispatching''"
      "tc_thread_id d = tc_thread_id c" "tc_sequence d < tc_sequence c"
    by simp_all
  have "system_step desk_service cancel_db db1"
    using c(1) by (intro dispatcher_claim) (simp add: first_claim_def desk_service_def)
  then have "(system_step desk_service)\<^sup>*\<^sup>* cancel_db db1" by blast
  from thread_commands_run_in_order [OF cancel_db_sound this _ c(3) _ c(4,5)] c show ?thesis by auto
qed

section \<open>A stranded task\<close>

definition orphan_lease :: command_lease where
  "orphan_lease = \<lparr>cl_command_id = ''c1'', cl_task_id = ''k'', cl_product_thread_id = ''h'', cl_product_run_id = Some ''r'',
     cl_command_type = ''submit'', cl_command_sequence = 1, cl_worker_id = ''a'', cl_fence_token = 1, cl_actor = sample_context,
     cl_task_type = ''market_analysis'', cl_submission = None, cl_remote_handle = None, cl_resume_handle = None,
     cl_respond_payload = None, cl_fork_source_handle = None, cl_fork_payload = None, cl_review_policy = ''bypass'',
     cl_observed_terminal_status = None, cl_submit_reconcile_only = False, cl_resume_reconcile_only = False,
     cl_fork_reconcile_only = False, cl_official_stream_last_event_id = None\<rparr>"

definition orphan_db :: command_db where
  "orphan_db = snd (schedule_orphan_cancel (desk_worker ''a'') 10 orphan_lease
     (desk_db (desk_task ''running'') [(desk_run ''r'' 1 ''running'')\<lparr>rn_official_assistant_id := Some ''as'', rn_official_run_id := Some ''or''\<rparr>]
       [(desk_command ''c1'' 1 ''submit'' ''dispatching'')\<lparr>tc_lease_owner := Some ''a'', tc_lease_expires_at := Some 100, tc_attempt := 1\<rparr>]))"

definition orphan_claim :: "(command_error, command_lease option \<times> command_db) result" where
  "orphan_claim = claim_next_command desk_params (desk_worker ''b'') (desk_ids ''x'') nobody 40000000 orphan_db"

definition orphan_error :: "command_lease \<Rightarrow> command_db \<Rightarrow> (command_error, command_db) result" where
  "orphan_error l = record_remote_error desk_params (desk_worker ''b'') (desk_ids ''y'') 40000005 l (Remote_failure ''StreamError'')"

lemma orphan_sound: "sound orphan_db" by code_simp

lemma orphan_ready:
  "(case orphan_claim of Inr (Some l, db) \<Rightarrow>
     (case (task_at (cl_task_id l) db, locked_command True 40000005 l db, lease_run l db) of
        (Some t, Some c, Some r) \<Rightarrow> tr_status t = ''running'' \<and> rn_cancel_requested_at r \<noteq> None
          \<and> (\<forall>d \<in> set (cd_commands db). tc_id d = cl_command_id l) \<and> is_ok (orphan_error l db)
      | _ \<Rightarrow> False) | _ \<Rightarrow> False)"
  by code_simp

lemma orphan_cases:
  obtains l db t c r db1 where "orphan_claim = Inr (Some l, db)" "task_at (cl_task_id l) db = Some t" "tr_status t = ''running''"
    "locked_command True 40000005 l db = Some c" "lease_run l db = Some r" "rn_cancel_requested_at r \<noteq> None"
    "\<forall>d \<in> set (cd_commands db). tc_id d = cl_command_id l" "orphan_error l db = Inr db1"
proof -
  from claimed_case [OF orphan_ready] obtain l db where 1: "orphan_claim = Inr (Some l, db)" and
     2: "case (task_at (cl_task_id l) db, locked_command True 40000005 l db, lease_run l db) of
        (Some t, Some c, Some r) \<Rightarrow> tr_status t = ''running'' \<and> rn_cancel_requested_at r \<noteq> None
          \<and> (\<forall>d \<in> set (cd_commands db). tc_id d = cl_command_id l) \<and> is_ok (orphan_error l db)
      | _ \<Rightarrow> False" by blast
  from 2 show thesis
    by (cases "orphan_error l db") (auto simp: is_ok_def intro: that [OF 1] split: option.split_asm)
qed


section \<open>A blocked queue\<close>

definition long_request :: decision_request where
  "long_request = sample_decision (replicate 2001 CHR ''q'')"

definition long_params :: command_params where
  "long_params = desk_params\<lparr>cp_read_decision := (\<lambda>_. Some long_request)\<rparr>"

definition blocked_db :: command_db where
  "blocked_db = desk_db ((desk_task ''queued'')\<lparr>tr_request_payload := JObj [(''schema_version'', JStr ''1.0''), (''entry_kind'', JStr ''manual'')]\<rparr>) []
     [desk_command ''c1'' 1 ''submit'' ''pending'']"

lemma blocked_row: "(case claim_row_of blocked_db (desk_command ''c1'' 1 ''submit'' ''pending'') of None \<Rightarrow> False
   | Some k \<Rightarrow> ck_task k = (desk_task ''queued'')\<lparr>tr_request_payload := JObj [(''schema_version'', JStr ''1.0''), (''entry_kind'', JStr ''manual'')]\<rparr>)"
  by code_simp


section \<open>A retried cancellation\<close>

definition cancelled_db :: command_db where
  "cancelled_db = desk_db (desk_task ''cancelled'') [desk_run ''r'' 1 ''cancelled'']
     [desk_command ''c1'' 1 ''submit'' ''cancelled'',
      (desk_command ''c2'' 2 ''cancel_run'' ''dispatched'')\<lparr>tc_payload := JObj [(''run_id'', JStr ''r'')]\<rparr>]"

definition desk_actor :: actor_context where
  "desk_actor = sample_context"

definition retried :: served where
  "retried = retry_task desk_service (desk_ids ''y'') desk_actor ''k'' ''key'' cancelled_db"

definition retry_claim :: "command_db \<Rightarrow> (command_error, command_lease option \<times> command_db) result" where
  "retry_claim = claim_next_command desk_params (desk_worker ''a'') (desk_ids ''z'') nobody 100"

lemma retry_ready:
  "(case retried of Inr (Shown i v, db1) \<Rightarrow> i = ''k'' \<and> length (cd_commands db1) = 3
      \<and> (case first_by claim_order (claim_rows nobody 100 db1) of None \<Rightarrow> False | Some k \<Rightarrow> tc_id (ck_command k) = ''y'')
      \<and> is_ok (retry_claim db1) | _ \<Rightarrow> False)"
  by code_simp

lemma retry_cases:
  obtains v db1 k x db2 where "retried = Inr (Shown ''k'' v, db1)" "length (cd_commands db1) = 3"
    "first_by claim_order (claim_rows nobody 100 db1) = Some k" "tc_id (ck_command k) = ''y''" "retry_claim db1 = Inr (x, db2)"
proof -
  from shown_case [OF retry_ready] obtain v db1 where 1: "retried = Inr (Shown ''k'' v, db1)" "length (cd_commands db1) = 3"
      "is_ok (retry_claim db1)"
    and 2: "case first_by claim_order (claim_rows nobody 100 db1) of None \<Rightarrow> False | Some k \<Rightarrow> tc_id (ck_command k) = ''y''"
    by blast
  from 2 obtain k where 3: "first_by claim_order (claim_rows nobody 100 db1) = Some k" "tc_id (ck_command k) = ''y''"
    by (auto split: option.split_asm)
  from 1(3) obtain x db2 where "retry_claim db1 = Inr (x, db2)" by (cases "retry_claim db1") (auto simp: is_ok_def)
  with 1 3 show thesis by (intro that)
qed

theorem retry_of_cancelled_run_fails_witness:
  "\<exists>v db1 x db2. retried = Inr (Shown ''k'' v, db1) \<and> retry_claim db1 = Inr (x, db2)
     \<and> (\<exists>t \<in> set (cd_tasks db2). tr_id t = ''k'' \<and> tr_status t = ''failed'')"
proof -
  obtain v db1 k x db2 where c: "retried = Inr (Shown ''k'' v, db1)" "length (cd_commands db1) = 3"
    "first_by claim_order (claim_rows nobody 100 db1) = Some k" "tc_id (ck_command k) = ''y''" "retry_claim db1 = Inr (x, db2)"
    by (rule retry_cases)
  have s: "sound cancelled_db" "distinct (map rn_id (cd_runs cancelled_db))" by code_simp+
  have "length (cd_commands cancelled_db) = 2" by (simp add: cancelled_db_def desk_db_def)
  with c(2) have n: "db1 \<noteq> cancelled_db" by auto
  have t: "\<exists>t \<in> set (cd_tasks cancelled_db). tr_id t = ''k'' \<and> tr_status t = ''cancelled''"
    by (simp add: cancelled_db_def desk_db_def desk_task_def)
  have reads: "cp_read_retry (sv_command desk_service) (retry_payload_json a b) = Some \<lparr>ry_source_run_id = a, ry_retry_run_id = b\<rparr>" for a b
    by (simp add: desk_service_def desk_params_def retry_payload_json_def)
  have id: "tc_id (ck_command k) = fi_command (desk_ids ''y'')" using c(4) by (simp add: desk_ids_def)
  have cl: "claim_next_command (sv_command desk_service) (desk_worker ''a'') (desk_ids ''z'') nobody 100 db1 = Inr (x, db2)"
    using c(5) by (simp add: retry_claim_def desk_service_def)
  from retry_of_cancelled_run_fails [OF s c(1) [unfolded retried_def] n t reads c(3) id cl] c(1,5) show ?thesis by blast
qed

end
