(* ===== verification/Command_Round_Witnesses.thy ===== *)
theory Command_Round_Witnesses
  imports Command_Witnesses
begin

text \<open>Creates, answers, outputs and rounds at concrete databases.\<close>

lemma ok_case: "(case r of Inr x \<Rightarrow> P x | _ \<Rightarrow> False) \<Longrightarrow> \<exists>x. r = Inr x \<and> P x"
  by (cases r) auto

section \<open>A marked create\<close>

definition desk_handle :: remote_handle where
  "desk_handle = \<lparr>rh_assistant_id = ''as'', rh_thread_id = ''oh'', rh_run_id = ''or''\<rparr>"

definition desk_world :: dispatch_world where
  "desk_world = \<lparr>dw_clock = (\<lambda>n. int n), dw_fresh = (\<lambda>n. desk_ids (show_nat n)), dw_busy = (\<lambda>_ _. False), dw_others = (\<lambda>_ db. db),
     dw_outage = (\<lambda>_. False), dw_class_name = (\<lambda>_. ''RuntimeError''), dw_authorize = None,
     dw_start = (\<lambda>_. \<lparr>cn_beats = 0, cn_answer = Reply desk_handle\<rparr>),
     dw_resume = (\<lambda>_ _ _. \<lparr>cn_beats = 0, cn_answer = Reply desk_handle\<rparr>),
     dw_fork = (\<lambda>_ _ _. \<lparr>cn_beats = 0, cn_answer = Reply desk_handle\<rparr>),
     dw_find = (\<lambda>_ _. Reply (Some desk_handle)), dw_stream = None, dw_get = (\<lambda>_. Reply ''running''),
     dw_interrupts = (\<lambda>_. Timed_out), dw_cancel = (\<lambda>_. Reply Cancel_confirmed), dw_join = (\<lambda>_. Timed_out)\<rparr>"

definition marked_run :: run_row where
  "marked_run = (desk_run ''r'' 1 ''running'')\<lparr>rn_failure_code := Some ''agent_submit_create_intent''\<rparr>"

definition marked_db :: command_db where
  "marked_db = desk_db (desk_task ''running'') [marked_run]
     [(desk_command ''c1'' 1 ''submit'' ''dispatching'')\<lparr>tc_lease_owner := Some ''a'', tc_lease_expires_at := Some 5, tc_attempt := 1\<rparr>]"

definition marked_claim :: "(command_error, command_lease option \<times> command_db) result" where
  "marked_claim = claim_next_command desk_params (desk_worker ''b'') (desk_ids ''x'') nobody 100 marked_db"

lemma marked_ready:
  "(case marked_claim of Inr (Some l, db) \<Rightarrow> cl_command_type l = ''submit'' \<and> cl_product_run_id l = Some (rn_id marked_run)
     \<and> create_marked ''submit'' marked_run | _ \<Rightarrow> False)"
  by code_simp

theorem no_second_create_witness:
  "\<exists>l db. marked_claim = Inr (Some l, db) \<and> (\<forall>f g h s. execute_command desk_params (desk_worker ''b'') l
     (desk_world\<lparr>dw_start := f, dw_resume := g, dw_fork := h\<rparr>) s = execute_command desk_params (desk_worker ''b'') l desk_world s)"
proof -
  from claimed_case [OF marked_ready] obtain l db where c: "marked_claim = Inr (Some l, db)" "cl_command_type l = ''submit''"
    "cl_product_run_id l = Some (rn_id marked_run)" "create_marked ''submit'' marked_run" by blast
  have d: "distinct (map rn_id (cd_runs marked_db))" "marked_run \<in> set (cd_runs marked_db)" by (simp_all add: marked_db_def desk_db_def)
  have submit: "cl_command_type l \<in> {''submit'', ''retry'', ''respond'', ''fork''}" using c(2) by simp
  have same: "execute_command desk_params (desk_worker ''b'') l (desk_world\<lparr>dw_start := f, dw_resume := g, dw_fork := h\<rparr>) s
      = execute_command desk_params (desk_worker ''b'') l desk_world s" for f g h s
    by (rule no_second_create [OF c(1) [unfolded marked_claim_def] submit d(1), THEN conjunct2, rule_format, OF d(2)])
      (simp add: c(2-4))
  show ?thesis by (intro exI conjI allI) (rule c(1), rule same)
qed

section \<open>A create that is repeated\<close>

definition approval :: review_response where
  "approval = \<lparr>rr_action = Approve, rr_edits = None, rr_comment = None\<rparr>"

definition desk_answer :: respond_payload where
  "desk_answer = \<lparr>rp_pause_id = ''p1'', rp_pause_version = 1,
     rp_root_checkpoint = \<lparr>rk_thread_id = ''oh'', rk_checkpoint_ns = [], rk_checkpoint_id = ''k1'', rk_checkpoint_map = JNull\<rparr>,
     rp_responses = [\<lparr>rm_projection_id = ''m1'', rm_interrupt_id = ''i1'', rm_namespace = [], rm_checkpoint_id = ''k1'',
        rm_response_version = 1, rm_response = approval\<rparr>], rp_expired = False\<rparr>"

definition respond_params :: command_params where
  "respond_params = desk_params\<lparr>cp_read_respond := (\<lambda>_. Some desk_answer),
     cp_read_review := (\<lambda>_. Some (Pay_deep \<lparr>dp_symbol = BTC_USDT_SWAP, dp_horizon = ''4h'', dp_review_iteration = 1,
        dp_artifact = sample_deep_artifact\<rparr>))\<rparr>"

definition desk_pause :: "string \<Rightarrow> pause_row" where
  "desk_pause status = \<lparr>ip_id = ''p1'', ip_tenant_id = ''t'', ip_workspace_id = ''w'', ip_owner_user_id = ''u'', ip_task_id = ''k'',
     ip_run_id = ''r'', ip_pause_version = 1, ip_root_thread_id = ''oh'', ip_root_checkpoint_ns = [], ip_root_checkpoint_id = ''k1'',
     ip_root_checkpoint_map = JNull, ip_member_set_hash = ''s'', ip_status = status, ip_expires_at = Some 1000,
     ip_resume_run_id = None, ip_accepted_payload_hash = None\<rparr>"

definition desk_member :: "string \<Rightarrow> member_row" where
  "desk_member status = \<lparr>im_id = ''m1'', im_tenant_id = ''t'', im_workspace_id = ''w'', im_owner_user_id = ''u'', im_task_id = ''k'',
     im_run_id = ''r'', im_pause_id = ''p1'', im_official_interrupt_id = ''i1'', im_namespace = [], im_checkpoint_id = ''k1'',
     im_response_version = 1, im_status = status, im_payload = JNull, im_response = None, im_expires_at = Some 1000, im_responded_at = None\<rparr>"

definition review_run :: run_row where
  "review_run = (desk_run ''r'' 1 ''waiting_human'')\<lparr>rn_official_assistant_id := Some ''as'', rn_official_run_id := Some ''or''\<rparr>"

definition resumed_db :: command_db where
  "resumed_db = (desk_db (desk_task ''waiting_human'')
     [review_run, (desk_run ''q'' 2 ''running'')\<lparr>rn_resume_of_run_id := Some ''r'', rn_reconciliation_deadline_at := Some 50,
        rn_failure_code := Some ''agent_resume_create_intent''\<rparr>]
     [(desk_command ''c1'' 1 ''submit'' ''dispatched''),
      (desk_command ''c2'' 2 ''respond'' ''dispatching'')\<lparr>tc_lease_owner := Some ''a'', tc_lease_expires_at := Some 200, tc_attempt := 1\<rparr>])
     \<lparr>cd_pauses := [desk_pause ''responding''], cd_members := [desk_member ''responding'']\<rparr>"

definition resume_lease :: command_lease where
  "resume_lease = orphan_lease\<lparr>cl_command_id := ''c2'', cl_command_sequence := 2, cl_command_type := ''respond'', cl_product_run_id := Some ''q'',
     cl_respond_payload := Some desk_answer\<rparr>"

definition resume_error :: "(command_error, command_db) result" where
  "resume_error = record_remote_error respond_params (desk_worker ''a'') (desk_ids ''y'') 100 resume_lease Resume_indeterminate resumed_db"

definition resume_claim :: "command_db \<Rightarrow> (command_error, command_lease option \<times> command_db) result" where
  "resume_claim = claim_next_command respond_params (desk_worker ''b'') (desk_ids ''z'') nobody 5000000"

lemma resume_ready:
  "(case resume_error of Inr db1 \<Rightarrow> (case resume_claim db1 of Inr (Some l, db2) \<Rightarrow> cl_command_type l = ''respond''
      \<and> cl_product_run_id l = cl_product_run_id resume_lease \<and> cl_resume_handle l = Some desk_handle \<and> cl_respond_payload l = Some desk_answer
     | _ \<Rightarrow> False) | _ \<Rightarrow> False)"
  "(case (locked_command True 100 resume_lease resumed_db, lease_run resume_lease resumed_db) of
      (Some c, Some r) \<Rightarrow> rn_cancel_requested_at r = None \<and> \<not> before_deadline 100 r \<and> tc_attempt c < 5 | _ \<Rightarrow> False)"
  "distinct (map rn_id (cd_runs resumed_db))"
  by code_simp+

theorem uncertain_resume_is_created_again_witness:
  "\<exists>db1 l db2. resume_error = Inr db1 \<and> resume_claim db1 = Inr (Some l, db2)
     \<and> obtain_handle (desk_worker ''b'') l desk_world (0, db2)
        = with_heartbeat (desk_worker ''b'') l Resume_indeterminate (dw_resume desk_world l desk_handle desk_answer) desk_world (0, db2)"
proof -
  from ok_case [OF resume_ready(1)] obtain db1 where 1: "resume_error = Inr db1" and 2: "case resume_claim db1 of Inr (Some l, db2) \<Rightarrow> cl_command_type l = ''respond''
      \<and> cl_product_run_id l = cl_product_run_id resume_lease \<and> cl_resume_handle l = Some desk_handle \<and> cl_respond_payload l = Some desk_answer
     | _ \<Rightarrow> False" by blast
  from claimed_case [OF 2] obtain l db2 where c: "resume_claim db1 = Inr (Some l, db2)" "cl_command_type l = ''respond''"
      "cl_product_run_id l = cl_product_run_id resume_lease" "cl_resume_handle l = Some desk_handle" "cl_respond_payload l = Some desk_answer"
    by blast
  from resume_ready(2) obtain cmd r where r: "locked_command True 100 resume_lease resumed_db = Some cmd" "lease_run resume_lease resumed_db = Some r"
      "rn_cancel_requested_at r = None" "\<not> before_deadline 100 r" "tc_attempt cmd < 5"
    by (auto split: option.split_asm)
  have l: "cl_command_type resume_lease = ''respond''" "cl_respond_payload resume_lease = Some desk_answer" by (simp_all add: resume_lease_def)
  have t: "tc_attempt cmd < (if rp_expired desk_answer then cw_max_cancel_attempts (desk_worker ''a'') else cw_max_attempts (desk_worker ''a''))"
    using r(5) by (simp add: desk_worker_def)
  from uncertain_resume_is_created_again [OF resume_ready(3) r(1-3) l r(4) t 1 [unfolded resume_error_def] c(1) [unfolded resume_claim_def] c(2-5)]
    1 c(1) show ?thesis by blast
qed

section \<open>An answered review\<close>

definition review_service :: service_params where
  "review_service = desk_service\<lparr>sv_command := respond_params\<rparr>"

definition review_db :: command_db where
  "review_db = (desk_db ((desk_task ''waiting_human'')\<lparr>tr_task_type := ''deep_research'',
       tr_request_payload := JObj [(''symbol'', JStr ''BTC-USDT-SWAP''), (''horizon'', JStr ''4h'')]\<rparr>)
     [review_run] [desk_command ''c1'' 1 ''submit'' ''dispatched''])\<lparr>cd_pauses := [desk_pause ''pending''], cd_members := [desk_member ''pending'']\<rparr>"

definition desk_responses :: "review_action \<Rightarrow> responses_request" where
  "desk_responses a = \<lparr>xs_pause_id = ''p1'', xs_pause_version = 1, xs_responses = [\<lparr>xr_interrupt_id = ''i1'', xr_response_version = 1,
     xr_response = approval\<lparr>rr_action := a\<rparr>\<rparr>]\<rparr>"

definition answered_review :: served where
  "answered_review = respond_interrupts review_service (desk_ids ''y'') 100 desk_actor ''k'' (desk_responses Approve) ''key'' review_db"

lemma answer_ready:
  "(case answered_review of Inr (Shown i v, db) \<Rightarrow> length (cd_commands db) = 2 | _ \<Rightarrow> False)" "sound review_db"
  by code_simp+

theorem accepted_answer_is_final_witness:
  "\<exists>x db. answered_review = Inr (x, db) \<and> db \<noteq> review_db
     \<and> (\<forall>ids now y db3. respond_interrupts review_service ids now desk_actor ''k'' (desk_responses Reject) ''other'' db = Inr (y, db3) \<longrightarrow> db3 = db)"
proof -
  from shown_case [OF answer_ready(1)] obtain i v db where c: "answered_review = Inr (Shown i v, db)" "length (cd_commands db) = 2" by blast
  have n: "db \<noteq> review_db" using c(2) by (auto simp: review_db_def desk_db_def)
  have s: "xs_pause_id (desk_responses Reject) = xs_pause_id (desk_responses Approve)" by (simp add: desk_responses_def)
  have "db3 = db" if "respond_interrupts review_service ids now desk_actor ''k'' (desk_responses Reject) ''other'' db = Inr (y, db3)" for ids now y db3
    using accepted_answer_is_final [OF answer_ready(2) c(1) [unfolded answered_review_def] n rtranclp.rtrancl_refl s] that by blast
  with c n show ?thesis by blast
qed

section \<open>An output and a round\<close>

definition cancel_output :: "command_lease \<Rightarrow> command_db \<Rightarrow> (command_error, bool \<times> command_db) result" where
  "cancel_output l = finalize desk_params l (failure_output ''agent_run_error'' ''OfficialRunStatus'' False None) (desk_ids ''z'') 50"

lemma output_ready: "(case first_claim of Inr (Some l, db) \<Rightarrow> (case cancel_output l db of Inr (b, db') \<Rightarrow> b | _ \<Rightarrow> False) | _ \<Rightarrow> False)"
  by code_simp

theorem projected_output_is_stored_witness:
  "\<exists>l db db'. first_claim = Inr (Some l, db) \<and> cancel_output l db = Inr (True, db')
     \<and> (\<exists>r \<in> set (cd_runs db'). cl_product_run_id l = Some (rn_id r) \<and> rn_status r = ''failed'')"
proof -
  from claimed_case [OF output_ready] obtain l db where 1: "first_claim = Inr (Some l, db)"
    and 2: "case cancel_output l db of Inr (b, db') \<Rightarrow> b | _ \<Rightarrow> False" by blast
  from 2 obtain db' where 3: "cancel_output l db = Inr (True, db')" by (cases "cancel_output l db") auto
  from projected_output_is_stored [OF 3 [unfolded cancel_output_def]]
  have "\<exists>r \<in> set (cd_runs db'). cl_product_run_id l = Some (rn_id r) \<and> rn_status r = ''failed''"
    by (auto simp: failure_output_def)
  with 1 3 show ?thesis by blast
qed

lemma round_ready: "(case dispatch_task_command desk_params (desk_worker ''a'') desk_world (0, cancel_db) of (r, n, db) \<Rightarrow>
    (\<exists>t \<in> set (cd_tasks db). tr_status t = ''cancelled''))"
  by code_simp

theorem round_refines_transactions_witness:
  "\<exists>r n db. dispatch_task_command desk_params (desk_worker ''a'') desk_world (0, cancel_db) = (r, n, db)
     \<and> (\<exists>t \<in> set (cd_tasks db). tr_status t = ''cancelled'') \<and> (system_step desk_service)\<^sup>*\<^sup>* cancel_db db"
proof -
  obtain r n db where e: "dispatch_task_command desk_params (desk_worker ''a'') desk_world (0, cancel_db) = (r, n, db)"
    by (cases "dispatch_task_command desk_params (desk_worker ''a'') desk_world (0, cancel_db)") auto
  have o: "\<forall>n db. (system_step desk_service)\<^sup>*\<^sup>* db (dw_others desk_world n db)" by (simp add: desk_world_def)
  have p: "sv_command desk_service = desk_params" by (simp add: desk_service_def)
  from round_refines_transactions [where sp = desk_service, unfolded p, OF o cancel_db_sound(1) e] e round_ready
  show ?thesis by auto
qed

end
