(* ===== verification/Spec2Isabelle.thy ===== *)
theory Spec2Isabelle
  imports Graph_Properties Notification_Properties Monitor_Properties Retry_Policy Memory_Policy
    Outcome_Policy Observability_Liveness Domain_Event_Properties Command_Round_Witnesses
begin

text \<open>
  A verification library for the backend of the crypto alert product,
  \<open>src/backend/src/crypto_alert_v2\<close>. Paths below are relative to that directory.

  \<^bold>\<open>The program.\<close> A product request (\<open>domain/decision_request.py\<close>) is admitted or sent back for
  clarification. An admitted request becomes a task with a command: \<open>api/service.py\<close> writes the
  commands (admit, cancel, retry, fork, answer a review), and the dispatcher
  (\<open>commands/dispatcher.py\<close>) claims the oldest due command of a thread under a fenced lease, creates,
  follows or cancels the official run on the Agent Server, and projects its output into the
  tables. On the server the request is that of the canonical graph (\<open>graph/request.py\<close>). The graph
  (\<open>graph/graph.py\<close>) validates it, collects market data and web evidence, asks a model for an
  analysis, gates the analysis by the evidence and by the risk budget (\<open>domain/evidence_policy.py\<close>,
  \<open>domain/risk_policy.py\<close>), lets a human approve, reject or edit the draft, and commits an
  artifact; a second branch does the same for deep research (\<open>domain/deep_research.py\<close>). Each
  node emits product events (\<open>graph/events.py\<close>). Notifications about committed decisions are
  planned in an outbox (\<open>notifications/outbox.py\<close>) and delivered by workers under fenced leases
  (\<open>workers/notification.py\<close>). Every run, tool call and trigger is charged to a ledger within the
  quota of its workspace (\<open>persistence/usage_governance.py\<close>). A monitor (\<open>monitors/\<close>,
  \<open>persistence/monitor_repository.py\<close>) admits triggers under its own limits, and a worker keeps its
  remote schedule equal to its revision (\<open>workers/monitor.py\<close>). For every run the delivery of
  its trace to the hosted providers is verified (\<open>workers/observability.py\<close>), and what a run commits
  is recorded in the numbered event log of its thread (\<open>projections/domain_events.py\<close>).

  \<^bold>\<open>The theories.\<close>
  \<^item> \<open>Prelude\<close>: names of the shared types (decimals are rationals, instants are microseconds as
    integers, identifiers are strings), errors as sums, trimming and the JSON values; \<open>Samples\<close>
    holds the concrete values the witnesses use.
  \<^item> \<open>Domain_Models\<close>: every model of \<open>domain/models.py\<close> as a record with its validator.
  \<^item> \<open>Evidence_Policy\<close>, \<open>Risk_Policy\<close>: the two gates; what they accept, and that both together let
    an opening analysis through only when it is backed by data and within the budget.
  \<^item> \<open>Decision_Request\<close>, \<open>Deep_Research_Model\<close>, \<open>Graph_Request\<close>: the requests, the source catalog
    of a research artifact, review payloads and edits.
  \<^item> \<open>Product_Events\<close>: identity and emission of the events; the digest is a parameter.
  \<^item> \<open>Graph_State\<close>, \<open>Graph_Nodes\<close>, \<open>Graph_Review\<close>, \<open>Product_Graph\<close>: the state, each node as a
    function of the state and of what the outside answers, the edges, and runs as a step relation
    with the invariant of every node. \<open>Graph_Trace\<close> adds the order of the emitted events and the
    bound on the length of a run, \<open>Graph_Properties\<close> the properties of runs.
  \<^item> \<open>Interfaces\<close>: the contracts as locales that the stores of the program share: idempotent writes
    (the outbox and the usage ledger) and fenced leases (the control commands of monitors, the
    observability deliveries and the commands of tasks).
  \<^item> \<open>Notification_Outbox\<close>, \<open>Notification_Worker\<close>: the tables, planning and manual resend, and each
    transaction of the worker; \<open>Notification_Safety\<close> has the invariant of all interleavings of
    these transactions and \<open>Notification_Properties\<close> what follows from it.
  \<^item> \<open>Calendar\<close>: the months of the proleptic Gregorian calendar. \<open>Usage_Ledger\<close>,
    \<open>Usage_Governance\<close>: \<open>persistence/usage_governance.py\<close> with its ledger, the admission of an
    operation within the quota and the reconciliation of a month; \<open>Usage_Properties\<close> what they
    guarantee. Periods are half-open months, a repair appends only what is missing.
  \<^item> \<open>Actor_Directory\<close>: tenants, users and memberships, and the two ways an operation is restricted to
    its actor. \<open>Product_Tables\<close>: the rows of threads, tasks, runs, commands and triggers.
  \<^item> \<open>Monitor_Rules\<close>, \<open>Monitor_Repository\<close>, \<open>Monitor_Triggers\<close>, \<open>Monitor_Worker\<close>: schedules and
    conditions, creating and changing a monitor with its control commands, admitting a trigger,
    and the worker that applies the commands. \<open>Monitor_Control\<close> has the invariant of every
    interleaving of these transactions, \<open>Monitor_Properties\<close> what follows, on the concrete values of
    \<open>Monitor_Samples\<close>.
  \<^item> \<open>Observability_Delivery\<close>, \<open>Observability_Safety\<close>, \<open>Observability_Worker\<close>: planning and writing the
    deliveries of a run, the phases every transaction refines, and the verification of a trace;
    \<open>Observability_Properties\<close> and \<open>Observability_Liveness\<close> what follows, the latter for a worker left
    alone, on the concrete values of \<open>Observability_Samples\<close>.
  \<^item> \<open>Domain_Events\<close>: the event log of a thread (\<open>projections/domain_events.py\<close>). \<open>Domain_Event_Log\<close> and
    \<open>Domain_Event_Keep\<close> have its invariant under every interleaving of appends, \<open>Domain_Event_Replay\<close>
    the replay of an append, \<open>Domain_Event_Progress\<close> what a round of the projection worker achieves,
    \<open>Domain_Event_Properties\<close> the properties.
  \<^item> \<open>Command_Tables\<close>: the tables a command touches. \<open>Command_Claim\<close>, \<open>Command_Settle\<close>, \<open>Command_Finish\<close>,
    \<open>Command_Commit\<close>, \<open>Command_Finalize\<close>, \<open>Command_Review\<close>: each transaction of
    \<open>commands/dispatcher.py\<close>, from the claim to the projection of an output and the pause for a
    review; \<open>Command_Worker\<close> composes them to the rounds of the dispatcher with everything the Agent
    Server may answer. \<open>Command_Service\<close>: the operations of \<open>api/service.py\<close> that write commands.
  \<^item> \<open>Command_Steps\<close>, \<open>Command_Bounds\<close>: which rows each transaction may change. \<open>Command_System\<close>: the
    transition system of dispatchers and service, the abstract queue of commands, and the invariant
    of both; \<open>Command_Refinement\<close> proves that every transaction refines moves of the queue.
  \<^item> \<open>Command_Properties\<close> (fencing, order and finality), \<open>Command_Creates\<close> (how often an official run
    is created), \<open>Command_Rounds\<close> (a whole round is a sequence of transactions, however its calls
    answer), \<open>Command_Outputs\<close> (what a projected output leaves in the tables) and \<open>Command_Stuck\<close>
    (states that no transaction leaves) hold the properties; \<open>Command_Samples\<close>, \<open>Command_Witnesses\<close>
    and \<open>Command_Round_Witnesses\<close> the concrete runs.
  \<^item> \<open>Json_Values\<close>: how the code reads a JSON value it does not trust.
  \<^item> \<open>Retry_Policy\<close>: the retry loops of the market provider and of the searches over the
    observed clock, with the budget of each attempt.
  \<^item> \<open>Memory_Policy\<close>, \<open>Outcome_Policy\<close>: which memories may enter a prompt, and the evaluation of
    outcomes with the rounding of the decimal context.

  \<^bold>\<open>Conventions.\<close> A validation error, a raised exception and a conflict are the left side of a sum;
  the fields an exception carries are kept where the code reads them. Code outside the repository
  is a parameter: the hash, the redaction of texts, the readers of Pydantic, the answers of
  providers, of the Agent Server and of the model, and which rows another transaction has locked.
  \<open>run_graph\<close> takes one answer per node: eleven nodes are enough for a run without review edits,
  as \<open>run_without_edits_ends\<close> shows. The stream of a run is read part by part up to the bound
  the dispatcher is configured with, so its loop is structural. The messages in Chinese are given in
  English.

  \<^bold>\<open>Not modelled.\<close> The views and the routing of the HTTP API (queries and conversions of the modelled
  tables, without a rule of their own); the assembly of prompts and the model calls of the agents,
  the HTTP clients of the providers, callbacks and tracing (calls of libraries); the export and
  deletion jobs of the data lifecycle, the reconciler of terminal runs, authentication and the
  evaluation of releases; and the first version of the application under
  \<open>src/src/crypto_manual_alert\<close>, which the backend does not call.
\<close>

end
